(* ===== verification/Prelude.thy ===== *)
theory Prelude
  imports Main "HOL-Library.List_Lexorder"
begin

text \<open>
  Shared vocabulary of the development: JavaScript strings, JSON values, instants, and
  the four primitive operations of a document collection (find the first match, update
  the first match, update every match, insert), with the laws the components rest on.

  A JavaScript string is the list of its UTF-16 code units. Instants are milliseconds
  since the epoch. A collection is the list of its documents in insertion order.
\<close>

section \<open>Fact collections\<close>

named_theorems coll_simps \<open>laws of the collection primitives\<close>
named_theorems store_simps \<open>projections of the writes of the store\<close>

section \<open>JavaScript strings\<close>

type_synonym jstr = "nat list"

text \<open>A literal of the source whose characters are all ASCII.\<close>

definition js :: "string \<Rightarrow> jstr" where
  "js s = map of_char s"

lemma js_eq_iff [simp]: "js s = js t \<longleftrightarrow> s = t"
proof -
  have "inj (of_char :: char \<Rightarrow> nat)" by (simp add: inj_def)
  then show ?thesis unfolding js_def by (simp add: inj_map_eq_map)
qed

lemma js_eq_Nil [simp]: "js s = [] \<longleftrightarrow> s = []" "[] = js s \<longleftrightarrow> s = []"
  by (simp_all add: js_def)

text \<open>The code units \<open>String.prototype.trim\<close> strips and \<open>\s\<close> matches.\<close>

definition is_space :: "nat \<Rightarrow> bool" where
  "is_space c \<longleftrightarrow> (9 \<le> c \<and> c \<le> 13) \<or> c = 32 \<or> c = 160 \<or> c = 5760 \<or> (8192 \<le> c \<and> c \<le> 8202)
     \<or> c = 8232 \<or> c = 8233 \<or> c = 8239 \<or> c = 8287 \<or> c = 12288 \<or> c = 65279"

definition trim_start :: "jstr \<Rightarrow> jstr" where
  "trim_start xs = dropWhile is_space xs"

definition trim_end :: "jstr \<Rightarrow> jstr" where
  "trim_end xs = rev (dropWhile is_space (rev xs))"

definition trim :: "jstr \<Rightarrow> jstr" where
  "trim xs = trim_end (trim_start xs)"

definition is_digit :: "nat \<Rightarrow> bool" where
  "is_digit c \<longleftrightarrow> 48 \<le> c \<and> c \<le> 57"

definition is_upper :: "nat \<Rightarrow> bool" where
  "is_upper c \<longleftrightarrow> 65 \<le> c \<and> c \<le> 90"

definition is_lower :: "nat \<Rightarrow> bool" where
  "is_lower c \<longleftrightarrow> 97 \<le> c \<and> c \<le> 122"

definition to_upper :: "nat \<Rightarrow> nat" where
  "to_upper c = (if is_lower c then c - 32 else c)"

definition to_lower :: "nat \<Rightarrow> nat" where
  "to_lower c = (if is_upper c then c + 32 else c)"

text \<open>\<open>s.split(c)\<close> for a separator of one code unit: never an empty array.\<close>

fun split_on :: "nat \<Rightarrow> jstr \<Rightarrow> jstr list" where
  "split_on c [] = [[]]"
| "split_on c (x # xs) =
     (if x = c then [] # split_on c xs
      else case split_on c xs of y # ys \<Rightarrow> (x # y) # ys | [] \<Rightarrow> [[x]])"

text \<open>\<open>parts.join(sep)\<close>.\<close>

fun join :: "jstr \<Rightarrow> jstr list \<Rightarrow> jstr" where
  "join sep [] = []"
| "join sep [x] = x"
| "join sep (x # y # ys) = x @ sep @ join sep (y # ys)"

text \<open>
  Iterating a string (\<open>for (const c of s)\<close>, \<open>Array.from\<close>, spread) yields code points: a
  high surrogate followed by a low one is a single element.
\<close>

definition is_high_surrogate :: "nat \<Rightarrow> bool" where
  "is_high_surrogate c \<longleftrightarrow> 55296 \<le> c \<and> c \<le> 56319"

definition is_low_surrogate :: "nat \<Rightarrow> bool" where
  "is_low_surrogate c \<longleftrightarrow> 56320 \<le> c \<and> c \<le> 57343"

fun code_points :: "jstr \<Rightarrow> jstr list" where
  "code_points [] = []"
| "code_points [c] = [[c]]"
| "code_points (c # d # ds) =
     (if is_high_surrogate c \<and> is_low_surrogate d then [c, d] # code_points ds
      else [c] # code_points (d # ds))"

lemma concat_code_points [simp]: "concat (code_points xs) = xs"
  by (induction xs rule: code_points.induct) auto

lemma code_points_shape: "p \<in> set (code_points s) \<Longrightarrow> (\<exists>c. p = [c]) \<or> (\<exists>h l. p = [h, l] \<and> is_high_surrogate h \<and> is_low_surrogate l)"
  by (induction s rule: code_points.induct) (auto split: if_splits)

lemma split_on_not_Nil [simp]: "split_on c xs \<noteq> []"
  by (cases xs) (auto split: list.splits)

lemma split_on_no_sep: "c \<notin> set xs \<Longrightarrow> split_on c xs = [xs]"
  by (induction xs) auto

lemma split_on_append_sep: "split_on c (xs @ c # ys) = split_on c xs @ split_on c ys"
  by (induction xs) (auto split: list.splits)

lemma split_on_parts_no_sep: "p \<in> set (split_on c xs) \<Longrightarrow> c \<notin> set p"
  by (induction xs arbitrary: p) (auto split: list.splits if_splits)

lemma split_on_join: "ps \<noteq> [] \<Longrightarrow> list_all (\<lambda>p. c \<notin> set p) ps \<Longrightarrow> split_on c (join [c] ps) = ps"
proof (induction ps)
  case (Cons p ps)
  have one: "c \<notin> set q \<Longrightarrow> split_on c q = [q]" for q by (induction q) auto
  have more: "c \<notin> set q \<Longrightarrow> split_on c (q @ c # rest) = q # split_on c rest" for q rest by (induction q) auto
  from Cons one more show ?case by (cases ps) auto
qed simp

lemma trim_subset: "set (trim xs) \<subseteq> set xs"
  unfolding trim_def trim_end_def trim_start_def
  by (auto dest!: set_dropWhileD)

lemma trim_no_space [simp]: "list_all (\<lambda>c. \<not> is_space c) xs \<Longrightarrow> trim xs = xs"
proof -
  assume a: "list_all (\<lambda>c. \<not> is_space c) xs"
  then have "dropWhile is_space xs = xs" "dropWhile is_space (rev xs) = rev xs"
    by (auto simp: dropWhile_eq_self_iff list_all_iff hd_rev)
  then show ?thesis by (simp add: trim_def trim_end_def trim_start_def)
qed

lemma dropWhile_rev_dropWhile:
  "dropWhile P (rev (dropWhile P (rev (dropWhile P xs)))) = rev (dropWhile P (rev (dropWhile P xs)))"
proof -
  let ?y = "dropWhile P xs"
  let ?z = "rev (dropWhile P (rev ?y))"
  have "?z = [] \<or> \<not> P (hd ?z)"
  proof (cases "?z = []")
    case False
    have eq: "?y = ?z @ rev (takeWhile P (rev ?y))"
      by (metis rev_append rev_rev_ident takeWhile_dropWhile_id)
    with False have "hd ?y = hd ?z" by (metis hd_append2)
    moreover from eq False have "?y \<noteq> []" by (metis Nil_is_append_conv)
    ultimately show ?thesis by (metis hd_dropWhile)
  qed simp
  then show ?thesis by (auto simp: dropWhile_eq_self_iff)
qed

lemma trim_trim [simp]: "trim (trim xs) = trim xs"
  unfolding trim_def trim_end_def trim_start_def
  by (simp add: dropWhile_rev_dropWhile)

text \<open>Decimal printing (\<open>String(n)\<close> of an integer) and substring search.\<close>

fun dec :: "nat \<Rightarrow> jstr" where
  "dec n = (if n < 10 then [48 + n] else dec (n div 10) @ [48 + n mod 10])"

declare dec.simps [simp del]

lemma dec_length: "0 < k \<Longrightarrow> n < 10 ^ k \<Longrightarrow> length (dec n) \<le> k"
proof (induction k arbitrary: n)
  case (Suc k)
  show ?case
  proof (cases "n < 10")
    case True
    then show ?thesis by (subst dec.simps) simp
  next
    case False
    with Suc.prems have "0 < k" by (cases k) auto
    with Suc have "length (dec (n div 10)) \<le> k" by simp
    with False show ?thesis by (subst dec.simps) simp
  qed
qed simp

definition dec_int :: "int \<Rightarrow> jstr" where
  "dec_int z = (if z < 0 then 45 # dec (nat (- z)) else dec (nat z))"

fun contains :: "jstr \<Rightarrow> jstr \<Rightarrow> bool" where
  "contains needle [] = (needle = [])"
| "contains needle (x # xs) = (take (length needle) (x # xs) = needle \<or> contains needle xs)"

text \<open>\<open>buffer.toString("base64")\<close>.\<close>

definition base64_unit :: "nat \<Rightarrow> nat" where
  "base64_unit v = (if v < 26 then 65 + v else if v < 52 then 71 + v else if v < 62 then v - 4 else if v = 62 then 43 else 47)"

fun base64 :: "nat list \<Rightarrow> jstr" where
  "base64 [] = []"
| "base64 [a] = [base64_unit (a div 4), base64_unit (a mod 4 * 16), 61, 61]"
| "base64 [a, b] = [base64_unit (a div 4), base64_unit (a mod 4 * 16 + b div 16), base64_unit (b mod 16 * 4), 61]"
| "base64 (a # b # c # bs) =
    [base64_unit (a div 4), base64_unit (a mod 4 * 16 + b div 16), base64_unit (b mod 16 * 4 + c div 64), base64_unit (c mod 64)] @ base64 bs"

section \<open>Instants and identifiers\<close>

type_synonym time = int
type_synonym oid = jstr

section \<open>JSON values\<close>

text \<open>
  What the code types as \<open>unknown\<close> or \<open>Record<string, unknown>\<close>: parsed JSON. Numbers are
  the integers (the only numbers the modelled code reads out of such a value).
\<close>

datatype json = JNull | JBool bool | JNum int | JStr jstr | JArr "json list" | JObj "(jstr \<times> json) list"

type_synonym jobject = "(jstr \<times> json) list"

text \<open>A property read: \<open>None\<close> is \<open>undefined\<close>.\<close>

definition field :: "jobject \<Rightarrow> string \<Rightarrow> json option" where
  "field obj k = map_of obj (js k)"

lemma field_Nil [simp]: "field [] k = None"
  by (simp add: field_def)

lemma field_Cons [simp]: "field ((js k', v) # obj) k = (if k = k' then Some v else field obj k)"
  by (simp add: field_def)

section \<open>Document collections\<close>

text \<open>
  \<open>findOne(filter)\<close> is \<^const>\<open>find\<close>. \<open>updateOne\<close>/\<open>findOneAndUpdate\<close> change the first
  document the filter matches and \<open>updateMany\<close> every one. The filter and the change are one
  atomic step of the database, which is why each is one function here.
\<close>

fun update_one :: "('a \<Rightarrow> bool) \<Rightarrow> ('a \<Rightarrow> 'a) \<Rightarrow> 'a list \<Rightarrow> 'a list" where
  "update_one P f [] = []"
| "update_one P f (x # xs) = (if P x then f x # xs else x # update_one P f xs)"

definition update_many :: "('a \<Rightarrow> bool) \<Rightarrow> ('a \<Rightarrow> 'a) \<Rightarrow> 'a list \<Rightarrow> 'a list" where
  "update_many P f xs = map (\<lambda>x. if P x then f x else x) xs"

text \<open>The document after the update, \<open>None\<close> when nothing matched (\<open>returnDocument: "after"\<close>).\<close>

definition found_after :: "('a \<Rightarrow> bool) \<Rightarrow> ('a \<Rightarrow> 'a) \<Rightarrow> 'a list \<Rightarrow> 'a option" where
  "found_after P f xs = map_option f (find P xs)"

lemma update_one_no_match [coll_simps]: "find P xs = None \<Longrightarrow> update_one P f xs = xs"
  by (induction xs) (auto split: if_splits)

lemma length_update_one [simp]: "length (update_one P f xs) = length xs"
  by (induction xs) auto

lemma map_update_one [coll_simps]: "(\<And>x. g (f x) = g x) \<Longrightarrow> map g (update_one P f xs) = map g xs"
  by (induction xs) auto

lemma map_update_many [coll_simps]: "(\<And>x. g (f x) = g x) \<Longrightarrow> map g (update_many P f xs) = map g xs"
  by (simp add: update_many_def)

lemma find_Some_in: "find P xs = Some x \<Longrightarrow> x \<in> set xs \<and> P x"
  by (induction xs) (auto split: if_splits)

lemma find_None_all: "find P xs = None \<Longrightarrow> y \<in> set xs \<Longrightarrow> \<not> P y"
  by (auto simp: find_None_iff)

lemma update_one_cong:
  "(\<And>x. x \<in> set xs \<Longrightarrow> P x = Q x) \<Longrightarrow> (\<And>x. x \<in> set xs \<Longrightarrow> P x \<Longrightarrow> f x = g x) \<Longrightarrow> update_one P f xs = update_one Q g xs"
  by (induction xs) auto

lemma find_update_same: "(\<And>x. P x \<Longrightarrow> P (f x)) \<Longrightarrow> find P (update_one P f xs) = map_option f (find P xs)"
  by (induction xs) auto

lemma find_update_other:
  "(\<And>x. P x \<Longrightarrow> \<not> Q x \<and> \<not> Q (f x)) \<Longrightarrow> find Q (update_one P f xs) = find Q xs"
  by (induction xs) auto

lemma update_one_split:
  "find P xs = Some x \<Longrightarrow> \<exists>ys zs. xs = ys @ x # zs \<and> update_one P f xs = ys @ f x # zs"
proof (induction xs)
  case (Cons a xs)
  show ?case
  proof (cases "P a")
    case True
    then have "a # xs = [] @ x # xs \<and> update_one P f (a # xs) = [] @ f x # xs" using Cons.prems by simp
    then show ?thesis by blast
  next
    case False
    then obtain ys zs where "xs = ys @ x # zs \<and> update_one P f xs = ys @ f x # zs" using Cons by auto
    then have "a # xs = (a # ys) @ x # zs \<and> update_one P f (a # xs) = (a # ys) @ f x # zs"
      using False by (metis append_Cons update_one.simps(2))
    then show ?thesis by blast
  qed
qed simp

lemma find_filter_hd: "filter P xs = y # ys \<Longrightarrow> find P xs = Some y"
  by (induction xs) (auto split: if_splits)

lemma update_one_in: "y \<in> set (update_one P f xs) \<Longrightarrow> y \<in> set xs \<or> (\<exists>x \<in> set xs. P x \<and> y = f x)"
  by (induction xs) (auto split: if_splits)

text \<open>
  Lookups by key. Where the key of a collection is unique, a filter that names the key and a
  further condition finds the document of that key exactly when the condition holds of it.
\<close>

definition by_key :: "('a \<Rightarrow> 'k) \<Rightarrow> 'k \<Rightarrow> 'a list \<Rightarrow> 'a option" where
  "by_key key k xs = find (\<lambda>x. key x = k) xs"

lemma by_key_Some: "by_key key k xs = Some x \<Longrightarrow> x \<in> set xs \<and> key x = k"
  by (auto simp: by_key_def dest: find_Some_in)

lemma by_key_None_iff: "by_key key k xs = None \<longleftrightarrow> k \<notin> key ` set xs"
  by (auto simp: by_key_def find_None_iff)

lemma by_key_eqI: "distinct (map key xs) \<Longrightarrow> x \<in> set xs \<Longrightarrow> by_key key (key x) xs = Some x"
  by (induction xs) (auto simp: by_key_def)

lemma find_key_cond [coll_simps]:
  assumes "distinct (map key xs)"
  shows "find (\<lambda>x. key x = k \<and> P x) xs =
    (case by_key key k xs of None \<Rightarrow> None | Some x \<Rightarrow> if P x then Some x else None)"
  using assms
proof (induction xs)
  case (Cons a xs)
  show ?case
  proof (cases "key a = k")
    case True
    with Cons.prems have "find (\<lambda>x. key x = k \<and> P x) xs = None"
      by (force simp: find_None_iff image_iff)
    with True show ?thesis by (simp add: by_key_def)
  next
    case False
    with Cons show ?thesis by (simp add: by_key_def)
  qed
qed (simp add: by_key_def)

lemma by_key_update_same [coll_simps]:
  assumes "distinct (map key xs)" and "\<And>x. key (f x) = key x"
  shows "by_key key k (update_one (\<lambda>x. key x = k \<and> P x) f xs) =
    (case by_key key k xs of None \<Rightarrow> None | Some x \<Rightarrow> Some (if P x then f x else x))"
  using assms(1)
  by (induction xs) (auto simp: by_key_def assms(2) find_None_iff split: option.splits dest: find_Some_in)

lemma by_key_update_other [coll_simps]:
  assumes "\<And>x. key (f x) = key x" and "\<And>x. P x \<Longrightarrow> key x \<noteq> k"
  shows "by_key key k (update_one P f xs) = by_key key k xs"
  using assms by (induction xs) (auto simp: by_key_def)

lemma by_key_append: "by_key key k (xs @ ys) = (case by_key key k xs of None \<Rightarrow> by_key key k ys | Some x \<Rightarrow> Some x)"
  by (induction xs) (auto simp: by_key_def)

lemma find_append: "find P (xs @ ys) = (case find P xs of None \<Rightarrow> find P ys | Some x \<Rightarrow> Some x)"
  by (induction xs) auto

text \<open>Under a unique key an update of one document is the update of every match.\<close>

lemma update_one_key:
  assumes "distinct (map key xs)" and "\<And>x. P x \<longleftrightarrow> key x = k"
  shows "update_one P f xs = update_many P f xs"
  using assms(1)
proof (induction xs)
  case (Cons a xs)
  have "map (\<lambda>x. if P x then f x else x) xs = xs" if "P a"
    using Cons.prems that by (intro map_idI) (auto simp: assms(2) image_iff)
  with Cons show ?case by (auto simp: update_many_def)
qed (simp add: update_many_def)

text \<open>
  \<open>modifiedCount\<close>: the filter matched and the update changed the document. Under a unique key,
  a filter that names the key and a guard the update falsifies modifies exactly when the guard
  holds of that key's document.
\<close>

definition modified :: "('a \<Rightarrow> bool) \<Rightarrow> ('a \<Rightarrow> 'a) \<Rightarrow> 'a list \<Rightarrow> bool" where
  "modified P f xs = (case find P xs of None \<Rightarrow> False | Some x \<Rightarrow> f x \<noteq> x)"

lemma update_one_unmodified: "\<not> modified P f xs \<Longrightarrow> update_one P f xs = xs"
  by (induction xs) (auto simp: modified_def split: if_splits)

lemma modified_key:
  assumes "distinct (map key xs)" and "\<And>x. may x \<Longrightarrow> f x \<noteq> x"
  shows "modified (\<lambda>x. key x = k \<and> may x) f xs \<longleftrightarrow> (\<exists>x. by_key key k xs = Some x \<and> may x)"
  using assms by (auto simp: modified_def find_key_cond split: option.splits)

lemma modified_found: "modified P f xs \<Longrightarrow> \<exists>x \<in> set xs. P x \<and> f x \<in> set (update_one P f xs)"
  by (induction xs) (auto simp: modified_def split: if_splits)

lemma find_Some_update: "find P xs = Some x \<Longrightarrow> f x \<in> set (update_one P f xs)"
  by (induction xs) (auto split: if_splits)

lemma update_one_all:
  assumes "\<And>x. x \<in> set xs \<Longrightarrow> Q x" and "\<And>x. x \<in> set xs \<Longrightarrow> P x \<Longrightarrow> Q (f x)"
  shows "y \<in> set (update_one P f xs) \<Longrightarrow> Q y"
  using assms by (blast dest: update_one_in)

end
