(* ===== verification/Store.thy ===== *)
theory Store
  imports Prelude
begin

text \<open>
  The documents the server reads and writes (the \<open>Row\<close>/\<open>Doc\<close> interfaces of
  \<open>apps/web/src/server/repos\<close>), the database as one record with a list per collection, and the
  audit log. An optional property is an option; a nullable one too, since every filter of the
  code treats a missing field and \<open>null\<close> alike.
\<close>

section \<open>The audit log\<close>

datatype actor = Owner | Worker | Assistant

datatype audit_action =
    Auth_login_succeeded | Auth_login_failed | Auth_logout | Instance_whitelist_updated
  | Media_tool_read | Reply_output_rejected | Send_created | Send_approved | Send_rejected
  | Send_cancelled | Action_staged | Action_approved | Action_rejected
  | Action_execution_attempted | Action_executed | Action_execution_failed

datatype audit_target_type = T_owner | T_instance | T_group | T_message | T_send | T_action

record audit_entry =
  ae_organizationId :: jstr
  ae_actor :: actor
  ae_action :: audit_action
  ae_target :: "audit_target_type \<times> jstr"
  ae_meta :: "jobject option"
  ae_ip :: jstr

record audit_row =
  ar_organizationId :: jstr
  ar_actor :: actor
  ar_action :: audit_action
  ar_target :: "audit_target_type \<times> jstr"
  ar_meta :: jobject
  ar_ip :: jstr
  ar_createdAt :: time

section \<open>Send requests\<close>

datatype send_status =
  Pending_approval | Approved | Scheduled | Rejected | Cancelled | Sending | Sent | Failed

datatype chat_kind = Chat_group | Chat_user

datatype approval_state = Ap_pending | Ap_approved | Ap_rejected

record approval =
  ap_state :: approval_state
  ap_approvedBy :: "actor option"
  ap_approvedAt :: "time option"

record provenance =
  pv_source :: jstr
  pv_replyToMessageId :: jstr
  pv_memoryBatchIds :: "oid list"
  pv_memoryFactIds :: "oid list"

record dispatch =
  dp_attempts :: nat
  dp_lockedAt :: "time option"
  dp_lockedBy :: "jstr option"
  dp_waMessageId :: "jstr option"
  dp_errorClass :: "jstr option"
  dp_error :: "jstr option"

text \<open>\<open>sr_oid\<close> is the driver's \<open>_id\<close>, which no projection of the code returns.\<close>

record send_row =
  sr_oid :: oid
  sr_id :: jstr
  sr_organizationId :: jstr
  sr_instanceId :: jstr
  sr_groupJid :: jstr
  sr_chatKind :: "chat_kind option"
  sr_text :: jstr
  sr_idempotencyKey :: jstr
  sr_status :: send_status
  sr_scheduledFor :: time
  sr_approval :: approval
  sr_provenance :: "provenance option"
  sr_dispatch :: dispatch
  sr_createdAt :: time
  sr_updatedAt :: time

section \<open>Staged actions\<close>

datatype action_state = Pa_pending | Pa_approved | Pa_rejected | Pa_executed | Pa_failed

record pending_action =
  pa_id :: jstr
  pa_organizationId :: jstr
  pa_instanceId :: jstr
  pa_groupJid :: jstr
  pa_action :: jstr
  pa_params :: jobject
  pa_summary :: jstr
  pa_state :: action_state
  pa_shortId :: jstr
  pa_requestedBy :: jstr
  pa_requestedAt :: time
  pa_decidedBy :: "jstr option"
  pa_decidedAt :: "time option"
  pa_result :: "jobject option"
  pa_updatedAt :: time

section \<open>Reply runs\<close>

datatype run_state = Run_processing | Run_complete | Run_failed | Run_dead

record lease =
  ls_token :: jstr
  ls_expiresAt :: time

record reply_run =
  rr_oid :: oid
  rr_organizationId :: jstr
  rr_instanceId :: jstr
  rr_groupJid :: jstr
  rr_waMessageId :: jstr
  rr_state :: run_state
  rr_lease :: "lease option"
  rr_attempts :: nat
  rr_nextAttemptAt :: "time option"
  rr_sendRequestId :: "oid option"
  rr_memoryBatchIds :: "oid list"
  rr_memoryFactIds :: "oid list"
  rr_failure :: "(jstr \<times> time) option"
  rr_createdAt :: time
  rr_completedAt :: "time option"
  rr_updatedAt :: time

section \<open>Instances, groups, messages\<close>

record group_sync =
  gy_groupsObserved :: "nat option"
  gy_groupsLeft :: "nat option"
  gy_lastSyncAt :: "time option"
  gy_lastError :: "jstr option"

record instance_doc =
  in_id :: jstr
  in_organizationId :: jstr
  in_label :: "jstr option"
  in_mode :: "jstr option"
  in_createdAt :: "time option"
  in_deletedAt :: "time option"
  in_runtimeStatus :: "jstr option"
  in_groupSync :: "group_sync option"
  in_groupJidWhitelist :: "json option"

datatype name_source = Src_sync | Src_event | Src_fallback

datatype group_state = Gs_active | Gs_left | Gs_deleted | Gs_suspended

record group_member =
  gm_jid :: jstr
  gm_phoneJid :: jstr
  gm_lid :: jstr
  gm_isAdmin :: bool
  gm_isSuperAdmin :: bool
  gm_displayName :: jstr

text \<open>A property of a stored rename entry, whose shape the reader does not trust.\<close>

datatype stored_value = Absent | SStr jstr | SDate time | SOther

datatype history_entry = Not_an_object | Entry stored_value stored_value stored_value

record observed =
  ob_subject :: "jstr option"
  ob_subjectSource :: "name_source option"
  ob_subjectUpdatedAt :: "time option"
  ob_subjectSetBy :: "jstr option"
  ob_subjectHistory :: "history_entry list option"
  ob_participantCount :: "nat option"
  ob_state :: "group_state option"
  ob_lastActivityAt :: "time option"
  ob_messageCount :: "nat option"
  ob_members :: "group_member list option"

record group_config =
  gc_assigned :: "bool option"
  gc_whitelisted :: "bool option"
  gc_configVersion :: "int option"

record group_doc =
  gd_organizationId :: jstr
  gd_instanceId :: jstr
  gd_groupJid :: jstr
  gd_observed :: "observed option"
  gd_config :: "group_config option"
  gd_memoryReadFence :: int

record media_doc =
  md_status :: "jstr option"
  md_kind :: "jstr option"
  md_mime :: "jstr option"
  md_fileName :: "jstr option"
  md_declaredType :: "jstr option"
  md_r2Key :: "jstr option"
  md_reason :: "jstr option"

text \<open>The worker's truncated protobuf tree, which the console shows and never reads.\<close>

record raw_doc =
  rw_message :: "json option"
  rw_truncated :: "bool option"
  rw_bytes :: "int option"

record message_doc =
  ms_organizationId :: jstr
  ms_instanceId :: jstr
  ms_groupJid :: jstr
  ms_waMessageId :: jstr
  ms_fromMe :: bool
  ms_revoked :: bool
  ms_senderJid :: "jstr option"
  ms_pushName :: "jstr option"
  ms_kind :: jstr
  ms_text :: "jstr option"
  ms_timestamp :: "time option"
  ms_media :: "media_doc option"
  ms_textSearch :: "jstr option"
  ms_raw :: "raw_doc option"

record organization_doc =
  og_id :: jstr
  og_autoReplyAuthorizedJids :: "json option"

section \<open>Memory\<close>

datatype memory_fact_kind = Fk_decision | Fk_commitment | Fk_fact | Fk_question | Fk_action_item

datatype memory_confidence = Stated | Inferred

datatype batch_state = Mb_processing | Mb_complete | Mb_other jstr

record summary_work =
  sw_token :: jstr
  sw_expiresAt :: time
  sw_configVersion :: int

record memory_batch =
  mb_oid :: oid
  mb_organizationId :: jstr
  mb_instanceId :: jstr
  mb_groupJid :: jstr
  mb_first :: "time \<times> jstr"
  mb_last :: "time \<times> jstr"
  mb_sourceCount :: nat
  mb_sourceWaMessageIds :: "jstr list"
  mb_state :: batch_state
  mb_summaryId :: "oid option"
  mb_lease :: "lease option"
  mb_summaryWork :: "summary_work option"
  mb_completedAt :: "time option"

text \<open>A claim of a summary with the messages it cites, and a fact with its classification.\<close>

record cited_claim =
  cc_text :: jstr
  cc_sourceWaMessageIds :: "jstr list"
  cc_dueAt :: "jstr option"
  cc_ownerSenderJid :: "jstr option"

record summary_fact =
  sf_text :: jstr
  sf_sourceWaMessageIds :: "jstr list"
  sf_kind :: memory_fact_kind
  sf_subject :: "jstr option"
  sf_confidence :: memory_confidence
  sf_occurredAt :: "jstr option"

record memory_summary =
  mm_oid :: oid
  mm_organizationId :: jstr
  mm_instanceId :: jstr
  mm_groupJid :: jstr
  mm_batchId :: oid
  mm_period :: "time \<times> time"
  mm_source :: "nat \<times> jstr list"
  mm_summary :: jstr
  mm_topics :: "jstr list"
  mm_decisions :: "cited_claim list"
  mm_commitments :: "cited_claim list"
  mm_openQuestions :: "cited_claim list"
  mm_actionItems :: "cited_claim list"
  mm_containsUntrustedInstructions :: bool
  mm_redactions :: nat
  mm_createdAt :: time

record memory_fact =
  mf_oid :: oid
  mf_organizationId :: jstr
  mf_instanceId :: jstr
  mf_groupJid :: jstr
  mf_batchId :: oid
  mf_summaryId :: oid
  mf_kind :: memory_fact_kind
  mf_text :: jstr
  mf_textSearch :: jstr
  mf_subject :: "jstr option"
  mf_confidence :: memory_confidence
  mf_occurredAt :: "time option"
  mf_sourceWaMessageIds :: "jstr list"
  mf_createdAt :: time

section \<open>Model calls\<close>

text \<open>A figure the provider did not report is \<^const>\<open>None\<close>, never zero.\<close>

record token_usage =
  tu_inputTokens :: "int option"
  tu_outputTokens :: "int option"
  tu_totalTokens :: "int option"

record ai_call =
  ai_organizationId :: jstr
  ai_instanceId :: jstr
  ai_groupJid :: jstr
  ai_model :: jstr
  ai_ok :: bool
  ai_latencyMs :: int
  ai_usage :: token_usage
  ai_createdAt :: time

section \<open>The database\<close>

record db =
  organizations :: "organization_doc list"
  instances :: "instance_doc list"
  groups :: "group_doc list"
  messages :: "message_doc list"
  memoryBatches :: "memory_batch list"
  memorySummaries :: "memory_summary list"
  memoryFacts :: "memory_fact list"
  agentReplyRuns :: "reply_run list"
  sendRequests :: "send_row list"
  pendingActions :: "pending_action list"
  aiCalls :: "ai_call list"
  auditLog :: "audit_row list"

definition empty_db :: db where
  "empty_db = \<lparr>organizations = [], instances = [], groups = [], messages = [], memoryBatches = [],
     memorySummaries = [], memoryFacts = [], agentReplyRuns = [], sendRequests = [],
     pendingActions = [], aiCalls = [], auditLog = []\<rparr>"

text \<open>
  What an operation throws instead of returning. A throw inside \<open>withTransaction\<close> aborts the
  transaction, so an operation that fails there returns the database it was given.
\<close>

datatype exn = Duplicate_key | Thrown jstr

section \<open>Writing the audit log\<close>

definition auditRow :: "audit_entry \<Rightarrow> time \<Rightarrow> audit_row" where
  "auditRow entry now = \<lparr>ar_organizationId = ae_organizationId entry, ar_actor = ae_actor entry,
     ar_action = ae_action entry, ar_target = ae_target entry,
     ar_meta = (case ae_meta entry of None \<Rightarrow> [] | Some m \<Rightarrow> m),
     ar_ip = ae_ip entry, ar_createdAt = now\<rparr>"

definition writeAudit :: "db \<Rightarrow> audit_entry \<Rightarrow> time \<Rightarrow> db" where
  "writeAudit d entry now = d\<lparr>auditLog := auditLog d @ [auditRow entry now]\<rparr>"

lemma writeAudit_frame [store_simps, simp]:
  "organizations (writeAudit d e t) = organizations d" "instances (writeAudit d e t) = instances d"
  "groups (writeAudit d e t) = groups d" "messages (writeAudit d e t) = messages d"
  "memoryBatches (writeAudit d e t) = memoryBatches d"
  "memorySummaries (writeAudit d e t) = memorySummaries d" "memoryFacts (writeAudit d e t) = memoryFacts d"
  "agentReplyRuns (writeAudit d e t) = agentReplyRuns d" "sendRequests (writeAudit d e t) = sendRequests d"
  "pendingActions (writeAudit d e t) = pendingActions d" "aiCalls (writeAudit d e t) = aiCalls d"
  "auditLog (writeAudit d e t) = auditLog d @ [auditRow e t]"
  by (simp_all add: writeAudit_def)

text \<open>
  The records of the log about one target, in order; and what a write owes the log: it either
  leaves it alone or appends exactly one record.
\<close>

definition audited :: "db \<Rightarrow> audit_target_type \<times> jstr \<Rightarrow> audit_row list" where
  "audited d target = filter (\<lambda>r. ar_target r = target) (auditLog d)"

lemma audited_writeAudit:
  "audited (writeAudit d e t) target = audited d target @ (if ae_target e = target then [auditRow e t] else [])"
  by (simp add: audited_def auditRow_def)

end
