(* ===== verification/Interfaces.thy ===== *)
theory Interfaces
  imports Prelude
begin

text \<open>
  The contracts several components share, as locales. A \<open>guarded_transition\<close> is a write whose
  filter names one row and the states the row may leave (every compare-and-set transition of
  the repositories); a \<open>lease_table\<close> is a row that hands out a token with an expiry. The
  components interpret them on their own operations.
\<close>

section \<open>Compare-and-set transitions\<close>

text \<open>A sequence of calls, each with the caller's own argument and the row it names.\<close>

fun run_calls :: "('a \<Rightarrow> 'db \<Rightarrow> 'k \<Rightarrow> 'db \<times> bool) \<Rightarrow> 'db \<Rightarrow> ('a \<times> 'k) list \<Rightarrow> 'db \<times> ('k \<times> bool) list" where
  "run_calls step d [] = (d, [])"
| "run_calls step d ((a, k) # cs) =
     (let r = step a d k; rest = run_calls step (fst r) cs in (fst rest, (k, snd r) # snd rest))"

definition wins :: "'k \<Rightarrow> ('k \<times> bool) list \<Rightarrow> nat" where
  "wins k outcomes = length (filter (\<lambda>(j, b). j = k \<and> b) outcomes)"

locale guarded_transition =
  fixes inv :: "'db \<Rightarrow> bool"
    and status :: "'db \<Rightarrow> 'k \<Rightarrow> 's option"
    and may :: "'s \<Rightarrow> bool"
    and step :: "'a \<Rightarrow> 'db \<Rightarrow> 'k \<Rightarrow> 'db \<times> bool"
  assumes inv_step: "inv d \<Longrightarrow> inv (fst (step a d k))"
    and wins_iff: "inv d \<Longrightarrow> snd (step a d k) \<longleftrightarrow> (\<exists>s. status d k = Some s \<and> may s)"
    and win_leaves: "inv d \<Longrightarrow> snd (step a d k) \<Longrightarrow> \<exists>s. status (fst (step a d k)) k = Some s \<and> \<not> may s"
    and lose_keeps: "inv d \<Longrightarrow> \<not> snd (step a d k) \<Longrightarrow> fst (step a d k) = d"
    and frame: "inv d \<Longrightarrow> j \<noteq> k \<Longrightarrow> status (fst (step a d k)) j = status d j"
begin

definition is_open :: "'db \<Rightarrow> 'k \<Rightarrow> bool" where
  "is_open d k \<longleftrightarrow> (\<exists>s. status d k = Some s \<and> may s)"

lemma closed_after: "inv d \<Longrightarrow> \<not> is_open (fst (step a d k)) k"
  using wins_iff win_leaves lose_keeps unfolding is_open_def by (metis option.inject)

lemma is_open_step: "inv d \<Longrightarrow> is_open (fst (step a d k)) j \<longleftrightarrow> is_open d j \<and> j \<noteq> k"
  using closed_after frame unfolding is_open_def by metis

lemma second_caller_loses: "inv d \<Longrightarrow> \<not> snd (step b (fst (step a d k)) k)"
  using closed_after inv_step wins_iff unfolding is_open_def by blast

lemma inv_run: "inv d \<Longrightarrow> inv (fst (run_calls step d cs))"
  by (induction cs arbitrary: d) (auto simp: Let_def inv_step)

text \<open>Of any sequence of calls exactly the first one on an open row wins, whoever makes it.\<close>

lemma wins_run:
  "inv d \<Longrightarrow> wins k (snd (run_calls step d cs)) = (if is_open d k \<and> k \<in> snd ` set cs then 1 else 0)"
proof (induction cs arbitrary: d)
  case Nil
  then show ?case by (simp add: wins_def)
next
  case (Cons c cs)
  obtain a j where c: "c = (a, j)" by (cases c)
  let ?d = "fst (step a d j)"
  from Cons.prems have "inv ?d" by (rule inv_step)
  from Cons.IH [OF this] have "wins k (snd (run_calls step ?d cs)) =
      (if is_open d k \<and> k \<noteq> j \<and> k \<in> snd ` set cs then 1 else 0)"
    by (simp add: is_open_step [OF Cons.prems])
  moreover have "snd (step a d j) \<longleftrightarrow> is_open d j"
    using wins_iff [OF Cons.prems] by (simp add: is_open_def)
  ultimately show ?case
    by (auto simp: c Let_def wins_def)
qed

end

section \<open>Leases\<close>

text \<open>
  A row that a caller may hold for a while: \<open>holder\<close> reads its token and expiry, \<open>claim\<close> hands
  it to a new token, \<open>act\<close> is any write that must come from the live holder. \<open>fresh\<close> says that
  what a claimer brings (a new document's id, the snapshot of a row) fits the database and the instant.
\<close>

locale lease_table =
  fixes inv :: "'db \<Rightarrow> bool"
    and holder :: "'db \<Rightarrow> 'k \<Rightarrow> (jstr \<times> time) option"
    and fresh :: "'b \<Rightarrow> 'db \<Rightarrow> time \<Rightarrow> bool"
    and claim :: "'b \<Rightarrow> 'db \<Rightarrow> 'k \<Rightarrow> jstr \<Rightarrow> time \<Rightarrow> 'db \<times> bool"
    and act :: "'a \<Rightarrow> 'db \<Rightarrow> 'k \<Rightarrow> jstr \<Rightarrow> time \<Rightarrow> 'db \<times> bool"
  assumes claim_refused: "inv d \<Longrightarrow> fresh b d now \<Longrightarrow> holder d k = Some (t, e) \<Longrightarrow> now < e
      \<Longrightarrow> \<not> snd (claim b d k t' now) \<and> fst (claim b d k t' now) = d"
    and claim_holds: "inv d \<Longrightarrow> fresh b d now \<Longrightarrow> snd (claim b d k t now)
      \<Longrightarrow> \<exists>e. holder (fst (claim b d k t now)) k = Some (t, e) \<and> now < e"
    and claim_inv: "inv d \<Longrightarrow> fresh b d now \<Longrightarrow> inv (fst (claim b d k t now))"
    and act_needs: "inv d \<Longrightarrow> snd (act a d k t now) \<Longrightarrow> \<exists>e. holder d k = Some (t, e) \<and> now < e"
    and act_refused: "inv d \<Longrightarrow> \<not> snd (act a d k t now) \<Longrightarrow> fst (act a d k t now) = d"
begin

lemma held_refuses: "inv d \<Longrightarrow> holder d k = Some (t, e) \<Longrightarrow> t' \<noteq> t
    \<Longrightarrow> \<not> snd (act a d k t' now) \<and> fst (act a d k t' now) = d"
  using act_needs act_refused by (metis option.inject prod.inject)

text \<open>After one caller's claim, no other token can write under the row's lease.\<close>

lemma others_cannot_act:
  assumes "inv d" "fresh b d now" "snd (claim b d k t now)" "t' \<noteq> t"
  shows "\<not> snd (act a (fst (claim b d k t now)) k t' later)
    \<and> fst (act a (fst (claim b d k t now)) k t' later) = fst (claim b d k t now)"
proof -
  have "inv (fst (claim b d k t now))" by (rule claim_inv [OF assms(1,2)])
  with claim_holds [OF assms(1-3)] assms(4) show ?thesis by (metis held_refuses)
qed

text \<open>While the claimed lease is live, nobody claims the row again.\<close>

lemma no_second_claim:
  assumes "inv d" "fresh b d now" "snd (claim b d k t now)" "\<And>later. fresh b' (fst (claim b d k t now)) later"
  obtains e where "now < e" "holder (fst (claim b d k t now)) k = Some (t, e)"
    "\<And>t' later. later < e \<Longrightarrow> \<not> snd (claim b' (fst (claim b d k t now)) k t' later)"
  using claim_holds [OF assms(1-3)] claim_refused [OF claim_inv [OF assms(1,2)] assms(4)] by metis

lemma expired_cannot_act: "inv d \<Longrightarrow> holder d k = Some (t, e) \<Longrightarrow> e \<le> now \<Longrightarrow> \<not> snd (act a d k t' now)"
  using act_needs by fastforce

end

section \<open>The assistant's scope\<close>

text \<open>
  What an operator's edits mean: per organisation and instance a set of groups. An edit that names
  an instance that does not exist, or a group it does not have, changes nothing.
\<close>

datatype scope_edit = Replace_scope jstr jstr "jstr list" | Move_group jstr jstr jstr bool

definition wanted :: "jstr list \<Rightarrow> jstr set" where
  "wanted jids = trim ` set jids - {[]}"

type_synonym scopes = "jstr \<Rightarrow> jstr \<Rightarrow> jstr set"

definition put_scope :: "scopes \<Rightarrow> jstr \<Rightarrow> jstr \<Rightarrow> jstr set \<Rightarrow> scopes" where
  "put_scope s org inst granted = s(org := (s org)(inst := granted))"

fun spec_edit :: "(jstr \<Rightarrow> jstr \<Rightarrow> jstr set option) \<Rightarrow> scopes \<Rightarrow> scope_edit \<Rightarrow> scopes" where
  "spec_edit known s (Replace_scope org inst jids) =
    (case known org inst of None \<Rightarrow> s
     | Some members \<Rightarrow> if wanted jids \<subseteq> members then put_scope s org inst (wanted jids) else s)"
| "spec_edit known s (Move_group org inst jid granted) =
    (case known org inst of None \<Rightarrow> s
     | Some members \<Rightarrow> if jid \<in> members
         then put_scope s org inst (if granted then insert jid (s org inst) else s org inst - {jid}) else s)"

definition run_edits :: "('a \<Rightarrow> 'db \<Rightarrow> scope_edit \<Rightarrow> 'db) \<Rightarrow> 'db \<Rightarrow> ('a \<times> scope_edit) list \<Rightarrow> 'db" where
  "run_edits edit = foldl (\<lambda>d c. edit (fst c) d (snd c))"

locale scope_control =
  fixes inv :: "'db \<Rightarrow> bool"
    and known :: "'db \<Rightarrow> jstr \<Rightarrow> jstr \<Rightarrow> jstr set option"
    and scope :: "'db \<Rightarrow> scopes"
    and readable :: "'db \<Rightarrow> scopes"
    and edit :: "'a \<Rightarrow> 'db \<Rightarrow> scope_edit \<Rightarrow> 'db"
  assumes edit_inv: "inv d \<Longrightarrow> inv (edit a d e)"
    and edit_known: "inv d \<Longrightarrow> known (edit a d e) = known d"
    and edit_scope: "inv d \<Longrightarrow> scope (edit a d e) = spec_edit (known d) (scope d) e"
    and mirrored: "inv d \<Longrightarrow> readable d = scope d"
begin

lemma run_inv: "inv d \<Longrightarrow> inv (run_edits edit d cs) \<and> known (run_edits edit d cs) = known d"
  unfolding run_edits_def by (induction cs arbitrary: d) (auto simp: edit_inv edit_known)

lemma run_scope: "inv d \<Longrightarrow> scope (run_edits edit d cs) = foldl (spec_edit (known d)) (scope d) (map snd cs)"
  unfolding run_edits_def by (induction cs arbitrary: d) (auto simp: edit_inv edit_known edit_scope)

text \<open>What is readable after any sequence of edits is what the abstract sets say.\<close>

lemma run_readable: "inv d \<Longrightarrow> readable (run_edits edit d cs) = foldl (spec_edit (known d)) (scope d) (map snd cs)"
  using mirrored run_inv run_scope by metis

end

end
