(* ===== verification/Sends.thy ===== *)
theory Sends
  imports Store Interfaces
begin

text \<open>
  The send queue, \<open>apps/web/src/server/repos/sends.ts\<close>: creation by the console or an action,
  creation under a reply run's lease (the automatic answer and the human-review apology), the
  owner's approval, rejection and cancellation, and the check of the target. A transaction is
  one state change: an abort returns the database as it was.
\<close>

section \<open>Inputs and results\<close>

record create_send_input =
  ci_organizationId :: jstr
  ci_instanceId :: jstr
  ci_groupJid :: jstr
  ci_text :: jstr
  ci_idempotencyKey :: jstr
  ci_actorIP :: jstr
  ci_decision :: "(actor \<times> time option) option"

record automatic_send_input =
  au_runId :: oid
  au_leaseToken :: jstr
  au_organizationId :: jstr
  au_instanceId :: jstr
  au_groupJid :: jstr
  au_chatKind :: chat_kind
  au_waMessageId :: jstr
  au_text :: jstr
  au_idempotencyKey :: jstr
  au_replyToMessageId :: jstr
  au_memoryBatchIds :: "oid list"
  au_memoryFactIds :: "oid list"

record human_review_input =
  hr_runId :: oid
  hr_leaseToken :: jstr
  hr_organizationId :: jstr
  hr_instanceId :: jstr
  hr_groupJid :: jstr
  hr_chatKind :: chat_kind
  hr_waMessageId :: jstr
  hr_idempotencyKey :: jstr
  hr_replyToMessageId :: jstr
  hr_reason :: jstr

datatype lease_result = Completed send_row | Lost_lease

text \<open>\<open>Null_row\<close> is the \<open>null\<close> that the code's \<open>!\<close> would let through.\<close>

datatype send_transition = Now_row send_row | Not_found | Invalid_state | Ambiguous | Null_row

datatype send_decision = Reject | Cancel

datatype target_state = Ready | Target_not_found | Group_not_assigned | Instance_offline

definition actor_name :: "actor \<Rightarrow> jstr" where
  "actor_name a = (case a of Owner \<Rightarrow> js ''owner'' | Worker \<Rightarrow> js ''worker'' | Assistant \<Rightarrow> js ''assistant'')"

section \<open>Reading and creating\<close>

definition getSend :: "db \<Rightarrow> jstr \<Rightarrow> jstr \<Rightarrow> send_row option" where
  "getSend d org i = find (\<lambda>s. sr_organizationId s = org \<and> sr_id s = i) (sendRequests d)"

definition new_dispatch :: dispatch where
  "new_dispatch = \<lparr>dp_attempts = 0, dp_lockedAt = None, dp_lockedBy = None, dp_waMessageId = None,
     dp_errorClass = None, dp_error = None\<rparr>"

text \<open>\<open>scheduledFor > now\<close> is a later delivery; anything else is due at once.\<close>

definition due_status :: "time \<Rightarrow> time \<Rightarrow> send_status" where
  "due_status scheduledFor now = (if scheduledFor > now then Scheduled else Approved)"

definition create_candidate :: "create_send_input \<Rightarrow> time \<Rightarrow> jstr \<Rightarrow> oid \<Rightarrow> send_row" where
  "create_candidate inp now uuid oid =
    (let scheduledFor = (case ci_decision inp of Some (_, Some t) \<Rightarrow> t | _ \<Rightarrow> now)
     in \<lparr>sr_oid = oid, sr_id = uuid, sr_organizationId = ci_organizationId inp,
         sr_instanceId = ci_instanceId inp, sr_groupJid = ci_groupJid inp, sr_chatKind = None,
         sr_text = ci_text inp, sr_idempotencyKey = ci_idempotencyKey inp,
         sr_status = (case ci_decision inp of None \<Rightarrow> Pending_approval | Some _ \<Rightarrow> due_status scheduledFor now),
         sr_scheduledFor = scheduledFor,
         sr_approval = (case ci_decision inp of
             None \<Rightarrow> \<lparr>ap_state = Ap_pending, ap_approvedBy = None, ap_approvedAt = None\<rparr>
           | Some (by, _) \<Rightarrow> \<lparr>ap_state = Ap_approved, ap_approvedBy = Some by, ap_approvedAt = Some now\<rparr>),
         sr_provenance = None, sr_dispatch = new_dispatch, sr_createdAt = now, sr_updatedAt = now\<rparr>)"

definition create_audit :: "create_send_input \<Rightarrow> send_row \<Rightarrow> audit_entry" where
  "create_audit inp candidate =
    \<lparr>ae_organizationId = ci_organizationId inp,
     ae_actor = (case ci_decision inp of None \<Rightarrow> Owner | Some (by, _) \<Rightarrow> by),
     ae_action = Send_created, ae_target = (T_send, sr_id candidate),
     ae_meta = Some ([(js ''instanceId'', JStr (ci_instanceId inp)), (js ''groupJid'', JStr (ci_groupJid inp))] @
       (case ci_decision inp of None \<Rightarrow> []
        | Some (by, _) \<Rightarrow> [(js ''scheduledFor'', JNum (sr_scheduledFor candidate)), (js ''approvedBy'', JStr (actor_name by))])),
     ae_ip = ci_actorIP inp\<rparr>"

text \<open>The upsert's filter: exactly the key of the unique index \<open>uniq_send_idempotency\<close>.\<close>

definition has_idempotency_key :: "jstr \<Rightarrow> jstr \<Rightarrow> send_row \<Rightarrow> bool" where
  "has_idempotency_key org key s \<longleftrightarrow> sr_organizationId s = org \<and> sr_idempotencyKey s = key"

definition createSend :: "db \<Rightarrow> create_send_input \<Rightarrow> time \<Rightarrow> jstr \<Rightarrow> oid \<Rightarrow> db \<times> (exn + send_row)" where
  "createSend d inp now uuid oid =
    (let candidate = create_candidate inp now uuid oid;
         same = has_idempotency_key (ci_organizationId inp) (ci_idempotencyKey inp);
         d' = (case find same (sendRequests d) of
                 Some _ \<Rightarrow> d
               | None \<Rightarrow> writeAudit (d\<lparr>sendRequests := sendRequests d @ [candidate]\<rparr>) (create_audit inp candidate) now)
     in case find same (sendRequests d') of
          None \<Rightarrow> (d', Inl (Thrown (js ''created send request was not found'')))
        | Some stored \<Rightarrow> (d', Inr stored))"

section \<open>Creating under a reply run's lease\<close>

text \<open>The predicate that proves the caller still owns the run: \<open>matchedCount\<close> 1 or nothing.\<close>

definition owns_run :: "oid \<Rightarrow> jstr \<Rightarrow> jstr \<Rightarrow> jstr \<Rightarrow> jstr \<Rightarrow> jstr \<Rightarrow> time \<Rightarrow> reply_run \<Rightarrow> bool" where
  "owns_run runId token org inst jid wa now r \<longleftrightarrow>
     rr_oid r = runId \<and> rr_organizationId r = org \<and> rr_instanceId r = inst \<and> rr_groupJid r = jid
     \<and> rr_waMessageId r = wa \<and> rr_state r = Run_processing
     \<and> (case rr_lease r of None \<Rightarrow> False | Some l \<Rightarrow> ls_token l = token \<and> now < ls_expiresAt l)"

definition complete_run :: "oid \<Rightarrow> oid list \<Rightarrow> oid list \<Rightarrow> time \<Rightarrow> reply_run \<Rightarrow> reply_run" where
  "complete_run sendId batchIds factIds now r =
     r\<lparr>rr_state := Run_complete, rr_sendRequestId := Some sendId, rr_memoryBatchIds := batchIds,
       rr_memoryFactIds := factIds, rr_completedAt := Some now, rr_updatedAt := now,
       rr_lease := None, rr_nextAttemptAt := None\<rparr>"

definition same_job_send :: "jstr \<Rightarrow> jstr \<Rightarrow> jstr \<Rightarrow> jstr \<Rightarrow> send_row \<Rightarrow> bool" where
  "same_job_send org inst jid key s \<longleftrightarrow>
     sr_organizationId s = org \<and> sr_instanceId s = inst \<and> sr_groupJid s = jid \<and> sr_idempotencyKey s = key"

text \<open>
  The transaction both creators share: the lease predicate is its first write, an existing send
  of the job aborts it, and so does the unique index when another chat's send has the key.
\<close>

definition completeUnderLease ::
  "db \<Rightarrow> oid \<Rightarrow> jstr \<Rightarrow> jstr \<Rightarrow> send_row \<Rightarrow> oid list \<Rightarrow> oid list \<Rightarrow> audit_entry \<Rightarrow> jstr \<Rightarrow> time \<Rightarrow> db \<times> (exn + lease_result)" where
  "completeUnderLease d runId token wa candidate batchIds factIds entry missing now =
    (let org = sr_organizationId candidate; inst = sr_instanceId candidate;
         jid = sr_groupJid candidate; key = sr_idempotencyKey candidate;
         guard = owns_run runId token org inst jid wa now;
         same = same_job_send org inst jid key
     in if find guard (agentReplyRuns d) = None then (d, Inr Lost_lease)
        else if find same (sendRequests d) \<noteq> None
          then (d, Inl (Thrown (js ''automatic send already exists for this job'')))
        else if find (has_idempotency_key org key) (sendRequests d) \<noteq> None then (d, Inl Duplicate_key)
        else let d' = writeAudit
                 (d\<lparr>agentReplyRuns := update_one guard (complete_run (sr_oid candidate) batchIds factIds now) (agentReplyRuns d),
                    sendRequests := sendRequests d @ [candidate]\<rparr>) entry now
             in case find same (sendRequests d') of
                  None \<Rightarrow> (d', Inl (Thrown missing))
                | Some stored \<Rightarrow> (d', Inr (Completed stored)))"

definition owner_mention :: jstr where
  "owner_mention = js ''owner_mention''"

definition automatic_candidate :: "automatic_send_input \<Rightarrow> time \<Rightarrow> jstr \<Rightarrow> oid \<Rightarrow> send_row" where
  "automatic_candidate inp now uuid oid =
    \<lparr>sr_oid = oid, sr_id = uuid, sr_organizationId = au_organizationId inp,
     sr_instanceId = au_instanceId inp, sr_groupJid = au_groupJid inp,
     sr_chatKind = Some (au_chatKind inp), sr_text = au_text inp,
     sr_idempotencyKey = au_idempotencyKey inp, sr_status = Approved, sr_scheduledFor = now,
     sr_approval = \<lparr>ap_state = Ap_approved, ap_approvedBy = Some Owner, ap_approvedAt = Some now\<rparr>,
     sr_provenance = Some \<lparr>pv_source = owner_mention, pv_replyToMessageId = au_replyToMessageId inp,
       pv_memoryBatchIds = au_memoryBatchIds inp, pv_memoryFactIds = au_memoryFactIds inp\<rparr>,
     sr_dispatch = new_dispatch, sr_createdAt = now, sr_updatedAt = now\<rparr>"

definition createAutomaticSendUnderRunLease ::
  "db \<Rightarrow> automatic_send_input \<Rightarrow> time \<Rightarrow> jstr \<Rightarrow> oid \<Rightarrow> db \<times> (exn + lease_result)" where
  "createAutomaticSendUnderRunLease d inp now uuid oid =
    completeUnderLease d (au_runId inp) (au_leaseToken inp) (au_waMessageId inp)
      (automatic_candidate inp now uuid oid) (au_memoryBatchIds inp) (au_memoryFactIds inp)
      \<lparr>ae_organizationId = au_organizationId inp, ae_actor = Worker, ae_action = Send_created,
       ae_target = (T_send, uuid),
       ae_meta = Some [(js ''instanceId'', JStr (au_instanceId inp)), (js ''groupJid'', JStr (au_groupJid inp)),
         (js ''replyToMessageId'', JStr (au_replyToMessageId inp))],
       ae_ip = js ''worker''\<rparr>
      (js ''completed automatic send was not found'') now"

definition human_review_apology :: jstr where
  "human_review_apology = js ''I could not safely draft a reply to that message, so it is waiting for a human to review before anything is sent.''"

definition human_review_candidate :: "human_review_input \<Rightarrow> time \<Rightarrow> jstr \<Rightarrow> oid \<Rightarrow> send_row" where
  "human_review_candidate inp now uuid oid =
    \<lparr>sr_oid = oid, sr_id = uuid, sr_organizationId = hr_organizationId inp,
     sr_instanceId = hr_instanceId inp, sr_groupJid = hr_groupJid inp,
     sr_chatKind = Some (hr_chatKind inp), sr_text = human_review_apology,
     sr_idempotencyKey = hr_idempotencyKey inp, sr_status = Pending_approval, sr_scheduledFor = now,
     sr_approval = \<lparr>ap_state = Ap_pending, ap_approvedBy = None, ap_approvedAt = None\<rparr>,
     sr_provenance = Some \<lparr>pv_source = owner_mention, pv_replyToMessageId = hr_replyToMessageId inp,
       pv_memoryBatchIds = [], pv_memoryFactIds = []\<rparr>,
     sr_dispatch = new_dispatch, sr_createdAt = now, sr_updatedAt = now\<rparr>"

definition createHumanReviewSendUnderRunLease ::
  "db \<Rightarrow> human_review_input \<Rightarrow> time \<Rightarrow> jstr \<Rightarrow> oid \<Rightarrow> db \<times> (exn + lease_result)" where
  "createHumanReviewSendUnderRunLease d inp now uuid oid =
    completeUnderLease d (hr_runId inp) (hr_leaseToken inp) (hr_waMessageId inp)
      (human_review_candidate inp now uuid oid) [] []
      \<lparr>ae_organizationId = hr_organizationId inp, ae_actor = Worker, ae_action = Reply_output_rejected,
       ae_target = (T_send, uuid),
       ae_meta = Some [(js ''instanceId'', JStr (hr_instanceId inp)), (js ''groupJid'', JStr (hr_groupJid inp)),
         (js ''replyToMessageId'', JStr (hr_replyToMessageId inp)), (js ''reason'', JStr (hr_reason inp))],
       ae_ip = js ''worker''\<rparr>
      (js ''completed human-review send was not found'') now"

section \<open>Approving, rejecting, cancelling\<close>

definition ambiguous_class :: jstr where
  "ambiguous_class = js ''ambiguous''"

text \<open>What the approval reads first decides which of its two filters it will use.\<close>

definition approve_check :: "send_row option \<Rightarrow> send_transition + bool" where
  "approve_check existing = (case existing of
      None \<Rightarrow> Inl Not_found
    | Some s \<Rightarrow>
        if sr_status s = Failed \<and> dp_errorClass (sr_dispatch s) = Some ambiguous_class then Inl Ambiguous
        else let initialApproval = (sr_status s = Pending_approval \<and> ap_state (sr_approval s) = Ap_pending);
                 retryApproval = (sr_status s = Failed)
             in if \<not> initialApproval \<and> \<not> retryApproval then Inl Invalid_state else Inr initialApproval)"

definition approve_filter :: "jstr \<Rightarrow> jstr \<Rightarrow> bool \<Rightarrow> send_row \<Rightarrow> bool" where
  "approve_filter org i initialApproval s \<longleftrightarrow> sr_organizationId s = org \<and> sr_id s = i \<and>
     (if initialApproval then sr_status s = Pending_approval \<and> ap_state (sr_approval s) = Ap_pending
      else sr_status s = Failed \<and> dp_errorClass (sr_dispatch s) \<noteq> Some ambiguous_class)"

definition approve_update :: "bool \<Rightarrow> time \<Rightarrow> time \<Rightarrow> send_row \<Rightarrow> send_row" where
  "approve_update initialApproval scheduledFor now s =
     s\<lparr>sr_status := due_status scheduledFor now, sr_scheduledFor := scheduledFor,
       sr_approval := (if initialApproval
         then \<lparr>ap_state = Ap_approved, ap_approvedBy = Some Owner, ap_approvedAt = Some now\<rparr>
         else sr_approval s),
       sr_dispatch := (sr_dispatch s)\<lparr>dp_errorClass := None, dp_error := None, dp_lockedAt := None, dp_lockedBy := None\<rparr>,
       sr_updatedAt := now\<rparr>"

definition approve_txn :: "db \<Rightarrow> jstr \<Rightarrow> jstr \<Rightarrow> bool \<Rightarrow> time \<Rightarrow> jstr \<Rightarrow> time \<Rightarrow> db \<times> bool" where
  "approve_txn d org i initialApproval scheduledFor ip now =
    (let filt = approve_filter org i initialApproval; upd = approve_update initialApproval scheduledFor now;
         d1 = d\<lparr>sendRequests := update_one filt upd (sendRequests d)\<rparr>
     in if \<not> modified filt upd (sendRequests d) then (d1, False)
        else (writeAudit d1
          \<lparr>ae_organizationId = org, ae_actor = Owner, ae_action = Send_approved, ae_target = (T_send, i),
           ae_meta = Some [(js ''scheduledFor'', JNum scheduledFor)], ae_ip = ip\<rparr> now, True))"

definition approveSend ::
  "db \<Rightarrow> jstr \<Rightarrow> jstr \<Rightarrow> jstr \<Rightarrow> time option \<Rightarrow> time \<Rightarrow> db \<times> send_transition" where
  "approveSend d org i ip scheduled now = (case approve_check (getSend d org i) of
      Inl refused \<Rightarrow> (d, refused)
    | Inr initialApproval \<Rightarrow>
        (let scheduledFor = (case scheduled of None \<Rightarrow> now | Some t \<Rightarrow> t);
             r = approve_txn d org i initialApproval scheduledFor ip now
         in if snd r then (fst r, case getSend (fst r) org i of Some s \<Rightarrow> Now_row s | None \<Rightarrow> Null_row)
            else (fst r, Invalid_state)))"

definition transition_allowed :: "send_decision \<Rightarrow> send_status \<Rightarrow> bool" where
  "transition_allowed action st = (case action of Reject \<Rightarrow> st = Pending_approval | Cancel \<Rightarrow> st = Approved \<or> st = Scheduled)"

definition transition_target :: "send_decision \<Rightarrow> send_status" where
  "transition_target action = (case action of Reject \<Rightarrow> Rejected | Cancel \<Rightarrow> Cancelled)"

definition transition_update :: "send_decision \<Rightarrow> time \<Rightarrow> send_row \<Rightarrow> send_row" where
  "transition_update action now s = s\<lparr>sr_status := transition_target action,
     sr_approval := (sr_approval s)\<lparr>ap_state := (case action of Reject \<Rightarrow> Ap_rejected | Cancel \<Rightarrow> Ap_approved)\<rparr>,
     sr_updatedAt := now\<rparr>"

definition transition_txn :: "db \<Rightarrow> jstr \<Rightarrow> jstr \<Rightarrow> send_decision \<Rightarrow> jstr \<Rightarrow> actor \<Rightarrow> time \<Rightarrow> db \<times> bool" where
  "transition_txn d org i action ip actor now =
    (let filt = (\<lambda>s. sr_organizationId s = org \<and> sr_id s = i \<and> transition_allowed action (sr_status s));
         upd = transition_update action now;
         d1 = d\<lparr>sendRequests := update_one filt upd (sendRequests d)\<rparr>
     in if \<not> modified filt upd (sendRequests d) then (d1, False)
        else (writeAudit d1
          \<lparr>ae_organizationId = org, ae_actor = actor,
           ae_action = (case action of Reject \<Rightarrow> Send_rejected | Cancel \<Rightarrow> Send_cancelled),
           ae_target = (T_send, i), ae_meta = Some [], ae_ip = ip\<rparr> now, True))"

definition transitionSend ::
  "db \<Rightarrow> jstr \<Rightarrow> jstr \<Rightarrow> send_decision \<Rightarrow> jstr \<Rightarrow> actor \<Rightarrow> time \<Rightarrow> db \<times> send_transition" where
  "transitionSend d org i action ip actor now =
    (let r = transition_txn d org i action ip actor now
     in if snd r then (fst r, case getSend (fst r) org i of Some s \<Rightarrow> Now_row s | None \<Rightarrow> Null_row)
        else (fst r, case getSend (fst r) org i of None \<Rightarrow> Not_found | Some _ \<Rightarrow> Invalid_state))"

section \<open>The target of a send\<close>

definition sendTargetState :: "db \<Rightarrow> jstr \<Rightarrow> jstr \<Rightarrow> jstr \<Rightarrow> target_state" where
  "sendTargetState d org inst jid =
    (case find (\<lambda>i. in_id i = inst \<and> in_organizationId i = org) (instances d) of
       None \<Rightarrow> Target_not_found
     | Some i \<Rightarrow>
       (case find (\<lambda>g. gd_organizationId g = org \<and> gd_instanceId g = inst \<and> gd_groupJid g = jid) (groups d) of
          None \<Rightarrow> Target_not_found
        | Some g \<Rightarrow>
          if Option.bind (gd_config g) gc_assigned \<noteq> Some True then Group_not_assigned
          else if in_runtimeStatus i = Some (js ''connected'') then Ready else Instance_offline))"

section \<open>Well-formedness and lookups\<close>

text \<open>Ids are unique within an organisation, and so are idempotency keys (the unique index).\<close>

definition send_key :: "send_row \<Rightarrow> jstr \<times> jstr" where
  "send_key s = (sr_organizationId s, sr_id s)"

definition job_key :: "send_row \<Rightarrow> jstr \<times> jstr" where
  "job_key s = (sr_organizationId s, sr_idempotencyKey s)"

definition wf_sends :: "db \<Rightarrow> bool" where
  "wf_sends d \<longleftrightarrow> distinct (map send_key (sendRequests d)) \<and> distinct (map job_key (sendRequests d))"

lemma getSend_by_key: "getSend d org i = by_key send_key (org, i) (sendRequests d)"
  by (simp add: getSend_def by_key_def send_key_def)

lemma send_key_filter:
  "(\<lambda>s. sr_organizationId s = org \<and> sr_id s = i \<and> R s) = (\<lambda>s. send_key s = (org, i) \<and> R s)"
  by (auto simp: send_key_def)

lemma job_key_filter: "has_idempotency_key org key = (\<lambda>s. job_key s = (org, key))"
  by (auto simp: has_idempotency_key_def job_key_def)

lemma update_keys [simp]:
  "send_key (transition_update action now s) = send_key s" "job_key (transition_update action now s) = job_key s"
  "send_key (approve_update b t now s) = send_key s" "job_key (approve_update b t now s) = job_key s"
  by (simp_all add: transition_update_def approve_update_def send_key_def job_key_def)

lemma transition_not_allowed_after [simp]: "\<not> transition_allowed action (sr_status (transition_update action now s))"
  by (cases action) (simp_all add: transition_allowed_def transition_update_def transition_target_def)

lemma transition_changes: "transition_allowed action (sr_status s) \<Longrightarrow> transition_update action now s \<noteq> s"
  by (metis transition_not_allowed_after)

definition approvable :: "bool \<Rightarrow> send_row \<Rightarrow> bool" where
  "approvable initialApproval s \<longleftrightarrow>
     (if initialApproval then sr_status s = Pending_approval \<and> ap_state (sr_approval s) = Ap_pending
      else sr_status s = Failed \<and> dp_errorClass (sr_dispatch s) \<noteq> Some ambiguous_class)"

lemma approve_filter_key: "approve_filter org i b = (\<lambda>s. send_key s = (org, i) \<and> approvable b s)"
  by (auto simp: approve_filter_def approvable_def send_key_def)

lemma approve_not_after [simp]: "\<not> approvable b (approve_update b t now s)"
  by (simp add: approvable_def approve_update_def due_status_def)

lemma approve_changes: "approvable b s \<Longrightarrow> approve_update b t now s \<noteq> s"
  by (metis approve_not_after)

lemma wf_sends_update:
  assumes "wf_sends d" and "\<And>x. send_key (f x) = send_key x" and "\<And>x. job_key (f x) = job_key x"
    and "sendRequests d' = update_one P f (sendRequests d)"
  shows "wf_sends d'"
  using assms by (simp add: wf_sends_def map_update_one)

lemma transition_txn_sends:
  "sendRequests (fst (transition_txn d org i action ip actor now)) =
     update_one (\<lambda>s. send_key s = (org, i) \<and> transition_allowed action (sr_status s))
       (transition_update action now) (sendRequests d)"
  by (simp add: transition_txn_def Let_def send_key_filter)

lemma approve_txn_sends:
  "sendRequests (fst (approve_txn d org i b t ip now)) =
     update_one (\<lambda>s. send_key s = (org, i) \<and> approvable b s) (approve_update b t now) (sendRequests d)"
  by (simp add: approve_txn_def Let_def approve_filter_key)

lemma transition_txn_loses: "\<not> snd (transition_txn d org i action ip actor now) \<Longrightarrow> fst (transition_txn d org i action ip actor now) = d"
  by (auto simp: transition_txn_def Let_def update_one_unmodified split: if_splits)

lemma approve_txn_loses: "\<not> snd (approve_txn d org i b t ip now) \<Longrightarrow> fst (approve_txn d org i b t ip now) = d"
  by (auto simp: approve_txn_def Let_def update_one_unmodified split: if_splits)

lemma transition_txn_wins:
  "wf_sends d \<Longrightarrow> snd (transition_txn d org i action ip actor now) \<longleftrightarrow>
     (\<exists>s. getSend d org i = Some s \<and> transition_allowed action (sr_status s))"
  by (simp add: transition_txn_def Let_def send_key_filter getSend_by_key wf_sends_def
      modified_key [OF _ transition_changes])

lemma approve_txn_wins:
  "wf_sends d \<Longrightarrow> snd (approve_txn d org i b t ip now) \<longleftrightarrow> (\<exists>s. getSend d org i = Some s \<and> approvable b s)"
  by (simp add: approve_txn_def Let_def approve_filter_key getSend_by_key wf_sends_def
      modified_key [OF _ approve_changes])

lemma getSend_transition_txn:
  "wf_sends d \<Longrightarrow> getSend (fst (transition_txn d org i action ip actor now)) org i =
     map_option (\<lambda>s. if transition_allowed action (sr_status s) then transition_update action now s else s) (getSend d org i)"
  by (auto simp: getSend_by_key transition_txn_sends wf_sends_def by_key_update_same split: option.splits)

lemma getSend_approve_txn:
  "wf_sends d \<Longrightarrow> getSend (fst (approve_txn d org i b t ip now)) org i =
     map_option (\<lambda>s. if approvable b s then approve_update b t now s else s) (getSend d org i)"
  by (auto simp: getSend_by_key approve_txn_sends wf_sends_def by_key_update_same split: option.splits)

lemma getSend_txn_other:
  "(o', j) \<noteq> (org, i) \<Longrightarrow> getSend (fst (transition_txn d org i action ip actor now)) o' j = getSend d o' j"
  "(o', j) \<noteq> (org, i) \<Longrightarrow> getSend (fst (approve_txn d org i b t ip now)) o' j = getSend d o' j"
  by (auto simp: getSend_by_key transition_txn_sends approve_txn_sends intro!: by_key_update_other)

lemma wf_transition_txn: "wf_sends d \<Longrightarrow> wf_sends (fst (transition_txn d org i action ip actor now))"
  by (rule wf_sends_update [OF _ _ _ transition_txn_sends]) simp_all

lemma wf_approve_txn: "wf_sends d \<Longrightarrow> wf_sends (fst (approve_txn d org i b t ip now))"
  by (rule wf_sends_update [OF _ _ _ approve_txn_sends]) simp_all

section \<open>The transitions as compare-and-set interfaces\<close>

text \<open>One caller's attempt on the row \<open>(organisation, id)\<close>, whoever the caller is.\<close>

definition transition_call :: "send_decision \<Rightarrow> jstr \<times> actor \<times> time \<Rightarrow> db \<Rightarrow> jstr \<times> jstr \<Rightarrow> db \<times> bool" where
  "transition_call action a d k = transition_txn d (fst k) (snd k) action (fst a) (fst (snd a)) (snd (snd a))"

definition approve_call :: "bool \<Rightarrow> time \<times> jstr \<times> time \<Rightarrow> db \<Rightarrow> jstr \<times> jstr \<Rightarrow> db \<times> bool" where
  "approve_call initialApproval a d k = approve_txn d (fst k) (snd k) initialApproval (fst a) (fst (snd a)) (snd (snd a))"

definition send_at :: "db \<Rightarrow> jstr \<times> jstr \<Rightarrow> send_row option" where
  "send_at d k = getSend d (fst k) (snd k)"

interpretation transition: guarded_transition wf_sends send_at "\<lambda>s. transition_allowed action (sr_status s)" "transition_call action"
  for action
proof unfold_locales
  fix d a and k j :: "jstr \<times> jstr"
  assume wf: "wf_sends d"
  show "wf_sends (fst (transition_call action a d k))"
    by (simp add: transition_call_def wf_transition_txn wf)
  show w: "snd (transition_call action a d k) = (\<exists>s. send_at d k = Some s \<and> transition_allowed action (sr_status s))"
    by (simp add: transition_call_def send_at_def transition_txn_wins wf)
  show "snd (transition_call action a d k) \<Longrightarrow>
      \<exists>s. send_at (fst (transition_call action a d k)) k = Some s \<and> \<not> transition_allowed action (sr_status s)"
    unfolding w by (auto simp: transition_call_def send_at_def getSend_transition_txn wf)
  show "\<not> snd (transition_call action a d k) \<Longrightarrow> fst (transition_call action a d k) = d"
    by (simp add: transition_call_def transition_txn_loses)
  show "j \<noteq> k \<Longrightarrow> send_at (fst (transition_call action a d k)) j = send_at d j"
    by (cases j; cases k) (auto simp: transition_call_def send_at_def getSend_txn_other)
qed

interpretation approving: guarded_transition wf_sends send_at "approvable initialApproval" "approve_call initialApproval"
  for initialApproval
proof unfold_locales
  fix d a and k j :: "jstr \<times> jstr"
  assume wf: "wf_sends d"
  show "wf_sends (fst (approve_call initialApproval a d k))"
    by (simp add: approve_call_def wf_approve_txn wf)
  show w: "snd (approve_call initialApproval a d k) = (\<exists>s. send_at d k = Some s \<and> approvable initialApproval s)"
    by (simp add: approve_call_def send_at_def approve_txn_wins wf)
  show "snd (approve_call initialApproval a d k) \<Longrightarrow>
      \<exists>s. send_at (fst (approve_call initialApproval a d k)) k = Some s \<and> \<not> approvable initialApproval s"
    unfolding w by (auto simp: approve_call_def send_at_def getSend_approve_txn wf)
  show "\<not> snd (approve_call initialApproval a d k) \<Longrightarrow> fst (approve_call initialApproval a d k) = d"
    by (simp add: approve_call_def approve_txn_loses)
  show "j \<noteq> k \<Longrightarrow> send_at (fst (approve_call initialApproval a d k)) j = send_at d j"
    by (cases j; cases k) (auto simp: approve_call_def send_at_def getSend_txn_other)
qed

end
