(* ===== verification/PendingActions.thy ===== *)
theory PendingActions
  imports Store Interfaces
begin

text \<open>
  The queue of staged actions, \<open>apps/web/src/server/repos/pending-actions.ts\<close>: short ids, staging
  with its bounded redraws, listing, loading by either reference, and the owner's decision.
\<close>

section \<open>Short ids\<close>

definition short_id_length :: nat where
  "short_id_length = 6"

definition short_id_alphabet :: jstr where
  "short_id_alphabet = js ''23456789ABCDEFGHJKMNPQRSTUVWXYZ''"

definition short_id_attempts :: nat where
  "short_id_attempts = 5"

text \<open>\<open>charAt\<close> of an index: the character, or the empty string past the end.\<close>

definition char_at :: "jstr \<Rightarrow> nat \<Rightarrow> jstr" where
  "char_at s n = (if n < length s then [s ! n] else [])"

text \<open>\<open>randomInt\<close> is the environment's: the draws are the argument.\<close>

definition newShortId :: "(nat \<Rightarrow> nat) \<Rightarrow> jstr" where
  "newShortId randomInt = concat (map (\<lambda>index. char_at short_id_alphabet (randomInt index)) [0..<short_id_length])"

definition is_alnum :: "nat \<Rightarrow> bool" where
  "is_alnum c \<longleftrightarrow> is_digit c \<or> is_upper c \<or> is_lower c"

definition normalizeShortId :: "jstr \<Rightarrow> jstr" where
  "normalizeShortId value = map to_upper (filter is_alnum value)"

section \<open>References and inputs\<close>

datatype action_ref = By_id jstr | By_short_id jstr

record stage_input =
  st_organizationId :: jstr
  st_instanceId :: jstr
  st_groupJid :: jstr
  st_action :: jstr
  st_params :: jobject
  st_summary :: jstr
  st_requestedBy :: jstr
  st_ip :: jstr

datatype action_decision = Approve_action | Reject_action

record decide_input =
  de_organizationId :: jstr
  de_ref :: action_ref
  de_decision :: action_decision
  de_decidedBy :: jstr
  de_ip :: jstr

datatype decide_result = Decided pending_action | Action_not_found | Action_invalid_state

definition refFilter :: "action_ref \<Rightarrow> pending_action \<Rightarrow> bool" where
  "refFilter ref p = (case ref of By_id i \<Rightarrow> pa_id p = i | By_short_id s \<Rightarrow> pa_shortId p = normalizeShortId s)"

section \<open>Staging\<close>

definition stage_base :: "stage_input \<Rightarrow> time \<Rightarrow> jstr \<Rightarrow> pending_action" where
  "stage_base inp now uuid = \<lparr>pa_id = uuid, pa_organizationId = st_organizationId inp, pa_instanceId = st_instanceId inp,
     pa_groupJid = st_groupJid inp, pa_action = st_action inp, pa_params = st_params inp, pa_summary = st_summary inp,
     pa_state = Pa_pending, pa_shortId = [], pa_requestedBy = st_requestedBy inp, pa_requestedAt = now,
     pa_decidedBy = None, pa_decidedAt = None, pa_result = None, pa_updatedAt = now\<rparr>"

definition stage_audit :: "stage_input \<Rightarrow> pending_action \<Rightarrow> audit_entry" where
  "stage_audit inp candidate = \<lparr>ae_organizationId = st_organizationId inp, ae_actor = Worker, ae_action = Action_staged,
     ae_target = (T_action, pa_id candidate),
     ae_meta = Some [(js ''shortId'', JStr (pa_shortId candidate)), (js ''action'', JStr (pa_action candidate)),
       (js ''instanceId'', JStr (pa_instanceId candidate)), (js ''groupJid'', JStr (pa_groupJid candidate)),
       (js ''requestedBy'', JStr (pa_requestedBy candidate))],
     ae_ip = st_ip inp\<rparr>"

text \<open>The unique index \<open>uniq_pending_action_short_id\<close> refuses an insert whose short id is taken.\<close>

definition short_id_taken :: "db \<Rightarrow> jstr \<Rightarrow> jstr \<Rightarrow> bool" where
  "short_id_taken d org sid \<longleftrightarrow> list_ex (\<lambda>p. pa_organizationId p = org \<and> pa_shortId p = sid) (pendingActions d)"

text \<open>The loop over the remaining attempts, each with its own draws.\<close>

fun stage_attempts :: "db \<Rightarrow> stage_input \<Rightarrow> pending_action \<Rightarrow> time \<Rightarrow> (nat \<Rightarrow> nat) list \<Rightarrow> db \<times> (exn + pending_action)" where
  "stage_attempts d inp base now [] =
     (d, Inl (Thrown (js ''could not allocate a short id for the staged action in 5 attempts'')))"
| "stage_attempts d inp base now (draws # rest) =
     (let candidate = base\<lparr>pa_shortId := newShortId draws\<rparr>
      in if short_id_taken d (st_organizationId inp) (pa_shortId candidate) then stage_attempts d inp base now rest
         else (writeAudit (d\<lparr>pendingActions := pendingActions d @ [candidate]\<rparr>) (stage_audit inp candidate) now, Inr candidate))"

definition stageAction :: "db \<Rightarrow> stage_input \<Rightarrow> time \<Rightarrow> jstr \<Rightarrow> (nat \<Rightarrow> nat \<Rightarrow> nat) \<Rightarrow> db \<times> (exn + pending_action)" where
  "stageAction d inp now uuid draws =
     stage_attempts d inp (stage_base inp now uuid) now (map draws [0..<short_id_attempts])"

section \<open>Reading\<close>

definition listPendingActions :: "db \<Rightarrow> jstr \<Rightarrow> pending_action list" where
  "listPendingActions d org =
     take 200 (sort_key (\<lambda>p. - pa_requestedAt p) (filter (\<lambda>p. pa_organizationId p = org \<and> pa_state p = Pa_pending) (pendingActions d)))"

definition loadAction :: "db \<Rightarrow> jstr \<Rightarrow> action_ref \<Rightarrow> pending_action option" where
  "loadAction d org ref = find (\<lambda>p. pa_organizationId p = org \<and> refFilter ref p) (pendingActions d)"

section \<open>Deciding\<close>

definition decide_update :: "decide_input \<Rightarrow> time \<Rightarrow> pending_action \<Rightarrow> pending_action" where
  "decide_update inp now p = p\<lparr>pa_state := (case de_decision inp of Approve_action \<Rightarrow> Pa_approved | Reject_action \<Rightarrow> Pa_rejected),
     pa_decidedBy := Some (de_decidedBy inp), pa_decidedAt := Some now, pa_updatedAt := now\<rparr>"

definition decide_audit :: "decide_input \<Rightarrow> pending_action \<Rightarrow> audit_entry" where
  "decide_audit inp p = \<lparr>ae_organizationId = de_organizationId inp,
     ae_actor = (if de_decidedBy inp = js ''owner'' then Owner else Assistant),
     ae_action = (case de_decision inp of Approve_action \<Rightarrow> Action_approved | Reject_action \<Rightarrow> Action_rejected),
     ae_target = (T_action, pa_id p),
     ae_meta = Some [(js ''shortId'', JStr (pa_shortId p)), (js ''action'', JStr (pa_action p)),
       (js ''instanceId'', JStr (pa_instanceId p)), (js ''groupJid'', JStr (pa_groupJid p)),
       (js ''decidedBy'', JStr (de_decidedBy inp))],
     ae_ip = de_ip inp\<rparr>"

definition decide_txn :: "db \<Rightarrow> decide_input \<Rightarrow> time \<Rightarrow> db \<times> pending_action option" where
  "decide_txn d inp now =
    (let filt = (\<lambda>p. pa_organizationId p = de_organizationId inp \<and> pa_state p = Pa_pending \<and> refFilter (de_ref inp) p);
         upd = decide_update inp now
     in case found_after filt upd (pendingActions d) of
          None \<Rightarrow> (d, None)
        | Some p \<Rightarrow> (writeAudit (d\<lparr>pendingActions := update_one filt upd (pendingActions d)\<rparr>) (decide_audit inp p) now, Some p))"

definition decideAction :: "db \<Rightarrow> decide_input \<Rightarrow> time \<Rightarrow> db \<times> decide_result" where
  "decideAction d inp now = (case decide_txn d inp now of
      (d', Some p) \<Rightarrow> (d', Decided p)
    | (d', None) \<Rightarrow> (d', case loadAction d' (de_organizationId inp) (de_ref inp) of None \<Rightarrow> Action_not_found | Some _ \<Rightarrow> Action_invalid_state))"

section \<open>Well-formedness\<close>

definition action_key :: "pending_action \<Rightarrow> jstr \<times> jstr" where
  "action_key p = (pa_organizationId p, pa_id p)"

definition short_key :: "pending_action \<Rightarrow> jstr \<times> jstr" where
  "short_key p = (pa_organizationId p, pa_shortId p)"

definition wf_actions :: "db \<Rightarrow> bool" where
  "wf_actions d \<longleftrightarrow> distinct (map action_key (pendingActions d)) \<and> distinct (map short_key (pendingActions d))
     \<and> (\<forall>p \<in> set (pendingActions d). normalizeShortId (pa_shortId p) = pa_shortId p \<and> (pa_state p = Pa_pending \<longrightarrow> pa_result p = None))"

definition fresh_action_id :: "db \<Rightarrow> jstr \<Rightarrow> bool" where
  "fresh_action_id d u \<longleftrightarrow> list_all (\<lambda>p. pa_id p \<noteq> u) (pendingActions d)"

definition action_at :: "db \<Rightarrow> jstr \<times> jstr \<Rightarrow> pending_action option" where
  "action_at d k = by_key action_key k (pendingActions d)"

lemma to_upper_alnum: "is_alnum c \<Longrightarrow> is_alnum (to_upper c) \<and> to_upper (to_upper c) = to_upper c"
  by (auto simp: is_alnum_def to_upper_def is_lower_def is_upper_def is_digit_def)

lemma normalizeShortId_idem [simp]: "normalizeShortId (normalizeShortId s) = normalizeShortId s"
  by (induction s) (auto simp: normalizeShortId_def to_upper_alnum)

lemma normalizeShortId_id: "list_all (\<lambda>c. is_digit c \<or> is_upper c) s \<Longrightarrow> normalizeShortId s = s"
  by (induction s) (auto simp: normalizeShortId_def is_alnum_def to_upper_def is_digit_def is_upper_def is_lower_def)

lemma alphabet_chars: "list_all (\<lambda>c. is_digit c \<or> is_upper c) short_id_alphabet"
  by (simp add: short_id_alphabet_def js_def is_digit_def is_upper_def)

lemma newShortId_normal: "normalizeShortId (newShortId r) = newShortId r"
proof (rule normalizeShortId_id)
  have "list_all (\<lambda>c. is_digit c \<or> is_upper c) (char_at short_id_alphabet n)" for n
    using alphabet_chars by (simp add: char_at_def list_all_length)
  then show "list_all (\<lambda>c. is_digit c \<or> is_upper c) (newShortId r)"
    by (simp add: newShortId_def list_all_iff)
qed

lemma decide_update_frame [simp]:
  "action_key (decide_update inp now p) = action_key p" "short_key (decide_update inp now p) = short_key p"
  "pa_shortId (decide_update inp now p) = pa_shortId p" "pa_result (decide_update inp now p) = pa_result p"
  "pa_state (decide_update inp now p) \<noteq> Pa_pending" "pa_id (decide_update inp now p) = pa_id p"
  by (simp_all add: decide_update_def action_key_def short_key_def split: action_decision.splits)

text \<open>A rewrite of one row that keeps its keys keeps the table well formed.\<close>

lemma wf_actions_update:
  assumes "wf_actions d" and "\<And>p. action_key (f p) = action_key p" and "\<And>p. short_key (f p) = short_key p"
    and "\<And>p. P p \<Longrightarrow> pa_state (f p) \<noteq> Pa_pending"
    and "pendingActions d' = update_one P f (pendingActions d)"
  shows "wf_actions d'"
proof -
  have "pa_shortId (f p) = pa_shortId p" for p
    using assms(3) [of p] by (simp add: short_key_def)
  with assms show ?thesis
    by (auto simp: wf_actions_def map_update_one dest!: update_one_in)
qed

text \<open>Both references resolve to the one row that has the key.\<close>

lemma loadAction_id: "loadAction d org (By_id i) = action_at d (org, i)"
  by (simp add: loadAction_def action_at_def by_key_def refFilter_def action_key_def)

lemma action_at_Some: "action_at d k = Some p \<Longrightarrow> p \<in> set (pendingActions d) \<and> action_key p = k"
  by (auto simp: action_at_def dest: by_key_Some)

definition names :: "db \<Rightarrow> action_ref \<Rightarrow> pending_action \<Rightarrow> bool" where
  "names d ref p \<longleftrightarrow> ref = By_id (pa_id p) \<or> (\<exists>s. ref = By_short_id s \<and> normalizeShortId s = pa_shortId p)"

lemma names_filter:
  assumes "wf_actions d" and "p \<in> set (pendingActions d)" and "names d ref p" and "q \<in> set (pendingActions d)"
  shows "pa_organizationId q = pa_organizationId p \<and> refFilter ref q \<longleftrightarrow> q = p"
proof -
  have "inj_on action_key (set (pendingActions d))" "inj_on short_key (set (pendingActions d))"
    using assms(1) by (simp_all add: wf_actions_def distinct_map)
  then have "action_key q = action_key p \<longleftrightarrow> q = p" "short_key q = short_key p \<longleftrightarrow> q = p"
    using assms(2,4) by (auto dest: inj_onD)
  with assms(3) show ?thesis
    by (auto simp: names_def refFilter_def action_key_def short_key_def)
qed

lemma find_unique: "x \<in> set xs \<Longrightarrow> (\<And>y. y \<in> set xs \<Longrightarrow> P y \<longleftrightarrow> y = x \<and> Q y) \<Longrightarrow> find P xs = (if Q x then Some x else None)"
  by (induction xs) (auto simp: find_None_iff)

lemma loadAction_names:
  "wf_actions d \<Longrightarrow> p \<in> set (pendingActions d) \<Longrightarrow> names d ref p \<Longrightarrow> loadAction d (pa_organizationId p) ref = Some p"
  unfolding loadAction_def by (subst find_unique [where x = p and Q = "\<lambda>_. True"]) (auto simp: names_filter)

text \<open>The decision of a named row, as a function of that row alone.\<close>

lemma decide_txn_names:
  assumes "wf_actions d" and "p \<in> set (pendingActions d)" and "names d (de_ref inp) p" and "de_organizationId inp = pa_organizationId p"
  shows "decide_txn d inp now =
    (if pa_state p = Pa_pending
     then (writeAudit (d\<lparr>pendingActions := update_one (\<lambda>q. action_key q = action_key p \<and> pa_state q = Pa_pending) (decide_update inp now) (pendingActions d)\<rparr>)
             (decide_audit inp (decide_update inp now p)) now, Some (decide_update inp now p))
     else (d, None))"
proof -
  let ?filt = "\<lambda>q. pa_organizationId q = de_organizationId inp \<and> pa_state q = Pa_pending \<and> refFilter (de_ref inp) q"
  have filt: "?filt q \<longleftrightarrow> q = p \<and> pa_state q = Pa_pending" if "q \<in> set (pendingActions d)" for q
    using names_filter [OF assms(1-3) that] assms(4) by auto
  have key: "q = p \<longleftrightarrow> action_key q = action_key p" if "q \<in> set (pendingActions d)" for q
    using assms(1,2) that by (auto simp: wf_actions_def distinct_map dest: inj_onD)
  have "find ?filt (pendingActions d) = (if pa_state p = Pa_pending then Some p else None)"
    by (rule find_unique [OF assms(2) filt])
  moreover have "update_one ?filt (decide_update inp now) (pendingActions d) =
      update_one (\<lambda>q. action_key q = action_key p \<and> pa_state q = Pa_pending) (decide_update inp now) (pendingActions d)"
    by (rule update_one_cong) (use filt key in blast)+
  ultimately show ?thesis
    by (simp add: decide_txn_def found_after_def Let_def)
qed

lemma decide_txn_loses: "snd (decide_txn d inp now) = None \<Longrightarrow> fst (decide_txn d inp now) = d"
  by (auto simp: decide_txn_def Let_def found_after_def split: option.splits)

lemma wf_decide_txn: "wf_actions d \<Longrightarrow> wf_actions (fst (decide_txn d inp now))"
proof (cases "snd (decide_txn d inp now)")
  case (Some p)
  assume "wf_actions d"
  then show ?thesis
    by (rule wf_actions_update [where P = "\<lambda>p. pa_organizationId p = de_organizationId inp \<and> pa_state p = Pa_pending \<and> refFilter (de_ref inp) p"
          and f = "decide_update inp now"])
      (use Some in \<open>auto simp: decide_txn_def Let_def found_after_def split: option.splits\<close>)
qed (simp add: decide_txn_loses)

lemma wf_stage_attempts:
  assumes "wf_actions d" and "list_all (\<lambda>p. pa_id p \<noteq> pa_id base) (pendingActions d)"
    and "pa_organizationId base = st_organizationId inp" and "pa_result base = None"
  shows "wf_actions (fst (stage_attempts d inp base now draws))"
  using assms
  by (induction draws) (auto simp: Let_def wf_actions_def action_key_def short_key_def short_id_taken_def
      list_all_iff list_ex_iff newShortId_normal)

lemma wf_stageAction: "wf_actions d \<Longrightarrow> fresh_action_id d u \<Longrightarrow> wf_actions (fst (stageAction d inp now u draws))"
  unfolding stageAction_def by (rule wf_stage_attempts) (simp_all add: stage_base_def fresh_action_id_def)

section \<open>The decision as a compare-and-set interface\<close>

text \<open>
  One decider's attempt on the row \<open>k\<close>: from the console by its uuid, or from a direct message by
  anything that normalizes to its short id. Both address the same row.
\<close>

record decider =
  dc_typed :: "jstr option"
  dc_decision :: action_decision
  dc_by :: jstr
  dc_ip :: jstr
  dc_now :: time

definition decider_ref :: "decider \<Rightarrow> db \<Rightarrow> jstr \<times> jstr \<Rightarrow> action_ref" where
  "decider_ref a d k = (case (dc_typed a, action_at d k) of
      (Some s, Some p) \<Rightarrow> if normalizeShortId s = pa_shortId p then By_short_id s else By_id (snd k)
    | _ \<Rightarrow> By_id (snd k))"

definition decider_input :: "decider \<Rightarrow> db \<Rightarrow> jstr \<times> jstr \<Rightarrow> decide_input" where
  "decider_input a d k = \<lparr>de_organizationId = fst k, de_ref = decider_ref a d k, de_decision = dc_decision a,
     de_decidedBy = dc_by a, de_ip = dc_ip a\<rparr>"

definition decide_call :: "decider \<Rightarrow> db \<Rightarrow> jstr \<times> jstr \<Rightarrow> db \<times> bool" where
  "decide_call a d k = (let r = decideAction d (decider_input a d k) (dc_now a)
     in (fst r, case snd r of Decided _ \<Rightarrow> True | _ \<Rightarrow> False))"

definition awaits_decision :: "pending_action \<Rightarrow> bool" where
  "awaits_decision p \<longleftrightarrow> pa_state p = Pa_pending"

lemma decide_call_txn: "decide_call a d k = (fst (decide_txn d (decider_input a d k) (dc_now a)),
    snd (decide_txn d (decider_input a d k) (dc_now a)) \<noteq> None)"
  by (auto simp: decide_call_def decideAction_def Let_def split: prod.splits option.splits)

lemma decide_call_known:
  assumes "wf_actions d" and "action_at d k = Some p"
  shows "decide_call a d k =
    (if awaits_decision p
     then (writeAudit (d\<lparr>pendingActions := update_one (\<lambda>q. action_key q = k \<and> pa_state q = Pa_pending) (decide_update (decider_input a d k) (dc_now a)) (pendingActions d)\<rparr>)
             (decide_audit (decider_input a d k) (decide_update (decider_input a d k) (dc_now a) p)) (dc_now a), True)
     else (d, False))"
proof -
  from action_at_Some [OF assms(2)] have p: "p \<in> set (pendingActions d)" "action_key p = k" by simp_all
  then have k: "k = (pa_organizationId p, pa_id p)" by (simp add: action_key_def)
  have "names d (de_ref (decider_input a d k)) p"
    using assms(2) k by (auto simp: decider_input_def decider_ref_def names_def split: option.splits)
  moreover have "de_organizationId (decider_input a d k) = pa_organizationId p" by (simp add: decider_input_def k)
  ultimately show ?thesis
    using decide_txn_names [OF assms(1) p(1)] p(2) by (simp add: decide_call_txn awaits_decision_def)
qed

lemma decide_call_unknown: "action_at d k = None \<Longrightarrow> decide_call a d k = (d, False)"
proof -
  assume none: "action_at d k = None"
  have "find (\<lambda>p. pa_organizationId p = fst k \<and> pa_state p = Pa_pending \<and> refFilter (By_id (snd k)) p) (pendingActions d) = None"
    using none by (cases k) (auto simp: action_at_def by_key_None_iff find_None_iff refFilter_def action_key_def image_iff)
  then have "decide_txn d (decider_input a d k) (dc_now a) = (d, None)"
    using none by (auto simp: decide_txn_def decider_input_def decider_ref_def found_after_def Let_def split: option.splits)
  then show ?thesis by (simp add: decide_call_txn)
qed

interpretation deciding: guarded_transition wf_actions action_at awaits_decision decide_call
proof unfold_locales
  fix d a and k j :: "jstr \<times> jstr"
  assume wf: "wf_actions d"
  then have dist: "distinct (map action_key (pendingActions d))" by (simp add: wf_actions_def)
  show "wf_actions (fst (decide_call a d k))"
    by (simp add: decide_call_txn wf_decide_txn wf)
  show w: "snd (decide_call a d k) = (\<exists>s. action_at d k = Some s \<and> awaits_decision s)"
    by (cases "action_at d k") (auto simp: decide_call_unknown decide_call_known [OF wf])
  show "\<exists>s. action_at (fst (decide_call a d k)) k = Some s \<and> \<not> awaits_decision s" if "snd (decide_call a d k)"
  proof -
    from that w obtain p where p: "action_at d k = Some p" "awaits_decision p" by blast
    then show ?thesis
      using dist by (simp add: decide_call_known [OF wf p(1)] action_at_def by_key_update_same awaits_decision_def)
  qed
  show "\<not> snd (decide_call a d k) \<Longrightarrow> fst (decide_call a d k) = d"
    by (simp add: decide_call_txn decide_txn_loses)
  show "action_at (fst (decide_call a d k)) j = action_at d j" if "j \<noteq> k"
    using that by (cases "action_at d k")
      (auto simp: decide_call_unknown decide_call_known [OF wf] action_at_def intro!: by_key_update_other)
qed

section \<open>Properties of the queue\<close>

definition ex_stage :: stage_input where
  "ex_stage = \<lparr>st_organizationId = js ''org'', st_instanceId = js ''i1'', st_groupJid = js ''g@g.us'',
     st_action = js ''group_leave'', st_params = [], st_summary = js ''Leave the group'', st_requestedBy = js ''owner'', st_ip = js ''worker''\<rparr>"

definition ex_staged :: db where
  "ex_staged = fst (stageAction empty_db ex_stage 10 (js ''a1'') (\<lambda>attempt index. attempt + index))"

definition ex_row :: pending_action where
  "ex_row = (stage_base ex_stage 10 (js ''a1''))\<lparr>pa_shortId := js ''234567''\<rparr>"

lemma ex_staged_rows: "pendingActions ex_staged = [ex_row]"
  by (simp add: ex_staged_def stageAction_def short_id_attempts_def upt_rec short_id_taken_def empty_db_def Let_def
      newShortId_def short_id_length_def char_at_def short_id_alphabet_def js_def ex_row_def)

lemma ex_staged_wf: "wf_actions ex_staged"
proof -
  have "wf_actions empty_db" "fresh_action_id empty_db (js ''a1'')"
    by (simp_all add: wf_actions_def fresh_action_id_def empty_db_def)
  then show ?thesis unfolding ex_staged_def by (rule wf_stageAction)
qed

lemma ex_staged_at: "action_at ex_staged (js ''org'', js ''a1'') = Some ex_row"
  by (simp add: action_at_def by_key_def ex_staged_rows action_key_def ex_row_def stage_base_def ex_stage_def)

text \<open>C5: A staged action is decided exactly once. Of any number of deciders naming the row by its
  uuid or by any spelling of its short id, approving or rejecting, the first one to find it pending
  wins and every other is refused, leaving the row and the audit log as the winner wrote them.\<close>

theorem action_decided_once:
  assumes "wf_actions d"
  shows "wins k (snd (run_calls decide_call d cs)) =
    (if (\<exists>p. action_at d k = Some p \<and> pa_state p = Pa_pending) \<and> k \<in> snd ` set cs then 1 else 0)"
  using deciding.wins_run [OF assms, of k cs]
  unfolding deciding.is_open_def by (simp add: awaits_decision_def)

definition ex_console :: decider where
  "ex_console = \<lparr>dc_typed = None, dc_decision = Approve_action, dc_by = js ''owner'', dc_ip = js ''direct'', dc_now = 20\<rparr>"

definition ex_message :: decider where
  "ex_message = \<lparr>dc_typed = Some (js ''234-567''), dc_decision = Reject_action, dc_by = js ''62811@s.whatsapp.net'',
     dc_ip = js ''worker'', dc_now = 21\<rparr>"

theorem action_decided_once_witness:
  "wins (js ''org'', js ''a1'') (snd (run_calls decide_call ex_staged
     [(ex_message, (js ''org'', js ''a1'')), (ex_console, (js ''org'', js ''a1''))])) = 1"
  using ex_staged_at by (subst action_decided_once [OF ex_staged_wf]) (auto simp: ex_row_def stage_base_def)

text \<open>A decision is truthful: it answers the named row only when that row was pending, the stored
  row then carries the decision, its decider and its time, and exactly one audit record of that
  action is appended, with the owner as actor exactly when the decider is the console's owner. A
  row already decided is reported as such and an unknown one as unknown, with nothing written.\<close>

theorem decideAction_outcomes:
  assumes "wf_actions d" and "p \<in> set (pendingActions d)" and "names d (de_ref inp) p" and "de_organizationId inp = pa_organizationId p"
  shows "if pa_state p = Pa_pending
    then snd (decideAction d inp now) = Decided (decide_update inp now p)
      \<and> action_at (fst (decideAction d inp now)) (action_key p) = Some (decide_update inp now p)
      \<and> auditLog (fst (decideAction d inp now)) = auditLog d @ [auditRow (decide_audit inp p) now]
    else decideAction d inp now = (d, Action_invalid_state)"
proof (cases "pa_state p = Pa_pending")
  case True
  have dist: "distinct (map action_key (pendingActions d))" using assms(1) by (simp add: wf_actions_def)
  then have at: "by_key action_key (action_key p) (pendingActions d) = Some p"
    using by_key_eqI [OF dist assms(2)] by simp
  have "decide_audit inp (decide_update inp now p) = decide_audit inp p"
    by (simp add: decide_audit_def decide_update_def)
  with True at dist show ?thesis
    by (simp add: decideAction_def decide_txn_names [OF assms] action_at_def by_key_update_same)
next
  case False
  with loadAction_names [OF assms(1-3)] assms(4) show ?thesis
    by (simp add: decideAction_def decide_txn_names [OF assms])
qed

theorem decideAction_outcomes_witness:
  "let d' = fst (decideAction ex_staged \<lparr>de_organizationId = js ''org'', de_ref = By_short_id (js ''234-567''),
       de_decision = Approve_action, de_decidedBy = js ''owner'', de_ip = js ''direct''\<rparr> 20)
   in map_option pa_state (action_at d' (js ''org'', js ''a1'')) = Some Pa_approved \<and> length (auditLog d') = Suc (length (auditLog ex_staged))"
proof -
  let ?inp = "\<lparr>de_organizationId = js ''org'', de_ref = By_short_id (js ''234-567''), de_decision = Approve_action,
    de_decidedBy = js ''owner'', de_ip = js ''direct''\<rparr>"
  have "names ex_staged (de_ref ?inp) ex_row"
    by (simp add: names_def ex_row_def normalizeShortId_def js_def is_alnum_def is_digit_def is_upper_def is_lower_def to_upper_def)
  moreover have "ex_row \<in> set (pendingActions ex_staged)" by (simp add: ex_staged_rows)
  moreover have "de_organizationId ?inp = pa_organizationId ex_row" by (simp add: ex_row_def stage_base_def ex_stage_def)
  ultimately show ?thesis
    using decideAction_outcomes [OF ex_staged_wf, of ex_row ?inp 20]
    by (simp add: Let_def ex_row_def stage_base_def decide_update_def action_key_def ex_stage_def)
qed

text \<open>Staging allocates a short id no other action of the organisation answers to, in its
  normalized spelling, so that whatever an owner types back for it finds this row and no other; when
  all five draws are taken it fails and stores nothing.\<close>

theorem staged_short_id_resolves:
  assumes "wf_actions d" and "fresh_action_id d u" and "stageAction d inp now u draws = (d', res)"
  shows "case res of
      Inr p \<Rightarrow> pa_state p = Pa_pending \<and> pendingActions d' = pendingActions d @ [p]
        \<and> (\<forall>typed. normalizeShortId typed = pa_shortId p \<longrightarrow> loadAction d' (st_organizationId inp) (By_short_id typed) = Some p)
    | Inl e \<Rightarrow> d' = d \<and> (\<forall>i < short_id_attempts. short_id_taken d (st_organizationId inp) (newShortId (draws i)))"
proof -
  have step: "case r of Inr p \<Rightarrow> (\<exists>s. p = base\<lparr>pa_shortId := s\<rparr>) \<and> pendingActions e = pendingActions d @ [p]
      | Inl _ \<Rightarrow> e = d \<and> list_all (\<lambda>dr. short_id_taken d (st_organizationId inp) (newShortId dr)) drs"
    if "stage_attempts d inp base now drs = (e, r)" for base drs e r
    using that by (induction drs) (auto simp: Let_def split: if_splits sum.splits)
  note outcome = step [OF assms(3) [unfolded stageAction_def]]
  have wf': "wf_actions d'" using wf_stageAction [OF assms(1,2)] assms(3) by (metis fst_conv)
  show ?thesis
  proof (cases res)
    case (Inl e)
    with outcome show ?thesis by (simp add: list_all_length)
  next
    case (Inr p)
    with outcome have p: "pa_state p = Pa_pending" "pa_organizationId p = st_organizationId inp" "pendingActions d' = pendingActions d @ [p]"
      by (auto simp: stage_base_def)
    have "loadAction d' (st_organizationId inp) (By_short_id typed) = Some p" if "normalizeShortId typed = pa_shortId p" for typed
      using loadAction_names [OF wf', of p "By_short_id typed"] that p by (auto simp: names_def)
    with p Inr show ?thesis by simp
  qed
qed

theorem staged_short_id_resolves_witness:
  "loadAction ex_staged (js ''org'') (By_short_id (js ''234 567'')) = Some ex_row"
proof -
  have "wf_actions empty_db" "fresh_action_id empty_db (js ''a1'')"
    by (simp_all add: wf_actions_def fresh_action_id_def empty_db_def)
  moreover have "stageAction empty_db ex_stage 10 (js ''a1'') (\<lambda>attempt index. attempt + index) = (ex_staged, Inr ex_row)"
    by (simp add: ex_staged_def stageAction_def short_id_attempts_def upt_rec short_id_taken_def empty_db_def Let_def
      newShortId_def short_id_length_def char_at_def short_id_alphabet_def js_def ex_row_def)
  ultimately have "\<forall>typed. normalizeShortId typed = pa_shortId ex_row \<longrightarrow> loadAction ex_staged (st_organizationId ex_stage) (By_short_id typed) = Some ex_row"
    using staged_short_id_resolves by fastforce
  then show ?thesis
    by (simp add: ex_stage_def ex_row_def normalizeShortId_def js_def is_alnum_def is_digit_def is_upper_def is_lower_def to_upper_def)
qed

text \<open>The alphabet short ids are drawn from has 31 characters, not the 32 its comment states: it
  leaves out \<open>L\<close> besides the documented \<open>0\<close>, \<open>1\<close>, \<open>I\<close> and \<open>O\<close>.\<close>

lemma short_id_alphabet_width:
  "length short_id_alphabet = 31 \<and> distinct short_id_alphabet \<and> set (js ''01ILO'') \<inter> set short_id_alphabet = {}
   \<and> set short_id_alphabet \<union> set (js ''01ILO'') = set (js ''0123456789ABCDEFGHIJKLMNOPQRSTUVWXYZ'')"
  by (simp add: short_id_alphabet_def js_def) blast

end
