(* ===== verification/Execute.thy ===== *)
theory Execute
  imports Sends PendingActions "HOL-Library.AList"
begin

text \<open>
  The executor of approved actions, \<open>apps/web/src/server/actions/execute.ts\<close>: what each staged row
  means, the claim, the performance (a cancellation, a send, or one worker call) and the
  settlement. The worker's HTTP answer, the date parser and the date printer are arguments.
\<close>

section \<open>Failures and outcomes\<close>

record execute_failure =
  xf_status :: nat
  xf_code :: jstr
  xf_message :: jstr

definition unknown_action :: execute_failure where
  "unknown_action = \<lparr>xf_status = 422, xf_code = js ''unknown_action'',
     xf_message = js ''this action is not one the dashboard knows how to perform''\<rparr>"

definition nothing_queued :: execute_failure where
  "nothing_queued = \<lparr>xf_status = 409, xf_code = js ''nothing_queued'',
     xf_message = js ''that message is not waiting to be sent, so there is nothing to cancel''\<rparr>"

definition invalid_params :: execute_failure where
  "invalid_params = \<lparr>xf_status = 422, xf_code = js ''invalid_params'',
     xf_message = js ''the staged parameters are not the ones this action carries''\<rparr>"

definition group_admin_failed :: execute_failure where
  "group_admin_failed = \<lparr>xf_status = 502, xf_code = js ''group_admin_failed'',
     xf_message = js ''the WhatsApp service refused this group change''\<rparr>"

definition revoke_failed :: execute_failure where
  "revoke_failed = \<lparr>xf_status = 502, xf_code = js ''revoke_failed'',
     xf_message = js ''the message could not be revoked''\<rparr>"

definition not_approved :: execute_failure where
  "not_approved = \<lparr>xf_status = 409, xf_code = js ''invalid_state'',
     xf_message = js ''the action is not approved, so it was not performed''\<rparr>"

definition unrecorded :: execute_failure where
  "unrecorded = \<lparr>xf_status = 502, xf_code = js ''internal'',
     xf_message = js ''the outcome of the action could not be recorded''\<rparr>"

datatype execute_outcome =
    Executed pending_action
  | Execute_failed pending_action execute_failure
  | Refused execute_failure

record settlement =
  se_result :: jobject
  se_failure :: "execute_failure option"

section \<open>What a staged row means\<close>

datatype membership = Add_members | Remove_members | Promote_members | Demote_members

datatype group_admin_request =
    Rename jstr | Announce bool | Locked bool | Photo jstr
  | Members membership "jstr list" | Leave | Revoke jstr

text \<open>\<open>z.string().trim().min(1)\<close>, \<open>z.boolean()\<close>, the membership enum and a non-empty array of the first.\<close>

definition z_text :: "json option \<Rightarrow> jstr option" where
  "z_text v = (case v of Some (JStr s) \<Rightarrow> if trim s = [] then None else Some (trim s) | _ \<Rightarrow> None)"

definition z_bool :: "json option \<Rightarrow> bool option" where
  "z_bool v = (case v of Some (JBool b) \<Rightarrow> Some b | _ \<Rightarrow> None)"

definition z_membership :: "json option \<Rightarrow> membership option" where
  "z_membership v = (case v of
      Some (JStr s) \<Rightarrow>
        if s = js ''add'' then Some Add_members else if s = js ''remove'' then Some Remove_members
        else if s = js ''promote'' then Some Promote_members else if s = js ''demote'' then Some Demote_members else None
    | _ \<Rightarrow> None)"

fun z_all :: "json list \<Rightarrow> jstr list option" where
  "z_all [] = Some []"
| "z_all (x # xs) = (case (z_text (Some x), z_all xs) of (Some y, Some ys) \<Rightarrow> Some (y # ys) | _ \<Rightarrow> None)"

definition z_texts :: "json option \<Rightarrow> jstr list option" where
  "z_texts v = (case v of Some (JArr (x # xs)) \<Rightarrow> z_all (x # xs) | _ \<Rightarrow> None)"

definition or_invalid :: "'a option \<Rightarrow> execute_failure + 'a" where
  "or_invalid v = (case v of None \<Rightarrow> Inl invalid_params | Some x \<Rightarrow> Inr x)"

definition workerRequestFor :: "pending_action \<Rightarrow> execute_failure + group_admin_request" where
  "workerRequestFor a =
    (let params = pa_params a; act = pa_action a
     in if act = js ''group_rename'' then or_invalid (map_option Rename (z_text (field params ''name'')))
        else if act = js ''group_set_announce'' then or_invalid (map_option Announce (z_bool (field params ''announce'')))
        else if act = js ''group_set_locked'' then or_invalid (map_option Locked (z_bool (field params ''locked'')))
        else if act = js ''group_set_photo'' then or_invalid (map_option Photo (z_text (field params ''dataUrl'')))
        else if act = js ''group_members'' then
          or_invalid (case (z_membership (field params ''membership''), z_texts (field params ''jids'')) of
              (Some m, Some jids) \<Rightarrow> Some (Members m jids) | _ \<Rightarrow> None)
        else if act = js ''group_leave'' then Inr Leave
        else if act = js ''message_revoke'' then or_invalid (map_option Revoke (z_text (field params ''waMessageId'')))
        else Inl unknown_action)"

text \<open>
  \<open>parse_datetime\<close> is zod's \<open>string().datetime()\<close> followed by \<open>new Date\<close>: \<^const>\<open>None\<close> for a string
  either refuses.
\<close>

definition sendRequestFor :: "(jstr \<Rightarrow> time option) \<Rightarrow> pending_action \<Rightarrow> execute_failure + (jstr \<times> time option)" where
  "sendRequestFor parse_datetime a =
    (case z_text (field (pa_params a) ''text'') of
       None \<Rightarrow> Inl invalid_params
     | Some text \<Rightarrow>
       (case field (pa_params a) ''scheduledFor'' of
          None \<Rightarrow> Inr (text, None)
        | Some (JStr s) \<Rightarrow> (case parse_datetime s of None \<Rightarrow> Inl invalid_params | Some t \<Rightarrow> Inr (text, Some t))
        | Some _ \<Rightarrow> Inl invalid_params))"

section \<open>Claim and settlement\<close>

definition running :: jobject where
  "running = [(js ''status'', JStr (js ''running''))]"

definition is_running :: "pending_action \<Rightarrow> bool" where
  "is_running p \<longleftrightarrow> Option.bind (pa_result p) (\<lambda>r. field r ''status'') = Some (JStr (js ''running''))"

definition attempt_meta :: "pending_action \<Rightarrow> jobject" where
  "attempt_meta a = [(js ''shortId'', JStr (pa_shortId a)), (js ''action'', JStr (pa_action a)),
     (js ''instanceId'', JStr (pa_instanceId a)), (js ''groupJid'', JStr (pa_groupJid a))]"

definition claim_filter :: "pending_action \<Rightarrow> pending_action \<Rightarrow> bool" where
  "claim_filter a p \<longleftrightarrow> pa_organizationId p = pa_organizationId a \<and> pa_id p = pa_id a \<and> pa_state p = Pa_approved \<and> pa_result p = None"

definition claim_update :: "time \<Rightarrow> pending_action \<Rightarrow> pending_action" where
  "claim_update now p = p\<lparr>pa_result := Some running, pa_updatedAt := now\<rparr>"

definition claim_audit :: "pending_action \<Rightarrow> jstr \<Rightarrow> audit_entry" where
  "claim_audit a ip = \<lparr>ae_organizationId = pa_organizationId a, ae_actor = Owner, ae_action = Action_execution_attempted,
     ae_target = (T_action, pa_id a),
     ae_meta = Some (attempt_meta a @ [(js ''decidedBy'', case pa_decidedBy a of None \<Rightarrow> JNull | Some s \<Rightarrow> JStr s)]),
     ae_ip = ip\<rparr>"

definition claim :: "db \<Rightarrow> pending_action \<Rightarrow> jstr \<Rightarrow> time \<Rightarrow> db \<times> pending_action option" where
  "claim d a ip now =
    (case found_after (claim_filter a) (claim_update now) (pendingActions d) of
       None \<Rightarrow> (d, None)
     | Some p \<Rightarrow> (writeAudit (d\<lparr>pendingActions := update_one (claim_filter a) (claim_update now) (pendingActions d)\<rparr>)
                   (claim_audit a ip) now, Some p))"

definition settle_filter :: "pending_action \<Rightarrow> pending_action \<Rightarrow> bool" where
  "settle_filter a p \<longleftrightarrow> pa_organizationId p = pa_organizationId a \<and> pa_id p = pa_id a \<and> pa_state p = Pa_approved \<and> is_running p"

definition settle_update :: "settlement \<Rightarrow> time \<Rightarrow> pending_action \<Rightarrow> pending_action" where
  "settle_update st now p = p\<lparr>pa_state := (if se_failure st = None then Pa_executed else Pa_failed),
     pa_result := Some (se_result st), pa_updatedAt := now\<rparr>"

definition settle_audit :: "pending_action \<Rightarrow> settlement \<Rightarrow> jstr \<Rightarrow> audit_entry" where
  "settle_audit a st ip = \<lparr>ae_organizationId = pa_organizationId a, ae_actor = Owner,
     ae_action = (if se_failure st = None then Action_executed else Action_execution_failed),
     ae_target = (T_action, pa_id a),
     ae_meta = Some (attempt_meta a @ (case se_failure st of None \<Rightarrow> [] | Some f \<Rightarrow> [(js ''code'', JStr (xf_code f))])),
     ae_ip = ip\<rparr>"

definition settle :: "db \<Rightarrow> pending_action \<Rightarrow> settlement \<Rightarrow> jstr \<Rightarrow> time \<Rightarrow> db \<times> pending_action option" where
  "settle d a st ip now =
    (case found_after (settle_filter a) (settle_update st now) (pendingActions d) of
       None \<Rightarrow> (d, None)
     | Some p \<Rightarrow> (writeAudit (d\<lparr>pendingActions := update_one (settle_filter a) (settle_update st now) (pendingActions d)\<rparr>)
                   (settle_audit a st ip) now, Some p))"

section \<open>Performing\<close>

text \<open>
  The environment of one execution: the worker's answer to a request (a failure, or the parsed
  body with its own \<open>ok\<close>), the date functions, the clock and the fresh ids of a created send.
\<close>

record exec_env =
  xe_worker :: "jstr \<Rightarrow> jstr \<Rightarrow> group_admin_request \<Rightarrow> execute_failure + (bool \<times> jobject)"
  xe_parse_datetime :: "jstr \<Rightarrow> time option"
  xe_iso :: "time \<Rightarrow> jstr"
  xe_ip :: jstr
  xe_now :: time
  xe_uuid :: jstr
  xe_oid :: oid

definition failure_result :: "execute_failure \<Rightarrow> jobject" where
  "failure_result f = [(js ''code'', JStr (xf_code f)), (js ''message'', JStr (xf_message f))]"

definition failed_with :: "execute_failure \<Rightarrow> settlement" where
  "failed_with f = \<lparr>se_result = failure_result f, se_failure = Some f\<rparr>"

definition status_name :: "send_status \<Rightarrow> jstr" where
  "status_name st = (case st of Pending_approval \<Rightarrow> js ''pending_approval'' | Approved \<Rightarrow> js ''approved''
     | Scheduled \<Rightarrow> js ''scheduled'' | Rejected \<Rightarrow> js ''rejected'' | Cancelled \<Rightarrow> js ''cancelled''
     | Sending \<Rightarrow> js ''sending'' | Sent \<Rightarrow> js ''sent'' | Failed \<Rightarrow> js ''failed'')"

definition perform_cancel :: "exec_env \<Rightarrow> db \<Rightarrow> pending_action \<Rightarrow> db \<times> settlement" where
  "perform_cancel env d a =
    (let sendId = z_text (field (pa_params a) ''sendId'');
         waiting = Option.bind sendId (\<lambda>i. getSend d (pa_organizationId a) i)
     in if map_option sr_instanceId waiting \<noteq> Some (pa_instanceId a) then (d, failed_with nothing_queued)
        else (case transitionSend d (pa_organizationId a) (case sendId of None \<Rightarrow> [] | Some i \<Rightarrow> i) Cancel (xe_ip env) Assistant (xe_now env) of
            (d', Now_row s) \<Rightarrow> (d', \<lparr>se_result = [(js ''sendId'', JStr (sr_id s)), (js ''status'', JStr (status_name (sr_status s))), (js ''text'', JStr (sr_text s))],
                 se_failure = None\<rparr>)
          | (d', _) \<Rightarrow> (d', failed_with nothing_queued)))"

definition perform_send :: "exec_env \<Rightarrow> db \<Rightarrow> pending_action \<Rightarrow> db \<times> (exn + settlement)" where
  "perform_send env d a =
    (case sendRequestFor (xe_parse_datetime env) a of
       Inl f \<Rightarrow> (d, Inr (failed_with f))
     | Inr (text, scheduledFor) \<Rightarrow>
       (case createSend d \<lparr>ci_organizationId = pa_organizationId a, ci_instanceId = pa_instanceId a, ci_groupJid = pa_groupJid a,
            ci_text = text, ci_idempotencyKey = js ''action:'' @ pa_id a, ci_actorIP = xe_ip env,
            ci_decision = Some (Assistant, scheduledFor)\<rparr> (xe_now env) (xe_uuid env) (xe_oid env) of
          (d', Inl e) \<Rightarrow> (d', Inl e)
        | (d', Inr s) \<Rightarrow> (d', Inr \<lparr>se_result = [(js ''sendId'', JStr (sr_id s)), (js ''status'', JStr (status_name (sr_status s))),
              (js ''scheduledFor'', JStr (xe_iso env (sr_scheduledFor s)))], se_failure = None\<rparr>)))"

definition is_revoke :: "group_admin_request \<Rightarrow> bool" where
  "is_revoke body = (case body of Revoke _ \<Rightarrow> True | _ \<Rightarrow> False)"

definition perform_worker :: "exec_env \<Rightarrow> pending_action \<Rightarrow> settlement" where
  "perform_worker env a =
    (case workerRequestFor a of
       Inl f \<Rightarrow> failed_with f
     | Inr body \<Rightarrow>
       (case xe_worker env (pa_instanceId a) (pa_groupJid a) body of
          Inl f \<Rightarrow> failed_with f
        | Inr (ok, data) \<Rightarrow>
          if ok then \<lparr>se_result = data, se_failure = None\<rparr>
          else let f = (if is_revoke body then revoke_failed else group_admin_failed)
               in \<lparr>se_result = AList.update (js ''message'') (JStr (xf_message f)) (AList.update (js ''code'') (JStr (xf_code f)) data),
                   se_failure = Some f\<rparr>))"

definition perform :: "exec_env \<Rightarrow> db \<Rightarrow> pending_action \<Rightarrow> db \<times> (exn + settlement)" where
  "perform env d a =
    (if pa_action a = js ''cancel_scheduled'' then (let r = perform_cancel env d a in (fst r, Inr (snd r)))
     else if pa_action a = js ''group_send'' then perform_send env d a
     else (d, Inr (perform_worker env a)))"

definition executeAction :: "exec_env \<Rightarrow> db \<Rightarrow> pending_action \<Rightarrow> db \<times> (exn + execute_outcome)" where
  "executeAction env d a =
    (if pa_state a \<noteq> Pa_approved then (d, Inr (Refused not_approved))
     else case claim d a (xe_ip env) (xe_now env) of
       (d1, None) \<Rightarrow> (d1, Inr (Refused not_approved))
     | (d1, Some _) \<Rightarrow>
       (case perform env d1 a of
          (d2, Inl e) \<Rightarrow> (d2, Inl e)
        | (d2, Inr st) \<Rightarrow>
          (case settle d2 a st (xe_ip env) (xe_now env) of
             (d3, None) \<Rightarrow> (d3, Inr (Execute_failed a unrecorded))
           | (d3, Some row) \<Rightarrow>
             (case se_failure st of None \<Rightarrow> (d3, Inr (Executed row)) | Some f \<Rightarrow> (d3, Inr (Execute_failed row f))))))"

end
