(* ===== verification/ExecuteRuns.thy ===== *)
theory ExecuteRuns
  imports Execute
begin

text \<open>
  What the executor guarantees: the claim is a compare-and-set interface, the outcome follows the
  worker's own answer, and over every interleaving of callers, crashes, decisions and stagings an
  action is performed at most once.
\<close>

section \<open>The claim\<close>

definition unclaimed :: "pending_action \<Rightarrow> bool" where
  "unclaimed p \<longleftrightarrow> pa_state p = Pa_approved \<and> pa_result p = None"

lemma claim_filter_key: "claim_filter a = (\<lambda>p. action_key p = action_key a \<and> unclaimed p)"
  by (auto simp: claim_filter_def action_key_def unclaimed_def)

lemma settle_filter_key: "settle_filter a = (\<lambda>p. action_key p = action_key a \<and> pa_state p = Pa_approved \<and> is_running p)"
  by (auto simp: settle_filter_def action_key_def)

lemma exec_update_frame [simp]:
  "action_key (claim_update now p) = action_key p" "short_key (claim_update now p) = short_key p"
  "pa_state (claim_update now p) = pa_state p" "pa_result (claim_update now p) = Some running"
  "action_key (settle_update st now p) = action_key p" "short_key (settle_update st now p) = short_key p"
  "pa_result (settle_update st now p) = Some (se_result st)" "pa_state (settle_update st now p) \<noteq> Pa_pending"
  "pa_state (settle_update st now p) = (if se_failure st = None then Pa_executed else Pa_failed)"
  by (simp_all add: claim_update_def settle_update_def action_key_def short_key_def)

lemma claim_known:
  assumes "wf_actions d"
  shows "claim d a ip now =
    (case action_at d (action_key a) of
       Some p \<Rightarrow> if unclaimed p then (writeAudit (d\<lparr>pendingActions := update_one (claim_filter a) (claim_update now) (pendingActions d)\<rparr>)
            (claim_audit a ip) now, Some (claim_update now p)) else (d, None)
     | None \<Rightarrow> (d, None))"
  using assms by (simp add: claim_def found_after_def claim_filter_key find_key_cond wf_actions_def action_at_def split: option.splits)

lemma settle_known:
  assumes "wf_actions d"
  shows "settle d a st ip now =
    (case action_at d (action_key a) of
       Some p \<Rightarrow> if pa_state p = Pa_approved \<and> is_running p
         then (writeAudit (d\<lparr>pendingActions := update_one (settle_filter a) (settle_update st now) (pendingActions d)\<rparr>)
            (settle_audit a st ip) now, Some (settle_update st now p)) else (d, None)
     | None \<Rightarrow> (d, None))"
  using assms by (simp add: settle_def found_after_def settle_filter_key find_key_cond wf_actions_def action_at_def split: option.splits)

lemma claim_pendingActions:
  "pendingActions (fst (claim d a ip now)) = update_one (claim_filter a) (claim_update now) (pendingActions d)"
  by (auto simp: claim_def found_after_def update_one_no_match split: option.splits)

lemma settle_pendingActions:
  "pendingActions (fst (settle d a st ip now)) = update_one (settle_filter a) (settle_update st now) (pendingActions d)"
  by (auto simp: settle_def found_after_def update_one_no_match split: option.splits)

lemma wf_claim: "wf_actions d \<Longrightarrow> wf_actions (fst (claim d a ip now))"
  by (rule wf_actions_update [OF _ _ _ _ claim_pendingActions]) (auto simp: claim_filter_def)

lemma wf_settle: "wf_actions d \<Longrightarrow> wf_actions (fst (settle d a st ip now))"
  by (rule wf_actions_update [OF _ _ _ _ settle_pendingActions]) simp_all

text \<open>One caller's claim of the row \<open>k\<close>, with whatever snapshot of it the caller holds.\<close>

definition claim_call :: "pending_action \<times> jstr \<times> time \<Rightarrow> db \<Rightarrow> jstr \<times> jstr \<Rightarrow> db \<times> bool" where
  "claim_call c d k =
    (let a = (fst c)\<lparr>pa_organizationId := fst k, pa_id := snd k\<rparr>; r = claim d a (fst (snd c)) (snd (snd c))
     in (fst r, snd r \<noteq> None))"

interpretation claiming: guarded_transition wf_actions action_at unclaimed claim_call
proof unfold_locales
  fix d and c :: "pending_action \<times> jstr \<times> time" and k j :: "jstr \<times> jstr"
  assume wf: "wf_actions d"
  let ?a = "(fst c)\<lparr>pa_organizationId := fst k, pa_id := snd k\<rparr>"
  have key: "action_key ?a = k" by (simp add: action_key_def)
  have dist: "distinct (map action_key (pendingActions d))" using wf by (simp add: wf_actions_def)
  show "wf_actions (fst (claim_call c d k))"
    by (simp add: claim_call_def Let_def wf_claim wf)
  show w: "snd (claim_call c d k) = (\<exists>s. action_at d k = Some s \<and> unclaimed s)"
    by (auto simp: claim_call_def Let_def claim_known [OF wf] key split: option.splits)
  show "snd (claim_call c d k) \<Longrightarrow> \<exists>s. action_at (fst (claim_call c d k)) k = Some s \<and> \<not> unclaimed s"
    unfolding w by (auto simp: claim_call_def Let_def action_at_def claim_pendingActions claim_filter_key key
        by_key_update_same [OF dist] unclaimed_def)
  show "\<not> snd (claim_call c d k) \<Longrightarrow> fst (claim_call c d k) = d"
    by (auto simp: claim_call_def Let_def claim_known [OF wf] split: option.splits if_splits)
  show "j \<noteq> k \<Longrightarrow> action_at (fst (claim_call c d k)) j = action_at d j"
    by (auto simp: claim_call_def Let_def action_at_def claim_pendingActions claim_filter_key key intro!: by_key_update_other)
qed

section \<open>What performing writes\<close>

lemma transition_txn_actions [simp]: "pendingActions (fst (transition_txn d org i action ip actor now)) = pendingActions d"
  by (simp add: transition_txn_def Let_def)

lemma transitionSend_actions [simp]: "pendingActions (fst (transitionSend d org i action ip actor now)) = pendingActions d"
  by (simp add: transitionSend_def Let_def)

lemma createSend_actions [simp]: "pendingActions (fst (createSend d inp now u oid)) = pendingActions d"
  by (auto simp: createSend_def Let_def split: option.splits)

lemma perform_actions: "pendingActions (fst (perform env d a)) = pendingActions d"
proof -
  have "pendingActions (fst (perform_cancel env d a)) = pendingActions d"
    unfolding perform_cancel_def Let_def
    by (auto split: prod.splits send_transition.splits) (metis fst_conv transitionSend_actions)+
  moreover have "pendingActions (fst (perform_send env d a)) = pendingActions d"
    unfolding perform_send_def
    by (auto split: sum.splits prod.splits) (metis fst_conv createSend_actions)+
  ultimately show ?thesis by (simp add: perform_def Let_def)
qed

text \<open>What a performance logs itself: nothing, or the creation or the cancellation of one send.\<close>

definition at_most_one_send_record :: "audit_row list \<Rightarrow> bool" where
  "at_most_one_send_record es \<longleftrightarrow> es = [] \<or>
    (\<exists>e i. es = [e] \<and> ar_target e = (T_send, i) \<and> (ar_action e = Send_created \<or> ar_action e = Send_cancelled))"

lemma createSend_log_extends: "\<exists>es. auditLog (fst (createSend d inp now u oid)) = auditLog d @ es \<and> at_most_one_send_record es"
  by (auto simp: createSend_def Let_def at_most_one_send_record_def create_audit_def auditRow_def split: option.splits)

lemma cancelling_log_extends: "\<exists>es. auditLog (fst (transitionSend d org i Cancel ip actor now)) = auditLog d @ es \<and> at_most_one_send_record es"
  by (auto simp: transitionSend_def transition_txn_def Let_def at_most_one_send_record_def auditRow_def)

lemma perform_log_extends: "\<exists>es. auditLog (fst (perform env d a)) = auditLog d @ es \<and> at_most_one_send_record es"
proof -
  have none: "\<exists>es. auditLog d = auditLog d @ es \<and> at_most_one_send_record es" by (simp add: at_most_one_send_record_def)
  have "\<exists>es. auditLog (fst (perform_cancel env d a)) = auditLog d @ es \<and> at_most_one_send_record es"
    unfolding perform_cancel_def Let_def using none
    by (auto split: prod.splits send_transition.splits) (metis fst_conv cancelling_log_extends)+
  moreover have "\<exists>es. auditLog (fst (perform_send env d a)) = auditLog d @ es \<and> at_most_one_send_record es"
    unfolding perform_send_def using none
    by (auto split: sum.splits prod.splits) (metis fst_conv createSend_log_extends)+
  ultimately show ?thesis using none by (simp add: perform_def Let_def)
qed

lemma createSend_returns: "\<exists>s. snd (createSend d inp now u oid) = Inr s"
  by (auto simp: createSend_def Let_def find_append has_idempotency_key_def create_candidate_def split: option.splits)

lemma perform_returns: "\<exists>st. snd (perform env d a) = Inr st"
proof -
  have "\<exists>st. snd (perform_send env d a) = Inr st"
    unfolding perform_send_def
    by (auto split: sum.splits prod.splits) (metis createSend_returns snd_conv Inr_not_Inl)
  then show ?thesis by (simp add: perform_def Let_def)
qed

section \<open>One execution\<close>

lemma settle_log: "settle d a st ip now = (d', Some row) \<Longrightarrow> auditLog d' = auditLog d @ [auditRow (settle_audit a st ip) now]"
  by (auto simp: settle_def split: option.splits)

lemma is_running_claimed [simp]: "is_running (claim_update now p)"
  by (simp add: is_running_def running_def)

text \<open>On an approved and unclaimed row the three phases all run, on the same row.\<close>

lemma executeAction_runs:
  assumes "wf_actions d" and "action_at d (action_key a) = Some p" and "unclaimed p" and "pa_state a = Pa_approved"
  shows "\<exists>d1 d2 st row.
     claim d a (xe_ip env) (xe_now env) = (d1, Some (claim_update (xe_now env) p))
     \<and> perform env d1 a = (d2, Inr st)
     \<and> settle d2 a st (xe_ip env) (xe_now env) = (fst (executeAction env d a), Some row)
     \<and> row = settle_update st (xe_now env) (claim_update (xe_now env) p)
     \<and> snd (executeAction env d a) = Inr (case se_failure st of None \<Rightarrow> Executed row | Some f \<Rightarrow> Execute_failed row f)"
proof -
  let ?now = "xe_now env"
  define d1 where "d1 = fst (claim d a (xe_ip env) ?now)"
  have cl: "claim d a (xe_ip env) ?now = (d1, Some (claim_update ?now p))"
    using assms by (simp add: d1_def claim_known)
  obtain d2 st where pf: "perform env d1 a = (d2, Inr st)"
    using perform_returns [of env d1 a] by (metis prod.collapse)
  have acts: "pendingActions d2 = pendingActions d1" using perform_actions [of env d1 a] pf by simp
  have wf1: "wf_actions d1" unfolding d1_def by (rule wf_claim [OF assms(1)])
  then have wf2: "wf_actions d2" by (simp add: wf_actions_def acts)
  have "distinct (map action_key (pendingActions d))" using assms(1) by (simp add: wf_actions_def)
  then have "action_at d2 (action_key a) = Some (claim_update ?now p)"
    using assms(2,3)
    by (simp add: action_at_def acts d1_def claim_pendingActions claim_filter_key by_key_update_same)
  moreover have "pa_state (claim_update ?now p) = Pa_approved" using assms(3) by (simp add: unclaimed_def)
  ultimately obtain d3 where sl: "settle d2 a st (xe_ip env) ?now = (d3, Some (settle_update st ?now (claim_update ?now p)))"
    by (simp add: settle_known [OF wf2])
  show ?thesis
    using cl pf sl assms(4) by (auto simp: executeAction_def split: option.splits)
qed

lemma executeAction_refused:
  "wf_actions d \<Longrightarrow> action_at d (action_key a) = Some row \<Longrightarrow> \<not> unclaimed row \<Longrightarrow> executeAction env d a = (d, Inr (Refused not_approved))"
  by (simp add: executeAction_def claim_known)

section \<open>Interleaved callers\<close>

text \<open>
  A caller waits with a snapshot of a row, holds the claim, has performed the action and owes the
  settlement, or is finished (also when its process died at any point). The configuration records
  which actions were performed.
\<close>

datatype caller = Waiting pending_action | Holding pending_action | Reported pending_action settlement | Finished

record exec_conf =
  xc_db :: db
  xc_callers :: "caller list"
  xc_performed :: "(jstr \<times> jstr) list"

inductive exec_step :: "exec_conf \<Rightarrow> exec_conf \<Rightarrow> bool" where
  arrive: "exec_step c (c\<lparr>xc_callers := xc_callers c @ [Waiting a]\<rparr>)"
| claim_won: "i < length (xc_callers c) \<Longrightarrow> xc_callers c ! i = Waiting a \<Longrightarrow> pa_state a = Pa_approved
    \<Longrightarrow> claim (xc_db c) a ip now = (d', Some p) \<Longrightarrow> exec_step c (c\<lparr>xc_db := d', xc_callers := (xc_callers c)[i := Holding a]\<rparr>)"
| claim_lost: "i < length (xc_callers c) \<Longrightarrow> xc_callers c ! i = Waiting a
    \<Longrightarrow> pa_state a \<noteq> Pa_approved \<or> claim (xc_db c) a ip now = (d', None) \<Longrightarrow> exec_step c (c\<lparr>xc_callers := (xc_callers c)[i := Finished]\<rparr>)"
| performs: "i < length (xc_callers c) \<Longrightarrow> xc_callers c ! i = Holding a \<Longrightarrow> perform env (xc_db c) a = (d', Inr st)
    \<Longrightarrow> exec_step c (c\<lparr>xc_db := d', xc_callers := (xc_callers c)[i := Reported a st], xc_performed := action_key a # xc_performed c\<rparr>)"
| settles: "i < length (xc_callers c) \<Longrightarrow> xc_callers c ! i = Reported a st \<Longrightarrow> settle (xc_db c) a st ip now = (d', r)
    \<Longrightarrow> exec_step c (c\<lparr>xc_db := d', xc_callers := (xc_callers c)[i := Finished]\<rparr>)"
| dies: "i < length (xc_callers c) \<Longrightarrow> exec_step c (c\<lparr>xc_callers := (xc_callers c)[i := Finished]\<rparr>)"
| decides: "exec_step c (c\<lparr>xc_db := fst (decideAction (xc_db c) inp now)\<rparr>)"
| stages: "fresh_action_id (xc_db c) u \<Longrightarrow> exec_step c (c\<lparr>xc_db := fst (stageAction (xc_db c) st_inp now u draws)\<rparr>)"
| elsewhere: "pendingActions d' = pendingActions (xc_db c) \<Longrightarrow> exec_step c (c\<lparr>xc_db := d'\<rparr>)"

inductive exec_reachable :: "exec_conf \<Rightarrow> bool" where
  init: "pendingActions (xc_db c) = [] \<Longrightarrow> xc_callers c = [] \<Longrightarrow> xc_performed c = [] \<Longrightarrow> exec_reachable c"
| next_step: "exec_reachable c \<Longrightarrow> exec_step c c' \<Longrightarrow> exec_reachable c'"

definition holds :: "jstr \<times> jstr \<Rightarrow> caller \<Rightarrow> bool" where
  "holds k c = (case c of Holding a \<Rightarrow> action_key a = k | _ \<Rightarrow> False)"

text \<open>The claims of a row that were ever granted and not lost to a crash before the performance.\<close>

definition granted :: "exec_conf \<Rightarrow> jstr \<times> jstr \<Rightarrow> nat" where
  "granted c k = length (filter (holds k) (xc_callers c)) + count_list (xc_performed c) k"

definition taken :: "db \<Rightarrow> jstr \<times> jstr \<Rightarrow> bool" where
  "taken d k \<longleftrightarrow> (\<exists>p. action_at d k = Some p \<and> pa_result p \<noteq> None)"

definition exec_inv :: "exec_conf \<Rightarrow> bool" where
  "exec_inv c \<longleftrightarrow> wf_actions (xc_db c) \<and> (\<forall>k. granted c k \<le> 1 \<and> (granted c k = 1 \<longrightarrow> taken (xc_db c) k))"

lemma by_key_update_any:
  assumes "\<And>x. key (f x) = key x" and "by_key key k xs = Some x"
  shows "by_key key k (update_one P f xs) = Some x \<or> by_key key k (update_one P f xs) = Some (f x)"
  using assms(2) by (induction xs) (auto simp: by_key_def assms(1) split: if_splits)

lemma taken_update:
  assumes "taken d k" and "\<And>p. action_key (f p) = action_key p" and "\<And>p. pa_result p \<noteq> None \<Longrightarrow> pa_result (f p) \<noteq> None"
    and "pendingActions d' = update_one P f (pendingActions d)"
  shows "taken d' k"
proof -
  obtain p where p: "by_key action_key k (pendingActions d) = Some p" "pa_result p \<noteq> None"
    using assms(1) by (auto simp: taken_def action_at_def)
  from by_key_update_any [OF assms(2) p(1), of P] p(2) assms(3) show ?thesis
    unfolding taken_def action_at_def assms(4) by blast
qed

lemma taken_claim: "taken d k \<Longrightarrow> taken (fst (claim d a ip now)) k"
  by (rule taken_update [OF _ _ _ claim_pendingActions]) simp_all

lemma taken_settle: "taken d k \<Longrightarrow> taken (fst (settle d a st ip now)) k"
  by (rule taken_update [OF _ _ _ settle_pendingActions]) simp_all

lemma decide_pendingActions: "\<exists>P. pendingActions (fst (decideAction d inp now)) = update_one P (decide_update inp now) (pendingActions d)"
proof (cases "snd (decide_txn d inp now)")
  case None
  have "update_one (\<lambda>_. False) (decide_update inp now) xs = xs" for xs by (induction xs) auto
  with None decide_txn_loses [OF None] show ?thesis
    by (metis (no_types, lifting) decideAction_def fst_conv option.simps(4) prod.case prod.collapse)
next
  case (Some p)
  then show ?thesis by (auto simp: decideAction_def decide_txn_def Let_def split: option.splits prod.splits)
qed

lemma decideAction_db: "fst (decideAction d inp now) = fst (decide_txn d inp now)"
  by (simp add: decideAction_def split: prod.splits option.splits)

lemma taken_decide: "taken d k \<Longrightarrow> taken (fst (decideAction d inp now)) k"
  using decide_pendingActions [of d inp now] taken_update [of d k "decide_update inp now"] by auto

lemma stage_pendingActions: "\<exists>ps. pendingActions (fst (stageAction d inp now u draws)) = pendingActions d @ ps"
proof -
  have "\<exists>ps. pendingActions (fst (stage_attempts d inp base now drs)) = pendingActions d @ ps" for base drs
    by (induction drs) (auto simp: Let_def)
  then show ?thesis by (simp add: stageAction_def)
qed

lemma taken_stage: "taken d k \<Longrightarrow> taken (fst (stageAction d inp now u draws)) k"
  using stage_pendingActions [of d inp now u draws] by (auto simp: taken_def action_at_def by_key_append)

lemma filter_update_length:
  "i < length xs \<Longrightarrow> length (filter P (xs[i := y])) + (if P (xs ! i) then 1 else 0) = length (filter P xs) + (if P y then 1 else 0)"
proof (induction xs arbitrary: i)
  case (Cons x xs)
  show ?case
  proof (cases i)
    case (Suc j)
    with Cons.prems have "j < length xs" by simp
    from Cons.IH [OF this] Suc show ?thesis by (auto split: if_splits)
  qed simp
qed simp

lemma claim_taken:
  assumes "wf_actions d" and "claim d a ip now = (d', Some p)"
  shows "\<not> taken d (action_key a) \<and> taken d' (action_key a)"
proof -
  from assms(2) obtain q where q: "action_at d (action_key a) = Some q" "unclaimed q"
    by (auto simp: claim_known [OF assms(1)] split: option.splits if_splits)
  have d': "d' = fst (claim d a ip now)" using assms(2) by simp
  from q assms(1) have "action_at d' (action_key a) = Some (claim_update now q)"
    unfolding d' action_at_def claim_pendingActions claim_filter_key by (simp add: by_key_update_same wf_actions_def)
  with q show ?thesis by (auto simp: taken_def unclaimed_def)
qed

lemma exec_invD:
  assumes "exec_inv c"
  shows "granted c k \<le> 1" and "granted c k = 1 \<Longrightarrow> taken (xc_db c) k" and "wf_actions (xc_db c)"
  using assms unfolding exec_inv_def by blast+

lemma exec_inv_keep:
  assumes "exec_inv c" and "wf_actions (xc_db c')" and "\<And>k. taken (xc_db c) k \<Longrightarrow> taken (xc_db c') k"
    and "\<And>k. granted c' k \<le> granted c k"
  shows "exec_inv c'"
  unfolding exec_inv_def
proof (intro conjI allI impI)
  show "wf_actions (xc_db c')" by (rule assms(2))
  fix k
  have old: "granted c k \<le> 1" "granted c k = 1 \<Longrightarrow> taken (xc_db c) k" using exec_invD [OF assms(1)] by blast+
  then show "granted c' k \<le> 1" using assms(4) [of k] by linarith
  assume "granted c' k = 1"
  then have "granted c k = 1" using assms(4) [of k] old(1) by linarith
  then show "taken (xc_db c') k" by (rule assms(3) [OF old(2)])
qed

lemma granted_drop: "i < length (xc_callers c) \<Longrightarrow> \<not> holds k y \<Longrightarrow>
    length (filter (holds k) ((xc_callers c)[i := y])) \<le> length (filter (holds k) (xc_callers c))"
  using filter_update_length [of i "xc_callers c" "holds k" y] by (simp split: if_splits)

lemma exec_step_inv: "exec_step c c' \<Longrightarrow> exec_inv c \<Longrightarrow> exec_inv c'"
proof (induction rule: exec_step.induct)
  case (arrive c a)
  then show ?case by (rule exec_inv_keep) (use arrive in \<open>auto simp: exec_inv_def granted_def holds_def\<close>)
next
  case (claim_won i c a ip now d' p)
  have wf: "wf_actions (xc_db c)" using claim_won.prems by (simp add: exec_inv_def)
  note tk = claim_taken [OF wf claim_won.hyps(4)]
  have d': "d' = fst (claim (xc_db c) a ip now)" using claim_won.hyps(4) by simp
  let ?c = "c\<lparr>xc_db := d', xc_callers := (xc_callers c)[i := Holding a]\<rparr>"
  have g: "granted ?c k = granted c k + (if k = action_key a then 1 else 0)" for k
    using filter_update_length [OF claim_won.hyps(1), of "holds k" "Holding a"] claim_won.hyps(2)
    by (auto simp: granted_def holds_def split: if_splits)
  have zero: "granted c (action_key a) = 0"
    using exec_invD(1,2) [OF claim_won.prems, of "action_key a"] tk by linarith
  have keep: "taken d' k" if "taken (xc_db c) k" for k unfolding d' by (rule taken_claim [OF that])
  have "exec_inv ?c"
    unfolding exec_inv_def
  proof (intro conjI allI impI)
    show "wf_actions (xc_db ?c)" using wf_claim [OF wf] by (simp add: d')
    fix k
    show "granted ?c k \<le> 1"
      using zero exec_invD(1) [OF claim_won.prems, of k] by (cases "k = action_key a") (simp_all only: g, simp_all)
    show "taken (xc_db ?c) k" if "granted ?c k = 1"
      using that zero tk exec_invD(2) [OF claim_won.prems, of k] keep [of k]
      by (cases "k = action_key a") (simp_all only: g, simp_all)
  qed
  then show ?case by simp
next
  case (claim_lost i c a ip now d')
  then show ?case
    by (intro exec_inv_keep [OF claim_lost.prems]) (auto simp: exec_inv_def granted_def holds_def intro: granted_drop)
next
  case (performs i c a env d' st)
  have acts: "pendingActions d' = pendingActions (xc_db c)"
    using perform_actions [of env "xc_db c" a] performs.hyps(3) by simp
  have "granted (c\<lparr>xc_db := d', xc_callers := (xc_callers c)[i := Reported a st], xc_performed := action_key a # xc_performed c\<rparr>) k = granted c k" for k
    using filter_update_length [OF performs.hyps(1), of "holds k" "Reported a st"] performs.hyps(2)
    by (auto simp: granted_def holds_def split: if_splits)
  then show ?case
    by (intro exec_inv_keep [OF performs.prems]) (use performs.prems in \<open>auto simp: exec_inv_def wf_actions_def taken_def action_at_def acts\<close>)
next
  case (settles i c a st ip now d' r)
  have d': "d' = fst (settle (xc_db c) a st ip now)" using settles.hyps(3) by simp
  show ?case
    by (rule exec_inv_keep [OF settles.prems])
      (use settles in \<open>auto simp: d' exec_inv_def granted_def holds_def intro: granted_drop wf_settle taken_settle\<close>)
next
  case (dies i c)
  then show ?case
    by (intro exec_inv_keep [OF dies.prems]) (auto simp: exec_inv_def granted_def holds_def intro: granted_drop)
next
  case (decides c inp now)
  then show ?case
    by (intro exec_inv_keep [OF decides.prems])
      (auto simp: exec_inv_def granted_def decideAction_db wf_decide_txn taken_decide [unfolded decideAction_db])
next
  case (stages c u st_inp now draws)
  then show ?case
    by (intro exec_inv_keep [OF stages.prems]) (auto simp: exec_inv_def granted_def intro: wf_stageAction taken_stage)
next
  case (elsewhere d' c)
  then show ?case
    by (intro exec_inv_keep [OF elsewhere.prems]) (auto simp: exec_inv_def granted_def wf_actions_def taken_def action_at_def)
qed

lemma exec_reachable_inv: "exec_reachable c \<Longrightarrow> exec_inv c"
proof (induction rule: exec_reachable.induct)
  case (init c)
  then show ?case by (simp add: exec_inv_def wf_actions_def granted_def)
next
  case (next_step c c')
  then show ?case by (blast intro: exec_step_inv)
qed

section \<open>Properties of the executor\<close>

definition ex_env :: exec_env where
  "ex_env = \<lparr>xe_worker = (\<lambda>inst jid req. Inr (True, [(js ''ok'', JBool True)])), xe_parse_datetime = (\<lambda>_. None),
     xe_iso = (\<lambda>_. []), xe_ip = js ''direct'', xe_now = 30, xe_uuid = js ''u'', xe_oid = js ''o''\<rparr>"

definition ex_approved_db :: db where
  "ex_approved_db = fst (decideAction ex_staged \<lparr>de_organizationId = js ''org'', de_ref = By_id (js ''a1''),
     de_decision = Approve_action, de_decidedBy = js ''owner'', de_ip = js ''direct''\<rparr> 20)"

definition ex_approved :: pending_action where
  "ex_approved = ex_row\<lparr>pa_state := Pa_approved, pa_decidedBy := Some (js ''owner''), pa_decidedAt := Some 20, pa_updatedAt := 20\<rparr>"

lemma ex_approved_rows: "pendingActions ex_approved_db = [ex_approved]"
  by (simp add: ex_approved_db_def decideAction_def decide_txn_def found_after_def ex_staged_rows refFilter_def Let_def
      ex_row_def stage_base_def ex_stage_def decide_update_def ex_approved_def)

lemma ex_approved_wf: "wf_actions ex_approved_db"
  unfolding ex_approved_db_def decideAction_db by (rule wf_decide_txn [OF ex_staged_wf])

lemma ex_approved_key: "action_key ex_approved = (js ''org'', js ''a1'')"
  by (simp add: ex_approved_def ex_row_def stage_base_def ex_stage_def action_key_def)

lemma ex_approved_state: "unclaimed ex_approved" "pa_state ex_approved = Pa_approved" "pa_action ex_approved = js ''group_leave''"
  by (simp_all add: unclaimed_def ex_approved_def ex_row_def stage_base_def ex_stage_def)

lemma ex_approved_at: "action_at ex_approved_db (action_key ex_approved) = Some ex_approved"
  by (simp add: action_at_def by_key_def ex_approved_rows)

text \<open>C6: A staged action is performed at most once, whatever the interleaving: any number of callers
  with any snapshots of its row, crashing at any point, with decisions, stagings and every other
  writer running between their steps.\<close>

theorem action_performed_at_most_once:
  assumes "exec_reachable c"
  shows "count_list (xc_performed c) k \<le> 1"
  using exec_invD(1) [OF exec_reachable_inv [OF assms], of k] by (simp add: granted_def)

theorem action_performed_at_most_once_witness:
  "\<exists>c::exec_conf. xc_performed c = [(js ''org'', js ''a1'')] \<and> count_list (xc_performed c) (js ''org'', js ''a1'') \<le> 1"
proof -
  let ?c0 = "\<lparr>xc_db = empty_db, xc_callers = [], xc_performed = []\<rparr>"
  let ?c1 = "?c0\<lparr>xc_db := ex_staged\<rparr>"
  let ?c2 = "?c1\<lparr>xc_db := ex_approved_db\<rparr>"
  let ?c3 = "?c2\<lparr>xc_callers := [Waiting ex_approved]\<rparr>"
  have "exec_reachable ?c0" by (rule exec_reachable.init) (simp_all add: empty_db_def)
  moreover have "exec_step ?c0 ?c1"
    using exec_step.stages [of ?c0 "js ''a1''"] by (simp add: ex_staged_def fresh_action_id_def empty_db_def)
  moreover have "exec_step ?c1 ?c2" using exec_step.decides [of ?c1] by (simp add: ex_approved_db_def)
  moreover have "exec_step ?c2 ?c3" using exec_step.arrive [of ?c2 ex_approved] by simp
  ultimately have c3: "exec_reachable ?c3" by (blast intro: exec_reachable.next_step)
  obtain d1 where d1: "claim ex_approved_db ex_approved (js ''direct'') 30 = (d1, Some (claim_update 30 ex_approved))"
    using ex_approved_at ex_approved_state(1) by (simp add: claim_known [OF ex_approved_wf])
  let ?c4 = "?c3\<lparr>xc_db := d1, xc_callers := [Holding ex_approved]\<rparr>"
  have "exec_step ?c3 ?c4"
    using exec_step.claim_won [of 0 ?c3 ex_approved "js ''direct''" 30] d1 ex_approved_state(2) by simp
  with c3 have c4: "exec_reachable ?c4" by (rule exec_reachable.next_step)
  obtain d2 st where d2: "perform ex_env d1 ex_approved = (d2, Inr st)"
    using perform_returns [of ex_env d1 ex_approved] by (metis prod.collapse)
  let ?c5 = "?c4\<lparr>xc_db := d2, xc_callers := [Reported ex_approved st], xc_performed := [(js ''org'', js ''a1'')]\<rparr>"
  have "exec_step ?c4 ?c5"
    using exec_step.performs [of 0 ?c4 ex_approved ex_env] d2 by (simp add: ex_approved_key)
  with c4 have "exec_reachable ?c5" by (rule exec_reachable.next_step)
  then have "count_list (xc_performed ?c5) (js ''org'', js ''a1'') \<le> 1" by (rule action_performed_at_most_once)
  then show ?thesis by - (rule exI [of _ ?c5], simp)
qed

text \<open>The outcome of a group-administration action is the worker's own answer: the caller is told
  \<open>executed\<close> exactly when the row's parameters are this action's and the worker answered \<open>ok: true\<close>;
  the row the caller gets is the stored one, its state says the same and its result is the worker's
  body, or the failure's code, verbatim.\<close>

theorem execution_follows_worker:
  assumes "wf_actions d" and "action_at d (action_key a) = Some p" and "unclaimed p" and "pa_state a = Pa_approved"
    and "pa_action a \<notin> {js ''cancel_scheduled'', js ''group_send''}"
  shows "\<exists>row. action_at (fst (executeAction env d a)) (action_key a) = Some row
    \<and> pa_result row = Some (se_result (perform_worker env a))
    \<and> (if \<exists>body data. workerRequestFor a = Inr body \<and> xe_worker env (pa_instanceId a) (pa_groupJid a) body = Inr (True, data)
        then snd (executeAction env d a) = Inr (Executed row) \<and> pa_state row = Pa_executed
        else (\<exists>f. snd (executeAction env d a) = Inr (Execute_failed row f) \<and> pa_state row = Pa_failed
               \<and> map_of (se_result (perform_worker env a)) (js ''code'') = Some (JStr (xf_code f))))"
proof -
  from executeAction_runs [OF assms(1-4), of env] obtain d1 d2 st row where r:
    "claim d a (xe_ip env) (xe_now env) = (d1, Some (claim_update (xe_now env) p))" "perform env d1 a = (d2, Inr st)"
    "settle d2 a st (xe_ip env) (xe_now env) = (fst (executeAction env d a), Some row)"
    "row = settle_update st (xe_now env) (claim_update (xe_now env) p)"
    "snd (executeAction env d a) = Inr (case se_failure st of None \<Rightarrow> Executed row | Some f \<Rightarrow> Execute_failed row f)" by blast
  have st: "st = perform_worker env a" and d2: "d2 = d1" using r(2) assms(5) by (auto simp: perform_def)
  have wf1: "wf_actions d1" using wf_claim [OF assms(1), of a "xe_ip env" "xe_now env"] r(1) by simp
  then have dist: "distinct (map action_key (pendingActions d1))" by (simp add: wf_actions_def)
  have fin: "fst (executeAction env d a) = fst (settle d1 a st (xe_ip env) (xe_now env))" using r(3) d2 by simp
  have "\<exists>q. action_at d1 (action_key a) = Some q \<and> pa_state q = Pa_approved \<and> is_running q \<and> row = settle_update st (xe_now env) q"
    using r(3) unfolding d2 settle_known [OF wf1] by (auto split: option.splits if_splits)
  then have at: "action_at (fst (executeAction env d a)) (action_key a) = Some row"
    unfolding fin action_at_def settle_pendingActions settle_filter_key by (auto simp: by_key_update_same [OF dist])
  have upd: "map_of (AList.update k v al) k' = (if k' = k then Some v else map_of al k')" for k k' v and al :: jobject
    by (simp add: update_conv)
  have "se_failure st = None \<longleftrightarrow>
      (\<exists>body data. workerRequestFor a = Inr body \<and> xe_worker env (pa_instanceId a) (pa_groupJid a) body = Inr (True, data))"
    and "se_failure st = Some f \<Longrightarrow> map_of (se_result st) (js ''code'') = Some (JStr (xf_code f))" for f
    by (auto simp: st perform_worker_def failed_with_def failure_result_def Let_def upd split: sum.splits prod.splits if_splits)
  with at r(4,5) show ?thesis by (auto simp: st [symmetric] split: option.splits)
qed

theorem execution_follows_worker_witness:
  "\<exists>row. snd (executeAction ex_env ex_approved_db ex_approved) = Inr (Executed row)
     \<and> pa_state row = Pa_executed \<and> pa_result row = Some [(js ''ok'', JBool True)]"
proof -
  have act: "pa_action ex_approved \<notin> {js ''cancel_scheduled'', js ''group_send''}" by (simp add: ex_approved_state(3))
  have req: "workerRequestFor ex_approved = Inr Leave" by (simp add: workerRequestFor_def ex_approved_state(3) Let_def)
  have w: "perform_worker ex_env ex_approved = \<lparr>se_result = [(js ''ok'', JBool True)], se_failure = None\<rparr>"
    by (simp add: perform_worker_def req ex_env_def)
  from execution_follows_worker [OF ex_approved_wf ex_approved_at ex_approved_state(1,2) act, of ex_env] req
  show ?thesis by (auto simp: ex_env_def w [unfolded ex_env_def])
qed

text \<open>A discriminator the executor does not know is never guessed at: whatever the worker would
  answer, the execution is the same, no request exists for it, and on a claimed row it is recorded
  as the failure \<open>unknown_action\<close>.\<close>

theorem unknown_action_never_performed:
  assumes "pa_action a \<notin> {js ''group_rename'', js ''group_set_announce'', js ''group_set_locked'', js ''group_set_photo'',
      js ''group_members'', js ''group_leave'', js ''message_revoke'', js ''cancel_scheduled'', js ''group_send''}"
  shows "workerRequestFor a = Inl unknown_action
    \<and> executeAction (env\<lparr>xe_worker := w\<rparr>) d a = executeAction env d a
    \<and> (\<forall>row. snd (executeAction env d a) \<noteq> Inr (Executed row))
    \<and> (\<forall>row f. snd (executeAction env d a) = Inr (Execute_failed row f) \<longrightarrow> f = unknown_action \<or> f = unrecorded)"
proof -
  have req: "workerRequestFor a = Inl unknown_action" using assms by (simp add: workerRequestFor_def Let_def)
  then have "perform_worker e a = failed_with unknown_action" for e by (simp add: perform_worker_def)
  then have pf: "perform e d' a = (d', Inr (failed_with unknown_action))" for e d' using assms by (simp add: perform_def)
  show ?thesis
    using req by (auto simp: executeAction_def pf failed_with_def split: option.splits prod.splits)
qed

theorem unknown_action_never_performed_witness:
  "workerRequestFor (ex_approved\<lparr>pa_action := js ''group_delete''\<rparr>) = Inl unknown_action"
  using unknown_action_never_performed [of "ex_approved\<lparr>pa_action := js ''group_delete''\<rparr>"] by simp

text \<open>An execution that claims its row.\<close>

lemma claimed_execution:
  assumes "wf_actions d" and "action_at d (action_key a) = Some p" and "unclaimed p" and "pa_state a = Pa_approved"
  shows "\<exists>mid st row. auditLog (fst (executeAction env d a))
        = auditLog d @ [auditRow (claim_audit a (xe_ip env)) (xe_now env)] @ mid @ [auditRow (settle_audit a st (xe_ip env)) (xe_now env)]
      \<and> at_most_one_send_record mid
      \<and> action_at (fst (executeAction env d a)) (action_key a) = Some row
      \<and> row = settle_update st (xe_now env) (claim_update (xe_now env) p)
      \<and> (\<forall>env'. executeAction env' (fst (executeAction env d a)) a = (fst (executeAction env d a), Inr (Refused not_approved)))"
proof -
  let ?d' = "fst (executeAction env d a)"
  from executeAction_runs [OF assms, of env] obtain d1 d2 st row where r:
    "claim d a (xe_ip env) (xe_now env) = (d1, Some (claim_update (xe_now env) p))" "perform env d1 a = (d2, Inr st)"
    "settle d2 a st (xe_ip env) (xe_now env) = (?d', Some row)"
    "row = settle_update st (xe_now env) (claim_update (xe_now env) p)" by blast
  have log1: "auditLog d1 = auditLog d @ [auditRow (claim_audit a (xe_ip env)) (xe_now env)]"
    using r(1) by (auto simp: claim_def split: option.splits)
  obtain mid where log2: "auditLog d2 = auditLog d1 @ mid" "at_most_one_send_record mid" using perform_log_extends [of env d1 a] r(2) by auto
  note log3 = settle_log [OF r(3)]
  have wf1: "wf_actions d1" using wf_claim [OF assms(1), of a "xe_ip env" "xe_now env"] r(1) by simp
  have acts: "pendingActions d2 = pendingActions d1" using perform_actions [of env d1 a] r(2) by simp
  with wf1 have wf2: "wf_actions d2" by (simp add: wf_actions_def)
  then have dist: "distinct (map action_key (pendingActions d2))" by (simp add: wf_actions_def)
  have d': "?d' = fst (settle d2 a st (xe_ip env) (xe_now env))" using r(3) by simp
  have at: "action_at ?d' (action_key a) = Some row"
    using r(3) unfolding settle_known [OF wf2]
    by (subst d', unfold action_at_def settle_pendingActions settle_filter_key)
      (auto simp: by_key_update_same [OF dist] action_at_def split: option.splits if_splits)
  have "wf_actions ?d'" unfolding d' by (rule wf_settle [OF wf2])
  moreover have "\<not> unclaimed row" using r(4) by (simp add: unclaimed_def)
  ultimately have again: "executeAction env' ?d' a = (?d', Inr (Refused not_approved))" for env'
    using executeAction_refused at by blast
  show ?thesis
    by (intro exI [of _ mid] exI [of _ st] exI [of _ row]) (use log1 log2 log3 at again r(4) in simp)
qed

lemma refused_execution:
  assumes "wf_actions d" and "\<not> (pa_state a = Pa_approved \<and> (\<exists>p. action_at d (action_key a) = Some p \<and> unclaimed p))"
  shows "executeAction env d a = (d, Inr (Refused not_approved))"
  using assms(2) by (auto simp: executeAction_def claim_known [OF assms(1)] split: option.splits)

text \<open>C7: Every attempt is accounted for. An execution that may claim its row appends exactly two records about the action, that of
  the attempt first and that of the outcome last, with nothing between them but at most the creation or the cancellation of the one send it
  made; the outcome's record agrees with the state stored on the row, and the finished row can never be executed again, by any caller. Any
  other execution (a row that is not approved, is gone, or is claimed already) is refused and writes nothing at all.\<close>

theorem execution_is_audited_and_final:
  assumes "wf_actions d"
  shows "if pa_state a = Pa_approved \<and> (\<exists>p. action_at d (action_key a) = Some p \<and> unclaimed p)
    then \<exists>attempt mid outcome row. auditLog (fst (executeAction env d a)) = auditLog d @ [attempt] @ mid @ [outcome]
      \<and> ar_action attempt = Action_execution_attempted \<and> ar_target attempt = (T_action, pa_id a)
      \<and> (mid = [] \<or> (\<exists>e i. mid = [e] \<and> ar_target e = (T_send, i) \<and> (ar_action e = Send_created \<or> ar_action e = Send_cancelled)))
      \<and> ar_target outcome = (T_action, pa_id a)
      \<and> action_at (fst (executeAction env d a)) (action_key a) = Some row
      \<and> (ar_action outcome = Action_executed \<and> pa_state row = Pa_executed
          \<or> ar_action outcome = Action_execution_failed \<and> pa_state row = Pa_failed)
      \<and> (\<forall>env'. executeAction env' (fst (executeAction env d a)) a = (fst (executeAction env d a), Inr (Refused not_approved)))
    else executeAction env d a = (d, Inr (Refused not_approved))"
proof (cases "pa_state a = Pa_approved \<and> (\<exists>p. action_at d (action_key a) = Some p \<and> unclaimed p)")
  case True
  then obtain p where "action_at d (action_key a) = Some p" "unclaimed p" and "pa_state a = Pa_approved" by blast
  from claimed_execution [OF assms this, of env] obtain mid st row where
    c: "auditLog (fst (executeAction env d a)) = auditLog d @ [auditRow (claim_audit a (xe_ip env)) (xe_now env)] @ mid
        @ [auditRow (settle_audit a st (xe_ip env)) (xe_now env)]" "at_most_one_send_record mid"
      "action_at (fst (executeAction env d a)) (action_key a) = Some row" "row = settle_update st (xe_now env) (claim_update (xe_now env) p)"
      "\<forall>env'. executeAction env' (fst (executeAction env d a)) a = (fst (executeAction env d a), Inr (Refused not_approved))" by blast
  have o: "ar_action (auditRow (settle_audit a st (xe_ip env)) (xe_now env)) = Action_executed \<and> pa_state row = Pa_executed
      \<or> ar_action (auditRow (settle_audit a st (xe_ip env)) (xe_now env)) = Action_execution_failed \<and> pa_state row = Pa_failed"
    by (simp add: c(4) auditRow_def settle_audit_def settle_update_def)
  show ?thesis unfolding if_P [OF True]
    by (intro exI [of _ "auditRow (claim_audit a (xe_ip env)) (xe_now env)"] exI [of _ mid]
        exI [of _ "auditRow (settle_audit a st (xe_ip env)) (xe_now env)"] exI [of _ row] conjI c(1,3,5) o c(2) [unfolded at_most_one_send_record_def])
      (simp_all add: auditRow_def claim_audit_def settle_audit_def)
next
  case False
  with refused_execution [OF assms False] show ?thesis by simp
qed

theorem execution_is_audited_and_final_witness:
  "snd (executeAction ex_env (fst (executeAction ex_env ex_approved_db ex_approved)) ex_approved) = Inr (Refused not_approved)"
  using execution_is_audited_and_final [OF ex_approved_wf, of ex_approved ex_env] ex_approved_at ex_approved_state(1,2) by auto

end
