(* ===== verification/ReplyRuns.thy ===== *)
theory ReplyRuns
  imports Sends
begin

text \<open>
  The lease-backed reply runs of \<open>apps/web/src/server/memory/recall.ts\<close>: one run per owner callback,
  claimed under a two-minute lease, renewed by a heartbeat, failed with a bounded backoff, and
  finished by the send that answers it.
\<close>

section \<open>Constants and inputs\<close>

definition agent_reply_lease_ms :: time where
  "agent_reply_lease_ms = 120000"

definition agent_reply_max_attempts :: nat where
  "agent_reply_max_attempts = 5"

definition agent_reply_base_backoff_ms :: nat where
  "agent_reply_base_backoff_ms = 5 * 60 * 1000"

definition agent_reply_max_backoff_ms :: nat where
  "agent_reply_max_backoff_ms = 6 * 60 * 60 * 1000"

record reply_scope =
  rs_organizationId :: jstr
  rs_instanceId :: jstr
  rs_groupJid :: jstr
  rs_waMessageId :: jstr

datatype reply_claim = Claimed reply_run jstr | Claim_completed reply_run | Claim_dead reply_run | Claim_live reply_run

section \<open>Backoff\<close>

text \<open>
  \<open>digest\<close> is the big-endian \<open>uint16\<close> that starts the sha256 of the run id and the attempt byte;
  the product is the exact rational, rounded as \<open>Math.round\<close> does (half up).
\<close>

definition backoff_base :: "nat \<Rightarrow> nat" where
  "backoff_base attempts = min (agent_reply_base_backoff_ms * 2 ^ (attempts - 1)) agent_reply_max_backoff_ms"

definition agentReplyRetryDelayMs :: "(oid \<Rightarrow> nat \<Rightarrow> nat) \<Rightarrow> oid \<Rightarrow> nat \<Rightarrow> nat" where
  "agentReplyRetryDelayMs digest runId attempts =
    (let base = backoff_base attempts; k = digest runId (attempts mod 256);
         p = base * (4 * 65535 + 2 * k); q = 5 * 65535
     in (2 * p + q) div (2 * q))"

section \<open>Classifying failures\<close>

text \<open>
  What the classifier can ask of a thrown value: the SDK's type-validation marker, whether it is a
  \<open>ZodError\<close> or \<open>SyntaxError\<close>, its message when it is an \<open>Error\<close>, its numeric \<open>statusCode\<close>.
\<close>

record reply_error =
  er_protocol :: bool
  er_parse :: bool
  er_message :: "jstr option"
  er_statusCode :: "int option"

record reply_failure =
  rf_code :: jstr
  rf_terminal :: bool

definition rejection_words :: "jstr list" where
  "rejection_words = [js ''ai_base_url'', js ''ai_api_key'', js ''ai_model'', js ''unsafe automatic reply'',
     js ''schema'', js ''structured'', js ''refus'']"

definition rejected_message :: "jstr \<Rightarrow> bool" where
  "rejected_message m \<longleftrightarrow> list_ex (\<lambda>w. contains w (map to_lower m)) rejection_words"

definition classifyReplyFailure :: "reply_error \<Rightarrow> reply_failure" where
  "classifyReplyFailure e =
    (if er_protocol e then \<lparr>rf_code = js ''provider_protocol'', rf_terminal = False\<rparr>
     else if er_parse e then \<lparr>rf_code = js ''invalid_model_output'', rf_terminal = True\<rparr>
     else if (case er_message e of Some m \<Rightarrow> rejected_message m | None \<Rightarrow> False)
       then \<lparr>rf_code = js ''model_rejected'', rf_terminal = True\<rparr>
     else (case er_statusCode e of
         Some status \<Rightarrow> \<lparr>rf_code = js ''provider_'' @ dec_int status, rf_terminal = (status \<noteq> 429 \<and> status < 500)\<rparr>
       | None \<Rightarrow> \<lparr>rf_code = js ''model_unavailable'', rf_terminal = False\<rparr>))"

section \<open>Claiming\<close>

definition run_of :: "reply_scope \<Rightarrow> reply_run \<Rightarrow> bool" where
  "run_of scope r \<longleftrightarrow> rr_organizationId r = rs_organizationId scope \<and> rr_instanceId r = rs_instanceId scope
     \<and> rr_groupJid r = rs_groupJid scope \<and> rr_waMessageId r = rs_waMessageId scope"

definition new_run :: "reply_scope \<Rightarrow> jstr \<Rightarrow> time \<Rightarrow> oid \<Rightarrow> reply_run" where
  "new_run scope token now oid = \<lparr>rr_oid = oid, rr_organizationId = rs_organizationId scope, rr_instanceId = rs_instanceId scope,
     rr_groupJid = rs_groupJid scope, rr_waMessageId = rs_waMessageId scope, rr_state = Run_processing,
     rr_lease = Some \<lparr>ls_token = token, ls_expiresAt = now + agent_reply_lease_ms\<rparr>, rr_attempts = 1,
     rr_nextAttemptAt = None, rr_sendRequestId = None, rr_memoryBatchIds = [], rr_memoryFactIds = [],
     rr_failure = None, rr_createdAt = now, rr_completedAt = None, rr_updatedAt = now\<rparr>"

definition lease_expired :: "time \<Rightarrow> reply_run \<Rightarrow> bool" where
  "lease_expired now r \<longleftrightarrow> (case rr_lease r of None \<Rightarrow> True | Some l \<Rightarrow> ls_expiresAt l \<le> now)"

definition retry_due :: "time \<Rightarrow> reply_run \<Rightarrow> bool" where
  "retry_due now r \<longleftrightarrow> (case rr_nextAttemptAt r of None \<Rightarrow> False | Some t \<Rightarrow> t \<le> now)"

definition reclaim :: "jstr \<Rightarrow> time \<Rightarrow> reply_run \<Rightarrow> reply_run" where
  "reclaim token now r = r\<lparr>rr_state := Run_processing,
     rr_lease := Some \<lparr>ls_token = token, ls_expiresAt = now + agent_reply_lease_ms\<rparr>,
     rr_failure := None, rr_updatedAt := now, rr_attempts := Suc (rr_attempts r)\<rparr>"

definition exhaust :: "jstr \<Rightarrow> time \<Rightarrow> reply_run \<Rightarrow> reply_run" where
  "exhaust code now r = r\<lparr>rr_state := Run_dead, rr_lease := None, rr_nextAttemptAt := None,
     rr_failure := Some (code, now), rr_updatedAt := now\<rparr>"

definition set_runs :: "db \<Rightarrow> (reply_run \<Rightarrow> bool) \<Rightarrow> (reply_run \<Rightarrow> reply_run) \<Rightarrow> db" where
  "set_runs d P f = d\<lparr>agentReplyRuns := update_one P f (agentReplyRuns d)\<rparr>"

text \<open>
  The filters of the four conditional writes, past the job's key: a lease that expired, and a
  retry that is due, each while attempts remain and once they are spent.
\<close>

definition expired_left :: "time \<Rightarrow> reply_run \<Rightarrow> bool" where
  "expired_left now r \<longleftrightarrow> rr_state r = Run_processing \<and> rr_attempts r < agent_reply_max_attempts \<and> lease_expired now r"

definition expired_spent :: "time \<Rightarrow> reply_run \<Rightarrow> bool" where
  "expired_spent now r \<longleftrightarrow> rr_state r = Run_processing \<and> agent_reply_max_attempts \<le> rr_attempts r \<and> lease_expired now r"

definition due_left :: "time \<Rightarrow> reply_run \<Rightarrow> bool" where
  "due_left now r \<longleftrightarrow> rr_state r = Run_failed \<and> rr_attempts r < agent_reply_max_attempts \<and> retry_due now r"

definition due_spent :: "time \<Rightarrow> reply_run \<Rightarrow> bool" where
  "due_spent now r \<longleftrightarrow> rr_state r = Run_failed \<and> agent_reply_max_attempts \<le> rr_attempts r \<and> retry_due now r"

text \<open>\<open>findOneAndUpdate\<close> on one job: the change, and the document after it.\<close>

definition find_and_update :: "db \<Rightarrow> reply_scope \<Rightarrow> (reply_run \<Rightarrow> bool) \<Rightarrow> (reply_run \<Rightarrow> reply_run) \<Rightarrow> db \<times> reply_run option" where
  "find_and_update d scope P f =
    (set_runs d (\<lambda>r. run_of scope r \<and> P r) f, found_after (\<lambda>r. run_of scope r \<and> P r) f (agentReplyRuns d))"

text \<open>
  One round of the claim; \<^const>\<open>None\<close> is the recursive call the code makes when the run vanished
  between the writes and the last read.
\<close>

definition claim_round :: "db \<Rightarrow> reply_scope \<Rightarrow> jstr \<Rightarrow> oid \<Rightarrow> time \<Rightarrow> db \<times> reply_claim option" where
  "claim_round d scope token oid now =
    (if find (run_of scope) (agentReplyRuns d) = None
     then (d\<lparr>agentReplyRuns := agentReplyRuns d @ [new_run scope token now oid]\<rparr>, Some (Claimed (new_run scope token now oid) token))
     else case find_and_update d scope (expired_left now) (reclaim token now) of
       (d1, Some r) \<Rightarrow> (d1, Some (Claimed r token))
     | (d1, None) \<Rightarrow>
     case find_and_update d1 scope (expired_spent now) (exhaust (js ''lease_exhausted'') now) of
       (d2, Some r) \<Rightarrow> (d2, Some (Claim_dead r))
     | (d2, None) \<Rightarrow>
     case find_and_update d2 scope (due_left now) (reclaim token now) of
       (d3, Some r) \<Rightarrow> (d3, Some (Claimed r token))
     | (d3, None) \<Rightarrow>
     case find_and_update d3 scope (due_spent now) (exhaust (js ''attempts_exhausted'') now) of
       (d4, Some r) \<Rightarrow> (d4, Some (Claim_dead r))
     | (d4, None) \<Rightarrow>
     (d4, case find (run_of scope) (agentReplyRuns d4) of
         None \<Rightarrow> None
       | Some r \<Rightarrow> Some (if rr_state r = Run_complete then Claim_completed r
           else if rr_state r = Run_dead then Claim_dead r else Claim_live r)))"

text \<open>The rounds, bounded by a fuel that the first round never exhausts (\<open>claim_by_run\<close>).\<close>

fun claim_rounds :: "nat \<Rightarrow> db \<Rightarrow> reply_scope \<Rightarrow> jstr \<Rightarrow> oid \<Rightarrow> time \<Rightarrow> db \<times> reply_claim option" where
  "claim_rounds 0 d scope token oid now = (d, None)"
| "claim_rounds (Suc fuel) d scope token oid now =
     (case claim_round d scope token oid now of
        (d', None) \<Rightarrow> claim_rounds fuel d' scope token oid now
      | (d', Some c) \<Rightarrow> (d', Some c))"

definition claimAgentReplyRun :: "db \<Rightarrow> reply_scope \<Rightarrow> jstr \<Rightarrow> oid \<Rightarrow> time \<Rightarrow> db \<times> reply_claim option" where
  "claimAgentReplyRun d scope token oid now = claim_rounds 1 d scope token oid now"

section \<open>Renewing, reconciling, failing\<close>

definition live_holder :: "oid \<Rightarrow> jstr \<Rightarrow> time \<Rightarrow> reply_run \<Rightarrow> bool" where
  "live_holder runId token now r \<longleftrightarrow> rr_oid r = runId \<and> rr_state r = Run_processing
     \<and> (case rr_lease r of None \<Rightarrow> False | Some l \<Rightarrow> ls_token l = token \<and> now < ls_expiresAt l)"

definition extend_lease :: "time \<Rightarrow> reply_run \<Rightarrow> reply_run" where
  "extend_lease now r = r\<lparr>rr_lease := map_option (\<lambda>l. l\<lparr>ls_expiresAt := now + agent_reply_lease_ms\<rparr>) (rr_lease r), rr_updatedAt := now\<rparr>"

text \<open>\<open>Some expiresAt\<close> is \<open>live\<close>, \<^const>\<open>None\<close> is \<open>lost\<close>.\<close>

definition renewAgentReplyLease :: "db \<Rightarrow> oid \<Rightarrow> jstr \<Rightarrow> time \<Rightarrow> db \<times> time option" where
  "renewAgentReplyLease d runId token now =
    (set_runs d (live_holder runId token now) (extend_lease now),
     Option.bind (found_after (live_holder runId token now) (extend_lease now) (agentReplyRuns d))
       (\<lambda>r. map_option ls_expiresAt (rr_lease r)))"

definition reconcile_filter :: "reply_scope \<Rightarrow> jstr \<Rightarrow> send_row \<Rightarrow> bool" where
  "reconcile_filter scope key s \<longleftrightarrow> same_job_send (rs_organizationId scope) (rs_instanceId scope) (rs_groupJid scope) key s
     \<and> (case sr_provenance s of None \<Rightarrow> False
        | Some p \<Rightarrow> pv_source p = owner_mention \<and> pv_replyToMessageId p = rs_waMessageId scope)"

definition finish_run :: "oid \<Rightarrow> time \<Rightarrow> reply_run \<Rightarrow> reply_run" where
  "finish_run sendId now r = r\<lparr>rr_state := Run_complete, rr_sendRequestId := Some sendId, rr_completedAt := Some now,
     rr_updatedAt := now, rr_lease := None, rr_nextAttemptAt := None\<rparr>"

definition reconcileAgentReplySend :: "db \<Rightarrow> reply_scope \<Rightarrow> jstr \<Rightarrow> time \<Rightarrow> db \<times> send_row option" where
  "reconcileAgentReplySend d scope key now =
    (case find (reconcile_filter scope key) (sendRequests d) of
       None \<Rightarrow> (d, None)
     | Some stored \<Rightarrow>
       (let d' = set_runs d (\<lambda>r. run_of scope r \<and> rr_state r \<noteq> Run_complete) (finish_run (sr_oid stored) now)
        in (d', find (reconcile_filter scope key) (sendRequests d'))))"

definition fail_update :: "(oid \<Rightarrow> nat \<Rightarrow> nat) \<Rightarrow> oid \<Rightarrow> nat \<Rightarrow> reply_failure \<Rightarrow> time \<Rightarrow> reply_run \<Rightarrow> reply_run" where
  "fail_update digest runId attempts failure now r =
    (let dead = rf_terminal failure \<or> agent_reply_max_attempts \<le> attempts
     in r\<lparr>rr_state := (if dead then Run_dead else Run_failed), rr_failure := Some (rf_code failure, now), rr_lease := None,
          rr_nextAttemptAt := (if dead then None else Some (now + int (agentReplyRetryDelayMs digest runId attempts))),
          rr_updatedAt := now\<rparr>)"

text \<open>\<open>runId\<close> and \<open>attempts\<close> are the caller's own snapshot of the run.\<close>

definition failAgentReplyRun :: "(oid \<Rightarrow> nat \<Rightarrow> nat) \<Rightarrow> db \<Rightarrow> oid \<Rightarrow> nat \<Rightarrow> jstr \<Rightarrow> reply_failure \<Rightarrow> time \<Rightarrow> db" where
  "failAgentReplyRun digest d runId attempts token failure now =
     set_runs d (live_holder runId token now) (fail_update digest runId attempts failure now)"

end
