(* ===== verification/SendQueue.thy ===== *)
theory SendQueue
  imports Sends
begin

text \<open>
  The send queue as a state machine: every write the server makes to \<open>sendRequests\<close> and the
  three the worker's dispatcher makes (\<open>apps/worker/dispatch.go\<close>), in any order and with any
  arguments, so that a stale read, a double click and a race are all runs of it. Its invariant
  is what the dispatcher and the audit trail rely on.
\<close>

section \<open>The dispatcher's writes\<close>

definition claimable :: "nat \<Rightarrow> time \<Rightarrow> time \<Rightarrow> send_row \<Rightarrow> bool" where
  "claimable maxAttempts staleBefore now s \<longleftrightarrow> dp_attempts (sr_dispatch s) < maxAttempts
     \<and> (sr_status s = Approved \<or> sr_status s = Scheduled) \<and> sr_scheduledFor s \<le> now
     \<and> (case dp_lockedAt (sr_dispatch s) of None \<Rightarrow> True | Some t \<Rightarrow> t < staleBefore)"

definition dispatch_claim :: "jstr \<Rightarrow> time \<Rightarrow> send_row \<Rightarrow> send_row" where
  "dispatch_claim workerId now s = s\<lparr>sr_status := Sending,
     sr_dispatch := (sr_dispatch s)\<lparr>dp_lockedAt := Some now, dp_lockedBy := Some workerId,
       dp_attempts := Suc (dp_attempts (sr_dispatch s))\<rparr>, sr_updatedAt := now\<rparr>"

definition holds_claim :: "jstr \<Rightarrow> send_row \<Rightarrow> bool" where
  "holds_claim workerId s \<longleftrightarrow> sr_status s = Sending \<and> dp_lockedBy (sr_dispatch s) = Some workerId"

definition mark_sent :: "jstr \<Rightarrow> time \<Rightarrow> send_row \<Rightarrow> send_row" where
  "mark_sent messageId now s = s\<lparr>sr_status := Sent,
     sr_dispatch := (sr_dispatch s)\<lparr>dp_waMessageId := Some messageId, dp_lockedAt := None, dp_lockedBy := None,
       dp_errorClass := None\<rparr>, sr_updatedAt := now\<rparr>"

definition mark_failed :: "jstr \<Rightarrow> jstr \<Rightarrow> time \<Rightarrow> send_row \<Rightarrow> send_row" where
  "mark_failed cls message now s = s\<lparr>sr_status := Failed,
     sr_dispatch := (sr_dispatch s)\<lparr>dp_errorClass := Some cls, dp_error := Some message, dp_lockedAt := None,
       dp_lockedBy := None\<rparr>, sr_updatedAt := now\<rparr>"

section \<open>The step relation\<close>

text \<open>\<open>randomUUID\<close> never returns an id that is already stored.\<close>

definition fresh_id :: "db \<Rightarrow> jstr \<Rightarrow> bool" where
  "fresh_id d u \<longleftrightarrow> list_all (\<lambda>s. sr_id s \<noteq> u) (sendRequests d)"

inductive send_write :: "db \<Rightarrow> db \<Rightarrow> bool" where
  create: "fresh_id d u \<Longrightarrow> send_write d (fst (createSend d inp now u oid))"
| automatic: "fresh_id d u \<Longrightarrow> send_write d (fst (createAutomaticSendUnderRunLease d auto now u oid))"
| review: "fresh_id d u \<Longrightarrow> send_write d (fst (createHumanReviewSendUnderRunLease d hr now u oid))"
| approve: "send_write d (fst (approve_txn d org i b t ip now))"
| transition: "send_write d (fst (transition_txn d org i action ip actor now))"
| claim: "send_write d (d\<lparr>sendRequests := update_one
     (\<lambda>s. send_key s = k \<and> claimable maxAttempts staleBefore now s) (dispatch_claim w now) (sendRequests d)\<rparr>)"
| sent: "send_write d (d\<lparr>sendRequests := update_one
     (\<lambda>s. send_key s = k \<and> holds_claim w s) (mark_sent m now) (sendRequests d)\<rparr>)"
| failed: "send_write d (d\<lparr>sendRequests := update_one
     (\<lambda>s. send_key s = k \<and> holds_claim w s) (mark_failed cls message now) (sendRequests d)\<rparr>)"

inductive send_reachable :: "db \<Rightarrow> bool" where
  start: "sendRequests d = [] \<Longrightarrow> send_reachable d"
| step: "send_reachable d \<Longrightarrow> send_write d d' \<Longrightarrow> send_reachable d'"

section \<open>What a creation does\<close>

lemma createSend_result:
  "createSend d inp now u oid =
    (case find (has_idempotency_key (ci_organizationId inp) (ci_idempotencyKey inp)) (sendRequests d) of
       Some s \<Rightarrow> (d, Inr s)
     | None \<Rightarrow> (writeAudit (d\<lparr>sendRequests := sendRequests d @ [create_candidate inp now u oid]\<rparr>)
           (create_audit inp (create_candidate inp now u oid)) now, Inr (create_candidate inp now u oid)))"
  by (auto simp: createSend_def Let_def find_append has_idempotency_key_def create_candidate_def split: option.splits)

lemma completeUnderLease_result:
  "completeUnderLease d runId token wa c batchIds factIds entry missing now =
    (let guard = owns_run runId token (sr_organizationId c) (sr_instanceId c) (sr_groupJid c) wa now
     in if find guard (agentReplyRuns d) = None then (d, Inr Lost_lease)
        else if find (has_idempotency_key (sr_organizationId c) (sr_idempotencyKey c)) (sendRequests d) \<noteq> None
          then (d, Inl (if find (same_job_send (sr_organizationId c) (sr_instanceId c) (sr_groupJid c) (sr_idempotencyKey c)) (sendRequests d) \<noteq> None
                        then Thrown (js ''automatic send already exists for this job'') else Duplicate_key))
        else (writeAudit (d\<lparr>agentReplyRuns := update_one guard (complete_run (sr_oid c) batchIds factIds now) (agentReplyRuns d),
                sendRequests := sendRequests d @ [c]\<rparr>) entry now, Inr (Completed c)))"
proof -
  have sub: "find (same_job_send org inst jid key) xs \<noteq> None \<Longrightarrow> find (has_idempotency_key org key) xs \<noteq> None"
    for org inst jid key and xs :: "send_row list"
    by (auto simp: find_None_iff same_job_send_def has_idempotency_key_def)
  have new: "same_job_send (sr_organizationId c) (sr_instanceId c) (sr_groupJid c) (sr_idempotencyKey c) c"
    by (simp add: same_job_send_def)
  show ?thesis
    using sub [of "sr_organizationId c" "sr_instanceId c" "sr_groupJid c" "sr_idempotencyKey c" "sendRequests d"] new
    by (auto simp: completeUnderLease_def Let_def find_append split: option.splits)
qed

text \<open>An automatic answer that succeeds names the run it owned; any other outcome changes nothing.\<close>

lemma automatic_send_once_lease:
  assumes "createAutomaticSendUnderRunLease d inp now u oid = (d', Inr (Completed s))"
  shows "\<exists>r \<in> set (agentReplyRuns d). owns_run (au_runId inp) (au_leaseToken inp) (au_organizationId inp)
    (au_instanceId inp) (au_groupJid inp) (au_waMessageId inp) now r"
  using assms unfolding createAutomaticSendUnderRunLease_def completeUnderLease_result
  by (auto simp: Let_def automatic_candidate_def find_None_iff split: if_splits)

lemma automatic_send_unfinished:
  assumes "createAutomaticSendUnderRunLease d inp now u oid = (d', res)" and "\<forall>s. res \<noteq> Inr (Completed s)"
  shows "d' = d"
  using assms unfolding createAutomaticSendUnderRunLease_def completeUnderLease_result
  by (auto simp: Let_def split: if_splits)

section \<open>The invariant\<close>

text \<open>
  A row's status agrees with its approval: what waits for the owner is pending, what was
  rejected says so, and everything else carries an approval.
\<close>

definition send_row_ok :: "send_row \<Rightarrow> bool" where
  "send_row_ok s \<longleftrightarrow> (case sr_status s of
      Pending_approval \<Rightarrow> ap_state (sr_approval s) = Ap_pending \<and> ap_approvedBy (sr_approval s) = None
    | Rejected \<Rightarrow> ap_state (sr_approval s) = Ap_rejected \<and> ap_approvedBy (sr_approval s) = None
    | _ \<Rightarrow> ap_state (sr_approval s) = Ap_approved \<and> ap_approvedBy (sr_approval s) \<noteq> None)"

text \<open>The record that accounts for a row's approval.\<close>

definition approval_evidence :: "audit_row list \<Rightarrow> send_row \<Rightarrow> bool" where
  "approval_evidence log s \<longleftrightarrow> list_ex (\<lambda>a. ar_organizationId a = sr_organizationId s \<and> ar_target a = (T_send, sr_id s) \<and>
     (ar_action a = Send_approved \<and> ar_actor a = Owner
      \<or> ar_action a = Send_created \<and> (Some (ar_actor a) = ap_approvedBy (sr_approval s)
          \<or> ar_actor a = Worker \<and> sr_provenance s \<noteq> None))) log"

definition send_inv :: "db \<Rightarrow> bool" where
  "send_inv d \<longleftrightarrow> wf_sends d \<and> (\<forall>s \<in> set (sendRequests d). send_row_ok s \<and>
     (ap_state (sr_approval s) = Ap_approved \<longrightarrow> approval_evidence (auditLog d) s))"

lemma approval_evidence_mono: "approval_evidence log s \<Longrightarrow> approval_evidence (log @ extra) s"
  by (auto simp: approval_evidence_def)

text \<open>An update keeps the invariant when it keeps the keys and every changed row stays accounted for.\<close>

lemma send_inv_update:
  assumes "send_inv d" and "\<And>x. send_key (f x) = send_key x" and "\<And>x. job_key (f x) = job_key x"
    and "sendRequests d' = update_one P f (sendRequests d)" and "auditLog d' = auditLog d @ extra"
    and "\<And>s. s \<in> set (sendRequests d) \<Longrightarrow> P s \<Longrightarrow> send_row_ok (f s) \<and>
      (ap_state (sr_approval (f s)) = Ap_approved \<longrightarrow> approval_evidence (auditLog d @ extra) (f s))"
  shows "send_inv d'"
proof -
  have "wf_sends d'" using assms(1-4) by (auto simp: send_inv_def intro: wf_sends_update)
  moreover have "send_row_ok s \<and> (ap_state (sr_approval s) = Ap_approved \<longrightarrow> approval_evidence (auditLog d') s)"
    if "s \<in> set (sendRequests d')" for s
    using that assms(1,6) unfolding assms(4,5) send_inv_def
    by (auto dest!: update_one_in intro: approval_evidence_mono)
  ultimately show ?thesis by (simp add: send_inv_def)
qed

lemma send_inv_insert:
  assumes "send_inv d" and "send_key c \<notin> send_key ` set (sendRequests d)" and "job_key c \<notin> job_key ` set (sendRequests d)"
    and "sendRequests d' = sendRequests d @ [c]" and "auditLog d' = auditLog d @ extra"
    and "send_row_ok c" and "ap_state (sr_approval c) = Ap_approved \<Longrightarrow> approval_evidence extra c"
  shows "send_inv d'"
proof -
  have "approval_evidence extra c \<Longrightarrow> approval_evidence (auditLog d @ extra) c"
    by (auto simp: approval_evidence_def)
  with assms show ?thesis
    by (auto simp: send_inv_def wf_sends_def intro: approval_evidence_mono)
qed

lemma fresh_id_key: "fresh_id d (sr_id c) \<Longrightarrow> send_key c \<notin> send_key ` set (sendRequests d)"
  by (auto simp: fresh_id_def send_key_def list_all_iff)

lemma no_job_key:
  "find (has_idempotency_key (sr_organizationId c) (sr_idempotencyKey c)) xs = None \<Longrightarrow> job_key c \<notin> job_key ` set xs"
  by (auto simp: find_None_iff has_idempotency_key_def job_key_def)

lemma candidate_fields [simp]:
  "sr_id (create_candidate inp now u oid) = u" "sr_organizationId (create_candidate inp now u oid) = ci_organizationId inp"
  "sr_idempotencyKey (create_candidate inp now u oid) = ci_idempotencyKey inp"
  by (simp_all add: create_candidate_def Let_def)

lemma send_inv_createSend:
  assumes "send_inv d" and "fresh_id d u"
  shows "send_inv (fst (createSend d inp now u oid))"
proof (cases "find (has_idempotency_key (ci_organizationId inp) (ci_idempotencyKey inp)) (sendRequests d)")
  case None
  let ?c = "create_candidate inp now u oid"
  have "send_inv (writeAudit (d\<lparr>sendRequests := sendRequests d @ [?c]\<rparr>) (create_audit inp ?c) now)"
  proof (rule send_inv_insert [OF assms(1), where c = ?c and extra = "[auditRow (create_audit inp ?c) now]"])
    show "send_key ?c \<notin> send_key ` set (sendRequests d)" using assms(2) fresh_id_key [of d ?c] by simp
    show "job_key ?c \<notin> job_key ` set (sendRequests d)" using None no_job_key [of ?c] by simp
    show "send_row_ok ?c"
      by (auto simp: send_row_ok_def create_candidate_def Let_def due_status_def split: option.splits)
    show "approval_evidence [auditRow (create_audit inp ?c) now] ?c" if "ap_state (sr_approval ?c) = Ap_approved"
      using that by (auto simp: approval_evidence_def auditRow_def create_audit_def create_candidate_def Let_def split: option.splits)
  qed simp_all
  with None show ?thesis by (simp add: createSend_result)
qed (simp add: createSend_result assms(1))

lemma send_inv_completeUnderLease:
  assumes "send_inv d" and "fresh_id d (sr_id c)" and "send_row_ok c"
    and "ap_state (sr_approval c) = Ap_approved \<Longrightarrow> approval_evidence [auditRow entry now] c"
  shows "send_inv (fst (completeUnderLease d runId token wa c batchIds factIds entry missing now))"
proof -
  have "send_inv d'" if "find (has_idempotency_key (sr_organizationId c) (sr_idempotencyKey c)) (sendRequests d) = None"
    "sendRequests d' = sendRequests d @ [c]" "auditLog d' = auditLog d @ [auditRow entry now]" for d'
    using assms that by (intro send_inv_insert [OF assms(1) _ _ that(2,3)]) (auto dest: no_job_key fresh_id_key)
  then show ?thesis using assms(1) by (simp add: completeUnderLease_result Let_def)
qed

lemma send_inv_automatic:
  "send_inv d \<Longrightarrow> fresh_id d u \<Longrightarrow> send_inv (fst (createAutomaticSendUnderRunLease d auto now u oid))"
  unfolding createAutomaticSendUnderRunLease_def
  by (rule send_inv_completeUnderLease)
    (simp_all add: automatic_candidate_def send_row_ok_def approval_evidence_def auditRow_def)

lemma send_inv_review:
  "send_inv d \<Longrightarrow> fresh_id d u \<Longrightarrow> send_inv (fst (createHumanReviewSendUnderRunLease d hr now u oid))"
  unfolding createHumanReviewSendUnderRunLease_def
  by (rule send_inv_completeUnderLease)
    (simp_all add: human_review_candidate_def send_row_ok_def)

lemma evidence_update:
  "approval_evidence log s \<Longrightarrow> send_key t = send_key s \<Longrightarrow> sr_provenance t = sr_provenance s
     \<Longrightarrow> ap_approvedBy (sr_approval t) = ap_approvedBy (sr_approval s) \<Longrightarrow> approval_evidence log t"
  by (simp add: approval_evidence_def send_key_def)

lemma send_inv_approve:
  assumes "send_inv d"
  shows "send_inv (fst (approve_txn d org i b t ip now))"
proof (cases "snd (approve_txn d org i b t ip now)")
  case True
  let ?d = "fst (approve_txn d org i b t ip now)"
  obtain row where log: "auditLog ?d = auditLog d @ [row]"
    and row: "ar_organizationId row = org" "ar_target row = (T_send, i)" "ar_action row = Send_approved" "ar_actor row = Owner"
    using True by (auto simp: approve_txn_def Let_def auditRow_def split: if_splits)
  show ?thesis
  proof (rule send_inv_update [OF assms _ _ approve_txn_sends log])
    fix s
    assume s: "s \<in> set (sendRequests d)" "send_key s = (org, i) \<and> approvable b s"
    then have "send_row_ok s" using assms by (simp add: send_inv_def)
    then have "send_row_ok (approve_update b t now s)"
      using s(2) by (auto simp: send_row_ok_def approve_update_def approvable_def due_status_def split: if_splits)
    moreover have "approval_evidence (auditLog d @ [row]) (approve_update b t now s)"
      using s(2) row by (auto simp: approval_evidence_def approve_update_def send_key_def)
    ultimately show "send_row_ok (approve_update b t now s) \<and> (ap_state (sr_approval (approve_update b t now s)) = Ap_approved \<longrightarrow>
        approval_evidence (auditLog d @ [row]) (approve_update b t now s))" by simp
  qed simp_all
qed (simp add: approve_txn_loses assms)

lemma send_inv_rewrite:
  assumes "send_inv d" and "\<And>x. send_key (f x) = send_key x" and "\<And>x. job_key (f x) = job_key x"
    and "sendRequests d' = update_one P f (sendRequests d)" and "auditLog d' = auditLog d @ extra"
    and "\<And>s. P s \<Longrightarrow> send_row_ok s \<Longrightarrow> send_row_ok (f s)"
    and "\<And>s. sr_provenance (f s) = sr_provenance s" and "\<And>s. ap_approvedBy (sr_approval (f s)) = ap_approvedBy (sr_approval s)"
    and "\<And>s. P s \<Longrightarrow> send_row_ok s \<Longrightarrow> ap_state (sr_approval (f s)) = Ap_approved \<Longrightarrow> ap_state (sr_approval s) = Ap_approved"
  shows "send_inv d'"
  using assms(1) unfolding send_inv_def
  by (intro send_inv_update [OF assms(1-5), unfolded send_inv_def])
    (auto intro!: assms(6) approval_evidence_mono evidence_update [OF _ assms(2,7,8)] dest: assms(9))

lemma send_inv_transition:
  assumes "send_inv d"
  shows "send_inv (fst (transition_txn d org i action ip actor now))"
proof (cases "snd (transition_txn d org i action ip actor now)")
  case True
  obtain row where log: "auditLog (fst (transition_txn d org i action ip actor now)) = auditLog d @ [row]"
    using True by (auto simp: transition_txn_def Let_def split: if_splits)
  show ?thesis
    by (rule send_inv_rewrite [OF assms _ _ transition_txn_sends log])
      (auto simp: send_row_ok_def transition_update_def transition_allowed_def transition_target_def
        send_key_def job_key_def split: send_decision.splits)
qed (simp add: transition_txn_loses assms)

lemma dispatcher_keys [simp]:
  "send_key (dispatch_claim w now s) = send_key s" "job_key (dispatch_claim w now s) = job_key s"
  "send_key (mark_sent m now s) = send_key s" "job_key (mark_sent m now s) = job_key s"
  "send_key (mark_failed c m now s) = send_key s" "job_key (mark_failed c m now s) = job_key s"
  by (simp_all add: dispatch_claim_def mark_sent_def mark_failed_def send_key_def job_key_def)

text \<open>A dispatcher write moves an approved row among the delivery states and touches neither approval nor provenance.\<close>

lemma send_inv_dispatch:
  assumes "send_inv d"
    and "\<And>s. P s \<Longrightarrow> sr_status s = Approved \<or> sr_status s = Scheduled \<or> sr_status s = Sending"
    and "\<And>s. sr_status (f s) = Sending \<or> sr_status (f s) = Sent \<or> sr_status (f s) = Failed"
    and "\<And>s. sr_approval (f s) = sr_approval s" and "\<And>s. sr_provenance (f s) = sr_provenance s"
    and "\<And>s. send_key (f s) = send_key s" and "\<And>s. job_key (f s) = job_key s"
  shows "send_inv (d\<lparr>sendRequests := update_one P f (sendRequests d)\<rparr>)"
proof (rule send_inv_rewrite [OF assms(1), where P = P and f = f and extra = "[]"])
  show "send_row_ok (f s)" if "P s" "send_row_ok s" for s
    using assms(2) [OF that(1)] assms(3) [of s] that(2) assms(4) by (auto simp: send_row_ok_def)
qed (simp_all add: assms)

lemma send_write_inv: "send_write d d' \<Longrightarrow> send_inv d \<Longrightarrow> send_inv d'"
proof (induction rule: send_write.induct)
  case (claim d k maxAttempts staleBefore now w)
  then show ?case
    by (rule send_inv_dispatch) (auto simp: claimable_def dispatch_claim_def send_key_def job_key_def)
next
  case (sent d k w m now)
  then show ?case
    by (rule send_inv_dispatch) (auto simp: holds_claim_def mark_sent_def send_key_def job_key_def)
next
  case (failed d k w cls message now)
  then show ?case
    by (rule send_inv_dispatch) (auto simp: holds_claim_def mark_failed_def send_key_def job_key_def)
qed (auto intro: send_inv_createSend send_inv_automatic send_inv_review send_inv_approve send_inv_transition)

lemma send_reachable_inv: "send_reachable d \<Longrightarrow> send_inv d"
proof (induction rule: send_reachable.induct)
  case (start d)
  then show ?case by (simp add: send_inv_def wf_sends_def)
next
  case (step d d')
  then show ?case by (blast intro: send_write_inv)
qed

section \<open>Rows that are finished\<close>

definition finished :: "send_row \<Rightarrow> bool" where
  "finished s \<longleftrightarrow> sr_status s = Rejected \<or> sr_status s = Cancelled \<or> sr_status s = Sent"

lemma getSend_update_unmatched:
  assumes "getSend d org i = Some s" and "wf_sends d" and "\<not> P s" and "\<And>x. send_key (f x) = send_key x"
    and "sendRequests d' = update_one (\<lambda>x. send_key x = k \<and> P x) f (sendRequests d)"
  shows "getSend d' org i = Some s"
proof (cases "k = (org, i)")
  case True
  with assms show ?thesis by (simp add: getSend_by_key wf_sends_def by_key_update_same)
next
  case False
  then have "by_key send_key (org, i) (sendRequests d') = by_key send_key (org, i) (sendRequests d)"
    unfolding assms(5) by (intro by_key_update_other) (auto simp: assms(4))
  with assms(1) show ?thesis by (simp add: getSend_by_key)
qed

lemma getSend_append: "getSend d org i = Some s \<Longrightarrow> \<exists>rows. sendRequests d' = sendRequests d @ rows \<Longrightarrow> getSend d' org i = Some s"
  by (auto simp: getSend_def find_append)

lemma createSend_appends: "\<exists>rows. sendRequests (fst (createSend d inp now u oid)) = sendRequests d @ rows"
  by (auto simp: createSend_result split: option.splits)

lemma completeUnderLease_appends:
  "\<exists>rows. sendRequests (fst (completeUnderLease d runId token wa c batchIds factIds entry missing now)) = sendRequests d @ rows"
  by (auto simp: completeUnderLease_result Let_def)

lemma send_write_finished:
  assumes "send_write d d'" and "wf_sends d" and "getSend d org i = Some s" and "finished s"
  shows "getSend d' org i = Some s"
  using assms
proof (induction rule: send_write.induct)
  case (create d u inp now oid)
  show ?case by (rule getSend_append [OF create.prems(2) createSend_appends])
next
  case (automatic d u auto now oid)
  show ?case
    unfolding createAutomaticSendUnderRunLease_def
    by (rule getSend_append [OF automatic.prems(2) completeUnderLease_appends])
next
  case (review d u hr now oid)
  show ?case
    unfolding createHumanReviewSendUnderRunLease_def
    by (rule getSend_append [OF review.prems(2) completeUnderLease_appends])
next
  case (approve d org' i' b t ip now)
  show ?case
    by (rule getSend_update_unmatched [OF approve.prems(2,1) _ _ approve_txn_sends])
      (use approve.prems(3) in \<open>auto simp: approvable_def finished_def\<close>)
next
  case (transition d org' i' action ip actor now)
  show ?case
    by (rule getSend_update_unmatched [OF transition.prems(2,1) _ _ transition_txn_sends])
      (use transition.prems(3) in \<open>auto simp: transition_allowed_def finished_def split: send_decision.splits\<close>)
next
  case (claim d k maxAttempts staleBefore now w)
  show ?case
    by (rule getSend_update_unmatched [OF claim.prems(2,1), where P = "claimable maxAttempts staleBefore now" and f = "dispatch_claim w now" and k = k])
      (use claim.prems(3) in \<open>auto simp: claimable_def finished_def\<close>)
next
  case (sent d k w m now)
  show ?case
    by (rule getSend_update_unmatched [OF sent.prems(2,1), where P = "holds_claim w" and f = "mark_sent m now" and k = k])
      (use sent.prems(3) in \<open>auto simp: holds_claim_def finished_def\<close>)
next
  case (failed d k w cls message now)
  show ?case
    by (rule getSend_update_unmatched [OF failed.prems(2,1), where P = "holds_claim w" and f = "mark_failed cls message now" and k = k])
      (use failed.prems(3) in \<open>auto simp: holds_claim_def finished_def\<close>)
qed

lemma send_inv_wf: "send_inv d \<Longrightarrow> wf_sends d"
  by (simp add: send_inv_def)

lemma send_writes_finished:
  assumes "send_write\<^sup>*\<^sup>* d d'" and "send_inv d" and "getSend d org i = Some s" and "finished s"
  shows "getSend d' org i = Some s \<and> send_inv d'"
  using assms
proof (induction rule: rtranclp_induct)
  case (step d1 d2)
  then show ?case by (blast intro: send_write_inv send_write_finished send_inv_wf)
qed simp

section \<open>Properties of the queue\<close>

text \<open>Concrete inputs the witnesses evaluate.\<close>

definition ex_assistant_send :: create_send_input where
  "ex_assistant_send = \<lparr>ci_organizationId = js ''org'', ci_instanceId = js ''i1'', ci_groupJid = js ''g@g.us'',
     ci_text = js ''hello'', ci_idempotencyKey = js ''action:a1'', ci_actorIP = js ''direct'',
     ci_decision = Some (Assistant, Some 50)\<rparr>"

definition ex_manual_send :: create_send_input where
  "ex_manual_send = ex_assistant_send\<lparr>ci_idempotencyKey := js ''k1'', ci_decision := None\<rparr>"

definition ex_queue :: db where
  "ex_queue = fst (createSend (fst (createSend empty_db ex_assistant_send 10 (js ''s1'') (js ''o1''))) ex_manual_send 20 (js ''s2'') (js ''o2''))"

lemmas ex_queue_eval = ex_queue_def createSend_result ex_assistant_send_def ex_manual_send_def empty_db_def
  create_candidate_def has_idempotency_key_def due_status_def new_dispatch_def create_audit_def auditRow_def

lemma ex_queue_rows: "sendRequests ex_queue =
  [create_candidate ex_assistant_send 10 (js ''s1'') (js ''o1''), create_candidate ex_manual_send 20 (js ''s2'') (js ''o2'')]"
  by (simp add: ex_queue_eval)

lemma ex_queue_reachable: "send_reachable ex_queue"
proof -
  have "send_reachable empty_db" by (rule send_reachable.start) (simp add: empty_db_def)
  moreover have "fresh_id empty_db (js ''s1'')" by (simp add: fresh_id_def empty_db_def)
  moreover have "fresh_id (fst (createSend empty_db ex_assistant_send 10 (js ''s1'') (js ''o1''))) (js ''s2'')"
    by (simp add: fresh_id_def ex_queue_eval)
  ultimately show ?thesis unfolding ex_queue_def by (meson send_reachable.step send_write.create)
qed

text \<open>C1: In every state the queue can reach, by any interleaving of the server's writes and the
  dispatcher's, a send that has left \<open>pending_approval\<close> for anything but \<open>rejected\<close> carries an approval
  and a named approver, and the audit log holds the record that accounts for it: the owner's \<open>send.approved\<close>,
  or the \<open>send.created\<close> of an approver or of the worker's owner-mention path.\<close>

theorem delivery_needs_recorded_approval:
  assumes "send_reachable d" and "s \<in> set (sendRequests d)"
    and "sr_status s \<notin> {Pending_approval, Rejected}"
  shows "ap_state (sr_approval s) = Ap_approved \<and> ap_approvedBy (sr_approval s) \<noteq> None \<and> approval_evidence (auditLog d) s"
proof -
  have ok: "send_row_ok s" and ev: "ap_state (sr_approval s) = Ap_approved \<longrightarrow> approval_evidence (auditLog d) s"
    using send_reachable_inv [OF assms(1)] assms(2) by (simp_all add: send_inv_def)
  from ok assms(3) have "ap_state (sr_approval s) = Ap_approved" "ap_approvedBy (sr_approval s) \<noteq> None"
    by (cases "sr_status s"; simp add: send_row_ok_def)+
  with ev show ?thesis by simp
qed

theorem delivery_needs_recorded_approval_witness:
  "approval_evidence (auditLog ex_queue) (create_candidate ex_assistant_send 10 (js ''s1'') (js ''o1''))"
proof -
  have "create_candidate ex_assistant_send 10 (js ''s1'') (js ''o1'') \<in> set (sendRequests ex_queue)"
    by (simp add: ex_queue_rows)
  moreover have "sr_status (create_candidate ex_assistant_send 10 (js ''s1'') (js ''o1'')) \<notin> {Pending_approval, Rejected}"
    by (simp add: create_candidate_def ex_assistant_send_def due_status_def)
  ultimately show ?thesis using delivery_needs_recorded_approval [OF ex_queue_reachable] by blast
qed

text \<open>C2: A send that was rejected, cancelled or sent is final: no sequence of approvals, retries,
  cancellations, creations and dispatcher writes, however interleaved, changes any field of it.\<close>

theorem finished_sends_are_final:
  assumes "send_reachable d" and "send_write\<^sup>*\<^sup>* d d'" and "getSend d org i = Some s"
    and "sr_status s = Rejected \<or> sr_status s = Cancelled \<or> sr_status s = Sent"
  shows "getSend d' org i = Some s"
  using send_writes_finished [OF assms(2) send_reachable_inv [OF assms(1)] assms(3)] assms(4)
  by (simp add: finished_def)

theorem finished_sends_are_final_witness:
  "let d = fst (transition_txn ex_queue (js ''org'') (js ''s2'') Reject (js ''direct'') Owner 30);
       d' = fst (approve_txn d (js ''org'') (js ''s2'') True 40 (js ''direct'') 40)
   in map_option sr_status (getSend d' (js ''org'') (js ''s2'')) = Some Rejected"
proof -
  let ?d = "fst (transition_txn ex_queue (js ''org'') (js ''s2'') Reject (js ''direct'') Owner 30)"
  let ?d' = "fst (approve_txn ?d (js ''org'') (js ''s2'') True 40 (js ''direct'') 40)"
  let ?s = "transition_update Reject 30 (create_candidate ex_manual_send 20 (js ''s2'') (js ''o2''))"
  have "send_reachable ?d" using ex_queue_reachable send_write.transition send_reachable.step by blast
  moreover have "send_write\<^sup>*\<^sup>* ?d ?d'" using send_write.approve by blast
  moreover have "getSend ?d (js ''org'') (js ''s2'') = Some ?s"
    by (simp add: getSend_def transition_txn_def ex_queue_rows Let_def modified_def transition_allowed_def
        transition_update_def create_candidate_def ex_manual_send_def ex_assistant_send_def)
  moreover have "sr_status ?s = Rejected" by (simp add: transition_update_def transition_target_def)
  ultimately have "getSend ?d' (js ''org'') (js ''s2'') = Some ?s"
    using finished_sends_are_final by blast
  then show ?thesis by (simp add: Let_def transition_update_def transition_target_def)
qed

text \<open>
  What a caller may ask of a send: an approval, with the filter its own earlier read chose (which may be stale by now), a rejection or a
  cancellation. The calls that win on one send, in order.
\<close>

datatype queue_decision = Approves bool time jstr time | Decides send_decision jstr actor time

definition decide_send :: "queue_decision \<Rightarrow> db \<Rightarrow> jstr \<times> jstr \<Rightarrow> db \<times> bool" where
  "decide_send q d k = (case q of
      Approves initialApproval scheduledFor ip now \<Rightarrow> approve_txn d (fst k) (snd k) initialApproval scheduledFor ip now
    | Decides action ip actor now \<Rightarrow> transition_txn d (fst k) (snd k) action ip actor now)"

fun decisions_won :: "(queue_decision \<times> jstr \<times> jstr) list \<Rightarrow> db \<Rightarrow> jstr \<times> jstr \<Rightarrow> queue_decision list" where
  "decisions_won [] d k = []"
| "decisions_won ((q, j) # cs) d k =
     (let r = decide_send q d j; later = decisions_won cs (fst r) k in if snd r \<and> j = k then q # later else later)"

definition permits :: "queue_decision \<Rightarrow> send_row \<Rightarrow> bool" where
  "permits q s = (case q of Approves b t ip now \<Rightarrow> approvable b s | Decides a ip actor now \<Rightarrow> transition_allowed a (sr_status s))"

definition decided :: "queue_decision \<Rightarrow> send_row \<Rightarrow> send_row" where
  "decided q s = (case q of Approves b t ip now \<Rightarrow> approve_update b t now s | Decides a ip actor now \<Rightarrow> transition_update a now s)"

definition approves :: "queue_decision \<Rightarrow> bool" where
  "approves q \<longleftrightarrow> (case q of Approves b t ip now \<Rightarrow> True | Decides a ip actor now \<Rightarrow> False)"

definition cancels :: "queue_decision \<Rightarrow> bool" where
  "cancels q \<longleftrightarrow> (case q of Approves b t ip now \<Rightarrow> False | Decides a ip actor now \<Rightarrow> a = Cancel)"

fun row_winners :: "send_row \<Rightarrow> queue_decision list \<Rightarrow> queue_decision list" where
  "row_winners s [] = []"
| "row_winners s (q # qs) = (if permits q s then q # row_winners (decided q s) qs else row_winners s qs)"

lemma decide_send_step:
  assumes "wf_sends d"
  shows "wf_sends (fst (decide_send q d j))"
    and "snd (decide_send q d j) \<longleftrightarrow> (\<exists>s. getSend d (fst j) (snd j) = Some s \<and> permits q s)"
    and "getSend (fst (decide_send q d j)) (fst k) (snd k) =
      (if j = k then map_option (\<lambda>s. if permits q s then decided q s else s) (getSend d (fst k) (snd k)) else getSend d (fst k) (snd k))"
proof -
  show "wf_sends (fst (decide_send q d j))"
    using assms by (cases q) (simp_all add: decide_send_def wf_transition_txn wf_approve_txn)
  show "snd (decide_send q d j) \<longleftrightarrow> (\<exists>s. getSend d (fst j) (snd j) = Some s \<and> permits q s)"
    using assms by (cases q) (simp_all add: decide_send_def permits_def transition_txn_wins approve_txn_wins)
  show "getSend (fst (decide_send q d j)) (fst k) (snd k) =
      (if j = k then map_option (\<lambda>s. if permits q s then decided q s else s) (getSend d (fst k) (snd k)) else getSend d (fst k) (snd k))"
    using assms by (cases q; cases j; cases k)
      (auto simp: decide_send_def permits_def decided_def getSend_transition_txn getSend_approve_txn getSend_txn_other
        intro!: map_option_cong)
qed

lemma decisions_won_row:
  "wf_sends d \<Longrightarrow> decisions_won cs d k =
    (case getSend d (fst k) (snd k) of None \<Rightarrow> [] | Some s \<Rightarrow> row_winners s (map fst (filter (\<lambda>c. snd c = k) cs)))"
proof (induction cs arbitrary: d)
  case (Cons c cs)
  obtain q j where c: "c = (q, j)" by (cases c)
  note step = decide_send_step [OF Cons.prems, of q j]
  show ?case
    using Cons.IH [OF step(1)] step(2) step(3) [of k] by (auto simp: c Let_def split: option.splits)
qed (simp split: option.split)

lemma permits_after_closing: "\<not> permits q (transition_update a now s)"
  by (cases q; cases a) (auto simp: permits_def transition_update_def transition_target_def transition_allowed_def approvable_def split: send_decision.splits)

lemma permits_after_approval: "permits q (approve_update b t now s) \<longleftrightarrow> cancels q"
  by (cases q) (auto simp: permits_def cancels_def approve_update_def transition_allowed_def approvable_def due_status_def split: send_decision.splits)

lemma row_winners_closed: "(\<And>q. \<not> permits q s) \<Longrightarrow> row_winners s qs = []"
  by (induction qs) auto

lemma row_winners_approved: "(\<And>q. permits q s \<longleftrightarrow> cancels q) \<Longrightarrow> row_winners s qs = take 1 (filter cancels qs)"
proof (induction qs)
  case (Cons q qs)
  show ?case
  proof (cases "cancels q")
    case True
    then obtain ip actor now where "q = Decides Cancel ip actor now" by (cases q) (auto simp: cancels_def)
    then have "row_winners (decided q s) qs = []" by (auto intro: row_winners_closed simp: decided_def permits_after_closing)
    with True Cons.prems show ?thesis by simp
  next
    case False
    with Cons show ?thesis by simp
  qed
qed simp

lemma row_winners_eq:
  "row_winners s qs = (case dropWhile (\<lambda>q. \<not> permits q s) qs of
      [] \<Rightarrow> [] | q # later \<Rightarrow> q # (if approves q then take 1 (filter cancels later) else []))"
proof (induction qs)
  case (Cons q qs)
  show ?case
  proof (cases "permits q s")
    case True
    have "row_winners (decided q s) qs = (if approves q then take 1 (filter cancels qs) else [])"
      by (cases q) (simp_all add: decided_def approves_def row_winners_approved [OF permits_after_approval] row_winners_closed [OF permits_after_closing])
    with True show ?thesis by simp
  next
    case False
    with Cons show ?thesis by simp
  qed
qed simp

text \<open>C3: Of any number of callers deciding the same send, whether they approve, reject or cancel it (a double click, the console racing a
  direct message, an approval that read the row before somebody else moved it), exactly the first one wins whose decision the row's state
  admits; after a rejection or a cancellation nobody wins any more, and after an approval only the first cancellation does. Every other call
  fails, so a send is approved at most once, closed at most once, and never approved or rejected after it was decided.\<close>

theorem send_decided_once:
  assumes "wf_sends d"
  shows "decisions_won cs d k =
    (case getSend d (fst k) (snd k) of
       None \<Rightarrow> []
     | Some s \<Rightarrow> (case dropWhile (\<lambda>q. \<not> permits q s) (map fst (filter (\<lambda>c. snd c = k) cs)) of
          [] \<Rightarrow> []
        | q # later \<Rightarrow> q # (if approves q then take 1 (filter cancels later) else [])))"
  using decisions_won_row [OF assms, of cs k] by (simp only: row_winners_eq)

theorem send_decided_once_witness:
  "decisions_won [(Decides Cancel (js ''direct'') Owner 30, (js ''org'', js ''s1'')), (Decides Cancel (js ''worker'') Assistant 31, (js ''org'', js ''s1''))]
     ex_queue (js ''org'', js ''s1'') = [Decides Cancel (js ''direct'') Owner 30]"
proof -
  have wf: "wf_sends ex_queue" using ex_queue_reachable send_reachable_inv send_inv_wf by blast
  have row: "getSend ex_queue (js ''org'') (js ''s1'') = Some (create_candidate ex_assistant_send 10 (js ''s1'') (js ''o1''))"
    by (simp add: getSend_def ex_queue_rows create_candidate_def ex_assistant_send_def)
  have "permits (Decides Cancel ip actor now) (create_candidate ex_assistant_send 10 (js ''s1'') (js ''o1''))" for ip actor now
    by (simp add: permits_def create_candidate_def ex_assistant_send_def due_status_def transition_allowed_def)
  then show ?thesis
    unfolding send_decided_once [OF wf] by (simp add: row approves_def)
qed

text \<open>Creating a send is idempotent on \<open>(organisation, idempotency key)\<close>: it never throws, and any
  later creation under the same key, whatever else it carries, answers the row the first one stored
  and writes nothing, the audit log included.\<close>

theorem createSend_idempotent:
  assumes "ci_organizationId again = ci_organizationId inp" and "ci_idempotencyKey again = ci_idempotencyKey inp"
  shows "\<exists>s. createSend d inp now u oid = (fst (createSend d inp now u oid), Inr s)
    \<and> createSend (fst (createSend d inp now u oid)) again now' u' oid' = (fst (createSend d inp now u oid), Inr s)"
proof (cases "find (has_idempotency_key (ci_organizationId inp) (ci_idempotencyKey inp)) (sendRequests d)")
  case None
  moreover have "has_idempotency_key (ci_organizationId inp) (ci_idempotencyKey inp) (create_candidate inp now u oid)"
    by (simp add: has_idempotency_key_def)
  ultimately show ?thesis by (simp add: createSend_result assms find_append)
qed (simp add: createSend_result assms)

theorem createSend_idempotent_witness:
  "createSend (fst (createSend empty_db ex_assistant_send 10 (js ''s1'') (js ''o1'')))
     (ex_assistant_send\<lparr>ci_text := js ''other''\<rparr>) 99 (js ''s9'') (js ''o9'') =
   createSend empty_db ex_assistant_send 10 (js ''s1'') (js ''o1'')"
proof -
  have "ci_organizationId (ex_assistant_send\<lparr>ci_text := js ''other''\<rparr>) = ci_organizationId ex_assistant_send"
    "ci_idempotencyKey (ex_assistant_send\<lparr>ci_text := js ''other''\<rparr>) = ci_idempotencyKey ex_assistant_send" by simp_all
  from createSend_idempotent [OF this, of empty_db 10 "js ''s1''" "js ''o1''" 99 "js ''s9''" "js ''o9''"]
  show ?thesis by metis
qed

text \<open>C4: The automatic answer of a reply job is created at most once and only by the run's live
  holder: when the creation returns a send, the caller's token held an unexpired lease on the job's
  processing run, the run is completed with that very send in the same commit, and from then on no
  creation under the job's key, automatic or for review, under any token, changes the database;
  any other outcome leaves the database as it was.\<close>

theorem automatic_send_once:
  assumes "createAutomaticSendUnderRunLease d inp now u oid = (d', res)"
  shows "(res = Inr (Completed (automatic_candidate inp now u oid))
      \<and> (\<exists>r \<in> set (agentReplyRuns d). owns_run (au_runId inp) (au_leaseToken inp) (au_organizationId inp) (au_instanceId inp)
            (au_groupJid inp) (au_waMessageId inp) now r
          \<and> complete_run oid (au_memoryBatchIds inp) (au_memoryFactIds inp) now r \<in> set (agentReplyRuns d'))
      \<and> sendRequests d' = sendRequests d @ [automatic_candidate inp now u oid]
      \<and> (\<forall>inp' now' u' oid'. au_organizationId inp' = au_organizationId inp \<and> au_idempotencyKey inp' = au_idempotencyKey inp
            \<longrightarrow> fst (createAutomaticSendUnderRunLease d' inp' now' u' oid') = d')
      \<and> (\<forall>inp' now' u' oid'. hr_organizationId inp' = au_organizationId inp \<and> hr_idempotencyKey inp' = au_idempotencyKey inp
            \<longrightarrow> fst (createHumanReviewSendUnderRunLease d' inp' now' u' oid') = d'))
    \<or> (d' = d \<and> (\<forall>s. res \<noteq> Inr (Completed s)))"
proof -
  let ?c = "automatic_candidate inp now u oid"
  let ?guard = "owns_run (au_runId inp) (au_leaseToken inp) (au_organizationId inp) (au_instanceId inp) (au_groupJid inp) (au_waMessageId inp) now"
  have c: "sr_organizationId ?c = au_organizationId inp" "sr_instanceId ?c = au_instanceId inp" "sr_groupJid ?c = au_groupJid inp"
    "sr_idempotencyKey ?c = au_idempotencyKey inp" "sr_oid ?c = oid" by (simp_all add: automatic_candidate_def)
  note res = assms [unfolded createAutomaticSendUnderRunLease_def completeUnderLease_result c Let_def, symmetric]
  show ?thesis
  proof (cases "find ?guard (agentReplyRuns d)")
    case None
    with res show ?thesis by simp
  next
    case (Some r)
    show ?thesis
    proof (cases "find (has_idempotency_key (au_organizationId inp) (au_idempotencyKey inp)) (sendRequests d)")
      case None
      with res Some have d': "sendRequests d' = sendRequests d @ [?c]" "res = Inr (Completed ?c)"
        "agentReplyRuns d' = update_one ?guard (complete_run oid (au_memoryBatchIds inp) (au_memoryFactIds inp) now) (agentReplyRuns d)"
        by simp_all
      have taken: "find (has_idempotency_key (au_organizationId inp) (au_idempotencyKey inp)) (sendRequests d') = Some ?c"
        using None c by (simp add: d' find_append has_idempotency_key_def)
      have "fst (createAutomaticSendUnderRunLease d' inp' now' u' oid') = d'"
        if "au_organizationId inp' = au_organizationId inp" "au_idempotencyKey inp' = au_idempotencyKey inp" for inp' now' u' oid'
        using taken that by (simp add: createAutomaticSendUnderRunLease_def completeUnderLease_result automatic_candidate_def Let_def)
      moreover have "fst (createHumanReviewSendUnderRunLease d' inp' now' u' oid') = d'"
        if "hr_organizationId inp' = au_organizationId inp" "hr_idempotencyKey inp' = au_idempotencyKey inp" for inp' now' u' oid'
        using taken that by (simp add: createHumanReviewSendUnderRunLease_def completeUnderLease_result human_review_candidate_def Let_def)
      moreover have "r \<in> set (agentReplyRuns d) \<and> ?guard r" using Some by (rule find_Some_in)
      moreover have "complete_run oid (au_memoryBatchIds inp) (au_memoryFactIds inp) now r \<in> set (agentReplyRuns d')"
        unfolding d'(3) by (rule find_Some_update [OF Some])
      ultimately show ?thesis using d' by blast
    next
      case (Some s)
      with res show ?thesis by (auto split: if_splits)
    qed
  qed
qed

definition ex_run :: reply_run where
  "ex_run = \<lparr>rr_oid = js ''r1'', rr_organizationId = js ''org'', rr_instanceId = js ''i1'', rr_groupJid = js ''g@g.us'',
     rr_waMessageId = js ''m1'', rr_state = Run_processing, rr_lease = Some \<lparr>ls_token = js ''t1'', ls_expiresAt = 200\<rparr>,
     rr_attempts = 1, rr_nextAttemptAt = None, rr_sendRequestId = None, rr_memoryBatchIds = [], rr_memoryFactIds = [],
     rr_failure = None, rr_createdAt = 80, rr_completedAt = None, rr_updatedAt = 80\<rparr>"

definition ex_automatic :: automatic_send_input where
  "ex_automatic = \<lparr>au_runId = js ''r1'', au_leaseToken = js ''t1'', au_organizationId = js ''org'', au_instanceId = js ''i1'',
     au_groupJid = js ''g@g.us'', au_chatKind = Chat_group, au_waMessageId = js ''m1'', au_text = js ''answer'',
     au_idempotencyKey = js ''owner-mention:i1:g:m1'', au_replyToMessageId = js ''m1'', au_memoryBatchIds = [], au_memoryFactIds = []\<rparr>"

theorem automatic_send_once_witness:
  "let d = empty_db\<lparr>agentReplyRuns := [ex_run]\<rparr>;
       d' = fst (createAutomaticSendUnderRunLease d ex_automatic 100 (js ''s1'') (js ''o1''))
   in length (sendRequests d') = 1
      \<and> fst (createAutomaticSendUnderRunLease d' (ex_automatic\<lparr>au_text := js ''again''\<rparr>) 110 (js ''s2'') (js ''o2'')) = d'"
proof -
  let ?d = "empty_db\<lparr>agentReplyRuns := [ex_run]\<rparr>"
  obtain d' res where eq: "createAutomaticSendUnderRunLease ?d ex_automatic 100 (js ''s1'') (js ''o1'') = (d', res)"
    by fastforce
  then have "res = Inr (Completed (automatic_candidate ex_automatic 100 (js ''s1'') (js ''o1'')))"
    by (auto simp: createAutomaticSendUnderRunLease_def completeUnderLease_result automatic_candidate_def
        ex_automatic_def ex_run_def owns_run_def empty_db_def Let_def)
  with automatic_send_once [OF eq]
  have "sendRequests d' = sendRequests ?d @ [automatic_candidate ex_automatic 100 (js ''s1'') (js ''o1'')]"
    and again: "\<forall>inp' now' u' oid'. au_organizationId inp' = au_organizationId ex_automatic \<and> au_idempotencyKey inp' = au_idempotencyKey ex_automatic
      \<longrightarrow> fst (createAutomaticSendUnderRunLease d' inp' now' u' oid') = d'" by auto
  then have "length (sendRequests d') = 1" by (simp add: empty_db_def)
  moreover have "fst (createAutomaticSendUnderRunLease d' (ex_automatic\<lparr>au_text := js ''again''\<rparr>) 110 (js ''s2'') (js ''o2'')) = d'"
    using again [rule_format, of "ex_automatic\<lparr>au_text := js ''again''\<rparr>"] by simp
  ultimately show ?thesis by (simp add: eq Let_def)
qed

text \<open>The apology queued for a refused answer cannot go out on its own: the row the creation
  returns carries the fixed text, waits in \<open>pending_approval\<close>, no dispatcher may claim it, and its
  audit record names the refusal.\<close>

theorem human_review_waits_for_owner:
  assumes "createHumanReviewSendUnderRunLease d inp now u oid = (d', Inr (Completed s))"
  shows "sr_text s = human_review_apology \<and> sr_status s = Pending_approval \<and> getSend d' (hr_organizationId inp) u \<noteq> None
    \<and> \<not> claimable maxAttempts staleBefore t s
    \<and> (\<exists>a. auditLog d' = auditLog d @ [a] \<and> ar_action a = Reply_output_rejected \<and> ar_target a = (T_send, sr_id s)
        \<and> field (ar_meta a) ''reason'' = Some (JStr (hr_reason inp)))"
  using assms
  by (auto simp: createHumanReviewSendUnderRunLease_def completeUnderLease_result human_review_candidate_def Let_def
      claimable_def auditRow_def getSend_def find_append split: if_splits option.splits)

definition ex_review :: human_review_input where
  "ex_review = \<lparr>hr_runId = js ''r1'', hr_leaseToken = js ''t1'', hr_organizationId = js ''org'', hr_instanceId = js ''i1'',
     hr_groupJid = js ''g@g.us'', hr_chatKind = Chat_group, hr_waMessageId = js ''m1'',
     hr_idempotencyKey = js ''owner-mention:i1:g:m1'', hr_replyToMessageId = js ''m1'', hr_reason = js ''unsafe_link''\<rparr>"

theorem human_review_waits_for_owner_witness:
  "\<not> claimable 5 0 1000 (human_review_candidate ex_review 100 (js ''s1'') (js ''o1''))"
proof -
  let ?d = "empty_db\<lparr>agentReplyRuns := [ex_run]\<rparr>"
  have "createHumanReviewSendUnderRunLease ?d ex_review 100 (js ''s1'') (js ''o1'') =
      (fst (createHumanReviewSendUnderRunLease ?d ex_review 100 (js ''s1'') (js ''o1'')),
       Inr (Completed (human_review_candidate ex_review 100 (js ''s1'') (js ''o1''))))"
    by (simp add: createHumanReviewSendUnderRunLease_def completeUnderLease_result human_review_candidate_def
        ex_review_def ex_run_def owns_run_def empty_db_def Let_def)
  from human_review_waits_for_owner [OF this] show ?thesis by blast
qed

text \<open>What the owner's approval answers, by the state of the send: an unknown or foreign id is
  \<open>not_found\<close>, a failure that may have been delivered is \<open>ambiguous\<close> and never retried, a pending
  send is approved by the owner, another failure is queued again under its old approval, and any
  other state is \<open>invalid_state\<close>; a refusal writes nothing.\<close>

theorem approveSend_outcomes:
  assumes "wf_sends d"
  shows "approveSend d org i ip scheduled now =
    (let t = (case scheduled of None \<Rightarrow> now | Some t \<Rightarrow> t)
     in case getSend d org i of
       None \<Rightarrow> (d, Not_found)
     | Some s \<Rightarrow>
        if sr_status s = Failed then
          (if dp_errorClass (sr_dispatch s) = Some ambiguous_class then (d, Ambiguous)
           else (fst (approve_txn d org i False t ip now), Now_row (approve_update False t now s)))
        else if sr_status s = Pending_approval \<and> ap_state (sr_approval s) = Ap_pending
          then (fst (approve_txn d org i True t ip now), Now_row (approve_update True t now s))
        else (d, Invalid_state))"
proof (cases "getSend d org i")
  case (Some s)
  have "snd (approve_txn d org i b t ip now) \<longleftrightarrow> approvable b s" for b t
    using approve_txn_wins [OF assms] Some by simp
  moreover have "getSend (fst (approve_txn d org i b t ip now)) org i = Some (approve_update b t now s)" if "approvable b s" for b t
    using getSend_approve_txn [OF assms] Some that by simp
  ultimately show ?thesis
    using Some by (auto simp: approveSend_def approve_check_def approvable_def Let_def split: option.splits)
qed (simp add: approveSend_def approve_check_def)

theorem approveSend_outcomes_witness:
  "map_option sr_status (getSend (fst (approveSend ex_queue (js ''org'') (js ''s2'') (js ''direct'') (Some 90) 40)) (js ''org'') (js ''s2''))
     = Some Scheduled
   \<and> snd (approveSend ex_queue (js ''org'') (js ''s1'') (js ''direct'') None 40) = Invalid_state"
proof -
  have wf: "wf_sends ex_queue" using ex_queue_reachable send_reachable_inv send_inv_wf by blast
  have s1: "getSend ex_queue (js ''org'') (js ''s1'') = Some (create_candidate ex_assistant_send 10 (js ''s1'') (js ''o1''))"
    and s2: "getSend ex_queue (js ''org'') (js ''s2'') = Some (create_candidate ex_manual_send 20 (js ''s2'') (js ''o2''))"
    by (simp_all add: getSend_def ex_queue_rows create_candidate_def ex_assistant_send_def ex_manual_send_def)
  have p2: "approvable True (create_candidate ex_manual_send 20 (js ''s2'') (js ''o2''))"
    by (simp add: approvable_def create_candidate_def ex_manual_send_def)
  show ?thesis
    using approveSend_outcomes [OF wf, of "js ''org''" "js ''s2''" "js ''direct''" "Some 90" 40]
      approveSend_outcomes [OF wf, of "js ''org''" "js ''s1''" "js ''direct''" None 40] s1 s2 p2
    by (simp add: Let_def getSend_approve_txn [OF wf] create_candidate_def ex_assistant_send_def ex_manual_send_def
        due_status_def approve_update_def)
qed

end
