(* ===== verification/ReplyLeases.thy ===== *)
theory ReplyLeases
  imports ReplyRuns SendQueue
begin

text \<open>
  What the lease machine of the reply runs guarantees: one live holder per job, five granted
  attempts at most, finished runs final, retries inside their window.
\<close>

section \<open>Jobs and well-formedness\<close>

type_synonym job = "jstr \<times> jstr \<times> jstr \<times> jstr"

definition run_key :: "reply_run \<Rightarrow> job" where
  "run_key r = (rr_organizationId r, rr_instanceId r, rr_groupJid r, rr_waMessageId r)"

definition job_of :: "reply_scope \<Rightarrow> job" where
  "job_of scope = (rs_organizationId scope, rs_instanceId scope, rs_groupJid scope, rs_waMessageId scope)"

definition run_at :: "db \<Rightarrow> job \<Rightarrow> reply_run option" where
  "run_at d k = by_key run_key k (agentReplyRuns d)"

text \<open>The unique index on the job's key, and the driver's ids.\<close>

definition wf_runs :: "db \<Rightarrow> bool" where
  "wf_runs d \<longleftrightarrow> distinct (map run_key (agentReplyRuns d)) \<and> distinct (map rr_oid (agentReplyRuns d))"

definition fresh_run :: "oid \<Rightarrow> db \<Rightarrow> bool" where
  "fresh_run oid d \<longleftrightarrow> list_all (\<lambda>r. rr_oid r \<noteq> oid) (agentReplyRuns d)"

lemma run_of_key: "run_of scope = (\<lambda>r. run_key r = job_of scope)"
  by (auto simp: run_of_def run_key_def job_of_def)

lemma find_run: "find (run_of scope) (agentReplyRuns d) = run_at d (job_of scope)"
  by (simp add: run_of_key run_at_def by_key_def)

lemma run_frame [simp]:
  "run_key (reclaim token now r) = run_key r" "rr_oid (reclaim token now r) = rr_oid r"
  "run_key (exhaust c now r) = run_key r" "rr_oid (exhaust c now r) = rr_oid r"
  "run_key (extend_lease now r) = run_key r" "rr_oid (extend_lease now r) = rr_oid r"
  "run_key (finish_run s now r) = run_key r" "rr_oid (finish_run s now r) = rr_oid r"
  "run_key (complete_run s b fs now r) = run_key r" "rr_oid (complete_run s b fs now r) = rr_oid r"
  "run_key (fail_update dg i n f now r) = run_key r" "rr_oid (fail_update dg i n f now r) = rr_oid r"
  "run_key (new_run scope token now oid) = job_of scope" "rr_oid (new_run scope token now oid) = oid"
  by (simp_all add: run_key_def reclaim_def exhaust_def extend_lease_def finish_run_def complete_run_def
      fail_update_def new_run_def job_of_def Let_def)

lemma set_runs_runs [simp]: "agentReplyRuns (set_runs d P f) = update_one P f (agentReplyRuns d)"
  by (simp add: set_runs_def)

lemma set_runs_no_match: "find P (agentReplyRuns d) = None \<Longrightarrow> set_runs d P f = d"
  by (simp add: set_runs_def update_one_no_match)

lemma wf_set_runs:
  "wf_runs d \<Longrightarrow> (\<And>r. run_key (f r) = run_key r) \<Longrightarrow> (\<And>r. rr_oid (f r) = rr_oid r) \<Longrightarrow> wf_runs (set_runs d P f)"
  by (simp add: wf_runs_def map_update_one)

lemma run_at_set_runs:
  assumes "wf_runs d" "\<And>r. run_key (f r) = run_key r"
  shows "run_at (set_runs d (\<lambda>r. run_key r = k \<and> P r) f) k = map_option (\<lambda>r. if P r then f r else r) (run_at d k)"
  using assms by (simp add: run_at_def wf_runs_def by_key_update_same split: option.splits)

lemma find_and_update_key:
  assumes "wf_runs d"
  shows "find_and_update d scope P f =
    (case run_at d (job_of scope) of
       None \<Rightarrow> (d, None)
     | Some r \<Rightarrow> if P r then (set_runs d (\<lambda>r. run_key r = job_of scope \<and> P r) f, Some (f r)) else (d, None))"
  using assms by (auto simp: find_and_update_def run_of_key found_after_def wf_runs_def find_key_cond run_at_def
      intro!: set_runs_no_match split: option.splits)

section \<open>What the claim answers\<close>

text \<open>The stored run decides: a missing one is created, a finished one is reported, an abandoned
  or due one is taken over while attempts remain and closed otherwise, any other is left to its holder.\<close>

definition claimable_run :: "time \<Rightarrow> reply_run \<Rightarrow> bool" where
  "claimable_run now r \<longleftrightarrow> rr_state r = Run_processing \<and> lease_expired now r \<or> rr_state r = Run_failed \<and> retry_due now r"

definition spent_code :: "reply_run \<Rightarrow> jstr" where
  "spent_code r = (if rr_state r = Run_processing then js ''lease_exhausted'' else js ''attempts_exhausted'')"

definition take_over :: "jstr \<Rightarrow> time \<Rightarrow> reply_run \<Rightarrow> reply_run" where
  "take_over token now r = (if rr_attempts r < agent_reply_max_attempts then reclaim token now r else exhaust (spent_code r) now r)"

lemma take_over_key [simp]: "run_key (take_over token now r) = run_key r" "rr_oid (take_over token now r) = rr_oid r"
  by (simp_all add: take_over_def)

lemma set_runs_at:
  assumes "wf_runs d" "run_at d k = Some r" "P r" "Q r" "f r = g r"
  shows "set_runs d (\<lambda>r. run_key r = k \<and> P r) f = set_runs d (\<lambda>r. run_key r = k \<and> Q r) g"
proof -
  have "x = r" if "x \<in> set (agentReplyRuns d)" "run_key x = k" for x
    using assms(1,2) that by (metis by_key_eqI option.inject run_at_def wf_runs_def)
  then have "update_one (\<lambda>r. run_key r = k \<and> P r) f (agentReplyRuns d) = update_one (\<lambda>r. run_key r = k \<and> Q r) g (agentReplyRuns d)"
    using assms(3-5) by (intro update_one_cong) auto
  then show ?thesis by (simp add: set_runs_def)
qed

lemma claim_by_run:
  assumes "wf_runs d"
  shows "claimAgentReplyRun d scope token oid now =
    (case run_at d (job_of scope) of
       None \<Rightarrow> (d\<lparr>agentReplyRuns := agentReplyRuns d @ [new_run scope token now oid]\<rparr>, Some (Claimed (new_run scope token now oid) token))
     | Some r \<Rightarrow>
        if claimable_run now r
        then (set_runs d (\<lambda>r. run_key r = job_of scope \<and> claimable_run now r) (take_over token now),
              Some (if rr_attempts r < agent_reply_max_attempts then Claimed (take_over token now r) token
                    else Claim_dead (take_over token now r)))
        else (d, Some (if rr_state r = Run_complete then Claim_completed r
                       else if rr_state r = Run_dead then Claim_dead r else Claim_live r)))"
proof (cases "run_at d (job_of scope)")
  case None
  then show ?thesis by (simp add: claimAgentReplyRun_def claim_round_def find_run numeral_eq_Suc)
next
  case (Some r)
  note at = set_runs_at [OF assms Some]
  note step = find_and_update_key [OF assms, of scope, unfolded Some option.case]
  show ?thesis
  proof (cases "rr_attempts r < agent_reply_max_attempts")
    case True
    then have no: "\<not> expired_spent now r" "\<not> due_spent now r" by (simp_all add: expired_spent_def due_spent_def)
    have upd: "set_runs d (\<lambda>r. run_key r = job_of scope \<and> P r) (reclaim token now) =
        set_runs d (\<lambda>r. run_key r = job_of scope \<and> claimable_run now r) (take_over token now)"
      if "P r" "claimable_run now r" for P
      using at [where P = P and Q = "claimable_run now" and f = "reclaim token now" and g = "take_over token now"] that True
      by (simp add: take_over_def)
    have cl: "claimable_run now r \<longleftrightarrow> expired_left now r \<or> due_left now r"
      using True by (auto simp: claimable_run_def expired_left_def due_left_def)
    show ?thesis
      using True by (auto simp: claimAgentReplyRun_def claim_round_def find_run step no upd cl Some take_over_def)
  next
    case False
    then have no: "\<not> expired_left now r" "\<not> due_left now r" by (simp_all add: expired_left_def due_left_def)
    have upd: "set_runs d (\<lambda>r. run_key r = job_of scope \<and> P r) (exhaust c now) =
        set_runs d (\<lambda>r. run_key r = job_of scope \<and> claimable_run now r) (take_over token now)"
      if "P r" "claimable_run now r" "c = spent_code r" for P c
      using at [where P = P and Q = "claimable_run now" and f = "exhaust c now" and g = "take_over token now"] that False
      by (simp add: take_over_def)
    have cl: "claimable_run now r \<longleftrightarrow> expired_spent now r \<or> due_spent now r"
      using False by (auto simp: claimable_run_def expired_spent_def due_spent_def)
    have code: "expired_spent now r \<Longrightarrow> js ''lease_exhausted'' = spent_code r" "due_spent now r \<Longrightarrow> js ''attempts_exhausted'' = spent_code r"
      by (simp_all add: expired_spent_def due_spent_def spent_code_def)
    show ?thesis
      using False by (auto simp: claimAgentReplyRun_def claim_round_def find_run step no upd cl Some take_over_def code)
  qed
qed

section \<open>The lease as an interface\<close>

text \<open>The live holder of a job, as \<open>(token, expiresAt)\<close>.\<close>

definition run_holder :: "db \<Rightarrow> job \<Rightarrow> (jstr \<times> time) option" where
  "run_holder d k = (case run_at d k of
      None \<Rightarrow> None
    | Some r \<Rightarrow> if rr_state r = Run_processing then map_option (\<lambda>l. (ls_token l, ls_expiresAt l)) (rr_lease r) else None)"

definition scope_of :: "job \<Rightarrow> reply_scope" where
  "scope_of k = \<lparr>rs_organizationId = fst k, rs_instanceId = fst (snd k), rs_groupJid = fst (snd (snd k)), rs_waMessageId = snd (snd (snd k))\<rparr>"

lemma job_of_scope_of [simp]: "job_of (scope_of k) = k"
  by (simp add: job_of_def scope_of_def)

definition claim_run :: "oid \<Rightarrow> db \<Rightarrow> job \<Rightarrow> jstr \<Rightarrow> time \<Rightarrow> db \<times> bool" where
  "claim_run oid d k token now =
    (let (d', c) = claimAgentReplyRun d (scope_of k) token oid now in (d', \<exists>r t. c = Some (Claimed r t)))"

text \<open>What a caller does under its lease: the heartbeat, the recorded failure, the answer.\<close>

datatype holder_write = Renew | Give_up nat reply_failure | Answer automatic_send_input jstr oid

definition under_lease :: "oid \<Rightarrow> job \<Rightarrow> jstr \<Rightarrow> automatic_send_input \<Rightarrow> automatic_send_input" where
  "under_lease i k token inp = inp\<lparr>au_runId := i, au_leaseToken := token, au_organizationId := fst k, au_instanceId := fst (snd k),
     au_groupJid := fst (snd (snd k)), au_waMessageId := snd (snd (snd k))\<rparr>"

definition holder_call :: "(oid \<Rightarrow> nat \<Rightarrow> nat) \<Rightarrow> holder_write \<Rightarrow> db \<Rightarrow> job \<Rightarrow> jstr \<Rightarrow> time \<Rightarrow> db \<times> bool" where
  "holder_call digest w d k token now =
    (case run_at d k of
       None \<Rightarrow> (d, False)
     | Some r \<Rightarrow> (case w of
         Renew \<Rightarrow> (let (d', e) = renewAgentReplyLease d (rr_oid r) token now in (d', e \<noteq> None))
       | Give_up attempts failure \<Rightarrow> (failAgentReplyRun digest d (rr_oid r) attempts token failure now,
           find (live_holder (rr_oid r) token now) (agentReplyRuns d) \<noteq> None)
       | Answer inp u oid \<Rightarrow>
           (let (d', res) = createAutomaticSendUnderRunLease d (under_lease (rr_oid r) k token inp) now u oid
            in (d', \<exists>s. res = Inr (Completed s)))))"

lemma holder_claimable:
  "run_holder d k = Some (t, e) \<Longrightarrow> \<exists>r. run_at d k = Some r \<and> rr_state r = Run_processing
     \<and> (claimable_run now r \<longleftrightarrow> e \<le> now)"
  by (auto simp: run_holder_def claimable_run_def lease_expired_def split: option.splits if_splits)

lemma live_holder_at:
  assumes "wf_runs d" "run_at d k = Some r"
  shows "find (live_holder (rr_oid r) token now) (agentReplyRuns d) =
    (if \<exists>e. run_holder d k = Some (token, e) \<and> now < e then Some r else None)"
proof -
  have r: "r \<in> set (agentReplyRuns d)" using by_key_Some [OF assms(2) [unfolded run_at_def]] by simp
  then have b: "by_key rr_oid (rr_oid r) (agentReplyRuns d) = Some r" using assms(1) unfolding wf_runs_def by (blast intro: by_key_eqI)
  have "live_holder (rr_oid r) token now = (\<lambda>x. rr_oid x = rr_oid r \<and> live_holder (rr_oid r) token now x)"
    by (auto simp: live_holder_def)
  then have "find (live_holder (rr_oid r) token now) (agentReplyRuns d) =
      find (\<lambda>x. rr_oid x = rr_oid r \<and> live_holder (rr_oid r) token now x) (agentReplyRuns d)" by (rule arg_cong)
  also have "\<dots> = (if live_holder (rr_oid r) token now r then Some r else None)"
    using assms(1) b by (simp add: find_key_cond wf_runs_def)
  also have "live_holder (rr_oid r) token now r \<longleftrightarrow> (\<exists>e. run_holder d k = Some (token, e) \<and> now < e)"
    by (cases "rr_lease r") (auto simp: run_holder_def assms(2) live_holder_def)
  finally show ?thesis .
qed

lemma owns_run_live: "owns_run i token org inst jid wa now r \<Longrightarrow> live_holder i token now r"
  by (simp add: owns_run_def live_holder_def)

text \<open>The answer needs the live lease, and an answer that is not given changes nothing.\<close>

lemma answer_needs:
  assumes "createAutomaticSendUnderRunLease d inp now u oid = (d', Inr (Completed s))"
  shows "find (live_holder (au_runId inp) (au_leaseToken inp) now) (agentReplyRuns d) \<noteq> None"
  using automatic_send_once_lease [OF assms] by (auto simp: find_None_iff dest: owns_run_live)

lemma holder_call_needs:
  assumes "wf_runs d" "snd (holder_call digest w d k token now)"
  shows "\<exists>e. run_holder d k = Some (token, e) \<and> now < e"
proof -
  from assms(2) obtain r where r: "run_at d k = Some r" by (auto simp: holder_call_def split: option.splits)
  have "find (live_holder (rr_oid r) token now) (agentReplyRuns d) \<noteq> None"
  proof (cases w)
    case (Answer inp u oid)
    with assms(2) r obtain d' s where "createAutomaticSendUnderRunLease d (under_lease (rr_oid r) k token inp) now u oid = (d', Inr (Completed s))"
      by (auto simp: holder_call_def split: prod.splits)
    from answer_needs [OF this] show ?thesis by (simp add: under_lease_def)
  qed (use assms(2) r in \<open>auto simp: holder_call_def renewAgentReplyLease_def found_after_def bind_eq_Some_conv split: option.splits\<close>)
  then show ?thesis by (auto simp: live_holder_at [OF assms(1) r] split: if_splits)
qed

lemma holder_call_refused:
  assumes "wf_runs d" "\<not> snd (holder_call digest w d k token now)"
  shows "fst (holder_call digest w d k token now) = d"
proof (cases "run_at d k")
  case (Some r)
  show ?thesis
  proof (cases w)
    case Renew
    with assms(2) Some have "find (live_holder (rr_oid r) token now) (agentReplyRuns d) = None"
      by (auto simp: holder_call_def renewAgentReplyLease_def found_after_def extend_lease_def live_holder_at [OF assms(1) Some]
          run_holder_def split: option.splits if_splits)
    with Renew Some show ?thesis by (simp add: holder_call_def renewAgentReplyLease_def set_runs_no_match)
  next
    case (Give_up n failure)
    with assms(2) Some show ?thesis by (simp add: holder_call_def failAgentReplyRun_def set_runs_no_match)
  next
    case (Answer inp u oid)
    obtain d' res where eq: "createAutomaticSendUnderRunLease d (under_lease (rr_oid r) k token inp) now u oid = (d', res)"
      by fastforce
    with assms(2) Some Answer have "\<forall>s. res \<noteq> Inr (Completed s)" by (simp add: holder_call_def)
    with automatic_send_unfinished [OF eq] Answer Some eq show ?thesis by (simp add: holder_call_def)
  qed
qed (simp add: holder_call_def)

lemma wf_claim_run:
  assumes "wf_runs d" "fresh_run oid d"
  shows "wf_runs (fst (claimAgentReplyRun d scope token oid now))"
proof (cases "run_at d (job_of scope)")
  case None
  have "wf_runs (d\<lparr>agentReplyRuns := agentReplyRuns d @ [new_run scope token now oid]\<rparr>)"
    using assms None by (auto simp: wf_runs_def fresh_run_def list_all_iff run_at_def by_key_None_iff)
  with None show ?thesis by (simp add: claim_by_run [OF assms(1)])
qed (use assms in \<open>auto simp: claim_by_run intro: wf_set_runs\<close>)

lemma claimed_holder:
  assumes "wf_runs d" "claimAgentReplyRun d scope token oid now = (d', Some (Claimed run t))"
  shows "t = token" "run_at d' (job_of scope) = Some run"
    "run_holder d' (job_of scope) = Some (token, now + agent_reply_lease_ms)"
proof -
  have "t = token \<and> run_at d' (job_of scope) = Some run \<and> rr_state run = Run_processing
      \<and> rr_lease run = Some \<lparr>ls_token = token, ls_expiresAt = now + agent_reply_lease_ms\<rparr>"
  proof (cases "run_at d (job_of scope)")
    case None
    with assms(2) have e: "d' = d\<lparr>agentReplyRuns := agentReplyRuns d @ [new_run scope token now oid]\<rparr>"
      "run = new_run scope token now oid" "t = token" by (auto simp: claim_by_run [OF assms(1)])
    have "run_at d' (job_of scope) = Some run" using None by (simp add: e run_at_def by_key_append) (simp add: by_key_def)
    with e show ?thesis by (simp add: new_run_def)
  next
    case (Some r)
    with assms(2) have e: "d' = set_runs d (\<lambda>r. run_key r = job_of scope \<and> claimable_run now r) (take_over token now)"
      "run = take_over token now r" "t = token" "claimable_run now r" "rr_attempts r < agent_reply_max_attempts"
      by (auto simp: claim_by_run [OF assms(1)] split: if_splits)
    have "run_at d' (job_of scope) = Some run" using Some by (simp add: e run_at_set_runs [OF assms(1)])
    with e show ?thesis by (simp add: take_over_def reclaim_def)
  qed
  then show "t = token" "run_at d' (job_of scope) = Some run"
    "run_holder d' (job_of scope) = Some (token, now + agent_reply_lease_ms)" by (auto simp: run_holder_def)
qed

lemma claim_of_held:
  assumes "wf_runs d" "run_holder d (job_of scope) = Some (t, e)" "now < e"
  shows "\<exists>r. run_at d (job_of scope) = Some r \<and> claimAgentReplyRun d scope token oid now = (d, Some (Claim_live r))"
  using holder_claimable [OF assms(2), of now] assms(3) by (auto simp: claim_by_run [OF assms(1)])

interpretation run_lease: lease_table wf_runs run_holder "\<lambda>oid d _. fresh_run oid d" claim_run "holder_call digest" for digest
proof unfold_locales
  fix d k t e t' b now a
  assume wf: "wf_runs d"
  show "\<exists>e. run_holder d k = Some (t, e) \<and> now < e" if "snd (holder_call digest a d k t now)"
    using holder_call_needs [OF wf that] .
  show "fst (holder_call digest a d k t now) = d" if "\<not> snd (holder_call digest a d k t now)"
    using holder_call_refused [OF wf that] .
  assume f: "fresh_run b d"
  show "\<not> snd (claim_run b d k t' now) \<and> fst (claim_run b d k t' now) = d" if "run_holder d k = Some (t, e)" "now < e"
    using claim_of_held [of d "scope_of k" t e now t' b] wf that by (auto simp: claim_run_def)
  show "wf_runs (fst (claim_run b d k t now))"
    using wf_claim_run [OF wf f, of "scope_of k" t now] by (simp add: claim_run_def case_prod_beta)
  show "\<exists>e. run_holder (fst (claim_run b d k t now)) k = Some (t, e) \<and> now < e" if "snd (claim_run b d k t now)"
  proof -
    from that obtain r t'' where "snd (claimAgentReplyRun d (scope_of k) t b now) = Some (Claimed r t'')"
      by (auto simp: claim_run_def split: prod.splits)
    then have "claimAgentReplyRun d (scope_of k) t b now = (fst (claim_run b d k t now), Some (Claimed r t''))"
      by (simp add: claim_run_def prod_eq_iff case_prod_beta)
    from claimed_holder(3) [OF wf this] show ?thesis by (simp add: agent_reply_lease_ms_def)
  qed
qed

section \<open>Every write to a run, with what it grants\<close>

text \<open>
  The writes that touch \<open>agentReplyRuns\<close>, one atomic database operation each: the four
  conditional writes of a claim can interleave with any other caller's. The label is the job whose
  lease the write grants, if it grants one.
\<close>

definition granting :: "reply_scope \<Rightarrow> reply_run option \<Rightarrow> job option" where
  "granting scope found = map_option (\<lambda>_. job_of scope) found"

inductive run_write :: "db \<Rightarrow> job option \<Rightarrow> db \<Rightarrow> bool" where
  create: "run_at d (job_of scope) = None \<Longrightarrow> fresh_run oid d
     \<Longrightarrow> run_write d (Some (job_of scope)) (d\<lparr>agentReplyRuns := agentReplyRuns d @ [new_run scope token now oid]\<rparr>)"
| take_expired: "find_and_update d scope (expired_left now) (reclaim token now) = (d', found) \<Longrightarrow> run_write d (granting scope found) d'"
| close_expired: "find_and_update d scope (expired_spent now) (exhaust c now) = (d', found) \<Longrightarrow> run_write d None d'"
| take_due: "find_and_update d scope (due_left now) (reclaim token now) = (d', found) \<Longrightarrow> run_write d (granting scope found) d'"
| close_due: "find_and_update d scope (due_spent now) (exhaust c now) = (d', found) \<Longrightarrow> run_write d None d'"
| renew: "run_write d None (fst (renewAgentReplyLease d i token now))"
| reconcile: "run_write d None (fst (reconcileAgentReplySend d scope key now))"
| fail: "run_write d None (failAgentReplyRun digest d i attempts token failure now)"
| answer: "run_write d None (fst (createAutomaticSendUnderRunLease d inp now u oid))"
| apologise: "run_write d None (fst (createHumanReviewSendUnderRunLease d hr now u oid))"

text \<open>The databases the writes lead to, with the jobs they granted on the way, latest first.\<close>

inductive run_path :: "db \<Rightarrow> db \<Rightarrow> job list \<Rightarrow> bool" where
  here: "run_path d d []"
| step: "run_path d d' gs \<Longrightarrow> run_write d' g d'' \<Longrightarrow> run_path d d'' (case g of None \<Rightarrow> gs | Some k \<Rightarrow> k # gs)"

definition run_history :: "db \<Rightarrow> job list \<Rightarrow> bool" where
  "run_history d gs \<longleftrightarrow> (\<exists>d0. agentReplyRuns d0 = [] \<and> run_path d0 d gs)"

lemma run_history_step: "run_history d gs \<Longrightarrow> run_write d g d' \<Longrightarrow> run_history d' (case g of None \<Rightarrow> gs | Some k \<Rightarrow> k # gs)"
  unfolding run_history_def by (blast intro: run_path.step)

definition attempts_at :: "db \<Rightarrow> job \<Rightarrow> nat" where
  "attempts_at d k = (case run_at d k of None \<Rightarrow> 0 | Some r \<Rightarrow> rr_attempts r)"

definition run_inv :: "db \<Rightarrow> job list \<Rightarrow> bool" where
  "run_inv d gs \<longleftrightarrow> wf_runs d \<and> count_list gs = attempts_at d
     \<and> (\<forall>r \<in> set (agentReplyRuns d). 1 \<le> rr_attempts r \<and> rr_attempts r \<le> agent_reply_max_attempts)"

text \<open>A write that grants nothing keeps keys, ids and attempts of every run.\<close>

definition plain_update :: "db \<Rightarrow> db \<Rightarrow> bool" where
  "plain_update d d' \<longleftrightarrow> (\<exists>P f. agentReplyRuns d' = update_one P f (agentReplyRuns d) \<and> (\<forall>r. run_key (f r) = run_key r)
     \<and> (\<forall>r. rr_oid (f r) = rr_oid r) \<and> (\<forall>r. rr_attempts (f r) = rr_attempts r))"

lemma plain_updateI:
  "agentReplyRuns d' = update_one P f (agentReplyRuns d) \<Longrightarrow> (\<And>r. run_key (f r) = run_key r) \<Longrightarrow> (\<And>r. rr_oid (f r) = rr_oid r)
    \<Longrightarrow> (\<And>r. rr_attempts (f r) = rr_attempts r) \<Longrightarrow> plain_update d d'"
  unfolding plain_update_def by blast

lemma plain_update_refl: "plain_update d d"
proof (rule plain_updateI [where P = "\<lambda>_. False" and f = id])
  have "update_one (\<lambda>_. False) id rs = rs" for rs :: "reply_run list" by (induction rs) auto
  then show "agentReplyRuns d = update_one (\<lambda>_. False) id (agentReplyRuns d)" by simp
qed simp_all

lemma run_at_plain:
  assumes "plain_update d d'"
  shows "attempts_at d' = attempts_at d"
proof -
  obtain P f where u: "agentReplyRuns d' = update_one P f (agentReplyRuns d)" and f: "\<And>r. run_key (f r) = run_key r"
    "\<And>r. rr_attempts (f r) = rr_attempts r" using assms unfolding plain_update_def by blast
  have "map_option rr_attempts (by_key run_key k (update_one P f rs)) = map_option rr_attempts (by_key run_key k rs)" for rs k
    by (induction rs) (auto simp: by_key_def f)
  then have "map_option rr_attempts (run_at d' k) = map_option rr_attempts (run_at d k)" for k
    by (simp add: run_at_def u)
  then have "attempts_at d' k = attempts_at d k" for k
    unfolding attempts_at_def by (metis (no_types, lifting) option.case_eq_if option.map_disc_iff option.map_sel)
  then show ?thesis by (rule ext)
qed

lemma run_inv_plain:
  assumes "run_inv d gs" "plain_update d d'"
  shows "run_inv d' gs"
proof -
  obtain P f where u: "agentReplyRuns d' = update_one P f (agentReplyRuns d)" and f: "\<And>r. run_key (f r) = run_key r"
    "\<And>r. rr_oid (f r) = rr_oid r" "\<And>r. rr_attempts (f r) = rr_attempts r" using assms(2) unfolding plain_update_def by blast
  have "wf_runs d'" using assms(1) by (simp add: run_inv_def wf_runs_def u map_update_one f)
  moreover have "count_list gs = attempts_at d'"
    using assms(1) run_at_plain [OF assms(2)] by (simp add: run_inv_def)
  moreover have "1 \<le> rr_attempts r \<and> rr_attempts r \<le> agent_reply_max_attempts" if "r \<in> set (agentReplyRuns d')" for r
    using that assms(1) unfolding u run_inv_def by (auto dest!: update_one_in simp: f)
  ultimately show ?thesis by (simp add: run_inv_def)
qed

lemma completeUnderLease_plain: "plain_update d (fst (completeUnderLease d i t wa c bs fs a m now))"
proof -
  have "plain_update d d'" if "agentReplyRuns d' = update_one P (complete_run (sr_oid c) bs fs now) (agentReplyRuns d)" for d' P
    using that by (rule plain_updateI) (simp_all add: complete_run_def run_key_def)
  then show ?thesis by (simp add: completeUnderLease_result Let_def plain_update_refl)
qed

lemma find_and_update_plain:
  "find_and_update d scope P f = (d', found) \<Longrightarrow> (\<And>r. run_key (f r) = run_key r) \<Longrightarrow> (\<And>r. rr_oid (f r) = rr_oid r)
    \<Longrightarrow> (\<And>r. rr_attempts (f r) = rr_attempts r) \<Longrightarrow> plain_update d d'"
  by (auto simp: find_and_update_def intro!: plain_updateI)

lemma set_runs_plain:
  "(\<And>r. run_key (f r) = run_key r) \<Longrightarrow> (\<And>r. rr_oid (f r) = rr_oid r) \<Longrightarrow> (\<And>r. rr_attempts (f r) = rr_attempts r)
    \<Longrightarrow> plain_update d (set_runs d P f)"
  by (rule plain_updateI [where P = P and f = f]) simp_all

text \<open>Taking a run over adds one to its attempts and keeps them in bounds.\<close>

lemma run_inv_grant:
  assumes "run_inv d gs" "find_and_update d scope P (reclaim token now) = (d', found)"
    and "\<And>r. P r \<Longrightarrow> rr_attempts r < agent_reply_max_attempts"
  shows "run_inv d' (case granting scope found of None \<Rightarrow> gs | Some k \<Rightarrow> k # gs)"
proof -
  let ?k = "job_of scope"
  have wf: "wf_runs d" using assms(1) by (simp add: run_inv_def)
  note res = assms(2) [unfolded find_and_update_key [OF wf]]
  show ?thesis
  proof (cases found)
    case None
    with res assms(1) show ?thesis by (auto simp: granting_def split: option.splits if_splits)
  next
    case (Some r')
    with res obtain r where r: "run_at d ?k = Some r" "P r" and d': "d' = set_runs d (\<lambda>r. run_key r = ?k \<and> P r) (reclaim token now)"
      by (auto split: option.splits if_splits)
    have at: "run_at d' ?k = Some (reclaim token now r)" using r by (simp add: d' run_at_set_runs [OF wf])
    have other: "run_at d' k = run_at d k" if "k \<noteq> ?k" for k
      unfolding d' run_at_def set_runs_runs using that by (intro by_key_update_other) auto
    have "count_list (?k # gs) k = attempts_at d' k" for k
      using assms(1) r at other [of k] by (cases "k = ?k") (simp_all add: run_inv_def reclaim_def attempts_at_def)
    then have "count_list (?k # gs) = attempts_at d'" by (rule ext)
    moreover have "1 \<le> rr_attempts x \<and> rr_attempts x \<le> agent_reply_max_attempts" if "x \<in> set (agentReplyRuns d')" for x
      using that assms(1) unfolding d' run_inv_def by (auto dest!: update_one_in assms(3) simp: reclaim_def)
    moreover have "wf_runs d'" unfolding d' by (rule wf_set_runs [OF wf]) simp_all
    ultimately show ?thesis using Some by (simp add: run_inv_def granting_def)
  qed
qed

lemma run_write_inv: "run_write d g d' \<Longrightarrow> run_inv d gs \<Longrightarrow> run_inv d' (case g of None \<Rightarrow> gs | Some k \<Rightarrow> k # gs)"
proof (induction rule: run_write.induct)
  case (create d scope oid token now)
  let ?d = "d\<lparr>agentReplyRuns := agentReplyRuns d @ [new_run scope token now oid]\<rparr>"
  have "wf_runs ?d" using create by (auto simp: run_inv_def wf_runs_def fresh_run_def list_all_iff run_at_def by_key_None_iff)
  moreover have "count_list (job_of scope # gs) k = attempts_at ?d k" for k
  proof -
    have "run_at ?d k = (case run_at d k of Some r \<Rightarrow> Some r | None \<Rightarrow> if k = job_of scope then Some (new_run scope token now oid) else None)"
      by (simp add: run_at_def by_key_append) (auto simp: by_key_def split: option.splits)
    with create show ?thesis
      by (cases "k = job_of scope"; cases "run_at d k") (simp_all add: run_inv_def attempts_at_def new_run_def)
  qed
  moreover have "\<forall>r \<in> set (agentReplyRuns ?d). 1 \<le> rr_attempts r \<and> rr_attempts r \<le> agent_reply_max_attempts"
    using create by (auto simp: run_inv_def new_run_def agent_reply_max_attempts_def)
  ultimately show ?case by (simp add: run_inv_def fun_eq_iff)
next
  case (take_expired d scope now token d' found)
  from run_inv_grant [OF take_expired.prems take_expired.hyps] show ?case by (simp add: expired_left_def)
next
  case (take_due d scope now token d' found)
  from run_inv_grant [OF take_due.prems take_due.hyps] show ?case by (simp add: due_left_def)
next
  case (close_expired d scope now c d' found)
  from find_and_update_plain [OF close_expired.hyps] close_expired.prems show ?case
    by (auto intro: run_inv_plain simp: exhaust_def run_key_def)
next
  case (close_due d scope now c d' found)
  from find_and_update_plain [OF close_due.hyps] close_due.prems show ?case
    by (auto intro: run_inv_plain simp: exhaust_def run_key_def)
next
  case (renew d i token now)
  then show ?case
    by (auto simp: renewAgentReplyLease_def extend_lease_def run_key_def intro!: run_inv_plain [OF _ set_runs_plain])
next
  case (reconcile d scope key now)
  then show ?case
    by (auto simp: reconcileAgentReplySend_def Let_def finish_run_def run_key_def intro!: run_inv_plain [OF _ set_runs_plain] split: option.splits)
next
  case (fail d digest i attempts token failure now)
  then show ?case
    by (auto simp: failAgentReplyRun_def fail_update_def Let_def run_key_def intro!: run_inv_plain [OF _ set_runs_plain])
next
  case (answer d inp now u oid)
  then show ?case by (auto simp: createAutomaticSendUnderRunLease_def intro!: run_inv_plain [OF _ completeUnderLease_plain])
next
  case (apologise d hr now u oid)
  then show ?case by (auto simp: createHumanReviewSendUnderRunLease_def intro!: run_inv_plain [OF _ completeUnderLease_plain])
qed

lemma run_path_inv: "run_path d0 d gs \<Longrightarrow> agentReplyRuns d0 = [] \<Longrightarrow> run_inv d gs"
proof (induction rule: run_path.induct)
  case (here d)
  then show ?case by (simp add: run_inv_def wf_runs_def run_at_def by_key_def attempts_at_def fun_eq_iff)
next
  case (step d d' gs g d'')
  then show ?case by (blast intro: run_write_inv)
qed

lemma run_history_inv: "run_history d gs \<Longrightarrow> run_inv d gs"
  unfolding run_history_def by (blast intro: run_path_inv)

text \<open>The claim the code makes is a run of these writes.\<close>

lemma claim_in_history:
  assumes "run_history d gs" "fresh_run oid d" "claimAgentReplyRun d scope token oid now = (d', c)"
  shows "run_history d' (case c of Some (Claimed r t) \<Rightarrow> job_of scope # gs | _ \<Rightarrow> gs)"
proof -
  have wf: "wf_runs d" using run_history_inv [OF assms(1)] by (simp add: run_inv_def)
  note res = assms(3) [unfolded claim_by_run [OF wf]]
  note grow = run_history_step [OF assms(1)]
  show ?thesis
  proof (cases "run_at d (job_of scope)")
    case None
    with res grow [OF run_write.create [OF None assms(2), of token now]] show ?thesis by auto
  next
    case (Some r)
    show ?thesis
    proof (cases "claimable_run now r")
      case False
      with res Some assms(1) show ?thesis by auto
    next
      case True
      have same: "set_runs d (\<lambda>r. run_key r = job_of scope \<and> claimable_run now r) (take_over token now) =
          set_runs d (\<lambda>r. run_key r = job_of scope \<and> P r) f" if "P r" "f r = take_over token now r" for P f
        using that True by (intro set_runs_at [OF wf Some]) simp_all
      note step = find_and_update_key [OF wf, of scope, unfolded Some option.case]
      consider "expired_left now r" | "expired_spent now r" | "due_left now r" | "due_spent now r"
        using True unfolding claimable_run_def expired_left_def expired_spent_def due_left_def due_spent_def
        by (meson not_less)
      then show ?thesis
      proof cases
        case 1
        with grow [OF run_write.take_expired [of d scope now token]] res Some True show ?thesis
          by (auto simp: step granting_def same [of "expired_left now" "reclaim token now"] take_over_def expired_left_def)
      next
        case 2
        with grow [OF run_write.close_expired [of d scope now "spent_code r"]] res Some True show ?thesis
          by (auto simp: step same [of "expired_spent now" "exhaust (spent_code r) now"] take_over_def expired_spent_def)
      next
        case 3
        with grow [OF run_write.take_due [of d scope now token]] res Some True show ?thesis
          by (auto simp: step granting_def same [of "due_left now" "reclaim token now"] take_over_def due_left_def)
      next
        case 4
        with grow [OF run_write.close_due [of d scope now "spent_code r"]] res Some True show ?thesis
          by (auto simp: step same [of "due_spent now" "exhaust (spent_code r) now"] take_over_def due_spent_def)
      qed
    qed
  qed
qed

section \<open>Final states\<close>

text \<open>
  The only writes that reach a finished run: none touches a completed one, and a dead one can only
  be completed, by the send that answers it.
\<close>

definition spares_finished :: "(reply_run \<Rightarrow> bool) \<Rightarrow> (reply_run \<Rightarrow> reply_run) \<Rightarrow> bool" where
  "spares_finished P f \<longleftrightarrow> (\<forall>r. P r \<longrightarrow> rr_state r \<noteq> Run_complete \<and> (rr_state r = Run_dead \<longrightarrow> rr_state (f r) = Run_complete))
     \<and> (\<forall>r. run_key (f r) = run_key r \<and> rr_oid (f r) = rr_oid r)"

definition careful :: "db \<Rightarrow> db \<Rightarrow> bool" where
  "careful d d' \<longleftrightarrow> (\<exists>P f. spares_finished P f \<and> agentReplyRuns d' = update_one P f (agentReplyRuns d))
     \<or> (\<exists>r. run_at d (run_key r) = None \<and> fresh_run (rr_oid r) d \<and> agentReplyRuns d' = agentReplyRuns d @ [r])"

definition run_finished :: "reply_run \<Rightarrow> bool" where
  "run_finished r \<longleftrightarrow> rr_state r = Run_complete \<or> rr_state r = Run_dead"

lemma by_key_update_one:
  "by_key key k xs = Some x \<Longrightarrow> (\<And>x. key (f x) = key x) \<Longrightarrow>
    by_key key k (update_one P f xs) = Some x \<or> P x \<and> by_key key k (update_one P f xs) = Some (f x)"
  by (induction xs) (auto simp: by_key_def)

lemma careful_finished:
  assumes "careful d d'" "run_at d k = Some r" "run_finished r"
  shows "\<exists>r'. run_at d' k = Some r' \<and> run_finished r' \<and> (rr_state r = Run_complete \<longrightarrow> r' = r)"
proof -
  consider P f where "spares_finished P f" "agentReplyRuns d' = update_one P f (agentReplyRuns d)"
    | c where "run_at d (run_key c) = None" "agentReplyRuns d' = agentReplyRuns d @ [c]"
    using assms(1) unfolding careful_def by blast
  then show ?thesis
  proof cases
    case 1
    then have "run_at d' k = Some r \<or> P r \<and> run_at d' k = Some (f r)"
      using by_key_update_one [of run_key k "agentReplyRuns d" r f P] assms(2) by (simp add: run_at_def spares_finished_def)
    with 1(1) assms(3) show ?thesis by (auto simp: spares_finished_def run_finished_def)
  next
    case 2
    with assms(2,3) show ?thesis by (auto simp: run_at_def by_key_append)
  qed
qed

lemma careful_update: "spares_finished P f \<Longrightarrow> agentReplyRuns d' = update_one P f (agentReplyRuns d) \<Longrightarrow> careful d d'"
  unfolding careful_def by blast

lemma careful_same: "agentReplyRuns d' = agentReplyRuns d \<Longrightarrow> careful d d'"
proof (rule careful_update [where P = "\<lambda>_. False" and f = id])
  have "update_one (\<lambda>_. False) id rs = rs" for rs :: "reply_run list" by (induction rs) auto
  then show "agentReplyRuns d' = agentReplyRuns d \<Longrightarrow> agentReplyRuns d' = update_one (\<lambda>_. False) id (agentReplyRuns d)" by simp
qed (simp add: spares_finished_def)

lemma careful_find_and_update:
  "find_and_update d scope P f = (d', found) \<Longrightarrow> spares_finished (\<lambda>r. run_of scope r \<and> P r) f \<Longrightarrow> careful d d'"
  by (auto simp: find_and_update_def intro: careful_update)

lemma careful_completion: "careful d (fst (completeUnderLease d i t wa c bs fs a m now))"
proof -
  have sp: "spares_finished (owns_run i t org inst jid wa now) (complete_run (sr_oid c) bs fs now)" for org inst jid
    by (auto simp: spares_finished_def owns_run_def complete_run_def run_key_def)
  have "careful d d'" if "agentReplyRuns d' = update_one (owns_run i t org inst jid wa now) (complete_run (sr_oid c) bs fs now) (agentReplyRuns d)"
    for d' org inst jid using sp that by (rule careful_update)
  then show ?thesis by (simp add: completeUnderLease_result Let_def careful_same)
qed

lemmas finished_simps = spares_finished_def run_key_def reclaim_def exhaust_def expired_left_def expired_spent_def
  due_left_def due_spent_def extend_lease_def finish_run_def fail_update_def live_holder_def

lemma run_write_careful: "run_write d g d' \<Longrightarrow> careful d d'"
proof (induction rule: run_write.induct)
  case (create d scope oid token now)
  then show ?case by (auto simp: careful_def)
next
  case (renew d i token now)
  show ?case by (rule careful_update [where f = "extend_lease now"]) (auto simp: renewAgentReplyLease_def finished_simps)
next
  case (reconcile d scope key now)
  show ?case
  proof (cases "find (reconcile_filter scope key) (sendRequests d)")
    case (Some s)
    then show ?thesis
      by (intro careful_update [where f = "finish_run (sr_oid s) now"]) (auto simp: reconcileAgentReplySend_def Let_def finished_simps)
  qed (simp add: reconcileAgentReplySend_def careful_same)
next
  case (fail d digest i attempts token failure now)
  show ?case by (rule careful_update [where f = "fail_update digest i attempts failure now"])
      (auto simp: failAgentReplyRun_def finished_simps Let_def)
qed (auto simp: createAutomaticSendUnderRunLease_def createHumanReviewSendUnderRunLease_def careful_completion
    finished_simps elim!: careful_find_and_update)

lemma run_write_wf: "run_write d g d' \<Longrightarrow> wf_runs d \<Longrightarrow> wf_runs d'"
  by (drule run_write_careful) (auto simp: careful_def wf_runs_def map_update_one spares_finished_def run_at_def by_key_None_iff
      fresh_run_def list_all_iff; metis)

lemma run_write_grant: "run_write d g d' \<Longrightarrow> wf_runs d \<Longrightarrow> g = Some k \<Longrightarrow> run_at d k = Some r \<Longrightarrow> \<not> run_finished r"
proof (induction rule: run_write.induct)
  case (take_expired d scope now token d' found)
  then show ?case
    by (cases found) (auto simp: granting_def find_and_update_key run_finished_def expired_left_def split: if_splits)
next
  case (take_due d scope now token d' found)
  then show ?case
    by (cases found) (auto simp: granting_def find_and_update_key run_finished_def due_left_def split: if_splits)
qed simp_all

lemma run_path_finished:
  "run_path d d' gs \<Longrightarrow> wf_runs d \<Longrightarrow> run_at d k = Some r \<Longrightarrow> run_finished r \<Longrightarrow>
    wf_runs d' \<and> k \<notin> set gs \<and> (\<exists>r'. run_at d' k = Some r' \<and> run_finished r' \<and> (rr_state r = Run_complete \<longrightarrow> r' = r))"
proof (induction rule: run_path.induct)
  case (step d d' gs g d'')
  then obtain r' where r': "wf_runs d'" "k \<notin> set gs" "run_at d' k = Some r'" "run_finished r'" "rr_state r = Run_complete \<longrightarrow> r' = r" by blast
  have "g \<noteq> Some k" using run_write_grant [OF step.hyps(2) r'(1) _ r'(3)] r'(4) by blast
  moreover from careful_finished [OF run_write_careful [OF step.hyps(2)] r'(3,4)] r'(5)
  have "\<exists>r'. run_at d'' k = Some r' \<and> run_finished r' \<and> (rr_state r = Run_complete \<longrightarrow> r' = r)" by auto
  ultimately show ?case using r'(2) run_write_wf [OF step.hyps(2) r'(1)] by (auto split: option.splits)
qed auto

section \<open>The window of a retry\<close>

lemma backoff_base_bounds: "300000 \<le> backoff_base n" "backoff_base n \<le> 21600000"
  by (simp_all add: backoff_base_def agent_reply_base_backoff_ms_def agent_reply_max_backoff_ms_def)

lemma backoff_base_five: "5 dvd backoff_base n"
  by (simp add: backoff_base_def agent_reply_base_backoff_ms_def agent_reply_max_backoff_ms_def min_def)

lemma retry_delay_window:
  assumes "\<And>i a. digest i a < 65536"
  shows "4 * backoff_base n \<le> 5 * agentReplyRetryDelayMs digest i n" "5 * agentReplyRetryDelayMs digest i n \<le> 6 * backoff_base n"
proof -
  obtain m where m: "backoff_base n = 5 * m" using backoff_base_five by blast
  define k where "k = digest i (n mod 256)"
  have k: "k \<le> 65535" using assms [of i "n mod 256"] by (simp add: k_def)
  have delay: "agentReplyRetryDelayMs digest i n = (2 * (5 * m * (4 * 65535 + 2 * k)) + 5 * 65535) div (2 * (5 * 65535))"
    by (simp add: agentReplyRetryDelayMs_def m k_def Let_def)
  have lo: "4 * m * (2 * (5 * 65535)) \<le> 2 * (5 * m * (4 * 65535 + 2 * k)) + 5 * 65535" by (simp add: algebra_simps)
  have "m * k \<le> m * 65535" using k by (rule mult_le_mono2)
  moreover have "2 * (5 * m * (4 * 65535 + 2 * k)) + 5 * 65535 = 2621400 * m + 20 * (m * k) + 327675"
    "(6 * m + 1) * (2 * (5 * 65535)) = 3932100 * m + 655350" by (simp_all add: algebra_simps)
  ultimately have hi: "2 * (5 * m * (4 * 65535 + 2 * k)) + 5 * 65535 < (6 * m + 1) * (2 * (5 * 65535))" by linarith
  show "4 * backoff_base n \<le> 5 * agentReplyRetryDelayMs digest i n"
    using div_le_mono [OF lo, of "2 * (5 * 65535)"] unfolding delay m by simp
  show "5 * agentReplyRetryDelayMs digest i n \<le> 6 * backoff_base n"
    using hi unfolding delay m by (simp add: less_mult_imp_div_less less_Suc_eq_le)
qed

section \<open>Properties\<close>

text \<open>C8: A reply job has one holder at a time. A caller whose claim is granted holds the job for two
  minutes: until then every other claim, under any token, answers \<open>live\<close> and changes nothing; at no
  time can another token renew the lease, fail the run or create the answer; the holder itself can
  renew exactly while the lease has not expired.\<close>

theorem reply_lease_exclusive:
  assumes "wf_runs d" and "fresh_run oid d" and "claimAgentReplyRun d scope token oid now = (d', Some (Claimed run t))"
  shows "t = token \<and> run_at d' (job_of scope) = Some run
    \<and> (\<forall>later token2 oid2. later < now + agent_reply_lease_ms
        \<longrightarrow> claimAgentReplyRun d' scope token2 oid2 later = (d', Some (Claim_live run)))
    \<and> (\<forall>later token2. token2 \<noteq> token
        \<longrightarrow> renewAgentReplyLease d' (rr_oid run) token2 later = (d', None)
          \<and> (\<forall>digest n failure. failAgentReplyRun digest d' (rr_oid run) n token2 failure later = d')
          \<and> (\<forall>inp u oid2 s. au_runId inp = rr_oid run \<and> au_leaseToken inp = token2
               \<longrightarrow> snd (createAutomaticSendUnderRunLease d' inp later u oid2) \<noteq> Inr (Completed s)))
    \<and> (\<forall>later. snd (renewAgentReplyLease d' (rr_oid run) token later) =
        (if later < now + agent_reply_lease_ms then Some (later + agent_reply_lease_ms) else None))"
proof -
  note c = claimed_holder [OF assms(1,3)]
  have wf: "wf_runs d'" using wf_claim_run [OF assms(1,2), of scope token now] assms(3) by simp
  note live = live_holder_at [OF wf c(2)]
  have others: "claimAgentReplyRun d' scope token2 oid2 later = (d', Some (Claim_live run))"
    if "later < now + agent_reply_lease_ms" for later token2 oid2
    using claim_of_held [OF wf c(3) that, of token2 oid2] c(2) by simp
  have stale: "renewAgentReplyLease d' (rr_oid run) token2 later = (d', None)"
    "failAgentReplyRun digest d' (rr_oid run) n token2 failure later = d'"
    "au_runId inp = rr_oid run \<and> au_leaseToken inp = token2 \<longrightarrow> snd (createAutomaticSendUnderRunLease d' inp later u oid2) \<noteq> Inr (Completed s)"
    if "token2 \<noteq> token" for later token2 digest n failure inp u oid2 s
  proof -
    have refused: "\<not> snd (holder_call digest w d' (job_of scope) token2 later) \<and> fst (holder_call digest w d' (job_of scope) token2 later) = d'" for w digest
      by (rule run_lease.held_refuses [OF wf c(3) that])
    from refused [of digest Renew] show "renewAgentReplyLease d' (rr_oid run) token2 later = (d', None)"
      by (simp add: holder_call_def c(2) prod_eq_iff case_prod_beta)
    from refused [of digest "Give_up n failure"] show "failAgentReplyRun digest d' (rr_oid run) n token2 failure later = d'"
      by (simp add: holder_call_def c(2))
    have none: "find (live_holder (rr_oid run) token2 later) (agentReplyRuns d') = None" using that by (simp add: live c(3))
    show "au_runId inp = rr_oid run \<and> au_leaseToken inp = token2 \<longrightarrow> snd (createAutomaticSendUnderRunLease d' inp later u oid2) \<noteq> Inr (Completed s)"
      using answer_needs [of d' inp later u oid2 _ s] none by (metis prod.collapse)
  qed
  have renews: "snd (renewAgentReplyLease d' (rr_oid run) token later) =
      (if later < now + agent_reply_lease_ms then Some (later + agent_reply_lease_ms) else None)" for later
  proof (cases "later < now + agent_reply_lease_ms")
    case True
    have "rr_lease run \<noteq> None" using c(2,3) by (auto simp: run_holder_def split: if_splits)
    with True show ?thesis by (auto simp: renewAgentReplyLease_def found_after_def live c(3) extend_lease_def)
  qed (simp add: renewAgentReplyLease_def found_after_def live c(3))
  show ?thesis
    by (intro conjI allI impI; (elim conjE)?; (rule c others renews stale stale(3) [rule_format]))
      (assumption | rule conjI)+
qed

definition ex_scope :: reply_scope where
  "ex_scope = \<lparr>rs_organizationId = js ''org'', rs_instanceId = js ''i1'', rs_groupJid = js ''g@g.us'', rs_waMessageId = js ''m1''\<rparr>"

lemma ex_scope_job: "job_of ex_scope = (js ''org'', js ''i1'', js ''g@g.us'', js ''m1'')"
  by (simp add: job_of_def ex_scope_def)

lemma ex_first_claim:
  "claimAgentReplyRun empty_db ex_scope (js ''t1'') (js ''r1'') 100 =
     (empty_db\<lparr>agentReplyRuns := [new_run ex_scope (js ''t1'') 100 (js ''r1'')]\<rparr>, Some (Claimed (new_run ex_scope (js ''t1'') 100 (js ''r1'')) (js ''t1'')))"
proof -
  have "wf_runs empty_db" by (simp add: wf_runs_def empty_db_def)
  then show ?thesis by (simp add: claim_by_run run_at_def by_key_def empty_db_def)
qed

lemma ex_empty_runs: "wf_runs empty_db" "fresh_run i empty_db"
  by (simp_all add: wf_runs_def fresh_run_def empty_db_def)

theorem reply_lease_exclusive_witness:
  "let d = fst (claimAgentReplyRun empty_db ex_scope (js ''t1'') (js ''r1'') 100)
   in claimAgentReplyRun d ex_scope (js ''t2'') (js ''r2'') 60000 = (d, Some (Claim_live (new_run ex_scope (js ''t1'') 100 (js ''r1''))))
      \<and> renewAgentReplyLease d (js ''r1'') (js ''t2'') 60000 = (d, None)
      \<and> snd (renewAgentReplyLease d (js ''r1'') (js ''t1'') 60000) = Some 180000"
proof -
  note p = reply_lease_exclusive [OF ex_empty_runs ex_first_claim]
  have oid: "rr_oid (new_run ex_scope (js ''t1'') 100 (js ''r1'')) = js ''r1''" by simp
  from p show ?thesis by (simp add: ex_first_claim Let_def agent_reply_lease_ms_def oid)
qed

text \<open>C9: A reply job is tried at most five times. Along any interleaving of the writes that touch the
  runs, each job is granted at most five leases and the stored run counts them exactly; and every
  claim the code makes is part of such a history.\<close>

theorem reply_attempts_bounded:
  assumes "run_history d gs"
  shows "count_list gs k \<le> 5 \<and> count_list gs k = (case run_at d k of None \<Rightarrow> 0 | Some r \<Rightarrow> rr_attempts r)
    \<and> (\<forall>scope token oid now d' c. fresh_run oid d \<and> claimAgentReplyRun d scope token oid now = (d', c)
        \<longrightarrow> run_history d' (case c of Some (Claimed r t) \<Rightarrow> job_of scope # gs | _ \<Rightarrow> gs))"
proof -
  have inv: "run_inv d gs" by (rule run_history_inv [OF assms])
  then have count: "count_list gs k = attempts_at d k" by (simp add: run_inv_def)
  have "attempts_at d k \<le> 5"
    using inv by (auto simp: attempts_at_def run_inv_def run_at_def agent_reply_max_attempts_def split: option.splits dest!: by_key_Some)
  with count show ?thesis using claim_in_history [OF assms] by (auto simp: attempts_at_def)
qed

theorem reply_attempts_bounded_witness:
  "let d = fst (claimAgentReplyRun empty_db ex_scope (js ''t1'') (js ''r1'') 100)
   in run_history d [job_of ex_scope] \<and> run_at d (job_of ex_scope) \<noteq> None \<and> count_list [job_of ex_scope] (job_of ex_scope) = 1"
proof -
  have start: "run_history empty_db []" unfolding run_history_def by (rule exI [of _ empty_db]) (simp add: run_path.here empty_db_def)
  from reply_attempts_bounded [OF start] ex_first_claim ex_empty_runs(2)
  have hist: "run_history (fst (claimAgentReplyRun empty_db ex_scope (js ''t1'') (js ''r1'') 100)) [job_of ex_scope]" by fastforce
  from reply_attempts_bounded [OF hist, of "job_of ex_scope"] hist show ?thesis by (auto simp: Let_def split: option.splits)
qed

text \<open>A finished job stays finished. Once a run is complete it is the very same document after any
  writes of any callers; once it is dead no write ever grants its lease again, and it stays dead or is
  completed by a reconciled send.\<close>

theorem finished_runs_stay_finished:
  assumes "run_path d d' gs" and "wf_runs d" and "run_at d k = Some r" and "rr_state r = Run_complete \<or> rr_state r = Run_dead"
  shows "k \<notin> set gs \<and> (\<exists>r'. run_at d' k = Some r' \<and> (rr_state r' = Run_complete \<or> rr_state r' = Run_dead)
    \<and> (rr_state r = Run_complete \<longrightarrow> r' = r))"
  using run_path_finished [OF assms(1-3)] assms(4) by (auto simp: run_finished_def)

definition ex_complete :: reply_run where
  "ex_complete = finish_run (js ''s1'') 150 (new_run ex_scope (js ''t1'') 100 (js ''r1''))"

theorem finished_runs_stay_finished_witness:
  "\<exists>r. run_at (fst (renewAgentReplyLease (empty_db\<lparr>agentReplyRuns := [ex_complete]\<rparr>) (js ''r1'') (js ''t1'') 160)) (job_of ex_scope) = Some r
     \<and> r = ex_complete"
proof -
  let ?d = "empty_db\<lparr>agentReplyRuns := [ex_complete]\<rparr>"
  have key: "run_key ex_complete = job_of ex_scope" by (simp add: ex_complete_def)
  have path: "run_path ?d (fst (renewAgentReplyLease ?d (js ''r1'') (js ''t1'') 160)) []"
    using run_path.step [OF run_path.here run_write.renew [of ?d "js ''r1''" "js ''t1''" 160]] by simp
  have "wf_runs ?d" "run_at ?d (job_of ex_scope) = Some ex_complete" "rr_state ex_complete = Run_complete"
    by (simp_all add: wf_runs_def run_at_def by_key_def key) (simp add: ex_complete_def finish_run_def)
  with finished_runs_stay_finished [OF path, of "job_of ex_scope" ex_complete] show ?thesis by auto
qed

text \<open>What a claim answers, for every state the job can be in: a new job is created and granted; a
  completed or dead one is reported unchanged; a run whose lease has not expired or whose retry is
  not due is left to its holder; an abandoned or due one is taken over under the new token with one
  more attempt while fewer than five were made, and otherwise closed as dead under the matching code.\<close>

theorem claim_outcomes:
  assumes "wf_runs d"
  shows "claimAgentReplyRun d scope token oid now =
    (let due = (\<lambda>r. rr_state r = Run_processing \<and> lease_expired now r \<or> rr_state r = Run_failed \<and> retry_due now r);
         code = (\<lambda>r. if rr_state r = Run_processing then js ''lease_exhausted'' else js ''attempts_exhausted'');
         change = (\<lambda>f. d\<lparr>agentReplyRuns := update_one (\<lambda>r. run_of scope r \<and> due r) f (agentReplyRuns d)\<rparr>)
     in case find (run_of scope) (agentReplyRuns d) of
          None \<Rightarrow> (d\<lparr>agentReplyRuns := agentReplyRuns d @ [new_run scope token now oid]\<rparr>, Some (Claimed (new_run scope token now oid) token))
        | Some r \<Rightarrow>
            if rr_state r = Run_complete then (d, Some (Claim_completed r))
            else if rr_state r = Run_dead then (d, Some (Claim_dead r))
            else if \<not> due r then (d, Some (Claim_live r))
            else if rr_attempts r < 5 then (change (reclaim token now), Some (Claimed (reclaim token now r) token))
            else (change (exhaust (code r) now), Some (Claim_dead (exhaust (code r) now r))))"
proof (cases "run_at d (job_of scope)")
  case None
  then show ?thesis by (simp add: claim_by_run [OF assms] find_run)
next
  case (Some r)
  have due: "(\<lambda>r. rr_state r = Run_processing \<and> lease_expired now r \<or> rr_state r = Run_failed \<and> retry_due now r) = claimable_run now"
    by (simp add: claimable_run_def fun_eq_iff)
  have eq: "set_runs d (\<lambda>r. run_key r = job_of scope \<and> claimable_run now r) (take_over token now) =
      d\<lparr>agentReplyRuns := update_one (\<lambda>r. run_of scope r \<and> claimable_run now r) f (agentReplyRuns d)\<rparr>"
    if "take_over token now r = f r" "claimable_run now r" for f
    unfolding run_of_key set_runs_def [symmetric] using that by (intro set_runs_at [OF assms Some]) simp_all
  have st: "claimable_run now r \<Longrightarrow> rr_state r \<noteq> Run_complete \<and> rr_state r \<noteq> Run_dead" by (auto simp: claimable_run_def)
  show ?thesis
  proof (cases "claimable_run now r")
    case False
    then show ?thesis unfolding due claim_by_run [OF assms] find_run Some Let_def by simp
  next
    case True
    note whole = claim_by_run [OF assms, of scope token oid now, unfolded Some option.case if_P [OF True]]
    show ?thesis
    proof (cases "rr_attempts r < 5")
      case left: True
      then have t: "take_over token now r = reclaim token now r" by (simp add: take_over_def agent_reply_max_attempts_def)
      have "claimAgentReplyRun d scope token oid now = (d\<lparr>agentReplyRuns := update_one (\<lambda>r. run_of scope r \<and> claimable_run now r)
          (reclaim token now) (agentReplyRuns d)\<rparr>, Some (Claimed (reclaim token now r) token))"
        unfolding whole eq [where f = "reclaim token now", OF t True] t using left by (simp only: if_True agent_reply_max_attempts_def)
      with left st [OF True] True show ?thesis
        unfolding due find_run Some Let_def option.case by (simp only: if_False if_True not_True_eq_False)
    next
      case spent: False
      then have t: "take_over token now r = exhaust (spent_code r) now r" by (simp add: take_over_def agent_reply_max_attempts_def)
      have "claimAgentReplyRun d scope token oid now = (d\<lparr>agentReplyRuns := update_one (\<lambda>r. run_of scope r \<and> claimable_run now r)
          (exhaust (spent_code r) now) (agentReplyRuns d)\<rparr>, Some (Claim_dead (exhaust (spent_code r) now r)))"
        unfolding whole eq [where f = "exhaust (spent_code r) now", OF t True] t using spent by (simp only: if_False agent_reply_max_attempts_def)
      with spent st [OF True] True show ?thesis
        unfolding due find_run Some Let_def option.case spent_code_def by (simp only: if_False if_True not_True_eq_False)
    qed
  qed
qed

theorem claim_outcomes_witness:
  "claimAgentReplyRun (empty_db\<lparr>agentReplyRuns := [ex_complete]\<rparr>) ex_scope (js ''t9'') (js ''r9'') 900
     = (empty_db\<lparr>agentReplyRuns := [ex_complete]\<rparr>, Some (Claim_completed ex_complete))"
proof -
  have "wf_runs (empty_db\<lparr>agentReplyRuns := [ex_complete]\<rparr>)" by (simp add: wf_runs_def)
  moreover have "run_of ex_scope ex_complete" by (simp add: run_of_key ex_complete_def)
  moreover have "rr_state ex_complete = Run_complete" by (simp add: ex_complete_def finish_run_def)
  ultimately show ?thesis by (simp add: claim_outcomes Let_def)
qed

text \<open>How a failed attempt ends. The holder's recorded failure closes the run for good when it is
  terminal or the fifth; otherwise the run waits, and its next attempt lies within twenty per cent of
  the backoff \<open>min(5m * 2^(attempts-1), 6h)\<close>: every claim before that instant answers \<open>live\<close> and
  changes nothing, a claim at or after it is granted.\<close>

theorem failed_attempt_retry_window:
  assumes "wf_runs d" and "fresh_run oid d" and "claimAgentReplyRun d scope token oid now = (d1, Some (Claimed run t))"
    and "at < now + agent_reply_lease_ms" and "\<And>i a. digest i a < 65536"
    and "d2 = failAgentReplyRun digest d1 (rr_oid run) (rr_attempts run) token failure at"
  shows "if rf_terminal failure \<or> 5 \<le> rr_attempts run
    then \<exists>r. rr_state r = Run_dead \<and> rr_nextAttemptAt r = None \<and> rr_failure r = Some (rf_code failure, at)
           \<and> (\<forall>token2 oid2 later. claimAgentReplyRun d2 scope token2 oid2 later = (d2, Some (Claim_dead r)))
    else \<exists>r due. rr_state r = Run_failed \<and> rr_nextAttemptAt r = Some due \<and> rr_failure r = Some (rf_code failure, at)
           \<and> 4 * int (backoff_base (rr_attempts run)) \<le> 5 * (due - at) \<and> 5 * (due - at) \<le> 6 * int (backoff_base (rr_attempts run))
           \<and> (\<forall>token2 oid2 later. snd (claimAgentReplyRun d2 scope token2 oid2 later) =
                Some (if later < due then Claim_live r else Claimed (reclaim token2 later r) token2))
           \<and> (\<forall>token2 oid2 later. later < due \<longrightarrow> fst (claimAgentReplyRun d2 scope token2 oid2 later) = d2)"
proof -
  note c = claimed_holder [OF assms(1,3)]
  have wf1: "wf_runs d1" using wf_claim_run [OF assms(1,2), of scope token now] assms(3) by simp
  have wf2: "wf_runs d2" unfolding assms(6) failAgentReplyRun_def by (rule wf_set_runs [OF wf1]) simp_all
  let ?r = "fail_update digest (rr_oid run) (rr_attempts run) failure at run"
  have found: "find (live_holder (rr_oid run) token at) (agentReplyRuns d1) = Some run"
    using assms(4) by (simp add: live_holder_at [OF wf1 c(2)] c(3))
  have "?r \<in> set (agentReplyRuns d2)" unfolding assms(6) failAgentReplyRun_def set_runs_runs by (rule find_Some_update [OF found])
  moreover have "run_key ?r = job_of scope" using by_key_Some [OF c(2) [unfolded run_at_def]] by simp
  ultimately have at: "run_at d2 (job_of scope) = Some ?r"
    using by_key_eqI [of run_key "agentReplyRuns d2" ?r] wf2 by (simp add: run_at_def wf_runs_def)
  note claims = claim_by_run [OF wf2, of scope, unfolded at option.case]
  show ?thesis
  proof (cases "rf_terminal failure \<or> 5 \<le> rr_attempts run")
    case True
    then have "rr_state ?r = Run_dead" "rr_nextAttemptAt ?r = None" "rr_failure ?r = Some (rf_code failure, at)"
      by (simp_all add: fail_update_def agent_reply_max_attempts_def Let_def)
    moreover from this have "claimAgentReplyRun d2 scope token2 oid2 later = (d2, Some (Claim_dead ?r))" for token2 oid2 later
      by (simp add: claims claimable_run_def)
    ultimately show ?thesis using True by auto
  next
    case False
    define due where "due = at + int (agentReplyRetryDelayMs digest (rr_oid run) (rr_attempts run))"
    have r: "rr_state ?r = Run_failed" "rr_nextAttemptAt ?r = Some due" "rr_failure ?r = Some (rf_code failure, at)" "rr_attempts ?r < 5"
      using False by (simp_all add: fail_update_def agent_reply_max_attempts_def due_def Let_def)
    have "4 * int (backoff_base (rr_attempts run)) \<le> 5 * (due - at)" "5 * (due - at) \<le> 6 * int (backoff_base (rr_attempts run))"
      using retry_delay_window [where digest = digest and n = "rr_attempts run" and i = "rr_oid run", OF assms(5)] by (simp_all add: due_def)
    moreover have "claimable_run later ?r \<longleftrightarrow> due \<le> later" for later using r by (simp add: claimable_run_def retry_due_def)
    then have "snd (claimAgentReplyRun d2 scope token2 oid2 later) = Some (if later < due then Claim_live ?r else Claimed (reclaim token2 later ?r) token2)"
      "later < due \<Longrightarrow> fst (claimAgentReplyRun d2 scope token2 oid2 later) = d2" for token2 oid2 later
      using r(1,4) by (simp_all add: claims take_over_def agent_reply_max_attempts_def)
    ultimately show ?thesis using False r by auto
  qed
qed

theorem failed_attempt_retry_window_witness:
  "\<exists>d1 d2 r due. claimAgentReplyRun empty_db ex_scope (js ''t1'') (js ''r1'') 100 = (d1, Some (Claimed (new_run ex_scope (js ''t1'') 100 (js ''r1'')) (js ''t1'')))
     \<and> d2 = failAgentReplyRun (\<lambda>_ _. 7) d1 (js ''r1'') 1 (js ''t1'') \<lparr>rf_code = js ''provider_503'', rf_terminal = False\<rparr> 5000
     \<and> rr_nextAttemptAt r = Some due \<and> 245000 \<le> due \<and> due \<le> 365000
     \<and> snd (claimAgentReplyRun d2 ex_scope (js ''t2'') (js ''r2'') 244000) = Some (Claim_live r)"
proof -
  let ?f = "\<lparr>rf_code = js ''provider_503'', rf_terminal = False\<rparr>" and ?run = "new_run ex_scope (js ''t1'') 100 (js ''r1'')"
  let ?d1 = "empty_db\<lparr>agentReplyRuns := [?run]\<rparr>"
  have run: "rr_oid ?run = js ''r1''" "rr_attempts ?run = 1" by (simp_all add: new_run_def)
  have base: "backoff_base (Suc 0) = 300000" by (simp add: backoff_base_def agent_reply_base_backoff_ms_def agent_reply_max_backoff_ms_def)
  let ?d2 = "failAgentReplyRun (\<lambda>_ _. 7) ?d1 (js ''r1'') 1 (js ''t1'') ?f 5000"
  from failed_attempt_retry_window [OF ex_empty_runs ex_first_claim, of 5000 "\<lambda>_ _. 7" ?d2 ?f]
  obtain r due where r: "rr_nextAttemptAt r = Some due" "1200000 \<le> 5 * (due - 5000)" "5 * (due - 5000) \<le> 1800000"
    and claim: "\<forall>token2 oid2 later. snd (claimAgentReplyRun ?d2 ex_scope token2 oid2 later) =
                Some (if later < due then Claim_live r else Claimed (reclaim token2 later r) token2)"
    by (simp add: agent_reply_lease_ms_def run base) blast
  have "245000 \<le> due" "due \<le> 365000" using r by simp_all
  moreover from this claim have "snd (claimAgentReplyRun ?d2 ex_scope (js ''t2'') (js ''r2'') 244000) = Some (Claim_live r)" by simp
  ultimately show ?thesis using ex_first_claim r(1) by blast
qed

end
