(* ===== verification/ReplyKeys.thy ===== *)
theory ReplyKeys
  imports ReplyLeases
begin

text \<open>
  The idempotency key of a reply job (\<open>agentReplyIdempotencyKey\<close>): the job's ids, percent-encoded by
  \<open>encodeURIComponent\<close> and joined by colons. The encoding is a prefix code over the code points, so
  the key determines the job.
\<close>

section \<open>encodeURIComponent\<close>

text \<open>ECMAScript's unreserved characters: letters, digits and \<open>- _ . ! ~ * ' ( )\<close>.\<close>

definition uri_unreserved :: "nat \<Rightarrow> bool" where
  "uri_unreserved c \<longleftrightarrow> is_upper c \<or> is_lower c \<or> is_digit c \<or> c \<in> {45, 95, 46, 33, 126, 42, 39, 40, 41}"

definition hex_digit :: "nat \<Rightarrow> nat" where
  "hex_digit n = (if n < 10 then 48 + n else 55 + n)"

definition percent :: "nat \<Rightarrow> jstr" where
  "percent b = [37, hex_digit (b div 16), hex_digit (b mod 16)]"

definition utf8 :: "nat \<Rightarrow> nat list" where
  "utf8 c = (if c < 128 then [c]
     else if c < 2048 then [192 + c div 64, 128 + c mod 64]
     else if c < 65536 then [224 + c div 4096, 128 + c div 64 mod 64, 128 + c mod 64]
     else [240 + c div 262144, 128 + c div 4096 mod 64, 128 + c div 64 mod 64, 128 + c mod 64])"

definition encode_point :: "nat \<Rightarrow> jstr" where
  "encode_point c = (if uri_unreserved c then [c] else concat (map percent (utf8 c)))"

text \<open>A lone surrogate makes \<open>encodeURIComponent\<close> throw a \<open>URIError\<close>, which is \<^const>\<open>None\<close>.\<close>

fun encodeURIComponent :: "jstr \<Rightarrow> jstr option" where
  "encodeURIComponent [] = Some []"
| "encodeURIComponent (c # xs) =
    (if is_low_surrogate c then None
     else if is_high_surrogate c then
       (case xs of
          [] \<Rightarrow> None
        | d # ys \<Rightarrow> if is_low_surrogate d
            then map_option (\<lambda>r. encode_point (65536 + (c - 55296) * 1024 + (d - 56320)) @ r) (encodeURIComponent ys)
            else None)
     else map_option (\<lambda>r. encode_point c @ r) (encodeURIComponent xs))"

definition reply_key_parts :: "jstr \<Rightarrow> jstr \<Rightarrow> jstr \<Rightarrow> jstr list" where
  "reply_key_parts inst jid wa = [js ''owner-mention'', inst, jid, wa]"

fun all_some :: "'a option list \<Rightarrow> 'a list option" where
  "all_some [] = Some []"
| "all_some (x # xs) = (case x of None \<Rightarrow> None | Some y \<Rightarrow> map_option (\<lambda>ys. y # ys) (all_some xs))"

definition agentReplyIdempotencyKey :: "reply_scope \<Rightarrow> jstr option" where
  "agentReplyIdempotencyKey scope = map_option (join (js '':''))
    (all_some (map encodeURIComponent (reply_key_parts (rs_instanceId scope) (rs_groupJid scope) (rs_waMessageId scope))))"

section \<open>The encoding is a prefix code\<close>

text \<open>The bytes a percent sequence starts with, read back.\<close>

definition hex_value :: "nat \<Rightarrow> nat" where
  "hex_value h = (if h < 58 then h - 48 else h - 55)"

lemma hex_value_digit [simp]: "n < 16 \<Longrightarrow> hex_value (hex_digit n) = n"
  by (simp add: hex_value_def hex_digit_def)

lemma percent_inj:
  assumes "b < 256" "b' < 256" "percent b = percent b'"
  shows "b = b'"
proof -
  have "hex_digit (b div 16) = hex_digit (b' div 16)" "hex_digit (b mod 16) = hex_digit (b' mod 16)"
    using assms(3) by (simp_all only: percent_def list.inject)
  moreover have "b div 16 < 16" "b' div 16 < 16" using assms(1,2) by (simp_all add: less_mult_imp_div_less)
  ultimately have "b div 16 = b' div 16" "b mod 16 = b' mod 16"
    by (metis hex_value_digit, metis hex_value_digit mod_less_divisor zero_less_numeral)
  then show ?thesis by (metis div_mult_mod_eq)
qed

lemma length_percent [simp]: "length (percent b) = 3"
  by (simp add: percent_def)

lemma percent_eq: "b < 256 \<Longrightarrow> b' < 256 \<Longrightarrow> percent b @ xs = percent b' @ ys \<longleftrightarrow> b = b' \<and> xs = ys"
  using percent_inj by (metis append_eq_append_conv length_percent)

lemma utf8_bytes: "c < 1114112 \<Longrightarrow> b \<in> set (utf8 c) \<Longrightarrow> b < 256"
  by (auto simp: utf8_def split: if_splits)

lemma utf8_prefix:
  assumes "c < 1114112" "c' < 1114112" "utf8 c @ xs = utf8 c' @ ys"
  shows "c = c' \<and> xs = ys"
proof -
  have val: "c = (if c < 128 then hd (utf8 c) else if c < 2048 then (hd (utf8 c) - 192) * 64 + (utf8 c ! 1 - 128)
      else if c < 65536 then (hd (utf8 c) - 224) * 4096 + (utf8 c ! 1 - 128) * 64 + (utf8 c ! 2 - 128)
      else (hd (utf8 c) - 240) * 262144 + (utf8 c ! 1 - 128) * 4096 + (utf8 c ! 2 - 128) * 64 + (utf8 c ! 3 - 128))" for c
  proof -
    have "c = c div 64 * 64 + c mod 64" "c div 64 = c div 4096 * 64 + c div 64 mod 64" "c div 4096 = c div 262144 * 64 + c div 4096 mod 64"
      by (simp_all add: div_mult2_eq [of _ 64 64, simplified] div_mult2_eq [of _ 4096 64, simplified])
    then have "c = c div 4096 * 4096 + c div 64 mod 64 * 64 + c mod 64"
      "c = c div 262144 * 262144 + c div 4096 mod 64 * 4096 + c div 64 mod 64 * 64 + c mod 64" "c = c div 64 * 64 + c mod 64"
      by linarith+
    then show ?thesis by (simp add: utf8_def)
  qed
  have head: "hd (utf8 c) = hd (utf8 c')" using assms(3) by (auto simp: utf8_def split: if_splits)
  have "length (utf8 c) = length (utf8 c')"
    using head assms(1,2) by (auto simp: utf8_def split: if_splits)
  with assms(3) have eq: "utf8 c = utf8 c'" "xs = ys" by auto
  have cls: "(c < 128) = (c' < 128)" "(c < 2048) = (c' < 2048)" "(c < 65536) = (c' < 65536)"
    using \<open>length (utf8 c) = length (utf8 c')\<close> by (auto simp: utf8_def split: if_splits)
  show ?thesis using val [of c] val [of c'] eq cls by (auto split: if_splits)
qed

lemma percent_concat_inj:
  "length bs = length bs' \<Longrightarrow> \<forall>b \<in> set bs. b < 256 \<Longrightarrow> \<forall>b \<in> set bs'. b < 256
    \<Longrightarrow> concat (map percent bs) = concat (map percent bs') \<Longrightarrow> bs = bs'"
proof (induction bs bs' rule: list_induct2)
  case (Cons b bs b' bs')
  then show ?case using percent_eq [of b b' "concat (map percent bs)" "concat (map percent bs')"] by simp
qed simp

lemma length_percent_concat: "length (concat (map percent bs)) = 3 * length bs"
  by (induction bs) simp_all

lemma utf8_head_length:
  "c < 1114112 \<Longrightarrow> c' < 1114112 \<Longrightarrow> hd (utf8 c) = hd (utf8 c') \<Longrightarrow> length (utf8 c) = length (utf8 c')"
  by (auto simp: utf8_def split: if_splits)

lemma utf8_Cons: "\<exists>bs. utf8 c = hd (utf8 c) # bs"
  by (simp add: utf8_def)

lemma percent_utf8_prefix:
  assumes "c < 1114112" "c' < 1114112" "concat (map percent (utf8 c)) @ xs = concat (map percent (utf8 c')) @ ys"
  shows "c = c' \<and> xs = ys"
proof -
  obtain bs bs' where u: "utf8 c = hd (utf8 c) # bs" "utf8 c' = hd (utf8 c') # bs'" using utf8_Cons by blast
  have lt: "\<forall>b \<in> set (utf8 c). b < 256" "\<forall>b \<in> set (utf8 c'). b < 256" using utf8_bytes assms(1,2) by blast+
  have hb: "hd (utf8 c) < 256" "hd (utf8 c') < 256" using lt u by (metis list.set_intros(1))+
  have "percent (hd (utf8 c)) @ concat (map percent bs) @ xs = percent (hd (utf8 c')) @ concat (map percent bs') @ ys"
    using assms(3) u by (metis append.assoc concat.simps(2) list.simps(9))
  then have "hd (utf8 c) = hd (utf8 c')" using percent_eq [OF hb] by blast
  then have len: "length (utf8 c) = length (utf8 c')" by (rule utf8_head_length [OF assms(1,2)])
  then have eq: "concat (map percent (utf8 c)) = concat (map percent (utf8 c'))" "xs = ys"
    using assms(3) by (simp_all add: append_eq_append_conv length_percent_concat)
  have "utf8 c = utf8 c'" by (rule percent_concat_inj [OF len lt eq(1)])
  with eq(2) show ?thesis using utf8_prefix [OF assms(1,2), of "[]" "[]"] by simp
qed

lemma encode_point_prefix:
  assumes "c < 1114112" "c' < 1114112" "encode_point c @ xs = encode_point c' @ ys"
  shows "c = c' \<and> xs = ys"
proof -
  have plain: "uri_unreserved u \<Longrightarrow> u \<noteq> 37" for u
    by (auto simp: uri_unreserved_def is_upper_def is_lower_def is_digit_def)
  have "\<exists>r. concat (map percent (utf8 u)) = 37 # r" for u
    using utf8_Cons [of u] by (metis append_Cons concat.simps(2) list.simps(9) percent_def)
  then have "concat (map percent (utf8 u)) @ zs \<noteq> [v] @ ws" if "uri_unreserved v" for u v zs ws
    using plain [OF that] by (metis append_Cons list.inject)
  then show ?thesis
    using assms percent_utf8_prefix [OF assms(1,2)]
    by (cases "uri_unreserved c"; cases "uri_unreserved c'") (auto simp: encode_point_def; metis)+
qed

section \<open>The whole string\<close>

fun scalar_values :: "jstr \<Rightarrow> nat list option" where
  "scalar_values [] = Some []"
| "scalar_values (c # xs) =
    (if is_low_surrogate c then None
     else if is_high_surrogate c then
       (case xs of
          [] \<Rightarrow> None
        | d # ys \<Rightarrow> if is_low_surrogate d
            then map_option ((#) (65536 + (c - 55296) * 1024 + (d - 56320))) (scalar_values ys) else None)
     else map_option ((#) c) (scalar_values xs))"

definition utf16 :: "nat \<Rightarrow> jstr" where
  "utf16 v = (if v < 65536 then [v] else [55296 + (v - 65536) div 1024, 56320 + (v - 65536) mod 1024])"

definition code_units :: "jstr \<Rightarrow> bool" where
  "code_units xs \<longleftrightarrow> (\<forall>c \<in> set xs. c < 65536)"

lemma encode_scalars: "encodeURIComponent xs = map_option (\<lambda>vs. concat (map encode_point vs)) (scalar_values xs)"
  by (induction xs rule: encodeURIComponent.induct) (auto simp: option.map_comp comp_def split: list.splits)

lemma utf16_pair:
  assumes "is_high_surrogate c" "is_low_surrogate d"
  shows "utf16 (65536 + (c - 55296) * 1024 + (d - 56320)) = [c, d]" "65536 + (c - 55296) * 1024 + (d - 56320) < 1114112"
proof -
  obtain h l where hl: "c = 55296 + h" "d = 56320 + l" "h < 1024" "l < 1024"
    using assms by (auto simp: is_high_surrogate_def is_low_surrogate_def nat_le_iff_add)
  then show "utf16 (65536 + (c - 55296) * 1024 + (d - 56320)) = [c, d]" by (simp add: utf16_def)
  show "65536 + (c - 55296) * 1024 + (d - 56320) < 1114112" using hl by simp
qed

lemma scalar_values_utf16:
  "code_units xs \<Longrightarrow> scalar_values xs = Some vs \<Longrightarrow> concat (map utf16 vs) = xs \<and> (\<forall>v \<in> set vs. v < 1114112)"
proof (induction xs arbitrary: vs rule: scalar_values.induct)
  case (2 c xs)
  show ?case
  proof (cases "is_high_surrogate c")
    case True
    then have "\<not> is_low_surrogate c" by (simp add: is_high_surrogate_def is_low_surrogate_def)
    with True 2(4) obtain d ys us where d: "xs = d # ys" "is_low_surrogate d" "scalar_values ys = Some us"
      "vs = (65536 + (c - 55296) * 1024 + (d - 56320)) # us" by (cases xs) (auto split: if_splits)
    moreover have "code_units ys" using 2(3) d(1) by (simp add: code_units_def)
    ultimately have "concat (map utf16 us) = ys \<and> (\<forall>v \<in> set us. v < 1114112)"
      using 2(1) [OF \<open>\<not> is_low_surrogate c\<close> True d(1,2)] d(3) by simp
    with d utf16_pair [OF True d(2)] show ?thesis by simp
  next
    case False
    with 2(4) obtain us where us: "\<not> is_low_surrogate c" "scalar_values xs = Some us" "vs = c # us" by (auto split: if_splits)
    moreover have "code_units xs" "c < 65536" using 2(3) by (simp_all add: code_units_def)
    ultimately show ?thesis using 2(2) [OF us(1) False] by (simp add: utf16_def)
  qed
qed simp

lemma encode_point_not_Nil: "encode_point c \<noteq> []"
  by (simp add: encode_point_def utf8_def percent_def)

lemma points_inj:
  "\<forall>v \<in> set vs. v < 1114112 \<Longrightarrow> \<forall>v \<in> set ws. v < 1114112 \<Longrightarrow> concat (map encode_point vs) = concat (map encode_point ws) \<Longrightarrow> vs = ws"
proof (induction vs arbitrary: ws)
  case Nil
  then show ?case using encode_point_not_Nil by (cases ws) auto
next
  case (Cons v vs)
  show ?case
  proof (cases ws)
    case Nil
    with Cons.prems encode_point_not_Nil show ?thesis by auto
  next
    case (Cons w ws')
    with Cons.prems Cons.IH [of ws'] encode_point_prefix [of v w "concat (map encode_point vs)" "concat (map encode_point ws')"]
    show ?thesis by simp
  qed
qed

lemma encodeURIComponent_inj:
  assumes "code_units xs" "code_units ys" "encodeURIComponent xs = Some e" "encodeURIComponent ys = Some e"
  shows "xs = ys"
proof -
  obtain vs ws where v: "scalar_values xs = Some vs" "scalar_values ys = Some ws"
    "concat (map encode_point vs) = concat (map encode_point ws)" using assms(3,4) by (auto simp: encode_scalars)
  with scalar_values_utf16 [OF assms(1) v(1)] scalar_values_utf16 [OF assms(2) v(2)] points_inj [of vs ws] show ?thesis by auto
qed

lemma encode_point_no_colon: "58 \<notin> set (encode_point c)"
proof -
  have "58 \<noteq> hex_digit n" for n by (simp add: hex_digit_def)
  then have "58 \<notin> set (percent b)" for b by (simp add: percent_def)
  then show ?thesis by (auto simp: encode_point_def uri_unreserved_def is_upper_def is_lower_def is_digit_def)
qed

lemma encoded_no_colon: "encodeURIComponent xs = Some e \<Longrightarrow> 58 \<notin> set e"
  using encode_point_no_colon by (auto simp: encode_scalars)

lemma colon_join_inj:
  assumes "length ps = length qs" "\<forall>p \<in> set ps. 58 \<notin> set p" "\<forall>q \<in> set qs. 58 \<notin> set q" "join (js '':'') ps = join (js '':'') qs"
  shows "ps = qs"
proof (cases "ps = []")
  case False
  have "split_on 58 (join (js '':'') rs) = rs" if "rs \<noteq> []" "\<forall>r \<in> set rs. 58 \<notin> set r" for rs
    using that by (induction rs rule: induct_list012) (auto simp: split_on_no_sep split_on_append_sep js_def)
  with assms False show ?thesis by (metis length_0_conv)
qed (use assms in simp)

section \<open>Reconciling by the key\<close>

lemma all_some_map: "all_some (map f xs) = Some ys \<Longrightarrow> length ys = length xs \<and> (\<forall>i < length xs. f (xs ! i) = Some (ys ! i))"
  by (induction xs arbitrary: ys) (auto split: option.splits simp: nth_Cons')

text \<open>The send the run's completion inserted is the one the job's filter finds, first and alone.\<close>

lemma completed_under_lease:
  assumes "completeUnderLease d runId token wa c batchIds factIds entry missing now = (d', Inr (Completed s))"
  shows "s = c" "sendRequests d' = sendRequests d @ [c]"
    "find (has_idempotency_key (sr_organizationId c) (sr_idempotencyKey c)) (sendRequests d) = None"
    "agentReplyRuns d' = update_one (owns_run runId token (sr_organizationId c) (sr_instanceId c) (sr_groupJid c) wa now)
        (complete_run (sr_oid c) batchIds factIds now) (agentReplyRuns d)"
    "\<exists>r \<in> set (agentReplyRuns d). owns_run runId token (sr_organizationId c) (sr_instanceId c) (sr_groupJid c) wa now r"
proof -
  note res = assms [unfolded completeUnderLease_result Let_def]
  from res show "s = c" "find (has_idempotency_key (sr_organizationId c) (sr_idempotencyKey c)) (sendRequests d) = None"
    by (simp_all split: if_splits)
  from res show "sendRequests d' = sendRequests d @ [c]" by (auto split: if_splits)
  from res show "agentReplyRuns d' = update_one (owns_run runId token (sr_organizationId c) (sr_instanceId c) (sr_groupJid c) wa now)
        (complete_run (sr_oid c) batchIds factIds now) (agentReplyRuns d)" by (auto split: if_splits)
  from res show "\<exists>r \<in> set (agentReplyRuns d). owns_run runId token (sr_organizationId c) (sr_instanceId c) (sr_groupJid c) wa now r"
    by (auto simp: find_None_iff split: if_splits)
qed

lemma reconcile_finds_answer:
  assumes "find (has_idempotency_key (rs_organizationId scope) key) xs = None" and "reconcile_filter scope key s"
  shows "find (reconcile_filter scope key) (xs @ [s]) = Some s"
proof -
  have "find (reconcile_filter scope key) xs = None"
    using assms(1) by (auto simp: find_None_iff reconcile_filter_def same_job_send_def has_idempotency_key_def)
  with assms(2) show ?thesis by (simp add: find_append)
qed

text \<open>
  A completed job is recognised by its key, whichever of the two sends completed it: reconciling finds
  the very send and writes nothing.
\<close>

definition answers_job :: "send_row \<Rightarrow> jstr \<Rightarrow> bool" where
  "answers_job s wa \<longleftrightarrow> (\<exists>p. sr_provenance s = Some p \<and> pv_source p = owner_mention \<and> pv_replyToMessageId p = wa)"

lemma completed_job_reconciles:
  assumes "wf_runs d" and "completeUnderLease d runId token wa c batchIds factIds entry missing now = (d', Inr (Completed s))"
    and "answers_job c wa"
  shows "reconcileAgentReplySend d' \<lparr>rs_organizationId = sr_organizationId c, rs_instanceId = sr_instanceId c,
      rs_groupJid = sr_groupJid c, rs_waMessageId = wa\<rparr> (sr_idempotencyKey c) later = (d', Some c)"
proof -
  let ?scope = "\<lparr>rs_organizationId = sr_organizationId c, rs_instanceId = sr_instanceId c, rs_groupJid = sr_groupJid c, rs_waMessageId = wa\<rparr>"
  let ?owns = "owns_run runId token (sr_organizationId c) (sr_instanceId c) (sr_groupJid c) wa now"
  note sent = completed_under_lease [OF assms(2)]
  have "reconcile_filter ?scope (sr_idempotencyKey c) c"
    using assms(3) by (auto simp: reconcile_filter_def same_job_send_def answers_job_def)
  then have sends: "find (reconcile_filter ?scope (sr_idempotencyKey c)) (sendRequests d') = Some c"
    using sent(3) by (simp add: sent(2) reconcile_finds_answer)
  from sent(5) obtain r where r: "r \<in> set (agentReplyRuns d)" "?owns r" by blast
  have key: "?owns x \<Longrightarrow> run_key x = job_of ?scope" for x by (simp add: owns_run_def run_key_def job_of_def)
  have at: "run_at d (job_of ?scope) = Some r"
    using by_key_eqI [of run_key "agentReplyRuns d" r] assms(1) r key [OF r(2)] by (simp add: run_at_def wf_runs_def)
  have eq: "?owns = (\<lambda>x. run_key x = job_of ?scope \<and> ?owns x)" using key by blast
  have "run_at d' (job_of ?scope) = Some (complete_run (sr_oid c) batchIds factIds now r)"
    using at r(2) assms(1) unfolding run_at_def sent(4)
    by (subst eq) (simp add: by_key_update_same wf_runs_def)
  moreover have "wf_runs d'" using assms(1) by (simp add: wf_runs_def sent(4) map_update_one)
  ultimately have "find (\<lambda>x. run_of ?scope x \<and> rr_state x \<noteq> Run_complete) (agentReplyRuns d') = None"
    by (simp add: run_of_key find_key_cond wf_runs_def run_at_def complete_run_def)
  then show ?thesis using sends by (simp add: reconcileAgentReplySend_def set_runs_no_match)
qed

section \<open>Properties\<close>

text \<open>C26: The send key of a reply job determines the job: two jobs with the same key are about the same
  message of the same chat of the same instance, whatever characters their ids contain, colons and percent signs
  included. So the unique index on the key never takes one job's send for another's.\<close>

theorem reply_key_unique:
  assumes "list_all code_units [rs_instanceId a, rs_groupJid a, rs_waMessageId a, rs_instanceId b, rs_groupJid b, rs_waMessageId b]"
    and "agentReplyIdempotencyKey a = Some key" and "agentReplyIdempotencyKey b = Some key"
  shows "rs_instanceId a = rs_instanceId b \<and> rs_groupJid a = rs_groupJid b \<and> rs_waMessageId a = rs_waMessageId b"
proof -
  let ?p = "\<lambda>s. reply_key_parts (rs_instanceId s) (rs_groupJid s) (rs_waMessageId s)"
  obtain as bs where ab: "all_some (map encodeURIComponent (?p a)) = Some as" "all_some (map encodeURIComponent (?p b)) = Some bs"
    "join (js '':'') as = join (js '':'') bs" using assms(2,3) by (auto simp: agentReplyIdempotencyKey_def)
  note A = all_some_map [OF ab(1)] and B = all_some_map [OF ab(2)]
  have len: "length as = 4" "length bs = 4" using A B by (simp_all add: reply_key_parts_def)
  have "\<forall>p \<in> set as. 58 \<notin> set p" using A by (metis encoded_no_colon in_set_conv_nth)
  moreover have "\<forall>p \<in> set bs. 58 \<notin> set p" using B by (metis encoded_no_colon in_set_conv_nth)
  ultimately have eq: "as = bs" using ab(3) len by (intro colon_join_inj) simp_all
  have i: "encodeURIComponent (?p a ! i) = Some (as ! i)" "encodeURIComponent (?p b ! i) = Some (as ! i)" if "i < 4" for i
    using A B that eq by (simp_all add: reply_key_parts_def)
  show ?thesis
    using i [of 1] i [of 2] i [of 3] assms(1) by (auto simp: reply_key_parts_def numeral_eq_Suc intro: encodeURIComponent_inj)
qed

theorem reply_key_unique_witness:
  "agentReplyIdempotencyKey (ex_scope\<lparr>rs_instanceId := js ''i:1''\<rparr>) = Some (js ''owner-mention:i%3A1:g%40g.us:m1'')
   \<and> agentReplyIdempotencyKey (ex_scope\<lparr>rs_instanceId := js ''i'', rs_groupJid := js ''1:g@g.us''\<rparr>)
     \<noteq> agentReplyIdempotencyKey (ex_scope\<lparr>rs_instanceId := js ''i:1''\<rparr>)"
proof -
  let ?a = "ex_scope\<lparr>rs_instanceId := js ''i:1''\<rparr>" and ?b = "ex_scope\<lparr>rs_instanceId := js ''i'', rs_groupJid := js ''1:g@g.us''\<rparr>"
  note scalar = is_high_surrogate_def is_low_surrogate_def encode_point_def uri_unreserved_def is_upper_def is_lower_def
    is_digit_def utf8_def percent_def hex_digit_def js_def
  have parts: "encodeURIComponent (js ''owner-mention'') = Some (js ''owner-mention'')" "encodeURIComponent (js ''i:1'') = Some (js ''i%3A1'')"
    "encodeURIComponent (js ''g@g.us'') = Some (js ''g%40g.us'')" "encodeURIComponent (js ''m1'') = Some (js ''m1'')"
    by (simp_all add: scalar)
  have key: "agentReplyIdempotencyKey ?a = Some (js ''owner-mention:i%3A1:g%40g.us:m1'')"
    by (simp add: agentReplyIdempotencyKey_def reply_key_parts_def ex_scope_def parts) (simp add: js_def)
  have units: "list_all code_units [rs_instanceId ?a, rs_groupJid ?a, rs_waMessageId ?a, rs_instanceId ?b, rs_groupJid ?b, rs_waMessageId ?b]"
    by (simp add: ex_scope_def code_units_def js_def)
  from reply_key_unique [OF units key] key show ?thesis by auto
qed

text \<open>An answered job is recognised: after the transaction that created a job's answer, a replay that
  reconciles by the job's key gets that very send and writes nothing, so the model is never asked
  again for it.\<close>

theorem answered_job_reconciles:
  assumes "wf_runs d" and "createAutomaticSendUnderRunLease d inp now u oid = (d', Inr (Completed s))"
    and "au_replyToMessageId inp = au_waMessageId inp"
  shows "reconcileAgentReplySend d' \<lparr>rs_organizationId = au_organizationId inp, rs_instanceId = au_instanceId inp,
      rs_groupJid = au_groupJid inp, rs_waMessageId = au_waMessageId inp\<rparr> (au_idempotencyKey inp) later = (d', Some s)"
proof -
  let ?c = "automatic_candidate inp now u oid"
  have c: "sr_organizationId ?c = au_organizationId inp" "sr_instanceId ?c = au_instanceId inp" "sr_groupJid ?c = au_groupJid inp"
    "sr_idempotencyKey ?c = au_idempotencyKey inp" "answers_job ?c (au_waMessageId inp)"
    using assms(3) by (simp_all add: automatic_candidate_def answers_job_def)
  note created = assms(2) [unfolded createAutomaticSendUnderRunLease_def]
  from completed_job_reconciles [OF assms(1) created c(5)] completed_under_lease(1) [OF created] show ?thesis by (simp add: c)
qed

theorem answered_job_reconciles_witness:
  "\<exists>d' s. createAutomaticSendUnderRunLease (empty_db\<lparr>agentReplyRuns := [ex_run]\<rparr>) ex_automatic 100 (js ''s1'') (js ''o1'') = (d', Inr (Completed s))
     \<and> reconcileAgentReplySend d' ex_scope (au_idempotencyKey ex_automatic) 500 = (d', Some s)"
proof -
  let ?d = "empty_db\<lparr>agentReplyRuns := [ex_run]\<rparr>"
  obtain d' res where eq: "createAutomaticSendUnderRunLease ?d ex_automatic 100 (js ''s1'') (js ''o1'') = (d', res)" by fastforce
  then have "res = Inr (Completed (automatic_candidate ex_automatic 100 (js ''s1'') (js ''o1'')))"
    by (auto simp: createAutomaticSendUnderRunLease_def completeUnderLease_result automatic_candidate_def
        ex_automatic_def ex_run_def owns_run_def empty_db_def Let_def)
  with eq obtain s where s: "createAutomaticSendUnderRunLease ?d ex_automatic 100 (js ''s1'') (js ''o1'') = (d', Inr (Completed s))" by blast
  have "wf_runs ?d" by (simp add: wf_runs_def)
  from answered_job_reconciles [OF this s, of 500] s show ?thesis by (auto simp: ex_automatic_def ex_scope_def)
qed

end
