(* ===== verification/Recall.thy ===== *)
theory Recall
  imports ReplyRuns Complex_Main "HOL-Library.Product_Lexorder"
begin

text \<open>
  Scoped recall (\<open>apps/web/src/server/memory/recall.ts\<close>): the summaries and facts of one chat, and
  their deterministic ranking. Scores are exact rationals where the code has IEEE doubles; the
  \<open>$text\<close> search of the database and Unicode's tables are parameters.
\<close>

section \<open>Types\<close>

record recall_scope =
  rc_organizationId :: jstr
  rc_instanceId :: jstr
  rc_groupJid :: jstr

record recalled_summary =
  rsm_summaryId :: oid
  rsm_batchId :: oid
  rsm_period :: "time \<times> time"
  rsm_summary :: jstr
  rsm_topics :: "jstr list"
  rsm_sourceWaMessageIds :: "jstr list"

record recalled_fact =
  rft_factId :: oid
  rft_batchId :: oid
  rft_kind :: memory_fact_kind
  rft_text :: jstr
  rft_subject :: "jstr option"
  rft_confidence :: memory_confidence
  rft_occurredAt :: "time option"
  rft_createdAt :: time
  rft_sourceWaMessageIds :: "jstr list"
  rft_textScore :: rat
  rft_score :: rat

record recall_result =
  rl_summaries :: "recalled_summary list"
  rl_facts :: "recalled_fact list"

text \<open>
  What recall asks of Unicode and of the database: \<open>toLowerCase\<close>, whether a code point is in
  \<open>\p{L}\<close> or \<open>\p{N}\<close>, and the \<open>textScore\<close> of a document matching a \<open>$text\<close> search.
\<close>

record recall_env =
  re_lower :: "jstr \<Rightarrow> jstr"
  re_word :: "jstr \<Rightarrow> bool"
  re_textScore :: "jstr \<Rightarrow> memory_fact \<Rightarrow> rat option"

definition recall_summary_limit :: nat where "recall_summary_limit = 8"

definition recall_text_fact_limit :: nat where "recall_text_fact_limit = 12"

definition recall_recent_fact_limit :: nat where "recall_recent_fact_limit = 12"

definition recency_window_ms :: time where "recency_window_ms = 30 * 24 * 60 * 60 * 1000"

definition kind_boost :: "memory_fact_kind \<Rightarrow> rat" where
  "kind_boost k = (case k of Fk_decision \<Rightarrow> 1 | Fk_commitment \<Rightarrow> 1 | Fk_action_item \<Rightarrow> 7/10 | Fk_fact \<Rightarrow> 1/2 | Fk_question \<Rightarrow> 2/5)"

section \<open>Keys and search terms\<close>

text \<open>\<open>replaceAll(/\s+/g, " ")\<close>.\<close>

function collapse_spaces :: "jstr \<Rightarrow> jstr" where
  "collapse_spaces [] = []"
| "collapse_spaces (c # xs) =
    (if is_space c then 32 # collapse_spaces (dropWhile is_space xs) else c # collapse_spaces xs)"
  by pat_completeness auto
termination
  by (relation "measure length") (auto simp: length_dropWhile_le less_Suc_eq_le)

definition normalizeFactText :: "recall_env \<Rightarrow> jstr \<Rightarrow> jstr" where
  "normalizeFactText env value = collapse_spaces (re_lower env (trim value))"

text \<open>The matches of \<open>/[\p{L}\p{N}]+/gu\<close>: the maximal runs of word code points.\<close>

fun word_runs :: "(jstr \<Rightarrow> bool) \<Rightarrow> jstr \<Rightarrow> jstr list \<Rightarrow> jstr list" where
  "word_runs P run [] = (if run = [] then [] else [run])"
| "word_runs P run (c # cs) =
    (if P c then word_runs P (run @ c) cs
     else (if run = [] then [] else [run]) @ word_runs P [] cs)"

text \<open>\<open>[...new Set(xs)]\<close>: the first occurrence of each value, in order.\<close>

definition set_of_list :: "'a list \<Rightarrow> 'a list" where
  "set_of_list xs = rev (remdups (rev xs))"

definition factSearchTerms :: "recall_env \<Rightarrow> jstr \<Rightarrow> jstr" where
  "factSearchTerms env query =
    (let terms = filter (\<lambda>t. 2 \<le> length t) (word_runs (re_word env) [] (code_points query))
     in join (js '' '') (take 16 (set_of_list (map (re_lower env) terms))))"

section \<open>Scoring and ranking\<close>

definition factScore :: "memory_fact \<Rightarrow> rat \<Rightarrow> time \<Rightarrow> rat" where
  "factScore doc textScore now =
    (let occurred = (case mf_occurredAt doc of Some t \<Rightarrow> t | None \<Rightarrow> mf_createdAt doc);
         age = max 0 (now - occurred);
         recency = max 0 (min 1 (1 - of_int age / of_int recency_window_ms))
     in textScore * (55/100) + recency * (25/100) + kind_boost (mf_kind doc) * (2/10))"

type_synonym id_table = "(oid \<times> memory_fact \<times> rat) list"

text \<open>\<open>Map.set\<close>: a known key keeps its place.\<close>

fun table_set :: "oid \<Rightarrow> memory_fact \<times> rat \<Rightarrow> id_table \<Rightarrow> id_table" where
  "table_set k v [] = [(k, v)]"
| "table_set k v ((k', v') # t) = (if k' = k then (k, v) # t else (k', v') # table_set k v t)"

definition add_hit :: "id_table \<Rightarrow> memory_fact \<times> rat \<Rightarrow> id_table" where
  "add_hit t hit = (case map_of t (mf_oid (fst hit)) of
      None \<Rightarrow> table_set (mf_oid (fst hit)) hit t
    | Some old \<Rightarrow> if snd old < snd hit then table_set (mf_oid (fst hit)) hit t else t)"

definition add_recent :: "id_table \<Rightarrow> memory_fact \<Rightarrow> id_table" where
  "add_recent t doc = (if map_of t (mf_oid doc) = None then table_set (mf_oid doc) (doc, 0) t else t)"

definition facts_by_id :: "(memory_fact \<times> rat) list \<Rightarrow> memory_fact list \<Rightarrow> id_table" where
  "facts_by_id textHits recent = foldl add_recent (foldl add_hit [] textHits) recent"

definition recalled :: "memory_fact \<Rightarrow> rat \<Rightarrow> rat \<Rightarrow> recalled_fact" where
  "recalled doc textScore score = \<lparr>rft_factId = mf_oid doc, rft_batchId = mf_batchId doc, rft_kind = mf_kind doc,
     rft_text = mf_text doc, rft_subject = mf_subject doc, rft_confidence = mf_confidence doc,
     rft_occurredAt = mf_occurredAt doc, rft_createdAt = mf_createdAt doc,
     rft_sourceWaMessageIds = mf_sourceWaMessageIds doc, rft_textScore = textScore, rft_score = score\<rparr>"

definition rank_key :: "recalled_fact \<Rightarrow> rat \<times> oid" where
  "rank_key f = (- rft_score f, rft_factId f)"

definition max_facts :: nat where
  "max_facts = recall_text_fact_limit + recall_recent_fact_limit"

text \<open>The loop over the ranked candidates, with the texts already seen and the room left.\<close>

definition norm_of :: "recall_env \<Rightarrow> recalled_fact \<Rightarrow> jstr" where
  "norm_of env f = normalizeFactText env (rft_text f)"

definition repeats :: "recall_env \<Rightarrow> jstr set \<Rightarrow> recalled_fact \<Rightarrow> bool" where
  "repeats env seen f \<longleftrightarrow> norm_of env f \<noteq> [] \<and> norm_of env f \<in> seen"

definition see :: "recall_env \<Rightarrow> jstr set \<Rightarrow> recalled_fact \<Rightarrow> jstr set" where
  "see env seen f = (if norm_of env f \<noteq> [] then insert (norm_of env f) seen else seen)"

fun keep_first :: "recall_env \<Rightarrow> jstr set \<Rightarrow> nat \<Rightarrow> recalled_fact list \<Rightarrow> recalled_fact list" where
  "keep_first env seen room [] = []"
| "keep_first env seen room (f # fs) =
    (if repeats env seen f then keep_first env seen room fs
     else f # (if room \<le> 1 then [] else keep_first env (see env seen f) (room - 1) fs))"

definition rankFacts :: "recall_env \<Rightarrow> (memory_fact \<times> rat) list \<Rightarrow> memory_fact list \<Rightarrow> time \<Rightarrow> recalled_fact list" where
  "rankFacts env textHits recent now =
    (let ranked = sort_key rank_key
          (map (\<lambda>(k, doc, textScore). recalled doc textScore (factScore doc textScore now)) (facts_by_id textHits recent))
     in keep_first env {} max_facts ranked)"

section \<open>The three branches\<close>

definition in_scope :: "recall_scope \<Rightarrow> jstr \<Rightarrow> jstr \<Rightarrow> jstr \<Rightarrow> bool" where
  "in_scope scope org inst jid \<longleftrightarrow> org = rc_organizationId scope \<and> inst = rc_instanceId scope \<and> jid = rc_groupJid scope"

definition fact_in_scope :: "recall_scope \<Rightarrow> memory_fact \<Rightarrow> bool" where
  "fact_in_scope scope f \<longleftrightarrow> in_scope scope (mf_organizationId f) (mf_instanceId f) (mf_groupJid f)"

definition recentSummaries :: "db \<Rightarrow> recall_scope \<Rightarrow> recalled_summary list" where
  "recentSummaries d scope =
    map (\<lambda>m. \<lparr>rsm_summaryId = mm_oid m, rsm_batchId = mm_batchId m, rsm_period = mm_period m, rsm_summary = mm_summary m,
          rsm_topics = mm_topics m, rsm_sourceWaMessageIds = snd (mm_source m)\<rparr>)
      (take recall_summary_limit (sort_key (\<lambda>m. - snd (mm_period m))
        (filter (\<lambda>m. in_scope scope (mm_organizationId m) (mm_instanceId m) (mm_groupJid m)) (memorySummaries d))))"

definition textMatchingFacts :: "recall_env \<Rightarrow> db \<Rightarrow> recall_scope \<Rightarrow> jstr \<Rightarrow> (memory_fact \<times> rat) list" where
  "textMatchingFacts env d scope search =
    take recall_text_fact_limit (sort_key (\<lambda>(f, score). - score)
      (List.map_filter (\<lambda>f. if fact_in_scope scope f then map_option (Pair f) (re_textScore env search f) else None) (memoryFacts d)))"

text \<open>A missing \<open>occurredAt\<close> sorts below every date.\<close>

definition recentFacts :: "db \<Rightarrow> recall_scope \<Rightarrow> memory_fact list" where
  "recentFacts d scope =
    take recall_recent_fact_limit
      (sort_key (\<lambda>f. (case mf_occurredAt f of None \<Rightarrow> (1 :: int, 0) | Some t \<Rightarrow> (0, - t), - mf_createdAt f))
        (filter (fact_in_scope scope) (memoryFacts d)))"

definition recallMemory :: "recall_env \<Rightarrow> db \<Rightarrow> recall_scope \<Rightarrow> jstr \<Rightarrow> time \<Rightarrow> recall_result" where
  "recallMemory env d scope query now =
    (let search = factSearchTerms env query;
         textHits = (if search = [] then [] else textMatchingFacts env d scope search)
     in \<lparr>rl_summaries = recentSummaries d scope, rl_facts = rankFacts env textHits (recentFacts d scope) now\<rparr>)"

section \<open>The ranking's invariants\<close>

lemma keep_first_length: "0 < room \<Longrightarrow> length (keep_first env seen room fs) \<le> room"
proof (induction fs arbitrary: seen room)
  case (Cons f fs)
  from Cons.IH [of "room - 1" "see env seen f"] Cons.IH [OF Cons.prems, of seen] Cons.prems show ?case by auto
qed simp

lemma keep_first_subset: "set (keep_first env seen room fs) \<subseteq> set fs"
  by (induction fs arbitrary: seen room) (force split: if_splits)+

lemma keep_first_sorted: "sorted (map rank_key fs) \<Longrightarrow> sorted (map rank_key (keep_first env seen room fs))"
proof (induction fs arbitrary: seen room)
  case (Cons f fs)
  have "\<forall>g \<in> set (keep_first env s r fs). rank_key f \<le> rank_key g" for s r
    using Cons.prems keep_first_subset [of env s r fs] by auto
  with Cons show ?case by auto
qed simp

lemma keep_first_distinct: "distinct (map rft_factId fs) \<Longrightarrow> distinct (map rft_factId (keep_first env seen room fs))"
proof (induction fs arbitrary: seen room)
  case (Cons f fs)
  have "rft_factId f \<notin> rft_factId ` set (keep_first env s r fs)" for s r
    using Cons.prems keep_first_subset [of env s r fs] by auto
  with Cons show ?case by auto
qed simp

lemma keep_first_seen: "f \<in> set (keep_first env seen room fs) \<Longrightarrow> norm_of env f \<noteq> [] \<Longrightarrow> norm_of env f \<notin> seen"
proof (induction fs arbitrary: seen room)
  case (Cons g fs)
  show ?case
  proof (cases "repeats env seen g")
    case True
    with Cons show ?thesis by auto
  next
    case False
    with Cons.prems consider "f = g" | "f \<in> set (keep_first env (see env seen g) (room - 1) fs)" by (auto split: if_splits)
    then show ?thesis
    proof cases
      case 1
      with False Cons.prems show ?thesis by (simp add: repeats_def)
    next
      case 2
      from Cons.IH [OF 2 Cons.prems(2)] show ?thesis by (auto simp: see_def split: if_splits)
    qed
  qed
qed simp

lemma keep_first_texts: "distinct (filter (\<lambda>t. t \<noteq> []) (map (norm_of env) (keep_first env seen room fs)))"
proof (induction fs arbitrary: seen room)
  case (Cons f fs)
  have "norm_of env g \<noteq> norm_of env f" if "g \<in> set (keep_first env (see env seen f) r fs)" "norm_of env f \<noteq> []" for g r
    using keep_first_seen [OF that(1)] that(2) by (auto simp: see_def)
  then have "norm_of env f \<noteq> [] \<Longrightarrow> norm_of env f \<notin> norm_of env ` set (keep_first env (see env seen f) (room - 1) fs)" by force
  with Cons.IH show ?case by auto
qed simp

text \<open>A candidate is dropped only for a kept one of the same text that ranks before it, or for want of room.\<close>

lemma keep_first_best:
  assumes "sorted (map rank_key fs)" "f \<in> set fs" "f \<notin> set (keep_first env seen room fs)" "0 < room"
  shows "length (keep_first env seen room fs) = room
    \<or> norm_of env f \<noteq> [] \<and> (norm_of env f \<in> seen \<or> (\<exists>g \<in> set (keep_first env seen room fs). norm_of env g = norm_of env f \<and> rank_key g \<le> rank_key f))"
  using assms
proof (induction fs arbitrary: seen room)
  case (Cons g fs)
  show ?case
  proof (cases "repeats env seen g")
    case True
    then have k: "keep_first env seen room (g # fs) = keep_first env seen room fs" by simp
    show ?thesis
    proof (cases "f \<in> set fs")
      case True
      with Cons k show ?thesis by auto
    next
      case False
      with Cons.prems(2) have "f = g" by simp
      with \<open>repeats env seen g\<close> show ?thesis by (simp add: repeats_def)
    qed
  next
    case False
    then have k: "keep_first env seen room (g # fs) = g # (if room \<le> 1 then [] else keep_first env (see env seen g) (room - 1) fs)" by simp
    show ?thesis
    proof (cases "room \<le> 1")
      case True
      with Cons.prems(4) show ?thesis unfolding k by simp
    next
      case room: False
      have f: "f \<in> set fs" "f \<notin> set (keep_first env (see env seen g) (room - 1) fs)"
        using Cons.prems(2,3) room unfolding k by auto
      moreover have "sorted (map rank_key fs)" and le: "rank_key g \<le> rank_key f" using Cons.prems(1) f(1) by auto
      ultimately have "length (keep_first env (see env seen g) (room - 1) fs) = room - 1 \<or> norm_of env f \<noteq> [] \<and> (norm_of env f \<in> see env seen g
          \<or> (\<exists>h \<in> set (keep_first env (see env seen g) (room - 1) fs). norm_of env h = norm_of env f \<and> rank_key h \<le> rank_key f))"
        using Cons.IH [of "see env seen g" "room - 1"] room by simp
      then show ?thesis using room le unfolding k by (auto simp: see_def split: if_splits)
    qed
  qed
qed simp

lemma map_of_table_set [simp]: "map_of (table_set k v t) k' = (if k' = k then Some v else map_of t k')"
  by (induction k v t rule: table_set.induct) auto

lemma table_set_keys: "distinct (map fst t) \<Longrightarrow> distinct (map fst (table_set k v t)) \<and> fst ` set (table_set k v t) = insert k (fst ` set t)"
  by (induction k v t rule: table_set.induct) auto

text \<open>A row of the table is one of the hits or recent facts, under its own id.\<close>

definition table_ok :: "memory_fact set \<Rightarrow> id_table \<Rightarrow> bool" where
  "table_ok S t \<longleftrightarrow> distinct (map fst t) \<and> (\<forall>(k, f, s) \<in> set t. f \<in> S \<and> mf_oid f = k)"

lemma table_set_ok: "table_ok S t \<Longrightarrow> f \<in> S \<Longrightarrow> table_ok S (table_set (mf_oid f) (f, s) t)"
proof -
  assume t: "table_ok S t" "f \<in> S"
  have "set (table_set k v u) \<subseteq> insert (k, v) (set u)" for k v and u :: id_table
    by (induction k v u rule: table_set.induct) auto
  with t table_set_keys show ?thesis by (fastforce simp: table_ok_def)
qed

lemma facts_by_id_ok: "table_ok (fst ` set hits \<union> set recent) (facts_by_id hits recent)"
proof -
  let ?S = "fst ` set hits \<union> set recent"
  have hit: "table_ok ?S t \<Longrightarrow> h \<in> set hits \<Longrightarrow> table_ok ?S (add_hit t h)" for t h
    using table_set_ok [of ?S t "fst h" "snd h"] by (auto simp: add_hit_def split: option.splits)
  have rec: "table_ok ?S t \<Longrightarrow> f \<in> set recent \<Longrightarrow> table_ok ?S (add_recent t f)" for t f
    using table_set_ok [of ?S t f 0] by (auto simp: add_recent_def)
  have "table_ok ?S t \<Longrightarrow> set hs \<subseteq> set hits \<Longrightarrow> table_ok ?S (foldl add_hit t hs)" for t hs
    by (induction hs arbitrary: t) (auto intro: hit)
  moreover have "table_ok ?S []" by (simp add: table_ok_def)
  ultimately have "table_ok ?S (foldl add_hit [] hits)" by blast
  moreover have "table_ok ?S t \<Longrightarrow> set fs \<subseteq> set recent \<Longrightarrow> table_ok ?S (foldl add_recent t fs)" for t fs
    by (induction fs arbitrary: t) (auto intro: rec)
  ultimately show ?thesis by (simp add: facts_by_id_def)
qed

text \<open>No id is lost, and a hit keeps its best text score.\<close>

lemma facts_by_id_has:
  "f \<in> set recent \<Longrightarrow> map_of (facts_by_id hits recent) (mf_oid f) \<noteq> None"
  "(f, s) \<in> set hits \<Longrightarrow> \<exists>g s'. map_of (facts_by_id hits recent) (mf_oid f) = Some (g, s') \<and> s \<le> s'"
proof -
  have "map_of t k = Some v \<Longrightarrow> map_of (add_recent t f) k = Some v" for t k v f by (auto simp: add_recent_def)
  then have keep_r: "map_of t k = Some v \<Longrightarrow> map_of (foldl add_recent t fs) k = Some v" for t k v fs
    by (induction fs arbitrary: t) auto
  have add_r: "map_of (add_recent t g) (mf_oid g) \<noteq> None" for t g by (simp add: add_recent_def)
  have "f \<in> set fs \<Longrightarrow> map_of (foldl add_recent t fs) (mf_oid f) \<noteq> None" for t fs
  proof (induction fs arbitrary: t)
    case (Cons g fs)
    then show ?case using add_r [of t f] keep_r [of "add_recent t f" "mf_oid f" _ fs] by auto
  qed simp
  then show "f \<in> set recent \<Longrightarrow> map_of (facts_by_id hits recent) (mf_oid f) \<noteq> None" by (simp add: facts_by_id_def)
  have keep_h: "\<exists>g s'. map_of (foldl add_hit t hs) k = Some (g, s') \<and> s \<le> s'" if "map_of t k = Some (g0, s0)" "s \<le> s0" for t k g0 s0 hs s
    using that
  proof (induction hs arbitrary: t g0 s0)
    case (Cons h hs)
    have "\<exists>g1 s1. map_of (add_hit t h) k = Some (g1, s1) \<and> s \<le> s1"
      using Cons.prems by (cases h; cases "k = mf_oid (fst h)"; cases "map_of t (mf_oid (fst h))") (auto simp: add_hit_def)
    then obtain g1 s1 where "map_of (add_hit t h) k = Some (g1, s1)" "s \<le> s1" by blast
    from Cons.IH [OF this] show ?case by simp
  qed auto
  have add_h: "\<exists>g s'. map_of (add_hit t h) (mf_oid (fst h)) = Some (g, s') \<and> snd h \<le> s'" for t h
    by (cases h) (auto simp: add_hit_def split: option.splits)
  have "(f, s) \<in> set hs \<Longrightarrow> \<exists>g s'. map_of (foldl add_hit t hs) (mf_oid f) = Some (g, s') \<and> s \<le> s'" for t hs
  proof (induction hs arbitrary: t)
    case (Cons h hs)
    then show ?case using add_h [of t "(f, s)"] keep_h [of "add_hit t (f, s)" "mf_oid f" _ _ s hs] by auto
  qed simp
  then show "(f, s) \<in> set hits \<Longrightarrow> \<exists>g s'. map_of (facts_by_id hits recent) (mf_oid f) = Some (g, s') \<and> s \<le> s'"
    using keep_r by (fastforce simp: facts_by_id_def)
qed

section \<open>Properties\<close>

definition candidates :: "(memory_fact \<times> rat) list \<Rightarrow> memory_fact list \<Rightarrow> time \<Rightarrow> recalled_fact list" where
  "candidates hits recent now = sort_key rank_key
     (map (\<lambda>(k, doc, textScore). recalled doc textScore (factScore doc textScore now)) (facts_by_id hits recent))"

lemma rankFacts_candidates: "rankFacts env hits recent now = keep_first env {} max_facts (candidates hits recent now)"
  by (simp add: rankFacts_def candidates_def)

lemma candidate_origin:
  "c \<in> set (candidates hits recent now) \<Longrightarrow> \<exists>f s. f \<in> fst ` set hits \<union> set recent \<and> c = recalled f s (factScore f s now)"
  using facts_by_id_ok [of hits recent] by (fastforce simp: candidates_def table_ok_def)

lemma distinct_sort_map: "distinct (map f xs) \<Longrightarrow> distinct (map f (sort_key k xs))"
  by (simp add: distinct_map)

lemma candidates_distinct: "distinct (map rft_factId (candidates hits recent now))"
proof -
  have ok: "table_ok (fst ` set hits \<union> set recent) (facts_by_id hits recent)" by (rule facts_by_id_ok)
  have "rft_factId (case row of (k, doc, s) \<Rightarrow> recalled doc s (factScore doc s now)) = fst row"
    if "row \<in> set (facts_by_id hits recent)" for row
    using ok that by (cases row) (auto simp: table_ok_def recalled_def)
  then have eq: "map rft_factId (map (\<lambda>(k, doc, s). recalled doc s (factScore doc s now)) (facts_by_id hits recent)) = map fst (facts_by_id hits recent)"
    unfolding map_map comp_def by (intro map_cong refl) blast
  show ?thesis unfolding candidates_def
  proof (rule distinct_sort_map)
    show "distinct (map rft_factId (map (\<lambda>(k, doc, s). recalled doc s (factScore doc s now)) (facts_by_id hits recent)))"
      unfolding eq using ok by (simp add: table_ok_def)
  qed
qed

text \<open>What the ranking is offered: each hit with its text score, each other recent fact with none.\<close>

definition offered :: "(memory_fact \<times> rat) list \<Rightarrow> memory_fact list \<Rightarrow> (memory_fact \<times> rat) set" where
  "offered hits recent = set hits \<union> (\<lambda>f. (f, 0)) ` (set recent - fst ` set hits)"

lemma recent_only_score:
  assumes "f \<in> set recent" "mf_oid f \<notin> mf_oid ` fst ` set hits"
  shows "\<exists>g. map_of (facts_by_id hits recent) (mf_oid f) = Some (g, 0)"
proof -
  have hits: "map_of (foldl add_hit t hs) k = None" if "map_of t k = None" "k \<notin> mf_oid ` fst ` set hs" for t hs k
    using that by (induction hs arbitrary: t) (auto simp: add_hit_def split: option.splits)
  have zero: "\<exists>g. map_of (foldl add_recent t fs) k = Some (g, 0)" if "map_of t k = Some (g0, 0)" for t fs k g0
    using that
  proof (induction fs arbitrary: t)
    case (Cons h fs)
    have "map_of (add_recent t h) k = Some (g0, 0)" using Cons.prems by (auto simp: add_recent_def)
    from Cons.IH [OF this] show ?case by simp
  qed auto
  have "\<exists>g. map_of (foldl add_recent t fs) (mf_oid f) = Some (g, 0)" if "map_of t (mf_oid f) = None" "f \<in> set fs" for t fs
    using that
  proof (induction fs arbitrary: t)
    case (Cons h fs)
    show ?case
    proof (cases "mf_oid h = mf_oid f")
      case True
      with Cons.prems have "map_of (add_recent t h) (mf_oid f) = Some (h, 0)" by (simp add: add_recent_def)
      from zero [OF this] show ?thesis by simp
    next
      case False
      with Cons.prems have "map_of (add_recent t h) (mf_oid f) = None" "f \<in> set fs" by (auto simp: add_recent_def)
      from Cons.IH [OF this] show ?thesis by simp
    qed
  qed simp
  from this [OF _ assms(1), of "foldl add_hit [] hits"] hits [of "[]"] assms(2) show ?thesis by (simp add: facts_by_id_def)
qed

lemma factScore_mono: "s \<le> s' \<Longrightarrow> factScore f s now \<le> factScore f s' now"
  by (simp add: factScore_def Let_def)

lemma candidate_exists:
  assumes "(f, s) \<in> offered hits recent" and "\<forall>g \<in> fst ` set hits \<union> set recent. mf_oid g = mf_oid f \<longrightarrow> g = f"
  shows "\<exists>s' \<ge> s. recalled f s' (factScore f s' now) \<in> set (candidates hits recent now)"
proof -
  have "\<exists>g s'. map_of (facts_by_id hits recent) (mf_oid f) = Some (g, s') \<and> s \<le> s'"
  proof (cases "(f, s) \<in> set hits")
    case True
    then show ?thesis by (rule facts_by_id_has(2))
  next
    case False
    with assms(1) have f: "s = 0" "f \<in> set recent" "f \<notin> fst ` set hits" by (auto simp: offered_def)
    have "mf_oid f \<notin> mf_oid ` fst ` set hits"
    proof
      assume "mf_oid f \<in> mf_oid ` fst ` set hits"
      then obtain g where "g \<in> fst ` set hits" "mf_oid g = mf_oid f" by force
      with assms(2) f(3) show False by blast
    qed
    from recent_only_score [OF f(2) this] f(1) show ?thesis by auto
  qed
  then obtain g s' where at: "map_of (facts_by_id hits recent) (mf_oid f) = Some (g, s')" and le: "s \<le> s'" by blast
  from map_of_SomeD [OF at] have gs: "(mf_oid f, g, s') \<in> set (facts_by_id hits recent)" .
  with facts_by_id_ok [of hits recent] have "g \<in> fst ` set hits \<union> set recent \<and> mf_oid g = mf_oid f"
    unfolding table_ok_def by blast
  with assms(2) have "g = f" by blast
  have "(case (mf_oid f, f, s') of (k, doc, s) \<Rightarrow> recalled doc s (factScore doc s now)) \<in> set (candidates hits recent now)"
    unfolding candidates_def set_sort set_map using gs \<open>g = f\<close> by blast
  with le show ?thesis by auto
qed

text \<open>An offered fact is in the answer, or was left out for a full list or for one of the same text that scores no worse.\<close>

lemma offered_fact_kept:
  fixes env :: recall_env and now :: time
  assumes same: "\<forall>f \<in> fst ` set hits \<union> set recent. \<forall>g \<in> fst ` set hits \<union> set recent. mf_oid g = mf_oid f \<longrightarrow> g = f"
    and f: "(f, s) \<in> offered hits recent"
  defines "out \<equiv> keep_first env {} 24 (candidates hits recent now)"
  shows "mf_oid f \<in> rft_factId ` set out \<or> length out = 24
    \<or> (\<exists>r \<in> set out. normalizeFactText env (rft_text r) = normalizeFactText env (mf_text f) \<and> factScore f s now \<le> rft_score r)"
proof -
  have "f \<in> fst ` set hits \<union> set recent" using f by (force simp: offered_def)
  with candidate_exists [OF f] same obtain s' where s': "s \<le> s'"
    and c: "recalled f s' (factScore f s' now) \<in> set (candidates hits recent now)" by blast
  let ?r = "recalled f s' (factScore f s' now)"
  have sorted: "sorted (map rank_key (candidates hits recent now))" by (simp add: candidates_def)
  have r: "rft_factId ?r = mf_oid f" "norm_of env ?r = normalizeFactText env (mf_text f)" "rft_score ?r = factScore f s' now"
    by (simp_all add: recalled_def norm_of_def)
  show ?thesis
  proof (cases "?r \<in> set out")
    case True
    then show ?thesis using r(1) by (metis image_eqI)
  next
    case False
    from keep_first_best [OF sorted c False [unfolded out_def]]
    consider "length out = 24" | g where "g \<in> set out" "norm_of env g = norm_of env ?r" "rank_key g \<le> rank_key ?r"
      unfolding out_def by auto
    then show ?thesis
    proof cases
      case 2
      from 2(3) have "factScore f s' now \<le> rft_score g" by (auto simp: rank_key_def r(3) less_eq_prod_def)
      with factScore_mono [OF s'] have "factScore f s now \<le> rft_score g" by (rule order_trans)
      moreover have "normalizeFactText env (rft_text g) = normalizeFactText env (mf_text f)" using 2(2) r(2) by (simp add: norm_of_def)
      ultimately show ?thesis using 2(1) by blast
    qed simp
  qed
qed

text \<open>C10: The ranking keeps at most twenty-four facts, best score first with the id as tie-breaker, never
  the same fact or the same normalized text twice; each kept fact is a given one under its own score;
  and a given fact is left out only when the list is full or a kept fact says the same at least as well.\<close>

theorem ranked_facts_contract:
  assumes "\<forall>f \<in> fst ` set hits \<union> set recent. \<forall>g \<in> fst ` set hits \<union> set recent. mf_oid g = mf_oid f \<longrightarrow> g = f"
    and "out = rankFacts env hits recent now"
  shows "length out \<le> 24 \<and> sorted (map rank_key out) \<and> distinct (map rft_factId out)
    \<and> distinct (filter (\<lambda>t. t \<noteq> []) (map (\<lambda>f. normalizeFactText env (rft_text f)) out))
    \<and> (\<forall>r \<in> set out. \<exists>f s. f \<in> fst ` set hits \<union> set recent \<and> r = recalled f s (factScore f s now))
    \<and> (\<forall>(f, s) \<in> offered hits recent. mf_oid f \<in> rft_factId ` set out \<or> length out = 24
         \<or> (\<exists>r \<in> set out. normalizeFactText env (rft_text r) = normalizeFactText env (mf_text f) \<and> factScore f s now \<le> rft_score r))"
proof -
  let ?c = "candidates hits recent now"
  have out: "out = keep_first env {} 24 ?c"
    by (simp add: assms(2) rankFacts_candidates max_facts_def recall_text_fact_limit_def recall_recent_fact_limit_def)
  have sorted: "sorted (map rank_key ?c)" by (simp add: candidates_def)
  have "distinct (filter (\<lambda>t. t \<noteq> []) (map (\<lambda>f. normalizeFactText env (rft_text f)) out))"
    using keep_first_texts [of env "{}" 24 ?c] unfolding out norm_of_def [abs_def] .
  moreover have "\<forall>r \<in> set out. \<exists>f s. f \<in> fst ` set hits \<union> set recent \<and> r = recalled f s (factScore f s now)"
    using keep_first_subset [of env "{}" 24 ?c] candidate_origin [of _ hits recent now] unfolding out by blast
  moreover have "\<forall>(f, s) \<in> offered hits recent. mf_oid f \<in> rft_factId ` set out \<or> length out = 24
         \<or> (\<exists>r \<in> set out. normalizeFactText env (rft_text r) = normalizeFactText env (mf_text f) \<and> factScore f s now \<le> rft_score r)"
    using offered_fact_kept [OF assms(1), of _ _ env now] unfolding out by blast
  moreover have "length out \<le> 24" "sorted (map rank_key out)" "distinct (map rft_factId out)"
    unfolding out by (simp_all add: keep_first_length keep_first_sorted [OF sorted] keep_first_distinct [OF candidates_distinct])
  ultimately show ?thesis by blast
qed

definition ex_recall_env :: recall_env where
  "ex_recall_env = \<lparr>re_lower = map to_lower, re_word = (\<lambda>p. \<exists>c. p = [c] \<and> (is_upper c \<or> is_lower c \<or> is_digit c)), re_textScore = (\<lambda>_ _. Some 1)\<rparr>"

definition ex_fact :: "oid \<Rightarrow> jstr \<Rightarrow> memory_fact" where
  "ex_fact oid text = \<lparr>mf_oid = oid, mf_organizationId = js ''org'', mf_instanceId = js ''i1'', mf_groupJid = js ''g@g.us'',
     mf_batchId = js ''b1'', mf_summaryId = js ''s1'', mf_kind = Fk_fact, mf_text = text, mf_textSearch = text, mf_subject = None,
     mf_confidence = Stated, mf_occurredAt = None, mf_sourceWaMessageIds = [], mf_createdAt = 0\<rparr>"

theorem ranked_facts_contract_witness:
  "let hits = [(ex_fact (js ''f1'') (js ''Meet at noon''), 2)]; recent = [ex_fact (js ''f2'') (js ''meet  at noon'')];
       out = rankFacts ex_recall_env hits recent 0
   in length out \<le> 24 \<and> distinct (map rft_factId out)
      \<and> (js ''f2'' \<in> rft_factId ` set out \<or> length out = 24 \<or> (\<exists>r \<in> set out. normalizeFactText ex_recall_env (rft_text r) = js ''meet at noon''))"
proof -
  let ?hits = "[(ex_fact (js ''f1'') (js ''Meet at noon''), 2 :: rat)]" and ?recent = "[ex_fact (js ''f2'') (js ''meet  at noon'')]"
  have ids: "mf_oid (ex_fact i t) = i" "mf_text (ex_fact i t) = t" for i t by (simp_all add: ex_fact_def)
  have norm: "normalizeFactText ex_recall_env (js ''meet  at noon'') = js ''meet at noon''"
    by (simp add: normalizeFactText_def ex_recall_env_def js_def trim_def trim_start_def trim_end_def is_space_def to_lower_def is_upper_def)
  have "\<forall>f \<in> fst ` set ?hits \<union> set ?recent. \<forall>g \<in> fst ` set ?hits \<union> set ?recent. mf_oid g = mf_oid f \<longrightarrow> g = f"
    by (auto simp: ids)
  note p = ranked_facts_contract [OF this refl, of ex_recall_env 0]
  have "(ex_fact (js ''f2'') (js ''meet  at noon''), 0) \<in> offered ?hits ?recent" by (simp add: offered_def ex_fact_def)
  with p have "mf_oid (ex_fact (js ''f2'') (js ''meet  at noon'')) \<in> rft_factId ` set (rankFacts ex_recall_env ?hits ?recent 0)
      \<or> length (rankFacts ex_recall_env ?hits ?recent 0) = 24
      \<or> (\<exists>r \<in> set (rankFacts ex_recall_env ?hits ?recent 0). normalizeFactText ex_recall_env (rft_text r)
            = normalizeFactText ex_recall_env (mf_text (ex_fact (js ''f2'') (js ''meet  at noon''))))" by blast
  with p show ?thesis unfolding ids norm by (simp add: Let_def)
qed

text \<open>Recall never leaves the chat: what it returns is a function of the summaries and facts stored
  under the scope's own organisation, instance and chat, so no other tenant's or chat's memory can
  change it, and it is at most eight summaries and twenty-four facts.\<close>

theorem recall_stays_in_scope:
  assumes "filter (fact_in_scope scope) (memoryFacts d) = filter (fact_in_scope scope) (memoryFacts d')"
    and "filter (\<lambda>m. in_scope scope (mm_organizationId m) (mm_instanceId m) (mm_groupJid m)) (memorySummaries d)
       = filter (\<lambda>m. in_scope scope (mm_organizationId m) (mm_instanceId m) (mm_groupJid m)) (memorySummaries d')"
  shows "recallMemory env d scope query now = recallMemory env d' scope query now
    \<and> length (rl_summaries (recallMemory env d scope query now)) \<le> 8
    \<and> length (rl_facts (recallMemory env d scope query now)) \<le> 24
    \<and> (\<forall>r \<in> set (rl_facts (recallMemory env d scope query now)). \<exists>f \<in> set (memoryFacts d). fact_in_scope scope f
          \<and> rft_factId r = mf_oid f \<and> rft_text r = mf_text f)"
proof -
  have mf: "List.map_filter (\<lambda>f. if P f then h f else None) xs = List.map_filter h (filter P xs)" for P h and xs :: "memory_fact list"
    by (induction xs) (auto simp: List.map_filter_simps split: option.splits)
  have texts: "textMatchingFacts env d scope search = textMatchingFacts env d' scope search" for search
    by (simp only: textMatchingFacts_def mf assms(1))
  have recents: "recentFacts d scope = recentFacts d' scope" by (simp only: recentFacts_def assms(1))
  have summaries: "recentSummaries d scope = recentSummaries d' scope" by (simp only: recentSummaries_def assms(2))
  have same: "recallMemory env d scope query now = recallMemory env d' scope query now"
    by (simp only: recallMemory_def texts recents summaries Let_def)
  let ?hits = "if factSearchTerms env query = [] then [] else textMatchingFacts env d scope (factSearchTerms env query)"
  have facts: "rl_facts (recallMemory env d scope query now) = keep_first env {} 24 (candidates ?hits (recentFacts d scope) now)"
    by (simp only: recallMemory_def rankFacts_candidates Let_def recall_result.simps)
      (simp add: max_facts_def recall_text_fact_limit_def recall_recent_fact_limit_def)
  have "rl_summaries (recallMemory env d scope query now) = recentSummaries d scope"
    by (simp only: recallMemory_def Let_def recall_result.simps)
  then have "length (rl_summaries (recallMemory env d scope query now)) \<le> 8"
    by (simp add: recentSummaries_def recall_summary_limit_def)
  moreover have "length (rl_facts (recallMemory env d scope query now)) \<le> 24"
    unfolding facts by (rule keep_first_length) simp
  moreover have "\<exists>f \<in> set (memoryFacts d). fact_in_scope scope f \<and> rft_factId r = mf_oid f \<and> rft_text r = mf_text f"
    if "r \<in> set (rl_facts (recallMemory env d scope query now))" for r
  proof -
    from that have "r \<in> set (candidates ?hits (recentFacts d scope) now)" unfolding facts using keep_first_subset by blast
    from candidate_origin [OF this] obtain f s where f: "f \<in> fst ` set ?hits \<union> set (recentFacts d scope)" "r = recalled f s (factScore f s now)"
      by blast
    have "fst ` set (textMatchingFacts env d scope q) \<subseteq> {f \<in> set (memoryFacts d). fact_in_scope scope f}" for q
      unfolding textMatchingFacts_def mf by (auto simp: List.map_filter_def dest!: in_set_takeD)
    moreover have "set (recentFacts d scope) \<subseteq> {f \<in> set (memoryFacts d). fact_in_scope scope f}"
      unfolding recentFacts_def by (auto dest!: in_set_takeD)
    ultimately have "f \<in> {f \<in> set (memoryFacts d). fact_in_scope scope f}" using f(1) by (cases "factSearchTerms env query = []") auto
    then show ?thesis using f(2) by (auto simp: recalled_def)
  qed
  ultimately show ?thesis using same by blast
qed

definition ex_recall_scope :: recall_scope where
  "ex_recall_scope = \<lparr>rc_organizationId = js ''org'', rc_instanceId = js ''i1'', rc_groupJid = js ''g@g.us''\<rparr>"

theorem recall_stays_in_scope_witness:
  "recallMemory ex_recall_env (empty_db\<lparr>memoryFacts := [ex_fact (js ''f1'') (js ''lunch''), (ex_fact (js ''f2'') (js ''secret''))\<lparr>mf_organizationId := js ''other''\<rparr>]\<rparr>)
       ex_recall_scope (js ''lunch?'') 0
     = recallMemory ex_recall_env (empty_db\<lparr>memoryFacts := [ex_fact (js ''f1'') (js ''lunch'')]\<rparr>) ex_recall_scope (js ''lunch?'') 0"
  by (rule recall_stays_in_scope [THEN conjunct1])
    (simp_all add: fact_in_scope_def in_scope_def ex_fact_def ex_recall_scope_def empty_db_def)

end
