(* ===== verification/PromptBudget.thy ===== *)
theory PromptBudget
  imports Prompt
begin

text \<open>
  What the assembled prompt guarantees: it stays under the ceiling, and it shows exactly what its
  provenance claims. A counter is asked for two laws, both of which the code's own remarks state:
  joining two texts costs no more than the two apart, and a text costs at most its UTF-8 bytes.
\<close>

section \<open>The counter's laws\<close>

locale token_law =
  fixes counter :: token_counter
  assumes count_append: "tc_count counter (xs @ ys) \<le> tc_count counter xs + tc_count counter ys"
    and count_bytes: "tc_count counter xs \<le> accountTokens xs"
    and multiplier: "tc_multiplier counter = None \<or> (\<exists>m. tc_multiplier counter = Some m \<and> 1 \<le> m \<and> m \<le> 6/5)"
begin

definition factor :: rat where
  "factor = (case tc_multiplier counter of None \<Rightarrow> 1 | Some m \<Rightarrow> m)"

lemma factor_bounds: "1 \<le> factor" "factor \<le> 6/5"
  using multiplier by (auto simp: factor_def)

lemma accounted: "accountedCount counter v = nat \<lceil>of_nat (tc_count counter v) * factor\<rceil>"
  by (auto simp: accountedCount_def factor_def Let_def split: option.splits)

lemma accounted_append: "accountedCount counter (xs @ ys) \<le> accountedCount counter xs + accountedCount counter ys"
proof -
  have "of_nat (tc_count counter (xs @ ys)) * factor \<le> (of_nat (tc_count counter xs) + of_nat (tc_count counter ys)) * factor"
    using count_append [of xs ys] factor_bounds(1) by (intro mult_right_mono) (metis of_nat_add of_nat_le_iff, simp)
  then have "\<lceil>of_nat (tc_count counter (xs @ ys)) * factor\<rceil> \<le> \<lceil>of_nat (tc_count counter xs) * factor + of_nat (tc_count counter ys) * factor\<rceil>"
    by (intro ceiling_mono) (simp add: distrib_right)
  also have "\<dots> \<le> \<lceil>of_nat (tc_count counter xs) * factor\<rceil> + \<lceil>of_nat (tc_count counter ys) * factor\<rceil>" by (rule ceiling_add_le)
  finally show ?thesis unfolding accounted by linarith
qed

lemma accounted_bytes: "6 * accountTokens v \<le> 5 * k \<Longrightarrow> accountedCount counter v \<le> k"
proof -
  assume "6 * accountTokens v \<le> 5 * k"
  with count_bytes [of v] have "6 * tc_count counter v \<le> 5 * k" by linarith
  then have "(6 * of_nat (tc_count counter v) :: rat) \<le> 5 * of_nat k" by (metis of_nat_le_iff of_nat_mult of_nat_numeral)
  then have k: "of_nat (tc_count counter v) * (6/5) \<le> (of_nat k :: rat)" by simp
  have "of_nat (tc_count counter v) * factor \<le> of_nat (tc_count counter v) * (6/5)" using factor_bounds by (intro mult_left_mono) simp_all
  with k have "\<lceil>of_nat (tc_count counter v) * factor\<rceil> \<le> int k" by (simp add: ceiling_le_iff)
  then show ?thesis unfolding accounted by simp
qed

lemma accounted_Nil [simp]: "accountedCount counter [] = 0"
  using count_bytes [of "[]"] by (simp add: accounted accountTokens_def)

lemma accounted_newline: "accountedCount counter [10] \<le> (if factor = 1 then 1 else 2)"
proof -
  have "tc_count counter [10] \<le> 1" using count_bytes [of "[10]"] by (simp add: accountTokens_def point_bytes_def)
  then have c: "(of_nat (tc_count counter [10]) :: rat) \<le> 1" by simp
  then have "of_nat (tc_count counter [10]) * factor \<le> 1 * factor" using factor_bounds(1) by (intro mult_right_mono) simp_all
  then have "\<lceil>of_nat (tc_count counter [10]) * factor\<rceil> \<le> \<lceil>factor\<rceil>" by (intro ceiling_mono) simp
  moreover have "\<lceil>factor\<rceil> \<le> 2" using factor_bounds(2) by (simp add: ceiling_le_iff)
  ultimately have le: "\<lceil>of_nat (tc_count counter [10]) * factor\<rceil> \<le> 2" by (rule order_trans)
  show ?thesis
  proof (cases "factor = 1")
    case True
    with c show ?thesis unfolding accounted by simp
  next
    case False
    from nat_mono [OF le] False show ?thesis unfolding accounted by simp
  qed
qed

lemma clip_points_fits:
  "used \<le> cap \<Longrightarrow> clip_points counter cap used ps = (s, u) \<Longrightarrow> used + accountedCount counter s \<le> u \<and> u \<le> cap"
proof (induction ps arbitrary: used s u)
  case (Cons p ps)
  show ?case
  proof (cases "cap < used + accountedCount counter p")
    case True
    with Cons.prems show ?thesis by (simp add: Let_def)
  next
    case False
    obtain s' u' where r: "clip_points counter cap (used + accountedCount counter p) ps = (s', u')" by fastforce
    with False Cons.prems(2) have "s = p @ s'" "u = u'" by (simp_all add: Let_def)
    moreover have "used + accountedCount counter p + accountedCount counter s' \<le> u' \<and> u' \<le> cap"
      using Cons.IH [OF _ r] False by simp
    ultimately show ?thesis using accounted_append [of p s'] by simp
  qed
qed simp

lemma clip_fits: "accountedCount counter (cl_text (clipToTokens counter v cap)) \<le> cap"
  using clip_points_fits [of 0 cap "code_points v"]
  by (fastforce simp: clipToTokens_def Let_def split: prod.splits)

definition line_cost :: "jstr list \<Rightarrow> nat" where
  "line_cost ls = (\<Sum>l \<leftarrow> ls. accountedCount counter l + 1)"

text \<open>What joining the kept lines can cost beyond the figure kept for them: nothing at multiplier one.\<close>

definition joints :: "nat \<Rightarrow> nat" where
  "joints n = (if factor = 1 then 0 else n)"

lemma joints_add: "joints (m + n) = joints m + joints n"
  by (simp add: joints_def)

lemma join_cost: "ls \<noteq> [] \<Longrightarrow> accountedCount counter (join [10] ls @ [10]) \<le> line_cost ls + joints (length ls)"
proof (induction ls rule: induct_list012)
  case (2 x)
  show ?case using accounted_append [of x "[10]"] accounted_newline by (auto simp: line_cost_def joints_def split: if_splits)
next
  case (3 x y zs)
  have "accountedCount counter (join [10] (x # y # zs) @ [10]) \<le>
      accountedCount counter x + accountedCount counter [10] + accountedCount counter (join [10] (y # zs) @ [10])"
    using accounted_append [of x "[10] @ join [10] (y # zs) @ [10]"] accounted_append [of "[10]" "join [10] (y # zs) @ [10]"] by simp
  with 3 accounted_newline show ?case by (auto simp: line_cost_def joints_def split: if_splits)
qed simp

lemma block_cost: "accountedCount counter (block h ls) \<le> (if ls = [] then 0 else accountedCount counter h + line_cost ls + joints (length ls))"
  using accounted_append [of h "join [10] ls @ [10]"] join_cost [of ls] by (auto simp: block_def)

lemma retain_lines_cost:
  "retain_lines counter seg budget used ls = (kept, u) \<Longrightarrow> used \<le> seg \<Longrightarrow> used \<le> budget
    \<Longrightarrow> u = used + line_cost kept \<and> u \<le> seg \<and> u \<le> budget"
proof (induction ls arbitrary: used kept u)
  case (Cons l ls)
  show ?case
  proof (cases "seg < used + (accountedCount counter l + 1) \<or> budget < used + (accountedCount counter l + 1)")
    case True
    with Cons.prems show ?thesis by (auto simp: Let_def line_cost_def)
  next
    case False
    obtain kept' u' where r: "retain_lines counter seg budget (used + (accountedCount counter l + 1)) ls = (kept', u')" by fastforce
    with False Cons.prems(1) have "kept = l # kept'" "u = u'" by (simp_all add: Let_def)
    with Cons.IH [OF r] False show ?thesis by (simp add: line_cost_def)
  qed
qed (simp add: line_cost_def)

lemma fill_segment_cost:
  assumes "fill_segment counter h items render seg used = (kept, u, dropped)" "used \<le> ceiling_for_content"
  shows "u \<le> ceiling_for_content \<and> u = used + (if kept = [] then 0 else accountedCount counter h + line_cost kept) \<and> line_cost kept \<le> seg"
proof -
  have z: "line_cost [] = 0" by (simp add: line_cost_def)
  show ?thesis
  proof (cases "items \<noteq> [] \<and> used + accountedCount counter h \<le> ceiling_for_content")
    case True
    let ?budget = "ceiling_for_content - used - accountedCount counter h"
    obtain k v where r: "retain_lines counter seg ?budget 0 (map render items) = (k, v)" by fastforce
    from retain_lines_cost [OF r] have "v = line_cost k" "v \<le> seg" "v \<le> ?budget" by simp_all
    moreover from assms(1) True r have "kept = k" "u = (if k \<noteq> [] then used + accountedCount counter h + v else used)"
      by (auto simp: fill_segment_def retain_def Let_def)
    ultimately show ?thesis using True assms(2) by auto
  next
    case False
    with assms(1) have "kept = []" "u = used" unfolding fill_segment_def Let_def by (auto split: if_splits)
    with assms(2) show ?thesis by (simp add: z)
  qed
qed

text \<open>The headers and the placeholder, from their bytes.\<close>

lemma header_costs:
  "accountedCount counter request_header \<le> 22" "accountedCount counter history_header \<le> 80"
  "accountedCount counter tools_header \<le> 50" "accountedCount counter memory_header \<le> 130"
  "accountedCount counter (js ''(no relevant saved context)'' @ [10]) \<le> 40"
proof -
  have b: "accountTokens request_header = 17" "accountTokens history_header = 62" "accountTokens tools_header = 37"
    "accountTokens memory_header = 99" "accountTokens (js ''(no relevant saved context)'' @ [10]) = 28"
    by (simp_all add: accountTokens_def point_bytes_def is_high_surrogate_def js_def
        request_header_def history_header_def tools_header_def memory_header_def)
  show "accountedCount counter request_header \<le> 22" "accountedCount counter history_header \<le> 80"
    "accountedCount counter tools_header \<le> 50" "accountedCount counter memory_header \<le> 130"
    "accountedCount counter (js ''(no relevant saved context)'' @ [10]) \<le> 40"
    by (simp_all add: accounted_bytes b del: append.simps)
qed

lemma memory_cost:
  "accountedCount counter (memory_block ls) \<le>
    (if ls = [] then 170 else accountedCount counter memory_header + line_cost ls + joints (length ls))"
  using accounted_append [of memory_header "join [10] ls @ [10]"] join_cost [of ls]
    accounted_append [of memory_header "js ''(no relevant saved context)'' @ [10]"] header_costs
  by (auto simp: memory_block_def)

lemma line_cost_Nil [simp]: "line_cost [] = 0"
  by (simp add: line_cost_def)

lemma line_cost_append: "line_cost (xs @ ys) = line_cost xs + line_cost ys"
  by (simp add: line_cost_def)

lemma line_cost_rev [simp]: "line_cost (rev ls) = line_cost ls"
  by (simp add: line_cost_def rev_map [symmetric])

lemma assembled_within:
  "\<exists>p. assembleReplyPrompt env counter inp = Prompt_ok p \<and> ap_reserveTokens p = 119000
     \<and> ap_accountedTokens p \<le> 180000 + joints (sc_messages (ap_included p) + sc_summaries (ap_included p) + sc_facts (ap_included p) + sc_tools (ap_included p))"
proof -
  have C: "ceiling_for_content = 61000" "reserve_tokens = 119000"
    by (simp_all add: ceiling_for_content_def reserve_tokens_def reply_prompt_ceiling_def reply_tool_reserve_tokens_def
        reply_tool_result_reserve_tokens_def reply_tool_loop_history_reserve_tokens_def reply_structural_reserve_tokens_def
        reply_output_reserve_tokens_def)
  let ?sys = "cl_text (clipToTokens counter (reply_system_prompt (as_chatKind inp)) (sx_system reply_segment_max))"
  let ?req = "cl_text (clipToTokens counter (as_currentRequest inp) (sx_request reply_segment_max))"
  let ?acc = "accountedCount counter"
  have sys: "?acc ?sys \<le> 5000" "?acc ?req \<le> 4000"
    using clip_fits [of _ "sx_system reply_segment_max"] clip_fits [of _ "sx_request reply_segment_max"] by (simp_all add: reply_segment_max_def)
  define used where "used = ?acc ?sys + ?acc request_header + ?acc ?req"
  have used: "used \<le> 9022" using sys header_costs(1) by (simp add: used_def)
  obtain ms u1 d1 where f1: "fill_segment counter history_header (rev (as_messages inp)) (renderMessage env) (sx_messages reply_segment_max) used = (ms, u1, d1)"
    by (metis prod_cases3)
  obtain ss u2 d2 where f2: "fill_segment counter memory_header (rl_summaries (as_recall inp)) (renderSummary env) (sx_summaries reply_segment_max) u1 = (ss, u2, d2)"
    by (metis prod_cases3)
  obtain fs u3 d3 where f3: "fill_segment counter memory_header (rl_facts (as_recall inp)) renderFact (sx_facts reply_segment_max) u2 = (fs, u3, d3)"
    by (metis prod_cases3)
  obtain ts u4 d4 where f4: "fill_segment counter tools_header (as_toolResults inp) renderToolResult (sx_tools reply_segment_max) u3 = (ts, u4, d4)"
    by (metis prod_cases3)
  have c0: "used \<le> ceiling_for_content" using used C by simp
  note c1 = fill_segment_cost [OF f1 c0]
  note c2 = fill_segment_cost [OF f2 c1 [THEN conjunct1]]
  note c3 = fill_segment_cost [OF f3 c2 [THEN conjunct1]]
  note c4 = fill_segment_cost [OF f4 c3 [THEN conjunct1]]
  let ?prompt = "memory_block (ss @ fs) @ block history_header (rev ms) @ block tools_header ts @ request_header @ ?req"
  have "?acc ?prompt \<le> ?acc (memory_block (ss @ fs)) + ?acc (block history_header (rev ms)) + ?acc (block tools_header ts) + ?acc request_header + ?acc ?req"
    using accounted_append [of "memory_block (ss @ fs)" "block history_header (rev ms) @ block tools_header ts @ request_header @ ?req"]
      accounted_append [of "block history_header (rev ms)" "block tools_header ts @ request_header @ ?req"]
      accounted_append [of "block tools_header ts" "request_header @ ?req"] accounted_append [of request_header ?req] by linarith
  moreover have "?acc (block history_header (rev ms)) \<le> (u1 - used) + joints (length ms)"
    using block_cost [of history_header "rev ms"] c1 by (auto split: if_splits)
  moreover have "?acc (block tools_header ts) \<le> (u4 - u3) + joints (length ts)"
    using block_cost [of tools_header ts] c4 by (auto split: if_splits)
  moreover have "?acc (memory_block (ss @ fs)) \<le> (if ss @ fs = [] then 170 else (u3 - u1) + joints (length ss + length fs))"
    using memory_cost [of "ss @ fs"] c2 c3 by (auto simp: line_cost_append joints_add joints_def split: if_splits)
  moreover have "u1 \<le> used + 18080" using c1 header_costs(2) by (auto simp: reply_segment_max_def split: if_splits)
  moreover have "u4 \<le> u3 + 32050" using c4 header_costs(3) by (auto simp: reply_segment_max_def split: if_splits)
  moreover have "ss @ fs = [] \<Longrightarrow> u3 = u1" using c2 c3 by simp
  moreover have "used \<le> u1" "u1 \<le> u3" "u3 \<le> u4" using c1 c2 c3 c4 by (auto split: if_splits)
  moreover have "u4 \<le> 61000" using c4 C by simp
  ultimately have "?acc ?sys + ?acc ?prompt \<le> 61000 + joints (length ms + length ss + length fs + length ts)"
    using used unfolding used_def joints_add by (auto split: if_splits)
  moreover have "\<not> ceiling_for_content < used" using c0 by simp
  then have "assembleReplyPrompt env counter inp \<noteq> Prompt_too_large" "\<And>p. assembleReplyPrompt env counter inp = Prompt_ok p \<Longrightarrow>
      ap_reserveTokens p = 119000 \<and> ap_accountedTokens p = ?acc ?sys + ?acc ?prompt + 119000 \<and> sc_messages (ap_included p) = length ms
      \<and> sc_summaries (ap_included p) = length ss \<and> sc_facts (ap_included p) = length fs \<and> sc_tools (ap_included p) = length ts"
    unfolding assembleReplyPrompt_def Let_def used_def [symmetric] f1 prod.case f2 f3 f4 C(2) by (auto simp: reply_segment_max_def)
  ultimately show ?thesis by (cases "assembleReplyPrompt env counter inp") auto
qed

end

section \<open>The byte counter obeys the laws\<close>

lemma accountTokens_Cons: "accountTokens (c # d # ds) = (if is_high_surrogate c \<and> is_low_surrogate d then 4 + accountTokens ds
    else point_bytes [c] + accountTokens (d # ds))"
  by (simp add: accountTokens_def point_bytes_def)

lemma accountTokens_one: "accountTokens [c] = point_bytes [c]"
  by (simp add: accountTokens_def)

lemma surrogate_bytes: "is_high_surrogate c \<Longrightarrow> point_bytes [c] = 3" "is_low_surrogate c \<Longrightarrow> point_bytes [c] = 3"
  by (simp_all add: is_high_surrogate_def is_low_surrogate_def point_bytes_def)

lemma low_not_high: "is_low_surrogate c \<Longrightarrow> \<not> is_high_surrogate c"
  by (simp add: is_high_surrogate_def is_low_surrogate_def)

lemma accountTokens_append_one: "accountTokens (c # ys) \<le> point_bytes [c] + accountTokens ys"
proof (cases ys)
  case (Cons d ds)
  show ?thesis
  proof (cases "is_high_surrogate c \<and> is_low_surrogate d")
    case True
    then have "accountTokens (d # ds) = 3 + accountTokens ds"
      by (cases ds) (auto simp: accountTokens_one accountTokens_Cons surrogate_bytes dest: low_not_high, simp add: accountTokens_def)
    with True Cons show ?thesis by (simp add: accountTokens_Cons surrogate_bytes)
  qed (auto simp: Cons accountTokens_Cons)
qed (simp add: accountTokens_one)

lemma accountTokens_append: "accountTokens (xs @ ys) \<le> accountTokens xs + accountTokens ys"
proof (induction xs rule: code_points.induct)
  case (2 c)
  then show ?case using accountTokens_append_one [of c ys] by (simp add: accountTokens_one)
next
  case (3 c d ds)
  then show ?case by (auto simp: accountTokens_Cons)
qed simp

lemma accountTokens_ascii: "\<forall>c \<in> set v. c < 128 \<Longrightarrow> accountTokens v = length v"
proof (induction v rule: code_points.induct)
  case (3 c d ds)
  then have "\<not> is_high_surrogate c" "c < 128" by (auto simp: is_high_surrogate_def)
  with 3 show ?case by (simp add: accountTokens_Cons point_bytes_def)
qed (simp_all add: accountTokens_def point_bytes_def)

interpretation bytes: token_law byte_upper_bound_counter
  by unfold_locales (simp_all add: byte_upper_bound_counter_def accountTokens_append)

section \<open>What a clip and a segment keep\<close>

lemma clip_points_spec:
  "used \<le> cap \<Longrightarrow> clip_points counter cap used ps = (s, u) \<Longrightarrow>
    \<exists>n \<le> length ps. s = concat (take n ps) \<and> u = used + (\<Sum>p \<leftarrow> take n ps. accountedCount counter p) \<and> u \<le> cap
      \<and> (n < length ps \<longrightarrow> cap < u + accountedCount counter (ps ! n))"
proof (induction ps arbitrary: used s u)
  case (Cons p ps)
  show ?case
  proof (cases "cap < used + accountedCount counter p")
    case True
    with Cons.prems show ?thesis by (intro exI [of _ 0]) (simp add: Let_def)
  next
    case False
    obtain s' u' where r: "clip_points counter cap (used + accountedCount counter p) ps = (s', u')" by fastforce
    with False Cons.prems(2) have e: "s = p @ s'" "u = u'" by (simp_all add: Let_def)
    from Cons.IH [OF _ r] False obtain n where "n \<le> length ps" "s' = concat (take n ps)"
      "u' = used + accountedCount counter p + (\<Sum>p \<leftarrow> take n ps. accountedCount counter p)" "u' \<le> cap"
      "n < length ps \<longrightarrow> cap < u' + accountedCount counter (ps ! n)" by auto
    with e show ?thesis by (intro exI [of _ "Suc n"]) auto
  qed
qed simp

lemma retain_lines_prefix: "fst (retain_lines counter seg budget used ls) = take (length (fst (retain_lines counter seg budget used ls))) ls"
  by (induction ls arbitrary: used) (auto simp: Let_def split_beta)

lemma fill_segment_prefix:
  assumes "fill_segment counter h items render seg used = (kept, u, dropped)"
  shows "kept = map render (take (length kept) items)" "length kept + dropped = length items"
proof -
  have "kept = map render (take (length kept) items) \<and> length kept + dropped = length items"
  proof (cases "items \<noteq> [] \<and> used + accountedCount counter h \<le> ceiling_for_content")
    case True
    let ?r = "retain_lines counter seg (ceiling_for_content - used - accountedCount counter h) 0 (map render items)"
    from True assms have k: "kept = fst ?r" "dropped = length items - length (fst ?r)"
      by (auto simp: fill_segment_def retain_def Let_def split: prod.splits)
    have pre: "fst ?r = take (length (fst ?r)) (map render items)" by (rule retain_lines_prefix)
    then have "length (fst ?r) \<le> length items" by (metis length_map length_take min.cobounded1 min.commute)
    with pre k show ?thesis by (metis le_add_diff_inverse take_map)
  next
    case False
    with assms show ?thesis unfolding fill_segment_def Let_def by (auto split: if_splits)
  qed
  then show "kept = map render (take (length kept) items)" "length kept + dropped = length items" by blast+
qed

section \<open>Properties\<close>

text \<open>A reply request stays under its ceiling. For every counter whose texts cost no more joined than
  apart and no more than their bytes, with a declared multiplier between 1 and 1.2, assembly always
  succeeds, and the accounted tokens, the reserve of 119,000 included, are at most 180,000; a
  multiplier above 1 adds at most one token per line kept, because the code counts a line's newline
  as one unscaled token.\<close>

theorem prompt_within_ceiling:
  assumes "\<And>xs ys. tc_count counter (xs @ ys) \<le> tc_count counter xs + tc_count counter ys"
    and "\<And>xs. tc_count counter xs \<le> accountTokens xs"
    and "tc_multiplier counter = None \<or> (\<exists>m. tc_multiplier counter = Some m \<and> 1 \<le> m \<and> m \<le> 6/5)"
  shows "\<exists>p. assembleReplyPrompt env counter inp = Prompt_ok p \<and> ap_reserveTokens p = 119000
    \<and> ap_accountedTokens p \<le> 180000 + (if tc_multiplier counter = None \<or> tc_multiplier counter = Some 1 then 0
        else sc_messages (ap_included p) + sc_summaries (ap_included p) + sc_facts (ap_included p) + sc_tools (ap_included p))"
proof -
  have law: "token_law counter" by (rule token_law.intro [OF assms])
  from token_law.assembled_within [OF law, of env inp] show ?thesis
    by (auto simp: token_law.joints_def [OF law] token_law.factor_def [OF law] split: option.splits if_splits)
qed

definition ex_prompt_env :: prompt_env where
  "ex_prompt_env = \<lparr>pe_iso = (\<lambda>_. js ''2026-01-01''), pe_stamp = (\<lambda>_. js ''1 Jan'')\<rparr>"

definition ex_prompt_input :: assemble_input where
  "ex_prompt_input = \<lparr>as_chatKind = Chat_group, as_currentRequest = js ''when is lunch?'', as_messages = [],
     as_recall = \<lparr>rl_summaries = [], rl_facts = []\<rparr>, as_toolResults = []\<rparr>"

theorem prompt_within_ceiling_witness:
  "\<exists>p. assembleReplyPrompt ex_prompt_env (reply_token_counter accountTokens) ex_prompt_input = Prompt_ok p
     \<and> ap_accountedTokens p \<le> 180000 + (sc_messages (ap_included p) + sc_summaries (ap_included p) + sc_facts (ap_included p) + sc_tools (ap_included p))"
proof -
  have "tc_count (reply_token_counter accountTokens) (xs @ ys) \<le> tc_count (reply_token_counter accountTokens) xs + tc_count (reply_token_counter accountTokens) ys" for xs ys
    by (simp add: reply_token_counter_def accountTokens_append)
  moreover have "tc_count (reply_token_counter accountTokens) xs \<le> accountTokens xs" for xs by (simp add: reply_token_counter_def)
  moreover have m: "tc_multiplier (reply_token_counter accountTokens) = Some (11/10)" by (simp add: reply_token_counter_def)
  moreover have "\<exists>m. Some (11/10 :: rat) = Some m \<and> 1 \<le> m \<and> m \<le> 6/5" by (intro exI [of _ "11/10"]) simp
  ultimately show ?thesis using prompt_within_ceiling [of "reply_token_counter accountTokens" ex_prompt_env ex_prompt_input]
    by (auto simp: m)
qed

text \<open>The prompt shows what its provenance says and nothing else: its text is the memory block of the
  first summaries and facts of the recall, the newest messages in their own order, the first tool
  results and the clipped request; the summary and fact ids it reports are those of the very rows
  shown, the batches are exactly theirs without repetition, and every item is either included or
  counted as dropped.\<close>

theorem prompt_shows_its_provenance:
  assumes "assembleReplyPrompt env counter inp = Prompt_ok p"
  shows "let n = ap_included p; d = ap_dropped p; recall = as_recall inp;
      ss = take (sc_summaries n) (rl_summaries recall); fs = take (sc_facts n) (rl_facts recall);
      ms = drop (length (as_messages inp) - sc_messages n) (as_messages inp); ts = take (sc_tools n) (as_toolResults inp)
    in ap_prompt p = memory_block (map (renderSummary env) ss @ map renderFact fs) @ block history_header (map (renderMessage env) ms)
          @ block tools_header (map renderToolResult ts) @ request_header @ cl_text (clipToTokens counter (as_currentRequest inp) 4000)
      \<and> ap_summaryIds p = map rsm_summaryId ss \<and> ap_factIds p = map rft_factId fs
      \<and> set (ap_batchIds p) = rsm_batchId ` set ss \<union> rft_batchId ` set fs \<and> distinct (ap_batchIds p)
      \<and> ap_hasMemory p = (ss \<noteq> [] \<or> fs \<noteq> [])
      \<and> sc_messages n + sc_messages d = length (as_messages inp) \<and> sc_summaries n + sc_summaries d = length (rl_summaries recall)
      \<and> sc_facts n + sc_facts d = length (rl_facts recall) \<and> sc_tools n + sc_tools d = length (as_toolResults inp)"
proof -
  let ?acc = "accountedCount counter"
  define used where "used = ?acc (cl_text (clipToTokens counter (reply_system_prompt (as_chatKind inp)) (sx_system reply_segment_max)))
     + ?acc request_header + ?acc (cl_text (clipToTokens counter (as_currentRequest inp) (sx_request reply_segment_max)))"
  obtain ms u1 d1 where f1: "fill_segment counter history_header (rev (as_messages inp)) (renderMessage env) (sx_messages reply_segment_max) used = (ms, u1, d1)"
    by (metis prod_cases3)
  obtain ss u2 d2 where f2: "fill_segment counter memory_header (rl_summaries (as_recall inp)) (renderSummary env) (sx_summaries reply_segment_max) u1 = (ss, u2, d2)"
    by (metis prod_cases3)
  obtain fs u3 d3 where f3: "fill_segment counter memory_header (rl_facts (as_recall inp)) renderFact (sx_facts reply_segment_max) u2 = (fs, u3, d3)"
    by (metis prod_cases3)
  obtain ts u4 d4 where f4: "fill_segment counter tools_header (as_toolResults inp) renderToolResult (sx_tools reply_segment_max) u3 = (ts, u4, d4)"
    by (metis prod_cases3)
  note pre = fill_segment_prefix [OF f1] fill_segment_prefix [OF f2] fill_segment_prefix [OF f3] fill_segment_prefix [OF f4]
  have rev_take: "rev (take n (rev xs)) = drop (length xs - n) xs" for n and xs :: "reply_message list"
    by (simp add: rev_take)
  have newest: "rev ms = map (renderMessage env) (drop (length (as_messages inp) - length ms) (as_messages inp))"
    using arg_cong [OF pre(1), of rev] by (simp add: rev_map rev_take)
  have batch: "set (set_of_list xs) = set xs" "distinct (set_of_list xs)" for xs :: "jstr list" by (simp_all add: set_of_list_def)
  have "\<not> ceiling_for_content < used" using assms unfolding assembleReplyPrompt_def Let_def used_def [symmetric] by (auto split: if_splits)
  then have eq: "p = \<lparr>ap_system = cl_text (clipToTokens counter (reply_system_prompt (as_chatKind inp)) (sx_system reply_segment_max)),
     ap_prompt = memory_block (ss @ fs) @ block history_header (rev ms) @ block tools_header ts @ request_header
        @ cl_text (clipToTokens counter (as_currentRequest inp) (sx_request reply_segment_max)),
     ap_tokenizerId = tc_id counter, ap_inputTokens = ap_inputTokens p, ap_reserveTokens = reserve_tokens, ap_accountedTokens = ap_accountedTokens p,
     ap_hasMemory = (ss \<noteq> [] \<or> fs \<noteq> []), ap_truncated = ap_truncated p,
     ap_included = \<lparr>sc_messages = length (rev ms), sc_summaries = length ss, sc_facts = length fs, sc_tools = length ts\<rparr>,
     ap_dropped = \<lparr>sc_messages = d1, sc_summaries = d2, sc_facts = d3, sc_tools = d4\<rparr>,
     ap_summaryIds = map rsm_summaryId (take (length ss) (rl_summaries (as_recall inp))),
     ap_factIds = map rft_factId (take (length fs) (rl_facts (as_recall inp))),
     ap_batchIds = set_of_list (map rsm_batchId (take (length ss) (rl_summaries (as_recall inp))) @ map rft_batchId (take (length fs) (rl_facts (as_recall inp))))\<rparr>"
    using assms unfolding assembleReplyPrompt_def Let_def used_def [symmetric] f1 prod.case f2 f3 f4 by auto
  have "ss = [] \<longleftrightarrow> take (length ss) (rl_summaries (as_recall inp)) = []" "fs = [] \<longleftrightarrow> take (length fs) (rl_facts (as_recall inp)) = []"
    using pre(3,5) by (metis map_is_Nil_conv)+
  moreover have inc: "sc_messages (ap_included p) = length ms" "sc_summaries (ap_included p) = length ss" "sc_facts (ap_included p) = length fs"
    "sc_tools (ap_included p) = length ts" "sc_messages (ap_dropped p) = d1" "sc_summaries (ap_dropped p) = d2" "sc_facts (ap_dropped p) = d3"
    "sc_tools (ap_dropped p) = d4" by (subst eq, simp)+
  moreover have "ap_prompt p = memory_block (ss @ fs) @ block history_header (rev ms) @ block tools_header ts @ request_header
        @ cl_text (clipToTokens counter (as_currentRequest inp) 4000)" by (subst eq) (simp add: reply_segment_max_def)
  moreover have "ap_hasMemory p = (ss \<noteq> [] \<or> fs \<noteq> [])" "ap_summaryIds p = map rsm_summaryId (take (length ss) (rl_summaries (as_recall inp)))"
     "ap_factIds p = map rft_factId (take (length fs) (rl_facts (as_recall inp)))"
     "ap_batchIds p = set_of_list (map rsm_batchId (take (length ss) (rl_summaries (as_recall inp))) @ map rft_batchId (take (length fs) (rl_facts (as_recall inp))))"
    by (subst eq, simp)+
  ultimately show ?thesis
    unfolding Let_def inc using pre newest batch by (simp add: image_Un [symmetric])
qed

theorem prompt_shows_its_provenance_witness:
  "\<exists>p. assembleReplyPrompt ex_prompt_env byte_upper_bound_counter ex_prompt_input = Prompt_ok p
     \<and> ap_prompt p = memory_block [] @ request_header @ cl_text (clipToTokens byte_upper_bound_counter (js ''when is lunch?'') 4000)
     \<and> ap_batchIds p = []"
proof -
  obtain p where p: "assembleReplyPrompt ex_prompt_env byte_upper_bound_counter ex_prompt_input = Prompt_ok p"
    using bytes.assembled_within by blast
  from prompt_shows_its_provenance [OF p] have "ap_prompt p = memory_block [] @ request_header @ cl_text (clipToTokens byte_upper_bound_counter (js ''when is lunch?'') 4000)"
    "set (ap_batchIds p) = {}" by (auto simp: Let_def ex_prompt_input_def block_def)
  with p show ?thesis by auto
qed

text \<open>Clipping keeps the longest prefix of whole code points that fits, for any counter: a value
  that fits is kept whole; otherwise the text is the first code points of the value, its figure is
  the sum of their costs and within the cap, and the next code point would exceed the cap.\<close>

theorem clip_is_longest_prefix:
  shows "let c = clipToTokens counter v cap; ps = code_points v
    in cl_used c \<le> cap \<and> (cl_clipped c \<longleftrightarrow> cap < accountedCount counter v)
      \<and> (if cl_clipped c
         then \<exists>n \<le> length ps. cl_text c = concat (take n ps) \<and> cl_used c = (\<Sum>p \<leftarrow> take n ps. accountedCount counter p)
                \<and> (n = length ps \<or> cap < cl_used c + accountedCount counter (ps ! n))
         else cl_text c = v \<and> cl_used c = accountedCount counter v)"
proof (cases "accountedCount counter v \<le> cap")
  case False
  obtain s u where r: "clip_points counter cap 0 (code_points v) = (s, u)" by fastforce
  from clip_points_spec [OF _ r] obtain n where "n \<le> length (code_points v)" "s = concat (take n (code_points v))"
    "u = (\<Sum>p \<leftarrow> take n (code_points v). accountedCount counter p)" "u \<le> cap"
    "n < length (code_points v) \<longrightarrow> cap < u + accountedCount counter (code_points v ! n)" by auto
  moreover from this(1) have "n = length (code_points v) \<or> n < length (code_points v)" by auto
  moreover have "clipToTokens counter v cap = \<lparr>cl_text = s, cl_used = u, cl_clipped = True\<rparr>" using False r by (simp add: clipToTokens_def)
  ultimately show ?thesis using False by (auto simp: Let_def)
qed (simp add: clipToTokens_def Let_def)

text \<open>The figure a segment keeps for its lines is not a bound on the block they form under the
  bundled counter's multiplier: two lines of thirty tokens are retained at 68 accounted tokens, and
  the block of the same two lines is accounted at 69, one more than was held back for it.\<close>

theorem retained_figure_undercounts:
  "let counter = reply_token_counter accountTokens; line = replicate 30 97
   in retain counter [line, line] id 18000 61000 = ([line, line], 68, 0)
      \<and> accountedCount counter (block [] [line, line]) = 69"
proof -
  have one: "accountedCount (reply_token_counter accountTokens) v = nat \<lceil>of_nat (length v) * (11/10 :: rat)\<rceil>" if "\<forall>c \<in> set v. c < 128" for v
    using accountTokens_ascii [OF that] by (simp add: accountedCount_def reply_token_counter_def)
  have c69: "\<lceil>341 / 5 :: rat\<rceil> = 69" by (rule ceiling_unique) simp_all
  have c: "accountedCount (reply_token_counter accountTokens) (replicate 30 97) = 33"
    "accountedCount (reply_token_counter accountTokens) (block [] [replicate 30 97, replicate 30 97]) = 69"
    by (subst one, simp add: block_def, simp add: block_def c69)+
  then show ?thesis by (simp add: Let_def retain_def)
qed

end
