(* ===== verification/Whitelist.thy ===== *)
theory Whitelist
  imports Store
begin

text \<open>
  The assistant's scope (\<open>apps/web/src/server/repos/instance-config.ts\<close>): the instance's whitelist
  of group JIDs, and its mirror on the group rows. One writer replaces the whole list, the other
  moves one JID of it inside the caller's transaction.
\<close>

section \<open>The list as it is read\<close>

record instance_config_row =
  ic_instanceId :: jstr
  ic_groupJidWhitelist :: "jstr list"

datatype config_update = Config_updated instance_config_row | Config_not_found | Unknown_groups "jstr list"

definition whitelist_max_groups :: nat where "whitelist_max_groups = 500"

fun json_texts :: "json list \<Rightarrow> jstr list" where
  "json_texts [] = []"
| "json_texts (JStr s # vs) = s # json_texts vs"
| "json_texts (_ # vs) = json_texts vs"

text \<open>\<open>[...new Set(xs)].sort()\<close> of the trimmed, non-empty entries; \<open>sort\<close> orders by UTF-16 units.\<close>

definition sorted_jids :: "jstr list \<Rightarrow> jstr list" where
  "sorted_jids xs = sort (remdups (filter (\<lambda>j. j \<noteq> []) (map trim xs)))"

definition whitelistOf :: "json option \<Rightarrow> jstr list" where
  "whitelistOf stored = (case stored of Some (JArr entries) \<Rightarrow> sorted_jids (json_texts entries) | _ \<Rightarrow> [])"

definition is_instance :: "jstr \<Rightarrow> jstr \<Rightarrow> instance_doc \<Rightarrow> bool" where
  "is_instance org inst i \<longleftrightarrow> in_id i = inst \<and> in_organizationId i = org"

definition readInstanceConfig :: "db \<Rightarrow> jstr \<Rightarrow> jstr \<Rightarrow> instance_config_row option" where
  "readInstanceConfig d org inst = map_option
     (\<lambda>i. \<lparr>ic_instanceId = inst, ic_groupJidWhitelist = whitelistOf (in_groupJidWhitelist i)\<rparr>)
     (find (is_instance org inst) (instances d))"

definition of_instance :: "jstr \<Rightarrow> jstr \<Rightarrow> group_doc \<Rightarrow> bool" where
  "of_instance org inst g \<longleftrightarrow> gd_organizationId g = org \<and> gd_instanceId g = inst"

definition unknownGroups :: "db \<Rightarrow> jstr \<Rightarrow> jstr \<Rightarrow> jstr list \<Rightarrow> jstr list" where
  "unknownGroups d org inst jids =
    (let present = map gd_groupJid (filter (\<lambda>g. of_instance org inst g \<and> gd_groupJid g \<in> set jids) (groups d))
     in filter (\<lambda>j. j \<notin> set present) jids)"

section \<open>Writing the whole list\<close>

definition no_config :: group_config where
  "no_config = \<lparr>gc_assigned = None, gc_whitelisted = None, gc_configVersion = None\<rparr>"

definition config_of :: "group_doc \<Rightarrow> group_config" where
  "config_of g = (case gd_config g of None \<Rightarrow> no_config | Some c \<Rightarrow> c)"

text \<open>The pair every reader of a group's eligibility asks for.\<close>

definition both_flags :: "group_doc \<Rightarrow> bool" where
  "both_flags g \<longleftrightarrow> gc_assigned (config_of g) = Some True \<and> gc_whitelisted (config_of g) = Some True"

definition set_config :: "(group_config \<Rightarrow> group_config) \<Rightarrow> group_doc \<Rightarrow> group_doc" where
  "set_config f g = g\<lparr>gd_config := Some (f (config_of g))\<rparr>"

text \<open>\<open>$inc\<close> of a missing field starts it at the increment.\<close>

definition bump_version :: "group_config \<Rightarrow> group_config" where
  "bump_version c = c\<lparr>gc_configVersion := Some ((case gc_configVersion c of None \<Rightarrow> 0 | Some v \<Rightarrow> v) + 1)\<rparr>"

definition set_pair :: "bool \<Rightarrow> group_config \<Rightarrow> group_config" where
  "set_pair b c = bump_version (c\<lparr>gc_whitelisted := Some b, gc_assigned := Some b\<rparr>)"

text \<open>The rows a mirror write to \<open>b\<close> changes: those whose pair is not already \<open>b\<close>.\<close>

definition off_mirror :: "bool \<Rightarrow> group_doc \<Rightarrow> bool" where
  "off_mirror b g \<longleftrightarrow> gc_whitelisted (config_of g) \<noteq> Some b \<or> gc_assigned (config_of g) \<noteq> Some b"

definition whitelist_entry :: "jstr \<Rightarrow> jstr \<Rightarrow> jstr list \<Rightarrow> jstr list \<Rightarrow> jstr \<Rightarrow> audit_entry" where
  "whitelist_entry org inst before after ip = \<lparr>ae_organizationId = org, ae_actor = Owner, ae_action = Instance_whitelist_updated,
     ae_target = (T_instance, inst),
     ae_meta = Some [(js ''source'', JStr (js ''instance-config'')), (js ''before'', JArr (map JStr before)), (js ''after'', JArr (map JStr after))],
     ae_ip = ip\<rparr>"

text \<open>The transaction: the list, the rows that leave it, the rows that are on it, the record.\<close>

definition whitelist_txn :: "db \<Rightarrow> jstr \<Rightarrow> jstr \<Rightarrow> jstr list \<Rightarrow> jstr list \<Rightarrow> jstr \<Rightarrow> time \<Rightarrow> db" where
  "whitelist_txn d org inst before after ip now =
    (let d1 = d\<lparr>instances := update_one (is_instance org inst) (\<lambda>i. i\<lparr>in_groupJidWhitelist := Some (JArr (map JStr after))\<rparr>) (instances d)\<rparr>;
         d2 = d1\<lparr>groups := update_many (\<lambda>g. of_instance org inst g \<and> gd_groupJid g \<notin> set after \<and> off_mirror False g) (set_config (set_pair False)) (groups d1)\<rparr>;
         d3 = d2\<lparr>groups := update_many (\<lambda>g. of_instance org inst g \<and> gd_groupJid g \<in> set after \<and> off_mirror True g) (set_config (set_pair True)) (groups d2)\<rparr>
     in writeAudit d3 (whitelist_entry org inst before after ip) now)"

definition updateInstanceConfig :: "db \<Rightarrow> jstr \<Rightarrow> jstr \<Rightarrow> jstr list \<Rightarrow> jstr \<Rightarrow> time \<Rightarrow> db \<times> config_update" where
  "updateInstanceConfig d org inst groupJidWhitelist ip now =
    (case readInstanceConfig d org inst of
       None \<Rightarrow> (d, Config_not_found)
     | Some before \<Rightarrow>
       (let after = sorted_jids groupJidWhitelist; unknown = unknownGroups d org inst after
        in if unknown \<noteq> [] then (d, Unknown_groups unknown)
           else (whitelist_txn d org inst (ic_groupJidWhitelist before) after ip now,
                 Config_updated \<lparr>ic_instanceId = inst, ic_groupJidWhitelist = after\<rparr>)))"

section \<open>Moving one JID\<close>

record whitelist_move =
  mv_organizationId :: jstr
  mv_instanceId :: jstr
  mv_groupJid :: jstr
  mv_whitelisted :: bool
  mv_ip :: jstr

text \<open>\<open>$addToSet\<close> and \<open>$pull\<close> on the stored field: an error on a value that is not an array.\<close>

definition add_to_set :: "jstr \<Rightarrow> json option \<Rightarrow> json option option" where
  "add_to_set jid stored = (case stored of
      None \<Rightarrow> Some (Some (JArr [JStr jid]))
    | Some (JArr xs) \<Rightarrow> Some (Some (JArr (if JStr jid \<in> set xs then xs else xs @ [JStr jid])))
    | _ \<Rightarrow> None)"

definition pull :: "jstr \<Rightarrow> json option \<Rightarrow> json option option" where
  "pull jid stored = (case stored of
      None \<Rightarrow> Some None
    | Some (JArr xs) \<Rightarrow> Some (Some (JArr (filter (\<lambda>x. x \<noteq> JStr jid) xs)))
    | _ \<Rightarrow> None)"

definition move_entry :: "whitelist_move \<Rightarrow> audit_entry" where
  "move_entry mv = \<lparr>ae_organizationId = mv_organizationId mv, ae_actor = Owner, ae_action = Instance_whitelist_updated,
     ae_target = (T_instance, mv_instanceId mv),
     ae_meta = Some [(js ''source'', JStr (js ''group-row'')), (js ''groupJid'', JStr (mv_groupJid mv)), (js ''whitelisted'', JBool (mv_whitelisted mv))],
     ae_ip = mv_ip mv\<rparr>"

definition moveGroupWhitelistJid :: "db \<Rightarrow> whitelist_move \<Rightarrow> time \<Rightarrow> exn + db" where
  "moveGroupWhitelistJid d mv now =
    (case find (is_instance (mv_organizationId mv) (mv_instanceId mv)) (instances d) of
       None \<Rightarrow> Inr d
     | Some i \<Rightarrow>
       (case (if mv_whitelisted mv then add_to_set else pull) (mv_groupJid mv) (in_groupJidWhitelist i) of
          None \<Rightarrow> Inl (Thrown (js ''Cannot apply the array operator to a non-array field''))
        | Some stored \<Rightarrow> Inr (writeAudit (d\<lparr>instances := update_one (is_instance (mv_organizationId mv) (mv_instanceId mv))
              (\<lambda>i. i\<lparr>in_groupJidWhitelist := stored\<rparr>) (instances d)\<rparr>) (move_entry mv) now)))"

section \<open>The list's shape\<close>

lemma sorted_jids_shape: "sorted (sorted_jids xs)" "distinct (sorted_jids xs)" "set (sorted_jids xs) = trim ` set xs - {[]}"
  by (auto simp: sorted_jids_def)

lemma json_texts_map [simp]: "json_texts (map JStr xs) = xs"
  by (induction xs) auto

lemma json_texts_append [simp]: "json_texts (xs @ ys) = json_texts xs @ json_texts ys"
  by (induction xs rule: json_texts.induct) auto

lemma json_texts_in: "s \<in> set (json_texts xs) \<longleftrightarrow> JStr s \<in> set xs"
  by (induction xs rule: json_texts.induct) auto

lemma sorted_jids_eq: "set xs' = set xs \<Longrightarrow> sorted_jids xs' = sorted_jids xs"
proof -
  assume "set xs' = set xs"
  then have "set (sorted_jids xs') = set (sorted_jids xs)" by (simp add: sorted_jids_shape)
  then show ?thesis by (metis sorted_distinct_set_unique sorted_jids_shape(1,2))
qed

text \<open>Reading back a list that was written sorted gives it unchanged.\<close>

lemma sorted_jids_idem: "sorted_jids (sorted_jids xs) = sorted_jids xs"
proof -
  have "trim x = x \<and> x \<noteq> []" if "x \<in> set (sorted_jids xs)" for x
    using that by (auto simp: sorted_jids_shape)
  then have "trim ` set (sorted_jids xs) - {[]} = set (sorted_jids xs)" by (force simp: image_iff)
  then show ?thesis
    by (metis sorted_distinct_set_unique sorted_jids_shape)
qed

lemma whitelistOf_written: "whitelistOf (Some (JArr (map JStr (sorted_jids xs)))) = sorted_jids xs"
  by (simp add: whitelistOf_def sorted_jids_idem)

lemma whitelistOf_shape: "sorted (whitelistOf w)" "distinct (whitelistOf w)" "[] \<notin> set (whitelistOf w)"
  by (auto simp: whitelistOf_def sorted_jids_shape split: option.splits json.splits)

end
