(* ===== verification/Clock.thy ===== *)
theory Clock
  imports Prelude
begin

text \<open>
  Stored instants as text: \<open>Date.prototype.toISOString\<close> over the proleptic Gregorian calendar, and
  the readers of a worker-owned stamp, for which Go's zero time means that there is none
  (\<open>stamp\<close> of \<open>repos/groups.ts\<close>, \<open>stampIso\<close> of \<open>repos/instances.ts\<close>).
\<close>

section \<open>ISO timestamps\<close>

text \<open>Year, month and day of a day count from 1970-01-01, years starting in March.\<close>

definition civil :: "int \<Rightarrow> int \<times> int \<times> int" where
  "civil days =
    (let z = days + 719468; era = z div 146097; doe = z mod 146097;
         yoe = (doe - doe div 1460 + doe div 36524 - doe div 146096) div 365;
         doy = doe - (365 * yoe + yoe div 4 - yoe div 100);
         mp = (5 * doy + 2) div 153;
         month = (if mp < 10 then mp + 3 else mp - 9)
     in (yoe + era * 400 + (if month \<le> 2 then 1 else 0), month, doy - (153 * mp + 2) div 5 + 1))"

definition padded :: "nat \<Rightarrow> int \<Rightarrow> jstr" where
  "padded width n = (let ds = dec (nat n) in replicate (width - length ds) 48 @ ds)"

definition iso_year :: "int \<Rightarrow> jstr" where
  "iso_year y = (if 0 \<le> y \<and> y \<le> 9999 then padded 4 y
     else (if y < 0 then js ''-'' else js ''+'') @ padded 6 \<bar>y\<bar>)"

definition toISOString :: "time \<Rightarrow> jstr" where
  "toISOString t = (let day = t div 86400000; ms = t mod 86400000; (y, m, d) = civil day in
     iso_year y @ js ''-'' @ padded 2 m @ js ''-'' @ padded 2 d @ js ''T'' @
     padded 2 (ms div 3600000) @ js '':'' @ padded 2 (ms div 60000 mod 60) @ js '':'' @
     padded 2 (ms div 1000 mod 60) @ js ''.'' @ padded 3 (ms mod 1000) @ js ''Z'')"

text \<open>The instants a \<open>Date\<close> can hold; any other value is an invalid date, whose time is NaN.\<close>

definition valid_date :: "time \<Rightarrow> bool" where
  "valid_date t \<longleftrightarrow> \<bar>t\<bar> \<le> 8640000000000000"

section \<open>Worker-owned stamps\<close>

definition no_stamp_ms :: time where
  "no_stamp_ms = -62135596800000"

definition stamp :: "time option \<Rightarrow> jstr option" where
  "stamp v = (case v of None \<Rightarrow> None
     | Some t \<Rightarrow> if valid_date t \<and> no_stamp_ms < t then Some (toISOString t) else None)"

definition stampIso :: "time option \<Rightarrow> jstr option" where
  "stampIso v = (case v of None \<Rightarrow> None
     | Some t \<Rightarrow> if valid_date t \<and> no_stamp_ms < t then Some (toISOString t) else None)"

text \<open>Descending order of a \<open>sort\<close> specification, ties in insertion order.\<close>

definition sort_desc :: "('a \<Rightarrow> 'b :: linorder) \<Rightarrow> 'a list \<Rightarrow> 'a list" where
  "sort_desc k xs = rev (sort_key k (rev xs))"

text \<open>Stored strings compare by their UTF-8 bytes, which is the order of their code points.\<close>

definition point_value :: "jstr \<Rightarrow> nat" where
  "point_value p = (case p of [h, l] \<Rightarrow> 65536 + (h - 55296) * 1024 + (l - 56320) | c # _ \<Rightarrow> c | [] \<Rightarrow> 0)"

definition utf8_order :: "jstr \<Rightarrow> nat list" where
  "utf8_order s = map point_value (code_points s)"

lemma set_sort_desc [simp]: "set (sort_desc k xs) = set xs"
  by (simp add: sort_desc_def)

lemma length_sort_desc [simp]: "length (sort_desc k xs) = length xs"
  by (simp add: sort_desc_def)

lemma sort_desc_sorted: "sorted_wrt (\<lambda>x y. k y \<le> k x) (sort_desc k xs)"
proof -
  have "sorted (map k (sort_key k (rev xs)))" by simp
  then show ?thesis unfolding sort_desc_def by (simp add: sorted_wrt_rev sorted_map)
qed

end
