(* ===== verification/GroupRows.thy ===== *)
theory GroupRows
  imports Whitelist Clock "HOL-Library.Option_ord"
begin

text \<open>
  The group rows (\<open>apps/web/src/server/repos/groups.ts\<close>): the row the dashboard reads, with the
  name that is never blank and the capped rename ring, the lists, and the configuration write
  that moves a row's flags and the instance's whitelist in one transaction.
\<close>

section \<open>The row as it is read\<close>

definition subject_history_max :: nat where "subject_history_max = 20"

record group_subject_entry =
  ge_name :: jstr
  ge_at :: "jstr option"
  ge_by :: "jstr option"

record group_row =
  gr_groupJid :: jstr
  gr_name :: jstr
  gr_nameSource :: name_source
  gr_nameSetAt :: "jstr option"
  gr_nameSetBy :: "jstr option"
  gr_participantCount :: nat
  gr_state :: group_state
  gr_assigned :: bool
  gr_whitelisted :: bool
  gr_lastActivityAt :: "jstr option"
  gr_messageCount :: nat
  gr_subjectHistoryCount :: nat
  gr_subjectHistory :: "group_subject_entry list"

record instance_group_row =
  ig_row :: group_row
  ig_instanceId :: jstr
  ig_instanceLabel :: jstr

record group_detail =
  gt_group :: group_row
  gt_instanceLabel :: jstr
  gt_members :: "group_member list"

definition fallback_prefix :: jstr where "fallback_prefix = js ''(unnamed group) ''"

definition history_row :: "history_entry \<Rightarrow> group_subject_entry option" where
  "history_row entry = (case entry of
      Entry (SStr name) at by' \<Rightarrow>
        if trim name = [] then None
        else Some \<lparr>ge_name = name,
          ge_at = stamp (case at of SDate t \<Rightarrow> Some t | _ \<Rightarrow> None),
          ge_by = (case by' of SStr s \<Rightarrow> if trim s \<noteq> [] then Some s else None | _ \<Rightarrow> None)\<rparr>
    | _ \<Rightarrow> None)"

definition historyOf :: "history_entry list option \<Rightarrow> group_subject_entry list" where
  "historyOf entries = (case entries of None \<Rightarrow> []
     | Some es \<Rightarrow> List.map_filter history_row (take subject_history_max es))"

definition no_observed :: observed where
  "no_observed = \<lparr>ob_subject = None, ob_subjectSource = None, ob_subjectUpdatedAt = None, ob_subjectSetBy = None,
     ob_subjectHistory = None, ob_participantCount = None, ob_state = None, ob_lastActivityAt = None,
     ob_messageCount = None, ob_members = None\<rparr>"

definition or_default :: "'a \<Rightarrow> 'a option \<Rightarrow> 'a" where
  "or_default x v = (case v of None \<Rightarrow> x | Some y \<Rightarrow> y)"

definition toRow :: "group_doc \<Rightarrow> group_row" where
  "toRow doc =
    (let ob = or_default no_observed (gd_observed doc); cfg = config_of doc;
         subject = or_default [] (ob_subject ob); history = historyOf (ob_subjectHistory ob)
     in \<lparr>gr_groupJid = gd_groupJid doc,
         gr_name = (if subject = [] then fallback_prefix @ hd (split_on 64 (gd_groupJid doc)) else subject),
         gr_nameSource = (if subject = [] then Src_fallback else or_default Src_fallback (ob_subjectSource ob)),
         gr_nameSetAt = stamp (ob_subjectUpdatedAt ob), gr_nameSetBy = ob_subjectSetBy ob,
         gr_participantCount = or_default 0 (ob_participantCount ob), gr_state = or_default Gs_active (ob_state ob),
         gr_assigned = or_default False (gc_assigned cfg), gr_whitelisted = or_default False (gc_whitelisted cfg),
         gr_lastActivityAt = stamp (ob_lastActivityAt ob), gr_messageCount = or_default 0 (ob_messageCount ob),
         gr_subjectHistoryCount = length history, gr_subjectHistory = history\<rparr>)"

section \<open>The lists\<close>

definition last_activity :: "group_doc \<Rightarrow> time option" where
  "last_activity g = (case gd_observed g of None \<Rightarrow> None | Some ob \<Rightarrow> ob_lastActivityAt ob)"

text \<open>Assigned first, then most recent; a missing value sorts below every value.\<close>

definition by_activity :: "group_doc list \<Rightarrow> group_doc list" where
  "by_activity gs = sort_desc (\<lambda>g. gc_assigned (config_of g)) (sort_desc last_activity gs)"

definition listInstanceGroups :: "db \<Rightarrow> jstr \<Rightarrow> jstr \<Rightarrow> group_row list" where
  "listInstanceGroups d org inst = map toRow (by_activity (filter (of_instance org inst) (groups d)))"

text \<open>\<open>label || instanceId\<close>: an empty label is no label.\<close>

definition label_or :: "jstr \<Rightarrow> jstr option \<Rightarrow> jstr" where
  "label_or inst label = (case label of Some (c # cs) \<Rightarrow> c # cs | _ \<Rightarrow> inst)"

definition instanceLabel :: "db \<Rightarrow> jstr \<Rightarrow> jstr \<Rightarrow> jstr" where
  "instanceLabel d org inst = label_or inst (Option.bind (find (is_instance org inst) (instances d)) in_label)"

definition instanceLabels :: "db \<Rightarrow> jstr \<Rightarrow> jstr \<Rightarrow> jstr option" where
  "instanceLabels d org = foldl (\<lambda>labels i. labels(in_id i \<mapsto> or_default [] (in_label i))) Map.empty
     (filter (\<lambda>i. in_organizationId i = org) (instances d))"

definition listAllGroups :: "db \<Rightarrow> jstr \<Rightarrow> instance_group_row list" where
  "listAllGroups d org =
    (let labels = instanceLabels d org
     in map (\<lambda>g. \<lparr>ig_row = toRow g, ig_instanceId = gd_instanceId g,
          ig_instanceLabel = label_or (gd_instanceId g) (labels (gd_instanceId g))\<rparr>)
        (by_activity (filter (\<lambda>g. gd_organizationId g = org) (groups d))))"

definition is_group :: "jstr \<Rightarrow> jstr \<Rightarrow> jstr \<Rightarrow> group_doc \<Rightarrow> bool" where
  "is_group org inst jid g \<longleftrightarrow> of_instance org inst g \<and> gd_groupJid g = jid"

definition readGroupDetail :: "db \<Rightarrow> jstr \<Rightarrow> jstr \<Rightarrow> jstr \<Rightarrow> group_detail option" where
  "readGroupDetail d org inst jid = map_option
     (\<lambda>g. \<lparr>gt_group = toRow g, gt_instanceLabel = instanceLabel d org inst,
          gt_members = or_default [] (ob_members (or_default no_observed (gd_observed g)))\<rparr>)
     (find (is_group org inst jid) (groups d))"

section \<open>The configuration write\<close>

record group_config_patch =
  gp_assigned :: "bool option"
  gp_whitelisted :: "bool option"
  gp_instanceId :: "jstr option"

datatype group_config_update = Group_updated group_row | Group_not_found | Group_ambiguous

text \<open>The flags a patch sets: the whitelist decides both.\<close>

definition new_assigned :: "group_config_patch \<Rightarrow> bool option" where
  "new_assigned p = (case gp_whitelisted p of Some w \<Rightarrow> Some w | None \<Rightarrow> gp_assigned p)"

definition set_flags :: "group_config_patch \<Rightarrow> group_config \<Rightarrow> group_config" where
  "set_flags p c = c\<lparr>gc_assigned := (case new_assigned p of None \<Rightarrow> gc_assigned c | Some b \<Rightarrow> Some b),
     gc_whitelisted := (case gp_whitelisted p of None \<Rightarrow> gc_whitelisted c | Some b \<Rightarrow> Some b)\<rparr>"

definition eligibilityChanged :: "group_config_patch \<Rightarrow> group_config \<Rightarrow> bool" where
  "eligibilityChanged p c \<longleftrightarrow> (new_assigned p \<noteq> None \<and> new_assigned p \<noteq> gc_assigned c)
     \<or> (gp_whitelisted p \<noteq> None \<and> gp_whitelisted p \<noteq> gc_whitelisted c)"

definition patch_config :: "group_config_patch \<Rightarrow> group_config \<Rightarrow> group_config \<Rightarrow> group_config" where
  "patch_config p stored c = (if eligibilityChanged p stored then bump_version (set_flags p c) else set_flags p c)"

definition addressed :: "jstr \<Rightarrow> jstr \<Rightarrow> group_config_patch \<Rightarrow> group_doc \<Rightarrow> bool" where
  "addressed org jid p g \<longleftrightarrow> gd_organizationId g = org \<and> gd_groupJid g = jid
     \<and> (case gp_instanceId p of None \<Rightarrow> True | Some inst \<Rightarrow> gd_instanceId g = inst)"

definition updateGroupConfig ::
  "db \<Rightarrow> jstr \<Rightarrow> jstr \<Rightarrow> group_config_patch \<Rightarrow> jstr \<Rightarrow> time \<Rightarrow> exn + (db \<times> group_config_update)" where
  "updateGroupConfig d org jid p ip now =
    (case filter (addressed org jid p) (groups d) of
       [] \<Rightarrow> Inr (d, Group_not_found)
     | current # rest \<Rightarrow>
       if \<exists>g \<in> set rest. gd_instanceId g \<noteq> gd_instanceId current then Inr (d, Group_ambiguous)
       else let inst = gd_instanceId current;
                change = set_config (patch_config p (config_of current));
                d' = d\<lparr>groups := update_one (is_group org inst jid) change (groups d)\<rparr>
         in case found_after (is_group org inst jid) change (groups d) of
              None \<Rightarrow> Inr (d, Group_not_found)
            | Some updated \<Rightarrow>
              (case gp_whitelisted p of
                 None \<Rightarrow> Inr (d', Group_updated (toRow updated))
               | Some w \<Rightarrow>
                 (case moveGroupWhitelistJid d' \<lparr>mv_organizationId = org, mv_instanceId = inst, mv_groupJid = jid,
                        mv_whitelisted = w, mv_ip = ip\<rparr> now of
                    Inl e \<Rightarrow> Inl e
                  | Inr d'' \<Rightarrow> Inr (d'', Group_updated (toRow updated)))))"

end
