(* ===== verification/GroupScope.thy ===== *)
theory GroupScope
  imports GroupRows Interfaces
begin

text \<open>
  The assistant's scope as the two writers of \<open>repos/instance-config.ts\<close> and \<open>repos/groups.ts\<close> keep
  it: the instance's list is authoritative, the rows' flag pair mirrors it, and every edit is the
  edit of one abstract set per instance.
\<close>

section \<open>The scope of a database\<close>

definition known_groups :: "db \<Rightarrow> jstr \<Rightarrow> jstr \<Rightarrow> jstr set option" where
  "known_groups d org inst = map_option (\<lambda>_. gd_groupJid ` set (filter (of_instance org inst) (groups d)))
     (find (is_instance org inst) (instances d))"

definition scope_list :: "db \<Rightarrow> scopes" where
  "scope_list d org inst = (case readInstanceConfig d org inst of None \<Rightarrow> {} | Some c \<Rightarrow> set (ic_groupJidWhitelist c))"

definition readable_groups :: "db \<Rightarrow> scopes" where
  "readable_groups d org inst = gd_groupJid ` set (filter (\<lambda>g. of_instance org inst g \<and> both_flags g) (groups d))"

definition clean_entry :: "json \<Rightarrow> bool" where
  "clean_entry v = (case v of JStr j \<Rightarrow> trim j = j \<and> j \<noteq> [] | _ \<Rightarrow> False)"

definition clean_list :: "json option \<Rightarrow> bool" where
  "clean_list w = (case w of None \<Rightarrow> True | Some (JArr vs) \<Rightarrow> list_all clean_entry vs | _ \<Rightarrow> False)"

definition group_key :: "group_doc \<Rightarrow> jstr \<times> jstr \<times> jstr" where
  "group_key g = (gd_organizationId g, gd_instanceId g, gd_groupJid g)"

definition scope_ok :: "db \<Rightarrow> bool" where
  "scope_ok d \<longleftrightarrow> distinct (map group_key (groups d))
     \<and> list_all (\<lambda>g. trim (gd_groupJid g) = gd_groupJid g \<and> gd_groupJid g \<noteq> []
          \<and> find (is_instance (gd_organizationId g) (gd_instanceId g)) (instances d) \<noteq> None) (groups d)
     \<and> list_all (\<lambda>i. clean_list (in_groupJidWhitelist i)) (instances d)
     \<and> readable_groups d = scope_list d"

text \<open>An edit as a call of the operation that makes it; the argument is the caller's address and the clock.\<close>

definition scope_patch :: "jstr \<Rightarrow> bool \<Rightarrow> group_config_patch" where
  "scope_patch inst granted = \<lparr>gp_assigned = None, gp_whitelisted = Some granted, gp_instanceId = Some inst\<rparr>"

fun edit_scope :: "jstr \<times> time \<Rightarrow> db \<Rightarrow> scope_edit \<Rightarrow> db" where
  "edit_scope (ip, now) d (Replace_scope org inst jids) = fst (updateInstanceConfig d org inst jids ip now)"
| "edit_scope (ip, now) d (Move_group org inst jid granted) =
    (case updateGroupConfig d org jid (scope_patch inst granted) ip now of Inl _ \<Rightarrow> d | Inr r \<Rightarrow> fst r)"

section \<open>Both writers, on the rows\<close>

lemma group_key_eq: "group_key g = (org, inst, jid) \<longleftrightarrow> is_group org inst jid g"
  by (auto simp: group_key_def is_group_def of_instance_def)

lemma set_config_key [simp]:
  "gd_organizationId (set_config f g) = gd_organizationId g" "gd_instanceId (set_config f g) = gd_instanceId g"
  "gd_groupJid (set_config f g) = gd_groupJid g" "config_of (set_config f g) = f (config_of g)"
  "of_instance org inst (set_config f g) = of_instance org inst g" "group_key (set_config f g) = group_key g"
  "is_group org inst jid (set_config f g) = is_group org inst jid g"
  by (simp_all add: set_config_def config_of_def of_instance_def group_key_def is_group_def)

lemma set_pair_flags [simp]: "gc_assigned (set_pair b c) = Some b" "gc_whitelisted (set_pair b c) = Some b"
  by (simp_all add: set_pair_def bump_version_def)

text \<open>The two mirror writes as one change per row.\<close>

definition mirror_row :: "jstr \<Rightarrow> jstr \<Rightarrow> jstr list \<Rightarrow> group_doc \<Rightarrow> group_doc" where
  "mirror_row org inst after g =
    (if of_instance org inst g \<and> off_mirror (gd_groupJid g \<in> set after) g
     then set_config (set_pair (gd_groupJid g \<in> set after)) g else g)"

lemma whitelist_txn_groups:
  "groups (whitelist_txn d org inst before after ip now) = map (mirror_row org inst after) (groups d)"
  by (auto simp: whitelist_txn_def Let_def update_many_def mirror_row_def off_mirror_def)

lemma whitelist_txn_instances:
  "instances (whitelist_txn d org inst before after ip now) =
     update_one (is_instance org inst) (\<lambda>i. i\<lparr>in_groupJidWhitelist := Some (JArr (map JStr after))\<rparr>) (instances d)"
  by (simp add: whitelist_txn_def Let_def)

lemma mirror_row_key [simp]:
  "gd_groupJid (mirror_row org inst after g) = gd_groupJid g" "group_key (mirror_row org inst after g) = group_key g"
  "gd_organizationId (mirror_row org inst after g) = gd_organizationId g" "gd_instanceId (mirror_row org inst after g) = gd_instanceId g"
  "of_instance org' inst' (mirror_row org inst after g) = of_instance org' inst' g"
  by (simp_all add: mirror_row_def)

lemma mirror_row_flags:
  "of_instance org inst g \<Longrightarrow> gc_assigned (config_of (mirror_row org inst after g)) = Some (gd_groupJid g \<in> set after)
     \<and> gc_whitelisted (config_of (mirror_row org inst after g)) = Some (gd_groupJid g \<in> set after)"
  by (auto simp: mirror_row_def off_mirror_def)

lemma mirror_row_other: "\<not> of_instance org inst g \<Longrightarrow> mirror_row org inst after g = g"
  by (simp add: mirror_row_def)

lemma of_instance_unique: "of_instance org inst g \<Longrightarrow> of_instance org' inst' g \<longleftrightarrow> org' = org \<and> inst' = inst"
  by (auto simp: of_instance_def)

lemma is_instance_list [simp]: "is_instance org inst (i\<lparr>in_groupJidWhitelist := w\<rparr>) = is_instance org inst i"
  by (simp add: is_instance_def)

lemma unknownGroups_Nil: "unknownGroups d org inst jids = [] \<longleftrightarrow>
    set jids \<subseteq> gd_groupJid ` set (filter (of_instance org inst) (groups d))"
  by (auto simp: unknownGroups_def filter_empty_conv)

lemma readInstanceConfig_list:
  "readInstanceConfig d org inst = map_option (\<lambda>i. \<lparr>ic_instanceId = inst, ic_groupJidWhitelist = whitelistOf (in_groupJidWhitelist i)\<rparr>)
     (find (is_instance org inst) (instances d))"
  by (simp add: readInstanceConfig_def)

lemma scope_list_find: "scope_list d org inst = (case find (is_instance org inst) (instances d) of None \<Rightarrow> {}
    | Some i \<Rightarrow> set (whitelistOf (in_groupJidWhitelist i)))"
  by (simp add: scope_list_def readInstanceConfig_def split: option.splits)

text \<open>Writing one instance's list: its own lookup sees it, every other lookup is untouched.\<close>

lemma find_instance_write:
  "find (is_instance o' i') (update_one (is_instance org inst) (\<lambda>i. i\<lparr>in_groupJidWhitelist := w\<rparr>) is') =
     (if o' = org \<and> i' = inst then map_option (\<lambda>i. i\<lparr>in_groupJidWhitelist := w\<rparr>) (find (is_instance org inst) is')
      else find (is_instance o' i') is')"
proof (cases "o' = org \<and> i' = inst")
  case True
  then show ?thesis by (simp add: find_update_same)
next
  case False
  show ?thesis
    unfolding if_not_P [OF False] by (rule find_update_other) (use False in \<open>auto simp: is_instance_def\<close>)
qed

lemma find_instance_write_None:
  "find (is_instance o' i') (update_one (is_instance org inst) (\<lambda>i. i\<lparr>in_groupJidWhitelist := w\<rparr>) is') = None
     \<longleftrightarrow> find (is_instance o' i') is' = None"
  by (auto simp: find_instance_write)

lemma scope_list_write:
  assumes "instances d' = update_one (is_instance org inst) (\<lambda>i. i\<lparr>in_groupJidWhitelist := w\<rparr>) (instances d)"
    and "find (is_instance org inst) (instances d) \<noteq> None"
  shows "scope_list d' = put_scope (scope_list d) org inst (set (whitelistOf w))"
  using assms by (auto simp: fun_eq_iff put_scope_def scope_list_find find_instance_write split: option.splits)

section \<open>Replacing the list\<close>

lemma find_None_known: "known_groups d org inst = None \<longleftrightarrow> find (is_instance org inst) (instances d) = None"
  by (simp add: known_groups_def)

lemma update_refused:
  assumes "find (is_instance org inst) (instances d) = None \<or> unknownGroups d org inst (sorted_jids jids) \<noteq> []"
  shows "fst (updateInstanceConfig d org inst jids ip now) = d"
  using assms by (auto simp: updateInstanceConfig_def readInstanceConfig_def Let_def split: option.splits)

lemma update_accepted:
  assumes "find (is_instance org inst) (instances d) = Some i" "unknownGroups d org inst (sorted_jids jids) = []"
  shows "updateInstanceConfig d org inst jids ip now =
    (whitelist_txn d org inst (whitelistOf (in_groupJidWhitelist i)) (sorted_jids jids) ip now,
     Config_updated \<lparr>ic_instanceId = inst, ic_groupJidWhitelist = sorted_jids jids\<rparr>)"
  using assms by (simp add: updateInstanceConfig_def readInstanceConfig_def Let_def)

lemma set_sorted_jids: "set (sorted_jids jids) = wanted jids"
  by (simp add: sorted_jids_shape wanted_def)

lemma clean_written: "clean_list (Some (JArr (map JStr (sorted_jids xs))))"
  by (auto simp: clean_list_def clean_entry_def list_all_iff sorted_jids_shape)

lemma update_one_list_all:
  "list_all Q xs \<Longrightarrow> (\<And>x. x \<in> set xs \<Longrightarrow> Q x \<Longrightarrow> Q (f x)) \<Longrightarrow> list_all Q (update_one P f xs)"
  by (induction xs) auto

definition members_of :: "group_doc list \<Rightarrow> jstr \<Rightarrow> jstr \<Rightarrow> jstr set" where
  "members_of gs org inst = gd_groupJid ` set (filter (of_instance org inst) gs)"

lemma known_groups_eq: "known_groups d org inst =
    (if find (is_instance org inst) (instances d) = None then None else Some (members_of (groups d) org inst))"
  by (auto simp: known_groups_def members_of_def)

lemma known_groups_same:
  assumes "\<And>org inst. find (is_instance org inst) (instances d') = None \<longleftrightarrow> find (is_instance org inst) (instances d) = None"
    and "members_of (groups d') = members_of (groups d)"
  shows "known_groups d' = known_groups d"
  by (simp add: fun_eq_iff known_groups_eq assms)

text \<open>A change of rows that keeps their keys keeps the members.\<close>

lemma members_of_map:
  assumes "\<And>g. gd_groupJid (f g) = gd_groupJid g" "\<And>g org inst. of_instance org inst (f g) = of_instance org inst g"
  shows "members_of (map f gs) = members_of gs"
  by (simp add: fun_eq_iff members_of_def filter_map o_def assms image_image)

lemma readable_mirror:
  assumes "groups d' = map (mirror_row org inst after) (groups d)"
    and "set after \<subseteq> gd_groupJid ` set (filter (of_instance org inst) (groups d))"
  shows "readable_groups d' = put_scope (readable_groups d) org inst (set after)"
proof (rule ext, rule ext)
  fix o' i'
  have own: "both_flags (mirror_row org inst after g) \<longleftrightarrow> gd_groupJid g \<in> set after" if "of_instance org inst g" for g
    using mirror_row_flags [OF that] by (simp add: both_flags_def)
  have "readable_groups d' o' i' = {gd_groupJid g | g. g \<in> set (groups d) \<and> of_instance o' i' g \<and> both_flags (mirror_row org inst after g)}"
    unfolding readable_groups_def assms(1) by (auto simp: filter_map o_def image_image)
  also have "\<dots> = put_scope (readable_groups d) org inst (set after) o' i'"
  proof (cases "o' = org \<and> i' = inst")
    case True
    have "\<exists>g. j = gd_groupJid g \<and> g \<in> set (groups d) \<and> of_instance org inst g \<and> both_flags (mirror_row org inst after g)"
      if "j \<in> set after" for j
    proof -
      from assms(2) that obtain g where "g \<in> set (groups d)" "of_instance org inst g" "j = gd_groupJid g" by auto
      with that own show ?thesis by blast
    qed
    with True show ?thesis by (auto simp: put_scope_def own)
  next
    case False
    then have "mirror_row org inst after g = g" if "of_instance o' i' g" for g
      using that by (intro mirror_row_other) (auto simp: of_instance_def)
    then have "{gd_groupJid g | g. g \<in> set (groups d) \<and> of_instance o' i' g \<and> both_flags (mirror_row org inst after g)}
        = readable_groups d o' i'" by (auto simp: readable_groups_def)
    with False show ?thesis by (auto simp: put_scope_def)
  qed
  finally show "readable_groups d' o' i' = put_scope (readable_groups d) org inst (set after) o' i'" .
qed

lemma replace_refines:
  assumes ok: "scope_ok d"
    and d'_def: "d' = fst (updateInstanceConfig d org inst jids ip now)"
  shows "scope_ok d' \<and> known_groups d' = known_groups d
    \<and> scope_list d' = spec_edit (known_groups d) (scope_list d) (Replace_scope org inst jids)"
proof (cases "find (is_instance org inst) (instances d)")
  case None
  then show ?thesis using ok by (simp add: d'_def update_refused known_groups_def)
next
  case (Some i)
  let ?members = "gd_groupJid ` set (filter (of_instance org inst) (groups d))"
  have known: "known_groups d org inst = Some ?members" by (simp add: known_groups_def Some)
  show ?thesis
  proof (cases "wanted jids \<subseteq> ?members")
    case False
    then have "d' = d" by (simp add: d'_def update_refused unknownGroups_Nil set_sorted_jids)
    with False ok known show ?thesis by simp
  next
    case True
    let ?after = "sorted_jids jids"
    have d': "d' = whitelist_txn d org inst (whitelistOf (in_groupJidWhitelist i)) ?after ip now"
      using True by (simp add: d'_def update_accepted [OF Some] unknownGroups_Nil set_sorted_jids)
    have gs: "groups d' = map (mirror_row org inst ?after) (groups d)"
      and ins: "instances d' = update_one (is_instance org inst) (\<lambda>i. i\<lparr>in_groupJidWhitelist := Some (JArr (map JStr ?after))\<rparr>) (instances d)"
      by (simp_all add: d' whitelist_txn_groups whitelist_txn_instances)
    have scope: "scope_list d' = put_scope (scope_list d) org inst (wanted jids)"
      using scope_list_write [OF ins] Some by (simp add: whitelistOf_written set_sorted_jids)
    have readable: "readable_groups d' = put_scope (readable_groups d) org inst (wanted jids)"
      using readable_mirror [OF gs] True by (simp add: set_sorted_jids)
    have kn: "known_groups d' = known_groups d"
      by (rule known_groups_same) (simp_all add: ins find_instance_write_None gs members_of_map)
    have "list_all (\<lambda>i. clean_list (in_groupJidWhitelist i)) (instances d')"
      unfolding ins using ok by (intro update_one_list_all) (simp_all add: scope_ok_def clean_written)
    moreover have "readable_groups d' = scope_list d'" using ok by (simp add: scope readable scope_ok_def)
    ultimately have "scope_ok d'"
      using ok unfolding scope_ok_def
      by (simp add: gs list_all_iff o_def ins find_instance_write_None del: not_None_eq)
    with kn known True scope show ?thesis by simp
  qed
qed

section \<open>Moving one group\<close>

lemma clean_scope:
  "list_all clean_entry vs \<Longrightarrow> set (whitelistOf (Some (JArr vs))) = {j. JStr j \<in> set vs}"
  by (force simp: whitelistOf_def sorted_jids_shape json_texts_in clean_entry_def list_all_iff image_iff split: json.splits)

text \<open>On a clean list \<open>$addToSet\<close> and \<open>$pull\<close> are the insertion and the removal of the set.\<close>

lemma move_list:
  assumes "clean_list w" "trim j = j" "j \<noteq> []"
  obtains w' where "(if b then add_to_set else pull) j w = Some w'" "clean_list w'"
    "set (whitelistOf w') = (if b then insert j (set (whitelistOf w)) else set (whitelistOf w) - {j})"
proof (cases w)
  case None
  have "whitelistOf (Some (JArr [JStr j])) = [j]"
    using assms by (simp add: whitelistOf_def sorted_jids_def)
  with None assms show ?thesis
    by (cases b; intro that) (auto simp: add_to_set_def pull_def clean_list_def clean_entry_def whitelistOf_def)
next
  case (Some v)
  with assms(1) obtain vs where v: "v = JArr vs" and clean: "list_all clean_entry vs"
    by (auto simp: clean_list_def split: json.splits)
  define ws where "ws = (if b then if JStr j \<in> set vs then vs else vs @ [JStr j] else filter (\<lambda>x. x \<noteq> JStr j) vs)"
  have ws: "list_all clean_entry ws"
    using clean assms(2,3) by (auto simp: ws_def clean_entry_def list_all_iff)
  show ?thesis
  proof (rule that)
    show "(if b then add_to_set else pull) j w = Some (Some (JArr ws))"
      by (simp add: Some v ws_def add_to_set_def pull_def)
    show "clean_list (Some (JArr ws))" using ws by (simp add: clean_list_def)
    show "set (whitelistOf (Some (JArr ws))) = (if b then insert j (set (whitelistOf w)) else set (whitelistOf w) - {j})"
      unfolding Some v clean_scope [OF clean] clean_scope [OF ws] by (auto simp: ws_def)
  qed
qed

lemma move_writes:
  assumes "find (is_instance org inst) (instances d) = Some i"
    and "(if b then add_to_set else pull) jid (in_groupJidWhitelist i) = Some w"
  obtains d' where "moveGroupWhitelistJid d \<lparr>mv_organizationId = org, mv_instanceId = inst, mv_groupJid = jid, mv_whitelisted = b, mv_ip = ip\<rparr> now = Inr d'"
    "instances d' = update_one (is_instance org inst) (\<lambda>i. i\<lparr>in_groupJidWhitelist := w\<rparr>) (instances d)" "groups d' = groups d"
  using assms by (auto simp: moveGroupWhitelistJid_def)

lemma find_group_member:
  "find (is_group org inst jid) gs = None \<longleftrightarrow> jid \<notin> members_of gs org inst"
  by (auto simp: find_None_iff is_group_def members_of_def)

lemma addressed_scope: "addressed org jid (scope_patch inst b) = is_group org inst jid"
  by (auto simp: addressed_def fun_eq_iff scope_patch_def is_group_def of_instance_def)

lemma scope_patch_flags [simp]:
  "gc_assigned (patch_config (scope_patch inst b) c0 c) = Some b" "gc_whitelisted (patch_config (scope_patch inst b) c0 c) = Some b"
  "gp_whitelisted (scope_patch inst b) = Some b"
  by (simp_all add: patch_config_def set_flags_def scope_patch_def new_assigned_def bump_version_def)

lemma update_group_row:
  assumes ok: "scope_ok d" and jid: "jid \<in> members_of (groups d) org inst"
  obtains d' g f i w where "updateGroupConfig d org jid (scope_patch inst b) ip now = Inr (d', Group_updated (toRow g))"
    "groups d' = update_one (is_group org inst jid) (set_config f) (groups d)"
    "\<And>c. gc_assigned (f c) = Some b \<and> gc_whitelisted (f c) = Some b"
    "find (is_instance org inst) (instances d) = Some i" "clean_list w"
    "instances d' = update_one (is_instance org inst) (\<lambda>i. i\<lparr>in_groupJidWhitelist := w\<rparr>) (instances d)"
    "set (whitelistOf w) = (if b then insert jid (scope_list d org inst) else scope_list d org inst - {jid})"
proof -
  obtain cur rest where rows: "filter (is_group org inst jid) (groups d) = cur # rest"
    using jid by (cases "filter (is_group org inst jid) (groups d)")
      (auto simp: filter_empty_conv members_of_def is_group_def)
  then have in_rows: "\<forall>g \<in> set (cur # rest). is_group org inst jid g \<and> g \<in> set (groups d)"
    by (metis (mono_tags, lifting) mem_Collect_eq set_filter)
  let ?f = "patch_config (scope_patch inst b) (config_of cur)"
  obtain g0 where g0: "find (is_group org inst jid) (groups d) = Some g0"
    using jid find_group_member by (metis not_None_eq)
  have cur: "gd_instanceId cur = inst" "trim jid = jid" "jid \<noteq> []"
    "find (is_instance org inst) (instances d) \<noteq> None"
    using in_rows ok by (auto simp: is_group_def of_instance_def scope_ok_def list_all_iff)
  then obtain i where i: "find (is_instance org inst) (instances d) = Some i" by blast
  then have "clean_list (in_groupJidWhitelist i)"
    using ok find_Some_in [OF i] by (auto simp: scope_ok_def list_all_iff)
  then obtain w where w: "(if b then add_to_set else pull) jid (in_groupJidWhitelist i) = Some w" "clean_list w"
    "set (whitelistOf w) = (if b then insert jid (set (whitelistOf (in_groupJidWhitelist i))) else set (whitelistOf (in_groupJidWhitelist i)) - {jid})"
    using move_list [OF _ cur(2,3)] by metis
  let ?d = "d\<lparr>groups := update_one (is_group org inst jid) (set_config ?f) (groups d)\<rparr>"
  obtain d' where d': "moveGroupWhitelistJid ?d \<lparr>mv_organizationId = org, mv_instanceId = inst, mv_groupJid = jid, mv_whitelisted = b, mv_ip = ip\<rparr> now = Inr d'"
    "instances d' = update_one (is_instance org inst) (\<lambda>i. i\<lparr>in_groupJidWhitelist := w\<rparr>) (instances d)" "groups d' = groups ?d"
    using move_writes [of org inst ?d i b jid w ip now] i w(1) by auto
  have "\<not> (\<exists>g \<in> set rest. gd_instanceId g \<noteq> gd_instanceId cur)"
    using in_rows by (auto simp: is_group_def of_instance_def)
  then have "updateGroupConfig d org jid (scope_patch inst b) ip now = Inr (d', Group_updated (toRow (set_config ?f g0)))"
    by (simp add: updateGroupConfig_def addressed_scope rows Let_def cur(1) found_after_def g0 d'(1))
  moreover have "scope_list d org inst = set (whitelistOf (in_groupJidWhitelist i))" by (simp add: scope_list_find i)
  ultimately show ?thesis using d' i w by (intro that) auto
qed

lemma readable_move:
  assumes uniq: "distinct (map group_key (groups d))" and jid: "jid \<in> members_of (groups d) org inst"
    and gs: "groups d' = update_one (is_group org inst jid) (set_config f) (groups d)"
    and f: "\<And>c. gc_assigned (f c) = Some b \<and> gc_whitelisted (f c) = Some b"
  shows "readable_groups d' = put_scope (readable_groups d) org inst
    (if b then insert jid (readable_groups d org inst) else readable_groups d org inst - {jid})"
    and "members_of (groups d') = members_of (groups d)" and "map group_key (groups d') = map group_key (groups d)"
proof -
  define c where "c = (\<lambda>g. if is_group org inst jid g then set_config f g else g)"
  have c: "gd_groupJid (c g) = gd_groupJid g" "of_instance o' i' (c g) = of_instance o' i' g" "group_key (c g) = group_key g" for g o' i'
    by (simp_all add: c_def)
  have map: "groups d' = map c (groups d)"
    using update_one_key [OF uniq, of "is_group org inst jid" "(org, inst, jid)"]
    by (simp add: gs group_key_eq update_many_def c_def)
  show "members_of (groups d') = members_of (groups d)" "map group_key (groups d') = map group_key (groups d)"
    by (simp_all add: map members_of_map c)
  have flags: "both_flags (c g) \<longleftrightarrow> (if is_group org inst jid g then b else both_flags g)" for g
    using f by (auto simp: both_flags_def c_def)
  obtain g0 where g0: "g0 \<in> set (groups d)" "is_group org inst jid g0"
    using jid by (auto simp: members_of_def is_group_def)
  have "readable_groups d' o' i' = {gd_groupJid g | g. g \<in> set (groups d) \<and> of_instance o' i' g
      \<and> (if is_group org inst jid g then b else both_flags g)}" for o' i'
    unfolding readable_groups_def map by (auto simp: filter_map o_def image_image flags c)
  then show "readable_groups d' = put_scope (readable_groups d) org inst
    (if b then insert jid (readable_groups d org inst) else readable_groups d org inst - {jid})"
    using g0 by (auto simp: fun_eq_iff put_scope_def readable_groups_def is_group_def of_instance_def)
qed

lemma move_refused:
  assumes "jid \<notin> members_of (groups d) org inst"
  shows "updateGroupConfig d org jid (scope_patch inst b) ip now = Inr (d, Group_not_found)"
proof -
  have "filter (is_group org inst jid) (groups d) = []"
    using assms by (auto simp: filter_empty_conv members_of_def is_group_def)
  then show ?thesis by (simp add: updateGroupConfig_def addressed_scope)
qed

lemma no_instance_no_members:
  assumes "scope_ok d" "find (is_instance org inst) (instances d) = None"
  shows "members_of (groups d) org inst = {}"
  using assms by (auto simp: scope_ok_def list_all_iff members_of_def of_instance_def)

lemma move_refines:
  assumes ok: "scope_ok d" and d': "d' = edit_scope (ip, now) d (Move_group org inst jid b)"
  shows "scope_ok d' \<and> known_groups d' = known_groups d
    \<and> scope_list d' = spec_edit (known_groups d) (scope_list d) (Move_group org inst jid b)"
proof (cases "jid \<in> members_of (groups d) org inst")
  case False
  then have "d' = d" by (simp add: d' move_refused)
  with False ok show ?thesis by (simp add: known_groups_eq)
next
  case True
  obtain d'' g f i w where up: "updateGroupConfig d org jid (scope_patch inst b) ip now = Inr (d'', Group_updated (toRow g))"
    and gs: "groups d'' = update_one (is_group org inst jid) (set_config f) (groups d)"
    and f: "\<And>c. gc_assigned (f c) = Some b \<and> gc_whitelisted (f c) = Some b"
    and i: "find (is_instance org inst) (instances d) = Some i" and w: "clean_list w"
    "set (whitelistOf w) = (if b then insert jid (scope_list d org inst) else scope_list d org inst - {jid})"
    and ins: "instances d'' = update_one (is_instance org inst) (\<lambda>i. i\<lparr>in_groupJidWhitelist := w\<rparr>) (instances d)"
    by (rule update_group_row [OF ok True, where b = b and ip = ip and now = now]) (rule that)
  have d'': "d' = d''" by (simp add: d' up)
  have uniq: "distinct (map group_key (groups d))" using ok by (simp add: scope_ok_def)
  note rows = readable_move [OF uniq True gs f]
  have mirror: "readable_groups d = scope_list d" using ok by (simp add: scope_ok_def)
  have scope: "scope_list d' = put_scope (scope_list d) org inst (if b then insert jid (scope_list d org inst) else scope_list d org inst - {jid})"
    using scope_list_write [OF ins] i by (simp add: d'' w(2))
  have kn: "known_groups d' = known_groups d"
    by (rule known_groups_same) (simp_all add: d'' ins find_instance_write_None rows(2))
  have "list_all (\<lambda>i. clean_list (in_groupJidWhitelist i)) (instances d'')"
    unfolding ins using ok w(1) by (intro update_one_list_all) (simp_all add: scope_ok_def)
  moreover have "list_all (\<lambda>g. trim (gd_groupJid g) = gd_groupJid g \<and> gd_groupJid g \<noteq> []
      \<and> find (is_instance (gd_organizationId g) (gd_instanceId g)) (instances d'') \<noteq> None) (groups d'')"
    unfolding gs ins using ok
    by (intro update_one_list_all) (simp_all add: scope_ok_def find_instance_write_None del: not_None_eq)
  moreover have "readable_groups d'' = scope_list d''" using rows(1) scope by (simp add: d'' mirror)
  ultimately have "scope_ok d'" using rows(3) uniq by (simp add: scope_ok_def d'')
  with kn scope True i show ?thesis by (simp add: known_groups_eq)
qed

section \<open>The refinement\<close>

lemma edit_refines:
  assumes "scope_ok d"
  shows "scope_ok (edit_scope a d e) \<and> known_groups (edit_scope a d e) = known_groups d
    \<and> scope_list (edit_scope a d e) = spec_edit (known_groups d) (scope_list d) e"
proof (cases e)
  case (Replace_scope org inst jids)
  with replace_refines [OF assms] show ?thesis by (cases a) simp
next
  case (Move_group org inst jid b)
  with move_refines [OF assms] show ?thesis by (cases a) (simp del: spec_edit.simps edit_scope.simps)
qed

interpretation scope: scope_control scope_ok known_groups scope_list readable_groups edit_scope
  using edit_refines by unfold_locales (auto simp: scope_ok_def)

end
