(* ===== verification/ScopeProps.thy ===== *)
theory ScopeProps
  imports GroupScope
begin

text \<open>
  The properties of the assistant's scope: what each writer promises on every outcome, the
  refinement of the abstract sets by any interleaving of both writers, the patch that leaves
  the pair split, and the shape of the row the dashboard reads.
\<close>

section \<open>A small estate\<close>

definition ex_group :: "jstr \<Rightarrow> bool option \<Rightarrow> group_doc" where
  "ex_group jid b = \<lparr>gd_organizationId = [7], gd_instanceId = [2], gd_groupJid = jid, gd_observed = None,
     gd_config = Some \<lparr>gc_assigned = b, gc_whitelisted = b, gc_configVersion = Some 4\<rparr>, gd_memoryReadFence = 0\<rparr>"

definition ex_instance :: instance_doc where
  "ex_instance = \<lparr>in_id = [2], in_organizationId = [7], in_label = None, in_mode = None, in_createdAt = None, in_deletedAt = None,
     in_runtimeStatus = None, in_groupSync = None, in_groupJidWhitelist = Some (JArr [JStr [97]])\<rparr>"

definition ex_estate :: db where
  "ex_estate = empty_db\<lparr>instances := [ex_instance], groups := [ex_group [97] (Some True), ex_group [98] None]\<rparr>"

lemmas ex_estate_defs = ex_estate_def ex_group_def ex_instance_def empty_db_def

lemma trim_letter [simp]: "trim [97] = [97]" "trim [98] = [98]" "trim [99] = [99]"
  by (simp_all add: is_space_def)

lemma ex_estate_ok: "scope_ok ex_estate"
  by (auto simp: scope_ok_def ex_estate_defs group_key_def is_instance_def clean_list_def clean_entry_def fun_eq_iff
      readable_groups_def both_flags_def config_of_def of_instance_def scope_list_find whitelistOf_def sorted_jids_def)

lemma ex_estate_known: "known_groups ex_estate [7] [2] = Some {[97], [98]}"
  by (auto simp: known_groups_eq members_of_def ex_estate_defs is_instance_def of_instance_def)

lemma ex_estate_scope: "scope_list ex_estate [7] [2] = {[97]}"
  by (simp add: scope_list_find ex_estate_defs is_instance_def whitelistOf_def sorted_jids_def)

section \<open>The refinement\<close>

text \<open>C11: Any sequence of the two scope writers (replacing an instance's list, moving one group's
  toggle), by any callers and in any order, keeps what the assistant can read (the rows carrying both
  flags) equal, for every instance of every organisation, to the fold of the same edits over abstract
  sets of group JIDs, where an edit naming a group the instance does not have changes nothing.\<close>

theorem scope_edits_refine:
  assumes "scope_ok d"
  shows "readable_groups (run_edits edit_scope d cs) = foldl (spec_edit (known_groups d)) (scope_list d) (map snd cs)"
  using assms by (rule scope.run_readable)

lemma scope_edits_refine_witness:
  "readable_groups (run_edits edit_scope ex_estate
      [(([], 5), Move_group [7] [2] [98] True), (([], 6), Replace_scope [7] [2] [[98]]),
       (([], 7), Replace_scope [7] [2] [[99]])]) [7] [2] = {[98]}"
  by (simp add: scope_edits_refine [OF ex_estate_ok] ex_estate_known ex_estate_scope put_scope_def wanted_def)

section \<open>Each writer on every outcome\<close>

lemma writeAudit_length: "length (auditLog (whitelist_txn d org inst b a ip now)) = Suc (length (auditLog d))"
  by (simp add: whitelist_txn_def Let_def)

text \<open>Replacing a whitelist, on every outcome. Accepted: the answer is the trimmed, sorted, duplicate-free
  list and is what is read back; every group row of the instance carries both flags exactly when it is on the
  list; all other rows are untouched; one audit record is appended. Refused: nothing is written, and the refusal
  names exactly the wanted groups the instance has no row for.\<close>

theorem whitelist_write_outcomes:
  "case updateInstanceConfig d org inst jids ip now of
     (d', Config_updated c) \<Rightarrow> readInstanceConfig d' org inst = Some c \<and> ic_groupJidWhitelist c = sorted_jids jids
       \<and> map (\<lambda>g. (gc_whitelisted (config_of g), gc_assigned (config_of g))) (filter (of_instance org inst) (groups d'))
         = map (\<lambda>g. (Some (gd_groupJid g \<in> wanted jids), Some (gd_groupJid g \<in> wanted jids))) (filter (of_instance org inst) (groups d))
       \<and> filter (\<lambda>g. \<not> of_instance org inst g) (groups d') = filter (\<lambda>g. \<not> of_instance org inst g) (groups d)
       \<and> length (auditLog d') = length (auditLog d) + 1
   | (d', Config_not_found) \<Rightarrow> d' = d \<and> readInstanceConfig d org inst = None
   | (d', Unknown_groups missing) \<Rightarrow> d' = d \<and> missing \<noteq> [] \<and> set missing = wanted jids - members_of (groups d) org inst"
proof (cases "find (is_instance org inst) (instances d)")
  case None
  then show ?thesis by (simp add: updateInstanceConfig_def readInstanceConfig_def)
next
  case (Some i)
  let ?after = "sorted_jids jids"
  show ?thesis
  proof (cases "unknownGroups d org inst ?after = []")
    case True
    let ?d = "whitelist_txn d org inst (whitelistOf (in_groupJidWhitelist i)) ?after ip now"
    have "readInstanceConfig ?d org inst = Some \<lparr>ic_instanceId = inst, ic_groupJidWhitelist = ?after\<rparr>"
      by (simp add: readInstanceConfig_list whitelist_txn_instances find_instance_write Some whitelistOf_written)
    moreover have "filter (\<lambda>g. \<not> of_instance org inst g) (groups ?d) = filter (\<lambda>g. \<not> of_instance org inst g) (groups d)"
      by (simp add: whitelist_txn_groups filter_map o_def) (rule map_idI, simp add: mirror_row_other)
    moreover have "map (\<lambda>g. (gc_whitelisted (config_of g), gc_assigned (config_of g))) (filter (of_instance org inst) (groups ?d))
        = map (\<lambda>g. (Some (gd_groupJid g \<in> wanted jids), Some (gd_groupJid g \<in> wanted jids))) (filter (of_instance org inst) (groups d))"
      by (simp add: whitelist_txn_groups filter_map o_def mirror_row_flags set_sorted_jids)
    ultimately show ?thesis by (simp add: update_accepted [OF Some True] writeAudit_length)
  next
    case False
    then show ?thesis using Some
      by (auto simp: updateInstanceConfig_def readInstanceConfig_def Let_def unknownGroups_def members_of_def set_sorted_jids)
  qed
qed

section \<open>The group toggle\<close>

text \<open>A patch that names no whitelist flag may split the pair: on every consistent database, withdrawing only
  \<open>assigned\<close> from a granted group succeeds, leaves the row whitelisted and the JID on the instance's list, and
  the assistant can no longer read it, so the list and what is readable disagree.\<close>

theorem assigned_alone_splits_pair:
  assumes ok: "scope_ok d" and granted: "jid \<in> readable_groups d org inst"
  shows "case updateGroupConfig d org jid \<lparr>gp_assigned = Some False, gp_whitelisted = None, gp_instanceId = Some inst\<rparr> ip now of
     Inr (d', Group_updated row) \<Rightarrow> gr_whitelisted row \<and> \<not> gr_assigned row
       \<and> jid \<in> scope_list d' org inst \<and> jid \<notin> readable_groups d' org inst
   | _ \<Rightarrow> False"
proof -
  let ?p = "\<lparr>gp_assigned = Some False, gp_whitelisted = None, gp_instanceId = Some inst\<rparr>"
  have uniq: "distinct (map group_key (groups d))" using ok by (simp add: scope_ok_def)
  obtain g where g: "g \<in> set (groups d)" "is_group org inst jid g" "both_flags g"
    using granted by (auto simp: readable_groups_def is_group_def)
  have only: "g' = g" if "g' \<in> set (groups d)" "is_group org inst jid g'" for g'
    using uniq that g(1,2) group_key_eq by (metis distinct_map inj_onD)
  obtain cur rest where rows: "filter (is_group org inst jid) (groups d) = cur # rest"
    using g by (cases "filter (is_group org inst jid) (groups d)") (auto simp: filter_empty_conv)
  then have "\<forall>x \<in> set (cur # rest). is_group org inst jid x \<and> x \<in> set (groups d)"
    by (metis (mono_tags, lifting) mem_Collect_eq set_filter)
  then have cur: "cur = g" "\<forall>x \<in> set rest. x = g" using only by auto
  have inst: "gd_instanceId g = inst" using g(2) by (simp add: is_group_def of_instance_def)
  have "addressed org jid ?p = is_group org inst jid"
    by (auto simp: addressed_def fun_eq_iff is_group_def of_instance_def)
  then have rows': "filter (addressed org jid ?p) (groups d) = g # rest" using rows cur(1) by simp
  let ?f = "patch_config ?p (config_of g)"
  have f: "gc_assigned (?f (config_of g)) = Some False" "gc_whitelisted (?f (config_of g)) = Some True"
    using g(3) by (auto simp: patch_config_def set_flags_def new_assigned_def bump_version_def both_flags_def)
  have found: "find (is_group org inst jid) (groups d) = Some g"
    using g only by (metis find_None_all find_Some_in not_None_eq)
  let ?d = "d\<lparr>groups := update_one (is_group org inst jid) (set_config ?f) (groups d)\<rparr>"
  have "updateGroupConfig d org jid ?p ip now = Inr (?d, Group_updated (toRow (set_config ?f g)))"
    using cur(2) inst by (auto simp: updateGroupConfig_def rows' Let_def inst found_after_def found)
  moreover have "gr_whitelisted (toRow (set_config ?f g))" "\<not> gr_assigned (toRow (set_config ?f g))"
    using f by (simp_all add: toRow_def Let_def or_default_def)
  moreover have "jid \<in> scope_list ?d org inst"
    using ok granted by (simp add: scope_list_find scope_ok_def fun_eq_iff)
  moreover have "jid \<notin> readable_groups ?d org inst"
  proof
    assume "jid \<in> readable_groups ?d org inst"
    then obtain x where x: "x \<in> set (update_one (is_group org inst jid) (set_config ?f) (groups d))"
      "is_group org inst jid x" "both_flags x" by (auto simp: readable_groups_def is_group_def)
    have "\<not> both_flags x"
      using x(1,2) only f
      by (subst (asm) update_one_key [OF uniq, of _ "(org, inst, jid)"]) (auto simp: group_key_eq update_many_def both_flags_def split: if_splits)
    with x(3) show False by simp
  qed
  ultimately show ?thesis by simp
qed

lemma assigned_alone_splits_pair_witness:
  "case updateGroupConfig ex_estate [7] [97] \<lparr>gp_assigned = Some False, gp_whitelisted = None, gp_instanceId = Some [2]\<rparr> [] 9 of
     Inr (d', Group_updated row) \<Rightarrow> gr_whitelisted row \<and> \<not> gr_assigned row
       \<and> [97] \<in> scope_list d' [7] [2] \<and> [97] \<notin> readable_groups d' [7] [2]
   | _ \<Rightarrow> False"
  by (rule assigned_alone_splits_pair [OF ex_estate_ok])
    (auto simp: readable_groups_def ex_estate_defs of_instance_def both_flags_def config_of_def)

lemma move_outcomes:
  "case moveGroupWhitelistJid d mv now of
     Inl e \<Rightarrow> (\<exists>i \<in> set (instances d). in_organizationId i = mv_organizationId mv \<and> in_groupJidWhitelist i \<noteq> None
        \<and> (\<forall>vs. in_groupJidWhitelist i \<noteq> Some (JArr vs)))
   | Inr d' \<Rightarrow> groups d' = groups d"
proof (cases "find (is_instance (mv_organizationId mv) (mv_instanceId mv)) (instances d)")
  case None
  then show ?thesis by (simp add: moveGroupWhitelistJid_def)
next
  case (Some i)
  show ?thesis
  proof (cases "(if mv_whitelisted mv then add_to_set else pull) (mv_groupJid mv) (in_groupJidWhitelist i)")
    case None
    then have "in_groupJidWhitelist i \<noteq> None \<and> (\<forall>vs. in_groupJidWhitelist i \<noteq> Some (JArr vs))"
      by (cases "in_groupJidWhitelist i") (auto simp: add_to_set_def pull_def split: if_splits json.splits)
    with find_Some_in [OF Some] None Some show ?thesis by (auto simp: moveGroupWhitelistJid_def is_instance_def)
  qed (simp add: moveGroupWhitelistJid_def Some)
qed

text \<open>The rows a patch addresses: under two instances no selector was given, and otherwise the first of them is
  the first row of that group.\<close>

lemma addressed_rows:
  assumes rows: "filter (addressed org jid p) gs = cur # rest"
  shows "gd_organizationId cur = org \<and> gd_groupJid cur = jid"
    and "\<exists>g \<in> set rest. gd_instanceId g \<noteq> gd_instanceId cur \<Longrightarrow> gp_instanceId p = None
      \<and> 1 < card (gd_instanceId ` {g \<in> set gs. gd_organizationId g = org \<and> gd_groupJid g = jid})"
    and "\<not> (\<exists>g \<in> set rest. gd_instanceId g \<noteq> gd_instanceId cur) \<Longrightarrow> find (is_group org (gd_instanceId cur) jid) gs = Some cur"
proof -
  let ?sel = "addressed org jid p"
  have selD: "gd_organizationId g = org \<and> gd_groupJid g = jid \<and> (\<forall>i. gp_instanceId p = Some i \<longrightarrow> gd_instanceId g = i)" if "?sel g" for g
    using that by (auto simp: addressed_def)
  have in_rows: "g \<in> set (cur # rest) \<longleftrightarrow> ?sel g \<and> g \<in> set gs" for g
    using rows by (metis (mono_tags, lifting) mem_Collect_eq set_filter)
  have cur: "?sel cur" "cur \<in> set gs" using in_rows [of cur] by simp_all
  show "gd_organizationId cur = org \<and> gd_groupJid cur = jid" using selD [OF cur(1)] by simp
  show "gp_instanceId p = None \<and> 1 < card (gd_instanceId ` {g \<in> set gs. gd_organizationId g = org \<and> gd_groupJid g = jid})"
    if several: "\<exists>g \<in> set rest. gd_instanceId g \<noteq> gd_instanceId cur"
  proof -
    from several obtain g where g: "g \<in> set rest" "gd_instanceId g \<noteq> gd_instanceId cur" by blast
    then have "?sel g" "g \<in> set gs" using in_rows [of g] by simp_all
    let ?S = "gd_instanceId ` {g \<in> set gs. gd_organizationId g = org \<and> gd_groupJid g = jid}"
    have "{gd_instanceId g, gd_instanceId cur} \<subseteq> ?S"
      using selD [OF \<open>?sel g\<close>] selD [OF cur(1)] cur(2) \<open>g \<in> set gs\<close> by simp
    then have "card {gd_instanceId g, gd_instanceId cur} \<le> card ?S" by (intro card_mono) auto
    moreover have "gp_instanceId p = None"
      using selD [OF \<open>?sel g\<close>] selD [OF cur(1)] g(2) by (cases "gp_instanceId p") simp_all
    ultimately show ?thesis using g(2) by simp
  qed
  show "find (is_group org (gd_instanceId cur) jid) gs = Some cur" if one: "\<not> (\<exists>g \<in> set rest. gd_instanceId g \<noteq> gd_instanceId cur)"
  proof -
    have "is_group org (gd_instanceId cur) jid g \<longleftrightarrow> ?sel g" if "g \<in> set gs" for g
    proof
      assume "is_group org (gd_instanceId cur) jid g"
      then show "?sel g" using selD [OF cur(1)] by (auto simp: addressed_def is_group_def of_instance_def split: option.split)
    next
      assume "?sel g"
      then have "g \<in> set (cur # rest)" using that in_rows by blast
      then have "gd_instanceId g = gd_instanceId cur" using one by auto
      then show "is_group org (gd_instanceId cur) jid g" using selD [OF \<open>?sel g\<close>] by (simp add: is_group_def of_instance_def)
    qed
    then have "filter (is_group org (gd_instanceId cur) jid) gs = filter ?sel gs" by (rule filter_cong [OF refl])
    then show ?thesis by (simp add: rows find_filter_hd)
  qed
qed

text \<open>The configuration write on every outcome. It throws only for a stored list that is not an array, having
  written nothing; a JID the organisation has no row for, and one held under several instances with none named,
  are refused with nothing written; otherwise exactly the first row of that group changes, only in its
  configuration, its version moving by one exactly when a named flag changed.\<close>

theorem group_write_outcomes:
  "case updateGroupConfig d org jid p ip now of
     Inl e \<Rightarrow> (\<exists>i \<in> set (instances d). in_organizationId i = org \<and> in_groupJidWhitelist i \<noteq> None
        \<and> (\<forall>vs. in_groupJidWhitelist i \<noteq> Some (JArr vs)))
   | Inr (d', Group_not_found) \<Rightarrow> d' = d
   | Inr (d', Group_ambiguous) \<Rightarrow> d' = d \<and> gp_instanceId p = None
        \<and> 1 < card (gd_instanceId ` {g \<in> set (groups d). gd_organizationId g = org \<and> gd_groupJid g = jid})
   | Inr (d', Group_updated row) \<Rightarrow> (\<exists>xs g ys. groups d = xs @ g # ys \<and> gd_organizationId g = org \<and> gd_groupJid g = jid
        \<and> row = toRow (set_config (patch_config p (config_of g)) g)
        \<and> groups d' = xs @ set_config (patch_config p (config_of g)) g # ys)"
proof (cases "filter (addressed org jid p) (groups d)")
  case Nil
  then show ?thesis by (simp add: updateGroupConfig_def)
next
  case (Cons cur rest)
  note rows = addressed_rows [OF Cons]
  show ?thesis
  proof (cases "\<exists>g \<in> set rest. gd_instanceId g \<noteq> gd_instanceId cur")
    case True
    then show ?thesis using rows(2) by (simp add: updateGroupConfig_def Cons)
  next
    case False
    let ?inst = "gd_instanceId cur" and ?f = "set_config (patch_config p (config_of cur))"
    let ?d = "d\<lparr>groups := update_one (is_group org ?inst jid) ?f (groups d)\<rparr>"
    let ?mv = "\<lambda>w. \<lparr>mv_organizationId = org, mv_instanceId = ?inst, mv_groupJid = jid, mv_whitelisted = w, mv_ip = ip\<rparr>"
    have found: "find (is_group org ?inst jid) (groups d) = Some cur" by (rule rows(3) [OF False])
    have "\<exists>xs g ys. groups d = xs @ g # ys \<and> gd_organizationId g = org \<and> gd_groupJid g = jid
        \<and> toRow (?f cur) = toRow (set_config (patch_config p (config_of g)) g)
        \<and> update_one (is_group org ?inst jid) ?f (groups d) = xs @ set_config (patch_config p (config_of g)) g # ys"
      using update_one_split [OF found, of ?f] rows(1) by blast
    moreover have "updateGroupConfig d org jid p ip now = (case gp_whitelisted p of
          None \<Rightarrow> Inr (?d, Group_updated (toRow (?f cur)))
        | Some w \<Rightarrow> map_sum id (\<lambda>d''. (d'', Group_updated (toRow (?f cur)))) (moveGroupWhitelistJid ?d (?mv w) now))"
      unfolding updateGroupConfig_def Cons list.case if_not_P [OF False] Let_def found_after_def found option.map option.case
      by (cases "gp_whitelisted p"; simp split: sum.split)
    ultimately show ?thesis
      using move_outcomes [of ?d "?mv (the (gp_whitelisted p))" now]
      by (cases "gp_whitelisted p"; cases "moveGroupWhitelistJid ?d (?mv (the (gp_whitelisted p))) now") simp_all
  qed
qed

section \<open>The row the dashboard reads\<close>

lemma map_filter_bound: "length (List.map_filter f xs) \<le> length xs"
  by (induction xs) (auto simp: List.map_filter_simps split: option.splits)

lemma map_filter_in: "y \<in> set (List.map_filter f xs) \<Longrightarrow> \<exists>x \<in> set xs. f x = Some y"
  by (induction xs) (auto simp: List.map_filter_simps split: option.splits)

text \<open>C12: Whatever a group document holds, its row has a name that is not empty, the fallback source exactly
  where the stored name is missing or carries none, and a rename ring of at most twenty entries, each with a
  name that is not blank and an author that is not blank, whose number is the count the row states.\<close>

theorem group_row_well_formed:
  "gr_name (toRow g) \<noteq> []
   \<and> gr_subjectHistoryCount (toRow g) = length (gr_subjectHistory (toRow g))
   \<and> length (gr_subjectHistory (toRow g)) \<le> subject_history_max
   \<and> list_all (\<lambda>e. trim (ge_name e) \<noteq> [] \<and> ge_by e \<noteq> Some []) (gr_subjectHistory (toRow g))
   \<and> (gr_name (toRow g) = or_default [] (ob_subject (or_default no_observed (gd_observed g)))
      \<or> gr_nameSource (toRow g) = Src_fallback)"
proof -
  have shape: "trim (ge_name e) \<noteq> [] \<and> ge_by e \<noteq> Some []" if "history_row h = Some e" for h e
    using that by (auto simp: history_row_def trim_def trim_end_def trim_start_def
        split: history_entry.splits stored_value.splits if_splits)
  have "list_all (\<lambda>e. trim (ge_name e) \<noteq> [] \<and> ge_by e \<noteq> Some []) (historyOf es)" for es
    by (auto simp: historyOf_def list_all_iff dest!: map_filter_in shape split: option.splits)
  moreover have "length (historyOf es) \<le> subject_history_max" for es
    using le_trans [OF map_filter_bound [of history_row "take subject_history_max (the es)"]]
    by (auto simp: historyOf_def split: option.splits)
  ultimately show ?thesis by (simp add: toRow_def Let_def fallback_prefix_def)
qed

end
