(* ===== verification/InstanceRows.thy ===== *)
theory InstanceRows
  imports Whitelist Clock "HOL-Library.Option_ord"
begin

text \<open>
  The instance rows (\<open>apps/web/src/server/repos/instances.ts\<close>): the row the console lists, with its
  group-sync summary, the reads that hide a removed instance, and the row a new instance starts as.
\<close>

record instance_group_sync =
  is_groupsObserved :: nat
  is_groupsLeft :: nat
  is_lastSyncAt :: "jstr option"
  is_lastError :: "jstr option"

record instance_row =
  ir_id :: jstr
  ir_label :: jstr
  ir_status :: jstr
  ir_groupSync :: instance_group_sync

record instance_runtime =
  iu_status :: jstr
  iu_groupSync :: instance_group_sync

record new_instance =
  ni_label :: jstr
  ni_mode :: jstr

definition disconnected :: jstr where "disconnected = js ''disconnected''"

definition groupSyncOf :: "group_sync option \<Rightarrow> instance_group_sync" where
  "groupSyncOf sync = (case sync of
      None \<Rightarrow> \<lparr>is_groupsObserved = 0, is_groupsLeft = 0, is_lastSyncAt = stampIso None, is_lastError = None\<rparr>
    | Some s \<Rightarrow> \<lparr>is_groupsObserved = (case gy_groupsObserved s of None \<Rightarrow> 0 | Some n \<Rightarrow> n),
        is_groupsLeft = (case gy_groupsLeft s of None \<Rightarrow> 0 | Some n \<Rightarrow> n),
        is_lastSyncAt = stampIso (gy_lastSyncAt s), is_lastError = gy_lastError s\<rparr>)"

definition status_of :: "instance_doc \<Rightarrow> jstr" where
  "status_of doc = (case in_runtimeStatus doc of None \<Rightarrow> disconnected | Some s \<Rightarrow> s)"

definition toInstanceRow :: "instance_doc \<Rightarrow> instance_row" where
  "toInstanceRow doc = \<lparr>ir_id = in_id doc, ir_label = (case in_label doc of None \<Rightarrow> [] | Some l \<Rightarrow> l),
     ir_status = status_of doc, ir_groupSync = groupSyncOf (in_groupSync doc)\<rparr>"

definition label_order :: "instance_doc \<Rightarrow> nat list option" where
  "label_order doc = map_option utf8_order (in_label doc)"

definition listInstances :: "db \<Rightarrow> jstr \<Rightarrow> instance_row list" where
  "listInstances d org = map toInstanceRow (sort_key label_order
     (filter (\<lambda>i. in_organizationId i = org \<and> in_deletedAt i = None) (instances d)))"

definition live_instance :: "jstr \<Rightarrow> jstr \<Rightarrow> instance_doc \<Rightarrow> bool" where
  "live_instance org inst i \<longleftrightarrow> is_instance org inst i \<and> in_deletedAt i = None"

definition getInstanceDoc :: "db \<Rightarrow> jstr \<Rightarrow> jstr \<Rightarrow> instance_doc option" where
  "getInstanceDoc d org inst = find (live_instance org inst) (instances d)"

definition getInstanceRuntime :: "db \<Rightarrow> jstr \<Rightarrow> jstr \<Rightarrow> instance_runtime option" where
  "getInstanceRuntime d org inst = map_option
     (\<lambda>doc. \<lparr>iu_status = status_of doc, iu_groupSync = groupSyncOf (in_groupSync doc)\<rparr>) (find (live_instance org inst) (instances d))"

definition instanceInOrg :: "db \<Rightarrow> jstr \<Rightarrow> jstr \<Rightarrow> bool" where
  "instanceInOrg d org inst \<longleftrightarrow> length (take 1 (filter (live_instance org inst) (instances d))) > 0"

text \<open>\<open>newId\<close> with the 21 draws of \<open>randomInt(64)\<close> as an argument.\<close>

definition nanoid_alphabet :: jstr where
  "nanoid_alphabet = js ''useandom-26T198340PX75pxJACKVERYMINDBUSHWOLF_GQZbfghjklqvwyzrict''"

definition newId :: "(nat \<Rightarrow> nat) \<Rightarrow> jstr" where
  "newId draw = map (\<lambda>i. nanoid_alphabet ! (draw i mod length nanoid_alphabet)) [0..<21]"

lemma newId_shape: "length (newId draw) = 21" "set (newId draw) \<subseteq> set nanoid_alphabet"
proof -
  have "nanoid_alphabet \<noteq> []" by (simp add: nanoid_alphabet_def)
  then have "nanoid_alphabet ! (n mod length nanoid_alphabet) \<in> set nanoid_alphabet" for n
    by (intro nth_mem) simp
  then show "length (newId draw) = 21" "set (newId draw) \<subseteq> set nanoid_alphabet"
    unfolding newId_def by auto
qed

text \<open>The id is the caller's fresh one; the primary key refuses a repeated id.\<close>

definition createInstance :: "db \<Rightarrow> jstr \<Rightarrow> new_instance \<Rightarrow> (nat \<Rightarrow> nat) \<Rightarrow> time \<Rightarrow> exn + (db \<times> instance_doc)" where
  "createInstance d org input draw now =
    (let doc = \<lparr>in_id = newId draw, in_organizationId = org, in_label = Some (ni_label input), in_mode = Some (ni_mode input),
           in_createdAt = Some now, in_deletedAt = None, in_runtimeStatus = Some disconnected, in_groupSync = None,
           in_groupJidWhitelist = None\<rparr>
     in if newId draw \<in> in_id ` set (instances d) then Inl Duplicate_key
        else Inr (d\<lparr>instances := instances d @ [doc]\<rparr>, doc))"

lemma instanceInOrg_iff: "instanceInOrg d org inst \<longleftrightarrow> (\<exists>i \<in> set (instances d). live_instance org inst i)"
  by (cases "filter (live_instance org inst) (instances d)") (auto simp: instanceInOrg_def filter_empty_conv filter_eq_Cons_iff)

text \<open>The reads of an instance agree: the tenant guard lets an id through exactly when its document is
  found, exactly when its runtime is found, and exactly when the organisation's list has a row of that id;
  and the runtime found carries the status and summary of the document found.\<close>

lemma instance_reads_agree:
  "(instanceInOrg d org inst \<longleftrightarrow> getInstanceDoc d org inst \<noteq> None)
   \<and> (instanceInOrg d org inst \<longleftrightarrow> inst \<in> ir_id ` set (listInstances d org))
   \<and> getInstanceRuntime d org inst = map_option
       (\<lambda>doc. \<lparr>iu_status = ir_status (toInstanceRow doc), iu_groupSync = ir_groupSync (toInstanceRow doc)\<rparr>) (getInstanceDoc d org inst)"
proof (intro conjI)
  show "instanceInOrg d org inst \<longleftrightarrow> getInstanceDoc d org inst \<noteq> None"
    by (auto simp: instanceInOrg_iff getInstanceDoc_def find_None_iff)
  show "instanceInOrg d org inst \<longleftrightarrow> inst \<in> ir_id ` set (listInstances d org)"
    by (auto simp: instanceInOrg_iff listInstances_def image_image toInstanceRow_def live_instance_def is_instance_def)
  show "getInstanceRuntime d org inst = map_option
       (\<lambda>doc. \<lparr>iu_status = ir_status (toInstanceRow doc), iu_groupSync = ir_groupSync (toInstanceRow doc)\<rparr>) (getInstanceDoc d org inst)"
    by (simp add: getInstanceRuntime_def getInstanceDoc_def toInstanceRow_def)
qed

end
