(* ===== verification/MemoryWork.thy ===== *)
theory MemoryWork
  imports Recall GroupRows
begin

text \<open>
  The writes of a memory batch (\<open>apps/web/src/server/repos/memory.ts\<close>): a batch the worker leased is
  loaded with its messages, one caller at a time holds the summary work, and the summary, its
  facts and the completed batch land in one transaction, or an empty summary does when the source
  messages or the group's authorisation were withdrawn.
  \<open>now\<close> is the clock of a call, the ids it generates are arguments.
\<close>

section \<open>Leases of a batch\<close>

record memory_output =
  mo_summary :: jstr
  mo_topics :: "jstr list"
  mo_decisions :: "cited_claim list"
  mo_commitments :: "cited_claim list"
  mo_openQuestions :: "cited_claim list"
  mo_actionItems :: "cited_claim list"
  mo_facts :: "summary_fact list"
  mo_containsUntrustedInstructions :: bool

datatype memory_exn = Invalid_memory_batch_source

record loaded_memory_batch =
  lm_batch :: memory_batch
  lm_messages :: "message_doc list"

text \<open>Lower-casing and date parsing of the runtime, and the ids the driver generates.\<close>

record memory_env =
  me_lower :: "jstr \<Rightarrow> jstr"
  me_parseDate :: "jstr \<Rightarrow> time option"
  me_summaryId :: oid
  me_factId :: "nat \<Rightarrow> oid"

definition batch_of :: "memory_batch \<Rightarrow> memory_batch \<Rightarrow> bool" where
  "batch_of batch b \<longleftrightarrow> mb_oid b = mb_oid batch \<and> mb_organizationId b = mb_organizationId batch
     \<and> mb_instanceId b = mb_instanceId batch \<and> mb_groupJid b = mb_groupJid batch"

definition leased :: "jstr \<Rightarrow> time \<Rightarrow> memory_batch \<Rightarrow> bool" where
  "leased token now b \<longleftrightarrow> (case mb_lease b of None \<Rightarrow> False | Some l \<Rightarrow> ls_token l = token \<and> now < ls_expiresAt l)"

definition working :: "jstr \<Rightarrow> time \<Rightarrow> memory_batch \<Rightarrow> bool" where
  "working token now b \<longleftrightarrow> (case mb_summaryWork b of None \<Rightarrow> False | Some w \<Rightarrow> sw_token w = token \<and> now < sw_expiresAt w)"

text \<open>An empty work token counts as none, as in \<open>workToken ? ... : {}\<close>.\<close>

definition liveFilter :: "memory_batch \<Rightarrow> jstr \<Rightarrow> jstr option \<Rightarrow> time \<Rightarrow> memory_batch \<Rightarrow> bool" where
  "liveFilter batch leaseToken workToken now b \<longleftrightarrow> batch_of batch b \<and> mb_state b = Mb_processing \<and> leased leaseToken now b
     \<and> (case workToken of None \<Rightarrow> True | Some t \<Rightarrow> t = [] \<or> working t now b)"

definition normalizedText :: "memory_env \<Rightarrow> jstr \<Rightarrow> jstr" where
  "normalizedText env value = collapse_spaces (me_lower env (trim value))"

definition dateOrNull :: "memory_env \<Rightarrow> jstr option \<Rightarrow> time option" where
  "dateOrNull env value = (case value of None \<Rightarrow> None | Some v \<Rightarrow> if v = [] then None else me_parseDate env v)"

section \<open>Loading\<close>

definition source_message :: "memory_batch \<Rightarrow> message_doc \<Rightarrow> bool" where
  "source_message batch m \<longleftrightarrow> ms_organizationId m = mb_organizationId batch \<and> ms_instanceId m = mb_instanceId batch
     \<and> ms_groupJid m = mb_groupJid batch \<and> ms_waMessageId m \<in> set (mb_sourceWaMessageIds batch)"

definition loadMemoryBatch :: "db \<Rightarrow> oid \<Rightarrow> time \<Rightarrow> memory_exn + loaded_memory_batch option" where
  "loadMemoryBatch d batchId now =
    (case find (\<lambda>b. mb_oid b = batchId \<and> mb_state b = Mb_processing
            \<and> (case mb_lease b of None \<Rightarrow> False | Some l \<Rightarrow> now < ls_expiresAt l)) (memoryBatches d) of
       None \<Rightarrow> Inr None
     | Some batch \<Rightarrow>
       if mb_lease batch = None \<or> length (mb_sourceWaMessageIds batch) \<noteq> mb_sourceCount batch then Inr None
       else let messages = sort_key ms_timestamp (sort_key (\<lambda>m. utf8_order (ms_waMessageId m))
                  (filter (\<lambda>m. source_message batch m \<and> \<not> ms_revoked m) (messages d)))
            in if length messages \<noteq> mb_sourceCount batch then Inl Invalid_memory_batch_source
               else Inr (Some \<lparr>lm_batch = batch, lm_messages = messages\<rparr>))"

section \<open>Summary work\<close>

datatype claim_work = Work_lost_lease | Work_claimed jstr time int | Work_busy

datatype renewal = Renewed time | Renewal_lost

definition eligible_group :: "memory_batch \<Rightarrow> group_doc \<Rightarrow> bool" where
  "eligible_group batch g \<longleftrightarrow> is_group (mb_organizationId batch) (mb_instanceId batch) (mb_groupJid batch) g \<and> both_flags g"

definition config_version :: "group_doc \<Rightarrow> int" where
  "config_version g = (case gc_configVersion (config_of g) of None \<Rightarrow> 0 | Some v \<Rightarrow> v)"

definition summary_work_ms :: int where "summary_work_ms = 90000"

definition set_batches :: "db \<Rightarrow> (memory_batch \<Rightarrow> bool) \<Rightarrow> (memory_batch \<Rightarrow> memory_batch) \<Rightarrow> db" where
  "set_batches d P f = d\<lparr>memoryBatches := update_one P f (memoryBatches d)\<rparr>"

definition work_free :: "time \<Rightarrow> memory_batch \<Rightarrow> bool" where
  "work_free now b \<longleftrightarrow> (case mb_summaryWork b of None \<Rightarrow> True | Some w \<Rightarrow> sw_expiresAt w \<le> now)"

definition claimMemorySummaryWork :: "db \<Rightarrow> memory_batch \<Rightarrow> jstr \<Rightarrow> time \<Rightarrow> db \<times> claim_work" where
  "claimMemorySummaryWork d batch token now =
    (case mb_lease batch of
       None \<Rightarrow> (d, Work_lost_lease)
     | Some l \<Rightarrow>
       (case find (eligible_group batch) (groups d) of
          None \<Rightarrow> (d, Work_lost_lease)
        | Some g \<Rightarrow>
          (let expiresAt = min (ls_expiresAt l) (now + summary_work_ms); version = config_version g;
              free = (\<lambda>b. liveFilter batch (ls_token l) None now b \<and> work_free now b);
              change = (\<lambda>b. b\<lparr>mb_summaryWork := Some \<lparr>sw_token = token, sw_expiresAt = expiresAt, sw_configVersion = version\<rparr>\<rparr>)
          in case found_after free change (memoryBatches d) of
               None \<Rightarrow> (d, Work_busy)
             | Some b \<Rightarrow> (set_batches d free change,
                 if map_option sw_token (mb_summaryWork b) = Some token then Work_claimed token expiresAt version else Work_busy))))"

text \<open>The pipeline update \<open>$min\<close> ignores a missing lease, which the filter excludes.\<close>

definition extend_work :: "time \<Rightarrow> memory_batch \<Rightarrow> memory_batch" where
  "extend_work now b = b\<lparr>mb_summaryWork := map_option (\<lambda>w. w\<lparr>sw_expiresAt :=
     (case mb_lease b of None \<Rightarrow> now + summary_work_ms | Some l \<Rightarrow> min (ls_expiresAt l) (now + summary_work_ms))\<rparr>) (mb_summaryWork b)\<rparr>"

definition renewMemorySummaryWork :: "db \<Rightarrow> memory_batch \<Rightarrow> jstr \<Rightarrow> time \<Rightarrow> db \<times> renewal" where
  "renewMemorySummaryWork d batch token now =
    (case mb_lease batch of
       None \<Rightarrow> (d, Renewal_lost)
     | Some l \<Rightarrow>
       let live = liveFilter batch (ls_token l) (Some token) now
       in (set_batches d live (extend_work now),
           case Option.bind (found_after live (extend_work now) (memoryBatches d)) mb_summaryWork of
             None \<Rightarrow> Renewal_lost | Some w \<Rightarrow> Renewed (sw_expiresAt w)))"

definition releaseMemorySummaryWork :: "db \<Rightarrow> memory_batch \<Rightarrow> jstr \<Rightarrow> time \<Rightarrow> db" where
  "releaseMemorySummaryWork d batch token now = (case mb_lease batch of None \<Rightarrow> d
     | Some l \<Rightarrow> set_batches d (liveFilter batch (ls_token l) (Some token) now) (\<lambda>b. b\<lparr>mb_summaryWork := None\<rparr>))"

section \<open>Completion\<close>

datatype complete_status = Completed_now | Already_complete | Completion_lost

definition summary_of :: "memory_batch \<Rightarrow> memory_output \<Rightarrow> nat \<Rightarrow> oid \<Rightarrow> time \<Rightarrow> memory_summary" where
  "summary_of batch out redactions sid now = \<lparr>mm_oid = sid, mm_organizationId = mb_organizationId batch,
     mm_instanceId = mb_instanceId batch, mm_groupJid = mb_groupJid batch, mm_batchId = mb_oid batch,
     mm_period = (fst (mb_first batch), fst (mb_last batch)),
     mm_source = (mb_sourceCount batch, mb_sourceWaMessageIds batch), mm_summary = mo_summary out, mm_topics = mo_topics out,
     mm_decisions = mo_decisions out, mm_commitments = mo_commitments out, mm_openQuestions = mo_openQuestions out,
     mm_actionItems = mo_actionItems out, mm_containsUntrustedInstructions = mo_containsUntrustedInstructions out,
     mm_redactions = redactions, mm_createdAt = now\<rparr>"

text \<open>The \<open>Map\<close> keyed by kind and normalised text keeps the first fact of each key, in order.\<close>

fun first_by :: "('a \<Rightarrow> 'k) \<Rightarrow> 'k list \<Rightarrow> 'a list \<Rightarrow> 'a list" where
  "first_by key seen [] = []"
| "first_by key seen (x # xs) = (if key x \<in> set seen then first_by key seen xs else x # first_by key (key x # seen) xs)"

definition fact_key :: "memory_env \<Rightarrow> summary_fact \<Rightarrow> memory_fact_kind \<times> jstr" where
  "fact_key env f = (sf_kind f, normalizedText env (sf_text f))"

definition fact_row :: "memory_env \<Rightarrow> memory_batch \<Rightarrow> time \<Rightarrow> nat \<Rightarrow> summary_fact \<Rightarrow> memory_fact" where
  "fact_row env batch now n f = \<lparr>mf_oid = me_factId env n, mf_organizationId = mb_organizationId batch,
     mf_instanceId = mb_instanceId batch, mf_groupJid = mb_groupJid batch, mf_batchId = mb_oid batch,
     mf_summaryId = me_summaryId env, mf_kind = sf_kind f, mf_text = sf_text f, mf_textSearch = normalizedText env (sf_text f),
     mf_subject = sf_subject f, mf_confidence = sf_confidence f, mf_occurredAt = dateOrNull env (sf_occurredAt f),
     mf_sourceWaMessageIds = sf_sourceWaMessageIds f, mf_createdAt = now\<rparr>"

definition fact_rows :: "memory_env \<Rightarrow> memory_batch \<Rightarrow> memory_output \<Rightarrow> time \<Rightarrow> memory_fact list" where
  "fact_rows env batch out now = (let facts = first_by (fact_key env) [] (mo_facts out)
     in map (\<lambda>n. fact_row env batch now n (facts ! n)) [0..<length facts])"

text \<open>The unique indexes of the two collections (\<open>bootstrap.ts\<close>): an insert that repeats a key throws.\<close>

definition summary_taken :: "db \<Rightarrow> memory_batch \<Rightarrow> bool" where
  "summary_taken d batch \<longleftrightarrow> (\<exists>s \<in> set (memorySummaries d). mm_organizationId s = mb_organizationId batch \<and> mm_batchId s = mb_oid batch)"

definition fact_index :: "memory_fact \<Rightarrow> jstr \<times> oid \<times> memory_fact_kind \<times> jstr" where
  "fact_index f = (mf_organizationId f, mf_batchId f, mf_kind f, mf_textSearch f)"

definition facts_taken :: "db \<Rightarrow> memory_fact list \<Rightarrow> bool" where
  "facts_taken d fs \<longleftrightarrow> (\<exists>f \<in> set fs. fact_index f \<in> fact_index ` set (memoryFacts d))"

definition close_batch :: "oid \<Rightarrow> time \<Rightarrow> memory_batch \<Rightarrow> memory_batch" where
  "close_batch sid now b = b\<lparr>mb_state := Mb_complete, mb_summaryId := Some sid, mb_completedAt := Some now,
     mb_lease := None, mb_summaryWork := None\<rparr>"

definition add_summary :: "memory_summary \<Rightarrow> memory_fact list \<Rightarrow> db \<Rightarrow> db" where
  "add_summary s fs d = d\<lparr>memorySummaries := memorySummaries d @ [s], memoryFacts := memoryFacts d @ fs\<rparr>"

definition bump_fence :: "group_doc \<Rightarrow> group_doc" where
  "bump_fence g = g\<lparr>gd_memoryReadFence := gd_memoryReadFence g + 1\<rparr>"

definition fence_filter :: "memory_batch \<Rightarrow> int \<Rightarrow> group_doc \<Rightarrow> bool" where
  "fence_filter batch version g \<longleftrightarrow> eligible_group batch g
     \<and> (if version = 0 then gc_configVersion (config_of g) \<in> {None, Some 0} else gc_configVersion (config_of g) = Some version)"

definition completeMemoryBatch :: "db \<Rightarrow> memory_batch \<Rightarrow> jstr \<Rightarrow> memory_output \<Rightarrow> memory_env \<Rightarrow> time \<Rightarrow> db \<times> complete_status" where
  "completeMemoryBatch d batch token out env now =
    (case mb_lease batch of
       None \<Rightarrow> (d, Completion_lost)
     | Some l \<Rightarrow>
       let live = liveFilter batch (ls_token l) (Some token) now
       in case find (\<lambda>s. mm_organizationId s = mb_organizationId batch \<and> mm_instanceId s = mb_instanceId batch
                \<and> mm_groupJid s = mb_groupJid batch \<and> mm_batchId s = mb_oid batch) (memorySummaries d) of
         Some existing \<Rightarrow>
           (case find (batch_of batch) (memoryBatches d) of
              Some current \<Rightarrow>
                if mb_state current = Mb_complete \<and> mb_summaryId current = Some (mm_oid existing) then (d, Already_complete)
                else (set_batches d live (close_batch (mm_oid existing) now),
                      if find live (memoryBatches d) \<noteq> None then Already_complete else Completion_lost)
            | None \<Rightarrow> (set_batches d live (close_batch (mm_oid existing) now),
                      if find live (memoryBatches d) \<noteq> None then Already_complete else Completion_lost))
       | None \<Rightarrow>
         (case (find (eligible_group batch) (groups d), Option.bind (find (\<lambda>b. mb_oid b = mb_oid batch) (memoryBatches d)) mb_summaryWork) of
            (Some g, Some work) \<Rightarrow>
              (let version = config_version g; fence = fence_filter batch version;
                   rows = fact_rows env batch out now;
                   d1 = add_summary (summary_of batch out 0 (me_summaryId env) now) rows
                          (d\<lparr>groups := update_one fence bump_fence (groups d)\<rparr>)
               in if sw_token work \<noteq> token \<or> sw_configVersion work \<noteq> version then (d, Completion_lost)
                  else if find fence (groups d) = None then (d, Completion_lost)
                  else if summary_taken d batch \<or> facts_taken d rows then (d, Completion_lost)
                  else if find live (memoryBatches d) = None then (d, Completion_lost)
                  else (set_batches d1 live (close_batch (me_summaryId env) now), Completed_now))
          | _ \<Rightarrow> (d, Completion_lost)))"

section \<open>Withdrawn sources\<close>

definition no_output :: memory_output where
  "no_output = \<lparr>mo_summary = [], mo_topics = [], mo_decisions = [], mo_commitments = [], mo_openQuestions = [],
     mo_actionItems = [], mo_facts = [], mo_containsUntrustedInstructions = False\<rparr>"

text \<open>The empty summary that records every source message as redacted, and the closed batch.\<close>

definition redact :: "db \<Rightarrow> memory_batch \<Rightarrow> (memory_batch \<Rightarrow> bool) \<Rightarrow> oid \<Rightarrow> time \<Rightarrow> db \<times> bool" where
  "redact d batch live sid now =
    (if summary_taken d batch \<or> find live (memoryBatches d) = None then (d, False)
     else (set_batches (add_summary (summary_of batch no_output (mb_sourceCount batch) sid now) [] d) live (close_batch sid now), True))"

definition resolveAuthorizationRevokedMemoryBatch :: "db \<Rightarrow> memory_batch \<Rightarrow> jstr option \<Rightarrow> oid \<Rightarrow> time \<Rightarrow> db \<times> bool" where
  "resolveAuthorizationRevokedMemoryBatch d batch workToken sid now =
    (case mb_lease batch of
       None \<Rightarrow> (d, False)
     | Some l \<Rightarrow>
       (case find (is_group (mb_organizationId batch) (mb_instanceId batch) (mb_groupJid batch)) (groups d) of
          None \<Rightarrow> (d, False)
        | Some g \<Rightarrow> if both_flags g then (d, False) else redact d batch (liveFilter batch (ls_token l) workToken now) sid now))"

definition resolveRevokedMemoryBatch :: "db \<Rightarrow> oid \<Rightarrow> oid \<Rightarrow> time \<Rightarrow> db \<times> bool" where
  "resolveRevokedMemoryBatch d batchId sid now =
    (case find (\<lambda>b. mb_oid b = batchId \<and> mb_state b = Mb_processing
            \<and> (case mb_lease b of None \<Rightarrow> False | Some l \<Rightarrow> now < ls_expiresAt l)) (memoryBatches d) of
       None \<Rightarrow> (d, False)
     | Some batch \<Rightarrow>
       (case mb_lease batch of
          None \<Rightarrow> (d, False)
        | Some l \<Rightarrow>
          if \<exists>m \<in> set (messages d). source_message batch m \<and> ms_revoked m
          then redact d batch (liveFilter batch (ls_token l) None now) sid now else (d, False)))"

end
