(* ===== verification/MemoryLease.thy ===== *)
theory MemoryLease
  imports MemoryWork Interfaces
begin

text \<open>
  The summary work of a memory batch as a lease: the same contract as the reply runs', on another
  table. One caller holds a batch's work; every other claim, renewal, release and completion
  leaves the database alone.
\<close>

definition wf_batches :: "db \<Rightarrow> bool" where
  "wf_batches d \<longleftrightarrow> distinct (map mb_oid (memoryBatches d))"

definition batch_at :: "db \<Rightarrow> oid \<Rightarrow> memory_batch option" where
  "batch_at d k = by_key mb_oid k (memoryBatches d)"

definition work_holder :: "db \<Rightarrow> oid \<Rightarrow> (jstr \<times> time) option" where
  "work_holder d k = (case batch_at d k of None \<Rightarrow> None
     | Some b \<Rightarrow> if mb_state b = Mb_processing then map_option (\<lambda>w. (sw_token w, sw_expiresAt w)) (mb_summaryWork b) else None)"

text \<open>A claimer's snapshot of the batch; its lease must not have lapsed when it claims.\<close>

definition live_snapshot :: "memory_batch \<Rightarrow> time \<Rightarrow> bool" where
  "live_snapshot batch now \<longleftrightarrow> (case mb_lease batch of None \<Rightarrow> True | Some l \<Rightarrow> now < ls_expiresAt l)"

definition claim_batch :: "memory_batch \<Rightarrow> db \<Rightarrow> oid \<Rightarrow> jstr \<Rightarrow> time \<Rightarrow> db \<times> bool" where
  "claim_batch batch d k token now =
    (let (d', c) = claimMemorySummaryWork d (batch\<lparr>mb_oid := k\<rparr>) token now in (d', \<exists>t e v. c = Work_claimed t e v))"

datatype work_write = Renew_work | Release_work | Complete_work memory_output memory_env

text \<open>A write under a work token, which is never empty (it is a UUID), and whether it changed anything.\<close>

fun work_write_db :: "work_write \<Rightarrow> db \<Rightarrow> memory_batch \<Rightarrow> jstr \<Rightarrow> time \<Rightarrow> db" where
  "work_write_db Renew_work d batch token now = fst (renewMemorySummaryWork d batch token now)"
| "work_write_db Release_work d batch token now = releaseMemorySummaryWork d batch token now"
| "work_write_db (Complete_work out env) d batch token now = fst (completeMemoryBatch d batch token out env now)"

definition work_call :: "memory_batch \<times> work_write \<Rightarrow> db \<Rightarrow> oid \<Rightarrow> jstr \<Rightarrow> time \<Rightarrow> db \<times> bool" where
  "work_call c d k token now =
    (let d' = (if token = [] then d else work_write_db (snd c) d (fst c\<lparr>mb_oid := k\<rparr>) token now) in (d', d' \<noteq> d))"

section \<open>Filters by the batch's id\<close>

definition live_rest :: "memory_batch \<Rightarrow> jstr \<Rightarrow> jstr option \<Rightarrow> time \<Rightarrow> memory_batch \<Rightarrow> bool" where
  "live_rest batch lt wt now b \<longleftrightarrow> mb_organizationId b = mb_organizationId batch
     \<and> mb_instanceId b = mb_instanceId batch \<and> mb_groupJid b = mb_groupJid batch \<and> mb_state b = Mb_processing \<and> leased lt now b
     \<and> (case wt of None \<Rightarrow> True | Some t \<Rightarrow> t = [] \<or> working t now b)"

lemma liveFilter_key: "liveFilter batch lt wt now b \<longleftrightarrow> mb_oid b = mb_oid batch \<and> live_rest batch lt wt now b"
  by (auto simp: liveFilter_def batch_of_def live_rest_def)

lemma find_live:
  assumes "wf_batches d"
  shows "find (liveFilter batch lt wt now) (memoryBatches d) =
    (case batch_at d (mb_oid batch) of None \<Rightarrow> None | Some b \<Rightarrow> if live_rest batch lt wt now b then Some b else None)"
  unfolding liveFilter_key [abs_def] batch_at_def using assms by (simp add: find_key_cond wf_batches_def)

lemma set_batches_no_match [coll_simps]: "find P (memoryBatches d) = None \<Longrightarrow> set_batches d P f = d"
  by (simp add: set_batches_def update_one_no_match)

lemma wf_set_batches:
  assumes "wf_batches d" "\<And>b. mb_oid (f b) = mb_oid b"
  shows "wf_batches (set_batches d P f)"
  using assms by (simp add: wf_batches_def set_batches_def map_update_one)

lemma live_needs_work:
  assumes "wf_batches d" "find (liveFilter batch lt (Some t) now) (memoryBatches d) \<noteq> None" "t \<noteq> []"
  shows "\<exists>e. work_holder d (mb_oid batch) = Some (t, e) \<and> now < e"
  using assms by (auto simp: find_live live_rest_def working_def work_holder_def split: option.splits if_splits)

section \<open>Claims and writes\<close>

text \<open>A completion writes only through the live filter of its own token.\<close>

lemma complete_needs_live:
  assumes "mb_lease batch = Some l" "find (liveFilter batch (ls_token l) (Some t) now) (memoryBatches d) = None"
  shows "fst (completeMemoryBatch d batch t out env now) = d"
  using assms by (auto simp: completeMemoryBatch_def Let_def set_batches_no_match split: option.splits)

lemma work_write_needs:
  assumes "wf_batches d" "t \<noteq> []" "work_write_db w d batch t now \<noteq> d"
  shows "\<exists>e. work_holder d (mb_oid batch) = Some (t, e) \<and> now < e"
proof (cases "mb_lease batch")
  case None
  with assms(3) show ?thesis
    by (cases w) (simp_all add: renewMemorySummaryWork_def releaseMemorySummaryWork_def completeMemoryBatch_def)
next
  case (Some l)
  have "find (liveFilter batch (ls_token l) (Some t) now) (memoryBatches d) \<noteq> None"
  proof
    assume none: "find (liveFilter batch (ls_token l) (Some t) now) (memoryBatches d) = None"
    then have "work_write_db w d batch t now = d"
      by (cases w) (simp_all add: renewMemorySummaryWork_def releaseMemorySummaryWork_def Some set_batches_no_match
          complete_needs_live [OF Some none])
    with assms(3) show False ..
  qed
  then show ?thesis using live_needs_work [OF assms(1) _ assms(2)] by blast
qed

lemma claim_when:
  assumes "wf_batches d"
  shows "claimMemorySummaryWork d batch t now =
    (case (mb_lease batch, find (eligible_group batch) (groups d), batch_at d (mb_oid batch)) of
       (Some l, Some g, Some b) \<Rightarrow>
         if live_rest batch (ls_token l) None now b \<and> work_free now b
         then (set_batches d (\<lambda>b. liveFilter batch (ls_token l) None now b \<and> work_free now b)
                 (\<lambda>b. b\<lparr>mb_summaryWork := Some \<lparr>sw_token = t, sw_expiresAt = min (ls_expiresAt l) (now + summary_work_ms),
                        sw_configVersion = config_version g\<rparr>\<rparr>),
               Work_claimed t (min (ls_expiresAt l) (now + summary_work_ms)) (config_version g))
         else (d, Work_busy)
     | (Some l, Some g, None) \<Rightarrow> (d, Work_busy)
     | _ \<Rightarrow> (d, Work_lost_lease))"
proof -
  have "find (\<lambda>b. liveFilter batch lt None now b \<and> work_free now b) (memoryBatches d) =
    (case batch_at d (mb_oid batch) of None \<Rightarrow> None | Some b \<Rightarrow> if live_rest batch lt None now b \<and> work_free now b then Some b else None)" for lt
    unfolding liveFilter_key conj_assoc batch_at_def using assms by (simp add: find_key_cond wf_batches_def)
  then show ?thesis by (auto simp: claimMemorySummaryWork_def Let_def found_after_def split: option.splits)
qed

lemma wf_work_claim: "wf_batches d \<Longrightarrow> wf_batches (fst (claimMemorySummaryWork d batch t now))"
  by (auto simp: claim_when wf_set_batches split: option.splits)

lemma claimed_work:
  assumes "wf_batches d" "claimMemorySummaryWork d batch t now = (d', Work_claimed t' e v)"
  shows "t' = t" "work_holder d' (mb_oid batch) = Some (t, e)" "wf_batches d'"
    "live_snapshot batch now \<Longrightarrow> now < e"
proof -
  from assms obtain l g b where c: "mb_lease batch = Some l" "batch_at d (mb_oid batch) = Some b"
    "live_rest batch (ls_token l) None now b" "work_free now b" "t' = t" "e = min (ls_expiresAt l) (now + summary_work_ms)"
    "d' = set_batches d (\<lambda>b. liveFilter batch (ls_token l) None now b \<and> work_free now b)
       (\<lambda>b. b\<lparr>mb_summaryWork := Some \<lparr>sw_token = t, sw_expiresAt = e, sw_configVersion = v\<rparr>\<rparr>)"
    by (auto simp: claim_when split: option.splits if_splits)
  show "t' = t" by (fact c(5))
  show "wf_batches d'" using wf_work_claim [OF assms(1)] assms(2) by (metis fst_conv)
  have "batch_at d' (mb_oid batch) = Some (b\<lparr>mb_summaryWork := Some \<lparr>sw_token = t, sw_expiresAt = e, sw_configVersion = v\<rparr>\<rparr>)"
    using c(2-4) assms(1) unfolding c(7) liveFilter_key conj_assoc
    by (simp add: batch_at_def set_batches_def by_key_update_same wf_batches_def)
  then show "work_holder d' (mb_oid batch) = Some (t, e)"
    using c(3) by (simp add: work_holder_def live_rest_def)
  show "live_snapshot batch now \<Longrightarrow> now < e"
    using c(1,6) by (simp add: live_snapshot_def summary_work_ms_def)
qed

lemma claim_of_held_work:
  assumes "wf_batches d" "work_holder d (mb_oid batch) = Some (t, e)" "now < e"
  shows "\<exists>c. claimMemorySummaryWork d batch t' now = (d, c) \<and> c \<in> {Work_lost_lease, Work_busy}"
  using assms by (auto simp: claim_when work_holder_def work_free_def split: option.splits if_splits)

interpretation memory_lease: lease_table wf_batches work_holder "\<lambda>b _. live_snapshot b" claim_batch work_call
proof unfold_locales
  fix d k t e t' b now a
  assume wf: "wf_batches d"
  show "\<exists>e. work_holder d k = Some (t, e) \<and> now < e" if "snd (work_call a d k t now)"
    using that work_write_needs [OF wf, of t "snd a" "fst a\<lparr>mb_oid := k\<rparr>" now]
    by (cases "t = []") (simp_all add: work_call_def Let_def)
  show "fst (work_call a d k t now) = d" if "\<not> snd (work_call a d k t now)"
    using that by (simp add: work_call_def Let_def)
  assume live: "live_snapshot b now"
  show "\<not> snd (claim_batch b d k t' now) \<and> fst (claim_batch b d k t' now) = d" if "work_holder d k = Some (t, e)" "now < e"
    using claim_of_held_work [of d "b\<lparr>mb_oid := k\<rparr>" t e now t'] that wf by (auto simp: claim_batch_def)
  show "wf_batches (fst (claim_batch b d k t now))"
    using wf_work_claim [OF wf] by (simp add: claim_batch_def case_prod_beta)
  show "\<exists>e. work_holder (fst (claim_batch b d k t now)) k = Some (t, e) \<and> now < e" if "snd (claim_batch b d k t now)"
  proof -
    from that obtain t'' e v where "snd (claimMemorySummaryWork d (b\<lparr>mb_oid := k\<rparr>) t now) = Work_claimed t'' e v"
      by (auto simp: claim_batch_def split: prod.splits)
    then have "claimMemorySummaryWork d (b\<lparr>mb_oid := k\<rparr>) t now = (fst (claim_batch b d k t now), Work_claimed t'' e v)"
      by (simp add: claim_batch_def prod_eq_iff case_prod_beta)
    from claimed_work [OF wf this] live show ?thesis by (auto simp: live_snapshot_def)
  qed
qed

end
