(* ===== verification/MemoryProps.thy ===== *)
theory MemoryProps
  imports MemoryLease
begin

text \<open>
  The properties of the memory writes: one holder of a batch's work, the completion on every
  outcome, and the invariant of the three collections under every operation.
\<close>

section \<open>One holder\<close>

text \<open>C13: A batch has one summariser at a time. After a claim is granted, until the granted instant no other
  claim on the batch is granted and none changes anything; and at no time does a renewal, release or
  completion under another token change anything.\<close>

theorem memory_work_exclusive:
  assumes "wf_batches d" and "live_snapshot batch now"
    and "claimMemorySummaryWork d batch token now = (d', Work_claimed t e v)"
  shows "t = token \<and> now < e \<and> e \<le> now + summary_work_ms
    \<and> (\<forall>batch2 token2 later. later < e \<and> mb_oid batch2 = mb_oid batch
         \<longrightarrow> claimMemorySummaryWork d' batch2 token2 later \<in> {(d', Work_lost_lease), (d', Work_busy)})
    \<and> (\<forall>batch2 token2 later w. token2 \<noteq> token \<and> token2 \<noteq> [] \<and> mb_oid batch2 = mb_oid batch
         \<longrightarrow> work_write_db w d' batch2 token2 later = d')"
proof (intro conjI allI impI)
  note c = claimed_work [OF assms(1,3)]
  show "t = token" "now < e" using c(1,4) assms(2) by simp_all
  show "e \<le> now + summary_work_ms"
    using assms(3) by (auto simp: claim_when [OF assms(1)] split: option.splits if_splits)
  fix batch2 :: memory_batch and token2 later
  assume "later < e \<and> mb_oid batch2 = mb_oid batch"
  with claim_of_held_work [OF c(3), of batch2 token e later token2] c(2)
  show "claimMemorySummaryWork d' batch2 token2 later \<in> {(d', Work_lost_lease), (d', Work_busy)}" by auto
next
  note c = claimed_work [OF assms(1,3)]
  fix batch2 :: memory_batch and token2 later w
  assume t: "token2 \<noteq> token \<and> token2 \<noteq> [] \<and> mb_oid batch2 = mb_oid batch"
  then have "batch2\<lparr>mb_oid := mb_oid batch\<rparr> = batch2" by simp
  with memory_lease.held_refuses [OF c(3,2), of token2 "(batch2, w)" later] t
  show "work_write_db w d' batch2 token2 later = d'" by (simp add: work_call_def Let_def)
qed

definition ex_batch :: memory_batch where
  "ex_batch = \<lparr>mb_oid = [5], mb_organizationId = [7], mb_instanceId = [2], mb_groupJid = [97], mb_first = (10, [3]), mb_last = (20, [4]),
     mb_sourceCount = 2, mb_sourceWaMessageIds = [[3], [4]], mb_state = Mb_processing, mb_summaryId = None,
     mb_lease = Some \<lparr>ls_token = [8], ls_expiresAt = 500000\<rparr>, mb_summaryWork = None, mb_completedAt = None\<rparr>"

definition ex_eligible :: group_doc where
  "ex_eligible = \<lparr>gd_organizationId = [7], gd_instanceId = [2], gd_groupJid = [97], gd_observed = None,
     gd_config = Some \<lparr>gc_assigned = Some True, gc_whitelisted = Some True, gc_configVersion = Some 4\<rparr>, gd_memoryReadFence = 0\<rparr>"

definition ex_memory :: db where
  "ex_memory = empty_db\<lparr>memoryBatches := [ex_batch], groups := [ex_eligible]\<rparr>"

definition ex_claimed :: db where
  "ex_claimed = ex_memory\<lparr>memoryBatches := [ex_batch\<lparr>mb_summaryWork := Some \<lparr>sw_token = [9], sw_expiresAt = 90100, sw_configVersion = 4\<rparr>\<rparr>]\<rparr>"

lemma ex_memory_wf: "wf_batches ex_memory" "wf_batches ex_claimed"
  by (simp_all add: wf_batches_def ex_memory_def ex_claimed_def ex_batch_def)

lemma ex_claim: "claimMemorySummaryWork ex_memory ex_batch [9] 100 = (ex_claimed, Work_claimed [9] 90100 4)"
  by (simp add: claimMemorySummaryWork_def ex_memory_def ex_claimed_def ex_batch_def ex_eligible_def eligible_group_def is_group_def of_instance_def
      both_flags_def config_of_def found_after_def liveFilter_def batch_of_def leased_def work_free_def set_batches_def summary_work_ms_def
      config_version_def Let_def)

theorem memory_work_exclusive_witness:
  "claimMemorySummaryWork ex_claimed ex_batch [11] 90099 \<in> {(ex_claimed, Work_lost_lease), (ex_claimed, Work_busy)}
   \<and> fst (completeMemoryBatch ex_claimed ex_batch [11] no_output \<lparr>me_lower = id, me_parseDate = (\<lambda>_. None), me_summaryId = [1], me_factId = (\<lambda>_. [])\<rparr> 200) = ex_claimed"
proof -
  have "live_snapshot ex_batch 100" by (simp add: live_snapshot_def ex_batch_def)
  note p = memory_work_exclusive [OF ex_memory_wf(1) this ex_claim, THEN conjunct2, THEN conjunct2, THEN conjunct2]
  have "claimMemorySummaryWork ex_claimed ex_batch [11] 90099 \<in> {(ex_claimed, Work_lost_lease), (ex_claimed, Work_busy)}"
    by (rule p [THEN conjunct1, rule_format]) simp
  moreover have "work_write_db (Complete_work no_output \<lparr>me_lower = id, me_parseDate = (\<lambda>_. None), me_summaryId = [1], me_factId = (\<lambda>_. [])\<rparr>) ex_claimed ex_batch [11] 200 = ex_claimed"
    by (rule p [THEN conjunct2, rule_format]) simp
  ultimately show ?thesis by (simp only: work_write_db.simps simp_thms)
qed

section \<open>Facts of a completion\<close>

lemma first_by_keys: "distinct (map key (first_by key seen xs)) \<and> key ` set (first_by key seen xs) = key ` set xs - set seen"
proof (induction xs arbitrary: seen)
  case (Cons x xs)
  from Cons [of seen] Cons [of "key x # seen"] show ?case by auto
qed simp

lemma first_by_subset: "set (first_by key seen xs) \<subseteq> set xs"
  by (induction xs arbitrary: seen) (auto split: if_splits)

lemma fact_rows_map: "map g (fact_rows env batch out now) =
    map (\<lambda>n. g (fact_row env batch now n (first_by (fact_key env) [] (mo_facts out) ! n))) [0..<length (first_by (fact_key env) [] (mo_facts out))]"
  by (simp add: fact_rows_def Let_def)

lemma fact_rows_keys: "map (\<lambda>f. (mf_kind f, mf_textSearch f)) (fact_rows env batch out now) =
    map (fact_key env) (first_by (fact_key env) [] (mo_facts out))"
  unfolding fact_rows_map by (rule nth_equalityI) (simp_all add: fact_row_def fact_key_def)

lemma fact_rows_of: "f \<in> set (fact_rows env batch out now) \<Longrightarrow> mf_organizationId f = mb_organizationId batch
    \<and> mf_batchId f = mb_oid batch \<and> mf_summaryId f = me_summaryId env"
  by (auto simp: fact_rows_def Let_def fact_row_def)

lemma fact_rows_distinct: "distinct (map fact_index (fact_rows env batch out now))"
proof -
  have "distinct (map (\<lambda>f. (mf_kind f, mf_textSearch f)) (fact_rows env batch out now))"
    using first_by_keys [of "fact_key env" "[]"] by (simp add: fact_rows_keys)
  then show ?thesis by (auto simp: distinct_map inj_on_def fact_index_def)
qed

section \<open>The completion on every outcome\<close>

lemma batch_at_set_live:
  assumes "wf_batches d" "memoryBatches d1 = memoryBatches d" "batch_at d (mb_oid batch) = Some b" "live_rest batch lt wt now b"
    "\<And>b. mb_oid (f b) = mb_oid b"
  shows "batch_at (set_batches d1 (liveFilter batch lt wt now) f) (mb_oid batch) = Some (f b)"
  using assms unfolding liveFilter_key [abs_def]
  by (simp add: batch_at_def set_batches_def by_key_update_same wf_batches_def)

lemma set_batches_frame [simp]:
  "groups (set_batches d P f) = groups d" "memorySummaries (set_batches d P f) = memorySummaries d"
  "memoryFacts (set_batches d P f) = memoryFacts d" "messages (set_batches d P f) = messages d"
  "memoryBatches (set_batches d P f) = update_one P f (memoryBatches d)"
  by (simp_all add: set_batches_def)

lemma add_summary_frame [simp]:
  "groups (add_summary s fs d) = groups d" "memoryBatches (add_summary s fs d) = memoryBatches d"
  "memorySummaries (add_summary s fs d) = memorySummaries d @ [s]" "memoryFacts (add_summary s fs d) = memoryFacts d @ fs"
  by (simp_all add: add_summary_def)

definition has_summary :: "memory_batch \<Rightarrow> memory_summary \<Rightarrow> bool" where
  "has_summary batch s \<longleftrightarrow> mm_organizationId s = mb_organizationId batch \<and> mm_instanceId s = mb_instanceId batch
     \<and> mm_groupJid s = mb_groupJid batch \<and> mm_batchId s = mb_oid batch"

text \<open>The three ways a completion ends, as one case distinction.\<close>

lemma complete_cases:
  obtains "completeMemoryBatch d batch token out env now = (d, Completion_lost)"
  | l s where "mb_lease batch = Some l" "find (has_summary batch) (memorySummaries d) = Some s"
      "completeMemoryBatch d batch token out env now = (d, Already_complete)
       \<or> find (liveFilter batch (ls_token l) (Some token) now) (memoryBatches d) \<noteq> None \<and>
         completeMemoryBatch d batch token out env now =
         (set_batches d (liveFilter batch (ls_token l) (Some token) now) (close_batch (mm_oid s) now), Already_complete)"
  | l g w where "mb_lease batch = Some l" "find (eligible_group batch) (groups d) = Some g"
      "Option.bind (find (\<lambda>b. mb_oid b = mb_oid batch) (memoryBatches d)) mb_summaryWork = Some w"
      "sw_token w = token" "sw_configVersion w = config_version g"
      "find (fence_filter batch (config_version g)) (groups d) \<noteq> None"
      "\<not> summary_taken d batch" "\<not> facts_taken d (fact_rows env batch out now)"
      "find (liveFilter batch (ls_token l) (Some token) now) (memoryBatches d) \<noteq> None"
      "completeMemoryBatch d batch token out env now =
        (set_batches (add_summary (summary_of batch out 0 (me_summaryId env) now) (fact_rows env batch out now)
           (d\<lparr>groups := update_one (fence_filter batch (config_version g)) bump_fence (groups d)\<rparr>))
           (liveFilter batch (ls_token l) (Some token) now) (close_batch (me_summaryId env) now), Completed_now)"
proof (cases "mb_lease batch")
  case None
  then show ?thesis by (intro that(1)) (simp add: completeMemoryBatch_def)
next
  case (Some l)
  have live: "set_batches d (liveFilter batch (ls_token l) (Some token) now) f = d"
    if "find (liveFilter batch (ls_token l) (Some token) now) (memoryBatches d) = None" for f
    using that by (rule set_batches_no_match)
  show ?thesis
  proof (cases "find (has_summary batch) (memorySummaries d)")
    case s: (Some s)
    then have eq: "completeMemoryBatch d batch token out env now =
        (let r = (set_batches d (liveFilter batch (ls_token l) (Some token) now) (close_batch (mm_oid s) now),
           if find (liveFilter batch (ls_token l) (Some token) now) (memoryBatches d) \<noteq> None then Already_complete else Completion_lost)
         in case find (batch_of batch) (memoryBatches d) of
              Some current \<Rightarrow> if mb_state current = Mb_complete \<and> mb_summaryId current = Some (mm_oid s) then (d, Already_complete) else r
            | None \<Rightarrow> r)"
      unfolding completeMemoryBatch_def has_summary_def [abs_def] by (simp only: Some option.case Let_def)
    show ?thesis
    proof (cases "find (liveFilter batch (ls_token l) (Some token) now) (memoryBatches d) = None")
      case True
      then have "completeMemoryBatch d batch token out env now = (d, Completion_lost)
          \<or> completeMemoryBatch d batch token out env now = (d, Already_complete)"
        unfolding eq Let_def by (cases "find (batch_of batch) (memoryBatches d)") (simp_all add: live)
      then show ?thesis using that(1) that(2) [OF Some s] by blast
    next
      case False
      then have "completeMemoryBatch d batch token out env now = (d, Already_complete)
          \<or> completeMemoryBatch d batch token out env now =
              (set_batches d (liveFilter batch (ls_token l) (Some token) now) (close_batch (mm_oid s) now), Already_complete)"
        unfolding eq Let_def by (cases "find (batch_of batch) (memoryBatches d)") simp_all
      with False show ?thesis using that(2) [OF Some s] by blast
    qed
  next
    case None
    show ?thesis
    proof (cases "find (eligible_group batch) (groups d)")
      case (Some g)
      show ?thesis
      proof (cases "Option.bind (find (\<lambda>b. mb_oid b = mb_oid batch) (memoryBatches d)) mb_summaryWork")
        case w: (Some w)
        let ?live = "liveFilter batch (ls_token l) (Some token) now" and ?rows = "fact_rows env batch out now"
        let ?done = "set_batches (add_summary (summary_of batch out 0 (me_summaryId env) now) ?rows
           (d\<lparr>groups := update_one (fence_filter batch (config_version g)) bump_fence (groups d)\<rparr>)) ?live (close_batch (me_summaryId env) now)"
        have eq: "completeMemoryBatch d batch token out env now =
           (if sw_token w \<noteq> token \<or> sw_configVersion w \<noteq> config_version g then (d, Completion_lost)
            else if find (fence_filter batch (config_version g)) (groups d) = None then (d, Completion_lost)
            else if summary_taken d batch \<or> facts_taken d ?rows then (d, Completion_lost)
            else if find ?live (memoryBatches d) = None then (d, Completion_lost) else (?done, Completed_now))"
          using None unfolding completeMemoryBatch_def has_summary_def [abs_def]
          by (simp only: \<open>mb_lease batch = Some l\<close> Some w option.case prod.case Let_def)
        show ?thesis
        proof (cases "sw_token w = token \<and> sw_configVersion w = config_version g \<and> find (fence_filter batch (config_version g)) (groups d) \<noteq> None
            \<and> \<not> summary_taken d batch \<and> \<not> facts_taken d ?rows \<and> find ?live (memoryBatches d) \<noteq> None")
          case True
          then show ?thesis
            by (intro that(3) [OF \<open>mb_lease batch = Some l\<close> Some w]) (simp_all only: eq simp_thms if_True if_False)
        next
          case False
          then have "completeMemoryBatch d batch token out env now = (d, Completion_lost)" unfolding eq by presburger
          then show ?thesis by (rule that(1))
        qed
      qed (use None Some \<open>mb_lease batch = Some l\<close> in \<open>intro that(1), simp add: completeMemoryBatch_def has_summary_def [abs_def]\<close>)
    qed (use None \<open>mb_lease batch = Some l\<close> in \<open>intro that(1), simp add: completeMemoryBatch_def has_summary_def [abs_def]\<close>)
  qed
qed

text \<open>A completion on every outcome. Completed: the batch was still processing under the caller's live work
  and unchanged configuration version, and now is complete and points at the one summary added, together with
  exactly the facts of the output without repeats of a kind and normalised text. Already complete: a summary of
  the batch exists and no summary, fact or group changes. Lost: nothing changes at all.\<close>

theorem completion_outcomes:
  assumes "wf_batches d"
  shows "case completeMemoryBatch d batch token out env now of
     (d', Completed_now) \<Rightarrow> (\<exists>b g. batch_at d (mb_oid batch) = Some b \<and> mb_state b = Mb_processing \<and> (token = [] \<or> working token now b)
         \<and> batch_at d' (mb_oid batch) = Some (close_batch (me_summaryId env) now b)
         \<and> find (eligible_group batch) (groups d) = Some g
         \<and> map_option sw_configVersion (mb_summaryWork b) = Some (config_version g))
       \<and> memorySummaries d' = memorySummaries d @ [summary_of batch out 0 (me_summaryId env) now]
       \<and> (\<exists>fs. memoryFacts d' = memoryFacts d @ fs \<and> distinct (map (\<lambda>f. (mf_kind f, mf_textSearch f)) fs)
            \<and> (\<lambda>f. (mf_kind f, mf_textSearch f)) ` set fs = fact_key env ` set (mo_facts out))
   | (d', Already_complete) \<Rightarrow> (\<exists>s \<in> set (memorySummaries d). has_summary batch s)
       \<and> memorySummaries d' = memorySummaries d \<and> memoryFacts d' = memoryFacts d \<and> groups d' = groups d
   | (d', Completion_lost) \<Rightarrow> d' = d"
proof (rule complete_cases [of d batch token out env now])
  assume "completeMemoryBatch d batch token out env now = (d, Completion_lost)"
  then show ?thesis by simp
next
  fix l s
  assume "mb_lease batch = Some l" and s: "find (has_summary batch) (memorySummaries d) = Some s"
    and "completeMemoryBatch d batch token out env now = (d, Already_complete)
       \<or> find (liveFilter batch (ls_token l) (Some token) now) (memoryBatches d) \<noteq> None \<and>
         completeMemoryBatch d batch token out env now =
         (set_batches d (liveFilter batch (ls_token l) (Some token) now) (close_batch (mm_oid s) now), Already_complete)"
  then show ?thesis using find_Some_in [OF s] by auto
next
  fix l g w
  let ?live = "liveFilter batch (ls_token l) (Some token) now" and ?rows = "fact_rows env batch out now"
  let ?d1 = "add_summary (summary_of batch out 0 (me_summaryId env) now) ?rows
           (d\<lparr>groups := update_one (fence_filter batch (config_version g)) bump_fence (groups d)\<rparr>)"
  assume g: "find (eligible_group batch) (groups d) = Some g"
    and w: "Option.bind (find (\<lambda>b. mb_oid b = mb_oid batch) (memoryBatches d)) mb_summaryWork = Some w"
    and v: "sw_configVersion w = config_version g"
    and live: "find ?live (memoryBatches d) \<noteq> None"
    and eq: "completeMemoryBatch d batch token out env now = (set_batches ?d1 ?live (close_batch (me_summaryId env) now), Completed_now)"
  obtain b where b: "batch_at d (mb_oid batch) = Some b" "live_rest batch (ls_token l) (Some token) now b"
    using live by (auto simp: find_live [OF assms] split: option.splits if_splits)
  have "batch_at (set_batches ?d1 ?live (close_batch (me_summaryId env) now)) (mb_oid batch) = Some (close_batch (me_summaryId env) now b)"
    by (rule batch_at_set_live [OF assms _ b]) (simp_all add: close_batch_def)
  moreover have "mb_state b = Mb_processing \<and> (token = [] \<or> working token now b)" using b(2) by (simp add: live_rest_def)
  moreover have "map_option sw_configVersion (mb_summaryWork b) = Some (config_version g)"
    using w v b(1) by (simp add: batch_at_def by_key_def)
  moreover have "distinct (map (\<lambda>f. (mf_kind f, mf_textSearch f)) ?rows)"
    "(\<lambda>f. (mf_kind f, mf_textSearch f)) ` set ?rows = fact_key env ` set (mo_facts out)"
    using first_by_keys [of "fact_key env" "[]" "mo_facts out"] unfolding set_map [symmetric] fact_rows_keys by simp_all
  ultimately show ?thesis unfolding eq using b(1) g by auto
qed

theorem completion_outcomes_witness:
  "case completeMemoryBatch ex_claimed ex_batch [9] no_output \<lparr>me_lower = id, me_parseDate = (\<lambda>_. None), me_summaryId = [1], me_factId = (\<lambda>_. [])\<rparr> 200 of
     (d', Completed_now) \<Rightarrow> length (memorySummaries d') = 1
   | _ \<Rightarrow> False"
proof -
  let ?e = "\<lparr>me_lower = id, me_parseDate = (\<lambda>_. None), me_summaryId = [1], me_factId = (\<lambda>_. [])\<rparr>"
  have "snd (completeMemoryBatch ex_claimed ex_batch [9] no_output ?e 200) = Completed_now"
    by (simp add: completeMemoryBatch_def ex_claimed_def ex_memory_def ex_batch_def ex_eligible_def eligible_group_def is_group_def of_instance_def
        both_flags_def config_of_def liveFilter_def batch_of_def leased_def working_def config_version_def fence_filter_def summary_taken_def
        facts_taken_def fact_rows_def no_output_def empty_db_def Let_def)
  moreover have "memorySummaries ex_claimed = []" by (simp add: ex_claimed_def ex_memory_def empty_db_def)
  ultimately show ?thesis
    using completion_outcomes [OF ex_memory_wf(2), where batch = ex_batch and token = "[9]" and out = no_output and env = ?e and now = 200]
    by (cases "completeMemoryBatch ex_claimed ex_batch [9] no_output ?e 200") simp
qed

section \<open>The invariant of the three collections\<close>

definition summary_index :: "memory_summary \<Rightarrow> jstr \<times> oid" where
  "summary_index s = (mm_organizationId s, mm_batchId s)"

definition closed_ok :: "db \<Rightarrow> memory_batch \<Rightarrow> bool" where
  "closed_ok d b \<longleftrightarrow> mb_state b = Mb_complete
     \<longrightarrow> (\<exists>s \<in> set (memorySummaries d). mb_summaryId b = Some (mm_oid s) \<and> summary_index s = (mb_organizationId b, mb_oid b))"

definition cited_ok :: "db \<Rightarrow> memory_fact \<Rightarrow> bool" where
  "cited_ok d f \<longleftrightarrow> (\<exists>s \<in> set (memorySummaries d). mm_oid s = mf_summaryId f \<and> summary_index s = (mf_organizationId f, mf_batchId f))"

definition memory_ok :: "db \<Rightarrow> bool" where
  "memory_ok d \<longleftrightarrow> wf_batches d \<and> distinct (map summary_index (memorySummaries d)) \<and> distinct (map fact_index (memoryFacts d))
     \<and> (\<forall>b \<in> set (memoryBatches d). closed_ok d b) \<and> (\<forall>f \<in> set (memoryFacts d). cited_ok d f)"

lemma memory_ok_set_batches:
  assumes "memory_ok d" "\<And>b. mb_oid (f b) = mb_oid b" "\<And>b. b \<in> set (memoryBatches d) \<Longrightarrow> P b \<Longrightarrow> closed_ok d (f b)"
  shows "memory_ok (set_batches d P f)"
proof -
  have "\<forall>b \<in> set (update_one P f (memoryBatches d)). closed_ok d b"
    using assms(1,3) update_one_all [of "memoryBatches d" "closed_ok d" P f] by (auto simp: memory_ok_def)
  with assms(1,2) show ?thesis
    by (simp add: memory_ok_def wf_set_batches closed_ok_def [abs_def] cited_ok_def [abs_def])
qed

lemma memory_ok_add:
  assumes ok: "memory_ok d" and new: "\<not> summary_taken d batch" "\<not> facts_taken d fs" "distinct (map fact_index fs)"
    and s: "summary_index s = (mb_organizationId batch, mb_oid batch)"
    and fs: "\<And>f. f \<in> set fs \<Longrightarrow> mf_organizationId f = mb_organizationId batch \<and> mf_batchId f = mb_oid batch \<and> mf_summaryId f = mm_oid s"
  shows "memory_ok (add_summary s fs d)"
proof -
  have "summary_index s \<notin> summary_index ` set (memorySummaries d)"
    using new(1) s by (auto simp: summary_taken_def summary_index_def)
  moreover have "set (map fact_index (memoryFacts d)) \<inter> set (map fact_index fs) = {}"
    using new(2) by (auto simp: facts_taken_def)
  ultimately show ?thesis
    using ok new(3) fs s by (auto simp: memory_ok_def wf_batches_def closed_ok_def cited_ok_def)
qed

lemma memory_ok_groups [simp]: "memory_ok (d\<lparr>groups := gs\<rparr>) = memory_ok d"
  by (simp add: memory_ok_def wf_batches_def closed_ok_def [abs_def] cited_ok_def [abs_def])

lemma close_batch_ok:
  assumes "s \<in> set (memorySummaries d)" "summary_index s = (mb_organizationId b, mb_oid b)" "sid = mm_oid s"
  shows "closed_ok d (close_batch sid now b)"
  using assms by (auto simp: closed_ok_def close_batch_def)

lemma liveFilter_same: "liveFilter batch lt wt now b \<Longrightarrow> mb_organizationId b = mb_organizationId batch \<and> mb_oid b = mb_oid batch"
  by (simp add: liveFilter_def batch_of_def)

lemma memory_ok_redact:
  assumes "memory_ok d"
  shows "memory_ok (fst (redact d batch (liveFilter batch lt wt now) sid later))"
proof (cases "summary_taken d batch \<or> find (liveFilter batch lt wt now) (memoryBatches d) = None")
  case False
  let ?s = "summary_of batch no_output (mb_sourceCount batch) sid later"
  have "memory_ok (add_summary ?s [] d)"
    using assms False by (intro memory_ok_add [where batch = batch]) (auto simp: summary_index_def summary_of_def facts_taken_def)
  then have "memory_ok (set_batches (add_summary ?s [] d) (liveFilter batch lt wt now) (close_batch sid later))"
    by (rule memory_ok_set_batches)
      (auto simp: close_batch_def [of _ _ b for b] summary_of_def summary_index_def dest!: liveFilter_same intro!: close_batch_ok [of ?s, unfolded close_batch_def])
  with False show ?thesis unfolding redact_def if_not_P [OF False] by simp
qed (use assms in \<open>simp add: redact_def\<close>)

text \<open>Every write to the three collections, as steps any caller may make at any time.\<close>

datatype memory_op =
    Op_claim memory_batch jstr
  | Op_write memory_batch jstr work_write
  | Op_redact_unauthorised memory_batch "jstr option" oid
  | Op_redact_revoked oid oid

fun memory_step :: "db \<Rightarrow> memory_op \<times> time \<Rightarrow> db" where
  "memory_step d (Op_claim batch token, now) = fst (claimMemorySummaryWork d batch token now)"
| "memory_step d (Op_write batch token w, now) = work_write_db w d batch token now"
| "memory_step d (Op_redact_unauthorised batch workToken sid, now) = fst (resolveAuthorizationRevokedMemoryBatch d batch workToken sid now)"
| "memory_step d (Op_redact_revoked batchId sid, now) = fst (resolveRevokedMemoryBatch d batchId sid now)"

lemma closed_ok_work: "closed_ok d (mb_summaryWork_update f b) = closed_ok d b"
  by (simp add: closed_ok_def)

lemma memory_ok_work:
  "memory_ok d \<Longrightarrow> memory_ok (set_batches d P (\<lambda>b. mb_summaryWork_update (f b) b))"
  by (rule memory_ok_set_batches) (simp_all add: closed_ok_work memory_ok_def)

lemma memory_ok_claim: "memory_ok d \<Longrightarrow> memory_ok (fst (claimMemorySummaryWork d batch t now))"
  using memory_ok_work [of d _ "\<lambda>_ _. w" for w]
  by (auto simp: claimMemorySummaryWork_def Let_def split: option.splits)

lemma memory_ok_complete:
  assumes "memory_ok d"
  shows "memory_ok (fst (completeMemoryBatch d batch token out env now))"
proof (rule complete_cases [of d batch token out env now])
  assume "completeMemoryBatch d batch token out env now = (d, Completion_lost)"
  with assms show ?thesis by simp
next
  fix l s
  assume s: "find (has_summary batch) (memorySummaries d) = Some s"
    and eq: "completeMemoryBatch d batch token out env now = (d, Already_complete)
       \<or> find (liveFilter batch (ls_token l) (Some token) now) (memoryBatches d) \<noteq> None \<and>
         completeMemoryBatch d batch token out env now =
         (set_batches d (liveFilter batch (ls_token l) (Some token) now) (close_batch (mm_oid s) now), Already_complete)"
  have "memory_ok (set_batches d (liveFilter batch (ls_token l) (Some token) now) (close_batch (mm_oid s) now))"
  proof (rule memory_ok_set_batches [OF assms])
    fix b
    show "mb_oid (close_batch (mm_oid s) now b) = mb_oid b" by (simp add: close_batch_def)
    assume "liveFilter batch (ls_token l) (Some token) now b"
    then show "closed_ok d (close_batch (mm_oid s) now b)"
      using find_Some_in [OF s] by (intro close_batch_ok [of s]) (auto simp: has_summary_def summary_index_def dest: liveFilter_same)
  qed
  with assms eq show ?thesis by auto
next
  fix l g
  let ?live = "liveFilter batch (ls_token l) (Some token) now" and ?rows = "fact_rows env batch out now"
  let ?s = "summary_of batch out 0 (me_summaryId env) now" and ?d = "d\<lparr>groups := update_one (fence_filter batch (config_version g)) bump_fence (groups d)\<rparr>"
  assume new: "\<not> summary_taken d batch" "\<not> facts_taken d ?rows"
    and eq: "completeMemoryBatch d batch token out env now =
        (set_batches (add_summary ?s ?rows ?d) ?live (close_batch (me_summaryId env) now), Completed_now)"
  have "memory_ok (add_summary ?s ?rows ?d)"
    using assms new fact_rows_distinct fact_rows_of
    by (intro memory_ok_add [where batch = batch]) (auto simp: summary_taken_def facts_taken_def summary_index_def summary_of_def)
  then have "memory_ok (set_batches (add_summary ?s ?rows ?d) ?live (close_batch (me_summaryId env) now))"
  proof (rule memory_ok_set_batches)
    fix b
    show "mb_oid (close_batch (me_summaryId env) now b) = mb_oid b" by (simp add: close_batch_def)
    assume "?live b"
    then show "closed_ok (add_summary ?s ?rows ?d) (close_batch (me_summaryId env) now b)"
      by (intro close_batch_ok [of ?s]) (auto simp: summary_of_def summary_index_def dest: liveFilter_same)
  qed
  then show ?thesis by (simp add: eq)
qed

lemma memory_ok_step: "memory_ok d \<Longrightarrow> memory_ok (memory_step d c)"
proof (induction d c rule: memory_step.induct)
  case (2 d batch token w now)
  then show ?case
    using memory_ok_work [of d _ "\<lambda>_ _. None"] memory_ok_work [of d _ "\<lambda>b _. mb_summaryWork (extend_work now b)"]
    by (cases w) (auto simp: renewMemorySummaryWork_def releaseMemorySummaryWork_def extend_work_def [abs_def] Let_def memory_ok_complete split: option.splits)
qed (auto simp: memory_ok_claim resolveAuthorizationRevokedMemoryBatch_def resolveRevokedMemoryBatch_def memory_ok_redact split: option.splits)

text \<open>C14: Whatever sequence of claims, renewals, releases, completions and redactions any callers make at any
  times, no batch ever has two summaries, no batch two facts of one kind and normalised text, every complete
  batch points at a stored summary of its own, and every stored fact at a stored summary of its batch.\<close>

theorem memory_invariant:
  assumes "memory_ok d"
  shows "memory_ok (foldl memory_step d calls)"
  using assms by (induction calls arbitrary: d) (simp_all add: memory_ok_step)

theorem memory_invariant_witness:
  "memory_ok (foldl memory_step ex_claimed
     [(Op_write ex_batch [9] Renew_work, 150), (Op_claim ex_batch [11], 160), (Op_redact_revoked [5] [1], 170)])"
  by (rule memory_invariant) (simp add: memory_ok_def wf_batches_def closed_ok_def ex_claimed_def ex_memory_def ex_batch_def empty_db_def)

end
