(* ===== verification/Http.thy ===== *)
theory Http
  imports ReplyKeys
begin

text \<open>
  The shape of an answered request, and the bearer check of the two internal callbacks
  (\<open>app/api/internal/reply-jobs/route.ts\<close>, \<open>server/memory/memory-batch-handler.ts\<close>). A response is its
  status and its JSON body, \<^const>\<open>None\<close> for an empty one; the headers are constant per branch and
  are left out.
\<close>

record response =
  rp_status :: nat
  rp_body :: "json option"

definition respond :: "nat \<Rightarrow> jobject \<Rightarrow> response" where
  "respond status obj = \<lparr>rp_status = status, rp_body = Some (JObj obj)\<rparr>"

definition respond_error :: "nat \<Rightarrow> string \<Rightarrow> response" where
  "respond_error status message = respond status [(js ''error'', JStr (js message))]"

text \<open>\<open>Buffer.from(s, "utf8")\<close>: a lone surrogate becomes U+FFFD.\<close>

definition scalar_of :: "jstr \<Rightarrow> nat" where
  "scalar_of p = (case p of [h, l] \<Rightarrow> 65536 + (h - 55296) * 1024 + (l - 56320)
     | c # _ \<Rightarrow> if is_high_surrogate c \<or> is_low_surrogate c then 65533 else c | [] \<Rightarrow> 0)"

definition utf8_encode :: "jstr \<Rightarrow> nat list" where
  "utf8_encode s = concat (map (\<lambda>p. utf8 (scalar_of p)) (code_points s))"

definition starts_with :: "jstr \<Rightarrow> jstr \<Rightarrow> bool" where
  "starts_with prefix s \<longleftrightarrow> take (length prefix) s = prefix"

text \<open>An absent or empty secret authorises nobody.\<close>

definition sameSecret :: "jstr option \<Rightarrow> jstr option \<Rightarrow> bool" where
  "sameSecret v secret \<longleftrightarrow> (case (v, secret) of
      (Some header, Some expected) \<Rightarrow> starts_with (js ''Bearer '') header \<and> expected \<noteq> []
        \<and> utf8_encode (drop 7 header) = utf8_encode expected
    | _ \<Rightarrow> False)"

lemma sameSecret_needs: "sameSecret v secret \<Longrightarrow> \<exists>h s. v = Some h \<and> secret = Some s \<and> s \<noteq> [] \<and> starts_with (js ''Bearer '') h"
  by (auto simp: sameSecret_def split: option.splits)

lemma bearer_accepted: "s \<noteq> [] \<Longrightarrow> sameSecret (Some (js ''Bearer '' @ s)) (Some s)"
  by (simp add: sameSecret_def starts_with_def js_def)

end
