(* ===== verification/MemoryHandler.thy ===== *)
theory MemoryHandler
  imports MemoryProps Summarize Http
begin

text \<open>
  The memory callback (\<open>apps/web/src/server/memory/memory-batch-handler.ts\<close>): the worker posts a batch id;
  the batch is loaded, its group's authorisation read, the summary work claimed, the model asked and
  the result stored, or the batch is closed empty when its sources or authorisation were withdrawn.

  Between two database calls of the handler any other caller may write: \<open>hc_others\<close> is what they do
  before each call and \<open>hc_clock\<close> the instant of it. The heartbeat and the watchdog are timers whose only
  effect on the handler is \<open>hc_lost\<close>, read where the code reads \<open>renewalLost || abortSignal.aborted\<close>; the
  renewals they make are among the writes of the others.
\<close>

record handler_call =
  hc_authorization :: "jstr option"
  hc_secret :: "jstr option"
  hc_body :: "json option"
  hc_objectId :: "jstr \<Rightarrow> oid option"
  hc_others :: "nat \<Rightarrow> db \<Rightarrow> db"
  hc_clock :: "nat \<Rightarrow> time"
  hc_token :: jstr
  hc_env :: memory_env
  hc_redactId :: "nat \<Rightarrow> oid"
  hc_model :: "jstr \<Rightarrow> jstr \<Rightarrow> model_error + memory_output"
  hc_lost :: bool

text \<open>The body must be an object with the one key \<open>batchId\<close>, a valid object id (the driver's check).\<close>

definition batchIdOf :: "(jstr \<Rightarrow> oid option) \<Rightarrow> json \<Rightarrow> oid option" where
  "batchIdOf objectId v = (case v of
      JObj [(k, JStr s)] \<Rightarrow> if k = js ''batchId'' then objectId s else None
    | _ \<Rightarrow> None)"

definition fold_case :: "jstr \<Rightarrow> jstr" where
  "fold_case s = map to_lower s"

definition line_end :: "nat \<Rightarrow> bool" where
  "line_end c \<longleftrightarrow> c \<in> {10, 13, 8232, 8233}"

text \<open>\<open>/output.*invalid/\<close>: on one line, since the dot stops at a line end.\<close>

fun after_output :: "jstr \<Rightarrow> bool" where
  "after_output [] = False"
| "after_output (c # cs) = ((starts_with (js ''output'') (c # cs)
     \<and> contains (js ''invalid'') (takeWhile (\<lambda>x. \<not> line_end x) (drop 6 (c # cs)))) \<or> after_output cs)"

definition terminal_message :: "jstr \<Rightarrow> bool" where
  "terminal_message m \<longleftrightarrow> (let s = fold_case m in
     list_ex (\<lambda>w. contains (js w) s) [''ai_base_url'', ''ai_api_key'', ''ai_model'', ''schema'', ''structured'', ''refus'']
     \<or> after_output s)"

definition isTerminalModelError :: "model_error \<Rightarrow> bool" where
  "isTerminalModelError e = (case e of Other_error message _ \<Rightarrow> terminal_message message | _ \<Rightarrow> True)"

definition providerStatus :: "model_error \<Rightarrow> nat option" where
  "providerStatus e = (case e of Other_error _ status \<Rightarrow> status | _ \<Rightarrow> None)"

text \<open>A stored message as the summariser reads it; a missing timestamp throws like an invalid one.\<close>

definition source_of :: "message_doc \<Rightarrow> memory_source" where
  "source_of m = \<lparr>so_waMessageId = ms_waMessageId m, so_timestamp = (case ms_timestamp m of None \<Rightarrow> 8640000000000001 | Some t \<Rightarrow> t),
     so_senderJid = (case ms_senderJid m of None \<Rightarrow> [] | Some s \<Rightarrow> s), so_kind = ms_kind m, so_text = ms_text m,
     so_media = map_option (\<lambda>x. \<lparr>me_status = md_status x, me_mime = md_mime x, me_fileName = md_fileName x\<rparr>) (ms_media m)\<rparr>"

definition batch_group :: "db \<Rightarrow> memory_batch \<Rightarrow> group_doc option" where
  "batch_group d batch = find (is_group (mb_organizationId batch) (mb_instanceId batch) (mb_groupJid batch)) (groups d)"

definition batch_eligible :: "db \<Rightarrow> memory_batch \<Rightarrow> bool" where
  "batch_eligible d batch = (case batch_group d batch of None \<Rightarrow> False | Some g \<Rightarrow> both_flags g)"

definition batch_closed :: response where "batch_closed = respond 201 [(js ''status'', JStr (js ''complete''))]"

definition empty_response :: "nat \<Rightarrow> response" where "empty_response status = \<lparr>rp_status = status, rp_body = None\<rparr>"

text \<open>The catch block: the claimed work is released, a withdrawn source closes the batch, and the rest is classified.\<close>

definition error_response :: "model_error \<Rightarrow> response" where
  "error_response e =
    (if isTerminalModelError e then respond_error 422 ''invalid memory batch''
     else case providerStatus e of
       None \<Rightarrow> respond_error 503 ''memory batch unavailable''
     | Some s \<Rightarrow> if 400 \<le> s \<and> s < 500 \<and> s \<noteq> 408 \<and> s \<noteq> 429 then respond_error 422 ''invalid memory batch''
                 else respond_error 503 ''memory batch unavailable'')"

definition on_error :: "handler_call \<Rightarrow> oid \<Rightarrow> memory_batch option \<Rightarrow> model_error \<Rightarrow> db \<Rightarrow> db \<times> response" where
  "on_error hc batchId claimed e d =
    (let d1 = (case claimed of None \<Rightarrow> d
                | Some batch \<Rightarrow> releaseMemorySummaryWork (hc_others hc 10 d) batch (hc_token hc) (hc_clock hc 10))
     in if e = Invalid_source_error
        then (let (d2, closed) = resolveRevokedMemoryBatch (hc_others hc 11 d1) batchId (hc_redactId hc 3) (hc_clock hc 11)
              in (d2, if closed then batch_closed else error_response e))
        else (d1, error_response e))"

definition handler_error :: "string \<Rightarrow> model_error" where
  "handler_error message = Other_error (js message) None"

text \<open>After the model answered: store it, and if the authorisation went meanwhile close the batch empty.\<close>

definition store_summary :: "handler_call \<Rightarrow> oid \<Rightarrow> memory_batch \<Rightarrow> memory_output \<Rightarrow> db \<Rightarrow> db \<times> response" where
  "store_summary hc batchId batch out d =
    (let (d1, status) = completeMemoryBatch (hc_others hc 7 d) batch (hc_token hc) out (hc_env hc) (hc_clock hc 7)
     in if status = Completed_now then (d1, batch_closed)
        else let d2 = hc_others hc 8 d1
             in if batch_eligible d2 batch then on_error hc batchId (Some batch) (handler_error ''memory configuration changed'') d2
                else let (d3, closed) = resolveAuthorizationRevokedMemoryBatch (hc_others hc 9 d2) batch (Some (hc_token hc)) (hc_redactId hc 2) (hc_clock hc 9)
                     in if closed then (d3, batch_closed)
                        else on_error hc batchId (Some batch) (handler_error ''memory configuration changed'') d3)"

text \<open>With the work claimed: a summary of the batch may exist already, the group may have changed.\<close>

definition summarise_claimed :: "handler_call \<Rightarrow> oid \<Rightarrow> loaded_memory_batch \<Rightarrow> int \<Rightarrow> db \<Rightarrow> db \<times> response" where
  "summarise_claimed hc batchId loaded version d =
    (let batch = lm_batch loaded; fail = on_error hc batchId (Some batch); d1 = hc_others hc 3 d
     in if summary_taken d1 batch
        then if hc_lost hc then fail (handler_error ''memory summary work was lost'') d1
             else let (d2, status) = completeMemoryBatch (hc_others hc 4 d1) batch (hc_token hc) no_output (hc_env hc) (hc_clock hc 4)
                  in (d2, if status = Completion_lost then empty_response 204 else batch_closed)
        else let d2 = hc_others hc 5 d1
             in if \<not> batch_eligible d2 batch
                then let (d3, closed) = resolveAuthorizationRevokedMemoryBatch (hc_others hc 6 d2) batch (Some (hc_token hc)) (hc_redactId hc 1) (hc_clock hc 6)
                     in if closed then (d3, batch_closed) else fail (handler_error ''memory authorization resolution lost'') d3
                else if (case batch_group d2 batch of None \<Rightarrow> 0 | Some g \<Rightarrow> config_version g) \<noteq> version
                then fail (handler_error ''memory configuration changed'') d2
                else case summarizeMemoryBatch (map source_of (lm_messages loaded)) (hc_model hc) of
                  Inl e \<Rightarrow> fail e d2
                | Inr out \<Rightarrow> if hc_lost hc then fail (handler_error ''memory summary work was lost'') d2
                             else store_summary hc batchId batch out d2)"

definition handle_batch :: "handler_call \<Rightarrow> oid \<Rightarrow> db \<Rightarrow> db \<times> response" where
  "handle_batch hc batchId d =
    (let d0 = hc_others hc 0 d
     in case loadMemoryBatch d0 batchId (hc_clock hc 0) of
       Inl e \<Rightarrow> on_error hc batchId None Invalid_source_error d0
     | Inr None \<Rightarrow> (d0, empty_response 204)
     | Inr (Some loaded) \<Rightarrow>
       let batch = lm_batch loaded; d1 = hc_others hc 1 d0
       in if \<not> batch_eligible d1 batch
          then let (d2, closed) = resolveAuthorizationRevokedMemoryBatch (hc_others hc 2 d1) batch None (hc_redactId hc 0) (hc_clock hc 2)
               in (d2, if closed then batch_closed else respond_error 503 ''memory batch unavailable'')
          else if lm_messages loaded = [] then (d1, respond_error 422 ''invalid memory batch'')
          else let (d2, work) = claimMemorySummaryWork (hc_others hc 2 d1) batch (hc_token hc) (hc_clock hc 2)
               in case work of
                    Work_claimed token expiresAt version \<Rightarrow> summarise_claimed hc batchId loaded version d2
                  | Work_busy \<Rightarrow> (d2, empty_response 202)
                  | Work_lost_lease \<Rightarrow> (d2, empty_response 204))"

definition postMemoryBatch :: "handler_call \<Rightarrow> db \<Rightarrow> db \<times> response" where
  "postMemoryBatch hc d =
    (if \<not> sameSecret (hc_authorization hc) (hc_secret hc) then (d, respond_error 401 ''unauthorized'')
     else case Option.bind (hc_body hc) (batchIdOf (hc_objectId hc)) of
       None \<Rightarrow> (d, respond_error 400 ''invalid memory batch'')
     | Some batchId \<Rightarrow> handle_batch hc batchId d)"

end
