(* ===== verification/MemoryHandlerProps.thy ===== *)
theory MemoryHandlerProps
  imports MemoryHandler
begin

text \<open>
  What a memory callback's answer means: \<open>complete\<close> is never answered for a batch that is not complete,
  whatever other callers write between the handler's calls, and a batch whose source was withdrawn is
  closed by the callback that finds out.
\<close>

definition batch_complete :: "db \<Rightarrow> oid \<Rightarrow> bool" where
  "batch_complete d k \<longleftrightarrow> (\<exists>b. batch_at d k = Some b \<and> mb_state b = Mb_complete)"

section \<open>Which calls complete the batch\<close>

lemma closed_after_live:
  assumes "wf_batches d" "memoryBatches d1 = memoryBatches d" "find (liveFilter batch lt wt now) (memoryBatches d) \<noteq> None"
  shows "batch_complete (set_batches d1 (liveFilter batch lt wt now) (close_batch sid now')) (mb_oid batch)"
proof -
  obtain b where b: "batch_at d (mb_oid batch) = Some b" "live_rest batch lt wt now b"
    using assms(3) by (auto simp: find_live [OF assms(1)] split: option.splits if_splits)
  have "batch_at (set_batches d1 (liveFilter batch lt wt now) (close_batch sid now')) (mb_oid batch) = Some (close_batch sid now' b)"
    by (rule batch_at_set_live [OF assms(1,2) b]) (simp add: close_batch_def)
  then show ?thesis by (simp add: batch_complete_def close_batch_def)
qed

lemma redact_closes:
  assumes "wf_batches d" "redact d batch (liveFilter batch lt wt now) sid now' = (d', True)"
  shows "batch_complete d' (mb_oid batch)"
  using assms closed_after_live [of d "add_summary (summary_of batch no_output (mb_sourceCount batch) sid now') [] d"]
  by (auto simp: redact_def split: if_splits)

lemma unauthorised_closes:
  "wf_batches d \<Longrightarrow> resolveAuthorizationRevokedMemoryBatch d batch wt sid now = (d', True) \<Longrightarrow> batch_complete d' (mb_oid batch)"
  by (auto simp: resolveAuthorizationRevokedMemoryBatch_def split: option.splits if_splits intro: redact_closes)

lemma revoked_closes:
  assumes "wf_batches d" "resolveRevokedMemoryBatch d k sid now = (d', True)"
  shows "batch_complete d' k"
proof -
  obtain batch where f: "find (\<lambda>b. mb_oid b = k \<and> mb_state b = Mb_processing
      \<and> (case mb_lease b of None \<Rightarrow> False | Some l \<Rightarrow> now < ls_expiresAt l)) (memoryBatches d) = Some batch"
    using assms(2) by (auto simp: resolveRevokedMemoryBatch_def split: option.splits)
  then obtain l where b: "mb_oid batch = k" "mb_lease batch = Some l" by (auto dest!: find_Some_in split: option.splits)
  then have b: "mb_oid batch = k" "redact d batch (liveFilter batch (ls_token l) None now) sid now = (d', True)"
    using assms(2) by (simp_all add: resolveRevokedMemoryBatch_def f split: if_splits)
  from redact_closes [OF assms(1) b(2)] show ?thesis by (simp add: b(1))
qed

lemma completion_closes:
  assumes wf: "wf_batches d" and c: "completeMemoryBatch d batch token out env now = (d', status)" "status \<noteq> Completion_lost"
  shows "batch_complete d' (mb_oid batch)"
proof (rule complete_cases [of d batch token out env now])
  assume "completeMemoryBatch d batch token out env now = (d, Completion_lost)"
  with c show ?thesis by simp
next
  fix l s
  assume l: "mb_lease batch = Some l" and s: "find (has_summary batch) (memorySummaries d) = Some s"
  let ?live = "liveFilter batch (ls_token l) (Some token) now"
  have eq: "completeMemoryBatch d batch token out env now =
        (let r = (set_batches d ?live (close_batch (mm_oid s) now), if find ?live (memoryBatches d) \<noteq> None then Already_complete else Completion_lost)
         in case find (batch_of batch) (memoryBatches d) of
              Some current \<Rightarrow> if mb_state current = Mb_complete \<and> mb_summaryId current = Some (mm_oid s) then (d, Already_complete) else r
            | None \<Rightarrow> r)"
    using s unfolding completeMemoryBatch_def has_summary_def [abs_def] by (simp only: l option.case Let_def)
  have closed: "batch_complete (set_batches d ?live (close_batch (mm_oid s) now)) (mb_oid batch)" if "find ?live (memoryBatches d) \<noteq> None"
    by (rule closed_after_live [OF wf refl that])
  show ?thesis
  proof (cases "\<exists>b. find (batch_of batch) (memoryBatches d) = Some b \<and> mb_state b = Mb_complete \<and> mb_summaryId b = Some (mm_oid s)")
    case True
    then obtain b where b: "find (batch_of batch) (memoryBatches d) = Some b" "mb_state b = Mb_complete" "mb_summaryId b = Some (mm_oid s)" by blast
    then have "b \<in> set (memoryBatches d)" "mb_oid b = mb_oid batch" by (auto simp: batch_of_def dest: find_Some_in)
    then have "batch_at d (mb_oid batch) = Some b" using wf by (metis batch_at_def by_key_eqI wf_batches_def)
    moreover have "d' = d" using c b by (simp add: eq)
    ultimately show ?thesis using b(2) by (auto simp: batch_complete_def)
  next
    case False
    then have "completeMemoryBatch d batch token out env now = (set_batches d ?live (close_batch (mm_oid s) now),
        if find ?live (memoryBatches d) \<noteq> None then Already_complete else Completion_lost)"
      unfolding eq Let_def by (cases "find (batch_of batch) (memoryBatches d)") auto
    with c closed show ?thesis by (auto split: if_splits)
  qed
next
  fix l g
  assume live: "find (liveFilter batch (ls_token l) (Some token) now) (memoryBatches d) \<noteq> None"
    and eq: "completeMemoryBatch d batch token out env now =
        (set_batches (add_summary (summary_of batch out 0 (me_summaryId env) now) (fact_rows env batch out now)
           (d\<lparr>groups := update_one (fence_filter batch (config_version g)) bump_fence (groups d)\<rparr>))
           (liveFilter batch (ls_token l) (Some token) now) (close_batch (me_summaryId env) now), Completed_now)"
  show ?thesis using c(1) unfolding eq by (auto intro!: closed_after_live [OF wf _ live])
qed

section \<open>Well-formedness along the handler\<close>

lemma wf_add_summary [simp]: "wf_batches (add_summary s fs d) = wf_batches d"
  by (simp add: wf_batches_def)

lemma wf_groups [simp]: "wf_batches (d\<lparr>groups := gs\<rparr>) = wf_batches d"
  by (simp add: wf_batches_def)

lemma wf_close: "wf_batches d \<Longrightarrow> wf_batches (set_batches d P (close_batch sid now))"
  by (rule wf_set_batches) (simp_all add: close_batch_def)

lemma wf_complete: "wf_batches d \<Longrightarrow> wf_batches (fst (completeMemoryBatch d batch token out env now))"
  by (rule complete_cases [of d batch token out env now]) (auto simp: wf_close)

lemma wf_unauthorised: "wf_batches d \<Longrightarrow> wf_batches (fst (resolveAuthorizationRevokedMemoryBatch d batch wt sid now))"
  by (auto simp: resolveAuthorizationRevokedMemoryBatch_def redact_def wf_close split: option.splits)

lemma wf_release: "wf_batches d \<Longrightarrow> wf_batches (releaseMemorySummaryWork d batch token now)"
  by (auto simp: releaseMemorySummaryWork_def intro!: wf_set_batches split: option.splits)

section \<open>Answers\<close>

lemma status_simps [simp]: "rp_status (respond s obj) = s" "rp_status (respond_error s m) = s" "rp_status (empty_response s) = s"
  "rp_status batch_closed = 201"
  by (simp_all add: respond_def respond_error_def empty_response_def batch_closed_def)

lemma error_response_status: "rp_status (error_response e) \<in> {422, 503}"
  by (auto simp: error_response_def split: option.split)

definition benign :: "handler_call \<Rightarrow> bool" where
  "benign hc \<longleftrightarrow> (\<forall>n d. wf_batches d \<longrightarrow> wf_batches (hc_others hc n d))"

lemma on_error_created:
  assumes "benign hc" "wf_batches d" "rp_status (snd (on_error hc k claimed e d)) = 201"
  shows "batch_complete (fst (on_error hc k claimed e d)) k"
proof -
  let ?d1 = "case claimed of None \<Rightarrow> d
     | Some batch \<Rightarrow> releaseMemorySummaryWork (hc_others hc 10 d) batch (hc_token hc) (hc_clock hc 10)"
  have "wf_batches ?d1" using assms(1,2) by (auto simp: benign_def wf_release split: option.split)
  then have wf: "wf_batches (hc_others hc 11 ?d1)" using assms(1) by (simp add: benign_def)
  have no: "rp_status (error_response e) \<noteq> 201" using error_response_status [of e] by auto
  show ?thesis
  proof (cases "resolveRevokedMemoryBatch (hc_others hc 11 ?d1) k (hc_redactId hc 3) (hc_clock hc 11)")
    case (Pair d2 closed)
    with assms(3) no have "e = Invalid_source_error" "closed" by (auto simp: on_error_def Let_def split: if_splits)
    with Pair revoked_closes [OF wf] show ?thesis by (simp add: on_error_def Let_def)
  qed
qed

lemma store_created:
  assumes "benign hc" "wf_batches d" "rp_status (snd (store_summary hc k batch out d)) = 201" "mb_oid batch = k"
  shows "batch_complete (fst (store_summary hc k batch out d)) k"
proof -
  let ?d = "hc_others hc 7 d"
  have wf: "wf_batches ?d" using assms(1,2) by (simp add: benign_def)
  obtain d1 status where c: "completeMemoryBatch ?d batch (hc_token hc) out (hc_env hc) (hc_clock hc 7) = (d1, status)" by fastforce
  let ?d2 = "hc_others hc 8 d1" and ?e = "handler_error ''memory configuration changed''"
  have wf2: "wf_batches ?d2" using wf_complete [OF wf] c assms(1) by (metis benign_def fst_conv)
  then have wf3: "wf_batches (hc_others hc 9 ?d2)" using assms(1) by (simp add: benign_def)
  obtain d3 closed where r: "resolveAuthorizationRevokedMemoryBatch (hc_others hc 9 ?d2) batch (Some (hc_token hc)) (hc_redactId hc 2) (hc_clock hc 9) = (d3, closed)"
    by fastforce
  have wf4: "wf_batches d3" using wf_unauthorised [OF wf3] r by (metis fst_conv)
  have eq: "store_summary hc k batch out d = (if status = Completed_now then (d1, batch_closed)
      else if batch_eligible ?d2 batch then on_error hc k (Some batch) ?e ?d2
      else if closed then (d3, batch_closed) else on_error hc k (Some batch) ?e d3)"
    by (simp add: store_summary_def c r Let_def)
  consider "status = Completed_now" | "status \<noteq> Completed_now" "batch_eligible ?d2 batch"
    | "status \<noteq> Completed_now" "\<not> batch_eligible ?d2 batch" "closed" | "status \<noteq> Completed_now" "\<not> batch_eligible ?d2 batch" "\<not> closed" by blast
  then show ?thesis
  proof cases
    case 1
    then show ?thesis using completion_closes [OF wf c] assms(4) by (simp add: eq)
  next
    case 2
    then show ?thesis using on_error_created [OF assms(1) wf2] assms(3) by (simp add: eq)
  next
    case 3
    with r have "resolveAuthorizationRevokedMemoryBatch (hc_others hc 9 ?d2) batch (Some (hc_token hc)) (hc_redactId hc 2) (hc_clock hc 9) = (d3, True)" by simp
    from unauthorised_closes [OF wf3 this] 3 show ?thesis by (simp add: eq assms(4))
  next
    case 4
    then show ?thesis using on_error_created [OF assms(1) wf4] assms(3) by (simp add: eq)
  qed
qed

lemma claimed_created:
  assumes "benign hc" "wf_batches d" "rp_status (snd (summarise_claimed hc k loaded v d)) = 201" "mb_oid (lm_batch loaded) = k"
  shows "batch_complete (fst (summarise_claimed hc k loaded v d)) k"
proof -
  let ?batch = "lm_batch loaded" and ?d1 = "hc_others hc 3 d"
  let ?d2 = "hc_others hc 5 ?d1" and ?fail = "on_error hc k (Some (lm_batch loaded))"
  have wf1: "wf_batches ?d1" and wf4: "wf_batches (hc_others hc 4 ?d1)" and wf2: "wf_batches ?d2" and wf6: "wf_batches (hc_others hc 6 ?d2)"
    using assms(1,2) by (simp_all add: benign_def)
  have fail: "batch_complete (fst (?fail e d')) k" if "wf_batches d'" "rp_status (snd (?fail e d')) = 201" for e d'
    by (rule on_error_created [OF assms(1) that])
  show ?thesis
  proof (cases "summary_taken ?d1 ?batch")
    case True
    obtain d2 status where c: "completeMemoryBatch (hc_others hc 4 ?d1) ?batch (hc_token hc) no_output (hc_env hc) (hc_clock hc 4) = (d2, status)" by fastforce
    have eq: "summarise_claimed hc k loaded v d = (if hc_lost hc then ?fail (handler_error ''memory summary work was lost'') ?d1
        else (d2, if status = Completion_lost then empty_response 204 else batch_closed))"
      using True by (simp add: summarise_claimed_def Let_def c)
    show ?thesis using assms(3,4) fail [OF wf1] completion_closes [OF wf4 c] by (auto simp: eq split: if_splits)
  next
    case False
    show ?thesis
    proof (cases "batch_eligible ?d2 ?batch")
      case ineligible: False
      obtain d3 closed where r: "resolveAuthorizationRevokedMemoryBatch (hc_others hc 6 ?d2) ?batch (Some (hc_token hc)) (hc_redactId hc 1) (hc_clock hc 6) = (d3, closed)"
        by fastforce
      have wf3: "wf_batches d3" using wf_unauthorised [OF wf6] r by (metis fst_conv)
      have eq: "summarise_claimed hc k loaded v d = (if closed then (d3, batch_closed) else ?fail (handler_error ''memory authorization resolution lost'') d3)"
        using False ineligible by (simp add: summarise_claimed_def Let_def r del: One_nat_def)
      show ?thesis
      proof (cases closed)
        case True
        with r have "resolveAuthorizationRevokedMemoryBatch (hc_others hc 6 ?d2) ?batch (Some (hc_token hc)) (hc_redactId hc 1) (hc_clock hc 6) = (d3, True)" by simp
        from unauthorised_closes [OF wf6 this] True show ?thesis by (simp add: eq assms(4))
      qed (use assms(3) fail [OF wf3] in \<open>simp add: eq\<close>)
    next
      case True
      let ?changed = "(case batch_group ?d2 ?batch of None \<Rightarrow> 0 | Some g \<Rightarrow> config_version g) \<noteq> v"
      have eq: "summarise_claimed hc k loaded v d =
         (if ?changed then ?fail (handler_error ''memory configuration changed'') ?d2
          else case summarizeMemoryBatch (map source_of (lm_messages loaded)) (hc_model hc) of
                  Inl e \<Rightarrow> ?fail e ?d2
                | Inr out \<Rightarrow> if hc_lost hc then ?fail (handler_error ''memory summary work was lost'') ?d2
                             else store_summary hc k ?batch out ?d2)"
        using False True by (simp only: summarise_claimed_def Let_def if_False simp_thms)
      show ?thesis
        using assms(3) fail [OF wf2] store_created [OF assms(1) wf2 _ assms(4)] unfolding eq
        by (cases ?changed; cases "summarizeMemoryBatch (map source_of (lm_messages loaded)) (hc_model hc)"; cases "hc_lost hc") simp_all
    qed
  qed
qed

lemma loaded_batch:
  "loadMemoryBatch d k now = Inr (Some loaded) \<Longrightarrow> mb_oid (lm_batch loaded) = k"
  by (auto simp: loadMemoryBatch_def Let_def split: option.splits if_splits dest: find_Some_in)

lemma handle_created:
  assumes "benign hc" "wf_batches d" "rp_status (snd (handle_batch hc k d)) = 201"
  shows "batch_complete (fst (handle_batch hc k d)) k"
proof -
  let ?d0 = "hc_others hc 0 d"
  let ?d1 = "hc_others hc 1 ?d0"
  let ?d2 = "hc_others hc 2 ?d1"
  have wf0: "wf_batches ?d0" and wf2: "wf_batches ?d2" using assms(1,2) by (simp_all add: benign_def)
  show ?thesis
  proof (cases "loadMemoryBatch ?d0 k (hc_clock hc 0)")
    case (Inl e)
    then show ?thesis using on_error_created [OF assms(1) wf0] assms(3) by (simp add: handle_batch_def)
  next
    case (Inr r)
    show ?thesis
    proof (cases r)
      case None
      with Inr assms(3) show ?thesis by (simp add: handle_batch_def)
    next
      case (Some loaded)
      let ?batch = "lm_batch loaded"
      have k: "mb_oid ?batch = k" using Inr Some by (intro loaded_batch) simp
      show ?thesis
      proof (cases "batch_eligible ?d1 ?batch")
        case False
        obtain d3 closed where r: "resolveAuthorizationRevokedMemoryBatch ?d2 ?batch None (hc_redactId hc 0) (hc_clock hc 2) = (d3, closed)" by fastforce
        have eq: "handle_batch hc k d = (d3, if closed then batch_closed else respond_error 503 ''memory batch unavailable'')"
          using False by (simp add: handle_batch_def Inr Some Let_def r del: One_nat_def)
        with assms(3) have "closed" by (simp split: if_splits)
        with r have "resolveAuthorizationRevokedMemoryBatch ?d2 ?batch None (hc_redactId hc 0) (hc_clock hc 2) = (d3, True)" by simp
        from unauthorised_closes [OF wf2 this] k show ?thesis by (simp add: eq)
      next
        case True
        obtain d3 work where c: "claimMemorySummaryWork ?d2 ?batch (hc_token hc) (hc_clock hc 2) = (d3, work)" by fastforce
        have wf3: "wf_batches d3" using wf_work_claim [OF wf2] c by (metis fst_conv)
        have eq: "handle_batch hc k d = (if lm_messages loaded = [] then (?d1, respond_error 422 ''invalid memory batch'')
            else case work of Work_claimed t e v \<Rightarrow> summarise_claimed hc k loaded v d3
                  | Work_busy \<Rightarrow> (d3, empty_response 202) | Work_lost_lease \<Rightarrow> (d3, empty_response 204))"
          using True by (simp add: handle_batch_def Inr Some Let_def c del: One_nat_def)
        show ?thesis using assms(3) claimed_created [OF assms(1) wf3 _ k] by (cases work) (auto simp: eq split: if_splits)
      qed
    qed
  qed
qed

text \<open>\<open>{status: complete}\<close> is the truth. Whatever other callers write between any two database calls of the
  handler (as long as they never duplicate a batch id), whenever it answers 201 the request carried the callback
  secret and named a batch, and that batch is complete in the database at the moment of the answer.\<close>

theorem created_means_complete:
  assumes "benign hc" and "wf_batches d" and "rp_status (snd (postMemoryBatch hc d)) = 201"
  shows "sameSecret (hc_authorization hc) (hc_secret hc)
    \<and> (\<exists>k. Option.bind (hc_body hc) (batchIdOf (hc_objectId hc)) = Some k \<and> batch_complete (fst (postMemoryBatch hc d)) k)"
  using assms handle_created [OF assms(1,2)]
  by (cases "Option.bind (hc_body hc) (batchIdOf (hc_objectId hc))") (auto simp: postMemoryBatch_def split: if_splits)

section \<open>A withdrawn source closes its batch\<close>

definition live_sources :: "db \<Rightarrow> memory_batch \<Rightarrow> message_doc list" where
  "live_sources d batch = filter (\<lambda>m. source_message batch m \<and> \<not> ms_revoked m) (messages d)"

lemma find_processing:
  assumes "wf_batches d" "batch_at d k = Some b" "mb_state b = Mb_processing" "mb_lease b = Some l" "now < ls_expiresAt l"
  shows "find (\<lambda>b. mb_oid b = k \<and> mb_state b = Mb_processing
      \<and> (case mb_lease b of None \<Rightarrow> False | Some l \<Rightarrow> now < ls_expiresAt l)) (memoryBatches d) = Some b"
  using assms by (simp add: batch_at_def wf_batches_def find_key_cond)

lemma revoked_flow:
  assumes wf: "wf_batches d" and b: "batch_at d k = Some b" "mb_state b = Mb_processing" "mb_lease b = Some l"
    and time: "hc_clock hc 0 < ls_expiresAt l" "hc_clock hc 11 < ls_expiresAt l"
    and alone: "hc_others hc 0 d = d" "hc_others hc 11 d = d"
    and sources: "length (mb_sourceWaMessageIds b) = mb_sourceCount b" "length (live_sources d b) \<noteq> mb_sourceCount b"
    and revoked: "\<exists>m \<in> set (messages d). source_message b m \<and> ms_revoked m"
    and new: "\<not> summary_taken d b"
  shows "handle_batch hc k d = (set_batches (add_summary (summary_of b no_output (mb_sourceCount b) (hc_redactId hc 3) (hc_clock hc 11)) [] d)
      (liveFilter b (ls_token l) None (hc_clock hc 11)) (close_batch (hc_redactId hc 3) (hc_clock hc 11)), batch_closed)"
proof -
  have k: "mb_oid b = k" using b(1) by (auto simp: batch_at_def dest: by_key_Some)
  have "live_rest b (ls_token l) None (hc_clock hc 11) b"
    using b(2,3) time(2) by (simp add: live_rest_def leased_def)
  then have live: "find (liveFilter b (ls_token l) None (hc_clock hc 11)) (memoryBatches d) = Some b"
    using b(1) by (simp add: find_live [OF wf] k)
  have "loadMemoryBatch d k (hc_clock hc 0) = Inl Invalid_memory_batch_source"
    using sources b(3) unfolding loadMemoryBatch_def find_processing [OF wf b time(1)]
    by (simp add: live_sources_def)
  moreover have "resolveRevokedMemoryBatch d k (hc_redactId hc 3) (hc_clock hc 11) =
      (set_batches (add_summary (summary_of b no_output (mb_sourceCount b) (hc_redactId hc 3) (hc_clock hc 11)) [] d)
        (liveFilter b (ls_token l) None (hc_clock hc 11)) (close_batch (hc_redactId hc 3) (hc_clock hc 11)), True)"
    using revoked new b(3) unfolding resolveRevokedMemoryBatch_def find_processing [OF wf b time(2)]
    by (auto simp: redact_def live)
  ultimately show ?thesis by (simp add: handle_batch_def on_error_def alone)
qed

text \<open>C15: A batch whose source message was deleted always comes to an end: when the worker delivers a leased batch one
  of whose messages is revoked (and no other caller interferes), the callback answers 201 and has closed the batch
  with one empty summary that records every source as redacted, so nothing of the deleted text is summarised.\<close>

theorem revoked_source_closes:
  assumes "wf_batches d" "batch_at d k = Some b" "mb_state b = Mb_processing" "mb_lease b = Some l"
    and "hc_clock hc 0 < ls_expiresAt l" "hc_clock hc 11 < ls_expiresAt l" "hc_others hc 0 d = d" "hc_others hc 11 d = d"
    and "length (mb_sourceWaMessageIds b) = mb_sourceCount b" "length (live_sources d b) \<noteq> mb_sourceCount b"
    and "\<exists>m \<in> set (messages d). source_message b m \<and> ms_revoked m" "\<not> summary_taken d b"
    and "sameSecret (hc_authorization hc) (hc_secret hc)" "Option.bind (hc_body hc) (batchIdOf (hc_objectId hc)) = Some k"
  shows "case postMemoryBatch hc d of (d', answer) \<Rightarrow> answer = batch_closed \<and> batch_complete d' k
    \<and> memoryFacts d' = memoryFacts d
    \<and> (\<exists>s. memorySummaries d' = memorySummaries d @ [s] \<and> mm_batchId s = k \<and> mm_summary s = [] \<and> mm_topics s = []
         \<and> mm_decisions s = [] \<and> mm_redactions s = mb_sourceCount b)"
proof -
  have k: "mb_oid b = k" using assms(2) by (auto simp: batch_at_def dest: by_key_Some)
  have "live_rest b (ls_token l) None (hc_clock hc 11) b"
    using assms(3,4,6) by (simp add: live_rest_def leased_def)
  then have live: "find (liveFilter b (ls_token l) None (hc_clock hc 11)) (memoryBatches d) \<noteq> None"
    using assms(2) by (simp add: find_live [OF assms(1)] k)
  have "batch_complete (set_batches (add_summary s [] d) (liveFilter b (ls_token l) None (hc_clock hc 11)) (close_batch i t)) k" for s i t
    using closed_after_live [OF assms(1) _ live] by (simp add: k)
  then show ?thesis
    by (simp add: postMemoryBatch_def assms(13,14) revoked_flow [OF assms(1-12)]) (simp add: summary_of_def no_output_def k)
qed

definition ex_revoked :: message_doc where
  "ex_revoked = \<lparr>ms_organizationId = [7], ms_instanceId = [2], ms_groupJid = [97], ms_waMessageId = [3], ms_fromMe = False, ms_revoked = True,
     ms_senderJid = None, ms_pushName = None, ms_kind = [], ms_text = Some [97], ms_timestamp = Some 10, ms_media = None, ms_textSearch = None, ms_raw = None\<rparr>"

definition ex_delivery :: db where
  "ex_delivery = ex_memory\<lparr>messages := [ex_revoked]\<rparr>"

definition ex_call :: handler_call where
  "ex_call = \<lparr>hc_authorization = Some (js ''Bearer '' @ [120]), hc_secret = Some [120],
     hc_body = Some (JObj [(js ''batchId'', JStr [53])]), hc_objectId = (\<lambda>_. Some [5]), hc_others = (\<lambda>_ d. d), hc_clock = (\<lambda>_. 100),
     hc_token = [9], hc_env = \<lparr>me_lower = id, me_parseDate = (\<lambda>_. None), me_summaryId = [1], me_factId = (\<lambda>_. [])\<rparr>,
     hc_redactId = (\<lambda>_. [6]), hc_model = (\<lambda>_ _. Inl Syntax_error), hc_lost = False\<rparr>"

lemma ex_delivery_facts:
  "wf_batches ex_delivery" "batch_at ex_delivery [5] = Some ex_batch" "mb_state ex_batch = Mb_processing"
  "mb_lease ex_batch = Some \<lparr>ls_token = [8], ls_expiresAt = 500000\<rparr>"
  "hc_clock ex_call 0 < ls_expiresAt \<lparr>ls_token = [8], ls_expiresAt = 500000\<rparr>"
  "hc_clock ex_call 11 < ls_expiresAt \<lparr>ls_token = [8], ls_expiresAt = 500000\<rparr>"
  "hc_others ex_call 0 ex_delivery = ex_delivery" "hc_others ex_call 11 ex_delivery = ex_delivery"
  "length (mb_sourceWaMessageIds ex_batch) = mb_sourceCount ex_batch" "length (live_sources ex_delivery ex_batch) \<noteq> mb_sourceCount ex_batch"
  "\<exists>m \<in> set (messages ex_delivery). source_message ex_batch m \<and> ms_revoked m" "\<not> summary_taken ex_delivery ex_batch"
  "sameSecret (hc_authorization ex_call) (hc_secret ex_call)" "Option.bind (hc_body ex_call) (batchIdOf (hc_objectId ex_call)) = Some [5]"
  by (simp_all add: ex_delivery_def ex_memory_def ex_batch_def ex_call_def ex_revoked_def wf_batches_def batch_at_def by_key_def
      live_sources_def source_message_def summary_taken_def empty_db_def bearer_accepted batchIdOf_def)

theorem revoked_source_closes_witness:
  "case postMemoryBatch ex_call ex_delivery of (d', answer) \<Rightarrow> answer = batch_closed \<and> batch_complete d' [5] \<and> memoryFacts d' = []"
  using revoked_source_closes [OF ex_delivery_facts] by (auto simp: ex_delivery_def ex_memory_def empty_db_def)

theorem created_means_complete_witness: "batch_complete (fst (postMemoryBatch ex_call ex_delivery)) [5]"
proof -
  have "benign ex_call" by (simp add: benign_def ex_call_def)
  moreover have "rp_status (snd (postMemoryBatch ex_call ex_delivery)) = 201"
    by (simp add: postMemoryBatch_def ex_delivery_facts(13,14) revoked_flow [OF ex_delivery_facts(1-12)])
  ultimately show ?thesis using created_means_complete [OF _ ex_delivery_facts(1)] ex_delivery_facts(14) by fastforce
qed

end
