(* ===== verification/SummarizeProps.thy ===== *)
theory SummarizeProps
  imports Summarize
begin

text \<open>
  What the summariser sees is bounded and honest: the prompt fits its code-point budget, the rows
  are the first messages in order with prefixes of their texts, and nothing is kept that cites
  anything else.
\<close>

lemma code_points_append:
  "\<not> is_low_surrogate y \<Longrightarrow> code_points (xs @ y # ys) = code_points xs @ code_points (y # ys)"
  by (induction xs rule: code_points.induct) auto

lemma scalars_append: "\<not> is_low_surrogate y \<Longrightarrow> scalars (xs @ y # ys) = scalars xs + scalars (y # ys)"
  by (simp add: scalars_def code_points_append)

lemma formatted_starts: "\<exists>ys. formatUntrustedEnvelope row = 60 # ys"
  by (simp add: formatUntrustedEnvelope_def js_def)

lemma envelope_prompt_Cons:
  "envelope_prompt (row # rows) = (if rows = [] then formatUntrustedEnvelope row
     else formatUntrustedEnvelope row @ 10 # envelope_prompt rows)"
  by (cases rows) (simp_all add: envelope_prompt_def)

lemma scalars_prompt_Cons:
  "rows \<noteq> [] \<Longrightarrow> scalars (envelope_prompt (row # rows)) = scalars (formatUntrustedEnvelope row) + 1 + scalars (envelope_prompt rows)"
proof -
  assume ne: "rows \<noteq> []"
  obtain zs where z: "envelope_prompt rows = 60 # zs"
    using formatted_starts ne by (cases rows) (metis append_Cons envelope_prompt_Cons)+
  have "\<not> is_low_surrogate 10" "\<not> is_low_surrogate 60" by (simp_all add: is_low_surrogate_def)
  from this [THEN scalars_append] have "scalars (formatUntrustedEnvelope row @ 10 # envelope_prompt rows) = scalars (formatUntrustedEnvelope row) + scalars (10 # envelope_prompt rows)"
    "scalars ([10] @ 60 # zs) = scalars [10] + scalars (60 # zs)" by metis+
  with ne z show ?thesis by (simp add: envelope_prompt_Cons scalars_def)
qed

lemma envelope_rows_fit:
  "envelope_rows ms sep remaining = Some rows \<Longrightarrow> rows \<noteq> [] \<Longrightarrow> sep + scalars (envelope_prompt rows) \<le> remaining"
proof (induction ms sep remaining arbitrary: rows rule: envelope_rows.induct)
  case (2 m ms sep remaining)
  let ?row = "shrink_row sep remaining (envelope_of m remaining)"
  let ?used = "scalars (formatUntrustedEnvelope ?row) + sep"
  from 2(2,3) have go: "remaining \<noteq> 0" "valid_date (so_timestamp m)" "?used \<le> remaining"
    by (auto simp: Let_def split: if_splits)
  with 2(2) obtain rest where rest: "envelope_rows ms 1 (remaining - ?used) = Some rest" "rows = ?row # rest"
    by (auto simp: Let_def)
  show ?case
  proof (cases "rest = []")
    case True
    then show ?thesis using go(3) by (simp add: rest(2) envelope_prompt_Cons)
  next
    case False
    have "1 + scalars (envelope_prompt rest) \<le> remaining - ?used"
      using 2(1) [OF go(1) _ refl refl _ rest(1) False] go by simp
    with go(3) False show ?thesis by (simp add: rest(2) scalars_prompt_Cons)
  qed
qed simp

lemma code_points_prefix: "\<exists>zs. s = concat (take n (code_points s)) @ zs"
  by (metis append_take_drop_id concat_append concat_code_points)

lemma truncate_prefix: "\<exists>zs. s = fst (truncateScalars s n) @ zs"
  using code_points_prefix [of s n] by (auto simp: truncateScalars_def Let_def)

lemma shrink_row_prefix:
  "\<exists>zs. ev_text row = ev_text (shrink_row sep remaining row) @ zs" "ev_id (shrink_row sep remaining row) = ev_id row"
  using truncate_prefix by (auto simp: shrink_row_def Let_def)

lemma code_points_take: "code_points (concat (take n (code_points s))) = take n (code_points s)"
proof (induction s arbitrary: n rule: code_points.induct)
  case (2 c)
  then show ?case by (cases n) simp_all
next
  case (3 c d ds)
  show ?case
  proof (cases n)
    case (Suc k)
    show ?thesis
    proof (cases "is_high_surrogate c \<and> is_low_surrogate d")
      case False
      then have "concat (take k (code_points (d # ds))) = [] \<or> hd (concat (take k (code_points (d # ds)))) = d"
        by (cases k; cases ds) auto
      with False 3(2) [OF False, of k] show ?thesis
        by (cases "concat (take k (code_points (d # ds)))") (auto simp: Suc)
    qed (use Suc 3(1) in simp)
  qed simp
qed simp

lemma truncate_bound: "scalars (fst (truncateScalars s n)) \<le> n"
  by (simp add: truncateScalars_def Let_def scalars_def code_points_take)

lemma scalars_truncate_le: "scalars (fst (truncateScalars s n)) \<le> scalars s"
  by (simp add: truncateScalars_def Let_def scalars_def code_points_take)

lemma shrink_row_shorter: "scalars (ev_text (shrink_row sep remaining row)) \<le> scalars (ev_text row)"
  by (simp add: shrink_row_def Let_def scalars_truncate_le)

definition text_of :: "memory_source \<Rightarrow> jstr" where
  "text_of m = (case so_text m of None \<Rightarrow> [] | Some t \<Rightarrow> t)"

definition shows_message :: "memory_source \<Rightarrow> memory_envelope \<Rightarrow> bool" where
  "shows_message m row \<longleftrightarrow> ev_id row = so_waMessageId m \<and> scalars (ev_text row) \<le> max_message_scalars
     \<and> (\<exists>zs. text_of m = ev_text row @ zs)"

lemma shows_made: "shows_message m (shrink_row sep remaining (envelope_of m remaining))"
proof -
  let ?row = "envelope_of m remaining"
  have "ev_id ?row = so_waMessageId m" "ev_text ?row = fst (truncateScalars (text_of m) (min max_message_scalars remaining))"
    by (simp_all add: envelope_of_def Let_def text_of_def)
  moreover have "scalars (fst (truncateScalars (text_of m) (min max_message_scalars remaining))) \<le> max_message_scalars"
    using truncate_bound le_trans min.cobounded1 by blast
  moreover obtain zs where "text_of m = fst (truncateScalars (text_of m) (min max_message_scalars remaining)) @ zs"
    using truncate_prefix by blast
  ultimately show ?thesis
    using shrink_row_prefix [where row = ?row and sep = sep and remaining = remaining] shrink_row_shorter [where row = ?row and sep = sep and remaining = remaining] le_trans
    unfolding shows_message_def by (metis append.assoc)
qed

lemma envelope_rows_show:
  "envelope_rows ms sep remaining = Some rows \<Longrightarrow> list_all2 shows_message (take (length rows) ms) rows \<and> length rows \<le> length ms"
proof (induction ms sep remaining arbitrary: rows rule: envelope_rows.induct)
  case (2 m ms sep remaining)
  show ?case
  proof (cases "rows = []")
    case False
    let ?row = "shrink_row sep remaining (envelope_of m remaining)"
    let ?used = "scalars (formatUntrustedEnvelope ?row) + sep"
    from 2(2) False have go: "remaining \<noteq> 0" "valid_date (so_timestamp m)" "?used \<le> remaining"
      by (auto simp: Let_def split: if_splits)
    with 2(2) obtain rest where rest: "envelope_rows ms 1 (remaining - ?used) = Some rest" "rows = ?row # rest"
      by (auto simp: Let_def)
    from 2(1) [OF go(1) _ refl refl _ rest(1)] go
    show ?thesis by (simp add: rest(2) shows_made)
  qed simp
qed simp

text \<open>The prompt of the summariser fits its budget of 80000 code points, and its rows are the first messages,
  in order and with nothing skipped, each under its own id with a prefix of its own text of at most 2000 code
  points, however the texts, media fields and markup escapes expand.\<close>

theorem summary_prompt_bounded:
  assumes "buildMemoryEnvelopes msgs = Some (rows, prompt)"
  shows "scalars prompt \<le> max_batch_scalars \<and> length rows \<le> length msgs \<and> list_all2 shows_message (take (length rows) msgs) rows"
proof -
  from assms have rows: "envelope_rows msgs 0 max_batch_scalars = Some rows" "prompt = envelope_prompt rows"
    by (auto simp: buildMemoryEnvelopes_def)
  have "scalars prompt \<le> max_batch_scalars"
    using envelope_rows_fit [OF rows(1)] rows(2) by (cases "rows = []") (simp_all add: envelope_prompt_def scalars_def)
  with envelope_rows_show [OF rows(1)] show ?thesis by simp
qed

definition ex_source :: memory_source where
  "ex_source = \<lparr>so_waMessageId = [3], so_timestamp = 10, so_senderJid = [4], so_kind = [5], so_text = Some [60, 97], so_media = None\<rparr>"

theorem summary_prompt_bounded_witness:
  "\<exists>rows prompt. buildMemoryEnvelopes [ex_source] = Some (rows, prompt) \<and> scalars prompt \<le> max_batch_scalars
     \<and> list_all2 shows_message (take (length rows) [ex_source]) rows"
proof -
  have "envelope_rows [ex_source] 0 max_batch_scalars \<noteq> None"
    by (simp add: max_batch_scalars_def ex_source_def valid_date_def Let_def del: not_None_eq)
  then obtain rows prompt where "buildMemoryEnvelopes [ex_source] = Some (rows, prompt)"
    by (auto simp: buildMemoryEnvelopes_def)
  with summary_prompt_bounded [OF this] show ?thesis by blast
qed

definition cited_ids :: "memory_output \<Rightarrow> jstr set" where
  "cited_ids out = (\<Union>c \<in> set (mo_decisions out) \<union> set (mo_commitments out) \<union> set (mo_openQuestions out) \<union> set (mo_actionItems out). set (cc_sourceWaMessageIds c))
     \<union> (\<Union>f \<in> set (mo_facts out). set (sf_sourceWaMessageIds f))"

lemma cite_only_ids: "cited_ids (cite_only ids out) \<subseteq> ids"
  by (auto simp: cited_ids_def cite_only_def validCitations_def list_all_iff)

lemma cite_only_schema: "memorySummarySchema out \<Longrightarrow> memorySummarySchema (cite_only ids out)"
  by (auto simp: memorySummarySchema_def cite_only_def validCitations_def list_all_iff)

lemma shown_ids: "list_all2 shows_message ms rows \<Longrightarrow> ev_id ` set rows \<subseteq> so_waMessageId ` set ms"
  by (induction ms rows rule: list_all2_induct) (auto simp: shows_message_def)

text \<open>What a summary may claim. Whatever the model answers, a summary that is kept has the required shape, is
  the model's own answer less the claims that cite anything else, and cites only identifiers of messages of the
  batch; every failure is an unprintable timestamp, the model call's own error, or an answer of the wrong shape.\<close>

theorem summary_cites_evidence:
  "case summarizeMemoryBatch msgs callModel of
     Inr out \<Rightarrow> memorySummarySchema out \<and> cited_ids out \<subseteq> so_waMessageId ` set msgs
       \<and> (\<exists>prompt answer ids. callModel summary_instructions (summary_prompt prompt) = Inr answer \<and> out = cite_only ids answer)
   | Inl e \<Rightarrow> buildMemoryEnvelopes msgs = None \<or> e = Zod_error
       \<or> (\<exists>prompt. callModel summary_instructions (summary_prompt prompt) = Inl e)"
proof (cases "buildMemoryEnvelopes msgs")
  case None
  then show ?thesis by (simp add: summarizeMemoryBatch_def)
next
  case (Some r)
  obtain rows prompt where r: "r = (rows, prompt)" by (cases r)
  have "ev_id ` set rows \<subseteq> so_waMessageId ` set (take (length rows) msgs)"
    using envelope_rows_show [of msgs 0 max_batch_scalars rows] Some r by (auto simp: buildMemoryEnvelopes_def dest: shown_ids)
  then have "ev_id ` set rows \<subseteq> so_waMessageId ` set msgs" by (meson image_mono order_trans set_take_subset)
  then have "cited_ids (cite_only (ev_id ` set rows) answer) \<subseteq> so_waMessageId ` set msgs" for answer
    using cite_only_ids by blast
  then show ?thesis
    using cite_only_schema by (auto simp: summarizeMemoryBatch_def Some r split: sum.split)
qed

end
