(* ===== verification/AuthorizedJids.thy ===== *)
theory AuthorizedJids
  imports Prelude
begin

text \<open>
  The JIDs the reply gate compares (\<open>apps/web/src/server/authorized-jids.ts\<close>): a number as the operator
  writes it, or any device JID, brought to one canonical form. \<open>configured\<close> is the environment's
  \<open>DEFAULT_COUNTRY_CODE\<close>.
\<close>

definition whatsapp_jid_suffix :: jstr where "whatsapp_jid_suffix = js ''@s.whatsapp.net''"

definition fallback_country_code :: jstr where "fallback_country_code = js ''62''"

definition is_nonzero_digit :: "nat \<Rightarrow> bool" where
  "is_nonzero_digit c \<longleftrightarrow> is_digit c \<and> c \<noteq> 48"

text \<open>\<open>/^[1-9][0-9]{lo,hi}$/\<close>.\<close>

definition number_of_length :: "nat \<Rightarrow> nat \<Rightarrow> jstr \<Rightarrow> bool" where
  "number_of_length lo hi s = (case s of [] \<Rightarrow> False
     | c # cs \<Rightarrow> is_nonzero_digit c \<and> list_all is_digit cs \<and> lo \<le> length cs \<and> length cs \<le> hi)"

definition countryCode :: "jstr option \<Rightarrow> jstr" where
  "countryCode configured = (let ds = filter is_digit (case configured of None \<Rightarrow> [] | Some s \<Rightarrow> s)
     in if number_of_length 0 3 ds then ds else fallback_country_code)"

definition national_digits :: "jstr option \<Rightarrow> jstr \<Rightarrow> jstr" where
  "national_digits configured digits =
    (if take 2 digits = [48, 48] then drop 2 digits
     else if take 1 digits = [48] then countryCode configured @ dropWhile (\<lambda>c. c = 48) digits
     else digits)"

definition local_part :: "jstr \<Rightarrow> jstr" where
  "local_part s = takeWhile (\<lambda>c. c \<noteq> 46 \<and> c \<noteq> 58) (takeWhile (\<lambda>c. c \<noteq> 64) s)"

definition normalizeAuthorizedJid :: "jstr option \<Rightarrow> jstr \<Rightarrow> jstr option" where
  "normalizeAuthorizedJid configured v =
    (let digits = national_digits configured (filter is_digit (local_part (trim v)))
     in if number_of_length 6 14 digits then Some (digits @ whatsapp_jid_suffix) else None)"

text \<open>The stored list, read defensively: strings that are numbers, without repeats, sorted.\<close>

fun canonical_jids :: "jstr option \<Rightarrow> json list \<Rightarrow> jstr list" where
  "canonical_jids configured [] = []"
| "canonical_jids configured (JStr s # vs) =
    (case normalizeAuthorizedJid configured s of None \<Rightarrow> canonical_jids configured vs | Some j \<Rightarrow> j # canonical_jids configured vs)"
| "canonical_jids configured (_ # vs) = canonical_jids configured vs"

definition authorizedJidsOf :: "jstr option \<Rightarrow> json option \<Rightarrow> jstr list" where
  "authorizedJidsOf configured v = (case v of Some (JArr vs) \<Rightarrow> sort (remdups (canonical_jids configured vs)) | _ \<Rightarrow> [])"

definition bullets :: jstr where "bullets = replicate 4 8226"

definition displayAuthorizedJid :: "jstr \<Rightarrow> jstr" where
  "displayAuthorizedJid jid = (let phone = take (length jid - length whatsapp_jid_suffix) jid
     in if length phone \<le> 4 then bullets else take 2 phone @ bullets @ drop (length phone - 4) phone)"

section \<open>One canonical form\<close>

lemma suffix_starts: "\<exists>ys. whatsapp_jid_suffix = 64 # ys"
  by (simp add: whatsapp_jid_suffix_def js_def)

lemma number_digits: "number_of_length lo hi s \<Longrightarrow> list_all is_digit s \<and> s \<noteq> [] \<and> hd s \<noteq> 48 \<and> length s \<le> hi + 1"
  by (auto simp: number_of_length_def is_nonzero_digit_def split: list.splits)

lemma digit_plain: "is_digit c \<Longrightarrow> c \<noteq> 64 \<and> c \<noteq> 46 \<and> c \<noteq> 58 \<and> \<not> is_space c"
  by (auto simp: is_digit_def is_space_def)

lemma trim_canonical:
  assumes "list_all is_digit ds"
  shows "trim (ds @ whatsapp_jid_suffix) = ds @ whatsapp_jid_suffix"
proof (rule trim_no_space)
  have "list_all (\<lambda>c. \<not> is_space c) whatsapp_jid_suffix"
    by (simp add: whatsapp_jid_suffix_def js_def is_space_def)
  with assms show "list_all (\<lambda>c. \<not> is_space c) (ds @ whatsapp_jid_suffix)"
    using digit_plain by (auto simp: list_all_iff)
qed

lemma local_canonical: "list_all is_digit ds \<Longrightarrow> local_part (ds @ whatsapp_jid_suffix) = ds"
proof -
  assume ds: "list_all is_digit ds"
  obtain ys where ys: "whatsapp_jid_suffix = 64 # ys" using suffix_starts by blast
  have "takeWhile (\<lambda>c. c \<noteq> 64) (ds @ whatsapp_jid_suffix) = ds"
    using ds digit_plain by (auto simp: ys list_all_iff takeWhile_append)
  moreover have "takeWhile (\<lambda>c. c \<noteq> 46 \<and> c \<noteq> 58) ds = ds" using ds digit_plain by (auto simp: list_all_iff takeWhile_eq_all_conv)
  ultimately show ?thesis by (simp add: local_part_def)
qed

lemma normalize_fixed:
  assumes "number_of_length 6 14 ds"
  shows "normalizeAuthorizedJid configured (ds @ whatsapp_jid_suffix) = Some (ds @ whatsapp_jid_suffix)"
proof -
  have ds: "list_all is_digit ds" "ds \<noteq> []" "hd ds \<noteq> 48" using number_digits [OF assms] by auto
  then have "filter is_digit ds = ds" by (simp add: list_all_iff filter_id_conv)
  moreover have "national_digits configured ds = ds"
    using ds(2,3) by (cases ds) (auto simp: national_digits_def take_Cons')
  ultimately show ?thesis
    using assms by (simp add: normalizeAuthorizedJid_def trim_canonical [OF ds(1)] local_canonical [OF ds(1)])
qed

text \<open>Normalising is a retraction onto the canonical JIDs: what it returns is the digits of an international
  number of seven to fifteen digits before \<open>@s.whatsapp.net\<close>, and normalising that again, under whatever country
  code the process is configured with by then, returns it unchanged. So a stored canonical list reads back as itself.\<close>

theorem canonical_jid_stable:
  assumes "normalizeAuthorizedJid configured v = Some jid"
  shows "normalizeAuthorizedJid configured' jid = Some jid
    \<and> (\<exists>ds. jid = ds @ whatsapp_jid_suffix \<and> number_of_length 6 14 ds)"
proof -
  from assms obtain ds where "number_of_length 6 14 ds" "jid = ds @ whatsapp_jid_suffix"
    by (auto simp: normalizeAuthorizedJid_def Let_def split: if_splits)
  then show ?thesis using normalize_fixed by blast
qed

lemma canonical_jid_stable_witness:
  "normalizeAuthorizedJid (Some (js ''1'')) (js ''62899123456'' @ whatsapp_jid_suffix) = Some (js ''62899123456'' @ whatsapp_jid_suffix)"
proof -
  have "normalizeAuthorizedJid None (js '' 0899-123-456'') = Some (js ''62899123456'' @ whatsapp_jid_suffix)"
    by (simp add: normalizeAuthorizedJid_def local_part_def national_digits_def countryCode_def fallback_country_code_def number_of_length_def
        is_nonzero_digit_def is_digit_def trim_def trim_start_def trim_end_def is_space_def js_def Let_def)
  from canonical_jid_stable [OF this] show ?thesis by blast
qed

lemma canonical_jids_stored: "(\<And>j. j \<in> set js' \<Longrightarrow> normalizeAuthorizedJid c j = Some j) \<Longrightarrow> canonical_jids c (map JStr js') = js'"
  by (induction js') auto

lemma canonical_jids_members: "j \<in> set (canonical_jids c vs) \<Longrightarrow> \<exists>v. normalizeAuthorizedJid c v = Some j"
  by (induction c vs rule: canonical_jids.induct) (auto split: option.splits)

end
