(* ===== verification/OutputGate.thy ===== *)
theory OutputGate
  imports Summarize
begin

text \<open>
  The gate every model answer passes before it can become a message
  (\<open>apps/web/src/server/ai/sanitize-whatsapp.ts\<close>). The regular expressions are deterministic here because
  each repeated class excludes what must follow it; a match is a position and the text consumed.
  \<open>nfc\<close> is the runtime's canonical composition.
\<close>

section \<open>Normalisation\<close>

definition max_scalars :: nat where "max_scalars = 3500"

definition is_control :: "nat \<Rightarrow> bool" where
  "is_control c \<longleftrightarrow> c \<le> 8 \<or> c = 11 \<or> c = 12 \<or> (14 \<le> c \<and> c \<le> 31) \<or> (127 \<le> c \<and> c \<le> 159)"

definition forbidden_format :: "nat \<Rightarrow> bool" where
  "forbidden_format c \<longleftrightarrow> c = 173 \<or> c = 1564 \<or> c = 6158 \<or> (8203 \<le> c \<and> c \<le> 8207) \<or> (8234 \<le> c \<and> c \<le> 8238)
     \<or> (8288 \<le> c \<and> c \<le> 8303) \<or> c = 65279"

text \<open>Removal under the \<open>u\<close> flag is per code point; what is removed is always a single unit.\<close>

definition drop_points :: "(nat \<Rightarrow> bool) \<Rightarrow> jstr \<Rightarrow> jstr" where
  "drop_points P s = concat (filter (\<lambda>p. case p of [c] \<Rightarrow> \<not> P c | _ \<Rightarrow> True) (code_points s))"

definition lone_surrogate :: "nat \<Rightarrow> bool" where
  "lone_surrogate c \<longleftrightarrow> is_high_surrogate c \<or> is_low_surrogate c"

definition normalizeUntrustedText :: "(jstr \<Rightarrow> jstr) \<Rightarrow> jstr \<Rightarrow> jstr" where
  "normalizeUntrustedText nfc v = drop_points lone_surrogate (drop_points forbidden_format (drop_points is_control (nfc v)))"

definition clipScalars :: "jstr \<Rightarrow> nat \<Rightarrow> jstr \<times> bool" where
  "clipScalars v maximum = (if length v \<le> maximum then (v, False)
     else (concat (take maximum (code_points (take (maximum * 2) v))), True))"

text \<open>\<open>/\n[\t ]*\n(?:[\t ]*\n)+/\<close>: two or more further blank lines after a line end become one.\<close>

fun skip_blank_lines :: "nat \<Rightarrow> jstr \<Rightarrow> nat \<times> jstr" where
  "skip_blank_lines 0 s = (0, s)"
| "skip_blank_lines (Suc fuel) s =
    (case dropWhile (\<lambda>c. c = 9 \<or> c = 32) s of
       [] \<Rightarrow> (0, s)
     | c # rest \<Rightarrow> if c = 10 then (let (n, r) = skip_blank_lines fuel rest in (Suc n, r)) else (0, s))"

lemma skip_blank_length: "length (snd (skip_blank_lines fuel s)) \<le> length s"
proof (induction fuel s rule: skip_blank_lines.induct)
  case (2 fuel s)
  have "length (dropWhile (\<lambda>c. c = 9 \<or> c = 32) s) \<le> length s" by (rule length_dropWhile_le)
  with 2 show ?case by (fastforce split: list.splits prod.splits)
qed simp

function collapse_blank :: "jstr \<Rightarrow> jstr" where
  "collapse_blank [] = []"
| "collapse_blank (c # cs) =
    (if c = 10 then (let (n, rest) = skip_blank_lines (length cs) cs
                     in if 2 \<le> n then [10, 10] @ collapse_blank rest else c # collapse_blank cs)
     else c # collapse_blank cs)"
  by pat_completeness auto
termination
  by (relation "measure length") (auto simp: less_Suc_eq_le, metis skip_blank_length snd_conv)

section \<open>Links and schemes\<close>

text \<open>Under \<open>iu\<close> the letters include U+017F and U+212A, whose case folds are \<open>s\<close> and \<open>k\<close>.\<close>

definition letter :: "nat \<Rightarrow> bool" where
  "letter c \<longleftrightarrow> is_upper c \<or> is_lower c \<or> c = 383 \<or> c = 8490"

definition word_unit :: "nat \<Rightarrow> bool" where
  "word_unit c \<longleftrightarrow> letter c \<or> is_digit c \<or> c = 95"

definition scheme_unit :: "nat \<Rightarrow> bool" where
  "scheme_unit c \<longleftrightarrow> letter c \<or> is_digit c \<or> c \<in> {43, 46, 45}"

definition url_stop :: "nat \<Rightarrow> bool" where
  "url_stop c \<longleftrightarrow> is_space c \<or> c \<in> {60, 62, 34, 39, 96}"

record url_match =
  um_start :: nat
  um_scheme :: jstr
  um_text :: jstr

text \<open>A match at one position, given the unit before it: \<open>\b\<close> before a letter.\<close>

definition boundary :: "nat option \<Rightarrow> bool" where
  "boundary prev \<longleftrightarrow> (case prev of None \<Rightarrow> True | Some c \<Rightarrow> \<not> word_unit c)"

definition url_at :: "nat option \<Rightarrow> jstr \<Rightarrow> (jstr \<times> jstr) option" where
  "url_at prev s =
    (let scheme = takeWhile scheme_unit s; rest = drop (length scheme) s; body = takeWhile (\<lambda>c. \<not> url_stop c) (drop 3 rest)
     in if s \<noteq> [] \<and> letter (hd s) \<and> boundary prev \<and> take 3 rest = [58, 47, 47] \<and> body \<noteq> []
        then Some (scheme, scheme @ [58, 47, 47] @ body) else None)"

definition scheme_at :: "nat option \<Rightarrow> jstr \<Rightarrow> (jstr \<times> jstr) option" where
  "scheme_at prev s =
    (let scheme = takeWhile scheme_unit s; rest = drop (length scheme) s
     in if s \<noteq> [] \<and> letter (hd s) \<and> boundary prev \<and> take 1 rest = [58]
           \<and> drop 1 rest \<noteq> [] \<and> \<not> is_space (hd (drop 1 rest))
        then Some (scheme, scheme @ [58] @ hd (code_points (drop 1 rest))) else None)"

text \<open>\<open>toLowerCase\<close> on the letters a scheme can have; U+212A lowers to \<open>k\<close>.\<close>

definition lower_unit :: "nat \<Rightarrow> nat" where
  "lower_unit c = (if c = 8490 then 107 else to_lower c)"

text \<open>\<open>matchAll\<close>: the next search begins where the last match ended; a match is never empty.\<close>

function scan :: "(nat option \<Rightarrow> jstr \<Rightarrow> (jstr \<times> jstr) option) \<Rightarrow> nat \<Rightarrow> nat option \<Rightarrow> jstr \<Rightarrow> url_match list" where
  "scan matcher pos prev [] = []"
| "scan matcher pos prev (c # cs) =
    (case matcher prev (c # cs) of
       None \<Rightarrow> scan matcher (Suc pos) (Some c) cs
     | Some (scheme, text) \<Rightarrow>
       \<lparr>um_start = pos, um_scheme = map lower_unit scheme, um_text = text\<rparr>
         # (if text = [] then scan matcher (Suc pos) (Some c) cs
            else scan matcher (pos + length text) (Some (last text)) (drop (length text) (c # cs))))"
  by pat_completeness auto
termination by (relation "measure (\<lambda>(_, _, _, s). length s)") (auto simp: Suc_le_eq)

definition absolute_urls :: "jstr \<Rightarrow> url_match list" where
  "absolute_urls s = scan url_at 0 None s"

definition bare_schemes :: "jstr \<Rightarrow> url_match list" where
  "bare_schemes s = scan scheme_at 0 None s"

definition sourceLinksOf :: "jstr list \<Rightarrow> jstr set" where
  "sourceLinksOf vs = (\<Union>v \<in> set vs. um_text ` set (absolute_urls v))"

section \<open>Markup\<close>

fun matches_somewhere :: "(jstr \<Rightarrow> bool) \<Rightarrow> jstr \<Rightarrow> bool" where
  "matches_somewhere P [] = P []"
| "matches_somewhere P (c # cs) = (P (c # cs) \<or> matches_somewhere P cs)"

definition model_control :: "jstr \<Rightarrow> bool" where
  "model_control s \<longleftrightarrow> 65372 \<in> set s \<or> contains [60, 124] s"

definition tag_at :: "jstr \<Rightarrow> bool" where
  "tag_at s \<longleftrightarrow> take 1 s = [60] \<and>
    (let after = drop 1 s; name = (if take 1 after = [47] then drop 1 after else after);
         rest = dropWhile (\<lambda>c. letter c \<or> is_digit c \<or> c = 45) name
     in name \<noteq> [] \<and> letter (hd name) \<and>
        ((rest \<noteq> [] \<and> is_space (hd rest) \<and> take 1 (dropWhile (\<lambda>c. c \<noteq> 60 \<and> c \<noteq> 62) (tl rest)) = [62])
         \<or> take 1 (if take 1 rest = [47] then drop 1 rest else rest) = [62]))"

definition link_at :: "jstr \<Rightarrow> bool" where
  "link_at s \<longleftrightarrow> take 1 s = [91] \<and>
    (let rest = dropWhile (\<lambda>c. c \<noteq> 93 \<and> c \<noteq> 10) (drop 1 s)
     in take 2 rest = [93, 40] \<and> take 1 (dropWhile (\<lambda>c. c \<noteq> 41 \<and> c \<noteq> 10) (drop 2 rest)) = [41])"

section \<open>The gate\<close>

datatype output_code = Empty_output | Unsafe_link | Unsafe_markup | Unsafe_json | Model_markup

datatype sanitized = Sanitized jstr | Refused output_code

text \<open>
  What \<open>JSON.parse\<close> accepts, by recursive descent; a reader returns the text after what it read. The
  fuel is the length of the text, which every nested value consumes.
\<close>

definition skip_ws :: "jstr \<Rightarrow> jstr" where
  "skip_ws s = dropWhile (\<lambda>c. c \<in> {32, 9, 10, 13}) s"

definition hex_unit :: "nat \<Rightarrow> bool" where
  "hex_unit c \<longleftrightarrow> is_digit c \<or> (65 \<le> c \<and> c \<le> 70) \<or> (97 \<le> c \<and> c \<le> 102)"

fun read_string :: "jstr \<Rightarrow> jstr option" where
  "read_string [] = None"
| "read_string (c # cs) =
    (if c = 34 then Some cs
     else if c < 32 then None
     else if c = 92 then
       (case cs of [] \<Rightarrow> None
        | e # es \<Rightarrow> if e \<in> {34, 92, 47, 98, 102, 110, 114, 116} then read_string es
            else if e = 117 \<and> length es \<ge> 4 \<and> list_all hex_unit (take 4 es)
              then (case es of _ # _ # _ # _ # rest \<Rightarrow> read_string rest | _ \<Rightarrow> None) else None)
     else read_string cs)"

definition read_digits :: "jstr \<Rightarrow> jstr option" where
  "read_digits s = (if s \<noteq> [] \<and> is_digit (hd s) then Some (dropWhile is_digit s) else None)"

definition read_number :: "jstr \<Rightarrow> jstr option" where
  "read_number s =
    (let body = (if take 1 s = [45] then drop 1 s else s);
         whole = (if take 1 body = [48] then Some (drop 1 body) else read_digits body);
         fraction = Option.bind whole (\<lambda>r. if take 1 r = [46] then read_digits (drop 1 r) else Some r)
     in Option.bind fraction (\<lambda>r. if take 1 r = [101] \<or> take 1 r = [69]
          then read_digits (if take 1 (drop 1 r) = [43] \<or> take 1 (drop 1 r) = [45] then drop 2 r else drop 1 r) else Some r))"

definition read_word :: "string \<Rightarrow> jstr \<Rightarrow> jstr option" where
  "read_word w s = (if take (length w) s = js w then Some (drop (length w) s) else None)"

fun read_value :: "nat \<Rightarrow> jstr \<Rightarrow> jstr option"
  and read_items :: "nat \<Rightarrow> jstr \<Rightarrow> jstr option"
  and read_members :: "nat \<Rightarrow> jstr \<Rightarrow> jstr option" where
  "read_value 0 s = None"
| "read_value (Suc n) s =
    (case skip_ws s of
       [] \<Rightarrow> None
     | c # cs \<Rightarrow>
       if c = 123 then (if take 1 (skip_ws cs) = [125] then Some (tl (skip_ws cs)) else read_members n cs)
       else if c = 91 then (if take 1 (skip_ws cs) = [93] then Some (tl (skip_ws cs)) else read_items n cs)
       else if c = 34 then read_string cs
       else if c = 116 then read_word ''true'' (c # cs)
       else if c = 102 then read_word ''false'' (c # cs)
       else if c = 110 then read_word ''null'' (c # cs)
       else read_number (c # cs))"
| "read_items 0 s = None"
| "read_items (Suc n) s =
    (case map_option skip_ws (read_value n s) of
       Some (c # rest) \<Rightarrow> if c = 44 then read_items n rest else if c = 93 then Some rest else None
     | _ \<Rightarrow> None)"
| "read_members 0 s = None"
| "read_members (Suc n) s =
    (case skip_ws s of
       c # cs \<Rightarrow> if c \<noteq> 34 then None else
         (case map_option skip_ws (read_string cs) of
            Some (k # rest) \<Rightarrow> if k \<noteq> 58 then None else
              (case map_option skip_ws (read_value n rest) of
                 Some (e # rest') \<Rightarrow> if e = 44 then read_members n rest' else if e = 125 then Some rest' else None
               | _ \<Rightarrow> None)
          | _ \<Rightarrow> None)
     | [] \<Rightarrow> None)"

definition json_parses :: "jstr \<Rightarrow> bool" where
  "json_parses s \<longleftrightarrow> map_option skip_ws (read_value (2 * length s + 2) s) = Some []"

definition looksLikeToolJson :: "jstr \<Rightarrow> bool" where
  "looksLikeToolJson s \<longleftrightarrow> (take 1 s = [123] \<or> take 1 s = [91]) \<and> json_parses s"

definition invite_link :: "jstr \<Rightarrow> bool" where
  "invite_link link \<longleftrightarrow> (let s = map (\<lambda>c. if c = 383 then 115 else to_lower c) link in
     take 13 s = js ''http://wa.me/'' \<or> take 14 s = js ''https://wa.me/'')"

definition url_refused :: "jstr set \<Rightarrow> url_match \<Rightarrow> bool" where
  "url_refused links u \<longleftrightarrow> (um_scheme u \<noteq> js ''https'' \<and> um_scheme u \<noteq> js ''http'')
     \<or> (invite_link (um_text u) \<and> um_text u \<notin> links)"

definition allowed_schemes :: "jstr list" where
  "allowed_schemes = [js ''http'', js ''https'', js ''mailto'', js ''tel'']"

definition within_url :: "url_match list \<Rightarrow> url_match \<Rightarrow> bool" where
  "within_url urls m \<longleftrightarrow> (\<exists>u \<in> set urls. um_start u \<le> um_start m \<and> um_start m < um_start u + length (um_text u))"

definition gate_text :: "(jstr \<Rightarrow> jstr) \<Rightarrow> jstr \<Rightarrow> jstr" where
  "gate_text nfc v = trim (collapse_blank (normalizeUntrustedText nfc v))"

definition sanitizeWhatsAppOutput :: "(jstr \<Rightarrow> jstr) \<Rightarrow> jstr set \<Rightarrow> jstr \<Rightarrow> sanitized" where
  "sanitizeWhatsAppOutput nfc links v =
    (let text = gate_text nfc v; urls = absolute_urls text
     in if text = [] then Refused Empty_output
        else if model_control text then Refused Model_markup
        else if \<exists>u \<in> set urls. url_refused links u then Refused Unsafe_link
        else if looksLikeToolJson text then Refused Unsafe_json
        else if \<exists>m \<in> set (bare_schemes text). \<not> within_url urls m \<and> um_scheme m \<notin> set allowed_schemes then Refused Unsafe_link
        else if matches_somewhere tag_at text \<or> matches_somewhere link_at text then Refused Unsafe_markup
        else Sanitized (fst (clipScalars text max_scalars)))"

end
