(* ===== verification/OutputGateProps.thy ===== *)
theory OutputGateProps
  imports OutputGate SummarizeProps
begin

text \<open>
  What passes the gate: bounded text without control or format characters, without provider markup,
  whose absolute links are web links and whose invites the evidence supplied; and what the gate does not
  look at, every other link.
\<close>

section \<open>What each stage leaves\<close>

lemma drop_points_set: "set (drop_points P s) \<subseteq> set s"
proof -
  have "set (concat (filter Q ps)) \<subseteq> set (concat ps)" for Q and ps :: "jstr list" by auto
  from this [of _ "code_points s"] show ?thesis unfolding drop_points_def concat_code_points .
qed

lemma drop_points_clean:
  assumes "\<And>c. P c \<Longrightarrow> \<not> is_high_surrogate c \<and> \<not> is_low_surrogate c" "c \<in> set (drop_points P s)"
  shows "\<not> P c"
proof -
  from assms(2) obtain p where p: "p \<in> set (code_points s)" "case p of [c] \<Rightarrow> \<not> P c | _ \<Rightarrow> True" "c \<in> set p"
    by (auto simp: drop_points_def)
  with code_points_shape [OF p(1)] assms(1) show ?thesis by auto
qed

lemma skip_blank_suffix: "\<exists>pre. s = pre @ snd (skip_blank_lines fuel s)"
proof (induction fuel s rule: skip_blank_lines.induct)
  case (2 fuel s)
  show ?case
  proof (cases "dropWhile (\<lambda>c. c = 9 \<or> c = 32) s")
    case (Cons c rest)
    have s: "s = takeWhile (\<lambda>c. c = 9 \<or> c = 32) s @ c # rest" using Cons by (metis takeWhile_dropWhile_id)
    show ?thesis
    proof (cases "c = 10")
      case True
      obtain pre where "rest = pre @ snd (skip_blank_lines fuel rest)" using 2 [OF Cons True] by blast
      then have "s = (takeWhile (\<lambda>c. c = 9 \<or> c = 32) s @ c # pre) @ snd (skip_blank_lines fuel rest)" using s by (metis append.assoc append_Cons)
      then have "\<exists>pre. s = pre @ snd (skip_blank_lines fuel rest)" by blast
      then show ?thesis using Cons True by (simp add: case_prod_beta)
    qed (simp add: Cons)
  next
    case Nil
    then have "snd (skip_blank_lines (Suc fuel) s) = s" by (simp only: skip_blank_lines.simps list.case snd_conv)
    then show ?thesis by (metis append_Nil)
  qed
qed simp

lemma collapse_blank_set: "set (collapse_blank s) \<subseteq> insert 10 (set s)"
proof (induction s rule: collapse_blank.induct)
  case (2 c cs)
  let ?r = "skip_blank_lines (length cs) cs"
  have "set (snd ?r) \<subseteq> set cs" using skip_blank_suffix [of cs "length cs"] by (metis Un_upper2 set_append)
  moreover have "set (collapse_blank (snd ?r)) \<subseteq> insert 10 (set (snd ?r))" if "c = 10" "2 \<le> fst ?r"
    using 2(1) [OF that(1) _ refl that(2)] by (metis prod.collapse)
  moreover have "set (collapse_blank cs) \<subseteq> insert 10 (set cs)" if "c = 10" "\<not> 2 \<le> fst ?r"
    using 2(2) [OF that(1) _ refl that(2)] by (metis prod.collapse)
  moreover have "set (collapse_blank cs) \<subseteq> insert 10 (set cs)" if "c \<noteq> 10" by (rule 2(3) [OF that])
  ultimately show ?case by (cases "c = 10"; cases "2 \<le> fst ?r") (simp_all add: case_prod_beta, blast+)
qed simp

definition visible :: "nat \<Rightarrow> bool" where
  "visible c \<longleftrightarrow> \<not> is_control c \<and> \<not> forbidden_format c"

lemma gate_text_visible: "c \<in> set (gate_text nfc v) \<Longrightarrow> visible c"
proof -
  let ?a = "drop_points is_control (nfc v)"
  let ?b = "drop_points forbidden_format ?a"
  assume "c \<in> set (gate_text nfc v)"
  then have "c = 10 \<or> c \<in> set (drop_points lone_surrogate ?b)"
    using trim_subset collapse_blank_set by (fastforce simp: gate_text_def normalizeUntrustedText_def)
  moreover have "\<not> is_control c" if "c \<in> set ?a"
    by (rule drop_points_clean [OF _ that]) (auto simp: is_control_def is_high_surrogate_def is_low_surrogate_def)
  moreover have "\<not> forbidden_format c" if "c \<in> set ?b"
    by (rule drop_points_clean [OF _ that]) (auto simp: forbidden_format_def is_high_surrogate_def is_low_surrogate_def)
  moreover have "visible 10" by (simp add: visible_def is_control_def forbidden_format_def)
  ultimately show ?thesis using drop_points_set unfolding visible_def by blast
qed

lemma code_points_length: "length (code_points s) \<le> length s"
  by (induction s rule: code_points.induct) auto

lemma clip_prefix: "\<exists>zs. s = fst (clipScalars s n) @ zs"
proof (cases "length s \<le> n")
  case False
  obtain zs where "take (n * 2) s = concat (take n (code_points (take (n * 2) s))) @ zs"
    using code_points_prefix [of "take (n * 2) s" n] by blast
  then have "s = concat (take n (code_points (take (n * 2) s))) @ zs @ drop (n * 2) s"
    by (metis append.assoc append_take_drop_id)
  with False show ?thesis by (auto simp: clipScalars_def)
qed (simp add: clipScalars_def)

lemma clip_bound: "scalars (fst (clipScalars s n)) \<le> n"
  using le_trans [OF code_points_length [of s]] by (simp add: clipScalars_def scalars_def code_points_take)

lemma clip_nonempty: "s \<noteq> [] \<Longrightarrow> 0 < n \<Longrightarrow> fst (clipScalars s n) \<noteq> []"
proof -
  assume "s \<noteq> []" "0 < n"
  then obtain c cs where "take (n * 2) s = c # cs" by (cases s; cases n) auto
  moreover from \<open>0 < n\<close> obtain m where "n = Suc m" by (cases n) auto
  ultimately show ?thesis using \<open>s \<noteq> []\<close>
    by (cases cs) (auto simp: clipScalars_def)
qed

lemma contains_append: "contains needle xs \<Longrightarrow> contains needle (xs @ ys)"
proof (induction xs)
  case Nil
  then show ?case by (cases ys) simp_all
next
  case (Cons x xs)
  show ?case
  proof (cases "take (length needle) (x # xs) = needle")
    case True
    then have "length needle \<le> length (x # xs)" by (metis length_take min.cobounded1 min_def nat_le_linear)
    with True have "take (length needle) ((x # xs) @ ys) = needle" by (simp only: take_append) simp
    then show ?thesis by (metis append_Cons contains.simps(2))
  next
    case False
    with Cons show ?thesis by (metis append_Cons contains.simps(2))
  qed
qed

lemma model_control_prefix: "model_control xs \<Longrightarrow> model_control (xs @ ys)"
  using contains_append by (auto simp: model_control_def)

section \<open>Markup, as it is written\<close>

text \<open>A tag and a markdown link as words of their own, against which the two scanners are judged.\<close>

definition html_tag :: "jstr \<Rightarrow> bool" where
  "html_tag w \<longleftrightarrow> (\<exists>slash name attributes closing. w = [60] @ slash @ name @ attributes @ closing @ [62]
     \<and> (slash = [] \<or> slash = [47]) \<and> (closing = [] \<or> closing = [47])
     \<and> name \<noteq> [] \<and> letter (hd name) \<and> list_all (\<lambda>c. letter c \<or> is_digit c \<or> c = 45) name
     \<and> (attributes = [] \<or> is_space (hd attributes)) \<and> 60 \<notin> set attributes \<and> 62 \<notin> set attributes)"

definition markdown_link :: "jstr \<Rightarrow> bool" where
  "markdown_link w \<longleftrightarrow> (\<exists>label target. w = [91] @ label @ [93, 40] @ target @ [41]
     \<and> 93 \<notin> set label \<and> 10 \<notin> set label \<and> 41 \<notin> set target \<and> 10 \<notin> set target)"

definition occurs_in :: "(jstr \<Rightarrow> bool) \<Rightarrow> jstr \<Rightarrow> bool" where
  "occurs_in P s \<longleftrightarrow> (\<exists>before_it w after_it. s = before_it @ w @ after_it \<and> P w)"

lemma matches_somewhere_iff: "matches_somewhere P s \<longleftrightarrow> (\<exists>xs ys. s = xs @ ys \<and> P ys)"
proof (induction s)
  case (Cons c cs)
  show ?case
  proof
    assume "matches_somewhere P (c # cs)"
    then consider "P (c # cs)" | "\<exists>xs ys. cs = xs @ ys \<and> P ys" using Cons by auto
    then show "\<exists>xs ys. c # cs = xs @ ys \<and> P ys" by cases (metis append_Nil, metis append_Cons)
  next
    assume "\<exists>xs ys. c # cs = xs @ ys \<and> P ys"
    then obtain xs ys where "c # cs = xs @ ys" "P ys" by blast
    then show "matches_somewhere P (c # cs)" using Cons by (cases xs) auto
  qed
qed simp

lemma occurs_in_scanned:
  assumes "occurs_in W s" and "\<And>w rest. W w \<Longrightarrow> P (w @ rest)"
  shows "matches_somewhere P (s @ extra)"
  using assms unfolding matches_somewhere_iff occurs_in_def by (metis append.assoc)

lemma not_name_unit: "is_space c \<Longrightarrow> \<not> (letter c \<or> is_digit c \<or> c = 45)"
  by (auto simp: is_space_def letter_def is_upper_def is_lower_def is_digit_def)

lemma tag_scanned: "html_tag w \<Longrightarrow> tag_at (w @ rest)"
proof -
  assume "html_tag w"
  then obtain slash name attributes closing where
    w: "w = [60] @ slash @ name @ attributes @ closing @ [62]" and sl: "slash = [] \<or> slash = [47]" and cl: "closing = [] \<or> closing = [47]"
    and n: "name \<noteq> []" "letter (hd name)" "list_all (\<lambda>c. letter c \<or> is_digit c \<or> c = 45) name"
    and at: "attributes = [] \<or> is_space (hd attributes)" "60 \<notin> set attributes" "62 \<notin> set attributes"
    by (auto simp: html_tag_def)
  let ?unit = "\<lambda>c. letter c \<or> is_digit c \<or> c = 45"
  let ?tail = "attributes @ closing @ 62 # rest"
  have hd: "hd name \<noteq> 47" using n(2) by (auto simp: letter_def is_upper_def is_lower_def)
  have units: "\<not> ?unit 47" "\<not> ?unit 62" by (auto simp: letter_def is_upper_def is_lower_def is_digit_def)
  have stop: "dropWhile ?unit ?tail = ?tail"
  proof (cases attributes)
    case Nil
    with cl units show ?thesis by auto
  next
    case (Cons c cs)
    with at(1) have "is_space c" by simp
    from not_name_unit [OF this] Cons show ?thesis by simp
  qed
  have name: "dropWhile ?unit (name @ ?tail) = ?tail"
    using n(3) stop by (subst dropWhile_append2) (auto simp: list_all_iff)
  have after: "(if take 1 (slash @ name @ ?tail) = [47] then drop 1 (slash @ name @ ?tail) else slash @ name @ ?tail) = name @ ?tail"
    using sl hd n(1) by (cases name) auto
  have ends: "attributes \<noteq> [] \<Longrightarrow> take 1 (dropWhile (\<lambda>c. c \<noteq> 60 \<and> c \<noteq> 62) (tl ?tail)) = [62]"
  proof -
    assume "attributes \<noteq> []"
    then obtain c cs where c: "attributes = c # cs" by (cases attributes) auto
    have "dropWhile (\<lambda>c. c \<noteq> 60 \<and> c \<noteq> 62) (cs @ closing @ 62 # rest) = 62 # rest"
      using at(2,3) cl unfolding c by (subst dropWhile_append2) auto
    then show "take 1 (dropWhile (\<lambda>c. c \<noteq> 60 \<and> c \<noteq> 62) (tl ?tail)) = [62]" by (simp add: c)
  qed
  have parts: "take 1 (w @ rest) = [60]" "drop 1 (w @ rest) = slash @ name @ ?tail" by (simp_all add: w)
  have "(?tail \<noteq> [] \<and> is_space (hd ?tail) \<and> take 1 (dropWhile (\<lambda>c. c \<noteq> 60 \<and> c \<noteq> 62) (tl ?tail)) = [62])
      \<or> take 1 (if take 1 ?tail = [47] then drop 1 ?tail else ?tail) = [62]"
  proof (cases "attributes = []")
    case True
    with cl show ?thesis by auto
  next
    case False
    with at(1) ends show ?thesis by (auto simp: hd_append)
  qed
  moreover have "name @ ?tail \<noteq> []" "letter (hd (name @ ?tail))" using n(1,2) by (simp_all add: hd_append)
  ultimately show ?thesis unfolding tag_at_def Let_def parts after name by blast
qed

lemma link_scanned: "markdown_link w \<Longrightarrow> link_at (w @ rest)"
proof -
  assume "markdown_link w"
  then obtain label target where w: "w = [91] @ label @ [93, 40] @ target @ [41]"
    and l: "93 \<notin> set label" "10 \<notin> set label" "41 \<notin> set target" "10 \<notin> set target" by (auto simp: markdown_link_def)
  have "dropWhile (\<lambda>c. c \<noteq> 93 \<and> c \<noteq> 10) (label @ 93 # 40 # target @ 41 # rest) = 93 # 40 # target @ 41 # rest"
    using l(1,2) by (subst dropWhile_append2) auto
  moreover have "dropWhile (\<lambda>c. c \<noteq> 41 \<and> c \<noteq> 10) (target @ 41 # rest) = 41 # rest"
    using l(3,4) by (subst dropWhile_append2) auto
  ultimately show ?thesis by (simp add: link_at_def w Let_def)
qed

section \<open>The gate's promises\<close>

text \<open>C16: Nothing reaches WhatsApp but plain, bounded, visible text. Whatever the model wrote, a passed text is a
  non-empty prefix of the normalised answer of at most 3500 code points; it has no control or invisible format
  character, no provider control token, and contains no HTML tag and no markdown link. In the whole normalised answer, which is no
  JSON document, every absolute URL is a web link, every other scheme token is one of the four allowed, and every \<open>wa.me\<close> address is one
  the evidence carried. A refused answer yields no text at all.\<close>

theorem passed_text_is_plain:
  "case sanitizeWhatsAppOutput nfc links v of
     Refused code \<Rightarrow> True
   | Sanitized t \<Rightarrow> t \<noteq> [] \<and> scalars t \<le> max_scalars \<and> list_all visible t \<and> \<not> model_control t
       \<and> \<not> occurs_in html_tag t \<and> \<not> occurs_in markdown_link t
       \<and> (\<exists>rest. gate_text nfc v = t @ rest) \<and> \<not> looksLikeToolJson (gate_text nfc v)
       \<and> list_all (\<lambda>u. um_scheme u \<in> {js ''https'', js ''http''} \<and> (invite_link (um_text u) \<longrightarrow> um_text u \<in> links))
           (absolute_urls (gate_text nfc v))
       \<and> list_all (\<lambda>m. within_url (absolute_urls (gate_text nfc v)) m
             \<or> um_scheme m \<in> {js ''http'', js ''https'', js ''mailto'', js ''tel''}) (bare_schemes (gate_text nfc v))"
proof (cases "sanitizeWhatsAppOutput nfc links v")
  case (Sanitized t)
  let ?text = "gate_text nfc v"
  have ok: "?text \<noteq> []" "\<not> model_control ?text" "\<forall>u \<in> set (absolute_urls ?text). \<not> url_refused links u"
    "t = fst (clipScalars ?text max_scalars)" "\<not> looksLikeToolJson ?text"
    "\<forall>m \<in> set (bare_schemes ?text). within_url (absolute_urls ?text) m \<or> um_scheme m \<in> set allowed_schemes"
    "\<not> matches_somewhere tag_at ?text" "\<not> matches_somewhere link_at ?text"
    using Sanitized by (auto simp: sanitizeWhatsAppOutput_def Let_def split: if_splits)
  obtain rest where rest: "?text = t @ rest" using clip_prefix ok(4) by blast
  have "list_all visible t"
    unfolding list_all_iff using gate_text_visible [of _ nfc v] rest by (metis UnCI set_append)
  moreover have "t \<noteq> []" using clip_nonempty [OF ok(1)] ok(4) by (simp add: max_scalars_def)
  moreover have "scalars t \<le> max_scalars" using clip_bound ok(4) by simp
  moreover have "\<not> model_control t" using ok(2) rest model_control_prefix by metis
  moreover have "\<not> occurs_in html_tag t" using occurs_in_scanned [of html_tag t tag_at rest] tag_scanned ok(7) rest by metis
  moreover have "\<not> occurs_in markdown_link t" using occurs_in_scanned [of markdown_link t link_at rest] link_scanned ok(8) rest by metis
  moreover have "list_all (\<lambda>u. um_scheme u \<in> {js ''https'', js ''http''} \<and> (invite_link (um_text u) \<longrightarrow> um_text u \<in> links)) (absolute_urls ?text)"
    using ok(3) by (auto simp: list_all_iff url_refused_def)
  moreover have "list_all (\<lambda>m. within_url (absolute_urls ?text) m \<or> um_scheme m \<in> {js ''http'', js ''https'', js ''mailto'', js ''tel''}) (bare_schemes ?text)"
    using ok(6) by (simp add: list_all_iff allowed_schemes_def)
  ultimately show ?thesis using rest ok(5) by (simp add: Sanitized)
qed simp

text \<open>Links the evidence never carried: unless the answer contains a \<open>wa.me\<close> link, the gate's decision and its
  text do not depend on the source links at all, so every other web link passes whether or not the group ever
  supplied it.\<close>

theorem gate_ignores_sources:
  assumes "list_all (\<lambda>u. \<not> invite_link (um_text u)) (absolute_urls (gate_text nfc v))"
  shows "sanitizeWhatsAppOutput nfc links v = sanitizeWhatsAppOutput nfc links' v"
proof -
  have "(\<exists>u \<in> set (absolute_urls (gate_text nfc v)). url_refused links u)
      \<longleftrightarrow> (\<exists>u \<in> set (absolute_urls (gate_text nfc v)). url_refused links' u)"
    using assms by (auto simp: url_refused_def list_all_iff)
  then show ?thesis by (simp add: sanitizeWhatsAppOutput_def Let_def)
qed

definition ex_link :: jstr where "ex_link = js ''http://x''"

lemmas gate_defs = is_control_def forbidden_format_def lone_surrogate_def is_high_surrogate_def is_low_surrogate_def is_space_def
  letter_def word_unit_def scheme_unit_def url_stop_def is_upper_def is_lower_def is_digit_def to_lower_def lower_unit_def boundary_def

lemma ex_link_text: "gate_text id ex_link = ex_link"
  by (simp add: gate_text_def normalizeUntrustedText_def drop_points_def ex_link_def js_def trim_def trim_start_def trim_end_def gate_defs)

lemma ex_link_urls: "absolute_urls ex_link = [\<lparr>um_start = 0, um_scheme = js ''http'', um_text = ex_link\<rparr>]"
  by (simp add: absolute_urls_def url_at_def ex_link_def js_def gate_defs)

lemma ex_link_schemes: "bare_schemes ex_link = [\<lparr>um_start = 0, um_scheme = js ''http'', um_text = js ''http:/''\<rparr>]"
  by (simp add: bare_schemes_def scheme_at_def ex_link_def js_def gate_defs)

lemma ex_link_markup: "\<not> model_control ex_link" "\<not> matches_somewhere tag_at ex_link" "\<not> matches_somewhere link_at ex_link"
  "\<not> looksLikeToolJson ex_link" "\<not> invite_link ex_link"
  by (simp_all add: model_control_def tag_at_def link_at_def looksLikeToolJson_def invite_link_def ex_link_def js_def gate_defs)

lemma ex_link_size: "ex_link \<noteq> []" "0 < length ex_link" "fst (clipScalars ex_link max_scalars) = ex_link"
  by (simp_all add: ex_link_def js_def clipScalars_def max_scalars_def)

lemma ex_link_passes: "sanitizeWhatsAppOutput id {} ex_link = Sanitized ex_link"
  by (simp add: sanitizeWhatsAppOutput_def Let_def ex_link_text ex_link_urls ex_link_schemes ex_link_markup ex_link_size url_refused_def within_url_def)

theorem passed_text_is_plain_witness:
  "ex_link \<noteq> [] \<and> scalars ex_link \<le> max_scalars \<and> list_all visible ex_link \<and> \<not> model_control ex_link
    \<and> \<not> occurs_in html_tag ex_link \<and> \<not> occurs_in markdown_link ex_link"
  using passed_text_is_plain [of id ex_link "{}"] by (simp add: ex_link_passes)

theorem gate_ignores_sources_witness:
  "sanitizeWhatsAppOutput id {[104]} ex_link = Sanitized ex_link"
proof -
  note ex_link_passes
  moreover have "sanitizeWhatsAppOutput id {[104]} ex_link = sanitizeWhatsAppOutput id {} ex_link"
    by (rule gate_ignores_sources) (simp add: ex_link_text ex_link_urls ex_link_markup)
  ultimately show ?thesis by simp
qed

end
