(* ===== verification/Generate.thy ===== *)
theory Generate
  imports OutputGateProps
begin

text \<open>
  One reply from the model (\<open>apps/web/src/server/replies/generate.ts\<close>): at most two attempts, each a
  tool-calling generation that a tool-less one closes when the steps ran out, every answer through the
  output gate. The provider is an argument: what the n-th attempt's calls return or throw, how long it
  took, and which errors are protocol failures.
\<close>

section \<open>Configuration\<close>

record ai_environment =
  av_AI_BASE_URL :: "jstr option"
  av_AI_API_KEY :: "jstr option"
  av_AI_MODEL :: "jstr option"
  av_AI_TOKENIZER :: "jstr option"

record reply_model_config =
  mc_baseURL :: jstr
  mc_apiKey :: jstr
  mc_model :: jstr
  mc_tokenizer :: "jstr option"

definition set_value :: "jstr option \<Rightarrow> jstr option" where
  "set_value v = (case v of Some (c # cs) \<Rightarrow> Some (c # cs) | _ \<Rightarrow> None)"

definition replyModelConfig :: "ai_environment \<Rightarrow> reply_model_config option" where
  "replyModelConfig env = (case (set_value (av_AI_BASE_URL env), set_value (av_AI_API_KEY env), set_value (av_AI_MODEL env)) of
      (Some url, Some key, Some model) \<Rightarrow> Some \<lparr>mc_baseURL = url, mc_apiKey = key, mc_model = model, mc_tokenizer = av_AI_TOKENIZER env\<rparr>
    | _ \<Rightarrow> None)"

section \<open>Usage\<close>

definition no_token_usage :: token_usage where
  "no_token_usage = \<lparr>tu_inputTokens = None, tu_outputTokens = None, tu_totalTokens = None\<rparr>"

definition sum_reported :: "int option \<Rightarrow> int option \<Rightarrow> int option" where
  "sum_reported a b = (if a = None \<and> b = None then None
     else Some ((case a of None \<Rightarrow> 0 | Some x \<Rightarrow> x) + (case b of None \<Rightarrow> 0 | Some y \<Rightarrow> y)))"

definition addUsage :: "token_usage \<Rightarrow> token_usage \<Rightarrow> token_usage" where
  "addUsage spent u = \<lparr>tu_inputTokens = sum_reported (tu_inputTokens spent) (tu_inputTokens u),
     tu_outputTokens = sum_reported (tu_outputTokens spent) (tu_outputTokens u),
     tu_totalTokens = sum_reported (tu_totalTokens spent) (tu_totalTokens u)\<rparr>"

section \<open>Attempts\<close>

record generated_reply =
  gn_text :: jstr
  gn_model :: jstr
  gn_usage :: token_usage

datatype reply_generation = Generated generated_reply | Rejected_output output_code

record model_answer =
  an_text :: jstr
  an_usage :: token_usage
  an_toolCalls :: bool

text \<open>The closing call's answer has only a text and a usage; its finish reason is not read.\<close>

record 'e provider =
  gm_first :: "nat \<Rightarrow> 'e + model_answer"
  gm_closing :: "nat \<Rightarrow> 'e + model_answer"
  gm_elapsed :: "nat \<Rightarrow> int"
  gm_protocol :: "'e \<Rightarrow> bool"
  gm_hasTools :: bool

datatype 'e generation_error = Config_missing | Provider_error 'e

definition generation_attempts :: nat where "generation_attempts = 2"

definition retry_budget_ms :: int where "retry_budget_ms = 45000"

text \<open>One attempt's two calls: the text and the usage spent so far, or the error with the usage spent before it.\<close>

definition attempt_text :: "'e provider \<Rightarrow> nat \<Rightarrow> token_usage \<Rightarrow> ('e \<times> token_usage) + (jstr \<times> token_usage)" where
  "attempt_text p n spent =
    (case gm_first p n of
       Inl e \<Rightarrow> Inl (e, spent)
     | Inr a \<Rightarrow>
       (let spent' = addUsage spent (an_usage a)
        in if gm_hasTools p \<and> an_toolCalls a
           then (case gm_closing p n of
                   Inl e \<Rightarrow> Inl (e, spent')
                 | Inr c \<Rightarrow> Inr (an_text c, addUsage spent' (an_usage c)))
           else Inr (an_text a, spent')))"

text \<open>
  The loop, by the number of attempts left; the value of the exhausted loop is the code's last line. The
  gate depends on the attempt because the tools of the attempts so far have added their links to the
  shared set of source links.
\<close>

fun generate_from ::
  "'e provider \<Rightarrow> (nat \<Rightarrow> jstr \<Rightarrow> sanitized) \<Rightarrow> jstr \<Rightarrow> nat \<Rightarrow> token_usage \<Rightarrow> output_code option \<Rightarrow> 'e + reply_generation" where
  "generate_from p gate model 0 spent refusal = Inr (Rejected_output (case refusal of None \<Rightarrow> Empty_output | Some c \<Rightarrow> c))"
| "generate_from p gate model (Suc left) spent refusal =
    (let n = generation_attempts - left
     in case attempt_text p n spent of
       Inl (e, spent') \<Rightarrow> if left = 0 \<or> \<not> gm_protocol p e then Inl e else generate_from p gate model left spent' refusal
     | Inr (text, spent') \<Rightarrow>
       (case gate n text of
          Sanitized t \<Rightarrow> Inr (Generated \<lparr>gn_text = t, gn_model = model, gn_usage = spent'\<rparr>)
        | Refused code \<Rightarrow>
          if code \<noteq> Model_markup \<or> left = 0 \<or> gm_elapsed p n > retry_budget_ms then Inr (Rejected_output code)
          else generate_from p gate model left spent' (Some code)))"

definition generateGroupReply ::
  "ai_environment \<Rightarrow> 'e provider \<Rightarrow> (jstr \<Rightarrow> jstr) \<Rightarrow> (nat \<Rightarrow> jstr set) \<Rightarrow> 'e generation_error + reply_generation" where
  "generateGroupReply env p nfc links =
    (case replyModelConfig env of
       None \<Rightarrow> Inl Config_missing
     | Some config \<Rightarrow> map_sum Provider_error id
         (generate_from p (\<lambda>n. sanitizeWhatsAppOutput nfc (links n)) (mc_model config) generation_attempts no_token_usage None))"

section \<open>Images of tool results\<close>

text \<open>A file entry carries its data and media type; every other entry, part and message is opaque.\<close>

datatype ('f, 'x) content_entry = File_entry 'f | Other_entry 'x

datatype ('f, 'x) message_part = Tool_content 'x "('f, 'x) content_entry list" | Other_part 'x

datatype ('f, 'x) model_message = Tool_message "('f, 'x) message_part list" | Other_message 'x | Image_message "'f list"

fun entry_files :: "('f, 'x) content_entry list \<Rightarrow> 'f list" where
  "entry_files [] = []"
| "entry_files (File_entry f # es) = f # entry_files es"
| "entry_files (Other_entry x # es) = entry_files es"

fun part_files :: "('f, 'x) message_part \<Rightarrow> 'f list" where
  "part_files (Tool_content x es) = entry_files es"
| "part_files (Other_part x) = []"

fun message_files :: "('f, 'x) model_message \<Rightarrow> 'f list" where
  "message_files (Tool_message ps) = concat (map part_files ps)"
| "message_files _ = []"

fun strip_part :: "('f, 'x) message_part \<Rightarrow> ('f, 'x) message_part" where
  "strip_part (Tool_content x es) = Tool_content x (filter (\<lambda>e. case e of File_entry _ \<Rightarrow> False | Other_entry _ \<Rightarrow> True) es)"
| "strip_part (Other_part x) = Other_part x"

fun strip_message :: "('f, 'x) model_message \<Rightarrow> ('f, 'x) model_message" where
  "strip_message (Tool_message ps) = Tool_message (map strip_part ps)"
| "strip_message m = m"

text \<open>\<open>None\<close> keeps the messages; otherwise one user message with every image follows the stripped ones.\<close>

definition liftToolResultImages :: "('f, 'x) model_message list \<Rightarrow> ('f, 'x) model_message list option" where
  "liftToolResultImages ms = (let images = concat (map message_files ms)
     in if images = [] then None else Some (map strip_message ms @ [Image_message images]))"

lemma stripped_files: "message_files (strip_message m) = []"
proof (cases m)
  case (Tool_message ps)
  have "entry_files (filter (\<lambda>e. case e of File_entry _ \<Rightarrow> False | Other_entry _ \<Rightarrow> True) es) = []" for es :: "('a, 'b) content_entry list"
    by (induction es) (auto split: content_entry.splits)
  then have "part_files (strip_part p) = []" for p :: "('a, 'b) message_part" by (cases p) simp_all
  then show ?thesis using Tool_message by simp
qed simp_all

text \<open>After the lift no tool result carries an image and the one image message carries all of them, in order.\<close>

lemma lifted_images:
  "liftToolResultImages ms = Some ms' \<Longrightarrow> concat (map message_files (butlast ms')) = [] \<and> last ms' = Image_message (concat (map message_files ms))"
  by (auto simp: liftToolResultImages_def Let_def stripped_files split: if_splits)

section \<open>What a generated reply is\<close>

definition provider_text :: "'e provider \<Rightarrow> nat \<Rightarrow> jstr \<Rightarrow> bool" where
  "provider_text p n t \<longleftrightarrow> (\<exists>a. (gm_first p n = Inr a \<or> gm_closing p n = Inr a) \<and> an_text a = t)"

lemma attempt_text_origin: "attempt_text p n spent = Inr (t, spent') \<Longrightarrow> provider_text p n t"
  by (auto simp: attempt_text_def provider_text_def Let_def split: sum.splits if_splits)

lemma generate_from_origin:
  "left \<le> generation_attempts \<Longrightarrow> generate_from p gate model left spent refusal = Inr (Generated r)
    \<Longrightarrow> gn_model r = model \<and> (\<exists>n t. generation_attempts - left < n \<and> n \<le> generation_attempts \<and> provider_text p n t \<and> gate n t = Sanitized (gn_text r))"
proof (induction left arbitrary: spent refusal)
  case (Suc left)
  let ?n = "generation_attempts - left"
  have n: "generation_attempts - Suc left < ?n" "?n \<le> generation_attempts" using Suc.prems(1) by auto
  show ?case
  proof (cases "attempt_text p ?n spent")
    case (Inl es)
    obtain e spent' where "es = (e, spent')" by (cases es)
    with Inl Suc.prems(2) have "generate_from p gate model left spent' refusal = Inr (Generated r)" by (auto split: if_splits)
    with Suc.IH [of spent' refusal] Suc.prems(1) n(1) show ?thesis by (meson Suc_leD less_trans)
  next
    case (Inr ts)
    obtain t spent' where ts: "ts = (t, spent')" by (cases ts)
    show ?thesis
    proof (cases "gate ?n t")
      case (Sanitized u)
      then have "gn_model r = model" "gn_text r = u" using Inr ts Suc.prems(2) by auto
      with Sanitized n attempt_text_origin [of p ?n spent t spent'] Inr ts show ?thesis by auto
    next
      case (Refused code)
      with Inr ts Suc.prems(2) have "generate_from p gate model left spent' (Some code) = Inr (Generated r)" by (auto simp: Let_def split: if_splits)
      with Suc.IH [of spent' "Some code"] Suc.prems(1) n(1) show ?thesis by (meson Suc_leD less_trans)
    qed
  qed
qed simp

text \<open>Every generated reply is an answer the gate passed: its text is what the output gate made of a text the
  provider returned in one of at most two attempts, under the configured model; and without a complete model
  configuration nothing is generated.\<close>

theorem generated_reply_passed_gate:
  assumes "generateGroupReply env p nfc links = Inr (Generated r)"
  shows "\<exists>config n t. replyModelConfig env = Some config \<and> gn_model r = mc_model config \<and> 1 \<le> n \<and> n \<le> 2
    \<and> provider_text p n t \<and> sanitizeWhatsAppOutput nfc (links n) t = Sanitized (gn_text r)"
proof -
  from assms obtain config where c: "replyModelConfig env = Some config"
    "generate_from p (\<lambda>n. sanitizeWhatsAppOutput nfc (links n)) (mc_model config) generation_attempts no_token_usage None = Inr (Generated r)"
    by (auto simp: generateGroupReply_def map_sum_def split: option.splits sum.splits)
  from generate_from_origin [OF le_refl c(2)] obtain n t where "gn_model r = mc_model config" "1 \<le> n" "n \<le> 2"
    "provider_text p n t" "sanitizeWhatsAppOutput nfc (links n) t = Sanitized (gn_text r)"
    by (auto simp: generation_attempts_def Suc_le_eq)
  with c(1) show ?thesis by blast
qed

definition ex_ai :: ai_environment where
  "ex_ai = \<lparr>av_AI_BASE_URL = Some [1], av_AI_API_KEY = Some [2], av_AI_MODEL = Some [3], av_AI_TOKENIZER = None\<rparr>"

definition ex_answer :: model_answer where
  "ex_answer = \<lparr>an_text = ex_link, an_usage = no_token_usage, an_toolCalls = False\<rparr>"

text \<open>A provider whose first attempt fails by protocol after 110 seconds and whose second answers.\<close>

definition ex_flaky :: "bool provider" where
  "ex_flaky = \<lparr>gm_first = (\<lambda>n. if n = 1 then Inl True else Inr ex_answer), gm_closing = (\<lambda>_. Inl False),
     gm_elapsed = (\<lambda>_. 110000), gm_protocol = (\<lambda>e. e), gm_hasTools = False\<rparr>"

lemma ex_flaky_answers: "generateGroupReply ex_ai ex_flaky id (\<lambda>_. {}) = Inr (Generated \<lparr>gn_text = ex_link, gn_model = [3], gn_usage = no_token_usage\<rparr>)"
proof -
  have usage: "addUsage no_token_usage no_token_usage = no_token_usage" by (simp add: addUsage_def no_token_usage_def sum_reported_def)
  show ?thesis
    by (simp add: generateGroupReply_def replyModelConfig_def set_value_def ex_ai_def ex_flaky_def generation_attempts_def attempt_text_def
        numeral_2_eq_2 ex_answer_def ex_link_passes usage del: One_nat_def)
qed

lemma generated_reply_passed_gate_witness: "\<exists>t. sanitizeWhatsAppOutput id {} t = Sanitized ex_link"
  using generated_reply_passed_gate [OF ex_flaky_answers] by auto

text \<open>The retry budget bounds only half of the retries. After a first attempt that failed by protocol the second
  one is made however long the first took: the whole result is the same for every measurement of the elapsed
  times of a first attempt like that, so a callback may be past its window when the second attempt starts.\<close>

theorem protocol_retry_ignores_budget:
  assumes "gm_first p 1 = Inl e" and "gm_protocol p e"
  shows "generateGroupReply env p nfc links = generateGroupReply env (p\<lparr>gm_elapsed := f\<rparr>) nfc links"
proof -
  have one: "attempt_text q 1 s = Inl (e, s)" if "gm_first q 1 = Inl e" for q :: "'a provider" and s
    using that by (simp add: attempt_text_def)
  have second: "attempt_text (p\<lparr>gm_elapsed := f\<rparr>) n s = attempt_text p n s" for n s
    by (simp add: attempt_text_def Let_def split: sum.split)
  have "generate_from p g model 2 s None = generate_from (p\<lparr>gm_elapsed := f\<rparr>) g model 2 s None" for g model s
    using assms one [of p s] one [of "p\<lparr>gm_elapsed := f\<rparr>" s]
    by (simp add: numeral_2_eq_2 generation_attempts_def second Let_def split: sum.split sanitized.split)
  then show ?thesis by (simp add: generateGroupReply_def generation_attempts_def split: option.split)
qed

lemma protocol_retry_ignores_budget_witness:
  "generateGroupReply ex_ai (ex_flaky\<lparr>gm_elapsed := (\<lambda>_. 0)\<rparr>) id (\<lambda>_. {}) = Inr (Generated \<lparr>gn_text = ex_link, gn_model = [3], gn_usage = no_token_usage\<rparr>)"
  using protocol_retry_ignores_budget [of ex_flaky True ex_ai id "\<lambda>_. {}" "\<lambda>_. 0"] ex_flaky_answers by (simp add: ex_flaky_def)

end
