(* ===== verification/AgentTools.thy ===== *)
theory AgentTools
  imports PromptBudget OutputGate Summarize
begin

text \<open>
  The bridge from a tool session to the model (\<open>apps/web/src/server/mcp/agent-tools.ts\<close>): the text of a tool
  result, the images lifted out of it, and the allowance all tools of one reply spend together. The session's answer to a call
  and \<open>JSON.parse\<close> are parameters; printing JSON is defined here for all the tools.
\<close>

section \<open>JSON text of a value\<close>

text \<open>\<open>JSON.stringify\<close> of a value without \<open>undefined\<close>.\<close>

fun stringify :: "json \<Rightarrow> jstr" where
  "stringify JNull = js ''null''"
| "stringify (JBool b) = (if b then js ''true'' else js ''false'')"
| "stringify (JNum n) = dec_int n"
| "stringify (JStr s) = json_string s"
| "stringify (JArr vs) = js ''['' @ join (js '','') (map stringify vs) @ js '']''"
| "stringify (JObj ms) = js ''{'' @ join (js '','') (map (\<lambda>(k, v). json_string k @ js '':'' @ stringify v) ms) @ js ''}''"

section \<open>The text and the images of a result\<close>

definition block_text :: "json \<Rightarrow> jstr list" where
  "block_text b = (case b of
      JObj obj \<Rightarrow> (case (field obj ''type'', field obj ''text'') of
        (Some (JStr ty), Some (JStr t)) \<Rightarrow> if ty = js ''text'' then [t] else [] | _ \<Rightarrow> [])
    | _ \<Rightarrow> [])"

definition toolResultText :: "json \<Rightarrow> jstr" where
  "toolResultText content = (case content of JArr blocks \<Rightarrow> join [10] (concat (map block_text blocks)) | _ \<Rightarrow> [])"

record tool_image =
  ti_data :: jstr
  ti_mediaType :: jstr

record bridged =
  br_text :: jstr
  br_images :: "tool_image list"

definition is_line_end :: "nat \<Rightarrow> bool" where
  "is_line_end c \<longleftrightarrow> c \<in> {10, 13, 8232, 8233}"

text \<open>\<open>/^data:([^;,]+);base64,(.+)$/\<close>: the media type and the data.\<close>

definition data_url :: "jstr \<Rightarrow> tool_image option" where
  "data_url s =
    (if take 5 s \<noteq> js ''data:'' then None
     else let rest = drop 5 s; ty = takeWhile (\<lambda>c. c \<noteq> 59 \<and> c \<noteq> 44) rest; after = drop (length ty) rest; data = drop 8 after
       in if ty = [] \<or> take 8 after \<noteq> js '';base64,'' \<or> data = [] \<or> list_ex is_line_end data then None
          else Some \<lparr>ti_data = data, ti_mediaType = ty\<rparr>)"

definition image_note :: "jstr \<Rightarrow> jstr" where
  "image_note ty = js ''<image: '' @ ty @ js '', sent to you as an image>''"

definition image_key :: "jstr \<Rightarrow> bool" where
  "image_key k \<longleftrightarrow> k = js ''dataUrl'' \<or> k = js ''imageDataUrl''"

text \<open>
  The images of a value in the order of the walk, and the value with a note in the place of each. Assigning
  \<open>__proto__\<close> to a fresh object makes no property of it.
\<close>

definition member_image :: "jstr \<Rightarrow> json \<Rightarrow> tool_image option" where
  "member_image k v = (if image_key k then (case v of JStr s \<Rightarrow> data_url s | _ \<Rightarrow> None) else None)"

fun walk_images :: "json \<Rightarrow> tool_image list" where
  "walk_images (JArr vs) = concat (map walk_images vs)"
| "walk_images (JObj ms) = concat (map (\<lambda>(k, v). case member_image k v of Some i \<Rightarrow> [i] | None \<Rightarrow> walk_images v) ms)"
| "walk_images _ = []"

fun walk_text :: "json \<Rightarrow> json" where
  "walk_text (JArr vs) = JArr (map walk_text vs)"
| "walk_text (JObj ms) = JObj (filter (\<lambda>m. fst m \<noteq> js ''__proto__'')
     (map (\<lambda>(k, v). (k, case member_image k v of Some i \<Rightarrow> JStr (image_note (ti_mediaType i)) | None \<Rightarrow> walk_text v)) ms))"
| "walk_text v = v"

definition liftImages :: "(jstr \<Rightarrow> json option) \<Rightarrow> jstr \<Rightarrow> bridged" where
  "liftImages parse raw =
    (if take 1 raw \<noteq> js ''{'' then \<lparr>br_text = raw, br_images = []\<rparr>
     else case parse raw of
       None \<Rightarrow> \<lparr>br_text = raw, br_images = []\<rparr>
     | Some v \<Rightarrow> \<lparr>br_text = stringify (walk_text v), br_images = walk_images v\<rparr>)"

section \<open>The allowance\<close>

definition tool_budget_spent :: jstr where
  "tool_budget_spent = js ''[tool result omitted: this reply'' @ [39] @ js ''s tool budget is exhausted]''"

text \<open>\<open>slice(0, n)\<close>: a negative end counts from the back.\<close>

definition slice_to :: "int \<Rightarrow> 'a list \<Rightarrow> 'a list" where
  "slice_to n xs = (if 0 \<le> n then take (nat n) xs else take (length xs - nat (- n)) xs)"

definition clip_scalars_to :: "jstr \<Rightarrow> int \<Rightarrow> jstr" where
  "clip_scalars_to v maximum = (if int (length v) \<le> maximum then v else concat (slice_to maximum (code_points (slice_to (maximum * 2) v))))"

definition char_spent :: "int \<Rightarrow> bool" where
  "char_spent remaining \<longleftrightarrow> remaining \<le> 0"

text \<open>What remains is counted down in code units of what was returned.\<close>

definition char_clip :: "int \<Rightarrow> jstr \<Rightarrow> jstr \<times> int" where
  "char_clip remaining text' = (let clipped = clip_scalars_to text' remaining in (clipped, remaining - int (length clipped)))"

definition token_spent :: "nat \<Rightarrow> bool" where
  "token_spent remaining \<longleftrightarrow> remaining = 0"

definition token_clip :: "token_counter \<Rightarrow> nat \<Rightarrow> jstr \<Rightarrow> jstr \<times> nat" where
  "token_clip counter remaining text' =
    (let c = clipToTokens counter text' remaining
     in (cl_text c, if cl_text c = [] \<and> text' \<noteq> [] then 0 else remaining - cl_used c))"

definition result_chars :: int where "result_chars = 32000"

section \<open>One call\<close>

text \<open>
  \<open>spent\<close> and \<open>clip\<close> are the budget's methods on its state; \<open>call\<close> is the session's answer to the arguments,
  \<^const>\<open>None\<close> when it throws. The links of a returned text become evidence.
\<close>

definition tool_args :: "json \<Rightarrow> json" where
  "tool_args v = (case v of JObj _ \<Rightarrow> v | JArr _ \<Rightarrow> v | _ \<Rightarrow> JObj [])"

text \<open>What follows the session's answer; other calls of the reply may have clipped since the check that precedes it.\<close>

definition finishTool :: "('b \<Rightarrow> jstr \<Rightarrow> jstr \<times> 'b) \<Rightarrow> (jstr \<Rightarrow> json option) \<Rightarrow> json \<Rightarrow> 'b \<times> jstr set \<Rightarrow> ('b \<times> jstr set) \<times> bridged" where
  "finishTool clip parse content st =
    (let lifted = liftImages parse (toolResultText content); (kept, left) = clip (fst st) (br_text lifted)
     in if kept = [] \<and> br_text lifted \<noteq> [] then ((left, snd st), \<lparr>br_text = tool_budget_spent, br_images = []\<rparr>)
        else ((left, snd st \<union> sourceLinksOf [kept]), \<lparr>br_text = kept, br_images = br_images lifted\<rparr>))"

definition executeTool ::
  "('b \<Rightarrow> bool) \<Rightarrow> ('b \<Rightarrow> jstr \<Rightarrow> jstr \<times> 'b) \<Rightarrow> (jstr \<Rightarrow> json option) \<Rightarrow> (json \<Rightarrow> json option) \<Rightarrow> json \<Rightarrow> 'b \<times> jstr set \<Rightarrow> ('b \<times> jstr set) \<times> bridged option" where
  "executeTool spent clip parse call v st =
    (if spent (fst st) then (st, Some \<lparr>br_text = tool_budget_spent, br_images = []\<rparr>)
     else case call (tool_args v) of
       None \<Rightarrow> (st, None)
     | Some content \<Rightarrow> (let (st', r) = finishTool clip parse content st in (st', Some r)))"

text \<open>What the model is sent of an output: text alone, or the images as files and the text after them.\<close>

datatype output_part = File_part jstr jstr | Text_part jstr

datatype model_output = Plain_text jstr | Content "output_part list"

definition toModelOutput :: "bridged \<Rightarrow> model_output" where
  "toModelOutput b = (if br_images b = [] then Plain_text (br_text b)
     else Content (map (\<lambda>i. File_part (ti_data i) (ti_mediaType i)) (br_images b) @ [Text_part (br_text b)]))"

section \<open>What all tools of a reply return together\<close>

text \<open>The results of a reply's calls in the order their answers come in, whichever tool set each belongs to.\<close>

fun finish_all :: "('b \<Rightarrow> jstr \<Rightarrow> jstr \<times> 'b) \<Rightarrow> (jstr \<Rightarrow> json option) \<Rightarrow> json list \<Rightarrow> 'b \<times> jstr set \<Rightarrow> ('b \<times> jstr set) \<times> bridged list" where
  "finish_all clip parse [] st = (st, [])"
| "finish_all clip parse (c # cs) st =
    (let (st', r) = finishTool clip parse c st; (st'', rs) = finish_all clip parse cs st' in (st'', r # rs))"

text \<open>What a result's text takes of the allowance; the notice of a spent allowance is not paid from it.\<close>

definition result_cost :: "(jstr \<Rightarrow> nat) \<Rightarrow> bridged \<Rightarrow> nat" where
  "result_cost cost r = (if br_text r = tool_budget_spent then 0 else cost (br_text r))"

locale result_budget =
  fixes clip :: "'b \<Rightarrow> jstr \<Rightarrow> jstr \<times> 'b" and allowance :: "'b \<Rightarrow> nat" and cost :: "jstr \<Rightarrow> nat"
  assumes clip_pays: "cost (fst (clip b t)) + allowance (snd (clip b t)) \<le> allowance b"
begin

lemma finish_pays: "result_cost cost (snd (finishTool clip parse c st)) + allowance (fst (fst (finishTool clip parse c st))) \<le> allowance (fst st)"
  using clip_pays [of "fst st" "br_text (liftImages parse (toolResultText c))"]
  by (auto simp: finishTool_def result_cost_def Let_def split: prod.splits)

lemma total_bounded:
  "(\<Sum>r \<leftarrow> snd (finish_all clip parse cs st). result_cost cost r) + allowance (fst (fst (finish_all clip parse cs st))) \<le> allowance (fst st)"
proof (induction cs arbitrary: st)
  case (Cons c cs)
  obtain st' r where f: "finishTool clip parse c st = (st', r)" by fastforce
  obtain st'' rs where a: "finish_all clip parse cs st' = (st'', rs)" by fastforce
  from Cons [of st'] finish_pays [of parse c st] f a show ?case by simp
qed simp

end

context token_law
begin

lemma token_clip_pays: "accountedCount counter (fst (token_clip counter b t)) + snd (token_clip counter b t) \<le> b"
proof (cases "accountedCount counter t \<le> b")
  case False
  obtain s u where c: "clip_points counter b 0 (code_points t) = (s, u)" by fastforce
  from clip_points_fits [OF _ this] have "accountedCount counter s \<le> u" "u \<le> b" by simp_all
  with c False show ?thesis by (auto simp: token_clip_def clipToTokens_def Let_def)
qed (auto simp: token_clip_def clipToTokens_def Let_def)

lemma reply_budget: "result_budget (token_clip counter) id (accountedCount counter)"
  using token_clip_pays by unfold_locales simp

end

interpretation byte_budget: result_budget "token_clip byte_upper_bound_counter" id "accountedCount byte_upper_bound_counter"
  by (rule bytes.reply_budget)

text \<open>
  For a counter under which joining two texts costs no more than the two apart, as the byte counter is: the texts of all tools of one reply together
  stay within the allowance the prompt held back for them (32000 by the reply's own counter), in whatever order the answers of calls running
  side by side come in. The images lifted out of a result and the notice of a spent allowance are not counted.
\<close>

theorem tool_results_within_reserve:
  assumes "\<And>xs ys. tc_count counter (xs @ ys) \<le> tc_count counter xs + tc_count counter ys"
    and "\<And>xs. tc_count counter xs \<le> accountTokens xs"
    and "tc_multiplier counter = None \<or> (\<exists>m. tc_multiplier counter = Some m \<and> 1 \<le> m \<and> m \<le> 6/5)"
  shows "(\<Sum>r \<leftarrow> snd (finish_all (token_clip counter) parse contents (reply_tool_result_reserve_tokens, links)).
           result_cost (accountedCount counter) r) \<le> 32000"
proof -
  from assms have "token_law counter" by (rule token_law.intro)
  from result_budget.total_bounded [OF token_law.reply_budget [OF this], of parse contents "(reply_tool_result_reserve_tokens, links)"]
  show ?thesis by (simp add: reply_tool_result_reserve_tokens_def)
qed

theorem tool_results_within_reserve_witness:
  "(\<Sum>r \<leftarrow> snd (finish_all (token_clip byte_upper_bound_counter) (\<lambda>_. None)
       [JArr [JObj [(js ''type'', JStr (js ''text'')), (js ''text'', JStr (js ''hello''))]]] (reply_tool_result_reserve_tokens, {})).
     result_cost (accountedCount byte_upper_bound_counter) r) \<le> 32000"
  by (rule tool_results_within_reserve) (simp_all add: byte_upper_bound_counter_def accountTokens_append)

end
