(* ===== verification/MediaText.thy ===== *)
theory MediaText
  imports AgentTools Http Complex_Main
begin

text \<open>
  What the media tools read out of bytes (\<open>apps/web/src/server/mcp/media-tools.ts\<close>): UTF-8 text, CSV tables, the text
  of the XML parts of a Word document and of a workbook. A regular expression of the code becomes a scanner here, exact
  because each repeated class excludes what must follow it and a lazy body ends at the first closing tag.
\<close>

section \<open>UTF-8\<close>

text \<open>
  \<open>TextDecoder("utf-8").decode\<close>: a truncated or ill-formed sequence is one U+FFFD and the byte that broke it is
  read again. The state is the number of bytes still wanted, the value so far, and the range of the next byte.
\<close>

function utf8_run :: "nat \<Rightarrow> nat \<Rightarrow> nat \<Rightarrow> nat \<Rightarrow> nat list \<Rightarrow> jstr" where
  "utf8_run n cp lo hi [] = (if n = 0 then [] else [65533])"
| "utf8_run n cp lo hi (b # bs) =
    (if n = 0 then
       (if b < 128 then b # utf8_run 0 0 128 191 bs
        else if 194 \<le> b \<and> b \<le> 223 then utf8_run 1 (b - 192) 128 191 bs
        else if 224 \<le> b \<and> b \<le> 239 then utf8_run 2 (b - 224) (if b = 224 then 160 else 128) (if b = 237 then 159 else 191) bs
        else if 240 \<le> b \<and> b \<le> 244 then utf8_run 3 (b - 240) (if b = 240 then 144 else 128) (if b = 244 then 143 else 191) bs
        else 65533 # utf8_run 0 0 128 191 bs)
     else if lo \<le> b \<and> b \<le> hi then
       (if n = 1 then utf16 (cp * 64 + (b - 128)) @ utf8_run 0 0 128 191 bs
        else utf8_run (n - 1) (cp * 64 + (b - 128)) 128 191 bs)
     else 65533 # utf8_run 0 0 128 191 (b # bs))"
  by pat_completeness auto
termination by (relation "measure (\<lambda>(n, _, _, _, bs). 2 * length bs + (if n = 0 then 0 else 1))") auto

definition decode_utf8 :: "nat list \<Rightarrow> jstr" where
  "decode_utf8 bs = utf8_run 0 0 128 191 (if take 3 bs = [239, 187, 191] then drop 3 bs else bs)"

section \<open>CSV\<close>

record csv_table =
  ct_columns :: "jstr list"
  ct_rows :: "jstr list list"
  ct_truncated :: bool

text \<open>The parser's variables.\<close>

record csv_state =
  cs_records :: "jstr list list"
  cs_row :: "jstr list"
  cs_field :: jstr
  cs_quoted :: bool
  cs_truncated :: bool

definition cell_scalars :: nat where "cell_scalars = 2000"

definition endField :: "nat \<Rightarrow> csv_state \<Rightarrow> csv_state" where
  "endField maxColumns s =
    (let (v, cut) = clipScalars (cs_field s) cell_scalars; fits = length (cs_row s) < maxColumns
     in s\<lparr>cs_field := [], cs_row := (if fits then cs_row s @ [v] else cs_row s), cs_truncated := (cs_truncated s \<or> cut \<or> \<not> fits)\<rparr>)"

definition endRecord :: "nat \<Rightarrow> nat \<Rightarrow> csv_state \<Rightarrow> csv_state" where
  "endRecord maxRows maxColumns s =
    (let e = endField maxColumns s; fits = length (cs_records e) < maxRows + 1
     in e\<lparr>cs_row := [], cs_records := (if fits then cs_records e @ [cs_row e] else cs_records e), cs_truncated := (cs_truncated e \<or> \<not> fits)\<rparr>)"

definition add_char :: "nat \<Rightarrow> csv_state \<Rightarrow> csv_state" where
  "add_char c s = s\<lparr>cs_field := cs_field s @ [c]\<rparr>"

text \<open>The loop: a quote inside a quoted field is doubled or closes it, and CRLF is one line end.\<close>

fun csv_loop :: "nat \<Rightarrow> nat \<Rightarrow> jstr \<Rightarrow> csv_state \<Rightarrow> csv_state" where
  "csv_loop R C [] s = s"
| "csv_loop R C [c] s =
    (if cs_quoted s then (if c \<noteq> 34 then add_char c s else s\<lparr>cs_quoted := False\<rparr>)
     else if c = 34 then s\<lparr>cs_quoted := True\<rparr>
     else if c = 44 then endField C s
     else if c \<noteq> 10 \<and> c \<noteq> 13 then add_char c s
     else endRecord R C s)"
| "csv_loop R C (c # d # cs) s =
    (if cs_quoted s then
       (if c \<noteq> 34 then csv_loop R C (d # cs) (add_char c s)
        else if d = 34 then csv_loop R C cs (add_char 34 s)
        else csv_loop R C (d # cs) (s\<lparr>cs_quoted := False\<rparr>))
     else if c = 34 then csv_loop R C (d # cs) (s\<lparr>cs_quoted := True\<rparr>)
     else if c = 44 then csv_loop R C (d # cs) (endField C s)
     else if c \<noteq> 10 \<and> c \<noteq> 13 then csv_loop R C (d # cs) (add_char c s)
     else if c = 13 \<and> d = 10 then csv_loop R C cs (endRecord R C s)
     else csv_loop R C (d # cs) (endRecord R C s))"

definition csv_start :: csv_state where
  "csv_start = \<lparr>cs_records = [], cs_row = [], cs_field = [], cs_quoted = False, cs_truncated = False\<rparr>"

definition parseCsv :: "jstr \<Rightarrow> nat \<Rightarrow> nat \<Rightarrow> csv_table" where
  "parseCsv t maxRows maxColumns =
    (let source = (case t of c # cs \<Rightarrow> if c = 65279 then cs else t | [] \<Rightarrow> []);
         s = csv_loop maxRows maxColumns source csv_start;
         e = (if cs_field s \<noteq> [] \<or> cs_row s \<noteq> [] then endRecord maxRows maxColumns s else s)
     in \<lparr>ct_columns = (case cs_records e of r # _ \<Rightarrow> r | [] \<Rightarrow> []), ct_rows = drop 1 (cs_records e),
         ct_truncated = (cs_truncated e \<or> cs_quoted s)\<rparr>)"

section \<open>Markup\<close>

text \<open>\<open>replaceAll\<close> of a literal, and a scanner: where \<open>m\<close> matches, its replacement and the rest after the match.\<close>

function replace_scan :: "(jstr \<Rightarrow> (jstr \<times> jstr) option) \<Rightarrow> jstr \<Rightarrow> jstr" where
  "replace_scan m [] = []"
| "replace_scan m (c # cs) =
    (case m (c # cs) of
       None \<Rightarrow> c # replace_scan m cs
     | Some (r, rest) \<Rightarrow> if length rest < length (c # cs) then r @ replace_scan m rest else c # replace_scan m cs)"
  by pat_completeness auto
termination by (relation "measure (\<lambda>(_, s). length s)") auto

definition literal_at :: "string \<Rightarrow> jstr \<Rightarrow> jstr \<Rightarrow> (jstr \<times> jstr) option" where
  "literal_at lit r s = (if starts_with (js lit) s then Some (r, drop (length lit) s) else None)"

definition replace_literal :: "string \<Rightarrow> jstr \<Rightarrow> jstr \<Rightarrow> jstr" where
  "replace_literal lit r = replace_scan (literal_at lit r)"

text \<open>\<open>\w\<close> without case folding.\<close>

definition plain_word :: "nat \<Rightarrow> bool" where
  "plain_word c \<longleftrightarrow> is_upper c \<or> is_lower c \<or> is_digit c \<or> c = 95"

text \<open>\<open><name\b[^>]*>\<close>: what stands between the name and the first \<open>>\<close>, and the rest.\<close>

definition open_tag :: "string \<Rightarrow> jstr \<Rightarrow> (jstr \<times> jstr) option" where
  "open_tag name s =
    (if \<not> starts_with (js (CHR ''<'' # name)) s then None
     else let after = drop (length name + 1) s; region = takeWhile (\<lambda>c. c \<noteq> 62) after; rest = drop (length region) after
       in if rest = [] \<or> (region \<noteq> [] \<and> plain_word (hd region)) then None else Some (region, drop 1 rest))"

definition self_closed :: "jstr \<Rightarrow> bool" where
  "self_closed region \<longleftrightarrow> region \<noteq> [] \<and> last region = 47"

definition break_at :: "jstr \<Rightarrow> (jstr \<times> jstr) option" where
  "break_at s = (case open_tag ''w:tab'' s of
      Some (region, rest) \<Rightarrow> if self_closed region then Some ([9], rest) else None
    | None \<Rightarrow> (case open_tag ''w:br'' s of Some (region, rest) \<Rightarrow> if self_closed region then Some ([10], rest) else None | None \<Rightarrow> None))"

definition markup_at :: "jstr \<Rightarrow> (jstr \<times> jstr) option" where
  "markup_at s = (case s of c # cs \<Rightarrow> if c = 60 \<and> 62 \<in> set cs then Some ([], drop 1 (dropWhile (\<lambda>x. x \<noteq> 62) cs)) else None | [] \<Rightarrow> None)"

definition decodeCodePoint :: "nat \<Rightarrow> jstr" where
  "decodeCodePoint v = (if 1114111 < v \<or> (55296 \<le> v \<and> v \<le> 57343) then [] else utf16 v)"

definition number_in :: "nat \<Rightarrow> (nat \<Rightarrow> nat) \<Rightarrow> jstr \<Rightarrow> nat" where
  "number_in base digit ds = foldl (\<lambda>n c. n * base + digit c) 0 ds"

definition hex_digit_value :: "nat \<Rightarrow> nat" where
  "hex_digit_value c = (if is_digit c then c - 48 else to_lower c - 87)"

definition decimal_at :: "jstr \<Rightarrow> (jstr \<times> jstr) option" where
  "decimal_at s = (if \<not> starts_with (js ''&#'') s then None
     else let ds = takeWhile is_digit (drop 2 s); rest = drop (2 + length ds) s
       in if ds = [] \<or> take 1 rest \<noteq> [59] then None else Some (decodeCodePoint (number_in 10 (\<lambda>c. c - 48) ds), drop 1 rest))"

definition hexadecimal_at :: "jstr \<Rightarrow> (jstr \<times> jstr) option" where
  "hexadecimal_at s = (if \<not> (starts_with (js ''&#x'') s \<or> starts_with (js ''&#X'') s) then None
     else let ds = takeWhile hex_unit (drop 3 s); rest = drop (3 + length ds) s
       in if ds = [] \<or> take 1 rest \<noteq> [59] then None else Some (decodeCodePoint (number_in 16 hex_digit_value ds), drop 1 rest))"

text \<open>The entities, in the order the code replaces them.\<close>

definition decode_entities :: "jstr \<Rightarrow> jstr" where
  "decode_entities s =
    replace_scan hexadecimal_at (replace_scan decimal_at
      (replace_literal ''&amp;'' [38] (replace_literal ''&apos;'' [39] (replace_literal ''&quot;'' [34]
        (replace_literal ''&gt;'' [62] (replace_literal ''&lt;'' [60] s))))))"

definition documentXmlText :: "jstr \<Rightarrow> jstr" where
  "documentXmlText xml = decode_entities (replace_scan markup_at (replace_scan break_at (replace_literal ''</w:p>'' [10] xml)))"

section \<open>Workbooks\<close>

text \<open>The text before and after the first occurrence.\<close>

fun until_first :: "jstr \<Rightarrow> jstr \<Rightarrow> (jstr \<times> jstr) option" where
  "until_first needle [] = (if needle = [] then Some ([], []) else None)"
| "until_first needle (c # cs) =
    (if starts_with needle (c # cs) then Some ([], drop (length needle) (c # cs))
     else map_option (\<lambda>(a, b). (c # a, b)) (until_first needle cs))"

text \<open>
  \<open><n\b[^>]*\/>|<n\b[^>]*>([\s\S]*?)<\/n>\<close> at a position: the body, which a self-closed tag does not have, and
  the rest after the match. Every match of a text is its own text and its body.
\<close>

definition element_at :: "string \<Rightarrow> jstr \<Rightarrow> (jstr option \<times> jstr) option" where
  "element_at name s = (case open_tag name s of
      None \<Rightarrow> None
    | Some (region, rest) \<Rightarrow>
        if self_closed region then Some (None, rest)
        else (case until_first (js (''</'' @ name @ ''>'')) rest of None \<Rightarrow> None | Some (body, after) \<Rightarrow> Some (Some body, after)))"

function elements :: "string \<Rightarrow> jstr \<Rightarrow> (jstr \<times> jstr option) list" where
  "elements name [] = []"
| "elements name (c # cs) =
    (case element_at name (c # cs) of
       None \<Rightarrow> elements name cs
     | Some (body, rest) \<Rightarrow>
         if length rest < length (c # cs) then (take (length (c # cs) - length rest) (c # cs), body) # elements name rest else elements name cs)"
  by pat_completeness auto
termination by (relation "measure (\<lambda>(_, s). length s)") auto

text \<open>\<open>exec\<close> of \<open><n\b[^>]*>([\s\S]*?)<\/n>\<close>, which a self-closed tag opens like any other.\<close>

fun first_body :: "string \<Rightarrow> jstr \<Rightarrow> jstr option" where
  "first_body name [] = None"
| "first_body name (c # cs) =
    (case Option.bind (open_tag name (c # cs)) (\<lambda>(_, rest). until_first (js (''</'' @ name @ ''>'')) rest) of
       Some (body, _) \<Rightarrow> Some body
     | None \<Rightarrow> first_body name cs)"

fun first_open :: "string \<Rightarrow> jstr \<Rightarrow> jstr option" where
  "first_open name [] = None"
| "first_open name (c # cs) = (case open_tag name (c # cs) of Some (region, _) \<Rightarrow> Some region | None \<Rightarrow> first_open name cs)"

text \<open>The attributes of a tag, of which the last of a name counts; the tag's own name and its brackets hold none.\<close>

definition attribute_unit :: "nat \<Rightarrow> bool" where
  "attribute_unit c \<longleftrightarrow> plain_word c \<or> c \<in> {58, 46, 45}"

definition attribute_at :: "jstr \<Rightarrow> ((jstr \<times> jstr) \<times> jstr) option" where
  "attribute_at s =
    (let name = takeWhile attribute_unit s; after = drop (length name) s; v = takeWhile (\<lambda>c. c \<noteq> 34) (drop 2 after); rest = drop (length v) (drop 2 after)
     in if name = [] \<or> take 2 after \<noteq> [61, 34] \<or> rest = [] then None else Some ((name, v), drop 1 rest))"

function attributes :: "jstr \<Rightarrow> (jstr \<times> jstr) list" where
  "attributes [] = []"
| "attributes (c # cs) =
    (case attribute_at (c # cs) of
       None \<Rightarrow> attributes cs
     | Some (a, rest) \<Rightarrow> if length rest < length (c # cs) then a # attributes rest else attributes cs)"
  by pat_completeness auto
termination by (relation "measure length") auto

definition attribute :: "string \<Rightarrow> string \<Rightarrow> jstr option \<Rightarrow> jstr option" where
  "attribute name element tag = (case tag of None \<Rightarrow> None | Some region \<Rightarrow> map_of (rev (attributes (js element @ region))) (js name))"

definition or_none :: "jstr option \<Rightarrow> jstr" where
  "or_none v = (case v of Some b \<Rightarrow> b | None \<Rightarrow> [])"

definition sharedStringTable :: "jstr \<Rightarrow> jstr list" where
  "sharedStringTable xml = map (\<lambda>e. documentXmlText (or_none (snd e))) (elements ''si'' xml)"

text \<open>
  \<open>Number\<close> of a text: \<^const>\<open>None\<close> for a text that is no number and for the infinities. Exact where the code
  rounds to a double.
\<close>

definition signed :: "jstr \<Rightarrow> bool \<times> jstr" where
  "signed s = (case s of c # cs \<Rightarrow> if c = 45 then (True, cs) else if c = 43 then (False, cs) else (False, s) | [] \<Rightarrow> (False, []))"

definition exponent_of :: "jstr \<Rightarrow> int option" where
  "exponent_of s = (case s of [] \<Rightarrow> Some 0
    | c # cs \<Rightarrow> let (negative, ds) = signed cs
        in if (c = 101 \<or> c = 69) \<and> ds \<noteq> [] \<and> list_all is_digit ds
           then Some ((if negative then - 1 else 1) * int (number_in 10 (\<lambda>d. d - 48) ds)) else None)"

definition decimal_literal :: "jstr \<Rightarrow> rat option" where
  "decimal_literal s =
    (let whole = takeWhile is_digit s; after = drop (length whole) s;
         frac = (if take 1 after = [46] then takeWhile is_digit (drop 1 after) else []);
         rest = (if take 1 after = [46] then drop (1 + length frac) after else after)
     in if whole = [] \<and> frac = [] then None
        else map_option (\<lambda>e. of_nat (number_in 10 (\<lambda>d. d - 48) (whole @ frac)) * (10 powi (e - int (length frac)))) (exponent_of rest))"

definition radix_literal :: "nat \<Rightarrow> jstr \<Rightarrow> rat option" where
  "radix_literal base ds = (if ds \<noteq> [] \<and> list_all (\<lambda>c. hex_unit c \<and> hex_digit_value c < base) ds
     then Some (of_nat (number_in base hex_digit_value ds)) else None)"

definition stringToNumber :: "jstr \<Rightarrow> rat option" where
  "stringToNumber s =
    (let t = trim s; p = take 2 t
     in if t = [] then Some 0
        else if p = js ''0x'' \<or> p = js ''0X'' then radix_literal 16 (drop 2 t)
        else if p = js ''0o'' \<or> p = js ''0O'' then radix_literal 8 (drop 2 t)
        else if p = js ''0b'' \<or> p = js ''0B'' then radix_literal 2 (drop 2 t)
        else let (negative, body) = signed t in map_option (\<lambda>q. if negative then - q else q) (decimal_literal body))"

definition shared_string :: "jstr list \<Rightarrow> jstr \<Rightarrow> jstr" where
  "shared_string shared v = (case stringToNumber v of
      None \<Rightarrow> []
    | Some q \<Rightarrow> if of_int \<lfloor>q\<rfloor> = q \<and> 0 \<le> q \<and> nat \<lfloor>q\<rfloor> < length shared then shared ! nat \<lfloor>q\<rfloor> else [])"

definition cellText :: "jstr \<Rightarrow> jstr list \<Rightarrow> jstr" where
  "cellText cell shared =
    (let ty = attribute ''t'' ''c'' (first_open ''c'' cell); v = documentXmlText (or_none (first_body ''v'' cell))
     in if ty = Some (js ''inlineStr'') then documentXmlText (or_none (first_body ''is'' cell))
        else if ty \<noteq> Some (js ''s'') then v
        else shared_string shared v)"

definition worksheetText :: "jstr \<Rightarrow> jstr list \<Rightarrow> jstr" where
  "worksheetText xml shared =
    (let rows = map (\<lambda>r. join [9] (map (\<lambda>c. cellText (fst c) shared) (elements ''c'' (or_none (snd r))))) (elements ''row'' xml)
     in if rows = [] then [] else join [10] rows @ [10])"

text \<open>\<open>matchAll\<close> of an opening tag.\<close>

function open_tags :: "string \<Rightarrow> jstr \<Rightarrow> jstr list" where
  "open_tags name [] = []"
| "open_tags name (c # cs) =
    (case open_tag name (c # cs) of
       None \<Rightarrow> open_tags name cs
     | Some (region, rest) \<Rightarrow> if length rest < length (c # cs) then region # open_tags name rest else open_tags name cs)"
  by pat_completeness auto
termination by (relation "measure (\<lambda>(_, s). length s)") auto

definition worksheet_member :: "jstr \<Rightarrow> bool" where
  "worksheet_member p \<longleftrightarrow> starts_with (js ''xl/worksheets/'') p
     \<and> (let n = drop (length (js ''xl/worksheets/'')) p in n \<noteq> [] \<and> list_all (\<lambda>c. plain_word c \<or> c = 46 \<or> c = 45) n)"

definition worksheet_path :: "jstr \<Rightarrow> jstr \<Rightarrow> jstr option" where
  "worksheet_path workbook relationships =
    Option.bind (attribute ''r:id'' ''sheet'' (first_open ''sheet'' workbook)) (\<lambda>i.
    Option.bind (find (\<lambda>r. attribute ''Id'' ''Relationship'' (Some r) = Some i) (open_tags ''Relationship'' relationships)) (\<lambda>r.
    Option.bind (attribute ''Target'' ''Relationship'' (Some r)) (\<lambda>target.
      let part = (if starts_with [47] target then drop 1 target else js ''xl/'' @ target)
      in if worksheet_member part then Some part else None)))"

end
