(* ===== verification/Media.thy ===== *)
theory Media
  imports Http Complex_Main
begin

text \<open>
  Reading the private objects of a message (\<open>apps/web/src/server/media/presign.ts\<close>): the organisation prefix every
  key must sit under, the validated R2 configuration, the presigned address, and the capped read of an object's bytes. The
  signer and the object store are parameters.
\<close>

definition max_presign_ttl_seconds :: nat where "max_presign_ttl_seconds = 604800"

text \<open>The five variables as set; \<open>r2_number\<close> is \<open>Number\<close> of a string, \<^const>\<open>None\<close> when it is not finite.\<close>

record r2_environment =
  r2_accountId :: "jstr option"
  r2_bucket :: "jstr option"
  r2_accessKeyId :: "jstr option"
  r2_secretAccessKey :: "jstr option"
  r2_presignTtlSeconds :: "jstr option"
  r2_number :: "jstr \<Rightarrow> rat option"

record r2_config =
  rc_account :: jstr
  rc_bucket :: jstr
  rc_keyId :: jstr
  rc_secret :: jstr
  rc_ttlSeconds :: nat

datatype media_error = Foreign_media_key | R2_configuration | Media_range

text \<open>A setting that is unset or blank is refused.\<close>

definition required :: "jstr option \<Rightarrow> jstr option" where
  "required v = (case v of None \<Rightarrow> None | Some s \<Rightarrow> if trim s = [] then None else Some (trim s))"

definition r2_ttl :: "rat \<Rightarrow> nat option" where
  "r2_ttl n = (if of_int \<lfloor>n\<rfloor> \<noteq> n \<or> n \<le> 0 \<or> of_nat max_presign_ttl_seconds < n then None else Some (nat \<lfloor>n\<rfloor>))"

definition r2Config :: "r2_environment \<Rightarrow> r2_config option" where
  "r2Config env =
    (case (required (r2_accountId env), required (r2_bucket env), required (r2_accessKeyId env), required (r2_secretAccessKey env)) of
       (Some account, Some bucket, Some keyId, Some secret) \<Rightarrow>
         map_option (\<lambda>ttl. \<lparr>rc_account = account, rc_bucket = bucket, rc_keyId = keyId, rc_secret = secret, rc_ttlSeconds = ttl\<rparr>)
           (Option.bind (Option.bind (required (r2_presignTtlSeconds env)) (r2_number env)) r2_ttl)
     | _ \<Rightarrow> None)"

definition r2Endpoint :: "jstr option \<Rightarrow> jstr" where
  "r2Endpoint accountId = (case accountId of
      Some (c # cs) \<Rightarrow> js ''https://'' @ (c # cs) @ js ''.r2.cloudflarestorage.com'' | _ \<Rightarrow> [])"

definition org_prefix :: "jstr \<Rightarrow> jstr" where
  "org_prefix org = js ''org/'' @ org @ js ''/''"

text \<open>\<open>sign config key expiresIn\<close> is the request presigner.\<close>

definition presignMediaUrl ::
  "r2_environment \<Rightarrow> (r2_config \<Rightarrow> jstr \<Rightarrow> nat \<Rightarrow> jstr) \<Rightarrow> jstr \<Rightarrow> jstr \<Rightarrow> media_error + (jstr \<times> nat)" where
  "presignMediaUrl env sign key org =
    (if \<not> starts_with (org_prefix org) key then Inl Foreign_media_key
     else case r2Config env of
       None \<Rightarrow> Inl R2_configuration
     | Some config \<Rightarrow> Inr (sign config key (rc_ttlSeconds config), rc_ttlSeconds config))"

section \<open>Bytes\<close>

text \<open>
  What the store answers for a key: the declared length, and the body as the chunks the stream yields, with whether it
  fails after them. A failed request is \<^const>\<open>None\<close>; an answer without a body has none.
\<close>

record stored_object =
  so_contentLength :: "nat option"
  so_body :: "(nat list list \<times> bool) option"

text \<open>The loop over the stream: the bytes so far, abandoned as soon as they exceed the cap.\<close>

fun read_chunks :: "nat \<Rightarrow> nat list \<Rightarrow> nat list list \<Rightarrow> nat list option" where
  "read_chunks cap acc [] = Some acc"
| "read_chunks cap acc (c # cs) = (if cap < length acc + length c then None else read_chunks cap (acc @ c) cs)"

definition max_safe_integer :: int where "max_safe_integer = 9007199254740991"

definition readMediaObject ::
  "r2_environment \<Rightarrow> (r2_config \<Rightarrow> jstr \<Rightarrow> stored_object option) \<Rightarrow> jstr \<Rightarrow> jstr \<Rightarrow> int \<Rightarrow> media_error + nat list option" where
  "readMediaObject env fetch key org maxBytes =
    (if \<not> starts_with (org_prefix org) key then Inl Foreign_media_key
     else if maxBytes \<le> 0 \<or> max_safe_integer < maxBytes then Inl Media_range
     else case r2Config env of
       None \<Rightarrow> Inl R2_configuration
     | Some config \<Rightarrow> Inr
       (case fetch config key of
          None \<Rightarrow> None
        | Some obj \<Rightarrow>
          (case so_body obj of
             None \<Rightarrow> None
           | Some (chunks, fails) \<Rightarrow>
             (case so_contentLength obj of
                Some n \<Rightarrow> if maxBytes < int n then None else
                  (case read_chunks (nat maxBytes) [] chunks of None \<Rightarrow> None | Some bytes \<Rightarrow> if fails \<or> bytes = [] then None else Some bytes)
              | None \<Rightarrow>
                  (case read_chunks (nat maxBytes) [] chunks of None \<Rightarrow> None | Some bytes \<Rightarrow> if fails \<or> bytes = [] then None else Some bytes)))))"

lemma read_chunks_length: "read_chunks cap acc cs = Some bytes \<Longrightarrow> length acc \<le> cap \<Longrightarrow> length bytes \<le> cap \<and> bytes = acc @ concat cs"
proof (induction cs arbitrary: acc)
  case (Cons c cs)
  from Cons.prems have "read_chunks cap (acc @ c) cs = Some bytes" "length (acc @ c) \<le> cap" by (simp_all split: if_splits)
  from Cons.IH [OF this] show ?case unfolding concat.simps append_assoc .
qed simp

lemma readMediaObject_bounded:
  assumes "readMediaObject env fetch key org maxBytes = Inr (Some bytes)"
  shows "int (length bytes) \<le> maxBytes \<and> bytes \<noteq> [] \<and> starts_with (org_prefix org) key
    \<and> (\<exists>config obj chunks. r2Config env = Some config \<and> fetch config key = Some obj \<and> so_body obj = Some (chunks, False) \<and> bytes = concat chunks)"
  using assms by (auto simp: readMediaObject_def split: if_splits option.splits prod.splits dest!: read_chunks_length)

end
