(* ===== verification/Messages.thy ===== *)
theory Messages
  imports Store Clock Complex_Main "HOL-Library.Product_Lexorder"
begin

text \<open>
  Message search (\<open>apps/web/src/server/repos/messages.ts\<close> and \<open>app/api/messages/route.ts\<close>): filtered pages in a
  total order, walked by an opaque cursor. The text index of the database, Unicode's lower case and the two
  encodings of a cursor (JSON in base64url, and ISO dates) are parameters.
\<close>

section \<open>Rows\<close>

record message_media_row =
  mw_status :: jstr
  mw_declaredType :: "jstr option"
  mw_r2Key :: "jstr option"
  mw_mime :: "jstr option"
  mw_fileName :: "jstr option"
  mw_reason :: "jstr option"

record message_row =
  mr_waMessageId :: jstr
  mr_instanceId :: jstr
  mr_groupJid :: jstr
  mr_senderJid :: jstr
  mr_pushName :: jstr
  mr_fromMe :: bool
  mr_timestamp :: "jstr option"
  mr_kind :: jstr
  mr_text :: jstr
  mr_media :: message_media_row

definition or_blank :: "jstr option \<Rightarrow> jstr" where
  "or_blank v = (case v of None \<Rightarrow> [] | Some s \<Rightarrow> s)"

definition toMessageRow :: "message_doc \<Rightarrow> message_row" where
  "toMessageRow doc =
    (let media = ms_media doc
     in \<lparr>mr_waMessageId = ms_waMessageId doc, mr_instanceId = ms_instanceId doc, mr_groupJid = ms_groupJid doc,
         mr_senderJid = or_blank (ms_senderJid doc), mr_pushName = or_blank (ms_pushName doc), mr_fromMe = ms_fromMe doc,
         mr_timestamp = (case ms_timestamp doc of None \<Rightarrow> None | Some t \<Rightarrow> if valid_date t then Some (toISOString t) else None),
         mr_kind = ms_kind doc, mr_text = or_blank (ms_text doc),
         mr_media = \<lparr>mw_status = (case Option.bind media md_status of None \<Rightarrow> js ''none'' | Some s \<Rightarrow> s),
           mw_declaredType = Option.bind media md_declaredType, mw_r2Key = Option.bind media md_r2Key,
           mw_mime = Option.bind media md_mime, mw_fileName = Option.bind media md_fileName, mw_reason = Option.bind media md_reason\<rparr>\<rparr>)"

section \<open>Pages and cursors\<close>

definition message_default_limit :: nat where "message_default_limit = 50"

definition message_max_limit :: nat where "message_max_limit = 200"

definition max_query_length :: nat where "max_query_length = 256"

text \<open>A limit is absent, not finite, or a number of which the floor is taken.\<close>

definition clampMessageLimit :: "rat option \<Rightarrow> nat" where
  "clampMessageLimit v = (case v of None \<Rightarrow> message_default_limit
     | Some x \<Rightarrow> nat (min (max \<lfloor>x\<rfloor> 1) (int message_max_limit)))"

record message_env =
  mv_lower :: "jstr \<Rightarrow> jstr"
  mv_textHit :: "jstr \<Rightarrow> message_doc \<Rightarrow> bool"
  mv_print :: "json \<Rightarrow> jstr"
  mv_read :: "jstr \<Rightarrow> json option"
  mv_date :: "jstr \<Rightarrow> time option"

record cursor_key =
  ck_timestamp :: time
  ck_waMessageId :: jstr
  ck_instanceId :: jstr

definition encodeMessageCursor :: "message_env \<Rightarrow> message_row \<Rightarrow> jstr" where
  "encodeMessageCursor env row = mv_print env (JArr [case mr_timestamp row of None \<Rightarrow> JNull | Some t \<Rightarrow> JStr t,
     JStr (mr_waMessageId row), JStr (mr_instanceId row)])"

text \<open>\<^const>\<open>None\<close> is the invalid cursor error.\<close>

definition decodeMessageCursor :: "message_env \<Rightarrow> jstr \<Rightarrow> cursor_key option" where
  "decodeMessageCursor env cursor = (case mv_read env cursor of
      Some (JArr [JStr timestamp, JStr wa, JStr inst]) \<Rightarrow>
        if wa = [] \<or> inst = [] then None
        else map_option (\<lambda>t. \<lparr>ck_timestamp = t, ck_waMessageId = wa, ck_instanceId = inst\<rparr>) (mv_date env timestamp)
    | _ \<Rightarrow> None)"

definition nextMessageCursor :: "message_env \<Rightarrow> message_row list \<Rightarrow> nat \<Rightarrow> jstr option" where
  "nextMessageCursor env rows limit =
    (if length rows < limit then None
     else case rows of [] \<Rightarrow> None
       | _ \<Rightarrow> if mr_timestamp (last rows) = None then None else Some (encodeMessageCursor env (last rows)))"

section \<open>The filter\<close>

record message_search_input =
  mi_organizationId :: jstr
  mi_query :: jstr
  mi_instanceId :: "jstr option"
  mi_groupJid :: "jstr option"
  mi_senderJid :: "jstr option"
  mi_kinds :: "jstr list"
  mi_mediaStatus :: "jstr option"
  mi_from :: "time option"
  mi_to :: "time option"
  mi_limit :: "rat option"
  mi_cursor :: "jstr option"

text \<open>An absent or empty filter excludes nothing.\<close>

definition narrows :: "jstr option \<Rightarrow> jstr option \<Rightarrow> bool" where
  "narrows wanted v \<longleftrightarrow> (case wanted of Some (c # cs) \<Rightarrow> v = Some (c # cs) | _ \<Rightarrow> True)"

definition in_range :: "time option \<Rightarrow> time option \<Rightarrow> time option \<Rightarrow> bool" where
  "in_range since until v \<longleftrightarrow> (since = None \<and> until = None) \<or>
     (case v of None \<Rightarrow> False
      | Some t \<Rightarrow> (case since of None \<Rightarrow> True | Some a \<Rightarrow> a \<le> t) \<and> (case until of None \<Rightarrow> True | Some b \<Rightarrow> t \<le> b))"

definition in_filters :: "message_search_input \<Rightarrow> message_doc \<Rightarrow> bool" where
  "in_filters inp m \<longleftrightarrow> ms_organizationId m = mi_organizationId inp
     \<and> narrows (mi_instanceId inp) (Some (ms_instanceId m)) \<and> narrows (mi_groupJid inp) (Some (ms_groupJid m))
     \<and> narrows (mi_senderJid inp) (ms_senderJid m) \<and> (mi_kinds inp = [] \<or> ms_kind m \<in> set (mi_kinds inp))
     \<and> narrows (mi_mediaStatus inp) (Option.bind (ms_media m) md_status)
     \<and> in_range (mi_from inp) (mi_to inp) (ms_timestamp m)"

text \<open>The stored order compares strings by their UTF-8 bytes; a missing timestamp is below every date.\<close>

definition after_cursor :: "cursor_key \<Rightarrow> message_doc \<Rightarrow> bool" where
  "after_cursor k m \<longleftrightarrow> (case ms_timestamp m of None \<Rightarrow> False
     | Some t \<Rightarrow> t < ck_timestamp k
         \<or> (t = ck_timestamp k \<and> utf8_order (ms_waMessageId m) < utf8_order (ck_waMessageId k))
         \<or> (t = ck_timestamp k \<and> ms_waMessageId m = ck_waMessageId k \<and> utf8_order (ms_instanceId m) < utf8_order (ck_instanceId k)))"

text \<open>The predicate of a search, or the invalid cursor error.\<close>

definition messageFilter :: "message_env \<Rightarrow> message_search_input \<Rightarrow> (message_doc \<Rightarrow> bool) option" where
  "messageFilter env inp = (case mi_cursor inp of
      Some (c # cs) \<Rightarrow> map_option (\<lambda>k m. in_filters inp m \<and> after_cursor k m) (decodeMessageCursor env (c # cs))
    | _ \<Rightarrow> Some (in_filters inp))"

section \<open>The search\<close>

definition message_order :: "message_doc \<Rightarrow> (nat \<times> int) \<times> nat list \<times> nat list" where
  "message_order m = ((case ms_timestamp m of None \<Rightarrow> (0, 0) | Some t \<Rightarrow> (1, t)),
     utf8_order (ms_waMessageId m), utf8_order (ms_instanceId m))"

definition message_page :: "db \<Rightarrow> (message_doc \<Rightarrow> bool) \<Rightarrow> nat \<Rightarrow> message_doc list" where
  "message_page d wanted limit = take limit (sort_desc message_order (filter wanted (messages d)))"

definition row_order :: "message_row \<Rightarrow> jstr \<times> jstr \<times> jstr" where
  "row_order r = (or_blank (mr_timestamp r), mr_waMessageId r, mr_instanceId r)"

definition row_identity :: "message_row \<Rightarrow> jstr" where
  "row_identity r = mr_instanceId r @ [0] @ mr_waMessageId r"

text \<open>The first row of each identity, in order: a \<open>Map\<close> that keeps what it has.\<close>

fun first_of_each :: "jstr list \<Rightarrow> message_row list \<Rightarrow> message_row list" where
  "first_of_each seen [] = []"
| "first_of_each seen (r # rs) = (if row_identity r \<in> set seen then first_of_each seen rs
     else r # first_of_each (row_identity r # seen) rs)"

text \<open>The quoted term, matched at the start of the folded text.\<close>

definition typeahead :: "message_env \<Rightarrow> jstr \<Rightarrow> message_doc \<Rightarrow> bool" where
  "typeahead env term m \<longleftrightarrow> (let t = mv_lower env term in case ms_textSearch m of None \<Rightarrow> False | Some s \<Rightarrow> take (length t) s = t)"

definition searchMessages :: "message_env \<Rightarrow> db \<Rightarrow> message_search_input \<Rightarrow> message_row list option" where
  "searchMessages env d inp = (case messageFilter env inp of
      None \<Rightarrow> None
    | Some wanted \<Rightarrow>
      (let limit = clampMessageLimit (mi_limit inp); term = take max_query_length (trim (mi_query inp))
       in if term = [] then Some (map toMessageRow (message_page d wanted limit))
          else let byText = message_page d (\<lambda>m. wanted m \<and> mv_textHit env term m) limit;
                   byTypeahead = message_page d (\<lambda>m. wanted m \<and> typeahead env term m) limit
               in Some (take limit (sort_desc row_order (first_of_each [] (map toMessageRow (byText @ byTypeahead)))))))"

section \<open>One message's media and raw tree\<close>

definition is_message :: "jstr \<Rightarrow> jstr \<Rightarrow> jstr \<Rightarrow> message_doc \<Rightarrow> bool" where
  "is_message org inst wa m \<longleftrightarrow> ms_organizationId m = org \<and> ms_instanceId m = inst \<and> ms_waMessageId m = wa"

definition messageMediaKey :: "db \<Rightarrow> jstr \<Rightarrow> jstr \<Rightarrow> jstr \<Rightarrow> jstr option" where
  "messageMediaKey d org inst wa = (case find (is_message org inst wa) (messages d) of
      None \<Rightarrow> None
    | Some m \<Rightarrow> (case Option.bind (ms_media m) md_r2Key of Some (c # cs) \<Rightarrow> Some (c # cs) | _ \<Rightarrow> None))"

record raw_tree =
  rt_message :: json
  rt_truncated :: bool
  rt_bytes :: int

definition messageRawTree :: "db \<Rightarrow> jstr \<Rightarrow> jstr \<Rightarrow> jstr \<Rightarrow> raw_tree option" where
  "messageRawTree d org inst wa = (case Option.bind (find (is_message org inst wa) (messages d)) ms_raw of
      None \<Rightarrow> None
    | Some raw \<Rightarrow> (case rw_message raw of
        None \<Rightarrow> None
      | Some tree \<Rightarrow> if tree = JNull then None
          else Some \<lparr>rt_message = tree, rt_truncated = (rw_truncated raw = Some True), rt_bytes = (case rw_bytes raw of None \<Rightarrow> 0 | Some n \<Rightarrow> n)\<rparr>))"

end
