(* ===== verification/ToolScope.thy ===== *)
theory ToolScope
  imports GroupRows Messages
begin

text \<open>
  What both tool families scope themselves by (\<open>ToolChatContext\<close> of \<open>apps/web/src/server/mcp/media-tools.ts\<close>): the
  verified chat of one reply job, and the live authorisation of a group.
\<close>

record tool_chat =
  ch_organizationId :: jstr
  ch_instanceId :: jstr
  ch_chatKind :: chat_kind
  ch_chatJid :: jstr
  ch_groupJid :: "jstr option"
  ch_authorizedJids :: "jstr list"

definition usableChatContext :: "tool_chat \<Rightarrow> bool" where
  "usableChatContext ch \<longleftrightarrow> ch_organizationId ch \<noteq> [] \<and> ch_instanceId ch \<noteq> [] \<and> ch_chatJid ch \<noteq> []
     \<and> 0 < length (ch_authorizedJids ch) \<and> list_all (\<lambda>j. j \<noteq> []) (ch_authorizedJids ch)
     \<and> (if ch_chatKind ch = Chat_group then ch_groupJid ch \<noteq> None else ch_groupJid ch = None)"

definition monitoredGroup :: "db \<Rightarrow> tool_chat \<Rightarrow> jstr \<Rightarrow> bool" where
  "monitoredGroup d ch jid = (case find (is_group (ch_organizationId ch) (ch_instanceId ch) jid) (groups d) of
      None \<Rightarrow> False | Some g \<Rightarrow> both_flags g)"

text \<open>A count as a caller sent it: \<^const>\<open>None\<close> when it is absent or not finite.\<close>

definition clampCount :: "rat option \<Rightarrow> nat \<Rightarrow> nat \<Rightarrow> nat" where
  "clampCount v fallback maximum = (case v of None \<Rightarrow> fallback | Some q \<Rightarrow> min (nat (max \<lfloor>q\<rfloor> 1)) maximum)"

lemma clampCount_bounds: "fallback \<le> maximum \<Longrightarrow> 1 \<le> fallback \<Longrightarrow> 1 \<le> clampCount v fallback maximum \<and> clampCount v fallback maximum \<le> maximum"
  by (auto simp: clampCount_def split: option.splits)

text \<open>The group rows a chat may read from.\<close>

lemma monitoredGroup_flags: "monitoredGroup d ch jid \<Longrightarrow>
    \<exists>g \<in> set (groups d). is_group (ch_organizationId ch) (ch_instanceId ch) jid g \<and> both_flags g"
  by (auto simp: monitoredGroup_def find_Some_iff split: option.splits)

end
