(* ===== verification/MediaTools.thy ===== *)
theory MediaTools
  imports MediaText Media ToolScope
begin

text \<open>
  The media tools (\<open>apps/web/src/server/mcp/media-tools.ts\<close>): a message in the job's scope, its attachment's type
  against the tool's, the bytes under the tool's ceiling, and one bounded JSON answer with one audit record. The local binaries,
  SHA-256, canonical composition and \<open>parseFloat\<close> are parameters; a call of the tool is atomic, since it only reads.
\<close>

section \<open>Types a tool consumes\<close>

datatype media_tool = Media_get_image | Media_read_csv | Media_read_document | Media_transcribe_audio | Media_describe_video

definition docx_mime :: jstr where "docx_mime = js ''application/vnd.openxmlformats-officedocument.wordprocessingml.document''"

definition xlsx_mime :: jstr where "xlsx_mime = js ''application/vnd.openxmlformats-officedocument.spreadsheetml.sheet''"

definition zip_mimes :: "jstr list" where "zip_mimes = [js ''application/zip'', js ''application/x-zip-compressed'']"

definition consumable_mimes :: "media_tool \<Rightarrow> jstr list" where
  "consumable_mimes name = (case name of
      Media_get_image \<Rightarrow> [js ''image/jpeg'', js ''image/png'', js ''image/webp'', js ''image/gif'']
    | Media_read_csv \<Rightarrow> [js ''text/csv'', js ''application/csv'']
    | Media_read_document \<Rightarrow> [js ''text/plain'', js ''text/csv'', js ''application/json'', js ''application/pdf'', docx_mime, xlsx_mime] @ zip_mimes
    | Media_transcribe_audio \<Rightarrow> [js ''audio/ogg'', js ''audio/opus'', js ''audio/mpeg'', js ''audio/mp3'', js ''audio/wav'', js ''audio/x-wav'',
        js ''audio/wave'', js ''audio/mp4'', js ''audio/m4a'', js ''audio/x-m4a'']
    | Media_describe_video \<Rightarrow> [js ''video/mp4'', js ''video/webm''])"

text \<open>The stored type is lowered by \<open>lower\<close>, Unicode's lower case.\<close>

definition consumableMime :: "(jstr \<Rightarrow> jstr) \<Rightarrow> media_tool \<Rightarrow> jstr \<Rightarrow> bool" where
  "consumableMime lower name mime \<longleftrightarrow> lower mime \<in> set (consumable_mimes name)"

section \<open>Limits\<close>

definition image_bytes :: int where "image_bytes = 8 * 1024 * 1024"
definition csv_bytes :: int where "csv_bytes = 10 * 1024 * 1024"
definition document_bytes :: int where "document_bytes = 20 * 1024 * 1024"
definition video_bytes :: int where "video_bytes = 25 * 1024 * 1024"
definition extract_bytes :: nat where "extract_bytes = 1024 * 1024"
definition image_result_overhead_chars :: nat where "image_result_overhead_chars = 256"
definition result_limit :: nat where "result_limit = 32000"
definition image_payload_bytes :: nat where "image_payload_bytes = (result_limit - image_result_overhead_chars) * 3 div 4"

record media_input =
  mdi_waMessageId :: jstr
  mdi_maxRows :: "rat option"
  mdi_maxColumns :: "rat option"
  mdi_maxChars :: "rat option"
  mdi_maxSeconds :: "rat option"
  mdi_maxFrames :: "rat option"

record bounded_input =
  bi_waMessageId :: jstr
  bi_maxRows :: nat
  bi_maxColumns :: nat
  bi_maxChars :: nat
  bi_maxSeconds :: nat
  bi_maxFrames :: nat

definition bounded_of :: "media_input \<Rightarrow> bounded_input" where
  "bounded_of i = \<lparr>bi_waMessageId = mdi_waMessageId i, bi_maxRows = clampCount (mdi_maxRows i) 100 500,
     bi_maxColumns = clampCount (mdi_maxColumns i) 30 50, bi_maxChars = clampCount (mdi_maxChars i) 12000 24000,
     bi_maxSeconds = clampCount (mdi_maxSeconds i) 120 600, bi_maxFrames = clampCount (mdi_maxFrames i) 8 16\<rparr>"

section \<open>One extraction child\<close>

text \<open>
  What a child does, in order: it yields a chunk, ends with a code, fails to start or to be written to, or runs past
  its ten seconds. The first event that settles the promise decides, and every other is ignored.
\<close>

datatype child_event = Chunk "nat list" | Exit int | Child_error | Timeout

fun run_child :: "nat list \<Rightarrow> child_event list \<Rightarrow> nat list option option" where
  "run_child out [] = None"
| "run_child out (Chunk c # es) = (if extract_bytes < length out + length c then Some None else run_child (out @ c) es)"
| "run_child out (Exit code # es) = Some (if code = 0 \<and> out \<noteq> [] then Some out else None)"
| "run_child out (Child_error # es) = Some None"
| "run_child out (Timeout # es) = Some None"

text \<open>A child that ends in nothing is ended by its timer.\<close>

definition runExtractor :: "child_event list \<Rightarrow> nat list option" where
  "runExtractor es = (case run_child [] es of Some r \<Rightarrow> r | None \<Rightarrow> None)"

text \<open>
  The environment: the bytes of an object, the children of each binary (the archive or clip a temporary file holds
  is the bytes), and the functions of the runtime.
\<close>

record media_env =
  mde_read :: "jstr \<Rightarrow> jstr \<Rightarrow> int \<Rightarrow> media_error + nat list option"
  mde_pdftotext :: "nat list \<Rightarrow> child_event list"
  mde_unzip :: "nat list \<Rightarrow> jstr \<Rightarrow> child_event list"
  mde_imagemagick :: "string \<Rightarrow> jstr list \<Rightarrow> nat list \<Rightarrow> child_event list"
  mde_ffprobe :: "nat list \<Rightarrow> child_event list"
  mde_ffmpeg :: "int \<Rightarrow> nat list \<Rightarrow> child_event list"
  mde_parseFloat :: "jstr \<Rightarrow> rat option"
  mde_jsonParses :: "jstr \<Rightarrow> bool"
  mde_nfc :: "jstr \<Rightarrow> jstr"
  mde_lower :: "jstr \<Rightarrow> jstr"
  mde_sha256 :: "nat list \<Rightarrow> jstr"

section \<open>Documents\<close>

definition pdfText :: "media_env \<Rightarrow> nat list \<Rightarrow> jstr option" where
  "pdfText env bytes = map_option decode_utf8 (runExtractor (mde_pdftotext env bytes))"

definition packageMember :: "media_env \<Rightarrow> nat list \<Rightarrow> jstr \<Rightarrow> jstr option" where
  "packageMember env bytes part = map_option decode_utf8 (runExtractor (mde_unzip env bytes part))"

definition docxText :: "media_env \<Rightarrow> nat list \<Rightarrow> jstr option" where
  "docxText env bytes = map_option documentXmlText (packageMember env bytes (js ''word/document.xml''))"

definition firstWorksheetPath :: "media_env \<Rightarrow> nat list \<Rightarrow> jstr option" where
  "firstWorksheetPath env bytes =
    (case (packageMember env bytes (js ''xl/workbook.xml''), packageMember env bytes (js ''xl/_rels/workbook.xml.rels'')) of
       (Some workbook, Some relationships) \<Rightarrow> worksheet_path workbook relationships
     | _ \<Rightarrow> None)"

definition xlsxText :: "media_env \<Rightarrow> nat list \<Rightarrow> jstr option" where
  "xlsxText env bytes =
    Option.bind (firstWorksheetPath env bytes) (\<lambda>worksheet.
    Option.bind (packageMember env bytes worksheet) (\<lambda>sheet.
      let shared = (case packageMember env bytes (js ''xl/sharedStrings.xml'') of None \<Rightarrow> [] | Some t \<Rightarrow> sharedStringTable t);
          t = normalizeUntrustedText (mde_nfc env) (worksheetText sheet shared)
      in if list_ex (\<lambda>c. \<not> is_space c) t then Some t else None))"

definition ooxmlText :: "media_env \<Rightarrow> nat list \<Rightarrow> jstr option" where
  "ooxmlText env bytes = (case xlsxText env bytes of Some t \<Rightarrow> Some t | None \<Rightarrow> docxText env bytes)"

definition clipExtracted :: "jstr option \<Rightarrow> nat \<Rightarrow> (jstr \<times> bool) option" where
  "clipExtracted t maxChars = map_option (\<lambda>v. clipScalars v maxChars) t"

definition extractDocument :: "media_env \<Rightarrow> jstr \<Rightarrow> nat list \<Rightarrow> nat \<Rightarrow> (jstr \<times> bool) option" where
  "extractDocument env mime bytes maxChars =
    (if mime = js ''application/pdf'' then clipExtracted (pdfText env bytes) maxChars
     else if mime = docx_mime then clipExtracted (docxText env bytes) maxChars
     else if mime = xlsx_mime then clipExtracted (xlsxText env bytes) maxChars
     else if mime \<in> set zip_mimes then clipExtracted (ooxmlText env bytes) maxChars
     else let t = normalizeUntrustedText (mde_nfc env) (decode_utf8 bytes)
       in if mime = js ''application/json'' \<and> \<not> mde_jsonParses env t then None else clipExtracted (Some t) maxChars)"

section \<open>Images\<close>

definition magickFormat :: "jstr \<Rightarrow> jstr option" where
  "magickFormat mime =
    (if mime = js ''image/jpeg'' then Some (js ''jpeg'') else if mime = js ''image/png'' then Some (js ''png'')
     else if mime = js ''image/gif'' then Some (js ''gif'') else if mime = js ''image/webp'' then Some (js ''webp'') else None)"

definition image_args :: "jstr \<Rightarrow> jstr \<Rightarrow> jstr list \<Rightarrow> jstr list" where
  "image_args source format extra =
    [source @ js '':-'', js ''-auto-orient'', js ''-resize'', js ''1536x1536>'', js ''-strip''] @ extra @ [format @ js '':-'']"

definition runImage :: "media_env \<Rightarrow> jstr \<Rightarrow> jstr \<Rightarrow> jstr list \<Rightarrow> nat list \<Rightarrow> nat list option" where
  "runImage env source format extra bytes =
    (let args = image_args source format extra
     in case runExtractor (mde_imagemagick env ''magick'' args bytes) of
          Some out \<Rightarrow> Some out
        | None \<Rightarrow> runExtractor (mde_imagemagick env ''convert'' args bytes))"

text \<open>\<open>4 * Math.ceil(n / 3)\<close>.\<close>

definition base64_size :: "nat list \<Rightarrow> nat" where
  "base64_size bytes = 4 * ((length bytes + 2) div 3)"

definition image_room :: nat where "image_room = result_limit - image_result_overhead_chars"

definition prepareImage :: "media_env \<Rightarrow> jstr \<Rightarrow> nat list \<Rightarrow> (nat list \<times> jstr) option" where
  "prepareImage env mime bytes = (case magickFormat mime of
      None \<Rightarrow> None
    | Some source \<Rightarrow>
      (case runImage env source source [] bytes of
         Some resized \<Rightarrow> if base64_size resized \<le> image_room then Some (resized, mime)
           else (case runImage env source (js ''jpeg'') [js ''-define'', js ''jpeg:extent='' @ dec image_payload_bytes] bytes of
               Some small \<Rightarrow> if base64_size small \<le> image_room then Some (small, js ''image/jpeg'') else None
             | None \<Rightarrow> None)
       | None \<Rightarrow> (case runImage env source (js ''jpeg'') [js ''-define'', js ''jpeg:extent='' @ dec image_payload_bytes] bytes of
               Some small \<Rightarrow> if base64_size small \<le> image_room then Some (small, js ''image/jpeg'') else None
             | None \<Rightarrow> None)))"

section \<open>Video frames\<close>

text \<open>A number with at most three decimals, as \<open>toFixed(3)\<close> leaves it: its thousandths, the larger of two nearest.\<close>

definition fixed3 :: "rat \<Rightarrow> int" where
  "fixed3 q = \<lfloor>q * 1000 + 1 / 2\<rfloor>"

definition videoDurationSec :: "media_env \<Rightarrow> nat list \<Rightarrow> rat option" where
  "videoDurationSec env clip = (case runExtractor (mde_ffprobe env clip) of
      None \<Rightarrow> None
    | Some out \<Rightarrow> (case mde_parseFloat env (trim (decode_utf8 out)) of Some s \<Rightarrow> if 0 < s then Some s else None | None \<Rightarrow> None))"

definition frame_at :: "rat option \<Rightarrow> nat \<Rightarrow> nat \<Rightarrow> rat" where
  "frame_at duration count index = (case duration of None \<Rightarrow> of_nat index - 1 | Some s \<Rightarrow> s * of_nat index / of_nat (count + 1))"

definition sampled_frames :: "media_env \<Rightarrow> nat list \<Rightarrow> rat option \<Rightarrow> nat \<Rightarrow> (rat \<times> nat list) list" where
  "sampled_frames env clip duration count =
    concat (map (\<lambda>i. case runExtractor (mde_ffmpeg env (fixed3 (frame_at duration count i)) clip) of
        Some frame \<Rightarrow> [(frame_at duration count i, frame)] | None \<Rightarrow> []) [1 ..< Suc count])"

definition videoFrames :: "media_env \<Rightarrow> nat list \<Rightarrow> nat \<Rightarrow> (rat option \<times> (rat \<times> nat list) list) option" where
  "videoFrames env clip count =
    (let duration = videoDurationSec env clip; frames = sampled_frames env clip duration count
     in if frames = [] then None else Some (duration, frames))"

section \<open>Results\<close>

datatype media_result =
    Not_available
  | Not_stored jstr
  | Unsupported_type jstr
  | Ok_image jstr jstr jstr jstr
  | Ok_table jstr csv_table jstr
  | Ok_document jstr jstr "jstr \<times> bool" jstr
  | Ok_video jstr "int option" "(int \<times> jstr) list" jstr

definition not_stored_message :: "jstr \<Rightarrow> jstr" where
  "not_stored_message status = js ''That attachment is not stored (the capture left it '' @ status
     @ js ''), so there is nothing to read yet. Tell the owner it has to be sent again; do not claim the file was read.''"

definition unsupported_message :: "jstr \<Rightarrow> jstr" where
  "unsupported_message mime = js ''This tool cannot read '' @ mime
     @ js ''. Say which kind of file it is and which tool would read it, rather than that nothing arrived.''"

text \<open>A number of thousandths as JSON prints it.\<close>

definition drop_zeros :: "jstr \<Rightarrow> jstr" where
  "drop_zeros s = rev (dropWhile (\<lambda>c. c = 48) (rev s))"

definition thousandths :: "int \<Rightarrow> jstr" where
  "thousandths n = (let frac = drop_zeros [48 + nat (n mod 1000) div 100, 48 + nat (n mod 1000) div 10 mod 10, 48 + nat (n mod 1000) mod 10]
     in dec (nat (n div 1000)) @ (if frac = [] then [] else 46 # frac))"

definition json_flag :: "bool \<Rightarrow> jstr" where
  "json_flag b = (if b then js ''true'' else js ''false'')"

definition json_texts :: "jstr list \<Rightarrow> jstr" where
  "json_texts vs = js ''['' @ join (js '','') (map json_string vs) @ js '']''"

text \<open>\<open>JSON.stringify\<close> of a result.\<close>

fun result_json :: "media_result \<Rightarrow> jstr" where
  "result_json Not_available = json_object [(''ok'', json_flag False), (''code'', json_string (js ''not_available''))]"
| "result_json (Not_stored status) = json_object [(''ok'', json_flag False), (''code'', json_string (js ''not_stored'')),
     (''status'', json_string status), (''message'', json_string (not_stored_message status))]"
| "result_json (Unsupported_type mime) = json_object [(''ok'', json_flag False), (''code'', json_string (js ''unsupported_type'')),
     (''mime'', json_string mime), (''message'', json_string (unsupported_message mime))]"
| "result_json (Ok_image m mime url sha) = json_object [(''ok'', json_flag True), (''messageId'', json_string m),
     (''mime'', json_string mime), (''dataUrl'', json_string url), (''sha256'', json_string sha)]"
| "result_json (Ok_table m t sha) = json_object [(''ok'', json_flag True), (''messageId'', json_string m),
     (''columns'', json_texts (ct_columns t)), (''rows'', js ''['' @ join (js '','') (map json_texts (ct_rows t)) @ js '']''),
     (''truncated'', json_flag (ct_truncated t)), (''sha256'', json_string sha)]"
| "result_json (Ok_document m mime t sha) = json_object [(''ok'', json_flag True), (''messageId'', json_string m),
     (''mime'', json_string mime), (''text'', json_string (fst t)), (''truncated'', json_flag (snd t)), (''sha256'', json_string sha)]"
| "result_json (Ok_video m duration frames sha) = json_object [(''ok'', json_flag True), (''messageId'', json_string m),
     (''durationSec'', case duration of None \<Rightarrow> js ''null'' | Some n \<Rightarrow> thousandths n),
     (''frames'', js ''['' @ join (js '','') (map (\<lambda>f. json_object [(''atSec'', thousandths (fst f)), (''imageDataUrl'', json_string (snd f))]) frames) @ js '']''),
     (''sha256'', json_string sha)]"

definition fits :: "media_result \<Rightarrow> bool" where
  "fits r \<longleftrightarrow> length (result_json r) \<le> result_limit"

definition or_unavailable :: "media_result \<Rightarrow> media_result" where
  "or_unavailable r = (if fits r then r else Not_available)"

section \<open>The five tools\<close>

record scoped_media =
  sm_groupJid :: jstr
  sm_messageId :: jstr
  sm_status :: jstr
  sm_mime :: jstr
  sm_r2Key :: jstr

definition data_url_of :: "jstr \<Rightarrow> nat list \<Rightarrow> jstr" where
  "data_url_of mime bytes = js ''data:'' @ mime @ js '';base64,'' @ base64 bytes"

definition image_payload :: "media_env \<Rightarrow> scoped_media \<Rightarrow> nat list \<times> jstr \<Rightarrow> media_result" where
  "image_payload env scoped c = Ok_image (sm_messageId scoped) (snd c) (data_url_of (snd c) (fst c)) (mde_sha256 env (fst c))"

fun first_image :: "media_env \<Rightarrow> scoped_media \<Rightarrow> (nat list \<times> jstr) list \<Rightarrow> media_result" where
  "first_image env scoped [] = Not_available"
| "first_image env scoped (c # cs) =
    (if base64_size (fst c) \<le> image_room \<and> fits (image_payload env scoped c) then image_payload env scoped c else first_image env scoped cs)"

fun take_frames :: "((int \<times> jstr) list \<Rightarrow> media_result) \<Rightarrow> (int \<times> jstr) list \<Rightarrow> (rat \<times> nat list) list \<Rightarrow> (int \<times> jstr) list" where
  "take_frames payload frames [] = frames"
| "take_frames payload frames (f # fs) =
    (let more = frames @ [(fixed3 (fst f), data_url_of (js ''image/jpeg'') (snd f))]
     in if fits (payload more) then take_frames payload more fs else frames)"

text \<open>Whole rows are dropped from the end until the answer fits.\<close>

function drop_rows :: "(csv_table \<Rightarrow> media_result) \<Rightarrow> csv_table \<Rightarrow> csv_table" where
  "drop_rows payload t =
    (if ct_rows t \<noteq> [] \<and> \<not> fits (payload t) then drop_rows payload (t\<lparr>ct_rows := butlast (ct_rows t), ct_truncated := True\<rparr>) else t)"
  by pat_completeness auto
termination by (relation "measure (\<lambda>(_, t). length (ct_rows t))") auto

declare drop_rows.simps [simp del]

text \<open>\<^const>\<open>None\<close> is a read that throws.\<close>

definition readCapability :: "media_env \<Rightarrow> media_tool \<Rightarrow> scoped_media \<Rightarrow> bounded_input \<Rightarrow> jstr \<Rightarrow> media_result option" where
  "readCapability env name scoped i org =
    (if \<not> consumableMime (mde_lower env) name (sm_mime scoped) then Some Not_available
     else if name = Media_transcribe_audio then Some Not_available
     else case mde_read env (sm_r2Key scoped) org
         (case name of Media_get_image \<Rightarrow> image_bytes | Media_describe_video \<Rightarrow> video_bytes | Media_read_csv \<Rightarrow> csv_bytes | _ \<Rightarrow> document_bytes) of
       Inl _ \<Rightarrow> None
     | Inr None \<Rightarrow> Some Not_available
     | Inr (Some bytes) \<Rightarrow> Some
       (case name of
          Media_get_image \<Rightarrow> first_image env scoped
            ((case prepareImage env (sm_mime scoped) bytes of Some p \<Rightarrow> [p] | None \<Rightarrow> []) @ [(bytes, sm_mime scoped)])
        | Media_describe_video \<Rightarrow> (case videoFrames env bytes (bi_maxFrames i) of
            None \<Rightarrow> Not_available
          | Some (duration, sampled) \<Rightarrow>
            (let payload = (\<lambda>fs. Ok_video (sm_messageId scoped) (map_option fixed3 duration) fs (mde_sha256 env bytes));
                 frames = take_frames payload [] sampled
             in if frames = [] then Not_available else payload frames))
        | Media_read_csv \<Rightarrow>
            (let payload = (\<lambda>t. Ok_table (sm_messageId scoped) t (mde_sha256 env bytes))
             in or_unavailable (payload (drop_rows payload (parseCsv (decode_utf8 bytes) (bi_maxRows i) (bi_maxColumns i)))))
        | _ \<Rightarrow> (case extractDocument env (sm_mime scoped) bytes (bi_maxChars i) of
            None \<Rightarrow> Not_available
          | Some t \<Rightarrow> or_unavailable (Ok_document (sm_messageId scoped) (sm_mime scoped) t (mde_sha256 env bytes)))))"

section \<open>Scope\<close>

definition or_unknown :: "jstr option \<Rightarrow> jstr" where
  "or_unknown v = (case v of Some s \<Rightarrow> s | None \<Rightarrow> js ''unknown'')"

definition scoped_of :: "(jstr \<Rightarrow> jstr) \<Rightarrow> jstr \<Rightarrow> message_doc \<Rightarrow> scoped_media" where
  "scoped_of lower wa m = \<lparr>sm_groupJid = ms_groupJid m, sm_messageId = wa, sm_status = or_unknown (Option.bind (ms_media m) md_status),
     sm_mime = lower (or_none (Option.bind (ms_media m) md_mime)), sm_r2Key = or_none (Option.bind (ms_media m) md_r2Key)\<rparr>"

definition loadScopedMedia :: "(jstr \<Rightarrow> jstr) \<Rightarrow> db \<Rightarrow> tool_chat \<Rightarrow> jstr \<Rightarrow> scoped_media option" where
  "loadScopedMedia lower d ch wa =
    (if \<not> usableChatContext ch \<or> wa = [] then None
     else map_option (scoped_of lower wa)
       (if ch_chatKind ch = Chat_group then
          (case ch_groupJid ch of
             None \<Rightarrow> None
           | Some g \<Rightarrow> if \<not> monitoredGroup d ch g then None
               else find (\<lambda>m. is_message (ch_organizationId ch) (ch_instanceId ch) wa m \<and> ms_groupJid m = g) (messages d))
        else (case find (is_message (ch_organizationId ch) (ch_instanceId ch) wa) (messages d) of
             None \<Rightarrow> None
           | Some m \<Rightarrow> if ms_groupJid m \<noteq> ch_chatJid ch \<and> \<not> monitoredGroup d ch (ms_groupJid m) then None else Some m)))"

section \<open>One call\<close>

text \<open>What the call meets: whether the database is reached, whether its reads fail and whether the audit write does, and how long it takes.\<close>

record media_call =
  mdc_env :: media_env
  mdc_connects :: bool
  mdc_readsFail :: bool
  mdc_auditFails :: bool
  mdc_durationMs :: int
  mdc_now :: time

definition media_tool_name :: "media_tool \<Rightarrow> string" where
  "media_tool_name name = (case name of Media_get_image \<Rightarrow> ''media_get_image'' | Media_read_csv \<Rightarrow> ''media_read_csv''
     | Media_read_document \<Rightarrow> ''media_read_document'' | Media_transcribe_audio \<Rightarrow> ''media_transcribe_audio'' | Media_describe_video \<Rightarrow> ''media_describe_video'')"

definition is_ok :: "media_result \<Rightarrow> bool" where
  "is_ok r \<longleftrightarrow> (case r of Not_available \<Rightarrow> False | Not_stored _ \<Rightarrow> False | Unsupported_type _ \<Rightarrow> False | _ \<Rightarrow> True)"

definition result_code :: "media_result \<Rightarrow> jstr" where
  "result_code r = (case r of Not_available \<Rightarrow> js ''not_available'' | Not_stored _ \<Rightarrow> js ''not_stored'' | Unsupported_type _ \<Rightarrow> js ''unsupported_type''
     | _ \<Rightarrow> js ''ok'')"

definition media_audit :: "media_call \<Rightarrow> tool_chat \<Rightarrow> media_tool \<Rightarrow> jstr \<Rightarrow> media_result \<Rightarrow> jstr option \<Rightarrow> audit_entry" where
  "media_audit c ch name wa r groupJid = \<lparr>ae_organizationId = ch_organizationId ch, ae_actor = Owner, ae_action = Media_tool_read,
     ae_target = (T_message, wa), ae_meta = Some [(js ''instanceId'', JStr (ch_instanceId ch)),
       (js ''groupJid'', case groupJid of None \<Rightarrow> JNull | Some g \<Rightarrow> JStr g), (js ''operation'', JStr (js (media_tool_name name))),
       (js ''code'', JStr (result_code r)), (js ''bytes'', JNum (int (length (utf8_encode (result_json r))))), (js ''durationMs'', JNum (mdc_durationMs c))],
     ae_ip = js ''internal''\<rparr>"

definition recordMediaRead :: "media_call \<Rightarrow> db \<Rightarrow> tool_chat \<Rightarrow> media_tool \<Rightarrow> jstr \<Rightarrow> media_result \<Rightarrow> jstr option \<Rightarrow> db" where
  "recordMediaRead c d ch name wa r groupJid = (if mdc_auditFails c then d else writeAudit d (media_audit c ch name wa r groupJid) (mdc_now c))"

definition media_answer :: "media_call \<Rightarrow> tool_chat \<Rightarrow> media_tool \<Rightarrow> bounded_input \<Rightarrow> scoped_media option \<Rightarrow> media_result" where
  "media_answer c ch name i scoped = (case scoped of
      None \<Rightarrow> Not_available
    | Some s \<Rightarrow>
      if sm_status s \<noteq> js ''stored'' then Not_stored (sm_status s)
      else if \<not> consumableMime (mde_lower (mdc_env c)) name (sm_mime s) then Unsupported_type (sm_mime s)
      else case readCapability (mdc_env c) name s i (ch_organizationId ch) of Some r \<Rightarrow> r | None \<Rightarrow> Not_available)"

definition runMediaTool :: "media_call \<Rightarrow> db \<Rightarrow> tool_chat \<Rightarrow> media_tool \<Rightarrow> media_input \<Rightarrow> db \<times> media_result" where
  "runMediaTool c d ch name input =
    (let i = bounded_of input;
         scoped = (if mdc_connects c \<and> \<not> mdc_readsFail c then loadScopedMedia (mde_lower (mdc_env c)) d ch (bi_waMessageId i) else None);
         r = media_answer c ch name i scoped
     in (if mdc_connects c then recordMediaRead c d ch name (bi_waMessageId i) r
           (case scoped of Some s \<Rightarrow> Some (sm_groupJid s) | None \<Rightarrow> ch_groupJid ch) else d, r))"

section \<open>The registered tools\<close>

text \<open>
  The arguments a tool's schema accepts: a non-blank message id, and the one count of the tool, an integer between
  1 and its maximum that an absent field leaves to its default. Other fields are ignored.
\<close>

definition count_field :: "jobject \<Rightarrow> string \<Rightarrow> nat \<Rightarrow> nat \<Rightarrow> rat option" where
  "count_field args name fallback maximum = (case field args name of
      None \<Rightarrow> Some (of_nat fallback)
    | Some (JNum n) \<Rightarrow> if 1 \<le> n \<and> n \<le> int maximum then Some (of_int n) else None
    | Some _ \<Rightarrow> None)"

definition no_counts :: "jstr \<Rightarrow> media_input" where
  "no_counts wa = \<lparr>mdi_waMessageId = wa, mdi_maxRows = None, mdi_maxColumns = None, mdi_maxChars = None, mdi_maxSeconds = None, mdi_maxFrames = None\<rparr>"

definition media_arguments :: "media_tool \<Rightarrow> jobject \<Rightarrow> media_input option" where
  "media_arguments name args = (case field args ''waMessageId'' of
      Some (JStr (c # cs)) \<Rightarrow>
        (case name of
           Media_get_image \<Rightarrow> Some (no_counts (c # cs))
         | Media_read_csv \<Rightarrow>
             (case (count_field args ''maxRows'' 100 500, count_field args ''maxColumns'' 30 50) of
                (Some r, Some k) \<Rightarrow> Some ((no_counts (c # cs))\<lparr>mdi_maxRows := Some r, mdi_maxColumns := Some k\<rparr>)
              | _ \<Rightarrow> None)
         | Media_read_document \<Rightarrow> map_option (\<lambda>n. (no_counts (c # cs))\<lparr>mdi_maxChars := Some n\<rparr>) (count_field args ''maxChars'' 12000 24000)
         | Media_transcribe_audio \<Rightarrow> map_option (\<lambda>n. (no_counts (c # cs))\<lparr>mdi_maxSeconds := Some n\<rparr>) (count_field args ''maxSeconds'' 120 600)
         | Media_describe_video \<Rightarrow> map_option (\<lambda>n. (no_counts (c # cs))\<lparr>mdi_maxFrames := Some n\<rparr>) (count_field args ''maxFrames'' 8 16))
    | _ \<Rightarrow> None)"

text \<open>The content a session answers with: one text block.\<close>

definition text_content :: "jstr \<Rightarrow> json" where
  "text_content t = JArr [JObj [(js ''type'', JStr (js ''text'')), (js ''text'', JStr t)]]"

lemma toolResultText_content [simp]: "toolResultText (text_content t) = t"
  by (simp add: toolResultText_def text_content_def block_text_def field_def)

definition callMediaTool :: "media_call \<Rightarrow> tool_chat \<Rightarrow> media_tool \<Rightarrow> jobject \<Rightarrow> db \<Rightarrow> db \<times> json option" where
  "callMediaTool c ch name args d = (case media_arguments name args of
      None \<Rightarrow> (d, None)
    | Some i \<Rightarrow> let (d', r) = runMediaTool c d ch name i in (d', Some (text_content (result_json r))))"

lemma media_arguments_within:
  assumes "media_arguments name args = Some i"
  shows "mdi_waMessageId i \<noteq> []"
  using assms unfolding media_arguments_def no_counts_def
  by (cases name) (auto split: option.splits json.splits list.splits)

end
