(* ===== verification/GroupToolReads.thy ===== *)
theory GroupToolReads
  imports AgentTools ToolScope Execute
begin

text \<open>
  The reads of the group tools (\<open>apps/web/src/server/mcp/group-tools.ts\<close>): which group a call may name, and the
  bounded answers about it. An answer is its JSON object. The worker's two reads, canonical composition, locale lower case, the printing of
  an instant in the display zone and the database's regular expressions are parameters.
\<close>

section \<open>Bounded text\<close>

definition result_budget_chars :: int where "result_budget_chars = 32000"
definition label_chars :: int where "label_chars = 256"
definition recap_text_chars :: int where "recap_text_chars = 800"

definition jsonChars :: "jstr \<Rightarrow> nat" where
  "jsonChars v = length (json_string v) - 2"

definition clipJson :: "jstr \<Rightarrow> int \<Rightarrow> jstr \<times> bool" where
  "clipJson v budget = clipScalars v (nat (budget - (int (jsonChars v) - int (length v))))"

definition json_size :: "jobject \<Rightarrow> int" where
  "json_size obj = int (length (stringify (JObj obj)))"

definition obj :: "(string \<times> json) list \<Rightarrow> jobject" where
  "obj fs = map (\<lambda>f. (js (fst f), snd f)) fs"

section \<open>The input of a call\<close>

definition text_arg :: "jobject \<Rightarrow> string \<Rightarrow> jstr option" where
  "text_arg inp k = (case field inp k of Some (JStr s) \<Rightarrow> Some s | _ \<Rightarrow> None)"

definition count_arg :: "jobject \<Rightarrow> string \<Rightarrow> int option" where
  "count_arg inp k = (case field inp k of Some (JNum n) \<Rightarrow> Some n | _ \<Rightarrow> None)"

definition wants_addresses :: "jobject \<Rightarrow> bool" where
  "wants_addresses inp \<longleftrightarrow> field inp ''includeAddresses'' = Some (JBool True)"

section \<open>What the worker reads\<close>

record worker_group_info =
  wi_groupJid :: jstr
  wi_name :: jstr
  wi_topic :: jstr
  wi_isAnnounce :: bool
  wi_isLocked :: bool
  wi_participantCount :: nat
  wi_botIsAdmin :: bool
  wi_botIsSuperAdmin :: bool

record worker_participant =
  wp_jid :: jstr
  wp_isAdmin :: bool
  wp_isSuperAdmin :: bool
  wp_displayName :: "jstr option"

record worker_participants =
  ws_groupJid :: jstr
  ws_participants :: "worker_participant list"

record group_env =
  gx_info :: "jstr \<Rightarrow> jstr \<Rightarrow> worker_group_info option"
  gx_participants :: "jstr \<Rightarrow> jstr \<Rightarrow> worker_participants option"
  gx_nfc :: "jstr \<Rightarrow> jstr"
  gx_lower :: "jstr \<Rightarrow> jstr"
  gx_zoned :: "time \<Rightarrow> jstr"
  gx_regex :: "jstr \<Rightarrow> jstr \<Rightarrow> bool"

definition plain :: "group_env \<Rightarrow> jstr \<Rightarrow> jstr" where
  "plain env v = normalizeUntrustedText (gx_nfc env) v"

section \<open>Scope\<close>

definition monitored_rows :: "db \<Rightarrow> tool_chat \<Rightarrow> group_doc list" where
  "monitored_rows d ch = filter (\<lambda>g. of_instance (ch_organizationId ch) (ch_instanceId ch) g \<and> both_flags g) (groups d)"

definition subject_of :: "group_doc \<Rightarrow> jstr option" where
  "subject_of g = Option.bind (gd_observed g) ob_subject"

definition resolveMonitoredGroup :: "group_env \<Rightarrow> db \<Rightarrow> tool_chat \<Rightarrow> jstr \<Rightarrow> jstr option" where
  "resolveMonitoredGroup env d ch reference =
    (let trimmed = trim reference; name = gx_lower env (plain env trimmed)
     in if 64 \<in> set trimmed then (if monitoredGroup d ch trimmed then Some trimmed else None)
        else if name = [] then None
        else case filter (\<lambda>g. case subject_of g of Some s \<Rightarrow> gx_lower env (trim (plain env s)) = name | None \<Rightarrow> False) (monitored_rows d ch) of
            [g] \<Rightarrow> Some (gd_groupJid g)
          | _ \<Rightarrow> None)"

definition scopedGroup :: "group_env \<Rightarrow> db \<Rightarrow> tool_chat \<Rightarrow> jobject \<Rightarrow> jstr option" where
  "scopedGroup env d ch inp =
    (if \<not> usableChatContext ch then None
     else if ch_chatKind ch = Chat_group then
       (case ch_groupJid ch of None \<Rightarrow> None | Some own \<Rightarrow> if monitoredGroup d ch own then Some own else None)
     else case text_arg inp ''group'' of
         None \<Rightarrow> None
       | Some reference \<Rightarrow> if trim reference = [] then None else resolveMonitoredGroup env d ch reference)"

section \<open>Metadata and members\<close>

definition info_object :: "worker_group_info \<Rightarrow> bool \<Rightarrow> jstr \<Rightarrow> jstr \<Rightarrow> bool \<Rightarrow> jobject" where
  "info_object info addresses name topic truncated =
    obj ([(''ok'', JBool True)] @ (if addresses then [(''groupJid'', JStr (wi_groupJid info))] else [])
      @ [(''name'', JStr name), (''topic'', JStr topic), (''isAnnounce'', JBool (wi_isAnnounce info)), (''isLocked'', JBool (wi_isLocked info)),
         (''participantCount'', JNum (int (wi_participantCount info))), (''botIsAdmin'', JBool (wi_botIsAdmin info)),
         (''botIsSuperAdmin'', JBool (wi_botIsSuperAdmin info)), (''truncated'', JBool truncated)])"

definition boundedInfo :: "group_env \<Rightarrow> worker_group_info \<Rightarrow> bool \<Rightarrow> jobject" where
  "boundedInfo env info addresses =
    (let remaining = result_budget_chars - json_size (info_object info addresses [] [] False);
         name = clipJson (plain env (wi_name info)) remaining;
         topic = clipJson (plain env (wi_topic info)) (remaining - int (jsonChars (fst name)))
     in info_object info addresses (fst name) (fst topic) (snd name \<or> snd topic))"

definition identityKeys :: "jstr \<Rightarrow> jstr list" where
  "identityKeys jid =
    (let parts = split_on 64 jid; user = hd (split_on 58 (hd parts)); domain = (case tl parts of d # _ \<Rightarrow> d | [] \<Rightarrow> [])
     in if user = [] then [] else if domain = [] then [user] else [user @ [64] @ domain, user])"

definition name_source_messages :: nat where "name_source_messages = 2000"

definition in_group :: "tool_chat \<Rightarrow> jstr \<Rightarrow> message_doc \<Rightarrow> bool" where
  "in_group ch jid m \<longleftrightarrow> ms_organizationId m = ch_organizationId ch \<and> ms_instanceId m = ch_instanceId ch \<and> ms_groupJid m = jid"

text \<open>A missing instant sorts before every other.\<close>

definition instant_key :: "time option \<Rightarrow> nat \<times> int" where
  "instant_key t = (case t of None \<Rightarrow> (0, 0) | Some v \<Rightarrow> (1, v))"

definition learn_name :: "message_doc \<Rightarrow> (jstr \<times> jstr) list \<Rightarrow> (jstr \<times> jstr) list" where
  "learn_name m known = (case (ms_senderJid m, ms_pushName m) of
      (Some sender, Some push) \<Rightarrow>
        if trim push = [] then known
        else fold (\<lambda>k ns. if map_of ns k = None then ns @ [(k, push)] else ns) (identityKeys sender) known
    | _ \<Rightarrow> known)"

definition knownNames :: "db \<Rightarrow> tool_chat \<Rightarrow> jstr \<Rightarrow> (jstr \<times> jstr) list" where
  "knownNames d ch jid =
    fold learn_name (take name_source_messages (sort_desc (\<lambda>m. instant_key (ms_timestamp m))
      (filter (\<lambda>m. in_group ch jid m \<and> ms_pushName m \<noteq> None \<and> ms_pushName m \<noteq> Some []) (messages d)))) []"

text \<open>The first key that has a name.\<close>

definition known_as :: "(jstr \<times> jstr) list \<Rightarrow> worker_participant \<Rightarrow> jstr option" where
  "known_as known p = (case wp_displayName p of
      Some n \<Rightarrow> Some n
    | None \<Rightarrow> (case find (\<lambda>v. v \<noteq> None) (map (map_of known) (identityKeys (wp_jid p))) of Some v \<Rightarrow> v | None \<Rightarrow> None))"

definition participant_entry :: "group_env \<Rightarrow> bool \<Rightarrow> (jstr \<times> jstr) list \<Rightarrow> worker_participant \<Rightarrow> jobject \<times> bool" where
  "participant_entry env addresses known p =
    (let shown = map_option (\<lambda>n. clipJson (plain env n) label_chars) (known_as known p)
     in (obj ([(''isAdmin'', JBool (wp_isAdmin p)), (''isSuperAdmin'', JBool (wp_isSuperAdmin p))]
          @ (if addresses then [(''jid'', JStr (wp_jid p))] else [])
          @ (case shown of None \<Rightarrow> [] | Some n \<Rightarrow> [(''displayName'', JStr (fst n))])),
         case shown of None \<Rightarrow> False | Some n \<Rightarrow> snd n))"

text \<open>
  The loop both lists share: the entries that fit in what remains, each with its comma, and whether an entry was
  left out or cut.
\<close>

fun fit_entries :: "int \<Rightarrow> (jobject \<times> bool) list \<Rightarrow> jobject list \<times> bool" where
  "fit_entries remaining [] = ([], False)"
| "fit_entries remaining ((entry, was_cut) # es) =
    (let spent = json_size entry + 1
     in if remaining < spent then ([], True)
        else let (kept, truncated) = fit_entries (remaining - spent) es in (entry # kept, was_cut \<or> truncated))"

definition participants_object :: "worker_participants \<Rightarrow> bool \<Rightarrow> jobject list \<Rightarrow> bool \<Rightarrow> jobject" where
  "participants_object r addresses entries truncated =
    obj ([(''ok'', JBool True)] @ (if addresses then [(''groupJid'', JStr (ws_groupJid r))] else [])
      @ [(''participants'', JArr (map JObj entries)), (''total'', JNum (int (length (ws_participants r)))), (''truncated'', JBool truncated)])"

definition boundedParticipants :: "group_env \<Rightarrow> worker_participants \<Rightarrow> bool \<Rightarrow> (jstr \<times> jstr) list \<Rightarrow> jobject" where
  "boundedParticipants env r addresses known =
    (let (kept, truncated) = fit_entries (result_budget_chars - json_size (participants_object r addresses [] False))
           (map (participant_entry env addresses known) (ws_participants r))
     in participants_object r addresses kept (truncated \<or> length kept < length (ws_participants r)))"

definition readGroup :: "group_env \<Rightarrow> db \<Rightarrow> tool_chat \<Rightarrow> jstr \<Rightarrow> bool \<Rightarrow> bool \<Rightarrow> jobject option" where
  "readGroup env d ch jid wants_info addresses =
    (if wants_info then map_option (\<lambda>i. boundedInfo env i addresses) (gx_info env (ch_instanceId ch) jid)
     else map_option (\<lambda>r. boundedParticipants env r addresses (knownNames d ch jid)) (gx_participants env (ch_instanceId ch) jid))"

section \<open>The monitored groups\<close>

definition group_entry :: "group_env \<Rightarrow> bool \<Rightarrow> group_doc \<Rightarrow> jobject \<times> bool" where
  "group_entry env addresses g =
    (let name = clipJson (plain env (case subject_of g of Some s \<Rightarrow> s | None \<Rightarrow> [])) label_chars
     in (obj ((if addresses then [(''groupJid'', JStr (gd_groupJid g))] else []) @ [(''name'', JStr (fst name))]), snd name))"

definition groups_object :: "nat \<Rightarrow> jobject list \<Rightarrow> bool \<Rightarrow> jobject" where
  "groups_object amount entries truncated =
    obj [(''ok'', JBool True), (''groups'', JArr (map JObj entries)), (''total'', JNum (int amount)), (''truncated'', JBool truncated)]"

text \<open>Sorted by name and address; a missing name sorts first.\<close>

definition group_list_key :: "group_doc \<Rightarrow> nat \<times> nat list \<times> nat list" where
  "group_list_key g = (case subject_of g of None \<Rightarrow> (0, [], utf8_order (gd_groupJid g)) | Some s \<Rightarrow> (1, utf8_order s, utf8_order (gd_groupJid g)))"

definition listMonitoredGroups :: "group_env \<Rightarrow> db \<Rightarrow> tool_chat \<Rightarrow> bool \<Rightarrow> jobject option" where
  "listMonitoredGroups env d ch addresses =
    (if \<not> usableChatContext ch then None
     else if ch_chatKind ch = Chat_group \<and> (case ch_groupJid ch of None \<Rightarrow> True | Some own \<Rightarrow> \<not> monitoredGroup d ch own) then None
     else let rows = sort_key group_list_key (monitored_rows d ch);
              (kept, truncated) = fit_entries (result_budget_chars - json_size (groups_object (length rows) [] False)) (map (group_entry env addresses) rows)
       in Some (groups_object (length rows) kept (truncated \<or> length kept < length rows)))"

section \<open>What a group said\<close>

definition recap_hours_default :: int where "recap_hours_default = 12"
definition recap_hours_max :: int where "recap_hours_max = 168"
definition recap_messages_default :: int where "recap_messages_default = 60"

text \<open>The characters a search string is escaped for.\<close>

definition regex_special :: "nat \<Rightarrow> bool" where
  "regex_special c \<longleftrightarrow> c \<in> {46, 42, 43, 63, 94, 36, 123, 125, 40, 41, 124, 91, 93, 92}"

definition escapeRegExp :: "jstr \<Rightarrow> jstr" where
  "escapeRegExp v = concat (map (\<lambda>c. if regex_special c then [92, c] else [c]) v)"

definition senderLabel :: "group_env \<Rightarrow> message_doc \<Rightarrow> jstr" where
  "senderLabel env m =
    (if ms_fromMe m then js ''Assistant''
     else let push = (case ms_pushName m of Some n \<Rightarrow> trim (plain env n) | None \<Rightarrow> [])
       in if push \<noteq> [] then take 256 push
          else hd (split_on 58 (hd (split_on 64 (case ms_senderJid m of Some j \<Rightarrow> j | None \<Rightarrow> [])))))"

record recap_scope =
  rp_jid :: jstr
  rp_since :: time
  rp_query :: "jstr option"

definition text_matches :: "group_env \<Rightarrow> jstr option \<Rightarrow> jstr option \<Rightarrow> bool" where
  "text_matches env query t = (case query of None \<Rightarrow> True
    | Some q \<Rightarrow> (case t of Some s \<Rightarrow> gx_regex env (escapeRegExp q) s | None \<Rightarrow> False))"

definition in_recap :: "group_env \<Rightarrow> tool_chat \<Rightarrow> recap_scope \<Rightarrow> message_doc \<Rightarrow> bool" where
  "in_recap env ch sc m \<longleftrightarrow> in_group ch (rp_jid sc) m \<and> (case ms_timestamp m of None \<Rightarrow> False | Some t \<Rightarrow> rp_since sc \<le> t)
     \<and> text_matches env (rp_query sc) (ms_text m)"

definition sent_in_recap :: "group_env \<Rightarrow> tool_chat \<Rightarrow> recap_scope \<Rightarrow> send_row \<Rightarrow> bool" where
  "sent_in_recap env ch sc s \<longleftrightarrow> sr_organizationId s = ch_organizationId ch \<and> sr_instanceId s = ch_instanceId ch
     \<and> sr_groupJid s = rp_jid sc \<and> sr_status s = Sent \<and> rp_since sc \<le> sr_scheduledFor s \<and> text_matches env (rp_query sc) (Some (sr_text s))"

datatype recap_line = Heard time message_doc | Said time jstr jstr

definition recap_at :: "recap_line \<Rightarrow> time" where
  "recap_at l = (case l of Heard t _ \<Rightarrow> t | Said t _ _ \<Rightarrow> t)"

definition heard_line :: "message_doc \<Rightarrow> recap_line list" where
  "heard_line m = (case ms_timestamp m of Some t \<Rightarrow> [Heard t m] | None \<Rightarrow> [])"

definition said_line :: "send_row \<Rightarrow> recap_line list" where
  "said_line s = (if sr_text s = [] then []
     else [Said (sr_scheduledFor s) (sr_text s) (case dp_waMessageId (sr_dispatch s) of Some i \<Rightarrow> i | None \<Rightarrow> [])])"

text \<open>One line as it is answered, its text cut to what remains.\<close>

definition line_text :: "group_env \<Rightarrow> recap_line \<Rightarrow> jstr" where
  "line_text env l = plain env (case l of Said _ t _ \<Rightarrow> t | Heard _ m \<Rightarrow> (case ms_text m of Some t \<Rightarrow> t | None \<Rightarrow> []))"

definition line_object :: "group_env \<Rightarrow> recap_line \<Rightarrow> jstr \<Rightarrow> jobject" where
  "line_object env l t = (case l of
      Said at' _ wa \<Rightarrow> obj [(''messageId'', JStr wa), (''at'', JStr (gx_zoned env at')), (''from'', JStr (js ''Assistant'')), (''text'', JStr t)]
    | Heard at' m \<Rightarrow> obj ([(''messageId'', JStr (ms_waMessageId m)), (''at'', JStr (gx_zoned env at')), (''from'', JStr (senderLabel env m)), (''text'', JStr t)]
        @ (case Option.bind (ms_media m) md_kind of Some (c # cs) \<Rightarrow> [(''attachment'', JStr (c # cs))] | _ \<Rightarrow> [])))"

fun recap_lines :: "group_env \<Rightarrow> int \<Rightarrow> recap_line list \<Rightarrow> jobject list \<times> bool" where
  "recap_lines env remaining [] = ([], False)"
| "recap_lines env remaining (l # ls) =
    (let t = clipJson (line_text env l) (min recap_text_chars (max remaining 0));
         (rest, clipped) = recap_lines env (remaining - int (jsonChars (fst t))) ls
     in (line_object env l (fst t) # rest, snd t \<or> clipped))"

definition searching :: "jobject \<Rightarrow> bool" where
  "searching inp \<longleftrightarrow> text_arg inp ''query'' \<noteq> None \<and> text_arg inp ''query'' \<noteq> Some []"

definition recap_hours :: "jobject \<Rightarrow> int" where
  "recap_hours inp = (case count_arg inp ''hours'' of Some h \<Rightarrow> h | None \<Rightarrow> if searching inp then recap_hours_max else recap_hours_default)"

definition recap_limit :: "jobject \<Rightarrow> nat" where
  "recap_limit inp = nat (case count_arg inp ''limit'' of Some n \<Rightarrow> n | None \<Rightarrow> recap_messages_default)"

definition recap_of :: "jobject \<Rightarrow> jstr \<Rightarrow> time \<Rightarrow> recap_scope" where
  "recap_of inp jid now = \<lparr>rp_jid = jid, rp_since = now - recap_hours inp * 60 * 60 * 1000,
     rp_query = (if searching inp then text_arg inp ''query'' else None)\<rparr>"

definition messages_object :: "jstr \<Rightarrow> bool \<Rightarrow> int \<Rightarrow> jobject list \<Rightarrow> nat \<Rightarrow> bool \<Rightarrow> jobject" where
  "messages_object jid addresses hours entries amount truncated =
    obj ([(''ok'', JBool True)] @ (if addresses then [(''groupJid'', JStr jid)] else [])
      @ [(''name'', JStr []), (''hours'', JNum hours), (''messages'', JArr (map JObj entries)), (''total'', JNum (int amount)), (''truncated'', JBool truncated)])"

definition readGroupMessages :: "group_env \<Rightarrow> db \<Rightarrow> tool_chat \<Rightarrow> jstr \<Rightarrow> jobject \<Rightarrow> bool \<Rightarrow> time \<Rightarrow> jobject" where
  "readGroupMessages env d ch jid inp addresses now =
    (let sc = recap_of inp jid now; limit = recap_limit inp;
         heard = filter (in_recap env ch sc) (messages d);
         said = filter (sent_in_recap env ch sc) (sendRequests d);
         rows = take limit (sort_desc (\<lambda>m. instant_key (ms_timestamp m)) heard);
         spoken = take limit (sort_desc sr_scheduledFor said);
         merged = sort_key (\<lambda>l. - recap_at l) (concat (map heard_line rows) @ concat (map said_line spoken));
         windowed = take limit merged;
         (entries, clipped) = recap_lines env result_budget_chars (if searching inp then windowed else rev windowed);
         amount = length heard + length said
     in messages_object jid addresses (recap_hours inp) entries amount (clipped \<or> length rows < amount))"

section \<open>The queued sends\<close>

definition scheduled_max :: nat where "scheduled_max = 50"

definition waits_in :: "tool_chat \<Rightarrow> send_row \<Rightarrow> bool" where
  "waits_in ch s \<longleftrightarrow> sr_organizationId s = ch_organizationId ch \<and> sr_instanceId s = ch_instanceId ch \<and> sr_status s = Scheduled"

definition group_name :: "db \<Rightarrow> tool_chat \<Rightarrow> jstr \<Rightarrow> jstr" where
  "group_name d ch jid =
    (case find (\<lambda>g. gd_groupJid g = jid) (rev (filter (of_instance (ch_organizationId ch) (ch_instanceId ch)) (groups d))) of
       None \<Rightarrow> [] | Some g \<Rightarrow> (case subject_of g of Some s \<Rightarrow> s | None \<Rightarrow> []))"

definition send_entry :: "group_env \<Rightarrow> db \<Rightarrow> tool_chat \<Rightarrow> bool \<Rightarrow> send_row \<Rightarrow> jobject" where
  "send_entry env d ch addresses s =
    obj [(''sendId'', JStr (sr_id s)),
      (''group'', JStr (if addresses then sr_groupJid s else fst (clipJson (plain env (group_name d ch (sr_groupJid s))) label_chars))),
      (''text'', JStr (fst (clipJson (plain env (sr_text s)) recap_text_chars))),
      (''at'', JStr (gx_zoned env (sr_scheduledFor s))), (''status'', JStr (status_name (sr_status s)))]"

definition listScheduledSends :: "group_env \<Rightarrow> db \<Rightarrow> tool_chat \<Rightarrow> bool \<Rightarrow> jobject option" where
  "listScheduledSends env d ch addresses =
    (if \<not> usableChatContext ch then None
     else let rows = take scheduled_max (sort_key sr_scheduledFor (filter (waits_in ch) (sendRequests d)))
       in Some (obj [(''ok'', JBool True), (''sends'', JArr (map (\<lambda>s. JObj (send_entry env d ch addresses s)) rows)), (''total'', JNum (int (length rows)))]))"

end
