(* ===== verification/GroupTools.thy ===== *)
theory GroupTools
  imports GroupToolReads Clock PendingActions
begin

text \<open>
  The group tools as they run (\<open>apps/web/src/server/mcp/group-tools.ts\<close>): the writes, which stage a row for the owner or,
  where the policy allows it, decide and execute it at once; the cancellation of a queued send; and one call end to end with its audit record.
  Between the database calls of a write any other caller may write: \<open>gr_others\<close> is what they do before the n-th.
\<close>

section \<open>The tools\<close>

datatype group_tool =
    Group_info | Group_participants | Monitored_groups | Group_messages | Scheduled_sends
  | Group_rename | Group_set_announce | Group_set_locked | Group_set_photo | Group_members | Group_leave | Message_revoke | Group_send
  | Cancel_scheduled

definition isReadTool :: "group_tool \<Rightarrow> bool" where
  "isReadTool name \<longleftrightarrow> name \<in> {Group_info, Group_participants, Monitored_groups, Group_messages, Scheduled_sends}"

definition group_tool_name :: "group_tool \<Rightarrow> string" where
  "group_tool_name name = (case name of Group_info \<Rightarrow> ''group_info'' | Group_participants \<Rightarrow> ''group_participants''
     | Monitored_groups \<Rightarrow> ''monitored_groups'' | Group_messages \<Rightarrow> ''group_messages'' | Scheduled_sends \<Rightarrow> ''scheduled_sends''
     | Group_rename \<Rightarrow> ''group_rename'' | Group_set_announce \<Rightarrow> ''group_set_announce'' | Group_set_locked \<Rightarrow> ''group_set_locked''
     | Group_set_photo \<Rightarrow> ''group_set_photo'' | Group_members \<Rightarrow> ''group_members'' | Group_leave \<Rightarrow> ''group_leave''
     | Message_revoke \<Rightarrow> ''message_revoke'' | Group_send \<Rightarrow> ''group_send'' | Cancel_scheduled \<Rightarrow> ''cancel_scheduled'')"

section \<open>What a write stages\<close>

definition name_chars :: nat where "name_chars = 100"
definition members_max :: nat where "members_max = 1024"
definition data_url_chars :: nat where "data_url_chars = 1400000"
definition send_text_chars :: nat where "send_text_chars = 4000"
definition send_ahead_ms :: int where "send_ahead_ms = 31 * 24 * 60 * 60 * 1000"

text \<open>A trimmed, non-empty string of at most \<open>n\<close> code units, and a list of at most \<open>n\<close> such strings.\<close>

definition z_short :: "nat \<Rightarrow> json option \<Rightarrow> jstr option" where
  "z_short n v = (case z_text v of Some s \<Rightarrow> if length s \<le> n then Some s else None | None \<Rightarrow> None)"

definition z_few :: "nat \<Rightarrow> json option \<Rightarrow> jstr list option" where
  "z_few n v = (case z_texts v of Some ss \<Rightarrow> if length ss \<le> n then Some ss else None | None \<Rightarrow> None)"

definition membership_name :: "membership \<Rightarrow> jstr" where
  "membership_name m = (case m of Add_members \<Rightarrow> js ''add'' | Remove_members \<Rightarrow> js ''remove'' | Promote_members \<Rightarrow> js ''promote'' | Demote_members \<Rightarrow> js ''demote'')"

definition membership_summary :: "membership \<Rightarrow> nat \<Rightarrow> jstr" where
  "membership_summary m count =
    (let who = dec count @ (if count = 1 then js '' member'' else js '' members'')
     in case m of Add_members \<Rightarrow> js ''Add '' @ who @ js '' to the group.'' | Remove_members \<Rightarrow> js ''Remove '' @ who @ js '' from the group.''
      | Promote_members \<Rightarrow> js ''Promote '' @ who @ js '' to admin.'' | Demote_members \<Rightarrow> js ''Demote '' @ who @ js '' from admin.'')"

text \<open>
  \<open>parseDate\<close> is \<open>new Date\<close> of a text, \<^const>\<open>None\<close> when it is not an instant. A schedule lies in the future, at most
  31 days ahead.
\<close>

definition send_instant :: "(jstr \<Rightarrow> time option) \<Rightarrow> time \<Rightarrow> json option \<Rightarrow> time option option" where
  "send_instant parseDate now v = (case v of
      None \<Rightarrow> Some None
    | Some _ \<Rightarrow> (case Option.bind (z_text v) parseDate of
        None \<Rightarrow> None
      | Some t \<Rightarrow> if t - now \<le> 0 \<or> send_ahead_ms < t - now then None else Some (Some t)))"

definition stage_write :: "(jstr \<Rightarrow> time option) \<Rightarrow> time \<Rightarrow> group_tool \<Rightarrow> jobject \<Rightarrow> (jobject \<times> jstr) option" where
  "stage_write parseDate now name inp = (case name of
      Group_rename \<Rightarrow> map_option (\<lambda>n. (obj [(''name'', JStr n)], js ''Rename the group to '' @ n @ js ''.'')) (z_short name_chars (field inp ''name''))
    | Group_set_announce \<Rightarrow> map_option (\<lambda>b. (obj [(''announce'', JBool b)],
        if b then js ''Only admins may post in this group.'' else js ''Everyone may post in this group.'')) (z_bool (field inp ''announce''))
    | Group_set_locked \<Rightarrow> map_option (\<lambda>b. (obj [(''locked'', JBool b)],
        (if b then js ''Only admins may edit this group'' else js ''Everyone may edit this group'') @ [39] @ js ''s info.'')) (z_bool (field inp ''locked''))
    | Group_set_photo \<Rightarrow> map_option (\<lambda>u. (obj [(''dataUrl'', JStr u)], js ''Change the group photo.'')) (z_short data_url_chars (field inp ''dataUrl''))
    | Group_members \<Rightarrow> (case (z_membership (field inp ''membership''), z_few members_max (field inp ''jids'')) of
        (Some m, Some jids) \<Rightarrow> Some (obj [(''membership'', JStr (membership_name m)), (''jids'', JArr (map JStr jids))], membership_summary m (length jids))
      | _ \<Rightarrow> None)
    | Group_leave \<Rightarrow> map_option (\<lambda>r. (obj [(''reason'', JStr r)], js ''Leave the group. Reason given: '' @ r)) (z_short (nat label_chars) (field inp ''reason''))
    | Message_revoke \<Rightarrow> map_option (\<lambda>i. (obj [(''waMessageId'', JStr i)], js ''Revoke the message '' @ i @ js ''.'')) (z_text (field inp ''waMessageId''))
    | Group_send \<Rightarrow> (case (z_short send_text_chars (field inp ''text''), send_instant parseDate now (field inp ''sendAt'')) of
        (Some t, Some None) \<Rightarrow> Some (obj [(''text'', JStr t)], js ''Send this message to the group: '' @ t)
      | (Some t, Some (Some at')) \<Rightarrow> Some (obj [(''text'', JStr t), (''scheduledFor'', JStr (toISOString at'))],
          js ''Send this message to the group at '' @ toISOString at' @ js '': '' @ t)
      | _ \<Rightarrow> None)
    | _ \<Rightarrow> None)"

section \<open>One call\<close>

text \<open>
  What the call meets: whether the database is reached, whether its first read fails, whether the audit write does; its instant and duration; the ids
  and draws of a staged row; the executor's environment; and the writes of the others.
\<close>

record group_run =
  gr_env :: group_env
  gr_connects :: bool
  gr_readsFail :: bool
  gr_auditFails :: bool
  gr_now :: time
  gr_durationMs :: int
  gr_uuid :: jstr
  gr_draws :: "nat \<Rightarrow> nat \<Rightarrow> nat"
  gr_parseDate :: "jstr \<Rightarrow> time option"
  gr_exec :: exec_env
  gr_others :: "nat \<Rightarrow> db \<Rightarrow> db"

definition autonomous_actions :: "group_tool list" where
  "autonomous_actions = [Group_rename, Group_set_announce, Group_set_locked, Group_send]"

definition requested_by :: jstr where "requested_by = js ''assistant''"

definition autonomy_actor :: jstr where "autonomy_actor = js ''assistant:low-risk-policy''"

definition stagedMessage :: "jstr \<Rightarrow> jstr" where
  "stagedMessage sid = js ''Nothing has been changed yet: the action is staged and only the owner'' @ [39] @ js ''s approval performs it. Ask the owner to reply ''
     @ [34] @ js ''approve '' @ sid @ [34] @ js '' (or '' @ [34] @ js ''reject '' @ sid @ [34] @ js '') in the assistant'' @ [39] @ js ''s direct chat.''"

definition doneMessage :: "jstr \<Rightarrow> jstr" where
  "doneMessage summary = js ''Done: '' @ summary @ js '' Tell the owner it is done, in one line, without asking them to approve anything.''"

definition action_failed :: "jstr \<Rightarrow> jobject" where
  "action_failed message = obj [(''ok'', JBool False), (''code'', JStr (js ''action_failed'')), (''message'', JStr message)]"

definition not_done_message :: "execute_failure \<Rightarrow> jstr" where
  "not_done_message f = js ''The change was attempted and did not happen: '' @ xf_message f @ js '' Say that it failed; do not say it is waiting for approval.''"

definition stage_input_of :: "tool_chat \<Rightarrow> jstr \<Rightarrow> group_tool \<Rightarrow> jobject \<times> jstr \<Rightarrow> stage_input" where
  "stage_input_of ch jid name staged = \<lparr>st_organizationId = ch_organizationId ch, st_instanceId = ch_instanceId ch, st_groupJid = jid,
     st_action = js (group_tool_name name), st_params = fst staged, st_summary = snd staged, st_requestedBy = requested_by, st_ip = js ''internal''\<rparr>"

definition policy_decision :: "tool_chat \<Rightarrow> pending_action \<Rightarrow> decide_input" where
  "policy_decision ch row = \<lparr>de_organizationId = ch_organizationId ch, de_ref = By_id (pa_id row), de_decision = Approve_action,
     de_decidedBy = autonomy_actor, de_ip = js ''internal''\<rparr>"

definition staged_object :: "group_tool \<Rightarrow> pending_action \<Rightarrow> jobject" where
  "staged_object name row = obj [(''ok'', JBool True), (''staged'', JBool True), (''action'', JStr (js (group_tool_name name))),
     (''shortId'', JStr (pa_shortId row)), (''summary'', JStr (pa_summary row)), (''message'', JStr (stagedMessage (pa_shortId row)))]"

definition done_object :: "group_tool \<Rightarrow> jstr \<Rightarrow> jobject \<Rightarrow> jstr \<Rightarrow> jobject" where
  "done_object name summary r message = obj [(''ok'', JBool True), (''done'', JBool True), (''action'', JStr (js (group_tool_name name))),
     (''summary'', JStr summary), (''result'', JObj r), (''message'', JStr message)]"

text \<open>\<^const>\<open>None\<close> is the uniform refusal, which a throw becomes too.\<close>

definition perform_staged :: "group_run \<Rightarrow> tool_chat \<Rightarrow> group_tool \<Rightarrow> pending_action \<Rightarrow> db \<Rightarrow> db \<times> jobject option" where
  "perform_staged g ch name row d =
    (case decideAction (gr_others g 1 d) (policy_decision ch row) (gr_now g) of
       (d1, Decided decision) \<Rightarrow>
         (case executeAction ((gr_exec g)\<lparr>xe_ip := js ''internal''\<rparr>) (gr_others g 2 d1) decision of
            (d2, Inr (Executed a)) \<Rightarrow> (d2, Some (done_object name (pa_summary a) (case pa_result a of Some r \<Rightarrow> r | None \<Rightarrow> []) (doneMessage (pa_summary a))))
          | (d2, Inr (Refused f)) \<Rightarrow> (d2, Some (action_failed (not_done_message f)))
          | (d2, Inr (Execute_failed a f)) \<Rightarrow> (d2, Some (action_failed (not_done_message f)))
          | (d2, Inl e) \<Rightarrow> (d2, None))
     | (d1, _) \<Rightarrow> (d1, None))"

definition stageGroupAction :: "group_run \<Rightarrow> db \<Rightarrow> tool_chat \<Rightarrow> jstr \<Rightarrow> group_tool \<Rightarrow> jobject \<Rightarrow> db \<times> jobject option" where
  "stageGroupAction g d ch jid name inp =
    (case stage_write (gr_parseDate g) (gr_now g) name inp of
       None \<Rightarrow> (d, None)
     | Some staged \<Rightarrow>
       (case stageAction d (stage_input_of ch jid name staged) (gr_now g) (gr_uuid g) (gr_draws g) of
          (d1, Inl e) \<Rightarrow> (d1, None)
        | (d1, Inr row) \<Rightarrow> if name \<notin> set autonomous_actions then (d1, Some (staged_object name row)) else perform_staged g ch name row d1))"

definition nothing_to_cancel :: jstr where
  "nothing_to_cancel = js ''That message is not waiting to be sent any more, so there was nothing to cancel. Say so plainly; do not say it was cancelled.''"

definition cancelScheduledSend :: "group_run \<Rightarrow> db \<Rightarrow> tool_chat \<Rightarrow> jobject \<Rightarrow> db \<times> jobject option" where
  "cancelScheduledSend g d ch inp =
    (if \<not> usableChatContext ch then (d, None)
     else case z_text (field inp ''sendId'') of
       None \<Rightarrow> (d, None)
     | Some i \<Rightarrow>
       (case getSend d (ch_organizationId ch) i of
          None \<Rightarrow> (d, None)
        | Some s \<Rightarrow>
          if sr_instanceId s \<noteq> ch_instanceId ch then (d, None)
          else (case transitionSend (gr_others g 1 d) (ch_organizationId ch) i Cancel (js ''internal'') Assistant (gr_now g) of
              (d1, Now_row now_row) \<Rightarrow> (d1, Some (done_object Cancel_scheduled (js ''Cancel the queued send '' @ i @ js ''.'')
                  (obj [(''sendId'', JStr i), (''status'', JStr (status_name (sr_status now_row)))])
                  (js ''Cancelled: the queued message '' @ [34] @ fst (clipJson (plain (gr_env g) (sr_text s)) label_chars) @ [34]
                    @ js '' will not be sent. Tell the owner it is cancelled, and that it will not arrive.'')))
            | (d1, Null_row) \<Rightarrow> (d1, None)
            | (d1, _) \<Rightarrow> (d1, Some (action_failed nothing_to_cancel)))))"

section \<open>The call end to end\<close>

definition group_unavailable :: jobject where
  "group_unavailable = obj [(''ok'', JBool False), (''code'', JStr (js ''not_available''))]"

definition about_group :: "tool_chat \<Rightarrow> group_tool \<Rightarrow> jobject \<Rightarrow> jstr option" where
  "about_group ch name inp =
    (if name \<in> {Monitored_groups, Scheduled_sends, Cancel_scheduled} then None
     else if ch_chatKind ch = Chat_group then ch_groupJid ch else text_arg inp ''group'')"

definition or_null :: "jstr option \<Rightarrow> json" where
  "or_null v = (case v of None \<Rightarrow> JNull | Some s \<Rightarrow> JStr s)"

definition answer_code :: "jobject \<Rightarrow> jstr" where
  "answer_code r = (if field r ''ok'' = Some (JBool True) then js ''ok'' else case field r ''code'' of Some (JStr s) \<Rightarrow> s | _ \<Rightarrow> [])"

definition tool_audit :: "group_run \<Rightarrow> tool_chat \<Rightarrow> group_tool \<Rightarrow> jobject \<Rightarrow> jstr option \<Rightarrow> audit_entry" where
  "tool_audit g ch name r about = \<lparr>ae_organizationId = ch_organizationId ch, ae_actor = Owner,
     ae_action = (if isReadTool name then Media_tool_read else Action_staged),
     ae_target = (case about of None \<Rightarrow> (T_instance, ch_instanceId ch) | Some j \<Rightarrow> (T_group, j)),
     ae_meta = Some (obj [(''instanceId'', JStr (ch_instanceId ch)), (''groupJid'', or_null about), (''operation'', JStr (js (group_tool_name name))),
       (''code'', JStr (answer_code r)), (''chars'', JNum (json_size r)), (''durationMs'', JNum (gr_durationMs g))]),
     ae_ip = js ''internal''\<rparr>"

definition recordToolCall :: "group_run \<Rightarrow> db \<Rightarrow> tool_chat \<Rightarrow> group_tool \<Rightarrow> jobject \<Rightarrow> jstr option \<Rightarrow> db" where
  "recordToolCall g d ch name r about = (if gr_auditFails g then d else writeAudit d (tool_audit g ch name r about) (gr_now g))"

definition group_answer :: "group_run \<Rightarrow> db \<Rightarrow> tool_chat \<Rightarrow> group_tool \<Rightarrow> jobject \<Rightarrow> db \<times> jobject option" where
  "group_answer g d ch name inp =
    (let env = gr_env g; addresses = wants_addresses inp
     in if name = Monitored_groups then (d, listMonitoredGroups env d ch addresses)
        else if name = Scheduled_sends then (d, listScheduledSends env d ch addresses)
        else if name = Cancel_scheduled then cancelScheduledSend g d ch inp
        else case scopedGroup env d ch inp of
          None \<Rightarrow> (d, None)
        | Some jid \<Rightarrow>
          if name = Group_messages then (d, Some (readGroupMessages env d ch jid inp addresses (gr_now g)))
          else if isReadTool name then (d, readGroup env d ch jid (name = Group_info) addresses)
          else stageGroupAction g d ch jid name inp)"

definition runGroupTool :: "group_run \<Rightarrow> db \<Rightarrow> tool_chat \<Rightarrow> group_tool \<Rightarrow> jobject \<Rightarrow> db \<times> jobject" where
  "runGroupTool g d ch name inp =
    (if \<not> gr_connects g then (d, group_unavailable)
     else let (d1, answer) = (if gr_readsFail g then (d, None) else group_answer g d ch name inp);
              r = (case answer of Some r \<Rightarrow> r | None \<Rightarrow> group_unavailable);
              staged = (field r ''ok'' = Some (JBool True) \<and> field r ''staged'' \<noteq> None)
       in (if staged then d1 else recordToolCall g d1 ch name r (about_group ch name inp), r))"

section \<open>The registered tools\<close>

text \<open>
  What a tool's schema makes of its arguments: the fields it names, the strings trimmed, or \<^const>\<open>None\<close>. A direct chat's tools
  name a group, a group job's have no such field.
\<close>

fun join_parts :: "jobject option list \<Rightarrow> jobject option" where
  "join_parts [] = Some []"
| "join_parts (p # ps) = (case (p, join_parts ps) of (Some a, Some b) \<Rightarrow> Some (a @ b) | _ \<Rightarrow> None)"

definition ref_part :: "tool_chat \<Rightarrow> jobject \<Rightarrow> jobject option" where
  "ref_part ch args = (if ch_chatKind ch = Chat_group then Some []
     else case field args ''group'' of Some (JStr (c # cs)) \<Rightarrow> Some (obj [(''group'', JStr (c # cs))]) | _ \<Rightarrow> None)"

definition text_part :: "string \<Rightarrow> jstr option \<Rightarrow> jobject option" where
  "text_part k v = map_option (\<lambda>s. obj [(k, JStr s)]) v"

definition flag_part :: "string \<Rightarrow> jobject \<Rightarrow> jobject option" where
  "flag_part k args = map_option (\<lambda>b. obj [(k, JBool b)]) (z_bool (field args k))"

definition optional_text :: "nat \<Rightarrow> string \<Rightarrow> jobject \<Rightarrow> jobject option" where
  "optional_text n k args = (case field args k of None \<Rightarrow> Some [] | Some v \<Rightarrow> text_part k (z_short n (Some v)))"

definition optional_count :: "nat \<Rightarrow> string \<Rightarrow> jobject \<Rightarrow> jobject option" where
  "optional_count n k args = (case field args k of
      None \<Rightarrow> Some []
    | Some (JNum v) \<Rightarrow> if 1 \<le> v \<and> v \<le> int n then Some (obj [(k, JNum v)]) else None
    | Some _ \<Rightarrow> None)"

definition optional_instant :: "jobject \<Rightarrow> jobject option" where
  "optional_instant args = (case field args ''sendAt'' of None \<Rightarrow> Some [] | Some v \<Rightarrow> text_part ''sendAt'' (z_text (Some v)))"

definition members_part :: "jobject \<Rightarrow> jobject option" where
  "members_part args = (case (z_membership (field args ''membership''), z_few members_max (field args ''jids'')) of
      (Some m, Some jids) \<Rightarrow> Some (obj [(''membership'', JStr (membership_name m)), (''jids'', JArr (map JStr jids))])
    | _ \<Rightarrow> None)"

definition group_arguments :: "tool_chat \<Rightarrow> group_tool \<Rightarrow> jobject \<Rightarrow> jobject option" where
  "group_arguments ch name args = join_parts
    (case name of
       Group_info \<Rightarrow> [ref_part ch args, flag_part ''includeAddresses'' args]
     | Group_participants \<Rightarrow> [ref_part ch args, flag_part ''includeAddresses'' args]
     | Group_messages \<Rightarrow> [ref_part ch args, flag_part ''includeAddresses'' args, optional_count 168 ''hours'' args,
         optional_count 100 ''limit'' args, optional_text 200 ''query'' args]
     | Monitored_groups \<Rightarrow> [flag_part ''includeAddresses'' args]
     | Scheduled_sends \<Rightarrow> [flag_part ''includeAddresses'' args]
     | Cancel_scheduled \<Rightarrow> [text_part ''sendId'' (z_text (field args ''sendId''))]
     | Group_rename \<Rightarrow> [ref_part ch args, text_part ''name'' (z_short name_chars (field args ''name''))]
     | Group_set_announce \<Rightarrow> [ref_part ch args, flag_part ''announce'' args]
     | Group_set_locked \<Rightarrow> [ref_part ch args, flag_part ''locked'' args]
     | Group_set_photo \<Rightarrow> [ref_part ch args, text_part ''dataUrl'' (z_short data_url_chars (field args ''dataUrl''))]
     | Group_members \<Rightarrow> [ref_part ch args, members_part args]
     | Group_leave \<Rightarrow> [ref_part ch args, text_part ''reason'' (z_short (nat label_chars) (field args ''reason''))]
     | Group_send \<Rightarrow> [ref_part ch args, text_part ''text'' (z_short send_text_chars (field args ''text'')), optional_instant args]
     | Message_revoke \<Rightarrow> [ref_part ch args, text_part ''waMessageId'' (z_text (field args ''waMessageId''))])"

definition callGroupTool :: "group_run \<Rightarrow> tool_chat \<Rightarrow> group_tool \<Rightarrow> jobject \<Rightarrow> db \<Rightarrow> db \<times> json option" where
  "callGroupTool g ch name args d = (case group_arguments ch name args of
      None \<Rightarrow> (d, None)
    | Some inp \<Rightarrow> let (d', r) = runGroupTool g d ch name inp
        in (d', Some (JArr [JObj [(js ''type'', JStr (js ''text'')), (js ''text'', JStr (stringify (JObj r)))]])))"

end
