(* ===== verification/ReplyJob.thy ===== *)
theory ReplyJob
  imports Generate AuthorizedJids PromptBudget PendingActions Http Clock ReplyKeys MediaTools GroupTools
begin

text \<open>
  The reply callback (\<open>apps/web/src/app/api/internal/reply-jobs/route.ts\<close>): the worker posts the message an
  owner wrote; the route checks who may ask, answers a replay, claims the job's run, decides a command
  or asks the model, and completes the run with at most one send.

  Between two database calls of the route any other caller may write: \<open>jc_others\<close> is what they do before each
  call and \<open>jc_clock\<close> the instant of it. The heartbeat is a timer whose effect on the route is \<open>jc_leaseLost\<close>;
  its renewals are among the writes of the others. What the model does with its tools is \<open>jc_toolCalls\<close>, the calls it makes of either
  family in order, each with what it meets; they write to the database under this call's own authority. A transaction whose commit fails or whose
  acknowledgement is lost throws, which is \<open>jc_fault\<close>.
\<close>

datatype reply_tool = Group_use group_run group_tool jobject | Media_use media_call media_tool jobject

datatype commit_fault = No_fault | Lost_ack | Aborted

record 'e reply_call =
  jc_authorization :: "jstr option"
  jc_secret :: "jstr option"
  jc_body :: "json option"
  jc_country :: "jstr option"
  jc_ai :: ai_environment
  jc_registry :: registry
  jc_recall :: recall_env
  jc_prompt :: prompt_env
  jc_nfc :: "jstr \<Rightarrow> jstr"
  jc_others :: "nat \<Rightarrow> db \<Rightarrow> db"
  jc_clock :: "nat \<Rightarrow> time"
  jc_token :: jstr
  jc_runOid :: oid
  jc_uuid :: jstr
  jc_sendOid :: oid
  jc_digest :: "oid \<Rightarrow> nat \<Rightarrow> nat"
  jc_connect :: "'e option"
  jc_provider :: "jstr \<Rightarrow> jstr \<Rightarrow> 'e provider"
  jc_toolLinks :: "nat \<Rightarrow> jstr set"
  jc_toolCalls :: "reply_tool list"
  jc_error :: "'e \<Rightarrow> reply_error"
  jc_leaseLost :: bool
  jc_recordFails :: bool
  jc_fault :: commit_fault

datatype reply_answer =
    Reply_refused nat string | Reply_thrown | Replayed send_row | Reply_accepted
  | Reply_created send_row | Under_review send_row

definition reply_status :: "reply_answer \<Rightarrow> nat" where
  "reply_status a = (case a of Reply_refused status _ \<Rightarrow> status | Reply_thrown \<Rightarrow> 500 | Replayed _ \<Rightarrow> 200
     | Reply_accepted \<Rightarrow> 202 | Reply_created _ \<Rightarrow> 201 | Under_review _ \<Rightarrow> 200)"

section \<open>The request\<close>

record reply_job =
  rj_scope :: reply_scope
  rj_chatKind :: chat_kind

definition string_field :: "jobject \<Rightarrow> string \<Rightarrow> jstr option" where
  "string_field ob k = (case field ob k of Some (JStr (c # cs)) \<Rightarrow> Some (c # cs) | _ \<Rightarrow> None)"

definition validJob :: "json \<Rightarrow> reply_job option" where
  "validJob v = (case v of
      JObj ob \<Rightarrow>
        (case (string_field ob ''organizationId'', string_field ob ''instanceId'', string_field ob ''groupJid'', string_field ob ''waMessageId'') of
           (Some org, Some inst, Some jid, Some wa) \<Rightarrow>
             (let job = (\<lambda>kind. Some \<lparr>rj_scope = \<lparr>rs_organizationId = org, rs_instanceId = inst, rs_groupJid = jid, rs_waMessageId = wa\<rparr>, rj_chatKind = kind\<rparr>)
              in case field ob ''isGroup'' of
                   None \<Rightarrow> job Chat_group
                 | Some (JBool b) \<Rightarrow> job (if b then Chat_group else Chat_user)
                 | Some _ \<Rightarrow> None)
         | _ \<Rightarrow> None)
    | _ \<Rightarrow> None)"

section \<open>Commands of a direct chat\<close>

text \<open>\<open>/^\s*(approve|reject)\s+(\S+)\s*$/i\<close>: two words, the first one of two.\<close>

definition approvalCommand :: "jstr \<Rightarrow> (action_decision \<times> jstr) option" where
  "approvalCommand text =
    (let words = trim text; verb = map to_lower (takeWhile (\<lambda>c. \<not> is_space c) words);
         ref = dropWhile is_space (dropWhile (\<lambda>c. \<not> is_space c) words)
     in if ref = [] \<or> list_ex is_space ref then None
        else if verb = js ''approve'' then Some (Approve_action, ref)
        else if verb = js ''reject'' then Some (Reject_action, ref) else None)"

definition decisionReply :: "action_decision \<Rightarrow> jstr \<Rightarrow> decide_result \<Rightarrow> jstr" where
  "decisionReply decision ref r = (case r of
      Action_not_found \<Rightarrow> js ''No staged action matches '' @ normalizeShortId ref @ js ''.''
    | Action_invalid_state \<Rightarrow> normalizeShortId ref @ js '' has already been decided.''
    | Decided p \<Rightarrow> (case decision of Approve_action \<Rightarrow> js ''Approved'' | Reject_action \<Rightarrow> js ''Rejected'')
        @ js '' '' @ pa_shortId p @ js '': '' @ pa_summary p)"

section \<open>Who may ask\<close>

definition authorized_jids :: "jstr option \<Rightarrow> db \<Rightarrow> jstr \<Rightarrow> jstr list" where
  "authorized_jids country d org =
    authorizedJidsOf country (Option.bind (find (\<lambda>g. og_id g = org) (organizations d)) og_autoReplyAuthorizedJids)"

definition group_eligible :: "db \<Rightarrow> reply_scope \<Rightarrow> bool" where
  "group_eligible d scope = (case find (\<lambda>g. gd_organizationId g = rs_organizationId scope
        \<and> gd_instanceId g = rs_instanceId scope \<and> gd_groupJid g = rs_groupJid scope) (groups d) of
      None \<Rightarrow> False
    | Some g \<Rightarrow> Option.bind (gd_config g) gc_assigned = Some True \<and> Option.bind (gd_config g) gc_whitelisted = Some True)"

definition in_chat :: "reply_scope \<Rightarrow> message_doc \<Rightarrow> bool" where
  "in_chat scope m \<longleftrightarrow> ms_organizationId m = rs_organizationId scope \<and> ms_instanceId m = rs_instanceId scope
     \<and> ms_groupJid m = rs_groupJid scope"

definition request_message :: "db \<Rightarrow> reply_scope \<Rightarrow> message_doc option" where
  "request_message d scope = find (\<lambda>m. in_chat scope m \<and> ms_waMessageId m = rs_waMessageId scope \<and> \<not> ms_fromMe m) (messages d)"

definition or_empty :: "jstr option \<Rightarrow> jstr" where
  "or_empty v = (case v of None \<Rightarrow> [] | Some s \<Rightarrow> s)"

text \<open>The canonical JID of the author and the text, when the author is on the owner list and wrote something.\<close>

definition authorized_request :: "jstr option \<Rightarrow> jstr list \<Rightarrow> message_doc option \<Rightarrow> (jstr \<times> jstr) option" where
  "authorized_request country jids m = (case m of
      None \<Rightarrow> None
    | Some message \<Rightarrow>
      (let ownerJid = or_empty (normalizeAuthorizedJid country (or_empty (ms_senderJid message)))
       in if ownerJid \<notin> set jids \<or> trim (or_empty (ms_text message)) = [] then None
          else Some (ownerJid, or_empty (ms_text message))))"

section \<open>The conversation\<close>

datatype merged_line = Incoming reply_message | Outgoing time jstr

definition line_time :: "merged_line \<Rightarrow> time" where
  "line_time l = (case l of Incoming m \<Rightarrow> rm_timestamp m | Outgoing t _ \<Rightarrow> t)"

definition media_kind :: "message_doc \<Rightarrow> jstr option" where
  "media_kind m = set_value (Option.bind (ms_media m) md_kind)"

text \<open>A missing timestamp sorts below every date.\<close>

definition chat_history :: "db \<Rightarrow> reply_scope \<Rightarrow> message_doc list" where
  "chat_history d scope = take 20 (sort_desc (\<lambda>m. case ms_timestamp m of None \<Rightarrow> (0 :: nat, 0) | Some t \<Rightarrow> (1, t))
     (filter (\<lambda>m. in_chat scope m \<and> (set_value (ms_text m) \<noteq> None \<or> media_kind m \<noteq> None)) (messages d)))"

definition chat_sent :: "db \<Rightarrow> reply_scope \<Rightarrow> send_row list" where
  "chat_sent d scope = take 20 (sort_desc sr_scheduledFor
     (filter (\<lambda>s. sr_organizationId s = rs_organizationId scope \<and> sr_instanceId s = rs_instanceId scope
        \<and> sr_groupJid s = rs_groupJid scope \<and> sr_status s = Sent) (sendRequests d)))"

definition incoming_line :: "message_doc \<Rightarrow> merged_line option" where
  "incoming_line m = (case (ms_timestamp m, ms_senderJid m) of
      (Some sentAt, Some sender) \<Rightarrow> Some (Incoming
        \<lparr>rm_senderJid = sender,
         rm_senderName = (if trim (or_empty (ms_pushName m)) = [] then None else ms_pushName m),
         rm_text = or_empty (ms_text m), rm_timestamp = sentAt, rm_waMessageId = Some (ms_waMessageId m),
         rm_attachment = map_option (\<lambda>kind. \<lparr>at_kind = kind, at_fileName = Option.bind (ms_media m) md_fileName\<rparr>) (media_kind m)\<rparr>)
    | _ \<Rightarrow> None)"

definition outgoing_line :: "send_row \<Rightarrow> merged_line option" where
  "outgoing_line s = (if sr_text s = [] then None else Some (Outgoing (sr_scheduledFor s) (sr_text s)))"

definition context_message :: "jstr \<Rightarrow> merged_line \<Rightarrow> reply_message" where
  "context_message chat l = (case l of
      Outgoing sentAt text \<Rightarrow> \<lparr>rm_senderJid = chat, rm_senderName = Some (js ''Assistant''), rm_text = text, rm_timestamp = sentAt,
        rm_waMessageId = None, rm_attachment = None\<rparr>
    | Incoming m \<Rightarrow> m)"

definition contextMessages :: "jstr \<Rightarrow> message_doc list \<Rightarrow> send_row list \<Rightarrow> reply_message list" where
  "contextMessages chat history said =
    map (context_message chat) (rev (take 20 (sort_desc line_time
      (List.map_filter incoming_line history @ List.map_filter outgoing_line said))))"

section \<open>Completing the run\<close>

definition lost_ack :: exn where "lost_ack = Thrown (js ''transaction outcome unknown'')"

definition under_fault :: "commit_fault \<Rightarrow> db \<Rightarrow> db \<times> (exn + lease_result) \<Rightarrow> db \<times> (exn + lease_result)" where
  "under_fault f d r = (case f of No_fault \<Rightarrow> r | Lost_ack \<Rightarrow> (fst r, Inl lost_ack) | Aborted \<Rightarrow> (d, Inl lost_ack))"

definition run_failed :: "'e reply_call \<Rightarrow> reply_run \<Rightarrow> reply_failure \<Rightarrow> nat \<Rightarrow> db \<Rightarrow> db" where
  "run_failed c run failure n d =
     failAgentReplyRun (jc_digest c) (jc_others c n d) (rr_oid run) (rr_attempts run) (jc_token c) failure (jc_clock c n)"

definition generation_failed :: reply_answer where
  "generation_failed = Reply_refused 502 ''automatic reply generation failed''"

text \<open>What both completions do with the transaction's outcome: answer its send, else reconcile.\<close>

definition settle_completion ::
  "'e reply_call \<Rightarrow> reply_scope \<Rightarrow> jstr \<Rightarrow> reply_run \<Rightarrow> (send_row \<Rightarrow> reply_answer) \<Rightarrow> db \<times> (exn + lease_result) \<Rightarrow> db \<times> reply_answer" where
  "settle_completion c scope key run created r = (case snd r of
      Inr (Completed s) \<Rightarrow> (fst r, created s)
    | failed \<Rightarrow>
      (let (d2, reconciled) = reconcileAgentReplySend (jc_others c 10 (fst r)) scope key (jc_clock c 10)
       in case reconciled of
            Some s \<Rightarrow> (d2, Replayed s)
          | None \<Rightarrow> if failed = Inr Lost_lease then (d2, Reply_accepted)
              else (run_failed c run \<lparr>rf_code = js ''completion_ambiguous'', rf_terminal = False\<rparr> 11 d2, generation_failed)))"

definition completion_input :: "'e reply_call \<Rightarrow> reply_job \<Rightarrow> jstr \<Rightarrow> reply_run \<Rightarrow> jstr \<Rightarrow> oid list \<times> oid list \<Rightarrow> automatic_send_input" where
  "completion_input c job key run text memory =
    (let scope = rj_scope job
     in \<lparr>au_runId = rr_oid run, au_leaseToken = jc_token c, au_organizationId = rs_organizationId scope,
         au_instanceId = rs_instanceId scope, au_groupJid = rs_groupJid scope, au_chatKind = rj_chatKind job,
         au_waMessageId = rs_waMessageId scope, au_text = text, au_idempotencyKey = key,
         au_replyToMessageId = rs_waMessageId scope, au_memoryBatchIds = fst memory, au_memoryFactIds = snd memory\<rparr>)"

definition completeWithSend ::
  "'e reply_call \<Rightarrow> reply_job \<Rightarrow> jstr \<Rightarrow> reply_run \<Rightarrow> jstr \<Rightarrow> oid list \<times> oid list \<Rightarrow> db \<Rightarrow> db \<times> reply_answer" where
  "completeWithSend c job key run text memory d =
    (let d1 = jc_others c 9 d
     in settle_completion c (rj_scope job) key run Reply_created (under_fault (jc_fault c) d1
          (createAutomaticSendUnderRunLease d1 (completion_input c job key run text memory) (jc_clock c 9) (jc_uuid c) (jc_sendOid c))))"

definition code_name :: "output_code \<Rightarrow> jstr" where
  "code_name r = (case r of Empty_output \<Rightarrow> js ''empty'' | Unsafe_link \<Rightarrow> js ''unsafe_link'' | Unsafe_markup \<Rightarrow> js ''unsafe_markup''
     | Unsafe_json \<Rightarrow> js ''unsafe_json'' | Model_markup \<Rightarrow> js ''model_markup'')"

definition review_input :: "'e reply_call \<Rightarrow> reply_job \<Rightarrow> jstr \<Rightarrow> reply_run \<Rightarrow> output_code \<Rightarrow> human_review_input" where
  "review_input c job key run code =
    (let scope = rj_scope job
     in \<lparr>hr_runId = rr_oid run, hr_leaseToken = jc_token c, hr_organizationId = rs_organizationId scope,
         hr_instanceId = rs_instanceId scope, hr_groupJid = rs_groupJid scope, hr_chatKind = rj_chatKind job,
         hr_waMessageId = rs_waMessageId scope, hr_idempotencyKey = key,
         hr_replyToMessageId = rs_waMessageId scope, hr_reason = code_name code\<rparr>)"

definition queue_review :: "'e reply_call \<Rightarrow> reply_job \<Rightarrow> jstr \<Rightarrow> reply_run \<Rightarrow> output_code \<Rightarrow> db \<Rightarrow> db \<times> reply_answer" where
  "queue_review c job key run code d =
    (let d1 = jc_others c 9 d
     in settle_completion c (rj_scope job) key run Under_review (under_fault (jc_fault c) d1
          (createHumanReviewSendUnderRunLease d1 (review_input c job key run code) (jc_clock c 9) (jc_uuid c) (jc_sendOid c))))"

section \<open>Generating\<close>

definition config_missing_error :: reply_error where
  "config_missing_error = \<lparr>er_protocol = False, er_parse = False,
     er_message = Some (js ''AI_BASE_URL, AI_API_KEY, and AI_MODEL are required for automatic replies''), er_statusCode = None\<rparr>"

definition generation_failure :: "'e reply_call \<Rightarrow> 'e generation_error \<Rightarrow> reply_failure" where
  "generation_failure c e = classifyReplyFailure (case e of Config_missing \<Rightarrow> config_missing_error | Provider_error x \<Rightarrow> jc_error c x)"

text \<open>Connecting the tool sessions may throw; the source links are the prompt's and those the tools add.\<close>

definition generate_answer :: "'e reply_call \<Rightarrow> assembled_prompt \<Rightarrow> 'e generation_error + reply_generation" where
  "generate_answer c p = (case jc_connect c of
      Some e \<Rightarrow> Inl (Provider_error e)
    | None \<Rightarrow> generateGroupReply (jc_ai c) (jc_provider c (ap_system p) (ap_prompt p)) (jc_nfc c)
        (\<lambda>n. sourceLinksOf [ap_system p, ap_prompt p] \<union> jc_toolLinks c n))"

text \<open>The chat the tools are bound to: the verified job and the owners the call read, nothing the model can name.\<close>

definition job_chat :: "reply_job \<Rightarrow> jstr list \<Rightarrow> tool_chat" where
  "job_chat job jids = (let scope = rj_scope job
     in \<lparr>ch_organizationId = rs_organizationId scope, ch_instanceId = rs_instanceId scope, ch_chatKind = rj_chatKind job,
         ch_chatJid = rs_groupJid scope, ch_groupJid = (if rj_chatKind job = Chat_group then Some (rs_groupJid scope) else None),
         ch_authorizedJids = jids\<rparr>)"

definition use_tool :: "tool_chat \<Rightarrow> reply_tool \<Rightarrow> db \<Rightarrow> db" where
  "use_tool ch use d = (case use of
      Group_use g name args \<Rightarrow> fst (callGroupTool g ch name args d)
    | Media_use m name args \<Rightarrow> fst (callMediaTool m ch name args d))"

text \<open>Before each tool call the others may write; no tool is called where the generation does not start.\<close>

fun use_tools :: "(nat \<Rightarrow> db \<Rightarrow> db) \<Rightarrow> tool_chat \<Rightarrow> nat \<Rightarrow> reply_tool list \<Rightarrow> db \<Rightarrow> db" where
  "use_tools others ch n [] d = d"
| "use_tools others ch n (u # us) d = use_tools others ch (Suc n) us (use_tool ch u (others n d))"

definition tool_calls :: "'e reply_call \<Rightarrow> reply_tool list" where
  "tool_calls c = (if jc_connect c = None \<and> replyModelConfig (jc_ai c) \<noteq> None then jc_toolCalls c else [])"

definition model_call :: "'e reply_call \<Rightarrow> reply_scope \<Rightarrow> 'e generation_error + reply_generation \<Rightarrow> ai_call" where
  "model_call c scope g =
    \<lparr>ai_organizationId = rs_organizationId scope, ai_instanceId = rs_instanceId scope, ai_groupJid = rs_groupJid scope,
     ai_model = (case g of Inr (Generated r) \<Rightarrow> gn_model r
       | _ \<Rightarrow> (case replyModelConfig (jc_ai c) of None \<Rightarrow> [] | Some config \<Rightarrow> mc_model config)),
     ai_ok = (case g of Inr _ \<Rightarrow> True | Inl _ \<Rightarrow> False),
     ai_latencyMs = jc_clock c 15 - jc_clock c 16,
     ai_usage = (case g of Inr (Generated r) \<Rightarrow> gn_usage r | _ \<Rightarrow> no_token_usage),
     ai_createdAt = jc_clock c 17\<rparr>"

definition writeAiCall :: "db \<Rightarrow> ai_call \<Rightarrow> db" where
  "writeAiCall d row = d\<lparr>aiCalls := aiCalls d @ [row]\<rparr>"

definition recordCall :: "bool \<Rightarrow> db \<Rightarrow> ai_call \<Rightarrow> db" where
  "recordCall fails d row = (if fails then d else writeAiCall d row)"

definition deliver ::
  "'e reply_call \<Rightarrow> reply_job \<Rightarrow> jstr \<Rightarrow> reply_run \<Rightarrow> assembled_prompt \<Rightarrow> 'e generation_error + reply_generation \<Rightarrow> db \<Rightarrow> db \<times> reply_answer" where
  "deliver c job key run p g d =
    (if jc_leaseLost c then (d, Reply_accepted)
     else case g of
       Inr (Rejected_output code) \<Rightarrow> queue_review c job key run code d
     | Inl e \<Rightarrow> (run_failed c run (generation_failure c e) 11 d, generation_failed)
     | Inr (Generated r) \<Rightarrow> completeWithSend c job key run (gn_text r) (ap_batchIds p, ap_factIds p) d)"

definition too_large :: reply_failure where "too_large = \<lparr>rf_code = js ''prompt_too_large'', rf_terminal = True\<rparr>"

definition no_counter :: reply_failure where "no_counter = \<lparr>rf_code = js ''token_counter_unavailable'', rf_terminal = True\<rparr>"

definition answer_with_model ::
  "'e reply_call \<Rightarrow> reply_job \<Rightarrow> jstr \<Rightarrow> reply_run \<Rightarrow> jstr list \<Rightarrow> jstr \<Rightarrow> reply_message list \<Rightarrow> db \<Rightarrow> db \<times> reply_answer" where
  "answer_with_model c job key run jids request context d =
    (let scope = rj_scope job
     in case selectTokenCounter (jc_registry c) (Option.bind (replyModelConfig (jc_ai c)) mc_tokenizer) of
       None \<Rightarrow> (run_failed c run no_counter 11 d, Reply_refused 502
         ''automatic replies require a token counter registered for AI_TOKENIZER; none is available for this model'')
     | Some counter \<Rightarrow>
       (case renewAgentReplyLease (jc_others c 12 d) (rr_oid run) (jc_token c) (jc_clock c 12) of
          (d1, None) \<Rightarrow> (d1, Reply_accepted)
        | (d1, Some _) \<Rightarrow>
          (let d2 = jc_others c 13 d1;
               recall = recallMemory (jc_recall c) d2 \<lparr>rc_organizationId = rs_organizationId scope, rc_instanceId = rs_instanceId scope,
                   rc_groupJid = rs_groupJid scope\<rparr> request (jc_clock c 13)
           in case assembleReplyPrompt (jc_prompt c) counter \<lparr>as_chatKind = rj_chatKind job, as_currentRequest = request,
                  as_messages = context, as_recall = recall, as_toolResults = []\<rparr> of
                Prompt_too_large \<Rightarrow> (run_failed c run too_large 11 d2,
                  Reply_refused 502 ''automatic reply prompt exceeded the token ceiling'')
              | Prompt_ok p \<Rightarrow>
                (case renewAgentReplyLease (jc_others c 14 d2) (rr_oid run) (jc_token c) (jc_clock c 14) of
                   (d3, None) \<Rightarrow> (d3, Reply_accepted)
                 | (d3, Some _) \<Rightarrow>
                   (let g = generate_answer c p; d4 = use_tools (jc_others c) (job_chat job jids) 20 (tool_calls c) d3
                    in deliver c job key run p g (recordCall (jc_recordFails c) (jc_others c 15 d4) (model_call c scope g)))))))"

section \<open>The route\<close>

text \<open>Under the claimed lease: a command of a direct chat is decided here, anything else goes to the model.\<close>

definition answer_claimed ::
  "'e reply_call \<Rightarrow> reply_job \<Rightarrow> jstr \<Rightarrow> jstr list \<Rightarrow> jstr \<Rightarrow> jstr \<Rightarrow> reply_message list \<Rightarrow> reply_run \<Rightarrow> db \<Rightarrow> db \<times> reply_answer" where
  "answer_claimed c job key jids ownerJid request context run d =
    (case (if rj_chatKind job = Chat_user then approvalCommand request else None) of
       Some (decision, ref) \<Rightarrow>
         (let (d1, r) = decideAction (jc_others c 8 d)
                \<lparr>de_organizationId = rs_organizationId (rj_scope job), de_ref = By_short_id ref, de_decision = decision,
                 de_decidedBy = ownerJid, de_ip = js ''worker''\<rparr> (jc_clock c 8)
          in completeWithSend c job key run (decisionReply decision ref r) ([], []) d1)
     | None \<Rightarrow> answer_with_model c job key run jids request context d)"

definition claim_and_answer ::
  "'e reply_call \<Rightarrow> reply_job \<Rightarrow> jstr \<Rightarrow> jstr list \<Rightarrow> jstr \<Rightarrow> jstr \<Rightarrow> reply_message list \<Rightarrow> db \<Rightarrow> db \<times> reply_answer" where
  "claim_and_answer c job key jids ownerJid request context d =
    (let scope = rj_scope job
     in case reconcileAgentReplySend (jc_others c 5 d) scope key (jc_clock c 5) of
       (d1, Some s) \<Rightarrow> (d1, Replayed s)
     | (d1, None) \<Rightarrow>
       (case claimAgentReplyRun (jc_others c 6 d1) scope (jc_token c) (jc_runOid c) (jc_clock c 6) of
          (d2, Some (Claimed run token)) \<Rightarrow> answer_claimed c job key jids ownerJid request context run d2
        | (d2, Some (Claim_completed run)) \<Rightarrow>
          (case reconcileAgentReplySend (jc_others c 7 d2) scope key (jc_clock c 7) of
             (d3, Some s) \<Rightarrow> (d3, Replayed s)
           | (d3, None) \<Rightarrow> (d3, Reply_refused 500 ''completed reply run has no send''))
        | (d2, Some (Claim_live run)) \<Rightarrow> (d2, Reply_accepted)
        | (d2, Some (Claim_dead run)) \<Rightarrow> (d2, Reply_refused 502 ''automatic reply run is dead'')
        | (d2, None) \<Rightarrow> (d2, Reply_thrown)))"

definition handle_job :: "'e reply_call \<Rightarrow> reply_job \<Rightarrow> db \<Rightarrow> db \<times> reply_answer" where
  "handle_job c job d =
    (let scope = rj_scope job; d0 = jc_others c 0 d; jids = authorized_jids (jc_country c) d0 (rs_organizationId scope)
     in if jids = [] then (d0, Reply_refused 503 ''automatic replies are disabled'')
     else let d1 = jc_others c 1 d0
     in if rj_chatKind job = Chat_group \<and> \<not> group_eligible d1 scope
        then (d1, Reply_refused 409 ''group is not eligible for automatic replies'')
     else let d2 = jc_others c 2 d1
     in case authorized_request (jc_country c) jids (request_message d2 scope) of
          None \<Rightarrow> (d2, Reply_refused 404 ''authorized mention source was not found'')
        | Some (ownerJid, request) \<Rightarrow>
          (let d3 = jc_others c 3 d2; history = chat_history d3 scope; d4 = jc_others c 4 d3;
               context = contextMessages (rs_groupJid scope) history (chat_sent d4 scope)
           in case agentReplyIdempotencyKey scope of
                None \<Rightarrow> (d4, Reply_thrown)
              | Some key \<Rightarrow> claim_and_answer c job key jids ownerJid request context d4))"

definition postReplyJob :: "'e reply_call \<Rightarrow> db \<Rightarrow> db \<times> reply_answer" where
  "postReplyJob c d =
    (if \<not> sameSecret (jc_authorization c) (jc_secret c) then (d, Reply_refused 401 ''unauthorized'')
     else case jc_body c of
       None \<Rightarrow> (d, Reply_refused 400 ''invalid JSON'')
     | Some v \<Rightarrow>
       (case validJob v of
          None \<Rightarrow> (d, Reply_refused 400 ''invalid reply job'')
        | Some job \<Rightarrow> handle_job c job d))"

end
