(* ===== verification/GroupToolsProps.thy ===== *)
theory GroupToolsProps
  imports GroupTools OutputGate
begin

text \<open>
  What the group tools guarantee: a change the policy does not allow is only ever a row for the owner, in a group the
  job may reach; what is staged is what the executor performs; the lists fit their budget. And what they do not: the
  messages a model may send by itself pass no output gate.
\<close>

section \<open>Staged changes\<close>

lemma trimmed_z_text: "z_text v = Some s \<Longrightarrow> z_text (Some (JStr s)) = Some s"
  by (auto simp: z_text_def split: option.splits json.splits if_splits)

lemma trimmed_z_all: "z_all vs = Some ss \<Longrightarrow> z_all (map JStr ss) = Some ss"
proof (induction vs arbitrary: ss)
  case (Cons v vs)
  then show ?case by (auto split: option.splits dest: trimmed_z_text)
qed simp

lemma trimmed_z_texts: "z_texts v = Some ss \<Longrightarrow> z_texts (Some (JArr (map JStr ss))) = Some ss"
proof -
  assume "z_texts v = Some ss"
  then obtain x xs where "v = Some (JArr (x # xs))" "z_all (x # xs) = Some ss"
    by (auto simp: z_texts_def split: option.splits json.splits list.splits)
  with trimmed_z_all [of "x # xs" ss] show ?thesis by (cases ss) (auto simp: z_texts_def split: option.splits)
qed

lemma z_shortD: "z_short n v = Some s \<Longrightarrow> z_text v = Some s \<and> length s \<le> n"
  by (auto simp: z_short_def split: option.splits if_splits)

lemma z_short_both: "z_short n v = Some s \<Longrightarrow> z_text v = Some s \<and> z_text (Some (JStr s)) = Some s"
  using trimmed_z_text by (fastforce dest: z_shortD)

lemma z_fewD: "z_few n v = Some ss \<Longrightarrow> z_texts v = Some ss"
  by (auto simp: z_few_def split: option.splits if_splits)

lemma z_membership_name: "z_membership (Some (JStr (membership_name m))) = Some m"
  by (cases m) (simp_all add: z_membership_def membership_name_def)

lemma field_obj [simp]: "field (obj fs) k = map_of fs k"
proof -
  have "map_of (map (\<lambda>f. (js (fst f), snd f)) fs) (js k) = map_of fs k" by (induction fs) auto
  then show ?thesis by (simp add: field_def obj_def)
qed

text \<open>What the executor will be asked to do for a staged call.\<close>

definition asked_of_worker :: "group_tool \<Rightarrow> jobject \<Rightarrow> group_admin_request option" where
  "asked_of_worker name inp = (case name of
      Group_rename \<Rightarrow> map_option Rename (z_text (field inp ''name''))
    | Group_set_announce \<Rightarrow> map_option Announce (z_bool (field inp ''announce''))
    | Group_set_locked \<Rightarrow> map_option Locked (z_bool (field inp ''locked''))
    | Group_set_photo \<Rightarrow> map_option Photo (z_text (field inp ''dataUrl''))
    | Group_members \<Rightarrow> (case (z_membership (field inp ''membership''), z_texts (field inp ''jids'')) of
        (Some m, Some jids) \<Rightarrow> Some (Members m jids) | _ \<Rightarrow> None)
    | Group_leave \<Rightarrow> Some Leave
    | Message_revoke \<Rightarrow> map_option Revoke (z_text (field inp ''waMessageId''))
    | _ \<Rightarrow> None)"

text \<open>What staging stores of a send, and of each other change, is what the executor asks for.\<close>

lemma staged_send_executable:
  assumes "stage_write parseDate now Group_send inp = Some (params, summary)" and "pa_params a = params"
    and "\<And>t. send_instant parseDate now (field inp ''sendAt'') = Some (Some t) \<Longrightarrow> parse_datetime (toISOString t) = Some t"
  shows "\<exists>t at'. z_text (field inp ''text'') = Some t \<and> send_instant parseDate now (field inp ''sendAt'') = Some at'
    \<and> sendRequestFor parse_datetime a = Inr (t, at')"
proof -
  from assms(1) obtain t at' where z: "z_short send_text_chars (field inp ''text'') = Some t"
      "send_instant parseDate now (field inp ''sendAt'') = Some at'"
      and p: "params = obj ([(''text'', JStr t)] @ (case at' of None \<Rightarrow> [] | Some v \<Rightarrow> [(''scheduledFor'', JStr (toISOString v))]))"
    by (auto simp: stage_write_def split: option.splits)
  from z(1) have t: "z_text (field inp ''text'') = Some t" by (auto dest: z_shortD)
  have "sendRequestFor parse_datetime a = Inr (t, at')"
  proof (cases at')
    case None
    with p assms(2) trimmed_z_text [OF t] show ?thesis by (simp add: sendRequestFor_def)
  next
    case (Some v)
    with z(2) assms(3) have "parse_datetime (toISOString v) = Some v" by blast
    with Some p assms(2) trimmed_z_text [OF t] show ?thesis by (simp add: sendRequestFor_def)
  qed
  with t z(2) show ?thesis by blast
qed

lemmas staged_request = workerRequestFor_def asked_of_worker_def group_tool_name_def or_invalid_def

lemma staged_members_executable:
  assumes "stage_write parseDate now Group_members inp = Some (params, summary)"
    and "pa_action a = js (group_tool_name Group_members)" "pa_params a = params"
  shows "\<exists>req. asked_of_worker Group_members inp = Some req \<and> workerRequestFor a = Inr req"
proof -
  from assms(1) obtain m jids where z: "z_membership (field inp ''membership'') = Some m" "z_few members_max (field inp ''jids'') = Some jids"
      and p: "params = obj [(''membership'', JStr (membership_name m)), (''jids'', JArr (map JStr jids))]"
    by (auto simp: stage_write_def split: option.splits)
  from z(2) have "z_texts (field inp ''jids'') = Some jids" by (rule z_fewD)
  with z p assms(2,3) show ?thesis by (simp add: staged_request z_membership_name trimmed_z_texts)
qed

lemma staged_change_executable:
  assumes "stage_write parseDate now name inp = Some (params, summary)"
    and "pa_action a = js (group_tool_name name)" "pa_params a = params" and "name \<noteq> Group_send"
  shows "\<exists>req. asked_of_worker name inp = Some req \<and> workerRequestFor a = Inr req"
proof (cases name)
  case Group_members
  with assms(1-3) show ?thesis using staged_members_executable by blast
next
  case Group_rename
  with assms(1) obtain n where "z_short name_chars (field inp ''name'') = Some n" "params = obj [(''name'', JStr n)]"
    by (auto simp: stage_write_def)
  with Group_rename assms(2,3) show ?thesis
    by (auto simp: staged_request dest: z_short_both)
next
  case Group_set_announce
  with assms(1) obtain b where "z_bool (field inp ''announce'') = Some b" "params = obj [(''announce'', JBool b)]"
    by (auto simp: stage_write_def)
  with Group_set_announce assms(2,3) show ?thesis
    by (simp add: staged_request z_bool_def [of "Some (JBool b)"])
next
  case Group_set_locked
  with assms(1) obtain b where "z_bool (field inp ''locked'') = Some b" "params = obj [(''locked'', JBool b)]"
    by (auto simp: stage_write_def)
  with Group_set_locked assms(2,3) show ?thesis
    by (simp add: staged_request z_bool_def [of "Some (JBool b)"])
next
  case Group_set_photo
  with assms(1) obtain u where "z_short data_url_chars (field inp ''dataUrl'') = Some u" "params = obj [(''dataUrl'', JStr u)]"
    by (auto simp: stage_write_def)
  with Group_set_photo assms(2,3) show ?thesis
    by (auto simp: staged_request dest: z_short_both)
next
  case Message_revoke
  with assms(1) obtain i where "z_text (field inp ''waMessageId'') = Some i" "params = obj [(''waMessageId'', JStr i)]"
    by (auto simp: stage_write_def)
  with Message_revoke assms(2,3) trimmed_z_text [of "field inp ''waMessageId''" i] show ?thesis
    by (simp add: staged_request)
next
  case Group_leave
  with assms(2) show ?thesis by (simp add: staged_request)
qed (use assms(1,4) in \<open>simp_all add: stage_write_def\<close>)

text \<open>
  C30: What a tool stages is what the executor performs: the params of a staged row always pass the executor's own
  validation and ask the worker for exactly the change the call named; a staged message is sent with the
  trimmed text of the call at the instant it named.
\<close>

theorem staged_is_executable:
  assumes "stage_write parseDate now name inp = Some (params, summary)"
    and "pa_action a = js (group_tool_name name)" "pa_params a = params"
    and "\<And>t. send_instant parseDate now (field inp ''sendAt'') = Some (Some t) \<Longrightarrow> parse_datetime (toISOString t) = Some t"
  shows "if name = Group_send
    then \<exists>t at'. z_text (field inp ''text'') = Some t \<and> send_instant parseDate now (field inp ''sendAt'') = Some at'
      \<and> sendRequestFor parse_datetime a = Inr (t, at')
    else \<exists>req. asked_of_worker name inp = Some req \<and> workerRequestFor a = Inr req"
proof (cases "name = Group_send")
  case True
  with staged_send_executable [OF _ assms(3,4)] assms(1) show ?thesis by simp
next
  case False
  with staged_change_executable [OF assms(1-3)] show ?thesis by simp
qed

definition ex_tool_action :: pending_action where
  "ex_tool_action = \<lparr>pa_id = [], pa_organizationId = [], pa_instanceId = [], pa_groupJid = [], pa_action = js ''group_send'',
    pa_params = obj [(''text'', JStr (js ''Hi'')), (''scheduledFor'', JStr (toISOString 5))], pa_summary = [], pa_state = Pa_pending, pa_shortId = [],
    pa_requestedBy = [], pa_requestedAt = 0, pa_decidedBy = None, pa_decidedAt = None, pa_result = None, pa_updatedAt = 0\<rparr>"

theorem staged_is_executable_witness:
  "sendRequestFor (\<lambda>_. Some 5) ex_tool_action = Inr (js ''Hi'', Some 5)"
proof -
  let ?inp = "[(js ''text'', JStr (js '' Hi'')), (js ''sendAt'', JStr (js ''soon''))]"
  have t: "z_text (Some (JStr (js '' Hi''))) = Some (js ''Hi'')" "z_text (Some (JStr (js ''soon''))) = Some (js ''soon'')"
    by (simp_all add: z_text_def js_def trim_def trim_start_def trim_end_def is_space_def)
  then have i: "send_instant (\<lambda>_. Some 5) 0 (field ?inp ''sendAt'') = Some (Some 5)"
    by (simp add: send_instant_def send_ahead_ms_def)
  have "stage_write (\<lambda>_. Some 5) 0 Group_send ?inp = Some (obj [(''text'', JStr (js ''Hi'')), (''scheduledFor'', JStr (toISOString 5))],
      js ''Send this message to the group at '' @ toISOString 5 @ js '': '' @ js ''Hi'')"
    unfolding stage_write_def i using t by (simp add: z_short_def send_text_chars_def) (simp add: js_def)
  from staged_is_executable [OF this, of ex_tool_action "\<lambda>_. Some 5"] i t show ?thesis
    by (simp add: ex_tool_action_def group_tool_name_def)
qed

section \<open>What waits for the owner\<close>

lemma scopedGroup_monitored:
  assumes "scopedGroup env d ch inp = Some jid"
  shows "usableChatContext ch \<and> (ch_chatKind ch = Chat_group \<longrightarrow> ch_groupJid ch = Some jid)
    \<and> (\<exists>g \<in> set (groups d). of_instance (ch_organizationId ch) (ch_instanceId ch) g \<and> gd_groupJid g = jid \<and> both_flags g)"
proof -
  from assms have u: "usableChatContext ch" by (auto simp: scopedGroup_def split: if_splits)
  have mon: "monitoredGroup d ch j \<Longrightarrow> \<exists>g \<in> set (groups d). of_instance (ch_organizationId ch) (ch_instanceId ch) g \<and> gd_groupJid g = j \<and> both_flags g" for j
    using monitoredGroup_flags [of d ch j] by (auto simp: is_group_def)
  show ?thesis
  proof (cases "ch_chatKind ch = Chat_group")
    case True
    with assms u mon show ?thesis by (auto simp: scopedGroup_def split: if_splits option.splits)
  next
    case False
    with assms u obtain reference where r: "resolveMonitoredGroup env d ch reference = Some jid"
      by (auto simp: scopedGroup_def split: if_splits option.splits)
    show ?thesis
    proof (cases "64 \<in> set (trim reference)")
      case True
      with r mon u False show ?thesis by (auto simp: resolveMonitoredGroup_def Let_def split: if_splits)
    next
      case named: False
      with r obtain g P where "filter P (monitored_rows d ch) = [g]" "gd_groupJid g = jid"
        by (auto simp: resolveMonitoredGroup_def Let_def split: if_splits list.splits)
      then have "g \<in> set (monitored_rows d ch)" by (metis filter_is_subset list.set_intros(1) subset_iff)
      with \<open>gd_groupJid g = jid\<close> u False show ?thesis by (auto simp: monitored_rows_def)
    qed
  qed
qed

lemma stage_attempts_cases:
  "snd (stage_attempts d inp base now ds) = Inl e \<Longrightarrow> fst (stage_attempts d inp base now ds) = d"
  "snd (stage_attempts d inp base now ds) = Inr row \<Longrightarrow>
     (\<exists>s. row = base\<lparr>pa_shortId := s\<rparr>) \<and>
     fst (stage_attempts d inp base now ds) = writeAudit (d\<lparr>pendingActions := pendingActions d @ [row]\<rparr>) (stage_audit inp row) now"
  by (induction ds) (auto simp: Let_def split: if_splits)

text \<open>What a call may add to a database: one record, and one row that awaits the owner.\<close>

definition logged :: "db \<Rightarrow> audit_row \<Rightarrow> db" where
  "logged d a = d\<lparr>auditLog := auditLog d @ [a]\<rparr>"

definition awaiting :: "db \<Rightarrow> pending_action \<Rightarrow> db" where
  "awaiting d p = d\<lparr>pendingActions := pendingActions d @ [p]\<rparr>"

lemma run_reads_only:
  assumes "gr_connects g \<and> \<not> gr_readsFail g \<Longrightarrow> fst (group_answer g d ch name inp) = d"
  shows "case runGroupTool g d ch name inp of (d', r) \<Rightarrow> d' = d \<or> (\<exists>a. d' = logged d a)"
proof (cases "gr_connects g \<and> \<not> gr_readsFail g")
  case True
  with assms obtain r where "group_answer g d ch name inp = (d, r)" by (metis prod.collapse)
  with True show ?thesis by (auto simp: runGroupTool_def Let_def recordToolCall_def logged_def writeAudit_def)
next
  case False
  then show ?thesis by (auto simp: runGroupTool_def Let_def recordToolCall_def logged_def writeAudit_def)
qed

definition row_for_owner :: "db \<Rightarrow> tool_chat \<Rightarrow> group_tool \<Rightarrow> pending_action \<Rightarrow> bool" where
  "row_for_owner d ch name p \<longleftrightarrow> pa_state p = Pa_pending \<and> pa_action p = js (group_tool_name name) \<and> pa_result p = None
     \<and> pa_organizationId p = ch_organizationId ch \<and> pa_instanceId p = ch_instanceId ch
     \<and> (ch_chatKind ch = Chat_group \<longrightarrow> ch_groupJid ch = Some (pa_groupJid p))
     \<and> (\<exists>g \<in> set (groups d). of_instance (ch_organizationId ch) (ch_instanceId ch) g \<and> gd_groupJid g = pa_groupJid p \<and> both_flags g)"

text \<open>A staging that answers appended one row for the owner and its record, and answers that row's reference.\<close>

lemma staged_change_waits:
  assumes "name \<notin> set autonomous_actions" and jid: "scopedGroup (gr_env g) d ch inp = Some jid"
    and staged: "stageGroupAction g d ch jid name inp = (d1, Some r)"
  obtains p a where "d1 = logged (awaiting d p) a" "row_for_owner d ch name p" "ar_target a = (T_action, pa_id p)" "r = staged_object name p"
proof -
  from assms(1) staged obtain w row where
      s: "stageAction d (stage_input_of ch jid name w) (gr_now g) (gr_uuid g) (gr_draws g) = (d1, Inr row)" and r: "r = staged_object name row"
    by (auto simp: stageGroupAction_def split: option.splits prod.splits sum.splits)
  let ?base = "stage_base (stage_input_of ch jid name w) (gr_now g) (gr_uuid g)"
  let ?a = "auditRow (stage_audit (stage_input_of ch jid name w) row) (gr_now g)"
  from s stage_attempts_cases(2) [of d "stage_input_of ch jid name w" ?base "gr_now g" "map (gr_draws g) [0..<short_id_attempts]" row]
  obtain sid where row: "row = ?base\<lparr>pa_shortId := sid\<rparr>"
    and d1: "d1 = writeAudit (d\<lparr>pendingActions := pendingActions d @ [row]\<rparr>) (stage_audit (stage_input_of ch jid name w) row) (gr_now g)"
    by (auto simp: stageAction_def)
  have "d1 = logged (awaiting d row) ?a" by (simp add: d1 logged_def awaiting_def writeAudit_def)
  moreover have "row_for_owner d ch name row"
    using scopedGroup_monitored [OF jid] row by (auto simp: row_for_owner_def stage_base_def stage_input_of_def)
  moreover have "ar_target ?a = (T_action, pa_id row)" by (simp add: stage_audit_def auditRow_def)
  ultimately show ?thesis using r that by blast
qed

text \<open>A call that did not get as far as staging left the database as it was, up to its record.\<close>

lemma only_reads_recorded:
  "fst (group_answer g d ch name inp) = d \<Longrightarrow>
    fst (runGroupTool g d ch name inp) = d \<or> (\<exists>a. fst (runGroupTool g d ch name inp) = logged d a)"
  using run_reads_only [of g d ch name inp] by (auto split: prod.splits)

text \<open>
  C29: A tool the policy does not let the assistant perform changes nothing by itself: whatever the model asks for and
  the worker answers, the call leaves the database alone but for its audit record, or adds one row that awaits
  the owner's decision, for a group this instance monitors and, in a group job, the job's own; then the
  answer says that nothing has been changed yet.
\<close>

theorem unapproved_changes_only_wait:
  assumes "name \<notin> set autonomous_actions" "name \<noteq> Cancel_scheduled"
  shows "case runGroupTool g d ch name inp of (d', r) \<Rightarrow>
    d' = d \<or> (\<exists>a. d' = logged d a)
    \<or> (\<exists>p a. d' = logged (awaiting d p) a \<and> row_for_owner d ch name p \<and> ar_target a = (T_action, pa_id p) \<and> r = staged_object name p)"
proof (cases "\<exists>jid. scopedGroup (gr_env g) d ch inp = Some jid \<and> \<not> isReadTool name")
  case False
  then have "fst (group_answer g d ch name inp) = d"
    using assms by (auto simp: group_answer_def Let_def isReadTool_def split: option.splits)
  from only_reads_recorded [OF this] show ?thesis by (auto split: prod.splits)
next
  case True
  then obtain jid where jid: "scopedGroup (gr_env g) d ch inp = Some jid" and "\<not> isReadTool name" by blast
  then have ga: "group_answer g d ch name inp = stageGroupAction g d ch jid name inp"
    using assms by (auto simp: group_answer_def Let_def isReadTool_def)
  show ?thesis
  proof (cases "snd (group_answer g d ch name inp)")
    case None
    with assms ga have "fst (group_answer g d ch name inp) = d"
      by (auto simp: stageGroupAction_def stageAction_def split: option.splits prod.splits sum.splits dest: stage_attempts_cases(1))
        (metis fst_conv snd_conv stage_attempts_cases(1))+
    from only_reads_recorded [OF this] show ?thesis by (auto split: prod.splits)
  next
    case (Some r)
    with ga obtain d1 where staged: "stageGroupAction g d ch jid name inp = (d1, Some r)" by (metis prod.collapse)
    from staged_change_waits [OF assms(1) jid staged] obtain p a where
      p: "d1 = logged (awaiting d p) a" "row_for_owner d ch name p" "ar_target a = (T_action, pa_id p)" "r = staged_object name p" .
    show ?thesis
    proof (cases "gr_connects g \<and> \<not> gr_readsFail g")
      case True
      have "field r ''ok'' = Some (JBool True)" "field r ''staged'' \<noteq> None" by (simp_all add: p(4) staged_object_def)
      with True ga staged have "runGroupTool g d ch name inp = (logged (awaiting d p) a, staged_object name p)"
        by (auto simp: runGroupTool_def p(1,4))
      then show ?thesis using p(2,3) by (simp only: prod.case) blast
    next
      case False
      with run_reads_only [of g d ch name inp] show ?thesis by (auto split: prod.splits)
    qed
  qed
qed

definition ex_tool_db :: db where
  "ex_tool_db = empty_db\<lparr>groups := [\<lparr>gd_organizationId = js ''o'', gd_instanceId = js ''i'', gd_groupJid = js ''g'', gd_observed = None,
     gd_config = Some \<lparr>gc_assigned = Some True, gc_whitelisted = Some True, gc_configVersion = None\<rparr>, gd_memoryReadFence = 0\<rparr>]\<rparr>"

definition ex_group_chat :: tool_chat where
  "ex_group_chat = \<lparr>ch_organizationId = js ''o'', ch_instanceId = js ''i'', ch_chatKind = Chat_group, ch_chatJid = js ''g'', ch_groupJid = Some (js ''g''),
     ch_authorizedJids = [js ''w'']\<rparr>"

definition ex_group_run :: group_run where
  "ex_group_run = \<lparr>gr_env = \<lparr>gx_info = (\<lambda>_ _. None), gx_participants = (\<lambda>_ _. None), gx_nfc = id, gx_lower = id, gx_zoned = (\<lambda>_. []), gx_regex = (\<lambda>_ _. False)\<rparr>,
     gr_connects = True, gr_readsFail = False, gr_auditFails = False, gr_now = 0, gr_durationMs = 1, gr_uuid = js ''u'', gr_draws = (\<lambda>_ _. 0),
     gr_parseDate = (\<lambda>_. None),
     gr_exec = \<lparr>xe_worker = (\<lambda>_ _ _. Inr (True, [])), xe_parse_datetime = (\<lambda>_. None), xe_iso = toISOString, xe_ip = [], xe_now = 0, xe_uuid = js ''s'', xe_oid = js ''oid''\<rparr>,
     gr_others = (\<lambda>_. id)\<rparr>"

lemma ex_scope: "scopedGroup env ex_tool_db ex_group_chat inp = Some (js ''g'')"
  by (simp add: scopedGroup_def usableChatContext_def ex_group_chat_def monitoredGroup_def ex_tool_db_def is_group_def of_instance_def both_flags_def config_of_def)

definition ex_leave :: jobject where
  "ex_leave = [(js ''reason'', JStr (js ''bye''))]"

lemma ex_reason: "z_text (Some (JStr (js ''bye''))) = Some (js ''bye'')"
  by (simp add: z_text_def js_def trim_def trim_start_def trim_end_def is_space_def)

lemma ex_leave_staged: "pendingActions (fst (runGroupTool ex_group_run ex_tool_db ex_group_chat Group_leave ex_leave)) \<noteq> []"
proof -
  have "stage_write p now Group_leave ex_leave = Some (obj [(''reason'', JStr (js ''bye''))], js ''Leave the group. Reason given: '' @ js ''bye'')" for p now
    using ex_reason by (simp add: stage_write_def ex_leave_def z_short_def label_chars_def) (simp add: js_def)
  moreover have "short_id_taken ex_tool_db org s = False" for org s
    by (simp add: short_id_taken_def ex_tool_db_def empty_db_def)
  ultimately show ?thesis
    using ex_scope [of "gr_env ex_group_run" ex_leave]
    by (simp add: runGroupTool_def group_answer_def isReadTool_def Let_def stageGroupAction_def stageAction_def
      short_id_attempts_def upt_rec stage_input_of_def ex_group_chat_def autonomous_actions_def ex_group_run_def staged_object_def)
qed

theorem unapproved_changes_only_wait_witness:
  "\<exists>p. pendingActions (fst (runGroupTool ex_group_run ex_tool_db ex_group_chat Group_leave ex_leave)) = [p]
    \<and> row_for_owner ex_tool_db ex_group_chat Group_leave p"
proof -
  obtain d' r where run: "runGroupTool ex_group_run ex_tool_db ex_group_chat Group_leave ex_leave = (d', r)" by fastforce
  have e: "pendingActions ex_tool_db = []" by (simp add: ex_tool_db_def empty_db_def)
  have "d' = ex_tool_db \<or> (\<exists>a. d' = logged ex_tool_db a) \<or> (\<exists>p a. d' = logged (awaiting ex_tool_db p) a
      \<and> row_for_owner ex_tool_db ex_group_chat Group_leave p \<and> ar_target a = (T_action, pa_id p) \<and> r = staged_object Group_leave p)"
    using unapproved_changes_only_wait [where name = Group_leave and g = ex_group_run and d = ex_tool_db and ch = ex_group_chat and inp = ex_leave] run by (simp add: autonomous_actions_def)
  with ex_leave_staged e run show ?thesis by (auto simp: logged_def awaiting_def)
qed

section \<open>What does not wait\<close>

text \<open>A database whose only change is a row the executor can find again by its id.\<close>

lemma update_last: "list_all (\<lambda>x. \<not> P x) xs \<Longrightarrow> P x \<Longrightarrow> update_one P f (xs @ [x]) = xs @ [f x]"
  by (induction xs) auto

lemma found_last: "list_all (\<lambda>x. \<not> P x) xs \<Longrightarrow> P x \<Longrightarrow> found_after P f (xs @ [x]) = Some (f x)"
  by (simp add: found_after_def) (induction xs; simp)

text \<open>\<open>alone d r\<close>: the row is the last of the queue and the only one of its id.\<close>

definition last_action :: "db \<Rightarrow> pending_action list \<Rightarrow> pending_action \<Rightarrow> bool" where
  "last_action d ps p \<longleftrightarrow> pendingActions d = ps @ [p] \<and> list_all (\<lambda>q. pa_id q \<noteq> pa_id p) ps"

lemma decide_last:
  assumes "last_action d ps p" "pa_state p = Pa_pending" "pa_organizationId p = de_organizationId inp" "de_ref inp = By_id (pa_id p)"
  shows "snd (decideAction d inp now) = Decided (decide_update inp now p)" "last_action (fst (decideAction d inp now)) ps (decide_update inp now p)"
    "sendRequests (fst (decideAction d inp now)) = sendRequests d"
proof -
  let ?filt = "\<lambda>q. pa_organizationId q = de_organizationId inp \<and> pa_state q = Pa_pending \<and> refFilter (de_ref inp) q"
  from assms have n: "list_all (\<lambda>q. \<not> ?filt q) ps" "?filt p" by (auto simp: last_action_def list_all_iff refFilter_def)
  from assms(1) found_last [OF n] update_last [OF n]
  show "snd (decideAction d inp now) = Decided (decide_update inp now p)" "last_action (fst (decideAction d inp now)) ps (decide_update inp now p)"
    "sendRequests (fst (decideAction d inp now)) = sendRequests d"
    by (simp_all add: decideAction_def decide_txn_def Let_def last_action_def decide_update_def)
qed

lemma claim_last:
  assumes "last_action d ps p" "pa_state p = Pa_approved" "pa_result p = None"
  shows "snd (claim d p ip now) = Some (claim_update now p)" "last_action (fst (claim d p ip now)) ps (claim_update now p)"
    "sendRequests (fst (claim d p ip now)) = sendRequests d"
proof -
  from assms have n: "list_all (\<lambda>q. \<not> claim_filter p q) ps" "claim_filter p p" by (auto simp: last_action_def list_all_iff claim_filter_def)
  from assms(1) found_last [OF n] update_last [OF n]
  show "snd (claim d p ip now) = Some (claim_update now p)" "last_action (fst (claim d p ip now)) ps (claim_update now p)"
    "sendRequests (fst (claim d p ip now)) = sendRequests d"
    by (simp_all add: claim_def last_action_def claim_update_def)
qed

lemma settle_last:
  assumes "last_action d ps q" "pa_state q = Pa_approved" "is_running q" "pa_organizationId a = pa_organizationId q" "pa_id a = pa_id q"
  shows "snd (settle d a st ip now) = Some (settle_update st now q)" "sendRequests (fst (settle d a st ip now)) = sendRequests d"
proof -
  from assms have n: "list_all (\<lambda>r. \<not> settle_filter a r) ps" "settle_filter a q" by (auto simp: last_action_def list_all_iff settle_filter_def)
  from assms(1) found_last [OF n] update_last [OF n]
  show "snd (settle d a st ip now) = Some (settle_update st now q)" "sendRequests (fst (settle d a st ip now)) = sendRequests d"
    by (simp_all add: settle_def last_action_def)
qed

lemma perform_fresh_send:
  assumes "pa_action a = js ''group_send''" "sendRequestFor (xe_parse_datetime env) a = Inr (t, None)"
    and "\<forall>s \<in> set (sendRequests d). \<not> has_idempotency_key (pa_organizationId a) (js ''action:'' @ pa_id a) s"
  shows "\<exists>st. snd (perform env d a) = Inr st \<and> se_failure st = None"
    and "pendingActions (fst (perform env d a)) = pendingActions d"
    and "\<exists>s. sendRequests (fst (perform env d a)) = sendRequests d @ [s] \<and> sr_text s = t \<and> sr_groupJid s = pa_groupJid a
      \<and> sr_status s = Approved \<and> ap_approvedBy (sr_approval s) = Some Assistant"
proof -
  have n: "find (has_idempotency_key (pa_organizationId a) (js ''action:'' @ pa_id a)) (sendRequests d) = None"
    using assms(3) by (simp add: find_None_iff)
  have f: "find P (xs @ [x]) = Some x" if "find P xs = None" "P x" for P and xs :: "send_row list" and x
    using that by (induction xs) (auto split: if_splits)
  let ?inp = "\<lparr>ci_organizationId = pa_organizationId a, ci_instanceId = pa_instanceId a, ci_groupJid = pa_groupJid a,
     ci_text = t, ci_idempotencyKey = js ''action:'' @ pa_id a, ci_actorIP = xe_ip env, ci_decision = Some (Assistant, None)\<rparr>"
  let ?s = "create_candidate ?inp (xe_now env) (xe_uuid env) (xe_oid env)"
  have k: "has_idempotency_key (pa_organizationId a) (js ''action:'' @ pa_id a) ?s"
    by (simp add: has_idempotency_key_def create_candidate_def Let_def)
  have c: "createSend d ?inp (xe_now env) (xe_uuid env) (xe_oid env) =
      (writeAudit (d\<lparr>sendRequests := sendRequests d @ [?s]\<rparr>) (create_audit ?inp ?s) (xe_now env), Inr ?s)"
    by (simp add: createSend_def n Let_def f [OF n k])
  from assms(1,2) c show "\<exists>st. snd (perform env d a) = Inr st \<and> se_failure st = None"
      "pendingActions (fst (perform env d a)) = pendingActions d"
    by (simp_all add: perform_def perform_send_def)
  from assms(1,2) c show "\<exists>s. sendRequests (fst (perform env d a)) = sendRequests d @ [s] \<and> sr_text s = t \<and> sr_groupJid s = pa_groupJid a
      \<and> sr_status s = Approved \<and> ap_approvedBy (sr_approval s) = Some Assistant"
    by (simp add: perform_def perform_send_def) (simp add: create_candidate_def due_status_def Let_def)
qed

lemma execute_fresh_send:
  assumes "last_action d ps p" "pa_state p = Pa_approved" "pa_result p = None" "pa_action p = js ''group_send''"
    and "sendRequestFor (xe_parse_datetime env) p = Inr (t, None)"
    and "\<forall>s \<in> set (sendRequests d). \<not> has_idempotency_key (pa_organizationId p) (js ''action:'' @ pa_id p) s"
  shows "\<exists>a. snd (executeAction env d p) = Inr (Executed a)"
    and "\<exists>s. sendRequests (fst (executeAction env d p)) = sendRequests d @ [s] \<and> sr_text s = t \<and> sr_groupJid s = pa_groupJid p
      \<and> sr_status s = Approved \<and> ap_approvedBy (sr_approval s) = Some Assistant"
proof -
  let ?q = "claim_update (xe_now env) p"
  obtain d1 where c: "claim d p (xe_ip env) (xe_now env) = (d1, Some ?q)" "last_action d1 ps ?q" "sendRequests d1 = sendRequests d"
    using claim_last [OF assms(1-3)] by (metis prod.collapse)
  from assms(6) c(3) have fresh: "\<forall>s \<in> set (sendRequests d1). \<not> has_idempotency_key (pa_organizationId p) (js ''action:'' @ pa_id p) s" by simp
  obtain d2 st where e: "perform env d1 p = (d2, Inr st)" "se_failure st = None" "pendingActions d2 = pendingActions d1"
    using perform_fresh_send(1,2) [OF assms(4,5) fresh] by (metis prod.collapse)
  from perform_fresh_send(3) [OF assms(4,5) fresh] e(1) c(3) have sent: "\<exists>s. sendRequests d2 = sendRequests d @ [s] \<and> sr_text s = t \<and> sr_groupJid s = pa_groupJid p
      \<and> sr_status s = Approved \<and> ap_approvedBy (sr_approval s) = Some Assistant" by simp
  from c(2) e(3) have l: "last_action d2 ps ?q" by (simp add: last_action_def)
  have q: "pa_state ?q = Pa_approved" "is_running ?q" "pa_organizationId p = pa_organizationId ?q" "pa_id p = pa_id ?q"
    using assms(2) by (simp_all add: claim_update_def is_running_def running_def)
  obtain d3 where "settle d2 p st (xe_ip env) (xe_now env) = (d3, Some (settle_update st (xe_now env) ?q))" "sendRequests d3 = sendRequests d2"
    using settle_last [OF l q] by (metis prod.collapse)
  with assms(2) c(1) e(1,2) sent show "\<exists>a. snd (executeAction env d p) = Inr (Executed a)"
    "\<exists>s. sendRequests (fst (executeAction env d p)) = sendRequests d @ [s] \<and> sr_text s = t \<and> sr_groupJid s = pa_groupJid p
      \<and> sr_status s = Approved \<and> ap_approvedBy (sr_approval s) = Some Assistant"
    by (simp_all add: executeAction_def)
qed

text \<open>A message the model sends by itself reaches the queue approved, in the text of the call: an immediate
  \<open>group_send\<close> into a group the job may reach adds one send of exactly the trimmed text, approved by the assistant, whatever
  that text is. No output gate stands on this path.
\<close>

theorem group_send_is_approved_unread:
  assumes "gr_connects g" "\<not> gr_readsFail g" "gr_others g = (\<lambda>_. id)"
    and "scopedGroup (gr_env g) d ch inp = Some jid"
    and "z_short send_text_chars (field inp ''text'') = Some t" "field inp ''sendAt'' = None"
    and "fresh_action_id d (gr_uuid g)" "\<not> short_id_taken d (ch_organizationId ch) (newShortId (gr_draws g 0))"
    and "\<forall>s \<in> set (sendRequests d). \<not> has_idempotency_key (ch_organizationId ch) (js ''action:'' @ gr_uuid g) s"
  shows "\<exists>s. sendRequests (fst (runGroupTool g d ch Group_send inp)) = sendRequests d @ [s] \<and> sr_text s = t \<and> sr_groupJid s = jid
    \<and> sr_status s = Approved \<and> ap_approvedBy (sr_approval s) = Some Assistant"
proof -
  let ?staged = "(obj [(''text'', JStr t)], js ''Send this message to the group: '' @ t)"
  let ?si = "stage_input_of ch jid Group_send ?staged"
  let ?row = "(stage_base ?si (gr_now g) (gr_uuid g))\<lparr>pa_shortId := newShortId (gr_draws g 0)\<rparr>"
  let ?d1 = "writeAudit (d\<lparr>pendingActions := pendingActions d @ [?row]\<rparr>) (stage_audit ?si ?row) (gr_now g)"
  have w: "stage_write (gr_parseDate g) (gr_now g) Group_send inp = Some ?staged"
    using assms(5,6) by (simp add: stage_write_def send_instant_def)
  have o: "st_organizationId ?si = ch_organizationId ch" by (simp add: stage_input_of_def)
  have st: "stageAction d ?si (gr_now g) (gr_uuid g) (gr_draws g) = (?d1, Inr ?row)"
    using assms(8) by (simp add: stageAction_def short_id_attempts_def upt_rec o Let_def)
  have row: "pa_state ?row = Pa_pending" "pa_id ?row = gr_uuid g" "pa_organizationId ?row = ch_organizationId ch" "pa_groupJid ?row = jid"
      "pa_action ?row = js ''group_send''" "pa_params ?row = obj [(''text'', JStr t)]" "pa_result ?row = None"
    by (simp_all add: stage_base_def stage_input_of_def group_tool_name_def)
  have l1: "last_action ?d1 (pendingActions d) ?row"
    using assms(7) by (simp add: last_action_def fresh_action_id_def row(2))
  let ?inp = "policy_decision ch ?row"
  let ?p = "decide_update ?inp (gr_now g) ?row"
  have i: "pa_organizationId ?row = de_organizationId ?inp" "de_ref ?inp = By_id (pa_id ?row)"
    by (simp_all add: policy_decision_def row(3))
  note dl = decide_last [OF l1 row(1) i, of "gr_now g"]
  obtain d2 v where d2: "decideAction ?d1 ?inp (gr_now g) = (d2, v)" by (cases "decideAction ?d1 ?inp (gr_now g)")
  have s1: "sendRequests ?d1 = sendRequests d" by simp
  have dec: "decideAction ?d1 ?inp (gr_now g) = (d2, Decided ?p)" "last_action d2 (pendingActions d) ?p" "sendRequests d2 = sendRequests d"
    using dl unfolding d2 s1 by simp_all
  have p: "pa_state ?p = Pa_approved" "pa_result ?p = None" "pa_action ?p = js ''group_send''" "pa_organizationId ?p = ch_organizationId ch"
      "pa_id ?p = gr_uuid g" "pa_groupJid ?p = jid" "pa_params ?p = obj [(''text'', JStr t)]"
    using row by (simp_all add: decide_update_def policy_decision_def)
  let ?env = "(gr_exec g)\<lparr>xe_ip := js ''internal''\<rparr>"
  from assms(5) have "z_text (Some (JStr t)) = Some t" by (auto dest: z_short_both)
  then have "sendRequestFor (xe_parse_datetime ?env) ?p = Inr (t, None)" by (simp only: sendRequestFor_def p(7)) simp
  note x = execute_fresh_send [OF dec(2) p(1-3) this]
  have fresh: "\<forall>s \<in> set (sendRequests d2). \<not> has_idempotency_key (pa_organizationId ?p) (js ''action:'' @ pa_id ?p) s"
    using assms(9) by (simp only: dec(3) p(4,5))
  obtain d3 a where ex: "executeAction ?env d2 ?p = (d3, Inr (Executed a))"
    using x(1) [OF fresh] by (metis prod.collapse)
  from x(2) [OF fresh] have sent: "\<exists>s. sendRequests d3 = sendRequests d @ [s] \<and> sr_text s = t \<and> sr_groupJid s = jid
      \<and> sr_status s = Approved \<and> ap_approvedBy (sr_approval s) = Some Assistant"
    unfolding ex dec(3) p(6) by simp
  have "perform_staged g ch Group_send ?row ?d1 = (d3, Some (done_object Group_send (pa_summary a) (case pa_result a of Some r \<Rightarrow> r | None \<Rightarrow> []) (doneMessage (pa_summary a))))"
    unfolding perform_staged_def assms(3) by (simp only: id_apply dec(1) prod.case decide_result.case ex sum.case execute_outcome.case)
  then have "group_answer g d ch Group_send inp = (d3, Some (done_object Group_send (pa_summary a) (case pa_result a of Some r \<Rightarrow> r | None \<Rightarrow> []) (doneMessage (pa_summary a))))"
    using assms(4) by (simp add: group_answer_def isReadTool_def stageGroupAction_def w st autonomous_actions_def)
  then have "sendRequests (fst (runGroupTool g d ch Group_send inp)) = sendRequests d3"
    using assms(1,2) by (simp add: runGroupTool_def Let_def recordToolCall_def)
  with sent show ?thesis by simp
qed

text \<open>A text the gate refuses: the start \<open><|\<close> of provider markup.\<close>

lemma gate_refuses_markup: "sanitizeWhatsAppOutput id {} [60, 124] = sanitized.Refused Model_markup"
proof -
  have "gate_text id [60, 124] = [60, 124]"
    by (simp add: gate_text_def normalizeUntrustedText_def drop_points_def is_control_def forbidden_format_def lone_surrogate_def
      is_high_surrogate_def is_low_surrogate_def trim_def trim_start_def trim_end_def is_space_def)
  then show ?thesis by (simp add: sanitizeWhatsAppOutput_def model_control_def Let_def)
qed

definition ex_markup_input :: jobject where
  "ex_markup_input = [(js ''text'', JStr [60, 124])]"

theorem group_send_is_approved_unread_witness:
  "(\<exists>s. sendRequests (fst (runGroupTool ex_group_run ex_tool_db ex_group_chat Group_send ex_markup_input)) = [s] \<and> sr_text s = [60, 124]
      \<and> sr_status s = Approved)
    \<and> sanitizeWhatsAppOutput id {} [60, 124] = sanitized.Refused Model_markup"
proof -
  have e: "pendingActions ex_tool_db = []" "sendRequests ex_tool_db = []" by (simp_all add: ex_tool_db_def empty_db_def)
  have t: "z_short send_text_chars (field ex_markup_input ''text'') = Some [60, 124]"
    by (simp add: ex_markup_input_def z_short_def z_text_def send_text_chars_def trim_def trim_start_def trim_end_def is_space_def)
  have n: "field ex_markup_input ''sendAt'' = None" by (simp add: ex_markup_input_def)
  have g: "gr_connects ex_group_run" "\<not> gr_readsFail ex_group_run" "gr_others ex_group_run = (\<lambda>_. id)"
    by (simp_all add: ex_group_run_def)
  have f: "fresh_action_id ex_tool_db u" "\<not> short_id_taken ex_tool_db org s" for u org s
    by (simp_all add: fresh_action_id_def short_id_taken_def e)
  from group_send_is_approved_unread [OF g ex_scope t n f] e(2) gate_refuses_markup show ?thesis by auto
qed

end
