(* ===== verification/ToolQueue.thy ===== *)
theory ToolQueue
  imports GroupToolsProps MediaTools
begin

text \<open>
  What the tools of a reply may do to the send queue: queue a message of their organisation that the assistant's policy approved, under the key
  of the staged action it carries out, or cancel one that is approved or scheduled. Nothing else of either family writes there.
\<close>

inductive tool_queue :: "tool_chat \<Rightarrow> send_row list \<Rightarrow> send_row list \<Rightarrow> bool" for ch Q where
  same: "tool_queue ch Q Q"
| sent: "tool_queue ch Q Q' \<Longrightarrow> sr_organizationId s = ch_organizationId ch \<Longrightarrow> sr_status s \<in> {Approved, Scheduled}
    \<Longrightarrow> sr_approval s = \<lparr>ap_state = Ap_approved, ap_approvedBy = Some Assistant, ap_approvedAt = Some now\<rparr>
    \<Longrightarrow> sr_idempotencyKey s = js ''action:'' @ i \<Longrightarrow> tool_queue ch Q (Q' @ [s])"
| cancelled: "tool_queue ch Q Q'
    \<Longrightarrow> tool_queue ch Q (update_one (\<lambda>s. sr_organizationId s = ch_organizationId ch \<and> sr_id s = i \<and> transition_allowed Cancel (sr_status s))
      (transition_update Cancel now) Q')"

lemma tool_queue_trans: "tool_queue ch Q1 Q2 \<Longrightarrow> tool_queue ch Q Q1 \<Longrightarrow> tool_queue ch Q Q2"
  by (induction rule: tool_queue.induct) (auto intro: tool_queue.intros)

text \<open>No key leaves the queue.\<close>

lemma find_key_None: "find (has_idempotency_key org key) Q = None \<longleftrightarrow> (org, key) \<notin> job_key ` set Q"
  by (auto simp: find_None_iff has_idempotency_key_def job_key_def)

lemma tool_queue_keys: "tool_queue ch Q Q' \<Longrightarrow> job_key ` set Q \<subseteq> job_key ` set Q'"
proof (induction rule: tool_queue.induct)
  case (cancelled Q' i now)
  let ?xs = "update_one (\<lambda>s. sr_organizationId s = ch_organizationId ch \<and> sr_id s = i \<and> transition_allowed Cancel (sr_status s))
    (transition_update Cancel now) Q'"
  have "map job_key ?xs = map job_key Q'"
    by (rule map_update_one) (simp add: job_key_def transition_update_def)
  from arg_cong [OF this, of set] have "job_key ` set ?xs = job_key ` set Q'" by simp
  with cancelled(2) show ?case by simp
qed auto

section \<open>The calls\<close>

lemma queue_after: "tool_queue ch Q (sendRequests (fst f)) \<Longrightarrow> f = (d', r) \<Longrightarrow> tool_queue ch Q (sendRequests d')"
  by simp

lemma createSend_queue:
  assumes "tool_queue ch Q (sendRequests d)" and "ci_organizationId inp = ch_organizationId ch"
    and "ci_decision inp = Some (Assistant, t)" and "ci_idempotencyKey inp = js ''action:'' @ i"
  shows "tool_queue ch Q (sendRequests (fst (createSend d inp now u oid)))"
proof -
  let ?s = "create_candidate inp now u oid"
  have "sr_organizationId ?s = ch_organizationId ch" "sr_idempotencyKey ?s = js ''action:'' @ i" "sr_status ?s \<in> {Approved, Scheduled}"
    "sr_approval ?s = \<lparr>ap_state = Ap_approved, ap_approvedBy = Some Assistant, ap_approvedAt = Some now\<rparr>"
    using assms(2-4) by (simp_all add: create_candidate_def due_status_def Let_def)
  from tool_queue.sent [OF assms(1) this(1,3,4,2)] have "tool_queue ch Q (sendRequests d @ [?s])" .
  with assms(1) show ?thesis
    by (cases "find (has_idempotency_key (ci_organizationId inp) (ci_idempotencyKey inp)) (sendRequests d)")
      (simp_all add: createSend_result)
qed

lemma cancel_queue:
  "tool_queue ch Q (sendRequests d) \<Longrightarrow> tool_queue ch Q (sendRequests (fst (transitionSend d (ch_organizationId ch) i Cancel ip actor now)))"
  by (auto simp: transitionSend_def transition_txn_def Let_def intro: tool_queue.cancelled)

lemma perform_queue:
  assumes "tool_queue ch Q (sendRequests d)" and "pa_organizationId a = ch_organizationId ch"
  shows "tool_queue ch Q (sendRequests (fst (perform env d a)))"
proof -
  have "tool_queue ch Q (sendRequests (fst (perform_cancel env d a)))"
    using assms unfolding perform_cancel_def Let_def
    by (auto split: prod.splits send_transition.splits) (metis fst_conv cancel_queue)+
  moreover have "tool_queue ch Q (sendRequests (fst (perform_send env d a)))"
  proof (cases "sendRequestFor (xe_parse_datetime env) a")
    case (Inr x)
    obtain text' t where x: "x = (text', t)" by (cases x)
    let ?inp = "\<lparr>ci_organizationId = pa_organizationId a, ci_instanceId = pa_instanceId a, ci_groupJid = pa_groupJid a,
      ci_text = text', ci_idempotencyKey = js ''action:'' @ pa_id a, ci_actorIP = xe_ip env, ci_decision = Some (Assistant, t)\<rparr>"
    have "tool_queue ch Q (sendRequests (fst (createSend d ?inp (xe_now env) (xe_uuid env) (xe_oid env))))"
      by (rule createSend_queue [OF assms(1)]) (simp_all add: assms(2))
    then show ?thesis by (auto simp: perform_send_def Inr x split: sum.splits prod.splits)
  qed (use assms(1) in \<open>simp add: perform_send_def\<close>)
  ultimately show ?thesis using assms(1) by (simp add: perform_def Let_def)
qed

lemma claim_leaves_queue: "sendRequests (fst (claim d a ip now)) = sendRequests d"
  by (auto simp: claim_def split: option.splits)

lemma settle_leaves_queue: "sendRequests (fst (settle d a st ip now)) = sendRequests d"
  by (auto simp: settle_def split: option.splits)

lemma decide_leaves_queue: "sendRequests (fst (decideAction d inp now)) = sendRequests d"
  by (simp add: decideAction_def decide_txn_def Let_def split: option.split)

lemma execute_queue:
  assumes "tool_queue ch Q (sendRequests d)" and "pa_organizationId a = ch_organizationId ch"
  shows "tool_queue ch Q (sendRequests (fst (executeAction env d a)))"
proof -
  obtain d1 c where c: "claim d a (xe_ip env) (xe_now env) = (d1, c)" by fastforce
  obtain d2 r where p: "perform env d1 a = (d2, r)" by fastforce
  have q1: "tool_queue ch Q (sendRequests d1)" using claim_leaves_queue [of d a "xe_ip env" "xe_now env"] c assms(1) by simp
  with perform_queue [OF q1 assms(2), of env] p have q2: "tool_queue ch Q (sendRequests d2)" by simp
  have q3: "tool_queue ch Q (sendRequests d3)" if "settle d2 a st (xe_ip env) (xe_now env) = (d3, row)" for st d3 row
    using settle_leaves_queue [of d2 a st "xe_ip env" "xe_now env"] that q2 by simp
  show ?thesis
    using assms(1) q1 q2 q3 by (auto simp: executeAction_def c p split: option.splits sum.splits prod.splits)
qed

lemma decided_organisation: "decideAction d inp now = (d', Decided p) \<Longrightarrow> pa_organizationId p = de_organizationId inp"
  by (auto simp: decideAction_def decide_txn_def found_after_def Let_def decide_update_def find_Some_iff split: option.splits)

lemma stage_leaves_queue: "sendRequests (fst (stageAction d inp now u draws)) = sendRequests d"
proof -
  let ?r = "stage_attempts d inp (stage_base inp now u) now (map draws [0..<short_id_attempts])"
  show ?thesis
    using stage_attempts_cases [of d inp "stage_base inp now u" now "map draws [0..<short_id_attempts]"]
    by (cases "snd ?r") (auto simp: stageAction_def writeAudit_def)
qed

definition quiet_run :: "group_run \<Rightarrow> bool" where
  "quiet_run g \<longleftrightarrow> (\<forall>n d. sendRequests (gr_others g n d) = sendRequests d)"

lemma perform_staged_queue:
  assumes "quiet_run g" "tool_queue ch Q (sendRequests d)"
  shows "tool_queue ch Q (sendRequests (fst (perform_staged g ch name row d)))"
proof -
  obtain d1 v where v: "decideAction (gr_others g 1 d) (policy_decision ch row) (gr_now g) = (d1, v)" by fastforce
  have q1: "tool_queue ch Q (sendRequests d1)"
    using decide_leaves_queue [of "gr_others g 1 d" "policy_decision ch row" "gr_now g"] v assms by (simp add: quiet_run_def del: One_nat_def)
  have "tool_queue ch Q (sendRequests (fst (executeAction env (gr_others g 2 d1) p)))" if "v = Decided p" for p env
  proof (rule execute_queue)
    show "pa_organizationId p = ch_organizationId ch" using decided_organisation [OF v [unfolded that]] by (simp add: policy_decision_def)
    show "tool_queue ch Q (sendRequests (gr_others g 2 d1))" using assms(1) q1 by (simp add: quiet_run_def)
  qed
  with q1 show ?thesis unfolding perform_staged_def v
    by (cases v) (auto split: prod.split sum.split execute_outcome.split intro: queue_after)
qed

lemma stage_queue:
  assumes "quiet_run g" "tool_queue ch Q (sendRequests d)"
  shows "tool_queue ch Q (sendRequests (fst (stageGroupAction g d ch jid name inp)))"
proof (cases "stage_write (gr_parseDate g) (gr_now g) name inp")
  case (Some w)
  obtain d1 r where s: "stageAction d (stage_input_of ch jid name w) (gr_now g) (gr_uuid g) (gr_draws g) = (d1, r)" by fastforce
  have "tool_queue ch Q (sendRequests d1)"
    using stage_leaves_queue [of d "stage_input_of ch jid name w" "gr_now g" "gr_uuid g" "gr_draws g"] s assms(2) by simp
  with perform_staged_queue [OF assms(1) this] show ?thesis by (auto simp: stageGroupAction_def Some s split: sum.splits)
qed (use assms in \<open>simp add: stageGroupAction_def\<close>)

lemma cancelling_queue:
  assumes "quiet_run g" "tool_queue ch Q (sendRequests d)"
  shows "tool_queue ch Q (sendRequests (fst (cancelScheduledSend g d ch inp)))"
proof -
  have "tool_queue ch Q (sendRequests (gr_others g 1 d))" using assms by (simp add: quiet_run_def)
  from cancel_queue [OF this] have "tool_queue ch Q (sendRequests d1)"
    if "transitionSend (gr_others g 1 d) (ch_organizationId ch) i Cancel ip actor now = (d1, r)" for i ip actor now d1 r
    using that by (metis fst_conv)
  with assms(2) show ?thesis
    by (auto simp: cancelScheduledSend_def split: option.splits prod.splits send_transition.splits)
qed

lemma group_call_queue:
  assumes "quiet_run g" "tool_queue ch Q (sendRequests d)"
  shows "tool_queue ch Q (sendRequests (fst (callGroupTool g ch name args d)))"
proof -
  have a: "tool_queue ch Q (sendRequests (fst (group_answer g d ch name inp)))" for inp
    using assms cancelling_queue stage_queue by (auto simp: group_answer_def Let_def split: option.splits)
  have "tool_queue ch Q (sendRequests (fst (runGroupTool g d ch name inp)))" for inp
    using a [of inp] assms(2)
    by (auto simp: runGroupTool_def recordToolCall_def Let_def writeAudit_def split: prod.splits)
  with assms(2) show ?thesis by (auto simp: callGroupTool_def Let_def intro: queue_after split: option.split prod.split)
qed

lemma media_call_queue: "sendRequests (fst (callMediaTool m ch name args d)) = sendRequests d"
  by (auto simp: callMediaTool_def runMediaTool_def recordMediaRead_def Let_def writeAudit_def split: option.splits)

end
