(* ===== verification/ReplyJobProps.thy ===== *)
theory ReplyJobProps
  imports ReplyJob ToolQueue SendQueue
begin

text \<open>
  What the reply callback guarantees: a send is created only for an authorised request and at most one of
  them, beside what its own tools queue or cancel; every send it answers is stored, a lost acknowledgement is answered by the stored send, and an
  answered job is replayed.
\<close>

section \<open>What leaves the send queue alone\<close>

lemma reconcile_sends [simp]: "sendRequests (fst (reconcileAgentReplySend d scope key now)) = sendRequests d"
  by (simp add: reconcileAgentReplySend_def Let_def set_runs_def split: option.split)

lemma renew_sends [simp]: "sendRequests (fst (renewAgentReplyLease d runId token now)) = sendRequests d"
  by (simp add: renewAgentReplyLease_def set_runs_def)

lemma fail_sends [simp]: "sendRequests (failAgentReplyRun digest d runId n token failure now) = sendRequests d"
  by (simp add: failAgentReplyRun_def set_runs_def)

lemma find_and_update_sends: "find_and_update d scope P f = (d', r) \<Longrightarrow> sendRequests d' = sendRequests d"
  by (auto simp: find_and_update_def set_runs_def)

lemma claim_round_sends: "sendRequests (fst (claim_round d scope token oid now)) = sendRequests d"
proof -
  let ?u = "\<lambda>d P f. find_and_update d scope P f"
  obtain d1 x1 where 1: "?u d (expired_left now) (reclaim token now) = (d1, x1)" by fastforce
  obtain d2 x2 where 2: "?u d1 (expired_spent now) (exhaust (js ''lease_exhausted'') now) = (d2, x2)" by fastforce
  obtain d3 x3 where 3: "?u d2 (due_left now) (reclaim token now) = (d3, x3)" by fastforce
  obtain d4 x4 where 4: "?u d3 (due_spent now) (exhaust (js ''attempts_exhausted'') now) = (d4, x4)" by fastforce
  have "sendRequests d1 = sendRequests d" "sendRequests d2 = sendRequests d" "sendRequests d3 = sendRequests d" "sendRequests d4 = sendRequests d"
    using 1 2 3 4 by (simp_all add: find_and_update_sends)
  then show ?thesis by (simp add: claim_round_def 1 2 3 4 split: option.split)
qed

lemma claim_sends [simp]: "sendRequests (fst (claimAgentReplyRun d scope token oid now)) = sendRequests d"
  using claim_round_sends [of d scope token oid now]
  by (cases "claim_round d scope token oid now") (auto simp: claimAgentReplyRun_def split: option.split)

lemma decide_sends [simp]: "sendRequests (fst (decideAction d inp now)) = sendRequests d"
  by (simp add: decideAction_def decide_txn_def Let_def split: option.split)

lemma record_sends [simp]: "sendRequests (recordCall fails d row) = sendRequests d"
  by (simp add: recordCall_def writeAiCall_def)

section \<open>What one delivery adds\<close>

text \<open>A text that may be sent: the answer to a command of a direct chat, or one the output gate passed.\<close>

definition sent_text :: "'e reply_call \<Rightarrow> reply_job \<Rightarrow> jstr \<Rightarrow> jstr \<Rightarrow> bool" where
  "sent_text c job request t \<longleftrightarrow>
     (rj_chatKind job = Chat_user \<and> (\<exists>decision ref r. approvalCommand request = Some (decision, ref) \<and> t = decisionReply decision ref r))
     \<or> (\<exists>system prompt n v links. provider_text (jc_provider c system prompt) n v \<and> sanitizeWhatsAppOutput (jc_nfc c) links v = Sanitized t)"

definition reply_row :: "'e reply_call \<Rightarrow> reply_job \<Rightarrow> jstr \<Rightarrow> send_row \<Rightarrow> bool" where
  "reply_row c job request s \<longleftrightarrow>
     (sr_status s = Approved \<and> sent_text c job request (sr_text s))
     \<or> (sr_status s = Pending_approval \<and> ap_state (sr_approval s) = Ap_pending \<and> sr_text s = human_review_apology)"

definition row_of_job :: "reply_scope \<Rightarrow> jstr \<Rightarrow> send_row \<Rightarrow> bool" where
  "row_of_job scope key s \<longleftrightarrow> reconcile_filter scope key s"

text \<open>A call adds at most one row of its own, to the queue as its tools left it.\<close>

definition after_tools :: "reply_tool list \<Rightarrow> tool_chat \<Rightarrow> send_row list \<Rightarrow> send_row list \<Rightarrow> bool" where
  "after_tools us ch Q Q' \<longleftrightarrow> (if us = [] then Q' = Q else tool_queue ch Q Q')"

lemma after_tools_refl [simp]: "after_tools us ch Q Q"
  by (simp add: after_tools_def tool_queue.same)

lemma after_tools_trans: "after_tools us ch Q Q1 \<Longrightarrow> after_tools us ch Q1 Q2 \<Longrightarrow> after_tools us ch Q Q2"
  by (auto simp: after_tools_def intro: tool_queue_trans split: if_splits)

definition adds_one :: "reply_tool list \<Rightarrow> tool_chat \<Rightarrow> reply_scope \<Rightarrow> jstr \<Rightarrow> (send_row \<Rightarrow> bool) \<Rightarrow> db \<Rightarrow> db \<Rightarrow> bool" where
  "adds_one us ch scope key ok d d' \<longleftrightarrow> (\<exists>Q. after_tools us ch (sendRequests d) Q \<and>
     (sendRequests d' = Q \<or> (\<exists>s. sendRequests d' = Q @ [s] \<and> ok s \<and> row_of_job scope key s
        \<and> find (has_idempotency_key (rs_organizationId scope) key) Q = None)))"

lemma adds_one_same: "sendRequests d' = sendRequests d \<Longrightarrow> adds_one us ch scope key ok d d'"
  by (auto simp: adds_one_def intro: after_tools_refl)

lemma adds_one_cong: "sendRequests d1 = sendRequests d \<Longrightarrow> sendRequests d2 = sendRequests d' \<Longrightarrow> adds_one us ch scope key ok d d' \<Longrightarrow> adds_one us ch scope key ok d1 d2"
  by (simp add: adds_one_def)

lemma adds_one_after:
  "after_tools us ch (sendRequests d) (sendRequests d1) \<Longrightarrow> adds_one us ch scope key ok d1 d' \<Longrightarrow> adds_one us ch scope key ok d d'"
  unfolding adds_one_def by (elim exE conjE) (blast intro: after_tools_trans)

lemma completion_adds:
  assumes "ok c" and "row_of_job scope (sr_idempotencyKey c) c"
  shows "adds_one us ch scope (sr_idempotencyKey c) ok d (fst (under_fault fault d (completeUnderLease d i t wa c bs fs e m now)))"
proof -
  have org: "sr_organizationId c = rs_organizationId scope"
    using assms(2) by (simp add: row_of_job_def reconcile_filter_def same_job_send_def)
  have "adds_one us ch scope (sr_idempotencyKey c) ok d (fst (completeUnderLease d i t wa c bs fs e m now))"
    using assms by (auto simp: completeUnderLease_result Let_def adds_one_def org intro: after_tools_refl)
  then show ?thesis by (cases fault) (simp_all add: under_fault_def adds_one_same)
qed

definition quiet_use :: "reply_tool \<Rightarrow> bool" where
  "quiet_use u \<longleftrightarrow> (case u of Group_use g _ _ \<Rightarrow> quiet_run g | Media_use _ _ _ \<Rightarrow> True)"

definition frames_sends :: "'e reply_call \<Rightarrow> bool" where
  "frames_sends c \<longleftrightarrow> (\<forall>n d. sendRequests (jc_others c n d) = sendRequests d)"

lemma framed [simp]: "frames_sends c \<Longrightarrow> sendRequests (jc_others c n d) = sendRequests d"
  by (simp add: frames_sends_def)

lemma use_tools_queue:
  assumes "\<And>n x. sendRequests (others n x) = sendRequests x"
  shows "list_all quiet_use us \<Longrightarrow> tool_queue ch Q (sendRequests d) \<Longrightarrow> tool_queue ch Q (sendRequests (use_tools others ch n us d))"
proof (induction us arbitrary: n d)
  case (Cons u us)
  have "tool_queue ch Q (sendRequests (use_tool ch u (others n d)))"
    using Cons.prems assms by (auto simp: use_tool_def quiet_use_def media_call_queue intro: group_call_queue split: reply_tool.splits)
  then show ?case using Cons by simp
qed simp

definition quiet_call :: "'e reply_call \<Rightarrow> bool" where
  "quiet_call c \<longleftrightarrow> frames_sends c \<and> list_all quiet_use (jc_toolCalls c)"

lemma quiet_frames: "quiet_call c \<Longrightarrow> frames_sends c"
  by (simp add: quiet_call_def)

lemma tools_queue: "quiet_call c \<Longrightarrow> after_tools (tool_calls c) ch (sendRequests d) (sendRequests (use_tools (jc_others c) ch n (tool_calls c) d))"
  unfolding after_tools_def
  by (auto simp: quiet_call_def frames_sends_def tool_calls_def intro!: use_tools_queue tool_queue.same)

lemma run_failed_sends [simp]: "frames_sends c \<Longrightarrow> sendRequests (run_failed c run f n d) = sendRequests d"
  by (simp add: run_failed_def)

lemma settle_sends [simp]: "frames_sends c \<Longrightarrow> sendRequests (fst (settle_completion c scope key run created r)) = sendRequests (fst r)"
proof -
  assume c: "frames_sends c"
  have "reconcileAgentReplySend (jc_others c 10 (fst r)) scope key (jc_clock c 10) = (d2, x) \<Longrightarrow> sendRequests d2 = sendRequests (fst r)" for d2 x
    using reconcile_sends [of "jc_others c 10 (fst r)" scope key "jc_clock c 10"] c by simp
  then show ?thesis using c by (auto simp: settle_completion_def split: sum.split lease_result.split prod.split option.split)
qed

lemma send_adds:
  assumes "frames_sends c" and "sent_text c job request text"
  shows "adds_one us ch (rj_scope job) key (reply_row c job request) d (fst (completeWithSend c job key run text memory d))"
proof -
  let ?c = "automatic_candidate (completion_input c job key run text memory) (jc_clock c 9) (jc_uuid c) (jc_sendOid c)"
  have "reply_row c job request ?c" "row_of_job (rj_scope job) key ?c" "sr_idempotencyKey ?c = key"
    using assms(2) by (simp_all add: reply_row_def row_of_job_def reconcile_filter_def same_job_send_def automatic_candidate_def completion_input_def Let_def)
  note base = completion_adds [of "reply_row c job request" ?c "rj_scope job", unfolded this(3), OF this(1,2)]
  show ?thesis unfolding completeWithSend_def Let_def createAutomaticSendUnderRunLease_def
    by (rule adds_one_cong [OF _ _ base]) (use assms in simp_all)
qed

lemma review_adds:
  assumes "frames_sends c"
  shows "adds_one us ch (rj_scope job) key (reply_row c job request) d (fst (queue_review c job key run code d))"
proof -
  let ?c = "human_review_candidate (review_input c job key run code) (jc_clock c 9) (jc_uuid c) (jc_sendOid c)"
  have "reply_row c job request ?c" "row_of_job (rj_scope job) key ?c" "sr_idempotencyKey ?c = key"
    by (simp_all add: reply_row_def row_of_job_def reconcile_filter_def same_job_send_def human_review_candidate_def review_input_def Let_def)
  note base = completion_adds [of "reply_row c job request" ?c "rj_scope job", unfolded this(3), OF this(1,2)]
  show ?thesis unfolding queue_review_def Let_def createHumanReviewSendUnderRunLease_def
    by (rule adds_one_cong [OF _ _ base]) (use assms in simp_all)
qed

section \<open>What the route adds\<close>

lemma generate_answer_text:
  "generate_answer c p = Inr (Generated r) \<Longrightarrow> sent_text c job request (gn_text r)"
  unfolding sent_text_def generate_answer_def
  by (auto split: option.splits dest!: generated_reply_passed_gate)

lemma deliver_adds:
  assumes "frames_sends c" and "g = generate_answer c p"
  shows "adds_one us ch (rj_scope job) key (reply_row c job request) d (fst (deliver c job key run p g d))"
proof (cases g)
  case (Inr x)
  show ?thesis
  proof (cases x)
    case (Generated r)
    have "sent_text c job request (gn_text r)" using assms(2) Inr Generated generate_answer_text by metis
    from send_adds [OF assms(1) this] show ?thesis by (simp add: deliver_def Inr Generated adds_one_same)
  next
    case (Rejected_output code)
    show ?thesis using review_adds [OF assms(1)] by (simp add: deliver_def Inr Rejected_output adds_one_same)
  qed
qed (use assms(1) in \<open>simp_all add: deliver_def adds_one_same\<close>)

lemma renewed_sends: "renewAgentReplyLease d i t n = (d', r) \<Longrightarrow> sendRequests d' = sendRequests d"
  by (metis fst_conv renew_sends)

lemma model_adds:
  assumes c: "quiet_call c"
  shows "adds_one (tool_calls c) (job_chat job jids) (rj_scope job) key (reply_row c job request) d (fst (answer_with_model c job key run jids request' context d))"
proof -
  let ?ch = "job_chat job jids"
  note f = quiet_frames [OF c]
  have step: "adds_one (tool_calls c) ?ch (rj_scope job) key (reply_row c job request) d
      (fst (deliver c job key run p (generate_answer c p) (recordCall b (jc_others c 15 (use_tools (jc_others c) ?ch 20 (tool_calls c) d3)) row)))"
    if "sendRequests d3 = sendRequests d" for b p d3 row
    by (rule adds_one_after [OF _ deliver_adds [OF f refl]]) (use tools_queue [OF c, of ?ch d3] f that in simp)
  show ?thesis
    unfolding answer_with_model_def Let_def
    by (auto simp: f intro!: adds_one_same step dest!: renewed_sends split: option.split prod.split assemble_result.split)
qed

lemma claimed_adds:
  assumes q: "quiet_call c"
  shows "adds_one (tool_calls c) (job_chat job jids) (rj_scope job) key (reply_row c job request) d (fst (answer_claimed c job key jids owner request context run d))"
proof -
  note c = quiet_frames [OF q]
  show ?thesis
  proof (cases "if rj_chatKind job = Chat_user then approvalCommand request else None")
    case None
    then show ?thesis using model_adds [OF q] by (simp add: answer_claimed_def)
  next
    case (Some x)
    obtain decision ref where x: "x = (decision, ref)" by (cases x)
    let ?inp = "\<lparr>de_organizationId = rs_organizationId (rj_scope job), de_ref = By_short_id ref, de_decision = decision,
      de_decidedBy = owner, de_ip = js ''worker''\<rparr>"
    obtain d1 r where d1: "decideAction (jc_others c 8 d) ?inp (jc_clock c 8) = (d1, r)" by fastforce
    have "sendRequests d1 = sendRequests d" using decide_sends [of "jc_others c 8 d" ?inp "jc_clock c 8"] c by (simp add: d1)
    moreover have "sent_text c job request (decisionReply decision ref r)"
      using Some x by (auto simp: sent_text_def split: if_splits)
    ultimately show ?thesis
      using adds_one_cong [OF _ refl send_adds [OF c, of job request "decisionReply decision ref r" "tool_calls c" "job_chat job jids" key d1 run "([], [])"]]
      by (simp add: answer_claimed_def Some x d1)
  qed
qed

lemma claim_and_answer_adds:
  assumes q: "quiet_call c"
  shows "adds_one (tool_calls c) (job_chat job jids) (rj_scope job) key (reply_row c job request) d (fst (claim_and_answer c job key jids owner request context d))"
proof -
  note c = quiet_frames [OF q]
  let ?scope = "rj_scope job"
  obtain d1 s1 where 1: "reconcileAgentReplySend (jc_others c 5 d) ?scope key (jc_clock c 5) = (d1, s1)" by fastforce
  obtain d2 k where 2: "claimAgentReplyRun (jc_others c 6 d1) ?scope (jc_token c) (jc_runOid c) (jc_clock c 6) = (d2, k)" by fastforce
  obtain d3 s3 where 3: "reconcileAgentReplySend (jc_others c 7 d2) ?scope key (jc_clock c 7) = (d3, s3)" by fastforce
  have d1: "sendRequests d1 = sendRequests d" using reconcile_sends [of "jc_others c 5 d"] c 1 by (metis fst_conv framed)
  then have d2: "sendRequests d2 = sendRequests d" using claim_sends [of "jc_others c 6 d1"] c 2 by (metis fst_conv framed)
  then have d3: "sendRequests d3 = sendRequests d" using reconcile_sends [of "jc_others c 7 d2"] c 3 by (metis fst_conv framed)
  have "adds_one (tool_calls c) (job_chat job jids) ?scope key (reply_row c job request) d (fst (answer_claimed c job key jids owner request context run d2))" for run
    using claimed_adds [OF q] d2 by (metis adds_one_cong)
  with d1 d2 d3 show ?thesis
    by (auto simp: claim_and_answer_def 1 2 3 adds_one_same split: option.split reply_claim.split)
qed

text \<open>C17: The callback sends nothing that was not asked for by somebody entitled to ask. If a call changed the send
  queue, it carried the callback secret and a well-formed job; the organisation has an owner list and the author of
  the named message is on it; a group is assigned and whitelisted. The change is then made of two parts. First, what the
  call's own tools did, when it called any: they are bound to the job's chat and its owners, and each only queued a message of that
  organisation under the assistant's policy approval and a staged action's key, or cancelled one of that organisation that was still
  waiting. Second, at most one row of the call itself, under the job's own key that no row had, addressed to the job's own chat and naming the message it
  answers: either approved with a text that answers a decision command or passed the output gate, or the fixed apology
  waiting for the owner's approval. The conditions hold in the states the call read them from; the other callers, also those
  that run during a tool call, may change everything but the send queue meanwhile.\<close>

theorem reply_sends_only_when_authorised:
  assumes "\<And>n x. sendRequests (jc_others c n x) = sendRequests x" and "list_all quiet_use (jc_toolCalls c)"
    and "postReplyJob c d = (d', answer)" and "sendRequests d' \<noteq> sendRequests d"
  shows "sameSecret (jc_authorization c) (jc_secret c) \<and> (\<exists>job owner request key Q.
    Option.bind (jc_body c) validJob = Some job
    \<and> (let scope = rj_scope job; d0 = jc_others c 0 d; d1 = jc_others c 1 d0; d2 = jc_others c 2 d1;
           jids = authorized_jids (jc_country c) d0 (rs_organizationId scope)
       in owner \<in> set jids \<and> authorized_request (jc_country c) jids (request_message d2 scope) = Some (owner, request)
          \<and> (rj_chatKind job = Chat_group \<longrightarrow> group_eligible d1 scope)
          \<and> agentReplyIdempotencyKey scope = Some key
          \<and> (if tool_calls c = [] then Q = sendRequests d else tool_queue (job_chat job jids) (sendRequests d) Q)
          \<and> (sendRequests d' = Q
             \<or> (\<exists>s. sendRequests d' = Q @ [s] \<and> reconcile_filter scope key s \<and> reply_row c job request s
                  \<and> find (has_idempotency_key (rs_organizationId scope) key) Q = None))))"
proof -
  have q: "quiet_call c" using assms(1,2) by (simp add: quiet_call_def frames_sends_def)
  note c = quiet_frames [OF q]
  note post = assms(3) [unfolded postReplyJob_def]
  from post assms(4) obtain job where job: "sameSecret (jc_authorization c) (jc_secret c)" "Option.bind (jc_body c) validJob = Some job"
    "handle_job c job d = (d', answer)" by (auto split: if_splits option.splits)
  define scope where "scope = rj_scope job"
  define d0 where "d0 = jc_others c 0 d"
  define d1 where "d1 = jc_others c 1 d0"
  define d2 where "d2 = jc_others c 2 d1"
  define jids where "jids = authorized_jids (jc_country c) d0 (rs_organizationId scope)"
  note handled = job(3) [unfolded handle_job_def Let_def, folded scope_def d0_def, folded d1_def, folded d2_def jids_def]
  have same: "sendRequests d0 = sendRequests d" "sendRequests d1 = sendRequests d" "sendRequests d2 = sendRequests d"
    "sendRequests (jc_others c 4 (jc_others c 3 d2)) = sendRequests d" by (simp_all add: d0_def d1_def d2_def c)
  from handled assms(4) same obtain owner request key ctx where req: "authorized_request (jc_country c) jids (request_message d2 scope) = Some (owner, request)"
    "rj_chatKind job = Chat_group \<longrightarrow> group_eligible d1 scope" "agentReplyIdempotencyKey scope = Some key"
    "claim_and_answer c job key jids owner request ctx (jc_others c 4 (jc_others c 3 d2)) = (d', answer)"
    by (auto split: if_splits option.splits)
  have owner: "owner \<in> set jids" using req(1) by (auto simp: authorized_request_def Let_def split: option.splits if_splits)
  have "adds_one (tool_calls c) (job_chat job jids) scope key (reply_row c job request) d d'"
    using claim_and_answer_adds [OF q, of job jids key request "jc_others c 4 (jc_others c 3 d2)" owner ctx] req(4) same(4)
    by (simp add: adds_one_def scope_def)
  then obtain Q where Q: "after_tools (tool_calls c) (job_chat job jids) (sendRequests d) Q"
    "sendRequests d' = Q \<or> (\<exists>s. sendRequests d' = Q @ [s] \<and> reply_row c job request s \<and> reconcile_filter scope key s
        \<and> find (has_idempotency_key (rs_organizationId scope) key) Q = None)" by (auto simp: adds_one_def row_of_job_def)
  show ?thesis unfolding Let_def
    by (intro conjI exI [where x = job] exI [where x = owner] exI [where x = request] exI [where x = key] exI [where x = Q])
      (use job(1,2) req(1-3) owner Q [unfolded after_tools_def] in \<open>auto simp add: scope_def d0_def d1_def d2_def jids_def\<close>)
qed

section \<open>What the route answers is stored\<close>

definition answered_send :: "reply_answer \<Rightarrow> send_row option" where
  "answered_send a = (case a of Replayed s \<Rightarrow> Some s | Reply_created s \<Rightarrow> Some s | Under_review s \<Rightarrow> Some s | _ \<Rightarrow> None)"

definition stored_answer :: "reply_scope \<Rightarrow> jstr \<Rightarrow> db \<times> reply_answer \<Rightarrow> bool" where
  "stored_answer scope key r \<longleftrightarrow> (\<forall>s. answered_send (snd r) = Some s \<longrightarrow> find (reconcile_filter scope key) (sendRequests (fst r)) = Some s)"

lemma stored_none [simp]:
  "stored_answer scope key (d, Reply_refused n m)" "stored_answer scope key (d, Reply_thrown)" "stored_answer scope key (d, Reply_accepted)"
  "stored_answer scope key (d, generation_failed)"
  by (simp_all add: stored_answer_def answered_send_def generation_failed_def)

lemma reconciled_stored: "reconcileAgentReplySend d scope key now = (d', Some s) \<Longrightarrow> stored_answer scope key (d', Replayed s)"
  by (auto simp: reconcileAgentReplySend_def stored_answer_def answered_send_def Let_def split: option.splits)

lemma settled_stored:
  assumes "\<And>s. snd r = Inr (Completed s) \<Longrightarrow> stored_answer scope key (fst r, created s)"
  shows "stored_answer scope key (settle_completion c scope key run created r)"
  using assms
  by (auto simp: settle_completion_def Let_def dest: reconciled_stored split: sum.split lease_result.split prod.split option.split)

lemma completion_stored:
  assumes "snd (under_fault fault d (completeUnderLease d i t wa c bs fs e m now)) = Inr (Completed s)" and "reconcile_filter scope key c"
    and "answered_send (created s) = Some s"
  shows "stored_answer scope key (fst (under_fault fault d (completeUnderLease d i t wa c bs fs e m now)), created s)"
proof -
  obtain d' x where x: "completeUnderLease d i t wa c bs fs e m now = (d', x)" by fastforce
  from assms(1) have "fault = No_fault" "x = Inr (Completed s)" by (cases fault; simp add: under_fault_def x)+
  with completed_under_lease [of d i t wa c bs fs e m now d' s] x assms(2,3)
  have "s = c" "sendRequests d' = sendRequests d @ [c]" "find (has_idempotency_key (rs_organizationId scope) key) (sendRequests d) = None"
    by (auto simp: reconcile_filter_def same_job_send_def)
  with assms(2,3) x \<open>fault = No_fault\<close> show ?thesis by (simp add: stored_answer_def under_fault_def reconcile_finds_answer)
qed

lemma send_stored: "stored_answer (rj_scope job) key (completeWithSend c job key run text memory d)"
  unfolding completeWithSend_def Let_def createAutomaticSendUnderRunLease_def
  by (rule settled_stored, rule completion_stored)
    (simp_all add: answered_send_def reconcile_filter_def same_job_send_def automatic_candidate_def completion_input_def Let_def)

lemma review_stored: "stored_answer (rj_scope job) key (queue_review c job key run code d)"
  unfolding queue_review_def Let_def createHumanReviewSendUnderRunLease_def
  by (rule settled_stored, rule completion_stored)
    (simp_all add: answered_send_def reconcile_filter_def same_job_send_def human_review_candidate_def review_input_def Let_def)

lemma deliver_stored: "stored_answer (rj_scope job) key (deliver c job key run p g d)"
  by (auto simp: deliver_def send_stored review_stored split: sum.split reply_generation.split)

lemma claimed_stored: "stored_answer (rj_scope job) key (answer_claimed c job key jids owner request ctx run d)"
  by (auto simp: answer_claimed_def answer_with_model_def Let_def send_stored deliver_stored
      split: option.split prod.split assemble_result.split)

text \<open>Every send the callback answers with exists. Whatever the other callers write in between and however the
  transaction's acknowledgement was lost, a 201 or 200 answer carries a send that is in the send queue at the end,
  has the job's own key and chat, and names the message it answers; it is the very row a replay of the job will find.\<close>

lemma answered_send_is_stored:
  assumes "postReplyJob c d = (d', answer)" and "answered_send answer = Some s"
  shows "\<exists>job key. Option.bind (jc_body c) validJob = Some job \<and> agentReplyIdempotencyKey (rj_scope job) = Some key
    \<and> find (reconcile_filter (rj_scope job) key) (sendRequests d') = Some s"
proof -
  have no: "answered_send (Reply_refused n m) = None" "answered_send Reply_thrown = None" for n m by (simp_all add: answered_send_def)
  from assms no obtain job where job: "Option.bind (jc_body c) validJob = Some job" "handle_job c job d = (d', answer)"
    by (auto simp: postReplyJob_def split: if_splits option.splits)
  from job(2) assms(2) no obtain owner request key ctx x jids where k: "agentReplyIdempotencyKey (rj_scope job) = Some key"
    "claim_and_answer c job key jids owner request ctx x = (d', answer)"
    by (auto simp: handle_job_def Let_def split: if_splits option.splits)
  have "stored_answer (rj_scope job) key (claim_and_answer c job key jids owner request ctx x)"
    by (auto simp: claim_and_answer_def Let_def claimed_stored dest: reconciled_stored split: option.split prod.split reply_claim.split)
  with k assms(2) job(1) show ?thesis by (auto simp: stored_answer_def)
qed

section \<open>Replays\<close>

lemma reconcile_first:
  assumes "find (reconcile_filter scope key) (sendRequests d) = Some s"
  shows "snd (reconcileAgentReplySend d scope key now) = Some s"
  using assms by (simp add: reconcileAgentReplySend_def Let_def set_runs_def)

definition refusal :: "reply_answer \<Rightarrow> bool" where
  "refusal a \<longleftrightarrow> (\<exists>n m. a = Reply_refused n m \<and> n \<in> {401, 404, 409, 503})"

lemma claim_and_answer_replays:
  assumes "frames_sends c" and "sendRequests d = sends" and "find (reconcile_filter (rj_scope job) key) sends = Some s"
  shows "\<exists>d'. claim_and_answer c job key jids owner request ctx d = (d', Replayed s) \<and> sendRequests d' = sends
    \<and> claim_and_answer (c\<lparr>jc_provider := anything, jc_toolCalls := uses\<rparr>) job key jids owner request ctx d = (d', Replayed s)"
proof -
  have "find (reconcile_filter (rj_scope job) key) (sendRequests (jc_others c 5 d)) = Some s" using assms by simp
  then obtain d' where d': "reconcileAgentReplySend (jc_others c 5 d) (rj_scope job) key (jc_clock c 5) = (d', Some s)"
    using reconcile_first by (metis surj_pair snd_conv)
  moreover have "sendRequests d' = sends"
    using reconcile_sends [of "jc_others c 5 d" "rj_scope job" key "jc_clock c 5"] assms(1,2) by (simp add: d')
  ultimately show ?thesis by (simp add: claim_and_answer_def)
qed

lemma handle_job_replays:
  assumes c: "frames_sends c" and key: "agentReplyIdempotencyKey (rj_scope job) = Some key"
    and found: "find (reconcile_filter (rj_scope job) key) (sendRequests d) = Some s"
  shows "(snd (handle_job c job d) = Replayed s \<or> refusal (snd (handle_job c job d)))
    \<and> sendRequests (fst (handle_job c job d)) = sendRequests d \<and> handle_job (c\<lparr>jc_provider := anything, jc_toolCalls := uses\<rparr>) job d = handle_job c job d"
proof -
  define d0 where "d0 = jc_others c 0 d"
  define d1 where "d1 = jc_others c 1 d0"
  define d2 where "d2 = jc_others c 2 d1"
  define d3 where "d3 = jc_others c 3 d2"
  define d4 where "d4 = jc_others c 4 d3"
  note states = d0_def [symmetric] d1_def [symmetric] d2_def [symmetric] d3_def [symmetric] d4_def [symmetric]
  have same: "sendRequests d0 = sendRequests d" "sendRequests d1 = sendRequests d" "sendRequests d2 = sendRequests d"
    "sendRequests d4 = sendRequests d" using c by (simp_all add: d0_def d1_def d2_def d3_def d4_def)
  let ?req = "authorized_request (jc_country c) (authorized_jids (jc_country c) d0 (rs_organizationId (rj_scope job))) (request_message d2 (rj_scope job))"
  show ?thesis
  proof (cases ?req)
    case (Some r)
    obtain owner request where r: "r = (owner, request)" by (cases r)
    let ?ctx = "contextMessages (rs_groupJid (rj_scope job)) (chat_history d3 (rj_scope job)) (chat_sent d4 (rj_scope job))"
    from claim_and_answer_replays [OF c same(4) found, where jids = "authorized_jids (jc_country c) d0 (rs_organizationId (rj_scope job))" and owner = owner and request = request and ctx = ?ctx and anything = anything and uses = uses] obtain d' where
      "claim_and_answer c job key (authorized_jids (jc_country c) d0 (rs_organizationId (rj_scope job))) owner request ?ctx d4 = (d', Replayed s)" "sendRequests d' = sendRequests d"
      "claim_and_answer (c\<lparr>jc_provider := anything, jc_toolCalls := uses\<rparr>) job key (authorized_jids (jc_country c) d0 (rs_organizationId (rj_scope job))) owner request ?ctx d4 = (d', Replayed s)" by blast
    then show ?thesis by (simp add: handle_job_def Let_def states refusal_def Some r key same del: One_nat_def)
  qed (simp add: handle_job_def Let_def states refusal_def same del: One_nat_def)
qed

text \<open>The same send at two times: what it is never changes, only how far its delivery has come.\<close>

definition same_send :: "send_row \<Rightarrow> send_row \<Rightarrow> bool" where
  "same_send s t \<longleftrightarrow> sr_oid t = sr_oid s \<and> sr_id t = sr_id s \<and> sr_organizationId t = sr_organizationId s \<and> sr_instanceId t = sr_instanceId s
     \<and> sr_groupJid t = sr_groupJid s \<and> sr_chatKind t = sr_chatKind s \<and> sr_text t = sr_text s \<and> sr_idempotencyKey t = sr_idempotencyKey s
     \<and> sr_provenance t = sr_provenance s \<and> sr_createdAt t = sr_createdAt s"

lemma same_send_refl [simp]: "same_send s s"
  by (simp add: same_send_def)

lemma same_send_trans: "same_send r s \<Longrightarrow> same_send s t \<Longrightarrow> same_send r t"
  by (simp add: same_send_def)

lemma reconcile_same: "same_send s t \<Longrightarrow> reconcile_filter scope key t = reconcile_filter scope key s"
  by (simp add: reconcile_filter_def same_job_send_def same_send_def)

lemma updates_keep_send [simp]:
  "same_send s (approve_update b t now s)" "same_send s (transition_update action now s)" "same_send s (dispatch_claim w now s)"
  "same_send s (mark_sent m now s)" "same_send s (mark_failed cls message now s)"
  by (simp_all add: same_send_def approve_update_def transition_update_def dispatch_claim_def mark_sent_def mark_failed_def)

lemma find_written_send:
  assumes "\<And>x. same_send x (f x)" and "find (reconcile_filter scope key) xs = Some s"
  shows "\<exists>t. find (reconcile_filter scope key) (update_one P f xs) = Some t \<and> same_send s t"
  using assms(2) by (induction xs) (auto simp: reconcile_same [OF assms(1)] assms(1) split: if_splits)

text \<open>Any writer of the queue, or one that leaves it alone.\<close>

definition send_step :: "db \<Rightarrow> db \<Rightarrow> bool" where
  "send_step d d' \<longleftrightarrow> send_write d d' \<or> sendRequests d' = sendRequests d"

lemma find_appended: "find P (sendRequests d) = Some s \<Longrightarrow> \<exists>rows. sendRequests d' = sendRequests d @ rows \<Longrightarrow> find P (sendRequests d') = Some s"
  by (auto simp: find_append)

lemma send_write_keeps:
  assumes "send_write d d'" and "find (reconcile_filter scope key) (sendRequests d) = Some s"
  shows "\<exists>t. find (reconcile_filter scope key) (sendRequests d') = Some t \<and> same_send s t"
  using assms
proof (induction rule: send_write.induct)
  case (create d u inp now oid)
  then show ?case by (meson find_appended createSend_appends same_send_refl)
next
  case (automatic d u auto now oid)
  then show ?case unfolding createAutomaticSendUnderRunLease_def by (meson find_appended completeUnderLease_appends same_send_refl)
next
  case (review d u hr now oid)
  then show ?case unfolding createHumanReviewSendUnderRunLease_def by (meson find_appended completeUnderLease_appends same_send_refl)
qed (simp_all add: approve_txn_sends transition_txn_sends find_written_send)

lemma send_steps_keep:
  assumes "send_step\<^sup>*\<^sup>* d d'" and "find (reconcile_filter scope key) (sendRequests d) = Some s"
  shows "\<exists>t. find (reconcile_filter scope key) (sendRequests d') = Some t \<and> same_send s t"
  using assms
proof (induction rule: rtranclp_induct)
  case (step y z)
  then obtain t where t: "find (reconcile_filter scope key) (sendRequests y) = Some t" "same_send s t" by blast
  from step.hyps(2) t(1) have "\<exists>r. find (reconcile_filter scope key) (sendRequests z) = Some r \<and> same_send t r"
    by (auto simp: send_step_def dest: send_write_keeps)
  with t(2) show ?case by (blast intro: same_send_trans)
qed simp

text \<open>C18: An answered job is never answered twice. In any later state, after any number of writes to the send queue
  by the server or the dispatcher, so also when the owner has decided that send or the dispatcher has delivered it, and any
  changes elsewhere, another delivery of the same job is either refused at the door, because the secret, the owner list, the
  group or the source message has been withdrawn, or replays that very send as it stands now: the same row, key, chat, text
  and provenance. It leaves the queue as it was, and the result is the same for every model provider and whatever
  tools would be called, because none is asked.\<close>

theorem answered_job_is_replayed:
  assumes "postReplyJob c d = (d', answer)" and "answered_send answer = Some s"
    and "send_step\<^sup>*\<^sup>* d' later"
    and "jc_body again = jc_body c" and "\<And>n x. sendRequests (jc_others again n x) = sendRequests x"
    and "postReplyJob again later = (after, answer')"
  shows "((\<exists>t. same_send s t \<and> t \<in> set (sendRequests later) \<and> answer' = Replayed t) \<or> refusal answer') \<and> sendRequests after = sendRequests later
    \<and> postReplyJob (again\<lparr>jc_provider := anything, jc_toolCalls := uses\<rparr>) later = (after, answer')"
proof -
  obtain job key where job: "Option.bind (jc_body c) validJob = Some job" "agentReplyIdempotencyKey (rj_scope job) = Some key"
    "find (reconcile_filter (rj_scope job) key) (sendRequests d') = Some s" using answered_send_is_stored [OF assms(1,2)] by blast
  have frame: "frames_sends again" using assms(5) by (simp add: frames_sends_def)
  obtain t where t: "find (reconcile_filter (rj_scope job) key) (sendRequests later) = Some t" "same_send s t"
    using send_steps_keep [OF assms(3) job(3)] by blast
  then have "t \<in> set (sendRequests later)" by (auto dest: find_Some_in)
  with handle_job_replays [OF frame job(2) t(1), where anything = anything and uses = uses] assms(6) assms(4) job(1) t(2) show ?thesis
    by (auto simp: postReplyJob_def refusal_def split: if_splits option.splits)
qed

section \<open>A lost acknowledgement\<close>

definition new_send :: "reply_answer \<Rightarrow> send_row \<Rightarrow> bool" where
  "new_send a s \<longleftrightarrow> a = Reply_created s \<or> a = Under_review s"

definition replayed_as :: "send_row \<Rightarrow> db \<times> reply_answer \<Rightarrow> db \<times> reply_answer \<Rightarrow> bool" where
  "replayed_as s r r' \<longleftrightarrow> (new_send (snd r) s \<longrightarrow> snd r' = Replayed s \<and> sendRequests (fst r') = sendRequests (fst r))"

lemma replayed_as_refl [simp]: "\<not> new_send (snd r) s \<Longrightarrow> replayed_as s r r'"
  by (simp add: replayed_as_def)

lemma not_new [simp]: "\<not> new_send (Reply_refused n m) s" "\<not> new_send Reply_thrown s" "\<not> new_send (Replayed x) s"
  "\<not> new_send Reply_accepted s" "\<not> new_send generation_failed s"
  by (simp_all add: new_send_def generation_failed_def)

definition lose_ack :: "'e reply_call \<Rightarrow> 'e reply_call" where
  "lose_ack c = c\<lparr>jc_fault := Lost_ack\<rparr>"

lemma lose_ack_same [simp]:
  "jc_others (lose_ack c) = jc_others c" "jc_clock (lose_ack c) = jc_clock c" "jc_token (lose_ack c) = jc_token c"
  "jc_uuid (lose_ack c) = jc_uuid c" "jc_sendOid (lose_ack c) = jc_sendOid c" "jc_runOid (lose_ack c) = jc_runOid c"
  "jc_ai (lose_ack c) = jc_ai c" "jc_registry (lose_ack c) = jc_registry c" "jc_recall (lose_ack c) = jc_recall c"
  "jc_prompt (lose_ack c) = jc_prompt c" "jc_leaseLost (lose_ack c) = jc_leaseLost c" "jc_recordFails (lose_ack c) = jc_recordFails c"
  "jc_country (lose_ack c) = jc_country c" "jc_body (lose_ack c) = jc_body c" "jc_secret (lose_ack c) = jc_secret c"
  "jc_authorization (lose_ack c) = jc_authorization c" "jc_fault (lose_ack c) = Lost_ack"
  "jc_digest (lose_ack c) = jc_digest c" "jc_connect (lose_ack c) = jc_connect c" "jc_provider (lose_ack c) = jc_provider c"
  "jc_toolCalls (lose_ack c) = jc_toolCalls c" "jc_nfc (lose_ack c) = jc_nfc c" "jc_toolLinks (lose_ack c) = jc_toolLinks c" "jc_error (lose_ack c) = jc_error c"
  by (simp_all add: lose_ack_def)

lemma lose_ack_parts [simp]:
  "run_failed (lose_ack c) = run_failed c" "completion_input (lose_ack c) = completion_input c" "review_input (lose_ack c) = review_input c"
  "generate_answer (lose_ack c) = generate_answer c" "tool_calls (lose_ack c) = tool_calls c" "model_call (lose_ack c) = model_call c" "generation_failure (lose_ack c) = generation_failure c"
  by (simp_all add: fun_eq_iff tool_calls_def run_failed_def completion_input_def review_input_def generate_answer_def model_call_def generation_failure_def
      cong: option.case_cong sum.case_cong reply_generation.case_cong generation_error.case_cong)

lemma settle_new:
  assumes "new_send (snd (settle_completion c scope key run created r)) s"
  shows "\<exists>x. snd r = Inr (Completed x) \<and> settle_completion c scope key run created r = (fst r, created x)"
  using assms by (auto simp: settle_completion_def Let_def split: sum.splits lease_result.splits prod.splits option.splits if_splits)

lemma settle_lost_ack:
  assumes "sendRequests (jc_others c 10 (fst r)) = sendRequests (fst r)" and "snd r = Inl e"
    and "find (reconcile_filter scope key) (sendRequests (fst r)) = Some s"
  shows "snd (settle_completion c scope key run created r) = Replayed s \<and> sendRequests (fst (settle_completion c scope key run created r)) = sendRequests (fst r)"
proof -
  obtain d x where d: "reconcileAgentReplySend (jc_others c 10 (fst r)) scope key (jc_clock c 10) = (d, x)" by fastforce
  moreover have "x = Some s" using reconcile_first [of scope key "jc_others c 10 (fst r)" s "jc_clock c 10"] assms(1,3) d by simp
  moreover have "sendRequests d = sendRequests (fst r)"
    using reconcile_sends [of "jc_others c 10 (fst r)" scope key "jc_clock c 10"] assms(1) d by simp
  ultimately show ?thesis using assms(2) by (simp add: settle_completion_def)
qed

lemma completion_lost_ack:
  assumes c: "jc_fault c = No_fault" "\<And>x. sendRequests (jc_others c 10 x) = sendRequests x"
    and filt: "reconcile_filter scope key cand" and created: "\<And>x. new_send (created x) s \<Longrightarrow> x = s"
    and r: "r = completeUnderLease d i t wa cand bs fs e m now"
  shows "replayed_as s (settle_completion c scope key run created (under_fault (jc_fault c) d r))
    (settle_completion (lose_ack c) scope key run created (under_fault Lost_ack d r))"
  unfolding replayed_as_def
proof
  assume "new_send (snd (settle_completion c scope key run created (under_fault (jc_fault c) d r))) s"
  from settle_new [OF this] c(1) obtain x where x: "snd r = Inr (Completed x)"
    "settle_completion c scope key run created (under_fault (jc_fault c) d r) = (fst r, created x)" "new_send (created x) s"
    using \<open>new_send _ s\<close> by (auto simp: under_fault_def)
  then have "x = s" "completeUnderLease d i t wa cand bs fs e m now = (fst r, Inr (Completed s))"
    using created r by (auto intro: prod_eqI)
  with completed_under_lease [OF this(2)] filt
  have "find (reconcile_filter scope key) (sendRequests (fst r)) = Some s"
    by (auto simp: reconcile_filter_def same_job_send_def intro!: reconcile_finds_answer)
  with x(2) c(2) settle_lost_ack [of "lose_ack c" "under_fault Lost_ack d r" lost_ack scope key s run created]
  show "snd (settle_completion (lose_ack c) scope key run created (under_fault Lost_ack d r)) = Replayed s
    \<and> sendRequests (fst (settle_completion (lose_ack c) scope key run created (under_fault Lost_ack d r)))
      = sendRequests (fst (settle_completion c scope key run created (under_fault (jc_fault c) d r)))"
    by (simp add: under_fault_def)
qed

lemma send_lost_ack:
  assumes "jc_fault c = No_fault" "\<And>x. sendRequests (jc_others c 10 x) = sendRequests x"
  shows "replayed_as s (completeWithSend c job key run text memory d) (completeWithSend (lose_ack c) job key run text memory d)"
  unfolding completeWithSend_def Let_def createAutomaticSendUnderRunLease_def lose_ack_same lose_ack_parts
  by (rule completion_lost_ack [OF assms _ _ refl])
    (simp_all add: reconcile_filter_def same_job_send_def automatic_candidate_def completion_input_def Let_def new_send_def)

lemma review_lost_ack:
  assumes "jc_fault c = No_fault" "\<And>x. sendRequests (jc_others c 10 x) = sendRequests x"
  shows "replayed_as s (queue_review c job key run code d) (queue_review (lose_ack c) job key run code d)"
  unfolding queue_review_def Let_def createHumanReviewSendUnderRunLease_def lose_ack_same lose_ack_parts
  by (rule completion_lost_ack [OF assms _ _ refl])
    (simp_all add: reconcile_filter_def same_job_send_def human_review_candidate_def review_input_def Let_def new_send_def)

lemma claimed_lost_ack:
  assumes "jc_fault c = No_fault" "\<And>x. sendRequests (jc_others c 10 x) = sendRequests x"
  shows "replayed_as s (answer_claimed c job key jids owner request ctx run d) (answer_claimed (lose_ack c) job key jids owner request ctx run d)"
proof -
  have deliver: "replayed_as s (deliver c job key run p g x) (deliver (lose_ack c) job key run p g x)" for p g x
    using send_lost_ack [OF assms] review_lost_ack [OF assms]
    by (auto simp: deliver_def split: sum.split reply_generation.split)
  then have "replayed_as s (answer_with_model c job key run jids request ctx x) (answer_with_model (lose_ack c) job key run jids request ctx x)" for x
    by (auto simp: answer_with_model_def Let_def split: option.split prod.split assemble_result.split)
  then show ?thesis
    using send_lost_ack [OF assms]
    by (auto simp: answer_claimed_def split: option.split prod.split)
qed

text \<open>Losing the acknowledgement of the transaction makes no difference to what is sent. Where the undisturbed call
  creates a send and answers with it, the same call whose commit went through but whose acknowledgement was lost
  answers with that very send as a replay and leaves the same send queue, as long as nobody else changes the
  queue between the commit and the reconciling read.\<close>

theorem lost_ack_is_replayed:
  assumes "jc_fault c = No_fault" and "\<And>x. sendRequests (jc_others c 10 x) = sendRequests x"
    and "postReplyJob c d = (d', answer)" and "answer = Reply_created s \<or> answer = Under_review s"
  shows "\<exists>d''. postReplyJob (c\<lparr>jc_fault := Lost_ack\<rparr>) d = (d'', Replayed s) \<and> sendRequests d'' = sendRequests d'"
proof -
  have claimed: "replayed_as s (claim_and_answer c job key jids owner request ctx x) (claim_and_answer (lose_ack c) job key jids owner request ctx x)"
    for job key jids owner request ctx x
    using claimed_lost_ack [OF assms(1,2)]
    by (auto simp: claim_and_answer_def Let_def split: option.split prod.split reply_claim.split)
  have "replayed_as s (handle_job c job x) (handle_job (lose_ack c) job x)" for job x
    using claimed by (auto simp: handle_job_def Let_def split: option.split prod.split)
  then have "replayed_as s (postReplyJob c d) (postReplyJob (lose_ack c) d)"
    by (auto simp: postReplyJob_def split: option.split)
  then show ?thesis
    using assms(3,4) by (cases "postReplyJob (lose_ack c) d") (auto simp: replayed_as_def new_send_def lose_ack_def)
qed

section \<open>A direct command, evaluated\<close>

text \<open>An owner writes \<open>approve ZZ\<close> in a direct chat and no such action is staged.\<close>

definition ex_owner :: jstr where "ex_owner = js ''6281234567'' @ whatsapp_jid_suffix"

definition ex_reply_body :: json where
  "ex_reply_body = JObj [(js ''organizationId'', JStr (js ''o'')), (js ''instanceId'', JStr (js ''i'')), (js ''groupJid'', JStr (js ''u'')),
     (js ''waMessageId'', JStr (js ''m'')), (js ''isGroup'', JBool False)]"

definition ex_reply_db :: db where
  "ex_reply_db = empty_db\<lparr>
     organizations := [\<lparr>og_id = js ''o'', og_autoReplyAuthorizedJids = Some (JArr [JStr ex_owner])\<rparr>],
     messages := [\<lparr>ms_organizationId = js ''o'', ms_instanceId = js ''i'', ms_groupJid = js ''u'', ms_waMessageId = js ''m'', ms_fromMe = False,
       ms_revoked = False, ms_senderJid = Some ex_owner, ms_pushName = None, ms_kind = js ''text'', ms_text = Some (js ''approve ZZ''),
       ms_timestamp = Some 0, ms_media = None, ms_textSearch = None, ms_raw = None\<rparr>]\<rparr>"

definition ex_reply_call :: "unit reply_call" where
  "ex_reply_call = \<lparr>jc_authorization = Some (js ''Bearer '' @ js ''k''), jc_secret = Some (js ''k''), jc_body = Some ex_reply_body,
     jc_country = None, jc_ai = ex_ai, jc_registry = [], jc_recall = ex_recall_env, jc_prompt = \<lparr>pe_iso = (\<lambda>_. []), pe_stamp = (\<lambda>_. [])\<rparr>,
     jc_nfc = id, jc_others = (\<lambda>_ d. d), jc_clock = (\<lambda>_. 0), jc_token = js ''t'', jc_runOid = js ''r'', jc_uuid = js ''s'',
     jc_sendOid = js ''so'', jc_digest = (\<lambda>_ _. 0), jc_connect = None,
     jc_provider = (\<lambda>_ _. \<lparr>gm_first = (\<lambda>_. Inl ()), gm_closing = (\<lambda>_. Inl ()), gm_elapsed = (\<lambda>_. 0), gm_protocol = (\<lambda>_. False), gm_hasTools = True\<rparr>),
     jc_toolLinks = (\<lambda>_. {}), jc_toolCalls = [], jc_error = (\<lambda>_. config_missing_error), jc_leaseLost = False, jc_recordFails = False, jc_fault = No_fault\<rparr>"

definition ex_reply_job :: reply_job where
  "ex_reply_job = \<lparr>rj_scope = \<lparr>rs_organizationId = js ''o'', rs_instanceId = js ''i'', rs_groupJid = js ''u'', rs_waMessageId = js ''m''\<rparr>,
     rj_chatKind = Chat_user\<rparr>"

lemma ex_valid: "validJob ex_reply_body = Some ex_reply_job"
  by (simp add: validJob_def ex_reply_body_def string_field_def field_def js_def ex_reply_job_def Let_def)

lemma ex_owner_canonical: "normalizeAuthorizedJid None ex_owner = Some ex_owner"
  unfolding ex_owner_def
  by (rule normalize_fixed) (simp add: number_of_length_def is_nonzero_digit_def is_digit_def js_def)

lemma ex_jids: "authorized_jids None ex_reply_db (js ''o'') = [ex_owner]"
  by (simp add: authorized_jids_def ex_reply_db_def authorizedJidsOf_def ex_owner_canonical)

lemma ex_command: "approvalCommand (js ''approve ZZ'') = Some (Approve_action, js ''ZZ'')"
  by (simp add: approvalCommand_def js_def trim_def trim_start_def trim_end_def is_space_def to_lower_def is_upper_def Let_def)

lemma ex_request: "authorized_request None [ex_owner] (request_message ex_reply_db (rj_scope ex_reply_job)) = Some (ex_owner, js ''approve ZZ'')"
  by (simp add: authorized_request_def request_message_def in_chat_def ex_reply_db_def ex_reply_job_def or_empty_def ex_owner_canonical
      Let_def js_def trim_def trim_start_def trim_end_def is_space_def)

definition ex_reply_key :: jstr where "ex_reply_key = js ''owner-mention:i:u:m''"

lemma ex_job_key: "agentReplyIdempotencyKey (rj_scope ex_reply_job) = Some ex_reply_key"
proof -
  note scalar = is_high_surrogate_def is_low_surrogate_def encode_point_def uri_unreserved_def is_upper_def is_lower_def is_digit_def js_def
  have "encodeURIComponent (js ''owner-mention'') = Some (js ''owner-mention'')" "encodeURIComponent (js ''i'') = Some (js ''i'')"
    "encodeURIComponent (js ''u'') = Some (js ''u'')" "encodeURIComponent (js ''m'') = Some (js ''m'')"
    by (simp_all add: scalar)
  then show ?thesis by (simp add: agentReplyIdempotencyKey_def reply_key_parts_def ex_reply_job_def) (simp add: js_def ex_reply_key_def)
qed

definition ex_reply_run :: reply_run where "ex_reply_run = new_run (rj_scope ex_reply_job) (js ''t'') 0 (js ''r'')"

definition ex_reply_send :: send_row where
  "ex_reply_send = automatic_candidate (completion_input ex_reply_call ex_reply_job ex_reply_key ex_reply_run
     (decisionReply Approve_action (js ''ZZ'') Action_not_found) ([], [])) 0 (js ''s'') (js ''so'')"

lemma ex_calls [simp]: "jc_others ex_reply_call n d = d" "jc_clock ex_reply_call n = 0" "jc_token ex_reply_call = js ''t''"
  "jc_runOid ex_reply_call = js ''r''" "jc_uuid ex_reply_call = js ''s''" "jc_sendOid ex_reply_call = js ''so''" "jc_fault ex_reply_call = No_fault"
  "jc_country ex_reply_call = None" "jc_body ex_reply_call = Some ex_reply_body"
  by (simp_all add: ex_reply_call_def)

lemma ex_completed:
  "\<exists>d'. completeWithSend ex_reply_call ex_reply_job ex_reply_key ex_reply_run (decisionReply Approve_action (js ''ZZ'') Action_not_found) ([], [])
     (ex_reply_db\<lparr>agentReplyRuns := [ex_reply_run]\<rparr>) = (d', Reply_created ex_reply_send) \<and> sendRequests d' = [ex_reply_send]
     \<and> organizations d' = organizations ex_reply_db \<and> messages d' = messages ex_reply_db"
proof -
  have owns: "owns_run (js ''r'') (js ''t'') (js ''o'') (js ''i'') (js ''u'') (js ''m'') 0 ex_reply_run"
    by (simp add: owns_run_def ex_reply_run_def new_run_def ex_reply_job_def agent_reply_lease_ms_def)
  show ?thesis
    using owns
    by (simp add: completeWithSend_def Let_def createAutomaticSendUnderRunLease_def completeUnderLease_result ex_reply_send_def
        automatic_candidate_def completion_input_def ex_reply_job_def under_fault_def settle_completion_def ex_reply_db_def empty_db_def
        ex_reply_run_def new_run_def)
qed

lemma ex_secret: "sameSecret (jc_authorization ex_reply_call) (jc_secret ex_reply_call)"
  using bearer_accepted [of "js ''k''"] by (simp add: ex_reply_call_def)

lemma ex_reply_created:
  "\<exists>d'. postReplyJob ex_reply_call ex_reply_db = (d', Reply_created ex_reply_send) \<and> sendRequests d' = [ex_reply_send]
     \<and> organizations d' = organizations ex_reply_db \<and> messages d' = messages ex_reply_db"
proof -
  let ?d = "ex_reply_db\<lparr>agentReplyRuns := [ex_reply_run]\<rparr>"
  have claim: "claimAgentReplyRun ex_reply_db (rj_scope ex_reply_job) (js ''t'') (js ''r'') 0 = (?d, Some (Claimed ex_reply_run (js ''t'')))"
    by (simp add: claimAgentReplyRun_def claim_round_def ex_reply_db_def empty_db_def ex_reply_run_def)
  have first: "reconcileAgentReplySend ex_reply_db (rj_scope ex_reply_job) ex_reply_key 0 = (ex_reply_db, None)"
    by (simp add: reconcileAgentReplySend_def ex_reply_db_def empty_db_def)
  have decide: "decideAction ?d inp 0 = (?d, Action_not_found)" for inp
    by (simp add: decideAction_def decide_txn_def loadAction_def found_after_def ex_reply_db_def empty_db_def Let_def)
  have kind: "rj_chatKind ex_reply_job = Chat_user" "rs_organizationId (rj_scope ex_reply_job) = js ''o''" by (simp_all add: ex_reply_job_def)
  have "handle_job ex_reply_call ex_reply_job ex_reply_db = completeWithSend ex_reply_call ex_reply_job ex_reply_key ex_reply_run
      (decisionReply Approve_action (js ''ZZ'') Action_not_found) ([], []) ?d"
    by (simp add: handle_job_def Let_def kind ex_jids ex_request ex_job_key claim_and_answer_def first claim answer_claimed_def ex_command decide)
  then show ?thesis using ex_completed by (simp add: postReplyJob_def ex_secret ex_valid)
qed

theorem reply_sends_only_when_authorised_witness:
  "\<exists>s. reply_row ex_reply_call ex_reply_job (js ''approve ZZ'') s \<and> sr_groupJid s = js ''u''"
proof -
  obtain d' where d': "postReplyJob ex_reply_call ex_reply_db = (d', Reply_created ex_reply_send)" "sendRequests d' = [ex_reply_send]"
    using ex_reply_created by blast
  have changed: "sendRequests d' \<noteq> sendRequests ex_reply_db" by (simp add: d'(2) ex_reply_db_def empty_db_def)
  have none: "jc_toolCalls ex_reply_call = []" "tool_calls ex_reply_call = []" by (simp_all add: ex_reply_call_def tool_calls_def)
  have "list_all quiet_use (jc_toolCalls ex_reply_call)" by (simp add: none)
  from reply_sends_only_when_authorised [OF _ this d'(1) changed] changed
  obtain job owner request key s where "Some ex_reply_job = Some job"
    "authorized_request None (authorized_jids None ex_reply_db (rs_organizationId (rj_scope job))) (request_message ex_reply_db (rj_scope job)) = Some (owner, request)"
    "reconcile_filter (rj_scope job) key s" "reply_row ex_reply_call job request s"
    by (auto simp: Let_def ex_valid none)
  then show ?thesis using ex_request ex_jids
    by (auto simp: ex_reply_job_def reconcile_filter_def same_job_send_def)
qed

text \<open>The dispatcher delivers the send before the worker posts the job again.\<close>

definition ex_claimed_send :: send_row where "ex_claimed_send = dispatch_claim (js ''w'') 1 ex_reply_send"

definition ex_delivered_send :: send_row where "ex_delivered_send = mark_sent (js ''x'') 1 ex_claimed_send"

lemma ex_delivery:
  assumes "sendRequests d = [ex_reply_send]"
  shows "send_step\<^sup>*\<^sup>* d (d\<lparr>sendRequests := [ex_delivered_send]\<rparr>)"
proof -
  let ?d1 = "d\<lparr>sendRequests := [ex_claimed_send]\<rparr>"
  let ?k = "send_key ex_reply_send"
  have "claimable 5 0 1 ex_reply_send"
    by (simp add: claimable_def ex_reply_send_def automatic_candidate_def new_dispatch_def)
  then have "send_write d ?d1"
    using send_write.claim [of d ?k 5 0 1 "js ''w''"] assms by (simp add: ex_claimed_send_def)
  moreover have "holds_claim (js ''w'') ex_claimed_send" "send_key ex_claimed_send = ?k"
    by (simp_all add: ex_claimed_send_def holds_claim_def dispatch_claim_def send_key_def)
  then have "send_write ?d1 (?d1\<lparr>sendRequests := [ex_delivered_send]\<rparr>)"
    using send_write.sent [of ?d1 ?k "js ''w''" "js ''x''" 1] by (simp add: ex_delivered_send_def)
  ultimately have "send_step d ?d1" "send_step ?d1 (d\<lparr>sendRequests := [ex_delivered_send]\<rparr>)" by (simp_all add: send_step_def)
  then show ?thesis by simp
qed

theorem answered_job_is_replayed_witness:
  "\<exists>d' after. postReplyJob ex_reply_call ex_reply_db = (d', Reply_created ex_reply_send)
     \<and> postReplyJob ex_reply_call (d'\<lparr>sendRequests := [ex_delivered_send]\<rparr>) = (after, Replayed ex_delivered_send) \<and> sendRequests after = [ex_delivered_send]"
proof -
  obtain d' where d': "postReplyJob ex_reply_call ex_reply_db = (d', Reply_created ex_reply_send)" "sendRequests d' = [ex_reply_send]"
    "organizations d' = organizations ex_reply_db" "messages d' = messages ex_reply_db" using ex_reply_created by blast
  let ?later = "d'\<lparr>sendRequests := [ex_delivered_send]\<rparr>"
  obtain after answer where after: "postReplyJob ex_reply_call ?later = (after, answer)" by fastforce
  have "authorized_jids None ?later (js ''o'') = [ex_owner]" "request_message ?later scope = request_message ex_reply_db scope" for scope
    using ex_jids d'(3,4) by (simp_all add: authorized_jids_def request_message_def)
  moreover have "rj_chatKind ex_reply_job = Chat_user" "rs_organizationId (rj_scope ex_reply_job) = js ''o''" by (simp_all add: ex_reply_job_def)
  moreover have "reconcile_filter (rj_scope ex_reply_job) ex_reply_key ex_delivered_send"
    by (simp add: reconcile_filter_def same_job_send_def ex_delivered_send_def ex_claimed_send_def mark_sent_def dispatch_claim_def
        ex_reply_send_def automatic_candidate_def completion_input_def ex_reply_job_def Let_def)
  ultimately have "\<not> refusal answer"
    using after ex_request reconcile_first [of "rj_scope ex_reply_job" ex_reply_key ?later ex_delivered_send 0]
    by (auto simp: postReplyJob_def ex_secret ex_valid handle_job_def Let_def ex_job_key claim_and_answer_def refusal_def split: prod.splits)
  with answered_job_is_replayed [OF d'(1) _ ex_delivery [OF d'(2)], where s = ex_reply_send and again = ex_reply_call and after = after and answer' = answer and anything = undefined and uses = "[]"] after d'(1)
  show ?thesis by (simp add: answered_send_def)
qed

theorem lost_ack_is_replayed_witness:
  "\<exists>d'. postReplyJob (ex_reply_call\<lparr>jc_fault := Lost_ack\<rparr>) ex_reply_db = (d', Replayed ex_reply_send) \<and> sendRequests d' = [ex_reply_send]"
proof -
  obtain d' where d': "postReplyJob ex_reply_call ex_reply_db = (d', Reply_created ex_reply_send)" "sendRequests d' = [ex_reply_send]"
    using ex_reply_created by blast
  from lost_ack_is_replayed [OF _ _ d'(1), of ex_reply_send] d'(2) show ?thesis by auto
qed

end
