(* ===== verification/MessagesProps.thy ===== *)
theory MessagesProps
  imports Messages ReplyKeys
begin

text \<open>
  What message search guarantees: walking the cursors of an unqueried search lists every matching message
  once, newest first, and a queried page holds only matching messages, each once.
\<close>

section \<open>The stored order\<close>

lemma pair_value: "is_low_surrogate l \<Longrightarrow> is_high_surrogate h \<Longrightarrow>
  point_value [h, l] div 1024 = 64 + (h - 55296) \<and> point_value [h, l] mod 1024 = l - 56320"
proof -
  assume l: "is_low_surrogate l" and h: "is_high_surrogate h"
  have "point_value [h, l] = (l - 56320) + (64 + (h - 55296)) * 1024" by (simp add: point_value_def)
  moreover have "l - 56320 < 1024" using l by (auto simp: is_low_surrogate_def)
  moreover have "a < 1024 \<Longrightarrow> (a + b * 1024) div 1024 = b \<and> (a + b * 1024) mod 1024 = a" for a b :: nat by simp
  ultimately show ?thesis by metis
qed

lemma pair_value_inj:
  assumes "is_high_surrogate h" "is_low_surrogate l" "is_high_surrogate h'" "is_low_surrogate l'" "point_value [h, l] = point_value [h', l']"
  shows "h = h' \<and> l = l'"
proof -
  have "h - 55296 = h' - 55296" "l - 56320 = l' - 56320"
    using pair_value [OF assms(2,1)] pair_value [OF assms(4,3)] assms(5) by simp_all
  then show ?thesis using assms(1-4) by (auto simp: is_high_surrogate_def is_low_surrogate_def)
qed

lemma point_single: "point_value [c] = c"
  by (simp add: point_value_def)

lemma pair_value_high: "65536 \<le> point_value [h, l]"
  by (simp add: point_value_def)

lemma point_value_inj:
  assumes "p \<in> set (code_points xs)" "q \<in> set (code_points ys)" "code_units xs" "code_units ys" "point_value p = point_value q"
  shows "p = q"
proof -
  have point: "(\<exists>c < 65536. r = [c]) \<or> (\<exists>h l. r = [h, l] \<and> is_high_surrogate h \<and> is_low_surrogate l)"
    if "r \<in> set (code_points zs)" "code_units zs" for r zs
    using that by (induction zs rule: code_points.induct) (auto simp: code_units_def split: if_splits)
  from point [OF assms(1,3)] point [OF assms(2,4)] assms(5) show ?thesis
  proof (elim disjE exE conjE)
    fix c h l assume "c < 65536" "p = [c]" "q = [h, l]"
    with assms(5) pair_value_high [of h l] show ?thesis by (simp add: point_single)
  next
    fix c h l assume "c < 65536" "q = [c]" "p = [h, l]"
    with assms(5) pair_value_high [of h l] show ?thesis by (simp add: point_single)
  next
    fix h l h' l' assume "is_high_surrogate h" "is_low_surrogate l" "is_high_surrogate h'" "is_low_surrogate l'" "p = [h, l]" "q = [h', l']"
    with assms(5) pair_value_inj [of h l h' l'] show ?thesis by simp
  qed (use assms(5) in \<open>simp add: point_single\<close>)
qed

lemma utf8_order_inj: "code_units xs \<Longrightarrow> code_units ys \<Longrightarrow> utf8_order xs = utf8_order ys \<Longrightarrow> xs = ys"
proof -
  assume u: "code_units xs" "code_units ys" and eq: "utf8_order xs = utf8_order ys"
  have "ps = qs" if "map point_value ps = map point_value qs" "set ps \<subseteq> set (code_points xs)" "set qs \<subseteq> set (code_points ys)" for ps qs
    using that point_value_inj [OF _ _ u] by (induction ps arbitrary: qs) (auto simp: Cons_eq_map_conv)
  with eq have "code_points xs = code_points ys" unfolding utf8_order_def by blast
  then show ?thesis by (metis concat_code_points)
qed

lemma filter_sort_desc: "filter P (sort_desc k xs) = sort_desc k (filter P xs)"
  by (simp add: sort_desc_def rev_filter [symmetric] filter_sort)

lemma strict_sort_desc:
  fixes k :: "'a \<Rightarrow> 'b :: linorder"
  assumes "distinct (map k xs)"
  shows "sorted_wrt (\<lambda>x y. k y < k x) (sort_desc k xs)"
proof -
  have "distinct (map k (sort_desc k xs))"
    using assms by (simp add: sort_desc_def distinct_map inj_on_def)
  then have "k (sort_desc k xs ! j) \<noteq> k (sort_desc k xs ! i)" if "i < j" "j < length (sort_desc k xs)" for i j
    using that nth_eq_iff_index_eq [of "map k (sort_desc k xs)" i j] by simp
  moreover have "k (sort_desc k xs ! j) \<le> k (sort_desc k xs ! i)" if "i < j" "j < length (sort_desc k xs)" for i j
    using sorted_wrt_nth_less [OF sort_desc_sorted, of i j k xs] that by simp
  ultimately show ?thesis unfolding sorted_wrt_iff_nth_less by (simp add: order.strict_iff_order)
qed

text \<open>In a strictly descending list the rows below the n-th are the rest of it: the keyset principle.\<close>

lemma keyset_drop:
  fixes k :: "'a \<Rightarrow> 'b :: linorder"
  assumes "sorted_wrt (\<lambda>x y. k y < k x) xs" and "n < length xs"
  shows "filter (\<lambda>y. k y < k (xs ! n)) xs = drop (Suc n) xs"
proof -
  have up: "\<not> k y < k (xs ! n)" if "y \<in> set (take (Suc n) xs)" for y
  proof -
    from that obtain i where "y = xs ! i" "i \<le> n" using assms(2) by (auto simp: in_set_conv_nth less_Suc_eq_le)
    moreover have "i = n \<or> k (xs ! n) < k (xs ! i)"
      using sorted_wrt_nth_less [OF assms(1), of i n] assms(2) \<open>i \<le> n\<close> by (cases "i = n") simp_all
    ultimately show ?thesis by (metis less_asym)
  qed
  have down: "k y < k (xs ! n)" if "y \<in> set (drop (Suc n) xs)" for y
  proof -
    from that obtain j where "y = xs ! (Suc n + j)" "Suc n + j < length xs" by (auto simp: in_set_conv_nth)
    then show ?thesis using sorted_wrt_nth_less [OF assms(1), of n "Suc n + j"] by simp
  qed
  have "filter (\<lambda>y. k y < k (xs ! n)) (take (Suc n) xs @ drop (Suc n) xs) = drop (Suc n) xs"
    unfolding filter_append using up down by (simp add: filter_empty_conv filter_id_conv)
  then show ?thesis by simp
qed

section \<open>Walking the pages\<close>

text \<open>What a client does: fetch a page, follow its cursor while there is one. The fuel bounds the pages.\<close>

fun walk_pages :: "message_env \<Rightarrow> db \<Rightarrow> nat \<Rightarrow> message_search_input \<Rightarrow> message_row list" where
  "walk_pages env d 0 inp = []"
| "walk_pages env d (Suc n) inp = (case searchMessages env d inp of
      None \<Rightarrow> []
    | Some rows \<Rightarrow> rows @ (case nextMessageCursor env rows (clampMessageLimit (mi_limit inp)) of
        None \<Rightarrow> []
      | Some c \<Rightarrow> walk_pages env d n (inp\<lparr>mi_cursor := Some c\<rparr>)))"

lemma clamp_bounds: "1 \<le> clampMessageLimit v \<and> clampMessageLimit v \<le> message_max_limit"
  by (auto simp: clampMessageLimit_def message_default_limit_def message_max_limit_def split: option.splits)

text \<open>A message whose full ordering key can be carried by a cursor and read back.\<close>

definition carries_key :: "message_env \<Rightarrow> message_doc \<Rightarrow> bool" where
  "carries_key env m \<longleftrightarrow> (case ms_timestamp m of None \<Rightarrow> False
     | Some t \<Rightarrow> valid_date t \<and> mv_date env (toISOString t) = Some t
         \<and> ms_waMessageId m \<noteq> [] \<and> ms_instanceId m \<noteq> [] \<and> code_units (ms_waMessageId m) \<and> code_units (ms_instanceId m)
         \<and> (let v = JArr [JStr (toISOString t), JStr (ms_waMessageId m), JStr (ms_instanceId m)]
            in mv_read env (mv_print env v) = Some v))"

lemma cursor_roundtrip:
  assumes "carries_key env m"
  shows "\<exists>t. ms_timestamp m = Some t \<and> decodeMessageCursor env (encodeMessageCursor env (toMessageRow m))
    = Some \<lparr>ck_timestamp = t, ck_waMessageId = ms_waMessageId m, ck_instanceId = ms_instanceId m\<rparr>"
  using assms by (auto simp: carries_key_def decodeMessageCursor_def encodeMessageCursor_def toMessageRow_def Let_def split: option.splits)

lemma after_cursor_order:
  assumes "carries_key env m" "carries_key env x" "ms_timestamp x = Some t"
  shows "after_cursor \<lparr>ck_timestamp = t, ck_waMessageId = ms_waMessageId x, ck_instanceId = ms_instanceId x\<rparr> m \<longleftrightarrow> message_order m < message_order x"
  using assms utf8_order_inj
  by (auto simp: carries_key_def after_cursor_def message_order_def less_prod_def' Let_def split: option.splits)

definition all_matching :: "db \<Rightarrow> message_search_input \<Rightarrow> message_doc list" where
  "all_matching d inp = sort_desc message_order (filter (in_filters inp) (messages d))"

definition unique_messages :: "db \<Rightarrow> bool" where
  "unique_messages d \<longleftrightarrow> distinct (map (\<lambda>m. (ms_organizationId m, ms_instanceId m, ms_waMessageId m)) (messages d))"

lemma matching_strict:
  assumes "unique_messages d" and "\<forall>m \<in> set (filter (in_filters inp) (messages d)). carries_key env m"
  shows "sorted_wrt (\<lambda>x y. message_order y < message_order x) (all_matching d inp)"
  unfolding all_matching_def
proof (rule strict_sort_desc)
  let ?ms = "filter (in_filters inp) (messages d)"
  have units: "code_units (ms_waMessageId m) \<and> code_units (ms_instanceId m)" if "m \<in> set ?ms" for m
    using assms(2) that by (auto simp: carries_key_def split: option.splits)
  have "x = y" if "x \<in> set ?ms" "y \<in> set ?ms" "message_order x = message_order y" for x y
  proof -
    have "ms_waMessageId x = ms_waMessageId y" "ms_instanceId x = ms_instanceId y"
      using that units utf8_order_inj by (auto simp: message_order_def)
    moreover have "ms_organizationId x = ms_organizationId y" using that by (simp add: in_filters_def)
    ultimately show ?thesis
      using assms(1) that by (auto simp: unique_messages_def distinct_map inj_on_def)
  qed
  moreover have "distinct (messages d)" using assms(1) by (simp add: unique_messages_def distinct_map)
  ultimately show "distinct (map message_order ?ms)" by (auto simp: distinct_map inj_on_def)
qed

text \<open>A search with the cursor of the k-th row returns the rows from there on, up to its limit.\<close>

definition cursor_at :: "message_env \<Rightarrow> message_doc list \<Rightarrow> nat \<Rightarrow> jstr option" where
  "cursor_at env ms k = (if k = 0 then None else Some (encodeMessageCursor env (toMessageRow (ms ! (k - 1)))))"

lemma search_from:
  assumes "unique_messages d" and keys: "\<forall>m \<in> set (filter (in_filters inp) (messages d)). carries_key env m"
    and "trim (mi_query inp) = []" and "mv_read env [] = None" and "k \<le> length (all_matching d inp)"
  shows "searchMessages env d (inp\<lparr>mi_cursor := cursor_at env (all_matching d inp) k\<rparr>)
    = Some (map toMessageRow (take (clampMessageLimit (mi_limit inp)) (drop k (all_matching d inp))))"
proof (cases k)
  case 0
  have "in_filters (inp\<lparr>mi_cursor := None\<rparr>) = in_filters inp" by (simp add: fun_eq_iff in_filters_def)
  then show ?thesis using 0 assms(3)
    by (simp add: searchMessages_def messageFilter_def cursor_at_def Let_def message_page_def all_matching_def)
next
  case (Suc n)
  let ?L = "all_matching d inp" and ?x = "all_matching d inp ! n"
  have n: "n < length ?L" using Suc assms(5) by simp
  have mem: "?x \<in> set (filter (in_filters inp) (messages d))" using nth_mem [OF n] unfolding all_matching_def set_sort_desc .
  with keys have cx: "carries_key env ?x" by blast
  from cursor_roundtrip [OF this] obtain t where t: "ms_timestamp ?x = Some t"
    "decodeMessageCursor env (encodeMessageCursor env (toMessageRow ?x))
      = Some \<lparr>ck_timestamp = t, ck_waMessageId = ms_waMessageId ?x, ck_instanceId = ms_instanceId ?x\<rparr>" by blast
  obtain c cs where enc: "encodeMessageCursor env (toMessageRow ?x) = c # cs"
    using t(2) assms(4) by (cases "encodeMessageCursor env (toMessageRow ?x)") (auto simp: decodeMessageCursor_def)
  let ?inp = "inp\<lparr>mi_cursor := Some (c # cs)\<rparr>" and ?P = "\<lambda>m. message_order m < message_order ?x"
  let ?after = "after_cursor \<lparr>ck_timestamp = t, ck_waMessageId = ms_waMessageId ?x, ck_instanceId = ms_instanceId ?x\<rparr>"
  have same: "in_filters ?inp = in_filters inp" by (simp add: fun_eq_iff in_filters_def)
  have "filter (\<lambda>m. in_filters inp m \<and> ?after m) (messages d) = filter ?P (filter (in_filters inp) (messages d))"
    using keys after_cursor_order [OF _ cx t(1)] by (auto simp: filter_filter intro!: filter_cong)
  then have "message_page d (\<lambda>m. in_filters inp m \<and> ?after m) lim = take lim (filter ?P ?L)" for lim
    by (simp add: message_page_def all_matching_def filter_sort_desc)
  moreover have "filter ?P ?L = drop (Suc n) ?L" by (rule keyset_drop [OF matching_strict [OF assms(1) keys] n])
  ultimately show ?thesis using Suc enc t(2) same assms(3)
    by (simp add: searchMessages_def messageFilter_def cursor_at_def Let_def)
qed

lemma next_cursor:
  "rows \<noteq> [] \<Longrightarrow> \<not> length rows < limit \<Longrightarrow> mr_timestamp (last rows) \<noteq> None
    \<Longrightarrow> nextMessageCursor env rows limit = Some (encodeMessageCursor env (last rows))"
  by (cases rows) (simp_all add: nextMessageCursor_def)

lemma walk_from:
  assumes "unique_messages d" and "\<forall>m \<in> set (filter (in_filters inp) (messages d)). carries_key env m"
    and "trim (mi_query inp) = []" and "mv_read env [] = None"
    and "k \<le> length (all_matching d inp)" and "length (all_matching d inp) - k \<le> n"
  shows "walk_pages env d (Suc n) (inp\<lparr>mi_cursor := cursor_at env (all_matching d inp) k\<rparr>) = map toMessageRow (drop k (all_matching d inp))"
  using assms(5,6)
proof (induction n arbitrary: k)
  case 0
  then have "drop k (all_matching d inp) = []" by simp
  then show ?case using search_from [OF assms(1-4) 0(1)] clamp_bounds [of "mi_limit inp"] by (simp add: nextMessageCursor_def)
next
  case (Suc n)
  let ?L = "all_matching d inp" and ?lim = "clampMessageLimit (mi_limit inp)"
  let ?page = "take ?lim (drop k ?L)"
  note search = search_from [OF assms(1-4) Suc.prems(1)]
  show ?case
  proof (cases "length ?page < ?lim")
    case True
    then show ?thesis using search by (simp add: nextMessageCursor_def)
  next
    case False
    then have full: "k + ?lim \<le> length ?L" "?lim \<noteq> 0" using clamp_bounds [of "mi_limit inp"] Suc.prems(1) by auto
    then have page: "last ?page = ?L ! (k + ?lim - 1)" "?page \<noteq> []" "length ?page = ?lim" by (auto simp: last_conv_nth)
    have "?L ! (k + ?lim - 1) \<in> set ?L" using full by (intro nth_mem) simp
    then have "carries_key env (?L ! (k + ?lim - 1))" using assms(2) unfolding all_matching_def set_sort_desc by blast
    then have "mr_timestamp (toMessageRow (last ?page)) \<noteq> None"
      by (auto simp: page(1) carries_key_def toMessageRow_def Let_def split: option.splits)
    with next_cursor [of "map toMessageRow ?page" ?lim env] page full(2)
    have "nextMessageCursor env (map toMessageRow ?page) ?lim = cursor_at env ?L (k + ?lim)" by (simp add: cursor_at_def last_map)
    moreover obtain c where c: "cursor_at env ?L (k + ?lim) = Some c" using full by (simp add: cursor_at_def)
    moreover have "walk_pages env d (Suc n) (inp\<lparr>mi_cursor := Some c\<rparr>) = map toMessageRow (drop (k + ?lim) ?L)"
      using Suc.IH [OF full(1)] full Suc.prems by (simp add: c)
    moreover have "take ?lim (drop k ?L) @ drop (k + ?lim) ?L = drop k ?L" by (metis add.commute append_take_drop_id drop_drop)
    ultimately show ?thesis
      using search by (simp del: walk_pages.simps add: walk_pages.simps(2) [of env d "Suc n"] map_append [symmetric] del: map_append)
  qed
qed

text \<open>C19: Walking an unqueried search page by page is the same as listing everything. Following the cursors from the
  first page, whatever the limit, yields every message the filters match exactly once, in the stored order, newest
  first, and ends after at most one page more than there are messages: no row is dropped or repeated
  between pages. The keys must be ones a cursor can carry and the unique index must hold.\<close>

theorem paging_lists_everything:
  assumes "unique_messages d" and "\<forall>m \<in> set (filter (in_filters inp) (messages d)). carries_key env m"
    and "trim (mi_query inp) = []" and "mv_read env [] = None" and "mi_cursor inp = None" and "length (messages d) \<le> n"
  shows "walk_pages env d (Suc n) inp = map toMessageRow (sort_desc message_order (filter (in_filters inp) (messages d)))"
proof -
  have "length (all_matching d inp) \<le> n" using le_trans [OF length_filter_le assms(6)] by (simp add: all_matching_def)
  with walk_from [OF assms(1-4), of 0 n]
  have "walk_pages env d (Suc n) (inp\<lparr>mi_cursor := None\<rparr>) = map toMessageRow (all_matching d inp)" by (simp add: cursor_at_def del: walk_pages.simps)
  moreover have "inp\<lparr>mi_cursor := None\<rparr> = inp" using assms(5) by simp
  ultimately show ?thesis by (simp add: all_matching_def del: walk_pages.simps)
qed

section \<open>What a page holds\<close>

lemma first_of_each_subset: "set (first_of_each seen rs) \<subseteq> set rs"
  by (induction rs arbitrary: seen) auto

lemma first_of_each_distinct:
  "distinct (map row_identity (first_of_each seen rs)) \<and> row_identity ` set (first_of_each seen rs) \<inter> set seen = {}"
proof (induction rs arbitrary: seen)
  case (Cons r rs)
  from Cons [of seen] Cons [of "row_identity r # seen"] show ?case by auto
qed simp

lemma page_members: "m \<in> set (message_page d ok limit) \<Longrightarrow> m \<in> set (messages d) \<and> ok m"
  by (auto simp: message_page_def dest!: in_set_takeD)

lemma messageFilter_narrows: "messageFilter env inp = Some ok \<Longrightarrow> ok m \<Longrightarrow> in_filters inp m"
  by (auto simp: messageFilter_def split: option.splits list.splits)

text \<open>A page stays inside the tenant and its filters. Every row of a search is a stored message of the session's
  organisation that all the given filters match, and with a query one the text index found or whose folded text
  starts with the query; a queried page holds no message twice; and no request gets more than its clamped
  limit, at most two hundred rows.\<close>

theorem page_stays_in_scope:
  assumes "searchMessages env d inp = Some rows"
  shows "length rows \<le> clampMessageLimit (mi_limit inp) \<and> clampMessageLimit (mi_limit inp) \<le> 200
    \<and> (\<forall>r \<in> set rows. \<exists>m \<in> set (messages d). r = toMessageRow m \<and> in_filters inp m \<and> ms_organizationId m = mi_organizationId inp
        \<and> (let q = take max_query_length (trim (mi_query inp)) in q = [] \<or> mv_textHit env q m \<or> typeahead env q m))
    \<and> (trim (mi_query inp) \<noteq> [] \<longrightarrow> distinct (map row_identity rows))"
proof -
  from assms obtain ok where w: "messageFilter env inp = Some ok" by (auto simp: searchMessages_def split: option.splits)
  let ?q = "take max_query_length (trim (mi_query inp))" and ?lim = "clampMessageLimit (mi_limit inp)"
  have blank: "?q = [] \<longleftrightarrow> trim (mi_query inp) = []" by (simp add: max_query_length_def)
  have org: "in_filters inp m \<Longrightarrow> ms_organizationId m = mi_organizationId inp" for m by (simp add: in_filters_def)
  have lim: "?lim \<le> 200" using clamp_bounds [of "mi_limit inp"] by (simp add: message_max_limit_def)
  show ?thesis
  proof (cases "?q = []")
    case True
    then have "rows = map toMessageRow (message_page d ok ?lim)" using assms w by (simp add: searchMessages_def)
    then show ?thesis using True blank lim org page_members messageFilter_narrows [OF w]
      by (auto simp: message_page_def [of d ok ?lim] Let_def dest!: page_members [unfolded message_page_def])
  next
    case False
    let ?hits = "message_page d (\<lambda>m. ok m \<and> mv_textHit env ?q m) ?lim @ message_page d (\<lambda>m. ok m \<and> typeahead env ?q m) ?lim"
    have rows: "rows = take ?lim (sort_desc row_order (first_of_each [] (map toMessageRow ?hits)))"
      using assms w False by (simp add: searchMessages_def Let_def)
    have hit: "m \<in> set (messages d) \<and> in_filters inp m \<and> (mv_textHit env ?q m \<or> typeahead env ?q m)" if "m \<in> set ?hits" for m
      using that page_members messageFilter_narrows [OF w] by fastforce
    have "r \<in> toMessageRow ` set ?hits" if "r \<in> set rows" for r
    proof -
      from that have "r \<in> set (first_of_each [] (map toMessageRow ?hits))" unfolding rows by (auto dest: in_set_takeD)
      then show ?thesis using first_of_each_subset [of "[]" "map toMessageRow ?hits"] by auto
    qed
    then have "\<forall>r \<in> set rows. \<exists>m \<in> set (messages d). r = toMessageRow m \<and> in_filters inp m \<and> ms_organizationId m = mi_organizationId inp
        \<and> (?q = [] \<or> mv_textHit env ?q m \<or> typeahead env ?q m)" using hit org by blast
    moreover have "distinct (map row_identity rows)"
      using first_of_each_distinct [of "[]" "map toMessageRow ?hits"] unfolding rows
      by (simp add: take_map [symmetric] distinct_map sort_desc_def inj_on_subset)
    ultimately show ?thesis using lim unfolding Let_def by (simp add: rows)
  qed
qed

section \<open>Two messages, one a page\<close>

definition ex_print :: "json \<Rightarrow> jstr" where
  "ex_print v = (case v of JArr [JStr a, JStr b, JStr c] \<Rightarrow> [length a, length b] @ a @ b @ c | _ \<Rightarrow> [])"

definition ex_read :: "jstr \<Rightarrow> json option" where
  "ex_read s = (case s of x # y # cs \<Rightarrow> Some (JArr [JStr (take x cs), JStr (take y (drop x cs)), JStr (drop (x + y) cs)]) | _ \<Rightarrow> None)"

definition ex_message_env :: message_env where
  "ex_message_env = \<lparr>mv_lower = map to_lower, mv_textHit = (\<lambda>_ _. False), mv_print = ex_print, mv_read = ex_read,
     mv_date = (\<lambda>_. Some 0)\<rparr>"

definition ex_doc :: "jstr \<Rightarrow> message_doc" where
  "ex_doc wa = \<lparr>ms_organizationId = js ''o'', ms_instanceId = js ''i'', ms_groupJid = js ''g'', ms_waMessageId = wa, ms_fromMe = False,
     ms_revoked = False, ms_senderJid = None, ms_pushName = None, ms_kind = js ''text'', ms_text = Some wa, ms_timestamp = Some 0,
     ms_media = None, ms_textSearch = Some wa, ms_raw = None\<rparr>"

definition ex_message_db :: db where
  "ex_message_db = empty_db\<lparr>messages := [ex_doc (js ''a''), ex_doc (js ''b'')]\<rparr>"

definition ex_search :: message_search_input where
  "ex_search = \<lparr>mi_organizationId = js ''o'', mi_query = [], mi_instanceId = None, mi_groupJid = None, mi_senderJid = None, mi_kinds = [],
     mi_mediaStatus = None, mi_from = None, mi_to = None, mi_limit = Some 1, mi_cursor = None\<rparr>"

lemma ex_keys: "carries_key ex_message_env (ex_doc wa)" if "wa \<noteq> []" "code_units wa"
proof -
  have "ex_read (ex_print (JArr [JStr a, JStr b, JStr c])) = Some (JArr [JStr a, JStr b, JStr c])" for a b c
    by (simp add: ex_read_def ex_print_def)
  then show ?thesis using that
    by (simp add: carries_key_def ex_doc_def ex_message_env_def Let_def code_units_def js_def valid_date_def)
qed

theorem paging_lists_everything_witness:
  "walk_pages ex_message_env ex_message_db 3 ex_search = map toMessageRow [ex_doc (js ''b''), ex_doc (js ''a'')]"
proof -
  have all: "in_filters ex_search (ex_doc wa)" for wa
    by (simp add: in_filters_def ex_search_def ex_doc_def narrows_def in_range_def)
  have matching: "filter (in_filters ex_search) (messages ex_message_db) = [ex_doc (js ''a''), ex_doc (js ''b'')]"
    by (simp add: ex_message_db_def all)
  have "unique_messages ex_message_db" by (simp add: unique_messages_def ex_message_db_def ex_doc_def js_def)
  moreover have "\<forall>m \<in> set (filter (in_filters ex_search) (messages ex_message_db)). carries_key ex_message_env m"
    unfolding matching by (simp add: ex_keys js_def code_units_def)
  moreover have "trim (mi_query ex_search) = []" by (simp add: ex_search_def trim_def trim_start_def trim_end_def)
  moreover have "mv_read ex_message_env [] = None" by (simp add: ex_message_env_def ex_read_def)
  moreover have "mi_cursor ex_search = None" "length (messages ex_message_db) \<le> 2" by (simp_all add: ex_search_def ex_message_db_def)
  ultimately have "walk_pages ex_message_env ex_message_db (Suc 2) ex_search
      = map toMessageRow (sort_desc message_order (filter (in_filters ex_search) (messages ex_message_db)))"
    by (rule paging_lists_everything)
  moreover have "sort_desc message_order [ex_doc (js ''a''), ex_doc (js ''b'')] = [ex_doc (js ''b''), ex_doc (js ''a'')]"
    by (simp add: sort_desc_def message_order_def ex_doc_def utf8_order_def point_value_def js_def)
  ultimately show ?thesis by (simp add: matching del: walk_pages.simps)
qed

theorem page_stays_in_scope_witness:
  "\<exists>rows. searchMessages ex_message_env ex_message_db (ex_search\<lparr>mi_query := js ''b''\<rparr>) = Some rows \<and> length rows \<le> 1
     \<and> distinct (map row_identity rows)"
proof -
  let ?inp = "ex_search\<lparr>mi_query := js ''b''\<rparr>"
  have "searchMessages ex_message_env ex_message_db ?inp \<noteq> None"
    by (simp add: searchMessages_def messageFilter_def ex_search_def Let_def)
  then obtain rows where rows: "searchMessages ex_message_env ex_message_db ?inp = Some rows" by blast
  have "clampMessageLimit (mi_limit ?inp) = 1" "trim (mi_query ?inp) \<noteq> []"
    by (simp_all add: clampMessageLimit_def message_max_limit_def ex_search_def trim_def trim_start_def trim_end_def is_space_def js_def)
  with page_stays_in_scope [OF rows] rows show ?thesis by simp
qed

end
