(* ===== verification/Auth.thy ===== *)
theory Auth
  imports Http Clock Store Complex_Main
begin

text \<open>
  Owner authentication (\<open>apps/web/src/server/auth/*\<close>, \<open>app/api/auth/*\<close>, \<open>middleware.ts\<close>): the password check,
  the stateless session cookie, the login limiter, where sign-in may land, and the edge gate. The
  environment is a record; scrypt, HMAC-SHA256, Unicode's lower case and the base64url JSON of a session payload
  are parameters, named after the calls.
\<close>

section \<open>Configuration and parameters\<close>

text \<open>Numeric variables are what \<open>Number\<close> makes of them, \<^const>\<open>None\<close> when it is not finite.\<close>

record auth_environment =
  en_OWNER_EMAIL :: "jstr option"
  en_ORGANIZATION_ID :: "jstr option"
  en_OWNER_PASSWORD_HASH :: "jstr option"
  en_OWNER_PASSWORD :: "jstr option"
  en_NODE_ENV :: "jstr option"
  en_ENVIRONMENT :: "jstr option"
  en_AUTH_SECRET :: "jstr option"
  en_LOGIN_RATE_LIMIT :: "rat option"
  en_TRUSTED_PROXY_HOPS :: "int option"

record auth_crypto =
  cp_scrypt :: "jstr \<Rightarrow> nat list \<Rightarrow> nat \<Rightarrow> nat \<times> nat \<times> nat \<Rightarrow> nat list option"
  cp_hmac :: "jstr \<Rightarrow> jstr \<Rightarrow> jstr"
  cp_lower :: "jstr \<Rightarrow> jstr"
  cp_print :: "json \<Rightarrow> jstr"
  cp_read :: "jstr \<Rightarrow> json option"

section \<open>Passwords\<close>

definition scrypt_N :: nat where "scrypt_N = 16384"
definition scrypt_r :: nat where "scrypt_r = 8"
definition scrypt_p :: nat where "scrypt_p = 1"
definition scrypt_key_len :: nat where "scrypt_key_len = 32"

definition hex_unit_lower :: "nat \<Rightarrow> bool" where
  "hex_unit_lower c \<longleftrightarrow> is_digit c \<or> (97 \<le> c \<and> c \<le> 102)"

definition lower_hex :: "nat \<Rightarrow> nat" where
  "lower_hex n = (if n < 10 then 48 + n else 87 + n)"

definition lower_hex_value :: "nat \<Rightarrow> nat" where
  "lower_hex_value c = (if is_digit c then c - 48 else c - 87)"

definition to_hex :: "nat list \<Rightarrow> jstr" where
  "to_hex bytes = concat (map (\<lambda>b. [lower_hex (b div 16), lower_hex (b mod 16)]) bytes)"

fun from_hex :: "jstr \<Rightarrow> nat list" where
  "from_hex (h # l # cs) = (lower_hex_value h * 16 + lower_hex_value l) # from_hex cs"
| "from_hex _ = []"

definition decimal_value :: "jstr \<Rightarrow> nat" where
  "decimal_value s = foldl (\<lambda>n c. 10 * n + (c - 48)) 0 s"

definition hashPassword :: "auth_crypto \<Rightarrow> nat list \<Rightarrow> jstr \<Rightarrow> jstr option" where
  "hashPassword cp salt password =
    map_option (\<lambda>derived. join (js ''$'') [js ''scrypt'', dec scrypt_N, dec scrypt_r, dec scrypt_p, to_hex salt, to_hex derived])
      (cp_scrypt cp password salt scrypt_key_len (scrypt_N, scrypt_r, scrypt_p))"

definition power_of_two :: "nat \<Rightarrow> bool" where
  "power_of_two n \<longleftrightarrow> and n (n - 1) = 0"

text \<open>The bounds of a stored hash; a parameter set scrypt refuses is a failed verification.\<close>

definition verifyPassword :: "auth_crypto \<Rightarrow> jstr \<Rightarrow> jstr \<Rightarrow> bool" where
  "verifyPassword cp password stored = (case split_on 36 stored of
      [scheme, nRaw, rRaw, pRaw, saltHex, hashHex] \<Rightarrow>
        scheme = js ''scrypt''
        \<and> list_all (\<lambda>s. s \<noteq> [] \<and> list_all is_digit s) [nRaw, rRaw, pRaw]
        \<and> list_all (\<lambda>s. s \<noteq> [] \<and> list_all hex_unit_lower s \<and> even (length s)) [saltHex, hashHex]
        \<and> (let n = decimal_value nRaw; r = decimal_value rRaw; p = decimal_value pRaw;
               salt = from_hex saltHex; expected = from_hex hashHex
           in 2 \<le> n \<and> n \<le> 32768 \<and> power_of_two n \<and> 1 \<le> r \<and> r \<le> 16 \<and> 1 \<le> p \<and> p \<le> 8
              \<and> 8 \<le> length salt \<and> length salt \<le> 64 \<and> 16 \<le> length expected \<and> length expected \<le> 64
              \<and> cp_scrypt cp password salt (length expected) (n, r, p) = Some expected)
    | _ \<Rightarrow> False)"

section \<open>The owner\<close>

record owner_identity =
  ow_email :: jstr
  ow_organizationId :: jstr

definition isProductionDeployment :: "auth_environment \<Rightarrow> bool" where
  "isProductionDeployment env \<longleftrightarrow> en_NODE_ENV env = Some (js ''production'') \<or> en_ENVIRONMENT env = Some (js ''production'')"

definition constantTimeEqual :: "jstr \<Rightarrow> jstr \<Rightarrow> bool" where
  "constantTimeEqual left right \<longleftrightarrow> utf8_encode left = utf8_encode right"

definition unset_as_empty :: "jstr option \<Rightarrow> jstr" where
  "unset_as_empty v = (case v of None \<Rightarrow> [] | Some s \<Rightarrow> s)"

definition organization_id :: "auth_environment \<Rightarrow> jstr" where
  "organization_id env = (case en_ORGANIZATION_ID env of Some (c # cs) \<Rightarrow> c # cs | _ \<Rightarrow> js ''org_default'')"

text \<open>
  The dummy verification paid when no hash is configured has no effect on the answer; only its time does,
  which the model does not have.
\<close>

definition verifyOwnerCredentials :: "auth_environment \<Rightarrow> auth_crypto \<Rightarrow> jstr \<Rightarrow> jstr \<Rightarrow> owner_identity option" where
  "verifyOwnerCredentials env cp email password =
    (let configuredEmail = trim (unset_as_empty (en_OWNER_EMAIL env));
         emailMatches = (configuredEmail \<noteq> [] \<and> constantTimeEqual (cp_lower cp (trim email)) (cp_lower cp configuredEmail));
         owner = \<lparr>ow_email = configuredEmail, ow_organizationId = organization_id env\<rparr>;
         storedHash = trim (unset_as_empty (en_OWNER_PASSWORD_HASH env))
     in if storedHash \<noteq> [] then (if emailMatches \<and> verifyPassword cp password storedHash then Some owner else None)
        else let plaintext = unset_as_empty (en_OWNER_PASSWORD env)
             in if isProductionDeployment env \<or> plaintext = [] then None
                else if emailMatches \<and> constantTimeEqual password plaintext then Some owner else None)"

section \<open>Sessions\<close>

definition session_ttl_seconds :: int where "session_ttl_seconds = 7 * 24 * 60 * 60"
definition clock_skew_seconds :: int where "clock_skew_seconds = 60"

record owner_session =
  os_email :: jstr
  os_organizationId :: jstr
  os_iat :: int
  os_exp :: int

text \<open>A weak or missing secret throws: \<^const>\<open>None\<close>.\<close>

definition sign :: "auth_environment \<Rightarrow> auth_crypto \<Rightarrow> jstr \<Rightarrow> jstr option" where
  "sign env cp payload = (case en_AUTH_SECRET env of
      None \<Rightarrow> None
    | Some secret \<Rightarrow> if length secret < 32 then None else Some (cp_hmac cp secret payload))"

definition session_json :: "owner_session \<Rightarrow> json" where
  "session_json s = JObj [(js ''sub'', JStr (js ''owner'')), (js ''email'', JStr (os_email s)),
     (js ''organizationId'', JStr (os_organizationId s)), (js ''iat'', JNum (os_iat s)), (js ''exp'', JNum (os_exp s))]"

definition issueSession :: "auth_environment \<Rightarrow> auth_crypto \<Rightarrow> owner_identity \<Rightarrow> time \<Rightarrow> jstr option" where
  "issueSession env cp owner nowMs =
    (let now = nowMs div 1000;
         payload = cp_print cp (session_json \<lparr>os_email = ow_email owner, os_organizationId = ow_organizationId owner,
           os_iat = now, os_exp = now + session_ttl_seconds\<rparr>)
     in map_option (\<lambda>signature. payload @ js ''.'' @ signature) (sign env cp payload))"

text \<open>The text before the last dot and the text after it.\<close>

definition split_at_last_dot :: "jstr \<Rightarrow> (jstr \<times> jstr) option" where
  "split_at_last_dot s = (if 46 \<in> set s
     then Some (rev (tl (dropWhile (\<lambda>c. c \<noteq> 46) (rev s))), rev (takeWhile (\<lambda>c. c \<noteq> 46) (rev s))) else None)"

definition session_of :: "json \<Rightarrow> time \<Rightarrow> owner_session option" where
  "session_of v nowMs = (case v of
      JObj obj \<Rightarrow>
        (case (field obj ''sub'', field obj ''email'', field obj ''organizationId'', field obj ''iat'', field obj ''exp'') of
           (Some (JStr sub), Some (JStr email), Some (JStr org), Some (JNum iat), Some (JNum expires)) \<Rightarrow>
             (let now = nowMs div 1000
              in if sub \<noteq> js ''owner'' \<or> now + clock_skew_seconds < iat \<or> expires \<le> now \<or> expires \<le> iat then None
                 else Some \<lparr>os_email = email, os_organizationId = org, os_iat = iat, os_exp = expires\<rparr>)
         | _ \<Rightarrow> None)
    | _ \<Rightarrow> None)"

text \<open>\<open>Inl\<close> is the throw of a weak secret, reached only with a dot in the token.\<close>

definition readSession :: "auth_environment \<Rightarrow> auth_crypto \<Rightarrow> jstr option \<Rightarrow> time \<Rightarrow> exn + owner_session option" where
  "readSession env cp token nowMs = (case token of
      None \<Rightarrow> Inr None
    | Some t \<Rightarrow>
      (case split_at_last_dot t of
         None \<Rightarrow> Inr None
       | Some (payload, signature) \<Rightarrow>
         if payload = [] then Inr None
         else (case sign env cp payload of
             None \<Rightarrow> Inl (Thrown (js ''AUTH_SECRET must be at least 32 characters''))
           | Some expected \<Rightarrow>
             if utf8_encode signature \<noteq> utf8_encode expected then Inr None
             else Inr (Option.bind (cp_read cp payload) (\<lambda>v. session_of v nowMs)))))"

definition currentOwner :: "auth_environment \<Rightarrow> auth_crypto \<Rightarrow> jstr option \<Rightarrow> time \<Rightarrow> exn + owner_identity option" where
  "currentOwner env cp cookie now = map_sum id (map_option (\<lambda>s. \<lparr>ow_email = os_email s, ow_organizationId = os_organizationId s\<rparr>))
     (readSession env cp cookie now)"

text \<open>The cookie as \<open>Set-Cookie\<close> has it; the clearing one has no value and no age.\<close>

definition sessionCookie :: "auth_environment \<Rightarrow> jstr \<Rightarrow> int \<Rightarrow> jstr" where
  "sessionCookie env v maxAgeSeconds = join (js ''; '') ([js ''butler_session='' @ v, js ''Path=/'', js ''HttpOnly'', js ''SameSite=Lax'',
     js ''Max-Age='' @ dec (nat (max 0 maxAgeSeconds))] @ (if isProductionDeployment env then [js ''Secure''] else []))"

definition clearSessionCookie :: "auth_environment \<Rightarrow> jstr" where
  "clearSessionCookie env = sessionCookie env [] 0"

section \<open>Where a client and a path may come from\<close>

definition direct_client :: jstr where "direct_client = js ''direct''"

definition address_unit :: "nat \<Rightarrow> bool" where
  "address_unit c \<longleftrightarrow> is_digit c \<or> (97 \<le> c \<and> c \<le> 102) \<or> (65 \<le> c \<and> c \<le> 70) \<or> c = 46 \<or> c = 58"

definition clientKey :: "auth_environment \<Rightarrow> jstr option \<Rightarrow> jstr" where
  "clientKey env forwardedFor = (case en_TRUSTED_PROXY_HOPS env of
      None \<Rightarrow> direct_client
    | Some hops \<Rightarrow>
      if hops < 1 then direct_client
      else let chain = (case forwardedFor of None \<Rightarrow> [] | Some h \<Rightarrow> split_on 44 h);
               i = int (length chain) - hops;
               forwarded = (if 0 \<le> i \<and> i < int (length chain) then trim (chain ! nat i) else [])
           in if forwarded \<noteq> [] \<and> length forwarded \<le> 45 \<and> list_all address_unit forwarded then forwarded else direct_client)"

definition default_landing :: jstr where "default_landing = js ''/''"

definition safeNextPath :: "jstr option \<Rightarrow> jstr" where
  "safeNextPath v = (case v of
      None \<Rightarrow> default_landing
    | Some s \<Rightarrow>
      if take 1 s \<noteq> js ''/'' \<or> take 2 s = js ''//'' then default_landing
      else if list_ex (\<lambda>c. c \<le> 31 \<or> c = 127 \<or> c = 92) s then default_landing else s)"

section \<open>The login limiter\<close>

definition rate_window_ms :: time where "rate_window_ms = 15 * 60 * 1000"
definition default_rate_limit :: rat where "default_rate_limit = 5"

type_synonym login_failures = "jstr \<Rightarrow> (int \<times> time) option"

definition login_limit :: "auth_environment \<Rightarrow> rat" where
  "login_limit env = (case en_LOGIN_RATE_LIMIT env of Some n \<Rightarrow> if 0 < n then n else default_rate_limit | None \<Rightarrow> default_rate_limit)"

text \<open>The seconds to wait, or \<^const>\<open>None\<close> while the client may try; an expired entry is dropped.\<close>

definition rateLimit :: "auth_environment \<Rightarrow> login_failures \<Rightarrow> jstr \<Rightarrow> time \<Rightarrow> login_failures \<times> int option" where
  "rateLimit env fails ip now = (case fails ip of
      None \<Rightarrow> (fails, None)
    | Some (count, resetAt) \<Rightarrow>
      if resetAt \<le> now then (fails(ip := None), None)
      else if of_int count < login_limit env then (fails, None)
      else (fails, Some (max 1 ((resetAt - now + 999) div 1000))))"

definition recordLoginFailure :: "login_failures \<Rightarrow> jstr \<Rightarrow> time \<Rightarrow> login_failures" where
  "recordLoginFailure fails ip now = (case fails ip of
      None \<Rightarrow> fails(ip \<mapsto> (1, now + rate_window_ms))
    | Some (count, resetAt) \<Rightarrow>
      if resetAt \<le> now then fails(ip \<mapsto> (1, now + rate_window_ms)) else fails(ip \<mapsto> (count + 1, resetAt)))"

definition clearLoginFailures :: "login_failures \<Rightarrow> jstr \<Rightarrow> login_failures" where
  "clearLoginFailures fails ip = fails(ip := None)"

section \<open>The routes\<close>

text \<open>The bounded audit write: done, failed, or reported as failed after its deadline and yet done.\<close>

datatype audit_outcome = Audit_done | Audit_lost | Audit_late

definition max_audit_email :: nat where "max_audit_email = 254"

definition auth_entry :: "jstr \<Rightarrow> audit_action \<Rightarrow> jstr \<Rightarrow> jstr \<Rightarrow> jstr option \<Rightarrow> audit_entry" where
  "auth_entry org action ip email reason = \<lparr>ae_organizationId = org, ae_actor = Owner, ae_action = action,
     ae_target = (T_owner, take max_audit_email email),
     ae_meta = Some (case reason of None \<Rightarrow> [] | Some r \<Rightarrow> [(js ''reason'', JStr r)]), ae_ip = ip\<rparr>"

definition recordAuthEvent :: "audit_outcome \<Rightarrow> db \<Rightarrow> audit_entry \<Rightarrow> time \<Rightarrow> db \<times> bool" where
  "recordAuthEvent outcome d entry now = (case outcome of
      Audit_done \<Rightarrow> (writeAudit d entry now, True)
    | Audit_lost \<Rightarrow> (d, False)
    | Audit_late \<Rightarrow> (writeAudit d entry now, False))"

record login_call =
  lg_forwardedFor :: "jstr option"
  lg_body :: "json option"
  lg_audit :: audit_outcome
  lg_now :: time
  lg_answered :: time

datatype login_answer =
    Login_unrecorded | Login_limited int | Login_refused | Login_thrown
  | Login_ok owner_identity jstr

definition readCredentials :: "json option \<Rightarrow> (jstr \<times> jstr) option" where
  "readCredentials body = (case body of
      Some (JObj obj) \<Rightarrow> (case (field obj ''email'', field obj ''password'') of
        (Some (JStr email), Some (JStr password)) \<Rightarrow> Some (email, password) | _ \<Rightarrow> None)
    | _ \<Rightarrow> None)"

definition login_client :: "auth_environment \<Rightarrow> login_call \<Rightarrow> jstr" where
  "login_client env call = clientKey env (lg_forwardedFor call)"

text \<open>The record is written first, and an answer whose record cannot be written is withheld.\<close>

definition record_login :: "login_call \<Rightarrow> time \<Rightarrow> login_failures \<times> db \<Rightarrow> audit_entry \<Rightarrow> login_answer \<Rightarrow> (login_failures \<times> db) \<times> login_answer" where
  "record_login call now st entry ok =
    (let (d, recorded) = recordAuthEvent (lg_audit call) (snd st) entry now
     in ((fst st, d), if recorded then ok else Login_unrecorded))"

definition limited_login :: "auth_environment \<Rightarrow> login_call \<Rightarrow> int \<Rightarrow> login_failures \<times> db \<Rightarrow> (login_failures \<times> db) \<times> login_answer" where
  "limited_login env call seconds st = record_login call (lg_now call) st
     (auth_entry (organization_id env) Auth_login_failed (login_client env call) [] (Some (js ''rate_limited''))) (Login_limited seconds)"

text \<open>What the route does once the body has been read: the check, the count and the record, with no pause before the record is written.\<close>

definition finish_login :: "auth_environment \<Rightarrow> auth_crypto \<Rightarrow> login_call \<Rightarrow> login_failures \<times> db \<Rightarrow> (login_failures \<times> db) \<times> login_answer" where
  "finish_login env cp call st =
    (let ip = login_client env call; now = lg_answered call; org = organization_id env; credentials = readCredentials (lg_body call)
     in case Option.bind credentials (\<lambda>(email, password). verifyOwnerCredentials env cp email password) of
          None \<Rightarrow> record_login call now (recordLoginFailure (fst st) ip now, snd st)
            (auth_entry org Auth_login_failed ip (case credentials of None \<Rightarrow> [] | Some (email, _) \<Rightarrow> email)
              (Some (if credentials = None then js ''malformed_request'' else js ''invalid_credentials''))) Login_refused
        | Some owner \<Rightarrow>
          (case issueSession env cp owner now of
             None \<Rightarrow> ((clearLoginFailures (fst st) ip, snd st), Login_thrown)
           | Some token \<Rightarrow> record_login call now (clearLoginFailures (fst st) ip, snd st)
               (auth_entry org Auth_login_succeeded ip (ow_email owner) None) (Login_ok owner token)))"

text \<open>The route of one request. Between the limiter's answer and the rest it waits for the body, and \<open>others\<close> is what
  everybody else does to the limiter and the database meanwhile.\<close>

definition login :: "auth_environment \<Rightarrow> auth_crypto \<Rightarrow> (login_failures \<times> db \<Rightarrow> login_failures \<times> db) \<Rightarrow> login_call
    \<Rightarrow> login_failures \<times> db \<Rightarrow> (login_failures \<times> db) \<times> login_answer" where
  "login env cp others call st =
    (case rateLimit env (fst st) (login_client env call) (lg_now call) of
       (fails, Some seconds) \<Rightarrow> limited_login env call seconds (fails, snd st)
     | (fails, None) \<Rightarrow> finish_login env cp call (others (fails, snd st)))"

text \<open>Any number of requests at once, as the two steps each of them takes: \<open>ls_reading\<close> are those that were let in and
  whose body is still being read, \<open>ls_checked\<close> the clients whose credentials were looked at, one for each time.\<close>

record login_state =
  ls_failures :: login_failures
  ls_db :: db
  ls_reading :: "login_call list"
  ls_checked :: "jstr list"

datatype login_event = Login_arrives login_call | Login_answered login_call

definition login_next :: "auth_environment \<Rightarrow> auth_crypto \<Rightarrow> login_event \<Rightarrow> login_state \<Rightarrow> login_state" where
  "login_next env cp e s = (case e of
      Login_arrives call \<Rightarrow>
        (case rateLimit env (ls_failures s) (login_client env call) (lg_now call) of
           (fails, Some seconds) \<Rightarrow> (let st = fst (limited_login env call seconds (fails, ls_db s))
             in s\<lparr>ls_failures := fst st, ls_db := snd st\<rparr>)
         | (fails, None) \<Rightarrow> s\<lparr>ls_failures := fails, ls_reading := call # ls_reading s\<rparr>)
    | Login_answered call \<Rightarrow>
        if call \<notin> set (ls_reading s) then s
        else (let st = fst (finish_login env cp call (ls_failures s, ls_db s))
          in s\<lparr>ls_failures := fst st, ls_db := snd st, ls_reading := remove1 call (ls_reading s),
               ls_checked := login_client env call # ls_checked s\<rparr>))"

definition logout :: "auth_environment \<Rightarrow> audit_outcome \<Rightarrow> jstr option \<Rightarrow> time \<Rightarrow> db \<Rightarrow> db \<times> bool" where
  "logout env outcome forwardedFor now d =
    recordAuthEvent outcome d (auth_entry (organization_id env) Auth_logout (clientKey env forwardedFor)
      (trim (unset_as_empty (en_OWNER_EMAIL env))) None) now"

section \<open>The edge gate\<close>

definition open_api_paths :: "jstr list" where
  "open_api_paths = [js ''/api/auth/login'', js ''/api/health'', js ''/api/internal/reply-jobs'', js ''/api/mcp'']"

definition login_path :: jstr where "login_path = js ''/login''"

text \<open>What the gate answers: it lets the request pass, refuses an API call, or redirects with the path to return to.\<close>

datatype gate_answer = Pass | Refused_api | To_login "jstr option"

definition middleware :: "bool \<Rightarrow> jstr \<Rightarrow> jstr \<Rightarrow> gate_answer" where
  "middleware hasCookie pathname search =
    (if starts_with (js ''/api/'') pathname
     then (if pathname \<in> set open_api_paths \<or> hasCookie then Pass else Refused_api)
     else if hasCookie \<or> pathname = login_path then Pass
     else To_login (if pathname \<noteq> js ''/'' then Some (pathname @ search) else None))"

end
