(* ===== verification/Console.thy ===== *)
theory Console
  imports Auth Execute GroupRows InstanceRows AuthorizedJids Messages Media
begin

text \<open>
  The console's routes (\<open>apps/web/src/app/api\<close>, \<open>server/instance-guard.ts\<close>): every request is the owner's or is
  refused, its body is checked by a strict schema, and what it does is one call of a repository
  under the session's organisation. Each handler is one step of the database here.
\<close>

section \<open>Requests and answers\<close>

datatype request_body = No_text | Not_json | Json json

text \<open>
  What a request carries. \<open>cn_query\<close> is \<open>searchParams.get\<close>, \<open>cn_issue\<close> the text of the schema's first
  complaint; the clock and the fresh ids are the process's.
\<close>

record console_call =
  cn_cookie :: "jstr option"
  cn_forwardedFor :: "jstr option"
  cn_body :: request_body
  cn_query :: "string \<Rightarrow> jstr option"
  cn_issue :: jstr
  cn_now :: time
  cn_uuid :: jstr
  cn_oid :: oid
  cn_draw :: "nat \<Rightarrow> nat"

record console_env =
  ce_auth :: auth_environment
  ce_crypto :: auth_crypto
  ce_messages :: message_env
  ce_number :: "jstr \<Rightarrow> rat option"
  ce_offset_datetime :: "jstr \<Rightarrow> time option"
  ce_country :: "jstr option"
  ce_r2 :: r2_environment
  ce_sign :: "r2_config \<Rightarrow> jstr \<Rightarrow> nat \<Rightarrow> jstr"
  ce_exec :: exec_env

datatype console_value =
    V_sends "send_row list" | V_send send_row | V_actions "pending_action list" | V_action pending_action
  | V_groups "instance_group_row list" | V_instance_groups jstr "jstr option" "group_row list"
  | V_group group_row | V_group_detail group_row jstr | V_config instance_config_row | V_jid_list "jstr list"
  | V_instance instance_doc | V_messages "jstr option" "message_row list" "jstr option" | V_raw raw_tree
  | V_media jstr nat | V_owner owner_identity | V_signed_out

text \<open>An answer, a refusal with its message and code (and what else its body names), or an error rethrown.\<close>

datatype console_answer =
    Answer nat console_value
  | Refusal nat jstr "jstr option" "console_value option"
  | Rethrown exn

definition refuse :: "nat \<Rightarrow> string \<Rightarrow> string \<Rightarrow> console_answer" where
  "refuse status message code = Refusal status (js message) (Some (js code)) None"

definition unauthorized_answer :: console_answer where
  "unauthorized_answer = Refusal 401 (js ''unauthorized'') None None"

definition not_found_answer :: console_answer where
  "not_found_answer = refuse 404 ''not found'' ''not_found''"

section \<open>The owner and the tenant\<close>

definition requireOwner :: "console_env \<Rightarrow> console_call \<Rightarrow> exn + owner_identity option" where
  "requireOwner env call = currentOwner (ce_auth env) (ce_crypto env) (cn_cookie call) (cn_now call)"

definition as_owner :: "console_env \<Rightarrow> console_call \<Rightarrow> db \<Rightarrow> (owner_identity \<Rightarrow> db \<times> console_answer) \<Rightarrow> db \<times> console_answer" where
  "as_owner env call d handler = (case requireOwner env call of
      Inl e \<Rightarrow> (d, Rethrown e)
    | Inr None \<Rightarrow> (d, unauthorized_answer)
    | Inr (Some owner) \<Rightarrow> handler owner)"

definition guardInstance :: "console_env \<Rightarrow> console_call \<Rightarrow> db \<Rightarrow> jstr \<Rightarrow> (jstr \<Rightarrow> db \<times> console_answer) \<Rightarrow> db \<times> console_answer" where
  "guardInstance env call d inst handler = as_owner env call d
     (\<lambda>owner. if instanceInOrg d (ow_organizationId owner) inst then handler (ow_organizationId owner) else (d, not_found_answer))"

definition with_json :: "console_call \<Rightarrow> db \<Rightarrow> (json \<Rightarrow> 'a option) \<Rightarrow> ('a \<Rightarrow> db \<times> console_answer) \<Rightarrow> db \<times> console_answer" where
  "with_json call d schema handler = (case cn_body call of
      Json v \<Rightarrow> (case schema v of
          None \<Rightarrow> (d, Refusal 400 (cn_issue call) (Some (js ''invalid_request'')) None)
        | Some x \<Rightarrow> handler x)
    | _ \<Rightarrow> (d, refuse 400 ''the request body must be JSON'' ''invalid_request''))"

definition client_of :: "console_env \<Rightarrow> console_call \<Rightarrow> jstr" where
  "client_of env call = clientKey (ce_auth env) (cn_forwardedFor call)"

section \<open>Schemas\<close>

text \<open>\<open>z.string().trim().min(lo).max(hi)\<close>, a strict object, and an optional property.\<close>

definition z_trimmed :: "nat \<Rightarrow> nat \<Rightarrow> json option \<Rightarrow> jstr option" where
  "z_trimmed lo hi v = (case v of
      Some (JStr s) \<Rightarrow> if lo \<le> length (trim s) \<and> length (trim s) \<le> hi then Some (trim s) else None
    | _ \<Rightarrow> None)"

definition strict_object :: "string list \<Rightarrow> json \<Rightarrow> jobject option" where
  "strict_object keys v = (case v of
      JObj obj \<Rightarrow> if set (map fst obj) \<subseteq> set (map js keys) then Some obj else None
    | _ \<Rightarrow> None)"

definition z_optional :: "(json option \<Rightarrow> 'a option) \<Rightarrow> json option \<Rightarrow> 'a option option" where
  "z_optional schema v = (case v of None \<Rightarrow> Some None | Some _ \<Rightarrow> map_option Some (schema v))"

definition ends_with :: "jstr \<Rightarrow> jstr \<Rightarrow> bool" where
  "ends_with suffix s \<longleftrightarrow> length suffix \<le> length s \<and> drop (length s - length suffix) s = suffix"

definition key_unit :: "nat \<Rightarrow> bool" where
  "key_unit c \<longleftrightarrow> is_digit c \<or> is_upper c \<or> is_lower c \<or> c = 95 \<or> c = 45"

record create_body =
  cb_instanceId :: jstr
  cb_groupJid :: jstr
  cb_text :: jstr
  cb_idempotencyKey :: jstr

definition create_schema :: "json \<Rightarrow> create_body option" where
  "create_schema v = Option.bind (strict_object [''instanceId'', ''groupJid'', ''text'', ''idempotencyKey''] v) (\<lambda>obj.
     case (z_trimmed 1 128 (field obj ''instanceId''), z_trimmed 1 256 (field obj ''groupJid''),
           z_trimmed 1 4096 (field obj ''text''), z_trimmed 16 128 (field obj ''idempotencyKey'')) of
       (Some inst, Some jid, Some txt, Some key) \<Rightarrow>
         if ends_with (js ''@g.us'') jid \<and> list_all key_unit key
         then Some \<lparr>cb_instanceId = inst, cb_groupJid = jid, cb_text = txt, cb_idempotencyKey = key\<rparr> else None
     | _ \<Rightarrow> None)"

definition approve_schema :: "(jstr \<Rightarrow> time option) \<Rightarrow> json \<Rightarrow> time option option" where
  "approve_schema datetime v = Option.bind (strict_object [''scheduledFor''] v) (\<lambda>obj.
     z_optional (\<lambda>p. case p of Some (JStr s) \<Rightarrow> datetime s | _ \<Rightarrow> None) (field obj ''scheduledFor''))"

definition decision_schema :: "json \<Rightarrow> action_decision option" where
  "decision_schema v = Option.bind (strict_object [''decision''] v) (\<lambda>obj. case field obj ''decision'' of
       Some (JStr s) \<Rightarrow> if s = js ''approve'' then Some Approve_action else if s = js ''reject'' then Some Reject_action else None
     | _ \<Rightarrow> None)"

definition group_patch_schema :: "json \<Rightarrow> group_config_patch option" where
  "group_patch_schema v = Option.bind (strict_object [''assigned'', ''whitelisted'', ''instanceId''] v) (\<lambda>obj.
     case (z_optional z_bool (field obj ''assigned''), z_optional z_bool (field obj ''whitelisted''), z_optional z_text (field obj ''instanceId'')) of
       (Some a, Some w, Some inst) \<Rightarrow>
         if a = None \<and> w = None then None else Some \<lparr>gp_assigned = a, gp_whitelisted = w, gp_instanceId = inst\<rparr>
     | _ \<Rightarrow> None)"

text \<open>\<open>/^[^\s@]+@g\.us$/\<close> of a trimmed string of at most 64 units.\<close>

definition group_jid_schema :: "json \<Rightarrow> jstr option" where
  "group_jid_schema v = Option.bind (z_trimmed 1 64 (Some v)) (\<lambda>s.
     let name = take (length s - 5) s
     in if ends_with (js ''@g.us'') s \<and> name \<noteq> [] \<and> list_all (\<lambda>c. \<not> is_space c \<and> c \<noteq> 64) name then Some s else None)"

definition whitelist_schema :: "json \<Rightarrow> jstr list option" where
  "whitelist_schema v = Option.bind (strict_object [''groupJidWhitelist''] v) (\<lambda>obj. case field obj ''groupJidWhitelist'' of
       Some (JArr xs) \<Rightarrow> if length xs \<le> whitelist_max_groups then all_some (map group_jid_schema xs) else None
     | _ \<Rightarrow> None)"

definition instance_schema :: "json \<Rightarrow> new_instance option" where
  "instance_schema v = Option.bind (strict_object [''label'', ''mode'', ''phoneNumber''] v) (\<lambda>obj.
     case (z_text (field obj ''label''), field obj ''mode'', z_optional z_text (field obj ''phoneNumber'')) of
       (Some label, Some (JStr mode), Some phone) \<Rightarrow>
         if mode = js ''qr'' \<or> (mode = js ''code'' \<and> phone \<noteq> None) then Some \<lparr>ni_label = label, ni_mode = mode\<rparr> else None
     | _ \<Rightarrow> None)"

definition string_item :: "json \<Rightarrow> jstr option" where
  "string_item v = (case v of JStr s \<Rightarrow> Some s | _ \<Rightarrow> None)"

definition jids_schema :: "json \<Rightarrow> jstr list option" where
  "jids_schema v = Option.bind (strict_object [''authorizedJids''] v) (\<lambda>obj. case field obj ''authorizedJids'' of
       Some (JArr xs) \<Rightarrow> if length xs \<le> 100 then all_some (map string_item xs) else None
     | _ \<Rightarrow> None)"

section \<open>Sends\<close>

definition target_failure :: "target_state \<Rightarrow> console_answer option" where
  "target_failure st = (case st of
      Ready \<Rightarrow> None
    | Target_not_found \<Rightarrow> Some not_found_answer
    | Group_not_assigned \<Rightarrow> Some (refuse 409 ''the target group is not assigned to this instance'' ''group_not_assigned'')
    | Instance_offline \<Rightarrow> Some (refuse 409 ''the instance is not connected'' ''instance_offline''))"

definition getSends :: "console_env \<Rightarrow> console_call \<Rightarrow> db \<Rightarrow> db \<times> console_answer" where
  "getSends env call d = as_owner env call d (\<lambda>owner. (d, Answer 200 (V_sends
     (take 200 (sort_desc sr_createdAt (filter (\<lambda>s. sr_organizationId s = ow_organizationId owner) (sendRequests d)))))))"

definition postSend :: "console_env \<Rightarrow> console_call \<Rightarrow> db \<Rightarrow> db \<times> console_answer" where
  "postSend env call d = as_owner env call d (\<lambda>owner. with_json call d create_schema (\<lambda>body.
     let org = ow_organizationId owner
     in case target_failure (sendTargetState d org (cb_instanceId body) (cb_groupJid body)) of
          Some failure \<Rightarrow> (d, failure)
        | None \<Rightarrow>
          (case createSend d \<lparr>ci_organizationId = org, ci_instanceId = cb_instanceId body, ci_groupJid = cb_groupJid body,
               ci_text = cb_text body, ci_idempotencyKey = cb_idempotencyKey body, ci_actorIP = client_of env call, ci_decision = None\<rparr>
               (cn_now call) (cn_uuid call) (cn_oid call) of
             (d', Inr s) \<Rightarrow> (d', Answer 201 (V_send s))
           | (d', Inl _) \<Rightarrow> (d', refuse 502 ''the send request could not be stored'' ''store_error''))))"

text \<open>An empty body approves for now. A \<open>null\<close> result fails the property test of the handler, which is caught.\<close>

definition approve_answer :: "send_transition \<Rightarrow> console_answer" where
  "approve_answer r = (let refusal = (\<lambda>status code. refuse status ''the send cannot be approved in its current state'' code)
     in case r of
       Now_row s \<Rightarrow> Answer 200 (V_send s)
     | Not_found \<Rightarrow> refusal 404 ''not_found''
     | Invalid_state \<Rightarrow> refusal 409 ''invalid_state''
     | Ambiguous \<Rightarrow> refusal 409 ''ambiguous_send''
     | Null_row \<Rightarrow> refuse 502 ''the approval could not be stored'' ''store_error'')"

definition postApprove :: "console_env \<Rightarrow> console_call \<Rightarrow> jstr \<Rightarrow> db \<Rightarrow> db \<times> console_answer" where
  "postApprove env call i d = as_owner env call d (\<lambda>owner.
     let org = ow_organizationId owner; call' = (if cn_body call = No_text then call\<lparr>cn_body := Json (JObj [])\<rparr> else call)
     in with_json call' d (approve_schema (ce_offset_datetime env)) (\<lambda>scheduledFor.
       if (case scheduledFor of None \<Rightarrow> False | Some t \<Rightarrow> t < cn_now call + 30000)
       then (d, refuse 400 ''scheduledFor must be at least 30 seconds in the future'' ''invalid_request'')
       else case getSend d org i of
         None \<Rightarrow> (d, not_found_answer)
       | Some s \<Rightarrow>
         (case target_failure (sendTargetState d org (sr_instanceId s) (sr_groupJid s)) of
            Some failure \<Rightarrow> (d, failure)
          | None \<Rightarrow> map_prod id approve_answer (approveSend d org i (client_of env call) scheduledFor (cn_now call)))))"

definition decide_answer :: "send_decision \<Rightarrow> send_transition \<Rightarrow> console_answer" where
  "decide_answer action r =
    (let refusal = (\<lambda>status code. refuse status (case action of Cancel \<Rightarrow> ''the send cannot be cancelled'' | Reject \<Rightarrow> ''the send cannot be rejected'') code)
     in case r of
       Now_row s \<Rightarrow> Answer 200 (V_send s)
     | Not_found \<Rightarrow> refusal 404 ''not_found''
     | Invalid_state \<Rightarrow> refusal 409 ''invalid_state''
     | Ambiguous \<Rightarrow> refusal 409 ''ambiguous''
     | Null_row \<Rightarrow> refuse 502 ''the send decision could not be stored'' ''store_error'')"

definition decideSend :: "console_env \<Rightarrow> console_call \<Rightarrow> jstr \<Rightarrow> send_decision \<Rightarrow> db \<Rightarrow> db \<times> console_answer" where
  "decideSend env call i action d = as_owner env call d (\<lambda>owner.
     map_prod id (decide_answer action) (transitionSend d (ow_organizationId owner) i action (client_of env call) Owner (cn_now call)))"

section \<open>Staged actions\<close>

definition getActions :: "console_env \<Rightarrow> console_call \<Rightarrow> db \<Rightarrow> db \<times> console_answer" where
  "getActions env call d = as_owner env call d (\<lambda>owner. (d, Answer 200 (V_actions (listPendingActions d (ow_organizationId owner)))))"

definition failure_answer :: "execute_failure \<Rightarrow> pending_action \<Rightarrow> console_answer" where
  "failure_answer f row = Refusal (xf_status f) (xf_message f) (Some (xf_code f)) (Some (V_action row))"

definition postAction :: "console_env \<Rightarrow> console_call \<Rightarrow> jstr \<Rightarrow> db \<Rightarrow> db \<times> console_answer" where
  "postAction env call i d = as_owner env call d (\<lambda>owner. with_json call d decision_schema (\<lambda>decision.
     case decideAction d \<lparr>de_organizationId = ow_organizationId owner, de_ref = By_id i, de_decision = decision,
         de_decidedBy = ow_email owner, de_ip = client_of env call\<rparr> (cn_now call) of
       (d1, Action_not_found) \<Rightarrow> (d1, refuse 404 ''not found'' ''not_found'')
     | (d1, Action_invalid_state) \<Rightarrow> (d1, refuse 409 ''the action was already decided'' ''invalid_state'')
     | (d1, Decided row) \<Rightarrow>
       if pa_state row \<noteq> Pa_approved then (d1, Answer 200 (V_action row))
       else (case executeAction ((ce_exec env)\<lparr>xe_ip := client_of env call, xe_now := cn_now call, xe_uuid := cn_uuid call, xe_oid := cn_oid call\<rparr>) d1 row of
           (d2, Inl _) \<Rightarrow> (d2, refuse 502 ''the action could not be carried out'' ''store_error'')
         | (d2, Inr (Refused f)) \<Rightarrow> (d2, failure_answer f row)
         | (d2, Inr (Execute_failed done f)) \<Rightarrow> (d2, failure_answer f done)
         | (d2, Inr (Executed done)) \<Rightarrow> (d2, Answer 200 (V_action done)))))"

section \<open>Groups and instances\<close>

definition getGroups :: "console_env \<Rightarrow> console_call \<Rightarrow> db \<Rightarrow> db \<times> console_answer" where
  "getGroups env call d = as_owner env call d (\<lambda>owner. (d, Answer 200 (V_groups (listAllGroups d (ow_organizationId owner)))))"

text \<open>A query parameter that is absent or empty is missing.\<close>

definition present :: "jstr option \<Rightarrow> jstr option" where
  "present v = (case v of Some (c # cs) \<Rightarrow> Some (c # cs) | _ \<Rightarrow> None)"

definition instance_required :: console_answer where
  "instance_required = Refusal 400 (js ''instance_required'') None None"

definition getGroup :: "console_env \<Rightarrow> console_call \<Rightarrow> jstr \<Rightarrow> db \<Rightarrow> db \<times> console_answer" where
  "getGroup env call jid d = as_owner env call d (\<lambda>owner. case present (cn_query call ''instance'') of
       None \<Rightarrow> (d, instance_required)
     | Some inst \<Rightarrow>
       (case readGroupDetail d (ow_organizationId owner) inst jid of
          None \<Rightarrow> (d, Refusal 404 (js ''not_found'') None None)
        | Some detail \<Rightarrow> (d, Answer 200 (V_group_detail (gt_group detail) (gt_instanceLabel detail)))))"

definition patchGroup :: "console_env \<Rightarrow> console_call \<Rightarrow> jstr \<Rightarrow> db \<Rightarrow> db \<times> console_answer" where
  "patchGroup env call jid d = as_owner env call d (\<lambda>owner. with_json call d group_patch_schema (\<lambda>patch.
     case updateGroupConfig d (ow_organizationId owner) jid patch (client_of env call) (cn_now call) of
       Inl _ \<Rightarrow> (d, refuse 502 ''the configuration could not be stored'' ''store_error'')
     | Inr (d', Group_updated row) \<Rightarrow> (d', Answer 200 (V_group row))
     | Inr (d', Group_not_found) \<Rightarrow> (d', not_found_answer)
     | Inr (d', Group_ambiguous) \<Rightarrow> (d', refuse 409 ''this group id exists on more than one instance; send instanceId to choose one'' ''invalid_request'')))"

definition getInstanceGroups :: "console_env \<Rightarrow> console_call \<Rightarrow> jstr \<Rightarrow> db \<Rightarrow> db \<times> console_answer" where
  "getInstanceGroups env call inst d = as_owner env call d (\<lambda>owner. (d, Answer 200 (V_instance_groups inst
     (Option.bind (getInstanceRuntime d (ow_organizationId owner) inst) (\<lambda>r. is_lastSyncAt (iu_groupSync r)))
     (listInstanceGroups d (ow_organizationId owner) inst))))"

definition getConfig :: "console_env \<Rightarrow> console_call \<Rightarrow> jstr \<Rightarrow> db \<Rightarrow> db \<times> console_answer" where
  "getConfig env call inst d = guardInstance env call d inst (\<lambda>org. case readInstanceConfig d org inst of
       None \<Rightarrow> (d, not_found_answer)
     | Some config \<Rightarrow> (d, Answer 200 (V_config config)))"

definition patchInstance :: "console_env \<Rightarrow> console_call \<Rightarrow> jstr \<Rightarrow> db \<Rightarrow> db \<times> console_answer" where
  "patchInstance env call inst d = guardInstance env call d inst (\<lambda>org. with_json call d whitelist_schema (\<lambda>jids.
     case updateInstanceConfig d org inst jids (client_of env call) (cn_now call) of
       (d', Config_updated config) \<Rightarrow> (d', Answer 200 (V_config config))
     | (d', Config_not_found) \<Rightarrow> (d', not_found_answer)
     | (d', Unknown_groups unknown) \<Rightarrow> (d', Refusal 400 (js ''the whitelist names groups this instance does not have'')
         (Some (js ''invalid_request'')) (Some (V_jid_list unknown)))))"

definition postInstance :: "console_env \<Rightarrow> console_call \<Rightarrow> db \<Rightarrow> db \<times> console_answer" where
  "postInstance env call d = as_owner env call d (\<lambda>owner. with_json call d instance_schema (\<lambda>body.
     case createInstance d (ow_organizationId owner) body (cn_draw call) (cn_now call) of
       Inl e \<Rightarrow> (d, Rethrown e)
     | Inr (d', doc) \<Rightarrow> (d', Answer 201 (V_instance doc))))"

definition postPairingCode :: "console_env \<Rightarrow> console_call \<Rightarrow> jstr \<Rightarrow> db \<Rightarrow> db \<times> console_answer" where
  "postPairingCode env call inst d = guardInstance env call d inst
     (\<lambda>org. (d, Refusal 501 (js ''this deployment pairs by QR only '' @ [8212] @ js '' no pairing code is available'') (Some (js ''unsupported'')) None))"

section \<open>Messages and media\<close>

definition instant :: "message_env \<Rightarrow> jstr option \<Rightarrow> time option" where
  "instant env v = Option.bind (present v) (mv_date env)"

definition page_limit :: "console_env \<Rightarrow> console_call \<Rightarrow> nat" where
  "page_limit env call = clampMessageLimit (Option.bind (cn_query call ''limit'') (ce_number env))"

definition query_text :: "console_call \<Rightarrow> string \<Rightarrow> jstr" where
  "query_text call key = (case cn_query call key of None \<Rightarrow> [] | Some s \<Rightarrow> s)"

definition page_answer :: "console_env \<Rightarrow> db \<Rightarrow> jstr option \<Rightarrow> message_search_input \<Rightarrow> nat \<Rightarrow> db \<times> console_answer" where
  "page_answer env d group_of inp limit = (case searchMessages (ce_messages env) d inp of
      None \<Rightarrow> (d, Refusal 400 (js ''invalid_cursor'') None None)
    | Some rows \<Rightarrow> (d, Answer 200 (V_messages group_of rows (nextMessageCursor (ce_messages env) rows limit))))"

definition getMessages :: "console_env \<Rightarrow> console_call \<Rightarrow> db \<Rightarrow> db \<times> console_answer" where
  "getMessages env call d = as_owner env call d (\<lambda>owner.
     let limit = page_limit env call; kind = trim (query_text call ''kind'')
     in page_answer env d None \<lparr>mi_organizationId = ow_organizationId owner, mi_query = query_text call ''q'',
          mi_instanceId = cn_query call ''instanceId'', mi_groupJid = cn_query call ''groupJid'', mi_senderJid = None,
          mi_kinds = (if kind = [] then [] else [kind]), mi_mediaStatus = cn_query call ''mediaStatus'',
          mi_from = instant (ce_messages env) (cn_query call ''from''), mi_to = instant (ce_messages env) (cn_query call ''to''),
          mi_limit = Some (of_nat limit), mi_cursor = cn_query call ''cursor''\<rparr> limit)"

definition getGroupMessages :: "console_env \<Rightarrow> console_call \<Rightarrow> jstr \<Rightarrow> db \<Rightarrow> db \<times> console_answer" where
  "getGroupMessages env call jid d = as_owner env call d (\<lambda>owner. case present (cn_query call ''instanceId'') of
       None \<Rightarrow> (d, instance_required)
     | Some inst \<Rightarrow>
       (let limit = page_limit env call; kinds = filter (\<lambda>k. k \<noteq> []) (map trim (split_on 44 (query_text call ''kinds'')))
        in page_answer env d (Some jid) \<lparr>mi_organizationId = ow_organizationId owner, mi_query = query_text call ''q'',
             mi_instanceId = Some inst, mi_groupJid = Some jid, mi_senderJid = None, mi_kinds = kinds,
             mi_mediaStatus = cn_query call ''media'', mi_from = None, mi_to = None,
             mi_limit = Some (of_nat limit), mi_cursor = cn_query call ''cursor''\<rparr> limit))"

definition getRaw :: "console_env \<Rightarrow> console_call \<Rightarrow> jstr \<Rightarrow> db \<Rightarrow> db \<times> console_answer" where
  "getRaw env call wa d = as_owner env call d (\<lambda>owner. case present (cn_query call ''instance'') of
       None \<Rightarrow> (d, instance_required)
     | Some inst \<Rightarrow>
       (case messageRawTree d (ow_organizationId owner) inst wa of
          None \<Rightarrow> (d, Refusal 404 (js ''not_found'') None None)
        | Some tree \<Rightarrow> (d, Answer 200 (V_raw tree))))"

definition getMediaUrl :: "console_env \<Rightarrow> console_call \<Rightarrow> jstr \<Rightarrow> db \<Rightarrow> db \<times> console_answer" where
  "getMediaUrl env call wa d = as_owner env call d (\<lambda>owner. case present (cn_query call ''instanceId'') of
       None \<Rightarrow> (d, instance_required)
     | Some inst \<Rightarrow>
       (case messageMediaKey d (ow_organizationId owner) inst wa of
          None \<Rightarrow> (d, Refusal 404 (js ''not_found'') None None)
        | Some key \<Rightarrow>
          (case presignMediaUrl (ce_r2 env) (ce_sign env) key (ow_organizationId owner) of
             Inr (url, ttl) \<Rightarrow> (d, Answer 200 (V_media url ttl))
           | Inl Foreign_media_key \<Rightarrow> (d, Refusal 404 (js ''not_found'') None None)
           | Inl R2_configuration \<Rightarrow> (d, Refusal 503 (js ''media_unavailable'') None None)
           | Inl Media_range \<Rightarrow> (d, Rethrown (Thrown (js ''maxBytes must be a positive integer''))))))"

section \<open>The owner list of the reply gate\<close>

definition org_jids :: "db \<Rightarrow> jstr \<Rightarrow> json option" where
  "org_jids d org = Option.bind (find (\<lambda>x. og_id x = org) (organizations d)) og_autoReplyAuthorizedJids"

definition getAuthorizedJids :: "console_env \<Rightarrow> console_call \<Rightarrow> db \<Rightarrow> db \<times> console_answer" where
  "getAuthorizedJids env call d = as_owner env call d (\<lambda>owner.
     (d, Answer 200 (V_jid_list (authorizedJidsOf (ce_country env) (org_jids d (ow_organizationId owner))))))"

definition store_jids :: "db \<Rightarrow> jstr \<Rightarrow> jstr list \<Rightarrow> db" where
  "store_jids d org jids = (let stored = Some (JArr (map JStr jids)); mine = (\<lambda>x. og_id x = org)
     in d\<lparr>organizations := (case find mine (organizations d) of
          None \<Rightarrow> organizations d @ [\<lparr>og_id = org, og_autoReplyAuthorizedJids = stored\<rparr>]
        | Some _ \<Rightarrow> update_one mine (\<lambda>x. x\<lparr>og_autoReplyAuthorizedJids := stored\<rparr>) (organizations d))\<rparr>)"

definition patchAuthorizedJids :: "console_env \<Rightarrow> console_call \<Rightarrow> db \<Rightarrow> db \<times> console_answer" where
  "patchAuthorizedJids env call d = as_owner env call d (\<lambda>owner. with_json call d jids_schema (\<lambda>jids.
     case all_some (map (normalizeAuthorizedJid (ce_country env)) jids) of
       None \<Rightarrow> (d, refuse 400 ''each entry must be a phone number or WhatsApp JID'' ''invalid_request'')
     | Some canonical \<Rightarrow>
       (let sorted_canonical = sort (remdups canonical)
        in (store_jids d (ow_organizationId owner) sorted_canonical, Answer 200 (V_jid_list sorted_canonical)))))"

definition getSession :: "console_env \<Rightarrow> console_call \<Rightarrow> db \<Rightarrow> db \<times> console_answer" where
  "getSession env call d = (d, case requireOwner env call of
      Inl e \<Rightarrow> Rethrown e | Inr None \<Rightarrow> Answer 401 V_signed_out | Inr (Some owner) \<Rightarrow> Answer 200 (V_owner owner))"

section \<open>Routing\<close>

text \<open>The router of the framework: one constructor per method and path.\<close>

datatype console_route =
    Get_sends | Post_send | Post_approve jstr | Post_decision jstr send_decision | Get_actions | Post_action jstr
  | Get_groups | Get_group jstr | Patch_group jstr | Get_instance_groups jstr | Get_config jstr | Patch_instance jstr
  | Post_instance | Post_pairing_code jstr | Get_messages | Get_group_messages jstr | Get_raw jstr | Get_media_url jstr
  | Get_authorized_jids | Patch_authorized_jids | Get_session

fun serve :: "console_env \<Rightarrow> console_call \<times> console_route \<Rightarrow> db \<Rightarrow> db \<times> console_answer" where
  "serve env (call, Get_sends) d = getSends env call d"
| "serve env (call, Post_send) d = postSend env call d"
| "serve env (call, Post_approve i) d = postApprove env call i d"
| "serve env (call, Post_decision i action) d = decideSend env call i action d"
| "serve env (call, Get_actions) d = getActions env call d"
| "serve env (call, Post_action i) d = postAction env call i d"
| "serve env (call, Get_groups) d = getGroups env call d"
| "serve env (call, Get_group jid) d = getGroup env call jid d"
| "serve env (call, Patch_group jid) d = patchGroup env call jid d"
| "serve env (call, Get_instance_groups inst) d = getInstanceGroups env call inst d"
| "serve env (call, Get_config inst) d = getConfig env call inst d"
| "serve env (call, Patch_instance inst) d = patchInstance env call inst d"
| "serve env (call, Post_instance) d = postInstance env call d"
| "serve env (call, Post_pairing_code inst) d = postPairingCode env call inst d"
| "serve env (call, Get_messages) d = getMessages env call d"
| "serve env (call, Get_group_messages jid) d = getGroupMessages env call jid d"
| "serve env (call, Get_raw wa) d = getRaw env call wa d"
| "serve env (call, Get_media_url wa) d = getMediaUrl env call wa d"
| "serve env (call, Get_authorized_jids) d = getAuthorizedJids env call d"
| "serve env (call, Patch_authorized_jids) d = patchAuthorizedJids env call d"
| "serve env (call, Get_session) d = getSession env call d"

end
