(* ===== verification/Tenants.thy ===== *)
theory Tenants
  imports Store
begin

text \<open>
  What one organisation has of the database, and the contract of a server of many organisations: a request of one is
  answered and carried out on its own rows alone, and leaves the rows of every other as they were. From that contract the locale
  derives that the requests of the others make no difference, in whatever order they are interleaved.
\<close>

section \<open>One organisation's rows\<close>

definition tenant_view :: "jstr \<Rightarrow> db \<Rightarrow> db" where
  "tenant_view org d = \<lparr>
     organizations = filter (\<lambda>x. og_id x = org) (organizations d),
     instances = filter (\<lambda>x. in_organizationId x = org) (instances d),
     groups = filter (\<lambda>x. gd_organizationId x = org) (groups d),
     messages = filter (\<lambda>x. ms_organizationId x = org) (messages d),
     memoryBatches = filter (\<lambda>x. mb_organizationId x = org) (memoryBatches d),
     memorySummaries = filter (\<lambda>x. mm_organizationId x = org) (memorySummaries d),
     memoryFacts = filter (\<lambda>x. mf_organizationId x = org) (memoryFacts d),
     agentReplyRuns = filter (\<lambda>x. rr_organizationId x = org) (agentReplyRuns d),
     sendRequests = filter (\<lambda>x. sr_organizationId x = org) (sendRequests d),
     pendingActions = filter (\<lambda>x. pa_organizationId x = org) (pendingActions d),
     aiCalls = filter (\<lambda>x. ai_organizationId x = org) (aiCalls d),
     auditLog = filter (\<lambda>x. ar_organizationId x = org) (auditLog d)\<rparr>"

lemma tenant_view_sel [simp]:
  "organizations (tenant_view org d) = filter (\<lambda>x. og_id x = org) (organizations d)"
  "instances (tenant_view org d) = filter (\<lambda>x. in_organizationId x = org) (instances d)"
  "groups (tenant_view org d) = filter (\<lambda>x. gd_organizationId x = org) (groups d)"
  "messages (tenant_view org d) = filter (\<lambda>x. ms_organizationId x = org) (messages d)"
  "sendRequests (tenant_view org d) = filter (\<lambda>x. sr_organizationId x = org) (sendRequests d)"
  "pendingActions (tenant_view org d) = filter (\<lambda>x. pa_organizationId x = org) (pendingActions d)"
  "auditLog (tenant_view org d) = filter (\<lambda>x. ar_organizationId x = org) (auditLog d)"
  by (simp_all add: tenant_view_def)

text \<open>Reads and writes whose filter asks for the organisation are the same on its rows alone.\<close>

lemma find_filter: "find P (filter Q xs) = find (\<lambda>x. Q x \<and> P x) xs"
  by (induction xs) auto

lemma find_within: "(\<And>x. P x \<Longrightarrow> Q x) \<Longrightarrow> find P (filter Q xs) = find P xs"
  by (induction xs) auto

lemma filter_within: "(\<And>x. P x \<Longrightarrow> Q x) \<Longrightarrow> filter P (filter Q xs) = filter P xs"
  by (induction xs) auto

lemma update_one_within:
  assumes "\<And>x. P x \<Longrightarrow> Q x" and "\<And>x. Q (f x) = Q x"
  shows "update_one P f (filter Q xs) = filter Q (update_one P f xs)"
  using assms by (induction xs) auto

lemma update_one_outside:
  assumes "\<And>x. P x \<Longrightarrow> \<not> Q x" and "\<And>x. Q (f x) = Q x"
  shows "filter Q (update_one P f xs) = filter Q xs"
  using assms by (induction xs) auto

lemma update_many_within:
  assumes "\<And>x. Q (f x) = Q x"
  shows "update_many P f (filter Q xs) = filter Q (update_many P f xs)"
  using assms by (induction xs) (auto simp: update_many_def)

lemma update_many_outside:
  assumes "\<And>x. P x \<Longrightarrow> \<not> Q x" and "\<And>x. Q (f x) = Q x"
  shows "filter Q (update_many P f xs) = filter Q xs"
  using assms by (induction xs) (auto simp: update_many_def)

lemma found_after_within: "(\<And>x. P x \<Longrightarrow> Q x) \<Longrightarrow> found_after P f (filter Q xs) = found_after P f xs"
  by (simp add: found_after_def find_within)

lemma modified_within:
  assumes "\<And>x. P x \<Longrightarrow> Q x"
  shows "modified P f (filter Q xs) = modified P f xs"
  by (simp add: modified_def find_within assms)

lemma view_writeAudit [simp]:
  "tenant_view org (writeAudit d e now) =
     (if ae_organizationId e = org then writeAudit (tenant_view org d) e now else tenant_view org d)"
  by (simp add: tenant_view_def writeAudit_def auditRow_def)

lemma view_audit_own: "ae_organizationId e = org \<Longrightarrow> writeAudit (tenant_view org d) e now = tenant_view org (writeAudit d e now)"
  by simp

section \<open>Noninterference\<close>

fun serve_all :: "('q \<Rightarrow> 'db \<Rightarrow> 'db \<times> 'a) \<Rightarrow> 'q list \<Rightarrow> 'db \<Rightarrow> 'db \<times> ('q \<times> 'a) list" where
  "serve_all serve [] d = (d, [])"
| "serve_all serve (q # qs) d =
     (let r = serve q d; rest = serve_all serve qs (fst r) in (fst rest, (q, snd r) # snd rest))"

locale tenants =
  fixes view :: "'t \<Rightarrow> 'db \<Rightarrow> 'db"
    and tenant :: "'q \<Rightarrow> 't option"
    and ok :: "'q \<Rightarrow> bool"
    and serve :: "'q \<Rightarrow> 'db \<Rightarrow> 'db \<times> 'a"
  assumes own: "ok q \<Longrightarrow> tenant q = Some t \<Longrightarrow> serve q (view t d) = (view t (fst (serve q d)), snd (serve q d))"
    and other: "tenant q \<noteq> Some t \<Longrightarrow> view t (fst (serve q d)) = view t d"
begin

lemma own_db: "ok q \<Longrightarrow> tenant q = Some t \<Longrightarrow> fst (serve q (view t d)) = view t (fst (serve q d))"
  by (simp add: own)

lemma own_answer: "ok q \<Longrightarrow> tenant q = Some t \<Longrightarrow> snd (serve q (view t d)) = snd (serve q d)"
  by (simp add: own)

lemma others_leave: "\<forall>q \<in> set qs. tenant q \<noteq> Some t \<Longrightarrow> view t (fst (serve_all serve qs d)) = view t d"
  by (induction qs arbitrary: d) (auto simp: Let_def other)

text \<open>Running all requests and looking at one tenant's rows and answers is running that tenant's requests on its rows.\<close>

lemma unwinding:
  assumes "\<forall>q \<in> set qs. tenant q = Some t \<longrightarrow> ok q"
  shows "serve_all serve (filter (\<lambda>q. tenant q = Some t) qs) (view t d)
    = (view t (fst (serve_all serve qs d)), filter (\<lambda>(q, a). tenant q = Some t) (snd (serve_all serve qs d)))"
  using assms
proof (induction qs arbitrary: d)
  case (Cons q qs)
  then have IH: "serve_all serve (filter (\<lambda>q. tenant q = Some t) qs) (view t (fst (serve q d)))
    = (view t (fst (serve_all serve qs (fst (serve q d)))), filter (\<lambda>(q, a). tenant q = Some t) (snd (serve_all serve qs (fst (serve q d)))))"
    by simp
  show ?case
  proof (cases "tenant q = Some t")
    case True
    with Cons.prems have "serve q (view t d) = (view t (fst (serve q d)), snd (serve q d))" by (intro own) auto
    with True IH show ?thesis by (simp add: Let_def)
  next
    case False
    with IH other [OF False, of d] show ?thesis by (simp add: Let_def)
  qed
qed simp

end

end
