(* ===== verification/AuthProps.thy ===== *)
theory AuthProps
  imports Auth
begin

text \<open>
  What authentication guarantees: a stored hash accepts exactly the passwords scrypt maps to it, a session is
  accepted exactly until it expires, a login succeeds only on verified credentials and leaves its record,
  a client checks at most its limit of passwords a window, sign-in never leaves the origin, and what the
  edge gate does to the callbacks.
\<close>

section \<open>Passwords\<close>

lemma lower_hex [simp]: "n < 16 \<Longrightarrow> lower_hex_value (lower_hex n) = n" "n < 16 \<Longrightarrow> hex_unit_lower (lower_hex n)"
  by (auto simp: lower_hex_def lower_hex_value_def hex_unit_lower_def is_digit_def)

lemma nibbles: "b < 256 \<Longrightarrow> b div 16 < (16 :: nat) \<and> b mod 16 < 16"
  by (simp add: less_mult_imp_div_less)

lemma from_to_hex: "list_all (\<lambda>b. b < 256) bytes \<Longrightarrow> from_hex (to_hex bytes) = bytes"
  by (induction bytes) (simp_all add: to_hex_def nibbles)

lemma to_hex_units: "list_all (\<lambda>b. b < 256) bytes \<Longrightarrow> list_all hex_unit_lower (to_hex bytes) \<and> length (to_hex bytes) = 2 * length bytes"
  by (induction bytes) (simp_all add: to_hex_def nibbles)

lemma hex_no_dollar: "list_all hex_unit_lower s \<Longrightarrow> 36 \<notin> set s"
  by (auto simp: list_all_iff hex_unit_lower_def is_digit_def)

text \<open>C20: A hash accepts its password and nothing else it should not: verifying any password against a stored
  \<open>hashPassword\<close> answers yes exactly when scrypt, with the very salt and parameters the hash was made with,
  maps that password to the very bytes that were stored; the self-describing text loses nothing.\<close>

theorem password_hash_roundtrip:
  assumes "cp_scrypt cp password salt scrypt_key_len (scrypt_N, scrypt_r, scrypt_p) = Some derived"
    and "length salt = 16" "list_all (\<lambda>b. b < 256) salt" and "length derived = 32" "list_all (\<lambda>b. b < 256) derived"
  shows "\<exists>stored. hashPassword cp salt password = Some stored
    \<and> (\<forall>attempt. verifyPassword cp attempt stored \<longleftrightarrow> cp_scrypt cp attempt salt scrypt_key_len (scrypt_N, scrypt_r, scrypt_p) = Some derived)
    \<and> verifyPassword cp password stored"
proof -
  let ?ps = "[js ''scrypt'', dec scrypt_N, dec scrypt_r, dec scrypt_p, to_hex salt, to_hex derived]"
  have decs: "dec scrypt_N = js ''16384''" "dec scrypt_r = js ''8''" "dec scrypt_p = js ''1''"
    by (simp_all add: scrypt_N_def scrypt_r_def scrypt_p_def dec.simps js_def)
  note hex = to_hex_units [OF assms(3)] to_hex_units [OF assms(5)]
  have "list_all (\<lambda>p. 36 \<notin> set p) ?ps" using hex hex_no_dollar by (simp add: decs js_def)
  from split_on_join [OF _ this] have split: "split_on 36 (join (js ''$'') ?ps) = ?ps" by (simp add: js_def)
  have nonempty: "to_hex salt \<noteq> []" "to_hex derived \<noteq> []" using hex assms(2,4) by auto
  have pow: "power_of_two 16384" by (simp add: power_of_two_def)
  have "verifyPassword cp attempt (join (js ''$'') ?ps) \<longleftrightarrow> cp_scrypt cp attempt salt 32 (16384, 8, 1) = Some derived" for attempt
    unfolding verifyPassword_def split
    using hex nonempty assms pow
    by (simp add: decs from_to_hex decimal_value_def is_digit_def js_def)
  then show ?thesis using assms(1)
    by (simp add: hashPassword_def scrypt_N_def scrypt_r_def scrypt_p_def scrypt_key_len_def)
qed

section \<open>Sessions\<close>

lemma last_dot_of: "46 \<notin> set signature \<Longrightarrow> split_at_last_dot (payload @ js ''.'' @ signature) = Some (payload, signature)"
proof -
  assume "46 \<notin> set signature"
  then have x: "x \<in> set (rev signature) \<Longrightarrow> x \<noteq> 46" for x by auto
  have "takeWhile (\<lambda>c. c \<noteq> 46) (rev signature @ 46 # rev payload) = rev signature"
    "dropWhile (\<lambda>c. c \<noteq> 46) (rev signature @ 46 # rev payload) = 46 # rev payload"
    using x takeWhile_append2 [of "rev signature" "\<lambda>c. c \<noteq> 46"] dropWhile_append2 [of "rev signature" "\<lambda>c. c \<noteq> 46"] by simp_all
  then show ?thesis by (simp add: split_at_last_dot_def js_def)
qed

text \<open>C21: A session lives exactly as long as it says. The token of a login, presented at any later instant, is read back
  as the owner it was issued to until its expiry, seven days on, and not at the instant of the expiry or after it; presented on a
  clock behind the issuer's, it is accepted up to sixty seconds of skew and no further.\<close>

theorem session_lives_until_expiry:
  assumes "issueSession env cp owner issued = Some token"
    and "s = \<lparr>os_email = ow_email owner, os_organizationId = ow_organizationId owner, os_iat = issued div 1000,
      os_exp = issued div 1000 + session_ttl_seconds\<rparr>"
    and "cp_read cp (cp_print cp (session_json s)) = Some (session_json s)" and "cp_read cp [] = None"
    and "\<And>secret p. 46 \<notin> set (cp_hmac cp secret p)"
  shows "currentOwner env cp (Some token) now =
    Inr (if now div 1000 < issued div 1000 + 604800 \<and> issued div 1000 \<le> now div 1000 + 60 then Some owner else None)"
proof -
  let ?p = "cp_print cp (session_json s)"
  from assms(1,2) obtain signature where sig: "sign env cp ?p = Some signature" "token = ?p @ js ''.'' @ signature"
    by (auto simp: issueSession_def Let_def)
  have "46 \<notin> set signature" using sig(1) assms(5) by (auto simp: sign_def split: option.splits if_splits)
  moreover have "?p \<noteq> []" using assms(3,4) by auto
  ultimately have read: "readSession env cp (Some token) now = Inr (session_of (session_json s) now)"
    using sig assms(3) by (simp add: readSession_def last_dot_of)
  have "session_of (session_json s) now = (if now div 1000 < issued div 1000 + 604800 \<and> issued div 1000 \<le> now div 1000 + 60 then Some s else None)"
    by (auto simp: assms(2) session_of_def session_json_def field_def js_def Let_def clock_skew_seconds_def session_ttl_seconds_def)
  then show ?thesis by (simp add: currentOwner_def read) (simp add: assms(2))
qed

section \<open>Logging in\<close>

lemma auth_entry_action [simp]: "ae_action (auth_entry org action ip email reason) = action"
  by (simp add: auth_entry_def)

definition verified_owner :: "auth_environment \<Rightarrow> auth_crypto \<Rightarrow> json option \<Rightarrow> owner_identity \<Rightarrow> bool" where
  "verified_owner env cp body owner \<longleftrightarrow> (\<exists>email password. readCredentials body = Some (email, password)
     \<and> verifyOwnerCredentials env cp email password = Some owner
     \<and> (let hash = trim (unset_as_empty (en_OWNER_PASSWORD_HASH env))
        in if hash \<noteq> [] then verifyPassword cp password hash
           else \<not> isProductionDeployment env \<and> constantTimeEqual password (unset_as_empty (en_OWNER_PASSWORD env))))"

lemma verified_ownerI:
  assumes "Option.bind (readCredentials body) (\<lambda>(email, password). verifyOwnerCredentials env cp email password) = Some owner"
  shows "verified_owner env cp body owner"
proof -
  from assms obtain email password where creds: "readCredentials body = Some (email, password)"
    "verifyOwnerCredentials env cp email password = Some owner" by (auto simp: bind_eq_Some_conv)
  then show ?thesis unfolding verified_owner_def
    by (intro exI [where x = email] exI [where x = password]) (auto simp: verifyOwnerCredentials_def Let_def split: if_splits)
qed

definition failure_recorded :: "login_call \<Rightarrow> db \<Rightarrow> db \<Rightarrow> bool" where
  "failure_recorded call d d' \<longleftrightarrow> d' = d \<or> (\<exists>entry t. d' = writeAudit d entry t \<and> t \<in> {lg_now call, lg_answered call}
     \<and> (ae_action entry = Auth_login_failed \<or> (ae_action entry = Auth_login_succeeded \<and> lg_audit call = Audit_late)))"

lemma failure_recordedI:
  assumes "record_login call t st (auth_entry org Auth_login_failed ip email reason) ok = ((fails', d'), answer)"
    and "t \<in> {lg_now call, lg_answered call}"
  shows "failure_recorded call (snd st) d'"
  using assms auth_entry_action [of org Auth_login_failed ip email reason]
  by (cases "lg_audit call") (auto simp: record_login_def recordAuthEvent_def failure_recorded_def simp del: auth_entry_action)

lemma late_recorded:
  "lg_audit call = Audit_late \<Longrightarrow> failure_recorded call d (writeAudit d (auth_entry org Auth_login_succeeded ip email reason) (lg_answered call))"
  unfolding failure_recorded_def
  by (intro disjI2 exI [where x = "auth_entry org Auth_login_succeeded ip email reason"] exI [where x = "lg_answered call"]) simp

lemma finish_login_cases:
  assumes "finish_login env cp call st = ((fails', d'), answer)"
  shows "case answer of
      Login_ok owner token \<Rightarrow> verified_owner env cp (lg_body call) owner \<and> issueSession env cp owner (lg_answered call) = Some token
        \<and> d' = writeAudit (snd st) (auth_entry (organization_id env) Auth_login_succeeded (login_client env call) (ow_email owner) None) (lg_answered call)
    | _ \<Rightarrow> failure_recorded call (snd st) d'"
proof (cases "Option.bind (readCredentials (lg_body call)) (\<lambda>(email, password). verifyOwnerCredentials env cp email password)")
  case None
  have "failure_recorded call (snd st) d'"
    using failure_recordedI [where st = "(recordLoginFailure (fst st) (login_client env call) (lg_answered call), snd st)" and t = "lg_answered call"]
      assms None by (simp add: finish_login_def Let_def)
  moreover have "answer = Login_refused \<or> answer = Login_unrecorded"
    using assms None by (auto simp: finish_login_def record_login_def Let_def split: prod.splits if_splits)
  ultimately show ?thesis by auto
next
  case (Some owner)
  show ?thesis
  proof (cases "issueSession env cp owner (lg_answered call)")
    case None
    with assms Some show ?thesis by (auto simp: finish_login_def failure_recorded_def Let_def)
  next
    case (Some token)
    with assms \<open>Option.bind _ _ = Some owner\<close> verified_ownerI [OF \<open>Option.bind _ _ = Some owner\<close>] show ?thesis
      by (cases "lg_audit call") (auto simp: finish_login_def record_login_def recordAuthEvent_def late_recorded Let_def, simp add: failure_recorded_def)
  qed
qed

text \<open>C22: A login succeeds only on verified credentials, and never unrecorded, whatever other requests do while its body is
  read. An answer that carries a session
  means that the body carried two strings, that they verified as the owner, by the configured hash or, where
  neither production marker is set and no hash is configured, by the development password; that the
  client was not limited when it came; that the token is the owner's freshly issued session; and that exactly one
  record of the success was appended to the audit log. Every other answer appends at most one record, of a failure
  unless the record of a success arrived after its deadline.\<close>

theorem login_needs_verified_credentials:
  assumes "login env cp others call (fails, d) = ((fails', d'), answer)"
    and "rateLimit env fails (clientKey env (lg_forwardedFor call)) (lg_now call) = (admitted, limited)"
  shows "let reached = (if limited = None then snd (others (admitted, d)) else d)
    in case answer of
      Login_ok owner token \<Rightarrow> verified_owner env cp (lg_body call) owner \<and> limited = None
        \<and> issueSession env cp owner (lg_answered call) = Some token
        \<and> d' = writeAudit reached
            (auth_entry (organization_id env) Auth_login_succeeded (clientKey env (lg_forwardedFor call)) (ow_email owner) None) (lg_answered call)
    | _ \<Rightarrow> failure_recorded call reached d'"
proof (cases limited)
  case None
  then have "finish_login env cp call (others (admitted, d)) = ((fails', d'), answer)"
    using assms by (simp add: login_def login_client_def)
  from finish_login_cases [OF this] None show ?thesis by (simp add: login_client_def split: login_answer.splits)
next
  case (Some seconds)
  then have r: "limited_login env call seconds (admitted, d) = ((fails', d'), answer)"
    using assms by (simp add: login_def login_client_def)
  have "failure_recorded call d d'"
    using failure_recordedI [where st = "(admitted, d)" and t = "lg_now call"] r
    by (simp add: limited_login_def)
  moreover have "answer = Login_limited seconds \<or> answer = Login_unrecorded"
    using r by (auto simp: limited_login_def record_login_def Let_def split: prod.splits if_splits)
  ultimately show ?thesis using Some by auto
qed

section \<open>Guessing\<close>

definition in_flight :: "auth_environment \<Rightarrow> jstr \<Rightarrow> login_state \<Rightarrow> nat" where
  "in_flight env ip s = length (filter (\<lambda>call. login_client env call = ip) (ls_reading s))"

definition checked_attempts :: "jstr \<Rightarrow> login_state \<Rightarrow> nat" where
  "checked_attempts ip s = count_list (ls_checked s) ip"

definition failing_call :: "auth_environment \<Rightarrow> auth_crypto \<Rightarrow> time \<Rightarrow> login_call \<Rightarrow> bool" where
  "failing_call env cp start call \<longleftrightarrow> start \<le> lg_now call \<and> lg_now call < start + rate_window_ms
     \<and> start \<le> lg_answered call \<and> lg_answered call < start + rate_window_ms
     \<and> Option.bind (readCredentials (lg_body call)) (\<lambda>(email, password). verifyOwnerCredentials env cp email password) = None"

fun event_call :: "login_event \<Rightarrow> login_call" where
  "event_call (Login_arrives call) = call"
| "event_call (Login_answered call) = call"

text \<open>The states one client reaches by guessing for one window, with at most \<open>k\<close> of its requests being read at a time,
  while other clients do what they like.\<close>

inductive guessing :: "auth_environment \<Rightarrow> auth_crypto \<Rightarrow> jstr \<Rightarrow> time \<Rightarrow> nat \<Rightarrow> login_state \<Rightarrow> bool" for env cp ip start k where
  begins: "ls_failures s ip = None \<Longrightarrow> in_flight env ip s = 0 \<Longrightarrow> checked_attempts ip s = 0 \<Longrightarrow> guessing env cp ip start k s"
| goes_on: "guessing env cp ip start k s
    \<Longrightarrow> (login_client env (event_call e) = ip \<longrightarrow> failing_call env cp start (event_call e))
    \<Longrightarrow> in_flight env ip (login_next env cp e s) \<le> k \<Longrightarrow> guessing env cp ip start k (login_next env cp e s)"

lemma record_login_state [simp]: "fst (fst (record_login call now st entry ok)) = fst st"
  by (simp add: record_login_def split_beta)

lemma limited_failures [simp]: "fst (fst (limited_login env call seconds st)) = fst st"
  by (simp add: limited_login_def)

lemma finished_failures:
  "fst (fst (finish_login env cp call st)) =
    (if Option.bind (readCredentials (lg_body call)) (\<lambda>(email, password). verifyOwnerCredentials env cp email password) = None
     then recordLoginFailure (fst st) (login_client env call) (lg_answered call) else clearLoginFailures (fst st) (login_client env call))"
  by (simp add: finish_login_def Let_def split: option.split)

lemma rate_limit_elsewhere: "rateLimit env fails client now = (fails', r) \<Longrightarrow> client \<noteq> ip \<Longrightarrow> fails' ip = fails ip"
  by (auto simp: rateLimit_def split: option.splits if_splits)

text \<open>Another client changes nothing of this one's.\<close>

lemma others_apart:
  assumes "login_client env (event_call e) \<noteq> ip"
  shows "ls_failures (login_next env cp e s) ip = ls_failures s ip \<and> in_flight env ip (login_next env cp e s) = in_flight env ip s
    \<and> checked_attempts ip (login_next env cp e s) = checked_attempts ip s"
proof (cases e)
  case (Login_arrives call)
  with assms show ?thesis
    by (auto simp: login_next_def in_flight_def checked_attempts_def Let_def dest: rate_limit_elsewhere split: prod.splits option.splits)
next
  case (Login_answered call)
  with assms show ?thesis
    by (auto simp: login_next_def in_flight_def checked_attempts_def Let_def finished_failures recordLoginFailure_def clearLoginFailures_def
        filter_remove1 remove1_idem split: option.split)
qed

definition counted :: "auth_environment \<Rightarrow> jstr \<Rightarrow> time \<Rightarrow> nat \<Rightarrow> login_state \<Rightarrow> bool" where
  "counted env ip start k s \<longleftrightarrow>
     (case ls_failures s ip of
        None \<Rightarrow> checked_attempts ip s = 0
      | Some (n, resetAt) \<Rightarrow> n = int (checked_attempts ip s) \<and> start + rate_window_ms \<le> resetAt)
     \<and> int (checked_attempts ip s + in_flight env ip s) \<le> \<lceil>login_limit env\<rceil> - 1 + int k"

lemma limit_positive: "1 \<le> \<lceil>login_limit env\<rceil>"
  by (auto simp: login_limit_def default_rate_limit_def one_le_ceiling split: option.split)

lemma own_arrival:
  assumes "counted env ip start k s" and "login_client env call = ip" and "failing_call env cp start call"
    and "in_flight env ip (login_next env cp (Login_arrives call) s) \<le> k"
  shows "counted env ip start k (login_next env cp (Login_arrives call) s)"
proof (cases "ls_failures s ip")
  case None
  then show ?thesis using assms
    by (simp add: counted_def login_next_def rateLimit_def in_flight_def checked_attempts_def) (use limit_positive [of env] in linarith)
next
  case (Some x)
  obtain n resetAt where x: "x = (n, resetAt)" by (cases x)
  have live: "\<not> resetAt \<le> lg_now call" and n: "n = int (checked_attempts ip s)"
    using assms(1,3) by (auto simp: counted_def Some x failing_call_def)
  show ?thesis
  proof (cases "of_int n < login_limit env")
    case True
    then have "n \<le> \<lceil>login_limit env\<rceil> - 1" by (simp add: less_ceiling_iff)
    with True live n show ?thesis using assms
      by (simp add: counted_def login_next_def rateLimit_def in_flight_def checked_attempts_def Some x)
  next
    case False
    with live n show ?thesis using assms
      by (simp add: counted_def login_next_def rateLimit_def in_flight_def checked_attempts_def Some x Let_def)
  qed
qed

lemma own_login_answer:
  assumes "counted env ip start k s" and "login_client env call = ip" and "failing_call env cp start call"
  shows "counted env ip start k (login_next env cp (Login_answered call) s)"
proof (cases "call \<in> set (ls_reading s)")
  case True
  let ?t = "login_next env cp (Login_answered call) s"
  have "call \<in> set (filter (\<lambda>c. login_client env c = ip) (ls_reading s))" using True assms(2) by simp
  then have "0 < in_flight env ip s" "in_flight env ip ?t = in_flight env ip s - 1"
    using True assms(2) unfolding in_flight_def
    by (auto simp only: length_pos_if_in_set) (simp add: login_next_def Let_def filter_remove1 length_remove1)
  moreover have "checked_attempts ip ?t = Suc (checked_attempts ip s)"
    "ls_failures ?t = recordLoginFailure (ls_failures s) ip (lg_answered call)"
    using True assms(2,3) by (simp_all add: login_next_def Let_def checked_attempts_def finished_failures failing_call_def)
  ultimately show ?thesis using assms(1,3)
    by (auto simp: counted_def recordLoginFailure_def failing_call_def split: option.splits)
qed (use assms(1) in \<open>simp add: login_next_def\<close>)

lemma guessing_counted: "guessing env cp ip start k s \<Longrightarrow> counted env ip start k s"
proof (induction rule: guessing.induct)
  case (begins s)
  then show ?case using limit_positive [of env] by (simp add: counted_def)
next
  case (goes_on s e)
  show ?case
  proof (cases "login_client env (event_call e) = ip")
    case True
    with goes_on show ?thesis by (cases e) (auto intro: own_arrival own_login_answer)
  next
    case False
    from others_apart [OF this, of cp s] goes_on.IH show ?thesis by (auto simp: counted_def split: option.splits)
  qed
qed

text \<open>C23: How many guesses one client can make in a window. The limiter is asked when a request comes, and the failure is
  counted only when its body has been read, so requests that overlap do not see each other. From a limiter with no entry for the
  client, whatever the other clients do and in whatever order bodies arrive, if at most \<open>k\<close> of its requests are being
  read at any time, then within fifteen minutes its failing requests that had their credentials looked at, together with
  those still being read, are at most the configured limit (five by default) less one, plus \<open>k\<close>: exactly the limit for a client that
  waits for each answer, and no fixed number for one that does not.\<close>

theorem failed_logins_bounded:
  assumes "guessing env cp ip start k s"
  shows "int (checked_attempts ip s) + int (in_flight env ip s) \<le> \<lceil>login_limit env\<rceil> - 1 + int k"
  using guessing_counted [OF assms] by (simp add: counted_def)

section \<open>Landing and the edge\<close>

text \<open>Sign-in never leaves the origin: whatever \<open>next\<close> says, the landing is an absolute path of this origin, not
  a protocol-relative one, without a backslash or control character, and a path that already is one is kept.\<close>

theorem landing_stays_on_origin:
  "(\<exists>rest. safeNextPath v = js ''/'' @ rest \<and> take 1 rest \<noteq> js ''/'')
    \<and> list_all (\<lambda>c. 31 < c \<and> c \<noteq> 127 \<and> c \<noteq> 92) (safeNextPath v) \<and> safeNextPath (Some (safeNextPath v)) = safeNextPath v"
proof -
  define safe where "safe s \<longleftrightarrow> take 1 s = js ''/'' \<and> take 2 s \<noteq> js ''//'' \<and> \<not> list_ex (\<lambda>c. c \<le> 31 \<or> c = 127 \<or> c = 92) s" for s
  have land: "safe default_landing" by (simp add: safe_def default_landing_def js_def)
  have kept: "safeNextPath (Some s) = (if safe s then s else default_landing)" for s by (simp add: safeNextPath_def safe_def)
  have ok: "safe (safeNextPath v)" using land by (cases v) (auto simp: kept, simp add: safeNextPath_def)
  then obtain rest where "safeNextPath v = 47 # rest" "take 1 rest \<noteq> [47]"
    by (cases "safeNextPath v"; auto simp: safe_def js_def; cases "tl (safeNextPath v)"; auto)
  with ok kept show ?thesis by (auto simp: js_def safe_def list_all_iff list_ex_iff)
qed

text \<open>The memory callback never reaches its handler. The worker calls it with the callback secret and no cookie, as
  it calls the reply callback; the edge gate lets the reply callback pass, but it refuses every cookieless request of the memory
  callback, because the list of paths that authenticate themselves leaves it out. A delivery is answered 401 before the handler is asked.\<close>

theorem memory_callback_refused_at_edge:
  "middleware False (js ''/api/internal/memory-batches'') search = Refused_api
    \<and> middleware False (js ''/api/internal/reply-jobs'') search = Pass"
  by (simp add: middleware_def open_api_paths_def starts_with_def js_def)

section \<open>A development login\<close>

definition ex_auth :: auth_environment where
  "ex_auth = \<lparr>en_OWNER_EMAIL = Some (js ''a@b''), en_ORGANIZATION_ID = Some (js ''o''), en_OWNER_PASSWORD_HASH = None,
     en_OWNER_PASSWORD = Some (js ''pw''), en_NODE_ENV = None, en_ENVIRONMENT = None, en_AUTH_SECRET = Some (replicate 32 97),
     en_LOGIN_RATE_LIMIT = None, en_TRUSTED_PROXY_HOPS = None\<rparr>"

definition ex_owner_id :: owner_identity where
  "ex_owner_id = \<lparr>ow_email = js ''a@b'', ow_organizationId = js ''o''\<rparr>"

definition ex_session :: owner_session where
  "ex_session = \<lparr>os_email = js ''a@b'', os_organizationId = js ''o'', os_iat = 0, os_exp = session_ttl_seconds\<rparr>"

definition ex_crypto :: auth_crypto where
  "ex_crypto = \<lparr>cp_scrypt = (\<lambda>password _ n _. Some (replicate n (length password mod 256))), cp_hmac = (\<lambda>_ _. [97]), cp_lower = map to_lower,
     cp_print = (\<lambda>_. [98]), cp_read = (\<lambda>p. if p = [98] then Some (session_json ex_session) else None)\<rparr>"

definition ex_login :: "jstr \<Rightarrow> login_call" where
  "ex_login password = \<lparr>lg_forwardedFor = None, lg_body = Some (JObj [(js ''email'', JStr (js ''a@b'')), (js ''password'', JStr password)]),
     lg_audit = Audit_done, lg_now = 0, lg_answered = 0\<rparr>"

lemma ex_credentials: "readCredentials (lg_body (ex_login password)) = Some (js ''a@b'', password)"
  by (simp add: readCredentials_def ex_login_def field_def js_def)

lemma ex_utf8: "utf8_encode (js ''pw'') = js ''pw''" "utf8_encode (js ''xx'') = js ''xx''"
  by (simp_all add: utf8_encode_def scalar_of_def is_high_surrogate_def is_low_surrogate_def utf8_def js_def)

lemma ex_verify: "verifyOwnerCredentials ex_auth ex_crypto (js ''a@b'') (js ''pw'') = Some ex_owner_id"
  "verifyOwnerCredentials ex_auth ex_crypto (js ''a@b'') (js ''xx'') = None"
proof -
  have "js ''pw'' \<noteq> js ''xx''" "js ''a@b'' \<noteq> []" by (simp_all add: js_def)
  moreover have "trim (js ''a@b'') = js ''a@b''" "trim [] = []" by (simp_all add: trim_def trim_start_def trim_end_def is_space_def js_def)
  ultimately show "verifyOwnerCredentials ex_auth ex_crypto (js ''a@b'') (js ''pw'') = Some ex_owner_id"
    "verifyOwnerCredentials ex_auth ex_crypto (js ''a@b'') (js ''xx'') = None"
    by (simp_all add: verifyOwnerCredentials_def ex_auth_def unset_as_empty_def isProductionDeployment_def constantTimeEqual_def
        organization_id_def ex_owner_id_def ex_utf8 Let_def) (simp_all add: js_def)
qed

lemma ex_issued: "issueSession ex_auth ex_crypto ex_owner_id 0 = Some [98, 46, 97]"
  by (simp add: issueSession_def sign_def ex_auth_def ex_crypto_def js_def Let_def)

theorem password_hash_roundtrip_witness:
  "\<exists>stored. hashPassword ex_crypto (replicate 16 7) (js ''pw'') = Some stored \<and> verifyPassword ex_crypto (js ''pw'') stored
     \<and> \<not> verifyPassword ex_crypto (js ''longer'') stored"
proof -
  have s: "cp_scrypt ex_crypto attempt (replicate 16 7) scrypt_key_len (scrypt_N, scrypt_r, scrypt_p) = Some (replicate 32 (length attempt mod 256))" for attempt
    by (simp add: ex_crypto_def scrypt_key_len_def)
  have "list_all (\<lambda>b. b < 256) (replicate n (k mod 256 :: nat))" "list_all (\<lambda>b. b < (256 :: nat)) (replicate 16 7)" for n k
    by (simp_all add: list_all_iff)
  from password_hash_roundtrip [OF s _ this(2) _ this(1)] obtain stored where "hashPassword ex_crypto (replicate 16 7) (js ''pw'') = Some stored"
    "verifyPassword ex_crypto (js ''pw'') stored"
    "verifyPassword ex_crypto (js ''longer'') stored \<longleftrightarrow>
      cp_scrypt ex_crypto (js ''longer'') (replicate 16 7) scrypt_key_len (scrypt_N, scrypt_r, scrypt_p) = Some (replicate 32 (length (js ''pw'') mod 256))"
    by auto
  then show ?thesis using s by (simp add: js_def)
qed

theorem session_lives_until_expiry_witness:
  "currentOwner ex_auth ex_crypto (Some [98, 46, 97]) 604799999 = Inr (Some ex_owner_id)
    \<and> currentOwner ex_auth ex_crypto (Some [98, 46, 97]) 604800000 = Inr None"
proof -
  have "currentOwner ex_auth ex_crypto (Some [98, 46, 97]) now =
      Inr (if now div 1000 < 0 div 1000 + 604800 \<and> 0 div 1000 \<le> now div 1000 + 60 then Some ex_owner_id else None)" for now
    by (rule session_lives_until_expiry [OF ex_issued, where s = ex_session])
      (simp_all add: ex_session_def ex_owner_id_def ex_crypto_def)
  then show ?thesis by simp
qed

theorem login_needs_verified_credentials_witness:
  "\<exists>st. login ex_auth ex_crypto id (ex_login (js ''pw'')) (\<lambda>_. None, empty_db) = (st, Login_ok ex_owner_id [98, 46, 97])
    \<and> length (auditLog (snd st)) = 1 \<and> verified_owner ex_auth ex_crypto (lg_body (ex_login (js ''pw''))) ex_owner_id"
proof -
  have rate: "rateLimit ex_auth (\<lambda>_. None) ip now = (\<lambda>_. None, None)" for ip now by (simp add: rateLimit_def)
  have "finish_login ex_auth ex_crypto (ex_login (js ''pw'')) (\<lambda>_. None, empty_db)
      = record_login (ex_login (js ''pw'')) 0 (clearLoginFailures (\<lambda>_. None) (login_client ex_auth (ex_login (js ''pw''))), empty_db)
          (auth_entry (organization_id ex_auth) Auth_login_succeeded (login_client ex_auth (ex_login (js ''pw''))) (ow_email ex_owner_id) None)
          (Login_ok ex_owner_id [98, 46, 97])"
    by (simp add: finish_login_def ex_credentials ex_verify Let_def) (simp add: ex_login_def ex_issued)
  then obtain fails d where st: "login ex_auth ex_crypto id (ex_login (js ''pw'')) (\<lambda>_. None, empty_db) = ((fails, d), Login_ok ex_owner_id [98, 46, 97])"
    by (simp add: login_def rate record_login_def recordAuthEvent_def Let_def) (simp add: ex_login_def recordAuthEvent_def)
  from login_needs_verified_credentials [OF this rate] st show ?thesis by (simp add: Let_def empty_db_def)
qed

text \<open>Nine guesses at once: each is let in before the first is counted, and all nine are checked against a limit of five.\<close>

definition ex_guess :: login_call where "ex_guess = ex_login (js ''xx'')"

definition no_logins :: login_state where
  "no_logins = \<lparr>ls_failures = (\<lambda>_. None), ls_db = empty_db, ls_reading = [], ls_checked = []\<rparr>"

lemma ex_guess_fails: "failing_call ex_auth ex_crypto 0 ex_guess"
  by (simp add: failing_call_def ex_guess_def ex_credentials ex_verify rate_window_ms_def) (simp add: ex_login_def)

lemma ex_arrivals:
  "n \<le> 9 \<Longrightarrow> guessing ex_auth ex_crypto (login_client ex_auth ex_guess) 0 9 (no_logins\<lparr>ls_reading := replicate n ex_guess\<rparr>)"
proof (induction n)
  case 0
  then show ?case by (simp add: guessing.begins no_logins_def in_flight_def checked_attempts_def)
next
  case (Suc n)
  let ?s = "no_logins\<lparr>ls_reading := replicate n ex_guess\<rparr>"
  have e: "login_next ex_auth ex_crypto (Login_arrives ex_guess) ?s = no_logins\<lparr>ls_reading := replicate (Suc n) ex_guess\<rparr>"
    by (simp add: login_next_def rateLimit_def no_logins_def)
  have "in_flight ex_auth (login_client ex_auth ex_guess) (no_logins\<lparr>ls_reading := replicate (Suc n) ex_guess\<rparr>) \<le> 9"
    using Suc.prems by (simp add: in_flight_def)
  with guessing.goes_on [of ex_auth ex_crypto _ 0 9 ?s "Login_arrives ex_guess"] e Suc ex_guess_fails show ?case by simp
qed

lemma ex_answers:
  "m \<le> 9 \<Longrightarrow> \<exists>s. guessing ex_auth ex_crypto (login_client ex_auth ex_guess) 0 9 s \<and> ls_reading s = replicate (9 - m) ex_guess
     \<and> ls_checked s = replicate m (login_client ex_auth ex_guess)"
proof (induction m)
  case 0
  with ex_arrivals [of 9] show ?case by (intro exI [where x = "no_logins\<lparr>ls_reading := replicate 9 ex_guess\<rparr>"]) (simp add: no_logins_def)
next
  case (Suc m)
  then obtain s where s: "guessing ex_auth ex_crypto (login_client ex_auth ex_guess) 0 9 s" "ls_reading s = replicate (9 - m) ex_guess"
    "ls_checked s = replicate m (login_client ex_auth ex_guess)" by auto
  let ?t = "login_next ex_auth ex_crypto (Login_answered ex_guess) s"
  obtain k where k: "9 - m = Suc k" "9 - Suc m = k" using Suc.prems by (metis Suc_diff_Suc Suc_le_eq)
  have t: "ls_reading ?t = replicate k ex_guess" "ls_checked ?t = replicate (Suc m) (login_client ex_auth ex_guess)"
    using s(2,3) k(1) by (simp_all add: login_next_def Let_def)
  have "in_flight ex_auth (login_client ex_auth ex_guess) ?t \<le> 9" using t(1) k by (simp add: in_flight_def)
  with guessing.goes_on [OF s(1), of "Login_answered ex_guess"] ex_guess_fails have "guessing ex_auth ex_crypto (login_client ex_auth ex_guess) 0 9 ?t" by simp
  with t k(2) show ?case by blast
qed

theorem failed_logins_bounded_witness:
  "\<exists>s. guessing ex_auth ex_crypto (login_client ex_auth ex_guess) 0 9 s \<and> checked_attempts (login_client ex_auth ex_guess) s = 9
     \<and> int (in_flight ex_auth (login_client ex_auth ex_guess) s) \<le> \<lceil>login_limit ex_auth\<rceil> - 1"
proof -
  obtain s where s: "guessing ex_auth ex_crypto (login_client ex_auth ex_guess) 0 9 s" "ls_checked s = replicate 9 (login_client ex_auth ex_guess)"
    using ex_answers [of 9] by auto
  have "checked_attempts (login_client ex_auth ex_guess) s = 9" using s(2) by (simp add: checked_attempts_def numeral_eq_Suc)
  with failed_logins_bounded [OF s(1)] s(1) show ?thesis by (intro exI [where x = s]) simp
qed

end
