(* ===== verification/ConsoleProps.thy ===== *)
theory ConsoleProps
  imports Console Tenants AuthProps
begin

text \<open>
  The tenant boundary of the console: every repository call a handler makes reads and writes the rows of
  its organisation alone, so the routes meet the contract of \<open>Tenants\<close>. What follows is noninterference between organisations, and
  what the boundary owes the audit log.
\<close>

section \<open>Reads of one organisation\<close>

named_theorems view_simps \<open>operations on one organisation's rows\<close>

lemma view_update [view_simps]:
  "tenant_view org (d\<lparr>organizations := os\<rparr>) = (tenant_view org d)\<lparr>organizations := filter (\<lambda>x. og_id x = org) os\<rparr>"
  "tenant_view org (d\<lparr>instances := is\<rparr>) = (tenant_view org d)\<lparr>instances := filter (\<lambda>x. in_organizationId x = org) is\<rparr>"
  "tenant_view org (d\<lparr>groups := gs\<rparr>) = (tenant_view org d)\<lparr>groups := filter (\<lambda>x. gd_organizationId x = org) gs\<rparr>"
  "tenant_view org (d\<lparr>sendRequests := ss\<rparr>) = (tenant_view org d)\<lparr>sendRequests := filter (\<lambda>x. sr_organizationId x = org) ss\<rparr>"
  "tenant_view org (d\<lparr>pendingActions := ps\<rparr>) = (tenant_view org d)\<lparr>pendingActions := filter (\<lambda>x. pa_organizationId x = org) ps\<rparr>"
  by (simp_all add: tenant_view_def)

text \<open>A filter that asks for the organisation absorbs the restriction to it.\<close>

lemma org_filters:
  "find (is_instance org inst) (filter (\<lambda>x. in_organizationId x = org) is) = find (is_instance org inst) is"
  "find (live_instance org inst) (filter (\<lambda>x. in_organizationId x = org) is) = find (live_instance org inst) is"
  "filter (\<lambda>x. in_organizationId x = org \<and> live_instance org inst x) is = filter (live_instance org inst) is"
  "find (is_group org inst jid) (filter (\<lambda>x. gd_organizationId x = org) gs) = find (is_group org inst jid) gs"
  "filter (\<lambda>x. gd_organizationId x = org \<and> of_instance org inst x) gs = filter (of_instance org inst) gs"
  "filter (\<lambda>x. gd_organizationId x = org \<and> of_instance org inst x \<and> R x) gs = filter (\<lambda>x. of_instance org inst x \<and> R x) gs"
  "find (is_message org inst wa) (filter (\<lambda>x. ms_organizationId x = org) ms) = find (is_message org inst wa) ms"
  by (auto intro!: find_within filter_cong [OF refl] simp: is_instance_def live_instance_def is_group_def of_instance_def is_message_def)

lemma view_getSend [view_simps]: "getSend (tenant_view org d) org = getSend d org"
  by (rule ext) (simp add: getSend_def find_filter)

lemma view_target [view_simps]: "sendTargetState (tenant_view org d) org inst jid = sendTargetState d org inst jid"
  by (simp add: sendTargetState_def find_filter conj_ac cong: option.case_cong)

lemma view_loadAction [view_simps]: "loadAction (tenant_view org d) org ref = loadAction d org ref"
  by (simp add: loadAction_def find_filter)

lemma view_listPendingActions [view_simps]: "listPendingActions (tenant_view org d) org = listPendingActions d org"
  by (simp add: listPendingActions_def)

lemma view_groups [view_simps]:
  "listAllGroups (tenant_view org d) org = listAllGroups d org"
  "listInstanceGroups (tenant_view org d) org inst = listInstanceGroups d org inst"
  "readGroupDetail (tenant_view org d) org inst jid = readGroupDetail d org inst jid"
  by (simp_all add: listAllGroups_def instanceLabels_def listInstanceGroups_def readGroupDetail_def instanceLabel_def org_filters)

lemma view_instances [view_simps]:
  "readInstanceConfig (tenant_view org d) org inst = readInstanceConfig d org inst"
  "getInstanceRuntime (tenant_view org d) org inst = getInstanceRuntime d org inst"
  "instanceInOrg (tenant_view org d) org inst = instanceInOrg d org inst"
  by (simp_all add: readInstanceConfig_def getInstanceRuntime_def instanceInOrg_def org_filters)

lemma view_unknownGroups [view_simps]: "unknownGroups (tenant_view org d) org inst jids = unknownGroups d org inst jids"
  by (simp add: unknownGroups_def org_filters del: set_map list.set_map set_filter)

lemma view_messages [view_simps]:
  "messageRawTree (tenant_view org d) org inst wa = messageRawTree d org inst wa"
  "messageMediaKey (tenant_view org d) org inst wa = messageMediaKey d org inst wa"
  by (simp_all add: messageRawTree_def messageMediaKey_def org_filters)

lemma view_org_jids [view_simps]: "org_jids (tenant_view org d) org = org_jids d org"
  by (simp add: org_jids_def find_filter)

lemma filter_needs_org: "messageFilter env inp = Some ok \<Longrightarrow> ok m \<Longrightarrow> ms_organizationId m = mi_organizationId inp"
  by (auto simp: messageFilter_def in_filters_def split: option.splits list.splits)

lemma view_search [view_simps]:
  assumes "mi_organizationId inp = org"
  shows "searchMessages env (tenant_view org d) inp = searchMessages env d inp"
proof (cases "messageFilter env inp")
  case (Some ok)
  have page: "message_page (tenant_view org d) wanted n = message_page d wanted n"
    if "\<And>m. wanted m \<Longrightarrow> ok m" for wanted n
  proof -
    have "filter (\<lambda>m. ms_organizationId m = org \<and> wanted m) (messages d) = filter wanted (messages d)"
      using filter_needs_org [OF Some] that assms by (intro filter_cong) auto
    then show ?thesis by (simp add: message_page_def)
  qed
  let ?q = "take max_query_length (trim (mi_query inp))"
  have "message_page (tenant_view org d) (\<lambda>m. ok m \<and> mv_textHit env ?q m) n = message_page d (\<lambda>m. ok m \<and> mv_textHit env ?q m) n"
    "message_page (tenant_view org d) (\<lambda>m. ok m \<and> typeahead env ?q m) n = message_page d (\<lambda>m. ok m \<and> typeahead env ?q m) n"
    "message_page (tenant_view org d) ok n = message_page d ok n" for n
    by (rule page; simp)+
  then show ?thesis by (simp add: searchMessages_def Some Let_def)
qed (simp add: searchMessages_def)

section \<open>Writes of one organisation\<close>

lemma view_same [simp]:
  "(tenant_view t d)\<lparr>organizations := filter (\<lambda>x. og_id x = t) (organizations d)\<rparr> = tenant_view t d"
  "(tenant_view t d)\<lparr>instances := filter (\<lambda>x. in_organizationId x = t) (instances d)\<rparr> = tenant_view t d"
  "(tenant_view t d)\<lparr>groups := filter (\<lambda>x. gd_organizationId x = t) (groups d)\<rparr> = tenant_view t d"
  "(tenant_view t d)\<lparr>sendRequests := filter (\<lambda>x. sr_organizationId x = t) (sendRequests d)\<rparr> = tenant_view t d"
  "(tenant_view t d)\<lparr>pendingActions := filter (\<lambda>x. pa_organizationId x = t) (pendingActions d)\<rparr> = tenant_view t d"
  by (simp_all add: tenant_view_def)

lemma own_createSend [view_simps]:
  assumes "ci_organizationId inp = org"
  shows "createSend (tenant_view org d) inp now uuid oid = map_prod (tenant_view org) id (createSend d inp now uuid oid)"
proof -
  have key: "has_idempotency_key org k s \<Longrightarrow> sr_organizationId s = org" for k s by (simp add: has_idempotency_key_def)
  have new: "has_idempotency_key org (ci_idempotencyKey inp) (create_candidate inp now uuid oid)"
    by (simp add: has_idempotency_key_def create_candidate_def assms Let_def)
  have cand: "sr_organizationId (create_candidate inp now uuid oid) = org" by (simp add: create_candidate_def assms Let_def)
  have entry: "ae_organizationId (create_audit inp s) = org" for s by (simp add: create_audit_def assms)
  show ?thesis
    by (cases "find (has_idempotency_key org (ci_idempotencyKey inp)) (sendRequests d)")
      (simp_all add: createSend_def Let_def assms find_within [OF key] find_append new cand entry view_update)
qed

lemma other_createSend [view_simps]:
  assumes "ci_organizationId inp \<noteq> t"
  shows "tenant_view t (fst (createSend d inp now uuid oid)) = tenant_view t d"
proof -
  have cand: "sr_organizationId (create_candidate inp now uuid oid) \<noteq> t" by (simp add: create_candidate_def assms Let_def)
  have entry: "ae_organizationId (create_audit inp s) \<noteq> t" for s by (simp add: create_audit_def assms)
  show ?thesis
    by (cases "find (has_idempotency_key (ci_organizationId inp) (ci_idempotencyKey inp)) (sendRequests d)")
      (simp_all add: createSend_def Let_def assms cand entry view_update split: option.splits)
qed

lemma keeps_org:
  "sr_organizationId (approve_update b s now x) = sr_organizationId x" "sr_organizationId (transition_update action now x) = sr_organizationId x"
  "pa_organizationId (decide_update inp now p) = pa_organizationId p" "pa_organizationId (claim_update now p) = pa_organizationId p"
  "pa_organizationId (settle_update st now p) = pa_organizationId p" "gd_organizationId (set_config f g) = gd_organizationId g"
  by (simp_all add: approve_update_def transition_update_def decide_update_def claim_update_def settle_update_def set_config_def)

lemma own_approve_txn:
  "approve_txn (tenant_view org d) org i initial scheduled ip now = map_prod (tenant_view org) id (approve_txn d org i initial scheduled ip now)"
proof -
  have within: "approve_filter org i initial s \<Longrightarrow> sr_organizationId s = org" for s by (simp add: approve_filter_def)
  show ?thesis
    by (simp add: approve_txn_def Let_def modified_within [OF within] update_one_within [OF within] keeps_org view_update)
qed

lemma other_approve_txn:
  assumes "org \<noteq> t"
  shows "tenant_view t (fst (approve_txn d org i initial scheduled ip now)) = tenant_view t d"
proof -
  have outside: "approve_filter org i initial s \<Longrightarrow> sr_organizationId s \<noteq> t" for s using assms by (simp add: approve_filter_def)
  show ?thesis
    by (simp add: approve_txn_def Let_def update_one_outside [OF outside] keeps_org view_update assms)
qed

lemma own_approveSend [view_simps]:
  "approveSend (tenant_view org d) org i ip scheduled now = map_prod (tenant_view org) id (approveSend d org i ip scheduled now)"
  by (simp add: approveSend_def Let_def view_getSend own_approve_txn split: sum.splits option.splits)

lemma other_approveSend [view_simps]: "org \<noteq> t \<Longrightarrow> tenant_view t (fst (approveSend d org i ip scheduled now)) = tenant_view t d"
  by (simp add: approveSend_def Let_def other_approve_txn split: sum.splits)

lemma own_transition_txn:
  "transition_txn (tenant_view org d) org i action ip by' now = map_prod (tenant_view org) id (transition_txn d org i action ip by' now)"
proof -
  let ?P = "\<lambda>s. sr_organizationId s = org \<and> sr_id s = i \<and> transition_allowed action (sr_status s)"
  let ?f = "transition_update action now"
  have "modified ?P ?f (filter (\<lambda>x. sr_organizationId x = org) ss) = modified ?P ?f ss"
    "update_one ?P ?f (filter (\<lambda>x. sr_organizationId x = org) ss) = filter (\<lambda>x. sr_organizationId x = org) (update_one ?P ?f ss)" for ss
    by (rule modified_within update_one_within; simp add: keeps_org)+
  then show ?thesis by (simp add: transition_txn_def Let_def view_update)
qed

lemma other_transition_txn:
  assumes "org \<noteq> t"
  shows "tenant_view t (fst (transition_txn d org i action ip by' now)) = tenant_view t d"
proof -
  let ?P = "\<lambda>s. sr_organizationId s = org \<and> sr_id s = i \<and> transition_allowed action (sr_status s)"
  have "filter (\<lambda>x. sr_organizationId x = t) (update_one ?P (transition_update action now) ss) = filter (\<lambda>x. sr_organizationId x = t) ss" for ss
    using assms by (intro update_one_outside) (auto simp: keeps_org)
  then show ?thesis by (simp add: transition_txn_def Let_def view_update assms)
qed

lemma own_transitionSend [view_simps]:
  "transitionSend (tenant_view org d) org i action ip by' now = map_prod (tenant_view org) id (transitionSend d org i action ip by' now)"
  by (simp add: transitionSend_def Let_def view_getSend own_transition_txn)

lemma other_transitionSend [view_simps]:
  "org \<noteq> t \<Longrightarrow> tenant_view t (fst (transitionSend d org i action ip by' now)) = tenant_view t d"
  by (simp add: transitionSend_def Let_def other_transition_txn)

lemma own_decideAction [view_simps]:
  assumes "de_organizationId inp = org"
  shows "decideAction (tenant_view org d) inp now = map_prod (tenant_view org) id (decideAction d inp now)"
proof -
  let ?P = "\<lambda>p. pa_organizationId p = org \<and> pa_state p = Pa_pending \<and> refFilter (de_ref inp) p"
  let ?f = "decide_update inp now"
  have "found_after ?P ?f (filter (\<lambda>x. pa_organizationId x = org) ps) = found_after ?P ?f ps"
    "update_one ?P ?f (filter (\<lambda>x. pa_organizationId x = org) ps) = filter (\<lambda>x. pa_organizationId x = org) (update_one ?P ?f ps)" for ps
    by (rule found_after_within update_one_within; simp add: keeps_org)+
  moreover have "ae_organizationId (decide_audit inp p) = org" for p by (simp add: decide_audit_def assms)
  ultimately show ?thesis
    by (simp add: decideAction_def decide_txn_def Let_def view_update view_loadAction assms split: option.splits)
qed

lemma other_decideAction [view_simps]:
  assumes "de_organizationId inp \<noteq> t"
  shows "tenant_view t (fst (decideAction d inp now)) = tenant_view t d"
proof -
  let ?P = "\<lambda>p. pa_organizationId p = de_organizationId inp \<and> pa_state p = Pa_pending \<and> refFilter (de_ref inp) p"
  have "filter (\<lambda>x. pa_organizationId x = t) (update_one ?P (decide_update inp now) ps) = filter (\<lambda>x. pa_organizationId x = t) ps" for ps
    using assms by (intro update_one_outside) (auto simp: keeps_org)
  moreover have "ae_organizationId (decide_audit inp p) \<noteq> t" for p by (simp add: decide_audit_def assms)
  ultimately show ?thesis by (simp add: decideAction_def decide_txn_def Let_def view_update split: option.splits)
qed

text \<open>The executor, part by part.\<close>

lemma own_claim:
  assumes "pa_organizationId a = org"
  shows "claim (tenant_view org d) a ip now = map_prod (tenant_view org) id (claim d a ip now)"
proof -
  have within: "claim_filter a p \<Longrightarrow> pa_organizationId p = org" for p by (simp add: claim_filter_def assms)
  have "ae_organizationId (claim_audit a ip) = org" by (simp add: claim_audit_def assms)
  then show ?thesis
    by (simp add: claim_def found_after_within [OF within] update_one_within [OF within] keeps_org view_update split: option.splits)
qed

lemma other_claim:
  assumes "pa_organizationId a \<noteq> t"
  shows "tenant_view t (fst (claim d a ip now)) = tenant_view t d"
proof -
  have outside: "claim_filter a p \<Longrightarrow> pa_organizationId p \<noteq> t" for p using assms by (simp add: claim_filter_def)
  have "ae_organizationId (claim_audit a ip) \<noteq> t" by (simp add: claim_audit_def assms)
  then show ?thesis by (simp add: claim_def update_one_outside [OF outside] keeps_org view_update split: option.splits)
qed

lemma own_settle:
  assumes "pa_organizationId a = org"
  shows "settle (tenant_view org d) a st ip now = map_prod (tenant_view org) id (settle d a st ip now)"
proof -
  have within: "settle_filter a p \<Longrightarrow> pa_organizationId p = org" for p by (simp add: settle_filter_def assms)
  have "ae_organizationId (settle_audit a st ip) = org" by (simp add: settle_audit_def assms)
  then show ?thesis
    by (simp add: settle_def found_after_within [OF within] update_one_within [OF within] keeps_org view_update split: option.splits)
qed

lemma other_settle:
  assumes "pa_organizationId a \<noteq> t"
  shows "tenant_view t (fst (settle d a st ip now)) = tenant_view t d"
proof -
  have outside: "settle_filter a p \<Longrightarrow> pa_organizationId p \<noteq> t" for p using assms by (simp add: settle_filter_def)
  have "ae_organizationId (settle_audit a st ip) \<noteq> t" by (simp add: settle_audit_def assms)
  then show ?thesis by (simp add: settle_def update_one_outside [OF outside] keeps_org view_update split: option.splits)
qed

lemma own_perform:
  assumes "pa_organizationId a = org"
  shows "perform env (tenant_view org d) a = map_prod (tenant_view org) id (perform env d a)"
proof -
  have cancel: "perform_cancel env (tenant_view org d) a = map_prod (tenant_view org) id (perform_cancel env d a)"
    by (auto simp: perform_cancel_def Let_def assms view_getSend own_transitionSend split: prod.splits send_transition.splits)
  have send: "perform_send env (tenant_view org d) a = map_prod (tenant_view org) id (perform_send env d a)"
    by (auto simp: perform_send_def assms own_createSend split: sum.splits prod.splits)
  show ?thesis by (simp add: perform_def Let_def cancel send)
qed

lemma other_perform:
  assumes "pa_organizationId a \<noteq> t"
  shows "tenant_view t (fst (perform env d a)) = tenant_view t d"
proof -
  have "tenant_view t d' = tenant_view t d" if "transitionSend d (pa_organizationId a) i c ip who now = (d', r)" for d' i c ip who now r
    using other_transitionSend [OF assms, of d i c ip who now] that by simp
  moreover have "tenant_view t d' = tenant_view t d" if "createSend d inp now uuid oid = (d', r)" "ci_organizationId inp = pa_organizationId a" for inp now uuid oid d' r
    using other_createSend [of inp t d now uuid oid] that assms by simp
  ultimately show ?thesis
    by (auto simp: perform_def perform_cancel_def perform_send_def Let_def split: sum.splits prod.splits send_transition.splits)
qed

lemma own_executeAction [view_simps]:
  assumes "pa_organizationId a = org"
  shows "executeAction env (tenant_view org d) a = map_prod (tenant_view org) id (executeAction env d a)"
  by (simp add: executeAction_def own_claim own_perform own_settle assms split: prod.splits option.splits sum.splits)

lemma other_executeAction [view_simps]:
  assumes "pa_organizationId a \<noteq> t"
  shows "tenant_view t (fst (executeAction env d a)) = tenant_view t d"
proof -
  have "tenant_view t d' = tenant_view t d" if "claim d a ip now = (d', r)" for d d' ip now r using other_claim [OF assms, of d ip now] that by simp
  moreover have "tenant_view t d' = tenant_view t d" if "perform env d a = (d', r)" for d d' r using other_perform [OF assms, of env d] that by simp
  moreover have "tenant_view t d' = tenant_view t d" if "settle d a st ip now = (d', r)" for d d' st ip now r using other_settle [OF assms, of d st ip now] that by simp
  ultimately show ?thesis by (auto simp: executeAction_def split: prod.splits option.splits sum.splits)
qed

text \<open>The configuration writes.\<close>

lemma own_moveGroupWhitelistJid:
  assumes "mv_organizationId mv = org"
  shows "moveGroupWhitelistJid (tenant_view org d) mv now = map_sum id (tenant_view org) (moveGroupWhitelistJid d mv now)"
proof -
  have within: "is_instance org (mv_instanceId mv) i \<Longrightarrow> in_organizationId i = org" for i by (simp add: is_instance_def)
  have "ae_organizationId (move_entry mv) = org" by (simp add: move_entry_def assms)
  then show ?thesis
    by (simp add: moveGroupWhitelistJid_def assms org_filters update_one_within [OF within] view_update split: option.splits)
qed

lemma other_moveGroupWhitelistJid:
  assumes "mv_organizationId mv \<noteq> t" and "moveGroupWhitelistJid d mv now = Inr d'"
  shows "tenant_view t d' = tenant_view t d"
proof -
  have outside: "is_instance (mv_organizationId mv) (mv_instanceId mv) i \<Longrightarrow> in_organizationId i \<noteq> t" for i using assms(1) by (simp add: is_instance_def)
  have "ae_organizationId (move_entry mv) \<noteq> t" by (simp add: move_entry_def assms)
  then show ?thesis using assms(2)
    by (auto simp: moveGroupWhitelistJid_def update_one_outside [OF outside] view_update split: option.splits)
qed

lemma own_updateGroupConfig [view_simps]:
  "updateGroupConfig (tenant_view org d) org jid p ip now = map_sum id (map_prod (tenant_view org) id) (updateGroupConfig d org jid p ip now)"
proof -
  have within: "is_group org inst jid g \<Longrightarrow> gd_organizationId g = org" for inst g by (simp add: is_group_def of_instance_def)
  have hits: "filter (\<lambda>x. gd_organizationId x = org \<and> addressed org jid p x) (groups d) = filter (addressed org jid p) (groups d)"
    by (rule filter_cong [OF refl]) (auto simp: addressed_def)
  have move: "moveGroupWhitelistJid ((tenant_view org d)\<lparr>groups := filter (\<lambda>x. gd_organizationId x = org) gs\<rparr>)
      \<lparr>mv_organizationId = org, mv_instanceId = inst, mv_groupJid = jid, mv_whitelisted = w, mv_ip = ip\<rparr> now
    = map_sum id (tenant_view org) (moveGroupWhitelistJid (d\<lparr>groups := gs\<rparr>)
      \<lparr>mv_organizationId = org, mv_instanceId = inst, mv_groupJid = jid, mv_whitelisted = w, mv_ip = ip\<rparr> now)" for gs inst w
    using own_moveGroupWhitelistJid [of "\<lparr>mv_organizationId = org, mv_instanceId = inst, mv_groupJid = jid, mv_whitelisted = w, mv_ip = ip\<rparr>" org "d\<lparr>groups := gs\<rparr>"]
    by (simp add: view_update)
  show ?thesis
    by (simp add: updateGroupConfig_def Let_def hits found_after_within [OF within] update_one_within [OF within] keeps_org view_update move
        split: list.splits option.splits sum.splits)
qed

lemma other_updateGroupConfig:
  assumes "org \<noteq> t" and "updateGroupConfig d org jid p ip now = Inr (d', r)"
  shows "tenant_view t d' = tenant_view t d"
proof -
  have outside: "is_group org inst jid g \<Longrightarrow> gd_organizationId g \<noteq> t" for inst g using assms(1) by (simp add: is_group_def of_instance_def)
  have move: "tenant_view t d'' = tenant_view t d" if "moveGroupWhitelistJid (d\<lparr>groups := update_one (is_group org inst jid) (set_config f) (groups d)\<rparr>)
      \<lparr>mv_organizationId = org, mv_instanceId = inst, mv_groupJid = jid, mv_whitelisted = w, mv_ip = ip\<rparr> now = Inr d''" for inst f w d''
    using other_moveGroupWhitelistJid [OF _ that, of t] assms(1)
    by (simp add: view_update update_one_outside [OF outside] keeps_org)
  show ?thesis using assms(2)
    by (auto simp: updateGroupConfig_def Let_def update_one_outside [OF outside] keeps_org view_update dest: move
        split: list.splits option.splits sum.splits if_splits)
qed

lemma own_whitelist_txn:
  "whitelist_txn (tenant_view org d) org inst before after ip now = tenant_view org (whitelist_txn d org inst before after ip now)"
proof -
  have within: "is_instance org inst i \<Longrightarrow> in_organizationId i = org" for i by (simp add: is_instance_def)
  have "ae_organizationId (whitelist_entry org inst before after ip) = org" by (simp add: whitelist_entry_def)
  then show ?thesis
    by (simp add: whitelist_txn_def Let_def update_one_within [OF within] update_many_within keeps_org view_update)
qed

lemma other_whitelist_txn:
  assumes "org \<noteq> t"
  shows "tenant_view t (whitelist_txn d org inst before after ip now) = tenant_view t d"
proof -
  have outside: "is_instance org inst i \<Longrightarrow> in_organizationId i \<noteq> t" for i using assms by (simp add: is_instance_def)
  have many: "filter (\<lambda>x. gd_organizationId x = t) (update_many (\<lambda>g. of_instance org inst g \<and> R g) (set_config f) gs) = filter (\<lambda>x. gd_organizationId x = t) gs"
    for R f gs using assms by (intro update_many_outside) (auto simp: keeps_org of_instance_def)
  have "ae_organizationId (whitelist_entry org inst before after ip) \<noteq> t" by (simp add: whitelist_entry_def assms)
  then show ?thesis by (simp add: whitelist_txn_def Let_def update_one_outside [OF outside] many view_update)
qed

lemma own_updateInstanceConfig [view_simps]:
  "updateInstanceConfig (tenant_view org d) org inst jids ip now = map_prod (tenant_view org) id (updateInstanceConfig d org inst jids ip now)"
  by (simp add: updateInstanceConfig_def Let_def view_instances view_unknownGroups own_whitelist_txn split: option.splits)

lemma other_updateInstanceConfig:
  "org \<noteq> t \<Longrightarrow> tenant_view t (fst (updateInstanceConfig d org inst jids ip now)) = tenant_view t d"
  by (simp add: updateInstanceConfig_def Let_def other_whitelist_txn split: option.splits)

lemma own_store_jids [view_simps]: "store_jids (tenant_view org d) org jids = tenant_view org (store_jids d org jids)"
proof -
  have "update_one (\<lambda>x. og_id x = org) (og_autoReplyAuthorizedJids_update f) (filter (\<lambda>x. og_id x = org) os)
    = filter (\<lambda>x. og_id x = org) (update_one (\<lambda>x. og_id x = org) (og_autoReplyAuthorizedJids_update f) os)" for f and os :: "organization_doc list"
    by (rule update_one_within; simp)
  then show ?thesis by (simp add: store_jids_def Let_def find_filter view_update split: option.splits)
qed

lemma other_store_jids: "org \<noteq> t \<Longrightarrow> tenant_view t (store_jids d org jids) = tenant_view t d"
proof -
  assume "org \<noteq> t"
  then have "filter (\<lambda>x. og_id x = t) (update_one (\<lambda>x. og_id x = org) (og_autoReplyAuthorizedJids_update f) os) = filter (\<lambda>x. og_id x = t) os" for f and os :: "organization_doc list"
    by (intro update_one_outside) auto
  with \<open>org \<noteq> t\<close> show ?thesis by (simp add: store_jids_def Let_def view_update split: option.splits)
qed

lemma other_createInstance:
  "org \<noteq> t \<Longrightarrow> createInstance d org inp draw now = Inr (d', doc) \<Longrightarrow> tenant_view t d' = tenant_view t d"
  by (auto simp: createInstance_def Let_def view_update split: if_splits)

section \<open>The routes\<close>

text \<open>The organisation a request acts for: the session's, or none.\<close>

definition tenant_of :: "console_env \<Rightarrow> console_call \<times> console_route \<Rightarrow> jstr option" where
  "tenant_of env q = (case requireOwner env (fst q) of Inr (Some owner) \<Rightarrow> Some (ow_organizationId owner) | _ \<Rightarrow> None)"

lemma tenant_of_Some: "tenant_of env (call, route) = Some t \<longleftrightarrow> (\<exists>owner. requireOwner env call = Inr (Some owner) \<and> ow_organizationId owner = t)"
  by (auto simp: tenant_of_def split: sum.splits option.splits)

text \<open>What a handler does with an owner, on the tenant's rows and for anybody else.\<close>

lemma with_owner: "requireOwner env call = Inr (Some owner) \<Longrightarrow> as_owner env call d handler = handler owner"
  by (simp add: as_owner_def)

lemma own_with_json:
  assumes "\<And>x. h' x = map_prod (tenant_view org) id (h x)"
  shows "with_json call (tenant_view org d) schema h' = map_prod (tenant_view org) id (with_json call d schema h)"
  using assms by (simp add: with_json_def split: request_body.splits option.splits)

lemma other_with_json: "(\<And>x. tenant_view t (fst (h x)) = tenant_view t d) \<Longrightarrow> tenant_view t (fst (with_json call d schema h)) = tenant_view t d"
  by (simp add: with_json_def split: request_body.splits option.splits)

lemma own_guard:
  assumes "requireOwner env call = Inr (Some owner)" and "ow_organizationId owner = org" and "h' org = map_prod (tenant_view org) id (h org)"
  shows "guardInstance env call (tenant_view org d) inst h' = map_prod (tenant_view org) id (guardInstance env call d inst h)"
  using assms by (simp add: guardInstance_def with_owner view_instances)

lemma own_reads:
  assumes owner: "requireOwner env call = Inr (Some owner)" and org: "ow_organizationId owner = org"
  shows "getSends env call (tenant_view org d) = map_prod (tenant_view org) id (getSends env call d)"
    "getActions env call (tenant_view org d) = map_prod (tenant_view org) id (getActions env call d)"
    "getGroups env call (tenant_view org d) = map_prod (tenant_view org) id (getGroups env call d)"
    "getGroup env call jid (tenant_view org d) = map_prod (tenant_view org) id (getGroup env call jid d)"
    "getInstanceGroups env call inst (tenant_view org d) = map_prod (tenant_view org) id (getInstanceGroups env call inst d)"
    "getAuthorizedJids env call (tenant_view org d) = map_prod (tenant_view org) id (getAuthorizedJids env call d)"
    "getSession env call (tenant_view org d) = map_prod (tenant_view org) id (getSession env call d)"
    "getRaw env call wa (tenant_view org d) = map_prod (tenant_view org) id (getRaw env call wa d)"
    "getMediaUrl env call wa (tenant_view org d) = map_prod (tenant_view org) id (getMediaUrl env call wa d)"
  by (simp_all add: getSends_def getActions_def getGroups_def getGroup_def getInstanceGroups_def getAuthorizedJids_def getSession_def
      getRaw_def getMediaUrl_def with_owner [OF owner] org view_simps split: option.splits sum.splits media_error.splits)

lemma own_pages:
  assumes owner: "requireOwner env call = Inr (Some owner)" and org: "ow_organizationId owner = org"
  shows "getMessages env call (tenant_view org d) = map_prod (tenant_view org) id (getMessages env call d)"
    "getGroupMessages env call jid (tenant_view org d) = map_prod (tenant_view org) id (getGroupMessages env call jid d)"
  by (simp_all add: getMessages_def getGroupMessages_def page_answer_def with_owner [OF owner] org view_search Let_def split: option.splits)

lemma own_guarded:
  assumes owner: "requireOwner env call = Inr (Some owner)" and org: "ow_organizationId owner = org"
  shows "getConfig env call inst (tenant_view org d) = map_prod (tenant_view org) id (getConfig env call inst d)"
    "patchInstance env call inst (tenant_view org d) = map_prod (tenant_view org) id (patchInstance env call inst d)"
    "postPairingCode env call inst (tenant_view org d) = map_prod (tenant_view org) id (postPairingCode env call inst d)"
  unfolding getConfig_def patchInstance_def postPairingCode_def
  by (rule own_guard [OF owner org] own_with_json | simp add: view_simps split: option.splits prod.splits config_update.splits)+

lemma own_writes:
  assumes owner: "requireOwner env call = Inr (Some owner)" and org: "ow_organizationId owner = org"
  shows "postSend env call (tenant_view org d) = map_prod (tenant_view org) id (postSend env call d)"
    "postApprove env call i (tenant_view org d) = map_prod (tenant_view org) id (postApprove env call i d)"
    "decideSend env call i action (tenant_view org d) = map_prod (tenant_view org) id (decideSend env call i action d)"
    "patchGroup env call jid (tenant_view org d) = map_prod (tenant_view org) id (patchGroup env call jid d)"
    "patchAuthorizedJids env call (tenant_view org d) = map_prod (tenant_view org) id (patchAuthorizedJids env call d)"
  unfolding postSend_def postApprove_def decideSend_def patchGroup_def patchAuthorizedJids_def with_owner [OF owner] org Let_def
  by (rule own_with_json | simp add: view_simps prod.map_comp map_prod_def split: option.splits prod.splits sum.splits group_config_update.splits)+

lemma decided_org: "decideAction d inp now = (d', Decided row) \<Longrightarrow> pa_organizationId row = de_organizationId inp"
  by (auto simp: decideAction_def decide_txn_def Let_def found_after_def keeps_org split: option.splits dest!: find_Some_in)

lemma own_postAction:
  assumes owner: "requireOwner env call = Inr (Some owner)" and org: "ow_organizationId owner = org"
  shows "postAction env call i (tenant_view org d) = map_prod (tenant_view org) id (postAction env call i d)"
  unfolding postAction_def with_owner [OF owner] org
proof (rule own_with_json, goal_cases)
  case (1 decision)
  let ?inp = "\<lparr>de_organizationId = org, de_ref = By_id i, de_decision = decision, de_decidedBy = ow_email owner, de_ip = client_of env call\<rparr>"
  show ?case
  proof (cases "decideAction d ?inp (cn_now call)")
    case (Pair d1 r)
    show ?thesis
    proof (cases r)
      case (Decided row)
      with Pair decided_org have "pa_organizationId row = org" by force
      then show ?thesis using Pair Decided
        by (simp add: own_decideAction own_executeAction split: prod.splits sum.splits execute_outcome.splits)
    qed (use Pair in \<open>simp_all add: own_decideAction\<close>)
  qed
qed

lemma own_serve:
  assumes "snd q \<noteq> Post_instance" and "tenant_of env q = Some org"
  shows "serve env q (tenant_view org d) = map_prod (tenant_view org) id (serve env q d)"
proof -
  obtain call route where q: "q = (call, route)" by (cases q)
  with assms(2) obtain owner where "requireOwner env call = Inr (Some owner)" "ow_organizationId owner = org"
    by (auto simp: tenant_of_Some)
  with q assms(1) show ?thesis
    by (cases route) (simp_all add: own_reads own_pages own_guarded own_writes own_postAction)
qed

text \<open>Without an owner a request changes nothing and is answered 401, or the error of a missing secret is rethrown.\<close>

definition turned_away :: "console_answer \<Rightarrow> bool" where
  "turned_away a = (case a of Answer status v \<Rightarrow> status = 401 \<and> v = V_signed_out | Refusal status _ _ _ \<Rightarrow> status = 401 | Rethrown _ \<Rightarrow> True)"

lemma no_owner:
  assumes "tenant_of env q = None"
  shows "fst (serve env q d) = d \<and> turned_away (snd (serve env q d))"
proof -
  obtain call route where q: "q = (call, route)" by (cases q)
  with assms consider e where "requireOwner env call = Inl e" | "requireOwner env call = Inr None"
    by (auto simp: tenant_of_def split: sum.splits option.splits)
  then have away: "fst (as_owner env call d h) = d \<and> turned_away (snd (as_owner env call d h))" for h
    by cases (simp_all add: as_owner_def turned_away_def unauthorized_answer_def)
  have "turned_away (snd (getSession env call d)) \<and> fst (getSession env call d) = d"
    using assms q by (auto simp: getSession_def turned_away_def tenant_of_def split: sum.splits option.splits)
  with q away show ?thesis
    by (cases route) (simp_all add: getSends_def getActions_def getGroups_def getGroup_def getInstanceGroups_def getAuthorizedJids_def
      getRaw_def getMediaUrl_def getMessages_def getGroupMessages_def getConfig_def patchInstance_def postPairingCode_def guardInstance_def
      postSend_def postApprove_def decideSend_def patchGroup_def patchAuthorizedJids_def postAction_def postInstance_def)
qed

text \<open>With an owner, the rows of every other organisation stay as they are.\<close>

lemma read_only:
  assumes "requireOwner env call = Inr (Some owner)"
  shows "fst (getSends env call d) = d" "fst (getActions env call d) = d" "fst (getGroups env call d) = d" "fst (getGroup env call jid d) = d"
    "fst (getInstanceGroups env call inst d) = d" "fst (getAuthorizedJids env call d) = d" "fst (getSession env call d) = d"
    "fst (getRaw env call wa d) = d" "fst (getMediaUrl env call wa d) = d" "fst (getMessages env call d) = d"
    "fst (getGroupMessages env call jid d) = d" "fst (getConfig env call inst d) = d" "fst (postPairingCode env call inst d) = d"
  by (simp_all add: getSends_def getActions_def getGroups_def getGroup_def getInstanceGroups_def getAuthorizedJids_def getSession_def
      getRaw_def getMediaUrl_def getMessages_def getGroupMessages_def page_answer_def getConfig_def postPairingCode_def guardInstance_def
      with_owner [OF assms] Let_def split: option.splits sum.splits media_error.splits prod.splits)

lemma other_writes:
  assumes owner: "requireOwner env call = Inr (Some owner)" and "ow_organizationId owner \<noteq> t"
  shows "tenant_view t (fst (postSend env call d)) = tenant_view t d"
    "tenant_view t (fst (postApprove env call i d)) = tenant_view t d"
    "tenant_view t (fst (decideSend env call i action d)) = tenant_view t d"
    "tenant_view t (fst (patchAuthorizedJids env call d)) = tenant_view t d"
proof -
  show "tenant_view t (fst (postSend env call d)) = tenant_view t d"
    unfolding postSend_def with_owner [OF owner] Let_def
  proof (rule other_with_json, goal_cases)
    case (1 body)
    let ?inp = "\<lparr>ci_organizationId = ow_organizationId owner, ci_instanceId = cb_instanceId body, ci_groupJid = cb_groupJid body,
      ci_text = cb_text body, ci_idempotencyKey = cb_idempotencyKey body, ci_actorIP = client_of env call, ci_decision = None\<rparr>"
    from assms(2) other_createSend [of ?inp t d "cn_now call" "cn_uuid call" "cn_oid call"] show ?case
      by (auto split: option.splits prod.splits sum.splits)
  qed
qed (use assms(2) in \<open>auto intro!: other_with_json simp: postApprove_def decideSend_def patchAuthorizedJids_def with_owner [OF owner] Let_def
      other_approveSend other_transitionSend other_store_jids split: option.splits\<close>)

lemma other_config_writes:
  assumes owner: "requireOwner env call = Inr (Some owner)" and other: "ow_organizationId owner \<noteq> t"
  shows "tenant_view t (fst (patchGroup env call jid d)) = tenant_view t d"
    "tenant_view t (fst (postInstance env call d)) = tenant_view t d"
    "tenant_view t (fst (patchInstance env call inst d)) = tenant_view t d"
proof -
  show "tenant_view t (fst (patchGroup env call jid d)) = tenant_view t d"
    unfolding patchGroup_def with_owner [OF owner]
    by (rule other_with_json) (auto dest: other_updateGroupConfig [OF other] split: sum.splits prod.splits group_config_update.splits)
  show "tenant_view t (fst (postInstance env call d)) = tenant_view t d"
    unfolding postInstance_def with_owner [OF owner]
    by (rule other_with_json) (auto dest: other_createInstance [OF other] split: sum.splits prod.splits)
  show "tenant_view t (fst (patchInstance env call inst d)) = tenant_view t d"
  proof (cases "instanceInOrg d (ow_organizationId owner) inst")
    case True
    have "tenant_view t (fst (case updateInstanceConfig d (ow_organizationId owner) inst jids ip now of
        (d', r) \<Rightarrow> (d', x r))) = tenant_view t d" for jids ip now and x :: "config_update \<Rightarrow> console_answer"
      using other_updateInstanceConfig [OF other] by (simp split: prod.splits) (metis fst_conv)
    then show ?thesis using True unfolding patchInstance_def guardInstance_def with_owner [OF owner]
      by (auto intro!: other_with_json split: prod.splits config_update.splits) (metis fst_conv other other_updateInstanceConfig)+
  qed (simp add: patchInstance_def guardInstance_def with_owner [OF owner])
qed

lemma other_postAction:
  assumes owner: "requireOwner env call = Inr (Some owner)" and other: "ow_organizationId owner \<noteq> t"
  shows "tenant_view t (fst (postAction env call i d)) = tenant_view t d"
  unfolding postAction_def with_owner [OF owner]
proof (rule other_with_json, goal_cases)
  case (1 decision)
  let ?inp = "\<lparr>de_organizationId = ow_organizationId owner, de_ref = By_id i, de_decision = decision, de_decidedBy = ow_email owner, de_ip = client_of env call\<rparr>"
  obtain d1 r where r: "decideAction d ?inp (cn_now call) = (d1, r)" by (cases "decideAction d ?inp (cn_now call)")
  then have d1: "tenant_view t d1 = tenant_view t d" using other_decideAction [of ?inp t d "cn_now call"] other by simp
  have "tenant_view t d2 = tenant_view t d" if "r = Decided row" "executeAction xe d1 row = (d2, out)" for xe row d2 out
    using other_executeAction [of row t xe d1] decided_org [of d ?inp "cn_now call" d1 row] r that d1 other by simp
  with r d1 show ?case
    by (cases r) (auto split: prod.splits sum.splits execute_outcome.splits)
qed

lemma other_serve:
  assumes "tenant_of env q \<noteq> Some t"
  shows "tenant_view t (fst (serve env q d)) = tenant_view t d"
proof (cases "tenant_of env q")
  case None
  then show ?thesis using no_owner by simp
next
  case (Some org)
  obtain call route where q: "q = (call, route)" by (cases q)
  with Some assms obtain owner where o1: "requireOwner env call = Inr (Some owner)" "ow_organizationId owner \<noteq> t"
    by (auto simp: tenant_of_Some)
  with q show ?thesis
    by (cases route) (simp_all add: read_only [OF o1(1)] other_writes [OF o1] other_config_writes [OF o1] other_postAction [OF o1])
qed

interpretation console_tenants: tenants tenant_view "tenant_of env" "\<lambda>q. snd q \<noteq> Post_instance" "serve env" for env
  by unfold_locales (auto simp: own_serve map_prod_def other_serve split: prod.splits)

section \<open>What the boundary gives\<close>

text \<open>C25: A request touches its own organisation only. Whatever the route, the body and the state, a console request leaves every row
  of every other organisation as it was, in every collection and on the audit log; a request without a verified owner changes
  nothing at all and is answered 401, or with the error of a missing signing secret.\<close>

theorem console_stays_in_tenant:
  "(tenant_of env q \<noteq> Some t \<longrightarrow> tenant_view t (fst (serve env q d)) = tenant_view t d)
    \<and> (tenant_of env q = None \<longrightarrow> fst (serve env q d) = d \<and> turned_away (snd (serve env q d)))"
  using other_serve no_owner by blast

text \<open>C24: Organisations do not interfere through the database. Take any sequence, of any number of organisations and in any
  order, of the console requests that are answered from the database alone: the routes of \<open>console_route\<close>, which are the sends and their
  decisions, the staged actions, the groups and their scope, an instance's groups, configuration and pairing code, the messages, raw records and media
  addresses, the owner list and the session. Look at one organisation: the answers it got and the rows it is left with are exactly those of a server that had
  only its rows and received only its requests. So nothing another organisation stores or asks for can be seen in its answers, nor
  change its data. Two things are left out: the observed organisation creates no instance, since a fresh id must be unique over
  all of them; and the routes whose answers come from the one worker and the one pairing service that all organisations share are no
  part of \<open>console_route\<close> (starting a pairing, checking an instance, its status and the list of instances, the group
  synchronisation, the event stream). For those the claim is not made, and for pairing it is false.\<close>

theorem console_noninterference:
  assumes "\<forall>q \<in> set qs. tenant_of env q = Some t \<longrightarrow> snd q \<noteq> Post_instance"
  shows "serve_all (serve env) (filter (\<lambda>q. tenant_of env q = Some t) qs) (tenant_view t d)
    = (tenant_view t (fst (serve_all (serve env) qs d)),
       filter (\<lambda>(q, a). tenant_of env q = Some t) (snd (serve_all (serve env) qs d)))"
  using assms by (rule console_tenants.unwinding)

text \<open>The log only grows under the executor.\<close>

definition log_extends :: "db \<Rightarrow> db \<Rightarrow> bool" where
  "log_extends d d' \<longleftrightarrow> (\<exists>rest. auditLog d' = auditLog d @ rest)"

lemma log_extends_trans: "log_extends d d' \<Longrightarrow> log_extends d' d'' \<Longrightarrow> log_extends d d''"
  by (auto simp: log_extends_def)

lemma log_extends_write:
  "auditLog d' = auditLog d \<Longrightarrow> log_extends d d'" "auditLog d' = auditLog d \<Longrightarrow> log_extends d (writeAudit d' e now)"
  by (simp_all add: log_extends_def)

lemma log_executor:
  "log_extends d (fst (claim d a ip now))" "log_extends d (fst (settle d a st ip now))"
  "log_extends d (fst (perform env d a))"
proof -
  show "log_extends d (fst (claim d a ip now))" "log_extends d (fst (settle d a st ip now))"
    by (auto simp: claim_def settle_def intro!: log_extends_write split: option.splits)
  have move: "log_extends d (fst (transitionSend d org i action ip by' now))" for org i action ip by' now
    by (auto simp: transitionSend_def transition_txn_def Let_def intro!: log_extends_write)
  have new: "log_extends d (fst (createSend d inp now uuid oid))" for inp now uuid oid
    by (auto simp: createSend_def Let_def intro!: log_extends_write split: option.splits)
  show "log_extends d (fst (perform env d a))"
    by (auto simp: perform_def perform_cancel_def perform_send_def Let_def log_extends_write split: sum.splits prod.splits send_transition.splits)
      (metis fst_conv move new)+
qed

lemma log_executeAction: "log_extends d (fst (executeAction env d a))"
proof -
  have "log_extends d d1" if "claim d a ip now = (d1, r)" for d d1 ip now r using log_executor(1) [of d a ip now] that by simp
  moreover have "log_extends d d1" if "perform env d a = (d1, r)" for d d1 r using log_executor(3) [of d env a] that by simp
  moreover have "log_extends d d1" if "settle d a st ip now = (d1, r)" for d d1 st ip now r using log_executor(2) [of d a st ip now] that by simp
  ultimately show ?thesis
    by (auto simp: executeAction_def log_extends_write split: prod.splits option.splits sum.splits) (meson log_extends_trans)+
qed

text \<open>The audit log takes the owner for the assistant. When the owner approves a staged action in the console, the decision
  is recorded under the session's email address, which is never the literal \<open>owner\<close> the repository compares it with: the
  record of the approval names the assistant as its actor, so the log cannot tell the owner's decision from one the assistant took itself.\<close>

theorem console_approval_recorded_as_assistant:
  assumes "requireOwner env call = Inr (Some owner)" and "ow_email owner \<noteq> js ''owner''"
    and "cn_body call = Json (JObj [(js ''decision'', JStr (js ''approve''))])"
    and "\<exists>p \<in> set (pendingActions d). pa_organizationId p = ow_organizationId owner \<and> pa_id p = i \<and> pa_state p = Pa_pending"
  shows "\<exists>r rest. auditLog (fst (postAction env call i d)) = auditLog d @ r # rest
    \<and> ar_action r = Action_approved \<and> ar_target r = (T_action, i) \<and> ar_actor r = Assistant"
proof -
  let ?org = "ow_organizationId owner"
  let ?inp = "\<lparr>de_organizationId = ?org, de_ref = By_id i, de_decision = Approve_action, de_decidedBy = ow_email owner, de_ip = client_of env call\<rparr>"
  let ?P = "\<lambda>p. pa_organizationId p = ?org \<and> pa_state p = Pa_pending \<and> refFilter (By_id i) p"
  from assms(4) have "find ?P (pendingActions d) \<noteq> None" by (auto simp: find_None_iff refFilter_def)
  then obtain p where p: "find ?P (pendingActions d) = Some p" "?P p" by (auto dest: find_Some_in)
  obtain d1 where d1: "decideAction d ?inp (cn_now call) = (d1, Decided (decide_update ?inp (cn_now call) p))"
    "auditLog d1 = auditLog d @ [auditRow (decide_audit ?inp (decide_update ?inp (cn_now call) p)) (cn_now call)]"
    using p by (simp add: decideAction_def decide_txn_def found_after_def Let_def)
  have schema: "decision_schema (JObj [(js ''decision'', JStr (js ''approve''))]) = Some Approve_action"
    by (simp add: decision_schema_def strict_object_def)
  have "fst (postAction env call i d) = d1 \<or> (\<exists>xe row. fst (postAction env call i d) = fst (executeAction xe d1 row))"
    using d1(1) by (auto simp: postAction_def with_owner [OF assms(1)] with_json_def assms(3) schema decide_update_def
        split: prod.splits sum.splits execute_outcome.splits) (metis fst_conv)+
  then have "log_extends d1 (fst (postAction env call i d))" using log_executeAction log_extends_write(1) by metis
  with d1(2) p(2) assms(2) show ?thesis
    by (auto simp: log_extends_def auditRow_def decide_audit_def refFilter_def decide_update_def)
qed

section \<open>Two organisations\<close>

text \<open>The payload of a token is the name of its organisation.\<close>

definition ex_console :: console_env where
  "ex_console = \<lparr>ce_auth = ex_auth, ce_crypto = ex_crypto\<lparr>cp_read := \<lambda>p. Some (session_json (ex_session\<lparr>os_organizationId := p\<rparr>))\<rparr>,
     ce_messages = \<lparr>mv_lower = id, mv_textHit = \<lambda>_ _. False, mv_print = \<lambda>_. [], mv_read = \<lambda>_. None, mv_date = \<lambda>_. None\<rparr>,
     ce_number = \<lambda>_. None, ce_offset_datetime = \<lambda>_. None, ce_country = None,
     ce_r2 = \<lparr>r2_accountId = None, r2_bucket = None, r2_accessKeyId = None, r2_secretAccessKey = None, r2_presignTtlSeconds = None, r2_number = \<lambda>_. None\<rparr>,
     ce_sign = \<lambda>_ key _. key,
     ce_exec = \<lparr>xe_worker = \<lambda>_ _ _. Inl group_admin_failed, xe_parse_datetime = \<lambda>_. None, xe_iso = \<lambda>_. [], xe_ip = [], xe_now = 0, xe_uuid = [], xe_oid = []\<rparr>\<rparr>"

definition ex_call :: "jstr \<Rightarrow> json \<Rightarrow> console_call" where
  "ex_call org body = \<lparr>cn_cookie = Some (org @ js ''.a''), cn_forwardedFor = None, cn_body = Json body, cn_query = \<lambda>_. None, cn_issue = [],
     cn_now = 0, cn_uuid = [], cn_oid = [], cn_draw = \<lambda>_. 0\<rparr>"

definition ex_approval :: json where
  "ex_approval = JObj [(js ''decision'', JStr (js ''approve''))]"

definition ex_staged :: "jstr \<Rightarrow> pending_action" where
  "ex_staged org = \<lparr>pa_id = js ''a'', pa_organizationId = org, pa_instanceId = js ''i'', pa_groupJid = js ''g'', pa_action = js ''group_leave'',
     pa_params = [], pa_summary = [], pa_state = Pa_pending, pa_shortId = js ''AAAAAA'', pa_requestedBy = [], pa_requestedAt = 0,
     pa_decidedBy = None, pa_decidedAt = None, pa_result = None, pa_updatedAt = 0\<rparr>"

definition ex_two :: db where
  "ex_two = empty_db\<lparr>pendingActions := [ex_staged (js ''o''), ex_staged (js ''p'')]\<rparr>"

lemma ex_owner_of: "org = js ''o'' \<or> org = js ''p'' \<Longrightarrow>
  requireOwner ex_console (ex_call org body) = Inr (Some \<lparr>ow_email = js ''a@b'', ow_organizationId = org\<rparr>)"
proof -
  assume org: "org = js ''o'' \<or> org = js ''p''"
  have dot: "js ''.a'' = js ''.'' @ [97]" by (simp add: js_def)
  have "split_at_last_dot (org @ js ''.a'') = Some (org, [97])"
    unfolding dot by (rule last_dot_of) simp
  moreover have "org \<noteq> []" using org by auto
  ultimately show ?thesis
    by (simp add: requireOwner_def currentOwner_def readSession_def ex_console_def ex_call_def sign_def ex_auth_def ex_crypto_def
        session_of_def session_json_def ex_session_def session_ttl_seconds_def clock_skew_seconds_def)
qed

lemma ex_tenants: "tenant_of ex_console (ex_call (js ''o'') body, route) = Some (js ''o'')" "tenant_of ex_console (ex_call (js ''p'') body, route) = Some (js ''p'')"
  by (simp_all add: tenant_of_def ex_owner_of)

theorem console_stays_in_tenant_witness:
  "tenant_view (js ''p'') (fst (serve ex_console (ex_call (js ''o'') ex_approval, Post_action (js ''a'')) ex_two)) = tenant_view (js ''p'') ex_two"
  by (rule console_stays_in_tenant [THEN conjunct1, rule_format]) (simp add: ex_tenants)

theorem console_noninterference_witness:
  "serve_all (serve ex_console) [(ex_call (js ''p'') JNull, Get_actions)] (tenant_view (js ''p'') ex_two)
    = (tenant_view (js ''p'') (fst (serve_all (serve ex_console)
         [(ex_call (js ''o'') ex_approval, Post_action (js ''a'')), (ex_call (js ''p'') JNull, Get_actions)] ex_two)),
       filter (\<lambda>(q, a). tenant_of ex_console q = Some (js ''p'')) (snd (serve_all (serve ex_console)
         [(ex_call (js ''o'') ex_approval, Post_action (js ''a'')), (ex_call (js ''p'') JNull, Get_actions)] ex_two)))"
proof -
  let ?qs = "[(ex_call (js ''o'') ex_approval, Post_action (js ''a'')), (ex_call (js ''p'') JNull, Get_actions)]"
  have "filter (\<lambda>q. tenant_of ex_console q = Some (js ''p'')) ?qs = [(ex_call (js ''p'') JNull, Get_actions)]"
    by (simp add: ex_tenants)
  then show ?thesis using console_noninterference [of ?qs ex_console "js ''p''" ex_two] by simp
qed

theorem console_approval_recorded_as_assistant_witness:
  "\<exists>r rest. auditLog (fst (postAction ex_console (ex_call (js ''o'') ex_approval) (js ''a'') ex_two)) = auditLog ex_two @ r # rest
    \<and> ar_action r = Action_approved \<and> ar_target r = (T_action, js ''a'') \<and> ar_actor r = Assistant"
  by (rule console_approval_recorded_as_assistant [OF ex_owner_of])
    (simp_all add: ex_call_def ex_approval_def ex_two_def ex_staged_def)

end
