(* ===== verification/MediaToolsProps.thy ===== *)
theory MediaToolsProps
  imports MediaTools MediaTextProps OutputGateProps
begin

text \<open>
  What a media tool may answer: only an attachment of the job's own scope, read under the tenant's prefix, in one
  bounded result.
\<close>

section \<open>Bounds of a table\<close>

definition csv_within :: "nat \<Rightarrow> nat \<Rightarrow> csv_state \<Rightarrow> bool" where
  "csv_within R C s \<longleftrightarrow> length (cs_records s) \<le> R + 1 \<and> length (cs_row s) \<le> C
     \<and> list_all (\<lambda>r. length r \<le> C) (cs_records s)"

lemma endField_within: "csv_within R C s \<Longrightarrow> csv_within R C (endField C s)"
  by (simp add: csv_within_def endField_eq)

lemma endRecord_within:
  assumes "csv_within R C s"
  shows "csv_within R C (endRecord R C s)"
proof -
  from assms have "csv_within R C (endField C s)" by (rule endField_within)
  then show ?thesis by (simp add: csv_within_def endRecord_def Let_def)
qed

lemma other_within: "csv_within R C s \<Longrightarrow> csv_within R C (add_char c s)" "csv_within R C s \<Longrightarrow> csv_within R C (s\<lparr>cs_quoted := b\<rparr>)"
  by (simp_all add: csv_within_def add_char_def)

lemma csv_loop_within: "csv_within R C s \<Longrightarrow> csv_within R C (csv_loop R C t s)"
proof (induction R C t s rule: csv_loop.induct)
  case (3 R C c d cs s)
  then show ?case
    by (cases "cs_quoted s"; cases "c = 34"; cases "d = 34"; cases "c = 44"; cases "c = 13"; cases "c = 10"; cases "d = 10")
      (simp_all add: endField_within endRecord_within other_within)
qed (simp_all add: endField_within endRecord_within other_within)

lemma parseCsv_within:
  "length (ct_rows (parseCsv t R C)) \<le> R" "list_all (\<lambda>r. length r \<le> C) (ct_rows (parseCsv t R C))"
  "length (ct_columns (parseCsv t R C)) \<le> C"
proof -
  let ?s = "csv_loop R C (case t of c # cs \<Rightarrow> if c = 65279 then cs else t | [] \<Rightarrow> []) csv_start"
  let ?e = "if cs_field ?s \<noteq> [] \<or> cs_row ?s \<noteq> [] then endRecord R C ?s else ?s"
  have "csv_within R C ?s" by (rule csv_loop_within) (simp add: csv_within_def csv_start_def)
  then have e: "csv_within R C ?e" using endRecord_within by simp
  have p: "ct_rows (parseCsv t R C) = drop 1 (cs_records ?e)" "ct_columns (parseCsv t R C) = (case cs_records ?e of r # _ \<Rightarrow> r | [] \<Rightarrow> [])"
    by (simp_all add: parseCsv_def Let_def)
  from e show "length (ct_rows (parseCsv t R C)) \<le> R" "list_all (\<lambda>r. length r \<le> C) (ct_rows (parseCsv t R C))"
    "length (ct_columns (parseCsv t R C)) \<le> C"
    unfolding p csv_within_def by (auto simp: list_all_iff dest: in_set_dropD split: list.splits)
qed

lemma drop_rows_within:
  "length (ct_rows (drop_rows payload t)) \<le> length (ct_rows t) \<and> set (ct_rows (drop_rows payload t)) \<subseteq> set (ct_rows t)
    \<and> ct_columns (drop_rows payload t) = ct_columns t"
proof (induction payload t rule: drop_rows.induct)
  case (1 payload t)
  show ?case
  proof (cases "ct_rows t \<noteq> [] \<and> \<not> fits (payload t)")
    case True
    with 1 [OF True] show ?thesis by (subst (1 2 3) drop_rows.simps) (auto dest: in_set_butlastD)
  next
    case False
    then show ?thesis by (subst (1 2 3) drop_rows.simps) auto
  qed
qed

section \<open>Bounds of a result\<close>

text \<open>The bounds of each kind of answer, a text measured in code points.\<close>

definition within_limits :: "media_result \<Rightarrow> bool" where
  "within_limits r \<longleftrightarrow> (case r of
      Ok_table _ t _ \<Rightarrow> length (ct_rows t) \<le> 500 \<and> list_all (\<lambda>row. length row \<le> 50) (ct_rows t) \<and> length (ct_columns t) \<le> 50
    | Ok_document _ _ t _ \<Rightarrow> scalars (fst t) \<le> 24000
    | Ok_video _ _ frames _ \<Rightarrow> length frames \<le> 16
    | _ \<Rightarrow> True)"

lemma take_frames_fits: "frames = [] \<or> fits (payload frames) \<Longrightarrow> take_frames payload frames fs = [] \<or> fits (payload (take_frames payload frames fs))"
  by (induction payload frames fs rule: take_frames.induct) (auto simp: Let_def)

lemma take_frames_length: "length (take_frames payload frames fs) \<le> length frames + length fs"
  by (induction payload frames fs rule: take_frames.induct) (fastforce simp: Let_def)+

lemma length_concat_single: "(\<And>x. length (g x) \<le> 1) \<Longrightarrow> length (concat (map g xs)) \<le> length xs"
proof (induction xs)
  case (Cons x xs)
  from Cons.IH [OF Cons.prems] Cons.prems [of x] show ?case by simp
qed simp

lemma sampled_length: "length (sampled_frames env clip duration count) \<le> count"
proof -
  have "length (sampled_frames env clip duration count) \<le> length [1 ..< Suc count]"
    unfolding sampled_frames_def by (rule length_concat_single) (simp split: option.splits)
  then show ?thesis by (simp del: upt_Suc)
qed

lemma first_image_ok: "first_image env scoped cs = Not_available \<or> fits (first_image env scoped cs) \<and> (\<exists>c. first_image env scoped cs = image_payload env scoped c)"
  by (induction cs) auto

lemma or_unavailable_ok: "or_unavailable r \<noteq> Not_available \<Longrightarrow> or_unavailable r = r \<and> fits r"
  by (auto simp: or_unavailable_def split: if_splits)

lemma bounded_of_limits:
  fixes i :: media_input
  shows "bi_maxRows (bounded_of i) \<le> 500" "bi_maxColumns (bounded_of i) \<le> 50" "bi_maxChars (bounded_of i) \<le> 24000" "bi_maxFrames (bounded_of i) \<le> 16"
  by (simp_all add: bounded_of_def clampCount_def split: option.splits)

section \<open>What is read\<close>

text \<open>An answer that holds content: it fits, and it was read from the attachment's own object.\<close>

lemma readCapability_ok:
  assumes "readCapability env name s i org = Some r" "r \<noteq> Not_available"
  shows "fits r \<and> consumableMime (mde_lower env) name (sm_mime s) \<and> (\<exists>cap bytes. mde_read env (sm_r2Key s) org cap = Inr (Some bytes))"
proof -
  from assms obtain cap bytes where c: "consumableMime (mde_lower env) name (sm_mime s)" "name \<noteq> Media_transcribe_audio"
    and b: "mde_read env (sm_r2Key s) org cap = Inr (Some bytes)"
    unfolding readCapability_def by (auto split: if_splits sum.splits option.splits)
  have "fits r"
  proof (cases name)
    case Media_get_image
    with assms first_image_ok show ?thesis
      unfolding readCapability_def by (fastforce split: if_splits sum.splits option.splits)
  next
    case Media_describe_video
    with assms take_frames_fits [of "[]"] show ?thesis
      unfolding readCapability_def by (fastforce simp: Let_def split: if_splits sum.splits option.splits prod.splits)
  qed (use assms or_unavailable_ok c in \<open>fastforce simp: readCapability_def Let_def split: if_splits sum.splits option.splits\<close>)+
  with c b show ?thesis by blast
qed

lemma readCapability_limits:
  assumes "readCapability env name s (bounded_of i) org = Some r"
  shows "within_limits r"
proof (cases name)
  case Media_get_image
  with assms show ?thesis using first_image_ok
    unfolding readCapability_def by (fastforce simp: within_limits_def image_payload_def split: if_splits sum.splits option.splits)
next
  case Media_read_csv
  have "within_limits (or_unavailable (Ok_table m (drop_rows payload (parseCsv t (bi_maxRows (bounded_of i)) (bi_maxColumns (bounded_of i)))) sha))" for m payload t sha
  proof -
    let ?t = "parseCsv t (bi_maxRows (bounded_of i)) (bi_maxColumns (bounded_of i))"
    from drop_rows_within [of payload ?t] parseCsv_within [where t = t and R = "bi_maxRows (bounded_of i)" and C = "bi_maxColumns (bounded_of i)"]
      bounded_of_limits [of i] show ?thesis
      by (fastforce simp: within_limits_def or_unavailable_def list_all_iff)
  qed
  with assms Media_read_csv show ?thesis
    unfolding readCapability_def by (auto simp: within_limits_def Let_def split: if_splits sum.splits option.splits)
next
  case Media_describe_video
  have "length (take_frames payload [] sampled) \<le> 16" if "videoFrames env b (bi_maxFrames (bounded_of i)) = Some (duration, sampled)" for payload b duration sampled
    using that take_frames_length [of payload "[]" sampled] sampled_length [of env b duration "bi_maxFrames (bounded_of i)"] bounded_of_limits(4) [of i]
    by (auto simp: videoFrames_def Let_def split: if_splits)
  with assms Media_describe_video show ?thesis
    unfolding readCapability_def by (auto simp: within_limits_def Let_def split: if_splits sum.splits option.splits prod.splits)
next
  case Media_read_document
  have "scalars (fst t) \<le> 24000" if "extractDocument env m b (bi_maxChars (bounded_of i)) = Some t" for m b t
    using that le_trans [OF clip_bound bounded_of_limits(3) [of i]]
    by (auto simp: extractDocument_def clipExtracted_def Let_def split: if_splits)
  with assms Media_read_document show ?thesis
    unfolding readCapability_def by (auto simp: within_limits_def or_unavailable_def split: if_splits sum.splits option.splits)
next
  case Media_transcribe_audio
  with assms show ?thesis unfolding readCapability_def by (auto simp: within_limits_def split: if_splits)
qed

section \<open>The answer of a call\<close>

lemma scoped_message:
  assumes "loadScopedMedia lower d ch wa = Some s"
  obtains m where "usableChatContext ch" "m \<in> set (messages d)" "is_message (ch_organizationId ch) (ch_instanceId ch) wa m"
    "s = scoped_of lower wa m"
    "if ch_chatKind ch = Chat_group then ch_groupJid ch = Some (ms_groupJid m) \<and> monitoredGroup d ch (ms_groupJid m)
     else ms_groupJid m = ch_chatJid ch \<or> monitoredGroup d ch (ms_groupJid m)"
proof -
  from assms have u: "usableChatContext ch" by (auto simp: loadScopedMedia_def split: if_splits)
  show thesis
  proof (cases "ch_chatKind ch = Chat_group")
    case True
    from assms True obtain g m where g: "ch_groupJid ch = Some g" "monitoredGroup d ch g" "s = scoped_of lower wa m"
      and f: "find (\<lambda>m. is_message (ch_organizationId ch) (ch_instanceId ch) wa m \<and> ms_groupJid m = g) (messages d) = Some m"
      by (auto simp: loadScopedMedia_def split: if_splits option.splits)
    from f have "m \<in> set (messages d)" "is_message (ch_organizationId ch) (ch_instanceId ch) wa m" "ms_groupJid m = g"
      by (auto simp: find_Some_iff)
    with g u True show thesis by (intro that [of m]) auto
  next
    case False
    from assms False obtain m where f: "find (is_message (ch_organizationId ch) (ch_instanceId ch) wa) (messages d) = Some m"
      and m: "s = scoped_of lower wa m" "ms_groupJid m = ch_chatJid ch \<or> monitoredGroup d ch (ms_groupJid m)"
      by (auto simp: loadScopedMedia_def split: if_splits option.splits)
    from f have "m \<in> set (messages d)" "is_message (ch_organizationId ch) (ch_instanceId ch) wa m"
      by (auto simp: find_Some_iff)
    with m u False show thesis by (intro that [of m]) auto
  qed
qed

lemma media_answer_ok:
  assumes "media_answer c ch name i (Some s) = r" "is_ok r"
  shows "sm_status s = js ''stored'' \<and> fits r \<and> readCapability (mdc_env c) name s i (ch_organizationId ch) = Some r
    \<and> (\<exists>cap bytes. mde_read (mdc_env c) (sm_r2Key s) (ch_organizationId ch) cap = Inr (Some bytes))"
proof -
  from assms(2) have n: "r \<noteq> Not_available" by (auto simp: is_ok_def)
  with assms have "sm_status s = js ''stored''" "readCapability (mdc_env c) name s i (ch_organizationId ch) = Some r"
    by (auto simp: media_answer_def is_ok_def split: if_splits option.splits)
  with readCapability_ok [OF _ n] show ?thesis by blast
qed

text \<open>
  C28: A media tool tells a reply job nothing about a message that is outside its scope: any answer but the uniform
  refusal is about a stored message of the job's own organisation and instance, in the monitored group of a
  group job, or in the owner's chat or a monitored group. Content comes only from a stored attachment whose key lies under the
  organisation's prefix.
\<close>

theorem media_answer_stays_in_scope:
  assumes "snd (runMediaTool c d ch name input) \<noteq> Not_available" "mde_read (mdc_env c) = readMediaObject renv fetch"
  shows "usableChatContext ch \<and> (\<exists>m \<in> set (messages d).
      is_message (ch_organizationId ch) (ch_instanceId ch) (mdi_waMessageId input) m
      \<and> (if ch_chatKind ch = Chat_group then ch_groupJid ch = Some (ms_groupJid m) \<and> monitoredGroup d ch (ms_groupJid m)
         else ms_groupJid m = ch_chatJid ch \<or> monitoredGroup d ch (ms_groupJid m))
      \<and> (is_ok (snd (runMediaTool c d ch name input)) \<longrightarrow>
           Option.bind (ms_media m) md_status = Some (js ''stored'')
           \<and> starts_with (org_prefix (ch_organizationId ch)) (or_none (Option.bind (ms_media m) md_r2Key))))"
proof -
  let ?i = "bounded_of input"
  let ?scoped = "if mdc_connects c \<and> \<not> mdc_readsFail c then loadScopedMedia (mde_lower (mdc_env c)) d ch (bi_waMessageId ?i) else None"
  have r: "snd (runMediaTool c d ch name input) = media_answer c ch name ?i ?scoped" by (simp add: runMediaTool_def Let_def)
  with assms(1) obtain s where s: "?scoped = Some s" by (cases ?scoped) (auto simp: media_answer_def)
  then have "loadScopedMedia (mde_lower (mdc_env c)) d ch (mdi_waMessageId input) = Some s"
    by (auto simp: bounded_of_def split: if_splits)
  then obtain m where m: "usableChatContext ch" "m \<in> set (messages d)"
      "is_message (ch_organizationId ch) (ch_instanceId ch) (mdi_waMessageId input) m" "s = scoped_of (mde_lower (mdc_env c)) (mdi_waMessageId input) m"
      "if ch_chatKind ch = Chat_group then ch_groupJid ch = Some (ms_groupJid m) \<and> monitoredGroup d ch (ms_groupJid m)
       else ms_groupJid m = ch_chatJid ch \<or> monitoredGroup d ch (ms_groupJid m)"
    by (rule scoped_message)
  have "Option.bind (ms_media m) md_status = Some (js ''stored'')
      \<and> starts_with (org_prefix (ch_organizationId ch)) (or_none (Option.bind (ms_media m) md_r2Key))"
    if "is_ok (snd (runMediaTool c d ch name input))"
  proof -
    from that r s have "is_ok (media_answer c ch name ?i (Some s))" by simp
    from media_answer_ok [OF refl this] obtain cap bytes where o: "sm_status s = js ''stored''"
        "mde_read (mdc_env c) (sm_r2Key s) (ch_organizationId ch) cap = Inr (Some bytes)" by blast
    from o(2) have "starts_with (org_prefix (ch_organizationId ch)) (sm_r2Key s)"
      unfolding assms(2) by (blast dest: readMediaObject_bounded)
    with o(1) m(4) show ?thesis by (auto simp: scoped_of_def or_unknown_def split: option.splits)
  qed
  with m show ?thesis by blast
qed

text \<open>An answer that holds content is at most 32000 code units of JSON, whatever the attachment holds and the model
  asks for, and keeps the limits of its kind: 500 rows of 50 cells, 24000 code points of text, 16 frames.
\<close>

theorem media_results_bounded:
  assumes "is_ok (snd (runMediaTool c d ch name input))"
  shows "length (result_json (snd (runMediaTool c d ch name input))) \<le> 32000 \<and> within_limits (snd (runMediaTool c d ch name input))"
proof -
  let ?scoped = "if mdc_connects c \<and> \<not> mdc_readsFail c then loadScopedMedia (mde_lower (mdc_env c)) d ch (bi_waMessageId (bounded_of input)) else None"
  have r: "snd (runMediaTool c d ch name input) = media_answer c ch name (bounded_of input) ?scoped" by (simp add: runMediaTool_def Let_def)
  with assms obtain s where s: "?scoped = Some s" by (cases ?scoped) (auto simp: media_answer_def is_ok_def)
  from assms r s have "is_ok (media_answer c ch name (bounded_of input) (Some s))" by simp
  from media_answer_ok [OF refl this] readCapability_limits r s show ?thesis
    by (auto simp: fits_def result_limit_def)
qed

section \<open>A call that answers\<close>

definition ex_media_env :: media_env where
  "ex_media_env = \<lparr>mde_read = readMediaObject
      \<lparr>r2_accountId = Some (js ''a''), r2_bucket = Some (js ''b''), r2_accessKeyId = Some (js ''k''), r2_secretAccessKey = Some (js ''s''),
       r2_presignTtlSeconds = Some (js ''60''), r2_number = (\<lambda>_. Some 60)\<rparr>
      (\<lambda>_ _. Some \<lparr>so_contentLength = Some 2, so_body = Some ([[104, 105]], False)\<rparr>),
     mde_pdftotext = (\<lambda>_. []), mde_unzip = (\<lambda>_ _. []), mde_imagemagick = (\<lambda>_ _ _. []), mde_ffprobe = (\<lambda>_. []), mde_ffmpeg = (\<lambda>_ _. []),
     mde_parseFloat = (\<lambda>_. None), mde_jsonParses = (\<lambda>_. True), mde_nfc = id, mde_lower = id, mde_sha256 = (\<lambda>_. [97])\<rparr>"

definition ex_media_call :: media_call where
  "ex_media_call = \<lparr>mdc_env = ex_media_env, mdc_connects = True, mdc_readsFail = False, mdc_auditFails = False, mdc_durationMs = 5, mdc_now = 0\<rparr>"

definition ex_tool_chat :: tool_chat where
  "ex_tool_chat = \<lparr>ch_organizationId = js ''o'', ch_instanceId = js ''i'', ch_chatKind = Chat_user, ch_chatJid = js ''c'', ch_groupJid = None,
     ch_authorizedJids = [js ''w'']\<rparr>"

definition ex_media_db :: db where
  "ex_media_db = empty_db\<lparr>messages := [\<lparr>ms_organizationId = js ''o'', ms_instanceId = js ''i'', ms_groupJid = js ''c'', ms_waMessageId = js ''m'',
     ms_fromMe = False, ms_revoked = False, ms_senderJid = None, ms_pushName = None, ms_kind = js ''document'', ms_text = None, ms_timestamp = None,
     ms_media = Some \<lparr>md_status = Some (js ''stored''), md_kind = None, md_mime = Some (js ''text/plain''), md_fileName = None,
       md_declaredType = None, md_r2Key = Some (js ''org/o/x''), md_reason = None\<rparr>,
     ms_textSearch = None, ms_raw = None\<rparr>]\<rparr>"

definition ex_media_input :: media_input where
  "ex_media_input = \<lparr>mdi_waMessageId = js ''m'', mdi_maxRows = None, mdi_maxColumns = None, mdi_maxChars = None, mdi_maxSeconds = None, mdi_maxFrames = None\<rparr>"

lemma ex_media_answer:
  "snd (runMediaTool ex_media_call ex_media_db ex_tool_chat Media_read_document ex_media_input) = Ok_document (js ''m'') (js ''text/plain'') (js ''hi'', False) [97]"
proof -
  let ?s = "\<lparr>sm_groupJid = js ''c'', sm_messageId = js ''m'', sm_status = js ''stored'', sm_mime = js ''text/plain'', sm_r2Key = js ''org/o/x''\<rparr>"
  have s: "loadScopedMedia id ex_media_db ex_tool_chat (js ''m'') = Some ?s"
    by (simp add: loadScopedMedia_def usableChatContext_def ex_tool_chat_def ex_media_db_def is_message_def scoped_of_def or_unknown_def or_none_def)
  have x: "extractDocument ex_media_env (js ''text/plain'') [104, 105] 12000 = Some (js ''hi'', False)"
    by (simp add: extractDocument_def clipExtracted_def docx_mime_def xlsx_mime_def zip_mimes_def ex_media_env_def Let_def
      decode_utf8_def normalizeUntrustedText_def drop_points_def is_control_def forbidden_format_def lone_surrogate_def
      is_high_surrogate_def is_low_surrogate_def clipScalars_def js_def)
  have b: "mde_read ex_media_env (js ''org/o/x'') (js ''o'') document_bytes = Inr (Some [104, 105])"
    by (simp add: ex_media_env_def readMediaObject_def starts_with_def org_prefix_def r2Config_def required_def r2_ttl_def
      max_presign_ttl_seconds_def document_bytes_def max_safe_integer_def trim_def trim_start_def trim_end_def is_space_def js_def)
  have f: "fits (Ok_document (js ''m'') (js ''text/plain'') (js ''hi'', False) [97])"
    by (simp add: fits_def result_limit_def json_object_def json_string_def json_flag_def json_point_def is_high_surrogate_def
      is_low_surrogate_def js_def)
  have c: "consumableMime (mde_lower ex_media_env) Media_read_document (js ''text/plain'')"
    by (simp add: consumableMime_def consumable_mimes_def ex_media_env_def)
  from s x b f c show ?thesis
    by (simp add: runMediaTool_def Let_def media_answer_def ex_media_call_def bounded_of_def ex_media_input_def clampCount_def
      readCapability_def or_unavailable_def ex_tool_chat_def ex_media_env_def)
qed

theorem media_answer_stays_in_scope_witness:
  "Option.bind (ms_media (hd (messages ex_media_db))) md_status = Some (js ''stored'')
   \<and> starts_with (org_prefix (js ''o'')) (or_none (Option.bind (ms_media (hd (messages ex_media_db))) md_r2Key))"
proof -
  have "\<exists>renv fetch. mde_read (mdc_env ex_media_call) = readMediaObject renv fetch" by (auto simp: ex_media_call_def ex_media_env_def)
  then obtain renv fetch where "mde_read (mdc_env ex_media_call) = readMediaObject renv fetch" by blast
  moreover have "snd (runMediaTool ex_media_call ex_media_db ex_tool_chat Media_read_document ex_media_input) \<noteq> Not_available"
    by (simp add: ex_media_answer)
  ultimately have a: "\<exists>m \<in> set (messages ex_media_db). is_ok (snd (runMediaTool ex_media_call ex_media_db ex_tool_chat Media_read_document ex_media_input)) \<longrightarrow>
      Option.bind (ms_media m) md_status = Some (js ''stored'')
      \<and> starts_with (org_prefix (ch_organizationId ex_tool_chat)) (or_none (Option.bind (ms_media m) md_r2Key))"
    using media_answer_stays_in_scope [of ex_media_call ex_media_db ex_tool_chat Media_read_document ex_media_input renv fetch] by blast
  have "is_ok (snd (runMediaTool ex_media_call ex_media_db ex_tool_chat Media_read_document ex_media_input))"
    by (simp add: ex_media_answer is_ok_def)
  with a obtain m where "m \<in> set (messages ex_media_db)" "Option.bind (ms_media m) md_status = Some (js ''stored'')"
      "starts_with (org_prefix (ch_organizationId ex_tool_chat)) (or_none (Option.bind (ms_media m) md_r2Key))" by blast
  moreover have "set (messages ex_media_db) = {hd (messages ex_media_db)}" "ch_organizationId ex_tool_chat = js ''o''"
    by (simp_all add: ex_media_db_def ex_tool_chat_def)
  ultimately show ?thesis by simp
qed

theorem media_results_bounded_witness:
  "length (result_json (Ok_document (js ''m'') (js ''text/plain'') (js ''hi'', False) [97])) \<le> 32000"
  using media_results_bounded [of ex_media_call ex_media_db ex_tool_chat Media_read_document ex_media_input]
  by (simp add: ex_media_answer is_ok_def del: result_json.simps)

end
