(* ===== verification/GroupListProps.thy ===== *)
theory GroupListProps
  imports GroupToolReads
begin

text \<open>
  The bounds of the group tools' reads: the two lists stay within the result budget, and where the clipped text and the
  recap do not say what they claim.
\<close>

section \<open>Sizes of JSON text\<close>

definition entries_size :: "jobject list \<Rightarrow> int" where
  "entries_size es = (\<Sum>e \<leftarrow> es. json_size e + 1)"

lemma join_entries: "int (length (join [44] (map (\<lambda>e. stringify (JObj e)) es))) \<le> entries_size es"
proof (induction es)
  case (Cons e es)
  then show ?case by (cases es) (simp_all add: entries_size_def json_size_def)
qed (simp add: entries_size_def)

lemma json_size_pos: "0 < json_size e"
  by (simp add: json_size_def js_def)

lemma fit_entries_size: "entries_size (fst (fit_entries r es)) \<le> max r 0"
proof (induction r es rule: fit_entries.induct)
  case (2 r e was_cut es)
  obtain k b where k: "fit_entries (r - (json_size e + 1)) es = (k, b)" by fastforce
  with 2 json_size_pos [of e] show ?case by (auto simp: entries_size_def Let_def)
qed (simp add: entries_size_def)

lemma groups_object_size:
  "json_size (groups_object n es b) = json_size (groups_object n [] False) + int (length (join [44] (map (\<lambda>e. stringify (JObj e)) es))) - (if b then 1 else 0)"
  by (simp add: groups_object_def json_size_def obj_def comp_def js_def [of "'',''"] js_def [of "''true''"] js_def [of "''false''"] js_def [of "''[''"] js_def [of "'']''"])

lemma participants_object_size:
  "json_size (participants_object r a es b) = json_size (participants_object r a [] False)
     + int (length (join [44] (map (\<lambda>e. stringify (JObj e)) es))) - (if b then 1 else 0)"
  by (simp add: participants_object_def json_size_def obj_def comp_def js_def [of "'',''"] js_def [of "''true''"] js_def [of "''false''"] js_def [of "''[''"] js_def [of "'']''"])

lemma groups_envelope: "n < 10 ^ 6 \<Longrightarrow> json_size (groups_object n [] False) \<le> 100"
proof -
  assume "n < 10 ^ 6"
  then have "length (dec n) \<le> 6" by (intro dec_length) simp_all
  then show ?thesis
    by (simp add: groups_object_def json_size_def obj_def dec_int_def json_string_def json_point_def is_high_surrogate_def is_low_surrogate_def js_def)
qed

lemma fit_entries_all: "\<not> snd (fit_entries r es) \<Longrightarrow> fst (fit_entries r es) = map fst es \<and> list_all (\<lambda>e. \<not> snd e) es"
proof (induction r es rule: fit_entries.induct)
  case (2 r e was_cut es)
  obtain k b where k: "fit_entries (r - (json_size e + 1)) es = (k, b)" by fastforce
  with 2 show ?case by (auto simp: Let_def split: if_splits)
qed simp

lemma within_budget: "e \<le> 32000 \<Longrightarrow> kept = fst (fit_entries (result_budget_chars - e) es) \<Longrightarrow>
    e + int (length (join [44] (map (\<lambda>e. stringify (JObj e)) kept))) - (if b then 1 else 0) \<le> 32000"
  using join_entries [of kept] fit_entries_size [of "result_budget_chars - e" es] by (simp add: result_budget_chars_def)

text \<open>The two lists a group tool answers stay within the result budget of 32000 characters, whatever the groups and
  the members are called: the watched groups always, for fewer than a million rows, and the members of a group whenever
  the answer without any member does. An answer that is not marked truncated lists every watched group under its
  whole name.
\<close>

theorem tool_lists_fit:
  assumes "length (groups d) < 10 ^ 6" "json_size (participants_object w addresses [] False) \<le> 32000"
  shows "(case listMonitoredGroups env d ch addresses of
      Some r \<Rightarrow> json_size r \<le> 32000 \<and> (field r ''truncated'' = Some (JBool False) \<longrightarrow>
        field r ''groups'' = Some (JArr (map (\<lambda>g. JObj (fst (group_entry env addresses g))) (sort_key group_list_key (monitored_rows d ch)))))
    | None \<Rightarrow> True)
    \<and> json_size (boundedParticipants env w addresses known) \<le> 32000"
proof
  show "json_size (boundedParticipants env w addresses known) \<le> 32000"
    unfolding boundedParticipants_def Let_def split_def
    by (subst participants_object_size) (rule within_budget [OF assms(2) refl])
next
  show "case listMonitoredGroups env d ch addresses of
      Some r \<Rightarrow> json_size r \<le> 32000 \<and> (field r ''truncated'' = Some (JBool False) \<longrightarrow>
        field r ''groups'' = Some (JArr (map (\<lambda>g. JObj (fst (group_entry env addresses g))) (sort_key group_list_key (monitored_rows d ch)))))
    | None \<Rightarrow> True"
  proof (cases "listMonitoredGroups env d ch addresses")
    case (Some r)
    let ?rows = "sort_key group_list_key (monitored_rows d ch)"
    let ?fit = "fit_entries (result_budget_chars - json_size (groups_object (length ?rows) [] False)) (map (group_entry env addresses) ?rows)"
    from Some have r: "r = groups_object (length ?rows) (fst ?fit) (snd ?fit \<or> length (fst ?fit) < length ?rows)"
      by (auto simp: listMonitoredGroups_def Let_def split_def split: if_splits)
    have "length ?rows < 10 ^ 6" using assms(1) by (simp add: monitored_rows_def le_less_trans [OF length_filter_le])
    then have "json_size (groups_object (length ?rows) [] False) \<le> 32000" using groups_envelope by fastforce
    from within_budget [OF this refl] have "json_size r \<le> 32000" unfolding r by (subst groups_object_size)
    moreover have "field r ''groups'' = Some (JArr (map (\<lambda>g. JObj (fst (group_entry env addresses g))) ?rows))" if "field r ''truncated'' = Some (JBool False)"
    proof -
      from that have "\<not> snd ?fit" by (simp add: r groups_object_def obj_def field_def)
      from fit_entries_all [OF this] show ?thesis by (simp add: r groups_object_def obj_def field_def comp_def)
    qed
    ultimately show ?thesis using Some by simp
  qed simp
qed

theorem tool_lists_fit_witness:
  "case listMonitoredGroups \<lparr>gx_info = \<lambda>_ _. None, gx_participants = \<lambda>_ _. None, gx_nfc = id, gx_lower = id, gx_zoned = \<lambda>_. [], gx_regex = \<lambda>_ _. False\<rparr>
      empty_db \<lparr>ch_organizationId = js ''o'', ch_instanceId = js ''i'', ch_chatKind = Chat_user, ch_chatJid = js ''c'', ch_groupJid = None,
        ch_authorizedJids = [js ''w'']\<rparr> False of
    Some r \<Rightarrow> json_size r \<le> 32000 | None \<Rightarrow> False"
proof -
  let ?w = "\<lparr>ws_groupJid = [], ws_participants = []\<rparr>"
  let ?env = "\<lparr>gx_info = \<lambda>_ _. None, gx_participants = \<lambda>_ _. None, gx_nfc = id, gx_lower = id, gx_zoned = \<lambda>_. [], gx_regex = \<lambda>_ _. False\<rparr>"
  let ?ch = "\<lparr>ch_organizationId = js ''o'', ch_instanceId = js ''i'', ch_chatKind = Chat_user, ch_chatJid = js ''c'', ch_groupJid = None,
        ch_authorizedJids = [js ''w'']\<rparr>"
  have "json_size (participants_object ?w False [] False) \<le> 32000"
    by (simp add: participants_object_def json_size_def obj_def dec_int_def dec.simps json_string_def json_point_def is_high_surrogate_def is_low_surrogate_def js_def)
  moreover have "length (groups empty_db) < 10 ^ 6" by (simp add: empty_db_def)
  moreover have "listMonitoredGroups ?env empty_db ?ch False \<noteq> None" by (simp add: listMonitoredGroups_def usableChatContext_def Let_def split: prod.splits)
  ultimately show ?thesis using tool_lists_fit [where d = empty_db and w = ?w and addresses = False and env = ?env and ch = ?ch and known = "[]"] by (auto split: option.splits)
qed

section \<open>Clipped text\<close>

definition no_surrogates :: "jstr \<Rightarrow> bool" where
  "no_surrogates v \<longleftrightarrow> list_all (\<lambda>c. \<not> is_high_surrogate c \<and> \<not> is_low_surrogate c) v"

lemma code_points_plain: "no_surrogates v \<Longrightarrow> code_points v = map (\<lambda>c. [c]) v"
  by (induction v rule: code_points.induct) (auto simp: no_surrogates_def)

definition escaped_size :: "jstr \<Rightarrow> nat" where
  "escaped_size v = (\<Sum>c \<leftarrow> v. length (json_point [c]))"

lemma jsonChars_plain: "no_surrogates v \<Longrightarrow> jsonChars v = escaped_size v"
  by (simp add: jsonChars_def json_string_def code_points_plain escaped_size_def length_concat comp_def)

lemma escaped_size_ge: "length v \<le> escaped_size v"
proof (induction v)
  case (Cons c v)
  have "1 \<le> length (json_point [c])" by (simp add: json_point_def u_escape_def)
  with Cons show ?case by (simp add: escaped_size_def)
qed (simp add: escaped_size_def)

lemma escaped_size_append: "escaped_size (v @ w) = escaped_size v + escaped_size w"
  by (simp add: escaped_size_def)

text \<open>Text of the Basic Multilingual Plane keeps the budget; a clip counts the rest in code points where JSON counts code units.\<close>

lemma room_left: "l \<le> nat (b - (int x - int l)) \<Longrightarrow> 0 < l \<Longrightarrow> int x \<le> b"
  by arith

lemma room_cut:
  assumes "m = nat (b - (int x - int l))" "int e + int l \<le> int x + int m" "m = 0 \<Longrightarrow> e = 0"
  shows "int e \<le> max b 0"
proof (cases "m = 0")
  case False
  with assms(1) have "int m = b - (int x - int l)" by simp
  with assms(2) show ?thesis by linarith
qed (use assms(3) in simp)

lemma no_surrogates_take: "no_surrogates v \<Longrightarrow> no_surrogates (take n v)"
  by (metis append_take_drop_id list_all_append no_surrogates_def)

lemma clip_plain: "no_surrogates v \<Longrightarrow> fst (clipScalars v m) = take m v"
  by (simp add: clipScalars_def code_points_plain [OF no_surrogates_take] take_map)

lemma clipJson_fits:
  assumes "no_surrogates v"
  shows "int (jsonChars (fst (clipJson v b))) \<le> max b 0"
proof -
  define m where "m = nat (b - (int (jsonChars v) - int (length v)))"
  have c: "fst (clipJson v b) = take m v" using clip_plain [OF assms] by (simp add: clipJson_def m_def)
  have s: "jsonChars (take m v) = escaped_size (take m v)" "jsonChars v = escaped_size v"
    using assms no_surrogates_take [OF assms] by (simp_all add: jsonChars_plain)
  show ?thesis
  proof (cases "length v \<le> m")
    case True
    then have t: "take m v = v" by simp
    have "v = [] \<Longrightarrow> jsonChars v = 0" by (simp add: jsonChars_def json_string_def)
    moreover have "0 < length v \<Longrightarrow> int (jsonChars v) \<le> b" using True unfolding m_def by (rule room_left)
    ultimately show ?thesis unfolding c t by (cases v) auto
  next
    case False
    have "escaped_size v = escaped_size (take m v) + escaped_size (drop m v)"
      by (metis append_take_drop_id escaped_size_append)
    with escaped_size_ge [of "drop m v"] False have "int (escaped_size (take m v)) + int (length v) \<le> int (escaped_size v) + int m" by simp
    then show ?thesis unfolding c s(1) using m_def unfolding s(2)
      by (intro room_cut [of m]) (simp_all add: escaped_size_def)
  qed
qed

text \<open>Two emoji against a budget of three characters: both are kept, which is four.\<close>

lemma clipJson_overruns: "jsonChars (fst (clipJson [55357, 56832, 55357, 56832] 3)) = 4"
  by (simp add: clipJson_def jsonChars_def json_string_def json_point_def is_high_surrogate_def is_low_surrogate_def clipScalars_def take_Cons')

section \<open>Recaps\<close>

text \<open>A recap in which the assistant itself spoke is always marked truncated, even when it holds every line.\<close>

lemma own_line_means_truncated:
  assumes "s \<in> set (sendRequests d)" "sent_in_recap env ch (recap_of inp jid now) s"
  shows "field (readGroupMessages env d ch jid inp addresses now) ''truncated'' = Some (JBool True)"
proof -
  let ?heard = "filter (in_recap env ch (recap_of inp jid now)) (messages d)"
  let ?said = "filter (sent_in_recap env ch (recap_of inp jid now)) (sendRequests d)"
  from assms have "?said \<noteq> []" by (auto simp: filter_empty_conv)
  then have "length (take n (sort_desc k ?heard)) < length ?heard + length ?said" for n and k :: "message_doc \<Rightarrow> nat \<times> int"
    by (simp add: min_less_iff_disj)
  then show ?thesis
    by (simp add: readGroupMessages_def Let_def split_def messages_object_def obj_def field_def)
qed

end
