(* ===== verification/QrImage.thy ===== *)
theory QrImage
  imports Prelude "HOL-Library.Word"
begin

text \<open>
  server/hermes/qr.ts: the QR code the WhatsApp bridge prints as text, read back into its module matrix
  and drawn as a PNG. Bytes are \<^typ>\<open>8 word\<close> and the check sum is computed on \<^typ>\<open>32 word\<close>, as JavaScript's
  bitwise operators do. The deflate compression of zlib is an argument.
\<close>

unbundle bit_operations_syntax

section \<open>The picture in the terminal\<close>

definition glyph :: "jstr \<Rightarrow> (bool \<times> bool) option" where
  "glyph c = (if c = [9608] then Some (False, False) else if c = [9600] then Some (False, True)
    else if c = [9604] then Some (True, False) else if c = [32] then Some (True, True) else None)"

definition min_qr_line_chars :: nat where "min_qr_line_chars = 30"

text \<open>A match of the colour escape \<open>/\x1b\[[0-9;?]*[a-zA-Z]/\<close> at the head of the text: what follows it.\<close>

definition ansi_at :: "jstr \<Rightarrow> jstr option" where
  "ansi_at s = (if take 2 s = [27, 91]
    then case dropWhile (\<lambda>c. is_digit c \<or> c = 59 \<or> c = 63) (drop 2 s) of
        [] \<Rightarrow> None
      | c # rest \<Rightarrow> if is_upper c \<or> is_lower c then Some rest else None
    else None)"

lemma ansi_at_shorter: "ansi_at s = Some r \<Longrightarrow> length r < length s"
proof -
  assume a: "ansi_at s = Some r"
  then obtain c where "dropWhile (\<lambda>c. is_digit c \<or> c = 59 \<or> c = 63) (drop 2 s) = c # r"
    by (auto simp: ansi_at_def split: if_splits list.splits)
  then have "length r < length (dropWhile (\<lambda>c. is_digit c \<or> c = 59 \<or> c = 63) (drop 2 s))" by simp
  also have "\<dots> \<le> length (drop 2 s)" by (rule length_dropWhile_le)
  finally show ?thesis by simp
qed

function strip_ansi :: "jstr \<Rightarrow> jstr" where
  "strip_ansi [] = []"
| "strip_ansi (c # cs) = (case ansi_at (c # cs) of Some rest \<Rightarrow> strip_ansi rest | None \<Rightarrow> c # strip_ansi cs)"
  by pat_completeness auto
termination
  by (relation "measure length") (auto dest: ansi_at_shorter)

definition isQrLine :: "jstr \<Rightarrow> bool" where
  "isQrLine line \<longleftrightarrow> min_qr_line_chars \<le> length line \<and> (\<forall>c \<in> set (code_points line). glyph c \<noteq> None)"

text \<open>\<open>line.slice(1, -1)\<close>: the line without its margin.\<close>

definition core :: "jstr \<Rightarrow> jstr" where
  "core line = butlast (drop 1 line)"

text \<open>
  The loop over the lines: a line that is no part of the picture is skipped, every other one gives two rows of modules. An unknown
  glyph ends the reading with \<open>null\<close>.
\<close>

fun qr_rows :: "jstr list \<Rightarrow> bool list list option" where
  "qr_rows [] = Some []"
| "qr_rows (line # rest) =
    (if \<not> isQrLine line then qr_rows rest
     else case those (map glyph (code_points (core line))) of
         None \<Rightarrow> None
       | Some pairs \<Rightarrow> (case qr_rows rest of
             None \<Rightarrow> None
           | Some rows \<Rightarrow> Some (map fst pairs # map snd pairs # rows)))"

definition uniform :: "bool list \<Rightarrow> bool" where
  "uniform row \<longleftrightarrow> (\<forall>x \<in> set row. x = hd row)"

definition drop_borders :: "bool list list \<Rightarrow> bool list list" where
  "drop_borders rows = rev (dropWhile uniform (rev (dropWhile uniform rows)))"

definition plain_lines :: "jstr \<Rightarrow> jstr list" where
  "plain_lines s = split_on 10 (filter (\<lambda>c. c \<noteq> 13) (strip_ansi s))"

definition modulesFromTerminalQr :: "jstr \<Rightarrow> bool list list option" where
  "modulesFromTerminalQr s = (case qr_rows (plain_lines s) of
      None \<Rightarrow> None
    | Some [] \<Rightarrow> None
    | Some (first # more) \<Rightarrow>
        (let width = length first;
             rows = drop_borders (first # more);
             square = take width rows
         in if width = 0 \<or> length rows < width then None
            else if \<exists>row \<in> set square. length row \<noteq> width then None
            else Some square))"

section \<open>The check sum of a PNG chunk\<close>

text \<open>
  One step of the division by the CRC polynomial, and the table of its eighth iterates. The table holds signed 32-bit
  integers in the source; \<open>>>>\<close> reads them as unsigned and \<open>^\<close> works on the bits, so the words carry the same values.
\<close>

definition crc_step :: "32 word \<Rightarrow> 32 word" where
  "crc_step c = (if c AND 1 \<noteq> 0 then 0xedb88320 XOR drop_bit 1 c else drop_bit 1 c)"

definition crc_table :: "32 word list" where
  "crc_table = map (\<lambda>n. (crc_step ^^ 8) (of_nat n)) [0..<256]"

definition crc_byte :: "8 word \<Rightarrow> 32 word \<Rightarrow> 32 word" where
  "crc_byte b c = crc_table ! unat ((c XOR ucast b) AND 0xff) XOR drop_bit 8 c"

definition crc32 :: "8 word list \<Rightarrow> 32 word" where
  "crc32 bytes = fold crc_byte bytes 0xffffffff XOR 0xffffffff"

section \<open>The PNG file\<close>

text \<open>\<open>writeUInt32BE\<close>: the four bytes, the most significant first.\<close>

definition uint32_be :: "32 word \<Rightarrow> 8 word list" where
  "uint32_be n = [ucast (drop_bit 24 n), ucast (drop_bit 16 n), ucast (drop_bit 8 n), ucast n]"

definition latin1 :: "string \<Rightarrow> 8 word list" where
  "latin1 s = map (\<lambda>c. word_of_nat (of_char c)) s"

definition png_chunk :: "string \<Rightarrow> 8 word list \<Rightarrow> 8 word list" where
  "png_chunk ty data = uint32_be (of_nat (length data)) @ (latin1 ty @ data) @ uint32_be (crc32 (latin1 ty @ data))"

definition png_signature :: "8 word list" where
  "png_signature = [0x89, 0x50, 0x4e, 0x47, 0x0d, 0x0a, 0x1a, 0x0a]"

text \<open>\<open>raw.fill(value, from, to)\<close>.\<close>

definition fill :: "'a \<Rightarrow> nat \<Rightarrow> nat \<Rightarrow> 'a list \<Rightarrow> 'a list" where
  "fill v i j xs = map (\<lambda>k. if i \<le> k \<and> k < j then v else xs ! k) [0..<length xs]"

definition image_size :: "bool list list \<Rightarrow> nat \<Rightarrow> nat \<Rightarrow> nat" where
  "image_size modules scale quiet = (length modules + quiet * 2) * scale"

definition png_header :: "nat \<Rightarrow> 8 word list" where
  "png_header side = uint32_be (of_nat side) @ uint32_be (of_nat side) @ [8, 0, 0, 0, 0]"

text \<open>The part of the pixel row \<open>y\<close> one black module covers, as the bounds of a \<open>fill\<close>.\<close>

definition module_ranges :: "nat \<Rightarrow> nat \<Rightarrow> nat \<Rightarrow> nat \<Rightarrow> nat \<Rightarrow> (nat \<times> nat) list" where
  "module_ranges stride scale quiet my mx =
    (let x0 = (mx + quiet) * scale; y0 = (my + quiet) * scale
     in map (\<lambda>y. (y * stride + 1 + x0, y * stride + 1 + x0 + scale)) [y0..<y0 + scale])"

definition black_ranges :: "bool list list \<Rightarrow> nat \<Rightarrow> nat \<Rightarrow> (nat \<times> nat) list" where
  "black_ranges modules scale quiet = concat (map (\<lambda>my. concat (map (\<lambda>mx.
      if mx < length (modules ! my) \<and> modules ! my ! mx
      then module_ranges (image_size modules scale quiet + 1) scale quiet my mx else [])
    [0..<length modules])) [0..<length modules])"

definition raw_image :: "bool list list \<Rightarrow> nat \<Rightarrow> nat \<Rightarrow> 8 word list" where
  "raw_image modules scale quiet =
    (let side = image_size modules scale quiet;
         stride = side + 1;
         blank = fold (\<lambda>y raw. raw[y * stride := 0]) [0..<side] (replicate (stride * side) 0xff)
     in fold (\<lambda>(i, j) raw. fill 0 i j raw) (black_ranges modules scale quiet) blank)"

definition pngFromModules :: "(8 word list \<Rightarrow> 8 word list) \<Rightarrow> bool list list \<Rightarrow> nat \<Rightarrow> nat \<Rightarrow> 8 word list" where
  "pngFromModules deflate modules scale quiet =
    png_signature @ png_chunk ''IHDR'' (png_header (image_size modules scale quiet))
      @ png_chunk ''IDAT'' (deflate (raw_image modules scale quiet)) @ png_chunk ''IEND'' []"

section \<open>The data URL\<close>

definition qrDataUrlFromTerminal :: "(8 word list \<Rightarrow> 8 word list) \<Rightarrow> jstr \<Rightarrow> jstr option" where
  "qrDataUrlFromTerminal deflate s = (case modulesFromTerminalQr s of
      None \<Rightarrow> None
    | Some modules \<Rightarrow> Some (js ''data:image/png;base64,'' @ base64 (map unat (pngFromModules deflate modules 8 4))))"

end
