(* ===== verification/QrImageProps.thy ===== *)
theory QrImageProps
  imports QrImage
begin

text \<open>
  The three things a phone needs of the picture: the check sum is the one PNG prescribes (computed bit by bit here, as
  the standard writes it), the pixels are the modules, and the modules are those the bridge printed.
\<close>

unbundle bit_operations_syntax

section \<open>The check sum\<close>

text \<open>
  The reference: the message is a stream of bits, least significant first, divided by the polynomial one bit at a time.
\<close>

definition crc_bit :: "bool \<Rightarrow> 32 word \<Rightarrow> 32 word" where
  "crc_bit b c = (if bit c 0 \<noteq> b then 0xedb88320 XOR drop_bit 1 c else drop_bit 1 c)"

definition message_bits :: "8 word list \<Rightarrow> bool list" where
  "message_bits bytes = concat (map (\<lambda>b. map (bit b) [0..<8]) bytes)"

definition crc32_bitwise :: "8 word list \<Rightarrow> 32 word" where
  "crc32_bitwise bytes = fold crc_bit (message_bits bytes) 0xffffffff XOR 0xffffffff"

lemma crc_step_bit: "crc_step c = (if bit c 0 then 0xedb88320 XOR drop_bit 1 c else drop_bit 1 c)"
  by (simp add: crc_step_def and_one_eq bit_0 odd_iff_mod_2_eq_one)

lemma crc_step_xor: "crc_step (x XOR y) = crc_step x XOR crc_step y"
  by (simp add: crc_step_bit bit_xor_iff ac_simps)

lemma crc_steps_xor: "(crc_step ^^ n) (x XOR y) = (crc_step ^^ n) x XOR (crc_step ^^ n) y"
  by (induction n) (simp_all add: crc_step_xor)

lemma crc_steps_shift: "(\<And>i. i < n \<Longrightarrow> \<not> bit y i) \<Longrightarrow> (crc_step ^^ n) y = drop_bit n y"
proof (induction n arbitrary: y)
  case (Suc n)
  have "\<not> bit y 0" using Suc.prems by blast
  then have "crc_step y = drop_bit 1 y" by (simp add: crc_step_bit)
  moreover have "(crc_step ^^ n) (drop_bit 1 y) = drop_bit n (drop_bit 1 y)"
    by (rule Suc.IH) (simp add: bit_drop_bit_eq Suc.prems)
  ultimately show ?case by (simp add: funpow_Suc_right del: funpow.simps)
qed simp

lemma low_byte: "(x :: 32 word) AND 0xff = take_bit 8 x"
  by (simp add: take_bit_eq_mask mask_eq_exp_minus_1)

lemma table_entry: "crc_table ! unat (take_bit 8 x) = (crc_step ^^ 8) (take_bit 8 x)" for x :: "32 word"
proof -
  have "unat (take_bit 8 x) = take_bit 8 (unat x)" by (simp add: unsigned_take_bit_eq)
  also have "\<dots> < 2 ^ 8" by (rule take_bit_nat_less_exp)
  finally have lt: "unat (take_bit 8 x) < 256" by simp
  then have "crc_table ! unat (take_bit 8 x) = (crc_step ^^ 8) (of_nat (unat (take_bit 8 x)))"
    by (simp add: crc_table_def)
  then show ?thesis by simp
qed

lemma crc_byte_steps: "crc_byte b c = (crc_step ^^ 8) (c XOR ucast b)"
proof -
  let ?x = "c XOR ucast b"
  let ?high = "push_bit 8 (drop_bit 8 ?x)"
  have split: "?x = take_bit 8 ?x XOR ?high"
  proof (rule bit_eqI)
    fix n
    show "bit ?x n = bit (take_bit 8 ?x XOR ?high) n"
      by (cases "n < 8") (auto simp: bit_simps dest: bit_imp_le_length)
  qed
  have "(crc_step ^^ 8) ?x = (crc_step ^^ 8) (take_bit 8 ?x) XOR (crc_step ^^ 8) ?high"
    by (subst split) (rule crc_steps_xor)
  moreover have "(crc_step ^^ 8) ?high = drop_bit 8 ?high"
    by (rule crc_steps_shift) (simp add: bit_simps)
  moreover have "drop_bit 8 ?high = drop_bit 8 c"
    by (rule bit_eqI) (auto simp: bit_simps dest: bit_imp_le_length)
  ultimately show ?thesis by (simp only: crc_byte_def low_byte table_entry)
qed

lemma crc_bit_step: "crc_bit b c = crc_step (c XOR of_bool b)"
proof -
  have "drop_bit 1 (c XOR 1) = drop_bit 1 c" by (rule bit_eqI) (auto simp: bit_simps)
  then show ?thesis by (simp add: crc_bit_def crc_step_bit bit_simps)
qed

lemma crc_bits_steps:
  fixes w :: "32 word"
  shows "n \<le> 8 \<Longrightarrow> fold crc_bit (map (bit w) [0..<n]) c = (crc_step ^^ n) (c XOR take_bit n w)"
proof (induction n)
  case (Suc n)
  let ?top = "push_bit n (of_bool (bit w n)) :: 32 word"
  have top: "(crc_step ^^ n) ?top = of_bool (bit w n)"
  proof -
    have "(crc_step ^^ n) ?top = drop_bit n ?top" by (rule crc_steps_shift) (simp add: bit_simps)
    also have "\<dots> = of_bool (bit w n)" using Suc.prems by (intro bit_eqI) (auto simp: bit_simps)
    finally show ?thesis .
  qed
  have "take_bit (Suc n) w = take_bit n w XOR ?top"
    by (rule bit_eqI) (auto simp: bit_simps less_Suc_eq)
  then have "c XOR take_bit (Suc n) w = (c XOR take_bit n w) XOR ?top" by (simp add: ac_simps)
  then have "(crc_step ^^ n) (c XOR take_bit (Suc n) w) = (crc_step ^^ n) (c XOR take_bit n w) XOR of_bool (bit w n)"
    by (simp only: crc_steps_xor top)
  with Suc show ?case by (simp add: crc_bit_step)
qed simp

lemma crc_byte_bits: "fold crc_bit (map (bit b) [0..<8]) c = crc_byte b c" for b :: "8 word"
proof -
  have "map (bit b) [0..<8] = map (bit (ucast b :: 32 word)) [0..<8]"
    by (rule map_cong) (auto simp: bit_simps)
  moreover have "take_bit 8 (ucast b :: 32 word) = ucast b"
    by (rule bit_eqI) (auto simp: bit_simps dest: bit_imp_le_length)
  ultimately show ?thesis by (simp only: crc_bits_steps [OF order_refl] crc_byte_steps)
qed

text \<open>The table-driven check sum of a PNG chunk is the CRC-32 of the standard: the remainder of the message, taken
  bit by bit from the least significant bit of each byte, by the polynomial, register and result inverted.
\<close>

theorem crc32_is_bitwise: "crc32 bytes = crc32_bitwise bytes"
proof -
  have "fold crc_byte bytes c = fold crc_bit (message_bits bytes) c" for c
    by (induction bytes arbitrary: c) (simp_all add: message_bits_def crc_byte_bits del: upt_rec_numeral)
  then show ?thesis by (simp add: crc32_def crc32_bitwise_def)
qed


section \<open>The pixels\<close>

lemma length_fill [simp]: "length (fill v i j xs) = length xs"
  by (simp add: fill_def)

lemma nth_fill: "k < length xs \<Longrightarrow> fill v i j xs ! k = (if i \<le> k \<and> k < j then v else xs ! k)"
  by (simp add: fill_def)

lemma fills:
  "length (fold (\<lambda>(i, j) raw. fill v i j raw) rs xs) = length xs \<and>
   (k < length xs \<longrightarrow> fold (\<lambda>(i, j) raw. fill v i j raw) rs xs ! k =
      (if \<exists>r \<in> set rs. fst r \<le> k \<and> k < snd r then v else xs ! k))"
proof (induction rs arbitrary: xs)
  case (Cons r rs)
  show ?case using Cons.IH [of "fill v (fst r) (snd r) xs"] by (auto simp: nth_fill split_beta)
qed simp

lemma row_starts:
  "length (fold (\<lambda>y raw. raw[y * w := v]) ys xs) = length xs \<and>
   (k < length xs \<longrightarrow> fold (\<lambda>y raw. raw[y * w := v]) ys xs ! k = (if \<exists>y \<in> set ys. k = y * w then v else xs ! k))"
  by (induction ys arbitrary: xs) (auto simp: nth_list_update)

lemma same_row: "a < w \<Longrightarrow> y' * w \<le> y * w + a \<Longrightarrow> y * w + a < y' * w + w \<Longrightarrow> y = y'" for y :: nat
proof -
  assume a: "a < w" and "y' * w \<le> y * w + a" and "y * w + a < y' * w + w"
  then have "(y * w + a) div w = y'"
    by (intro div_nat_eqI) (auto simp: ac_simps)
  with a show ?thesis by simp
qed

lemma div_range: "0 < s \<Longrightarrow> m * s \<le> x \<and> x < m * s + s \<longleftrightarrow> x div s = m" for x :: nat
  by (auto intro!: div_nat_eqI simp: ac_simps dest: sym) (metis add.commute dividend_less_div_times mult.commute)+

text \<open>Whether the module at column \<open>mx\<close> and row \<open>my\<close>, both counted from the outer edge of the quiet zone, is black.\<close>

definition black_at :: "bool list list \<Rightarrow> nat \<Rightarrow> nat \<Rightarrow> nat \<Rightarrow> bool" where
  "black_at modules quiet my mx \<longleftrightarrow> quiet \<le> my \<and> my < quiet + length modules \<and> quiet \<le> mx \<and> mx < quiet + length modules \<and>
     mx - quiet < length (modules ! (my - quiet)) \<and> modules ! (my - quiet) ! (mx - quiet)"

lemma black_rangesI:
  "m < length modules \<Longrightarrow> k < length modules \<Longrightarrow> k < length (modules ! m) \<Longrightarrow> modules ! m ! k \<Longrightarrow>
    r \<in> set (module_ranges (image_size modules scale quiet + 1) scale quiet m k) \<Longrightarrow> r \<in> set (black_ranges modules scale quiet)"
  unfolding black_ranges_def set_concat set_map set_upt image_image by (intro UN_I [of m] UN_I [of k]) auto

lemma black_ranges_set:
  "r \<in> set (black_ranges modules scale quiet) \<longleftrightarrow>
     (\<exists>my mx y. black_at modules quiet my mx \<and> my * scale \<le> y \<and> y < my * scale + scale \<and>
        r = (y * (image_size modules scale quiet + 1) + 1 + mx * scale,
             y * (image_size modules scale quiet + 1) + 1 + mx * scale + scale))" (is "_ = (\<exists>my mx y. ?P my mx y)")
proof
  assume "r \<in> set (black_ranges modules scale quiet)"
  then obtain my mx y where "my < length modules" "mx < length modules" "mx < length (modules ! my)" "modules ! my ! mx"
    "(my + quiet) * scale \<le> y" "y < (my + quiet) * scale + scale"
    "r = (y * (image_size modules scale quiet + 1) + 1 + (mx + quiet) * scale,
          y * (image_size modules scale quiet + 1) + 1 + (mx + quiet) * scale + scale)"
    by (auto simp: black_ranges_def module_ranges_def Let_def split: if_splits)
  then have "?P (my + quiet) (mx + quiet) y" by (simp add: black_at_def)
  then show "\<exists>my mx y. ?P my mx y" by blast
next
  assume "\<exists>my mx y. ?P my mx y"
  then obtain my mx y where p: "?P my mx y" by blast
  then have at: "my - quiet < length modules" "mx - quiet < length modules" "mx - quiet < length (modules ! (my - quiet))"
    "modules ! (my - quiet) ! (mx - quiet)" and shift: "my - quiet + quiet = my" "mx - quiet + quiet = mx"
    by (auto simp: black_at_def)
  from p have "r \<in> set (module_ranges (image_size modules scale quiet + 1) scale quiet (my - quiet) (mx - quiet))"
    unfolding module_ranges_def Let_def shift set_map set_upt by (intro image_eqI [of _ _ y]) simp_all
  with at show "r \<in> set (black_ranges modules scale quiet)" by (intro black_rangesI)
qed

lemma black_at_inside: "black_at modules quiet my mx \<Longrightarrow> mx * scale + scale \<le> image_size modules scale quiet"
proof -
  assume "black_at modules quiet my mx"
  then have "mx + 1 \<le> length modules + quiet * 2" by (auto simp: black_at_def)
  then have "(mx + 1) * scale \<le> (length modules + quiet * 2) * scale" by (rule mult_le_mono1)
  then show ?thesis by (simp add: image_size_def)
qed

lemma covered_iff:
  fixes modules scale quiet
  defines "side \<equiv> image_size modules scale quiet"
  assumes "a \<le> side"
  shows "(\<exists>r \<in> set (black_ranges modules scale quiet). fst r \<le> y * (side + 1) + a \<and> y * (side + 1) + a < snd r) \<longleftrightarrow>
    0 < a \<and> black_at modules quiet (y div scale) ((a - 1) div scale) \<and> 0 < scale" (is "?L = ?R")
proof
  assume ?L
  then obtain my mx y' where b: "black_at modules quiet my mx" and y': "my * scale \<le> y'" "y' < my * scale + scale"
    and lo: "y' * (side + 1) + 1 + mx * scale \<le> y * (side + 1) + a"
    and hi: "y * (side + 1) + a < y' * (side + 1) + 1 + mx * scale + scale"
    unfolding side_def by (auto simp: black_ranges_set)
  have inside: "mx * scale + scale \<le> side" using black_at_inside [OF b] by (simp add: side_def)
  have "y = y'"
    by (rule same_row [where w = "side + 1" and a = a]) (use lo hi inside assms(2) in linarith)+
  with lo hi have a: "1 + mx * scale \<le> a" "a < 1 + mx * scale + scale" by auto
  have "0 < scale" using y' by linarith
  moreover have "y div scale = my" using y' \<open>y = y'\<close> \<open>0 < scale\<close> div_range by blast
  moreover have "(a - 1) div scale = mx" using a \<open>0 < scale\<close> div_range [of scale mx "a - 1"] by auto
  ultimately show ?R using b a by simp
next
  assume r: ?R
  let ?my = "y div scale" and ?mx = "(a - 1) div scale"
  let ?from = "y * (side + 1) + 1 + ?mx * scale"
  have my: "?my * scale \<le> y \<and> y < ?my * scale + scale" and mx: "?mx * scale \<le> a - 1 \<and> a - 1 < ?mx * scale + scale"
    using r div_range by blast+
  have "(?from, ?from + scale) \<in> set (black_ranges modules scale quiet)"
    unfolding black_ranges_set side_def using r my by blast
  moreover have "?from \<le> y * (side + 1) + a" "y * (side + 1) + a < ?from + scale"
    using mx r by linarith+
  ultimately show ?L by force
qed

lemma raw_image_nth:
  fixes modules scale quiet
  defines "side \<equiv> image_size modules scale quiet"
  assumes "y < side" and "a \<le> side"
  shows "raw_image modules scale quiet ! (y * (side + 1) + a) =
    (if a = 0 \<or> black_at modules quiet (y div scale) ((a - 1) div scale) then 0 else 0xff)"
proof -
  let ?k = "y * (side + 1) + a"
  let ?blank = "fold (\<lambda>y raw. raw[y * (side + 1) := (0 :: 8 word)]) [0..<side] (replicate ((side + 1) * side) 0xff)"
  have scale: "0 < scale" using assms(2) by (cases scale) (auto simp: side_def image_size_def)
  have "?k < (y + 1) * (side + 1)" using assms(3) by simp
  also have "\<dots> \<le> side * (side + 1)" by (rule mult_le_mono1) (use assms(2) in simp)
  finally have k: "?k < (side + 1) * side" by (simp only: mult.commute)
  have start: "(\<exists>y' \<in> set [0..<side]. ?k = y' * (side + 1)) \<longleftrightarrow> a = 0"
  proof
    assume "\<exists>y' \<in> set [0..<side]. ?k = y' * (side + 1)"
    then obtain y' where "?k = y' * (side + 1)" by blast
    moreover from this have "y = y'" by (intro same_row [where w = "side + 1" and a = a]) (use assms(3) in linarith)+
    ultimately show "a = 0" by simp
  qed (use assms(2) in auto)
  have blank: "?blank ! ?k = (if a = 0 then 0 else 0xff)" "length ?blank = (side + 1) * side"
    using row_starts [of "side + 1" "0 :: 8 word" "[0..<side]" "replicate ((side + 1) * side) 0xff" ?k] k start by simp_all
  have "raw_image modules scale quiet ! ?k = (if \<exists>r \<in> set (black_ranges modules scale quiet). fst r \<le> ?k \<and> ?k < snd r then 0 else ?blank ! ?k)"
    using fills [of 0 "black_ranges modules scale quiet" ?blank ?k] k blank(2)
    by (simp add: raw_image_def Let_def side_def)
  then show ?thesis
    using covered_iff [of a modules scale quiet y] assms(3) scale blank(1) by (auto simp: side_def)
qed


section \<open>Reading the printed code\<close>

text \<open>
  How the bridge prints a symbol, as the reader's comment describes it: two rows of modules to a line, white where the glyph is
  filled, a margin of one white module at either end, a missing last row printed white; above and below it
  lines of one glyph throughout.
\<close>

definition cell :: "bool \<Rightarrow> bool \<Rightarrow> nat" where
  "cell upper lower = (if upper then (if lower then 32 else 9604) else (if lower then 9600 else 9608))"

definition printed_line :: "bool list \<Rightarrow> bool list \<Rightarrow> jstr" where
  "printed_line upper lower = 9608 # map2 cell upper lower @ [9608]"

fun printed_code :: "bool list list \<Rightarrow> jstr list" where
  "printed_code [] = []"
| "printed_code [row] = [printed_line row (replicate (length row) False)]"
| "printed_code (upper # lower # rest) = printed_line upper lower # printed_code rest"

definition border_line :: "nat \<Rightarrow> jstr \<Rightarrow> bool" where
  "border_line n line \<longleftrightarrow> (\<exists>upper lower. line = replicate (n + 2) (cell upper lower))"

definition padding :: "bool list list \<Rightarrow> bool list list" where
  "padding rows = (if even (length rows) then [] else [replicate (length (last rows)) False])"

lemma code_points_units: "(\<And>c. c \<in> set xs \<Longrightarrow> \<not> is_high_surrogate c) \<Longrightarrow> code_points xs = map (\<lambda>c. [c]) xs"
  by (induction xs rule: code_points.induct) auto

lemma cell_unit [simp]: "\<not> is_high_surrogate (cell a b)" "glyph [cell a b] = Some (a, b)"
  by (auto simp: cell_def is_high_surrogate_def glyph_def)

lemma cell_white: "cell False False = 9608"
  by (simp add: cell_def)

text \<open>A line of cells is part of the picture and gives its two rows.\<close>

lemma qr_rows_cells:
  assumes "line = map (case_prod cell) pairs" and "n + 2 = length pairs" and "28 \<le> n" and "qr_rows rest = Some rows"
  shows "qr_rows (line # rest) =
    Some (map fst (butlast (tl pairs)) # map snd (butlast (tl pairs)) # rows)"
proof -
  have units: "\<not> is_high_surrogate c" if "c \<in> set line" for c
    using that assms(1) by auto
  have "code_points line = map (\<lambda>p. [case_prod cell p]) pairs"
    by (subst code_points_units [OF units]) (simp_all add: assms(1))
  then have "isQrLine line"
    using assms(1-3) by (auto simp: isQrLine_def min_qr_line_chars_def)
  moreover have "core line = map (case_prod cell) (butlast (tl pairs))"
    by (simp add: core_def assms(1) drop_Suc map_butlast map_tl)
  moreover have "code_points (map (case_prod cell) ps) = map (\<lambda>p. [case_prod cell p]) ps" for ps
    by (subst code_points_units) auto
  moreover have "those (map (glyph \<circ> (\<lambda>p. [case_prod cell p])) ps) = Some ps" for ps
    by (induction ps) auto
  ultimately show ?thesis using assms(4) by simp
qed

lemma qr_rows_line:
  assumes "length upper = n" and "length lower = n" and "28 \<le> n" and "qr_rows rest = Some rows"
  shows "qr_rows (printed_line upper lower # rest) = Some (upper # lower # rows)"
proof -
  have "printed_line upper lower = map (case_prod cell) ((False, False) # zip upper lower @ [(False, False)])"
    by (simp add: printed_line_def cell_white)
  from qr_rows_cells [OF this _ assms(3,4)] show ?thesis using assms(1,2) by simp
qed

lemma qr_rows_code:
  assumes "\<And>row. row \<in> set m \<Longrightarrow> length row = n" and "28 \<le> n" and "qr_rows rest = Some rows"
  shows "qr_rows (printed_code m @ rest) = Some (m @ padding m @ rows)"
  using assms(1)
proof (induction m rule: printed_code.induct)
  case (3 upper lower m)
  have "qr_rows (printed_code m @ rest) = Some (m @ padding m @ rows)" by (rule 3) (simp add: 3)
  moreover have "padding (upper # lower # m) = padding m" by (auto simp: padding_def)
  ultimately show ?case using 3(2) assms(2) by (simp add: qr_rows_line [where n = n] del: qr_rows.simps)
next
  case (2 row)
  then show ?case using assms(2,3) by (simp add: padding_def qr_rows_line [where n = n] del: qr_rows.simps)
qed (simp add: padding_def assms)

lemma butlast_Cons_replicate: "butlast (a # replicate n a) = replicate n a"
  by (induction n) auto

lemma qr_rows_borders:
  assumes "28 \<le> n" and "qr_rows rest = Some rows"
  shows "(\<And>line. line \<in> set bs \<Longrightarrow> border_line n line) \<Longrightarrow>
    \<exists>us. qr_rows (bs @ rest) = Some (us @ rows) \<and> (\<forall>u \<in> set us. uniform u \<and> length u = n)"
proof (induction bs)
  case (Cons b bs)
  then obtain us where us: "qr_rows (bs @ rest) = Some (us @ rows)" "\<forall>u \<in> set us. uniform u \<and> length u = n" by auto
  have "border_line n b" using Cons.prems by simp
  then obtain x y where "b = replicate (n + 2) (cell x y)" unfolding border_line_def by blast
  then have "b = map (case_prod cell) (replicate (n + 2) (x, y))" by simp
  from qr_rows_cells [OF this _ assms(1) us(1)]
  have "qr_rows (b # bs @ rest) = Some (replicate n x # replicate n y # us @ rows)"
    by (simp add: butlast_Cons_replicate del: butlast.simps)
  then have "qr_rows ((b # bs) @ rest) = Some ((replicate n x # replicate n y # us) @ rows)" by simp
  moreover have "\<forall>u \<in> set (replicate n x # replicate n y # us). uniform u \<and> length u = n"
    using us(2) assms(1) by (auto simp: uniform_def)
  ultimately show ?case by blast
qed (use assms in auto)

lemma qr_rows_skip: "(\<And>line. line \<in> set xs \<Longrightarrow> \<not> isQrLine line) \<Longrightarrow> qr_rows (xs @ rest) = qr_rows rest"
  by (induction xs) auto

lemma drop_uniform: "(\<And>u. u \<in> set us \<Longrightarrow> uniform u) \<Longrightarrow> m \<noteq> [] \<Longrightarrow> \<not> uniform (hd m) \<Longrightarrow> dropWhile uniform (us @ m) = m"
  by (cases m) (auto simp: dropWhile_append2)

lemma drop_borders_code:
  assumes "\<And>u. u \<in> set us \<Longrightarrow> uniform u" and "\<And>u. u \<in> set vs \<Longrightarrow> uniform u"
    and "m \<noteq> []" and "\<not> uniform (hd m)" and "\<not> uniform (last m)"
  shows "drop_borders (us @ m @ vs) = m"
proof -
  have "dropWhile uniform (us @ m @ vs) = m @ vs" using assms by (intro drop_uniform) auto
  moreover have "dropWhile uniform (rev vs @ rev m) = rev m" using assms by (intro drop_uniform) (auto simp: hd_rev)
  ultimately show ?thesis by (simp add: drop_borders_def)
qed

lemma read_off:
  assumes "qr_rows (plain_lines s) = Some rows" and "rows \<noteq> []" and "length (hd rows) = length m" and "drop_borders rows = m"
    and "m \<noteq> []" and "\<And>row. row \<in> set m \<Longrightarrow> length row = length m"
  shows "modulesFromTerminalQr s = Some m"
  using assms by (cases rows) (auto simp: modulesFromTerminalQr_def Let_def)

lemma modules_read_back:
  assumes "\<And>row. row \<in> set m \<Longrightarrow> length row = length m" and "28 \<le> length m"
    and "\<not> uniform (hd m)" and "\<not> uniform (last m)"
    and "plain_lines s = before_it @ top_lines @ printed_code m @ end_lines @ after_it"
    and "\<And>line. line \<in> set top_lines \<union> set end_lines \<Longrightarrow> border_line (length m) line"
    and "\<And>line. line \<in> set before_it \<union> set after_it \<Longrightarrow> \<not> isQrLine line"
  shows "modulesFromTerminalQr s = Some m"
proof -
  let ?n = "length m"
  have ne: "m \<noteq> []" using assms(2) by auto
  have "qr_rows after_it = Some []" using qr_rows_skip [of after_it "[]"] assms(7) by simp
  from qr_rows_borders [OF assms(2) this, of end_lines] obtain vs where
    vs: "qr_rows (end_lines @ after_it) = Some vs" "\<forall>u \<in> set vs. uniform u \<and> length u = ?n" using assms(6) by auto
  have "qr_rows (printed_code m @ end_lines @ after_it) = Some (m @ padding m @ vs)"
    by (rule qr_rows_code [OF assms(1,2) vs(1)])
  from qr_rows_borders [OF assms(2) this, of top_lines] obtain us where
    us: "qr_rows (top_lines @ printed_code m @ end_lines @ after_it) = Some (us @ m @ padding m @ vs)"
      "\<forall>u \<in> set us. uniform u \<and> length u = ?n" using assms(6) by auto
  let ?rows = "us @ m @ padding m @ vs"
  have rows: "qr_rows (plain_lines s) = Some ?rows"
    using us(1) assms(5,7) by (simp add: qr_rows_skip)
  have "uniform u" if "u \<in> set (padding m @ vs)" for u
    using that vs(2) by (auto simp: padding_def uniform_def split: if_splits)
  then have stripped: "drop_borders ?rows = m"
    using us(2) ne assms(3,4) by (intro drop_borders_code) auto
  have width: "length (hd ?rows) = ?n" using us(2) assms(1) ne by (cases us) auto
  with rows stripped ne assms(1) show ?thesis by (intro read_off [of s ?rows]) auto
qed


lemma strip_ansi_plain: "27 \<notin> set s \<Longrightarrow> strip_ansi s = s"
  by (induction s) (auto simp: ansi_at_def)

lemma plain_lines_joined:
  assumes "ls \<noteq> []" and "\<forall>l \<in> set ls. \<forall>c \<in> set l. c \<noteq> 10 \<and> c \<noteq> 13 \<and> c \<noteq> 27"
  shows "plain_lines (join [10] ls) = ls"
proof -
  have units: "set (join [10] ls) \<subseteq> insert 10 (\<Union> (set ` set ls))"
    by (induction "[10 :: nat]" ls rule: join.induct) auto
  have "strip_ansi (join [10] ls) = join [10] ls" using units assms(2) by (intro strip_ansi_plain) force
  moreover have "filter (\<lambda>c. c \<noteq> 13) (join [10] ls) = join [10] ls"
    using units assms(2) by (intro filter_True) force
  moreover have "list_all (\<lambda>l. 10 \<notin> set l) ls" using assms(2) by (auto simp: list_all_iff)
  ultimately show ?thesis using assms(1) by (simp add: plain_lines_def split_on_join)
qed

text \<open>
  C34: What a phone scans is what the bridge printed. From any output in which a square code of at least 28 modules
  was printed in half-block glyphs, between borders and among other lines, coloured or not, exactly its modules are
  read; and each pixel of the image drawn from them is black when the module under it is black and white
  otherwise, the quiet zone included, every scan line opening with filter byte zero.
\<close>

theorem scanned_code_is_the_printed_one:
  assumes "\<And>row. row \<in> set m \<Longrightarrow> length row = length m" and "28 \<le> length m"
    and "\<not> uniform (hd m)" and "\<not> uniform (last m)"
    and "plain_lines s = before_it @ top_lines @ printed_code m @ end_lines @ after_it"
    and "\<And>line. line \<in> set top_lines \<union> set end_lines \<Longrightarrow> border_line (length m) line"
    and "\<And>line. line \<in> set before_it \<union> set after_it \<Longrightarrow> \<not> isQrLine line"
  shows "modulesFromTerminalQr s = Some m \<and>
    (\<forall>y < image_size m 8 4. raw_image m 8 4 ! (y * (image_size m 8 4 + 1)) = 0 \<and>
      (\<forall>x < image_size m 8 4. raw_image m 8 4 ! (y * (image_size m 8 4 + 1) + (1 + x)) =
        (if black_at m 4 (y div 8) (x div 8) then 0 else 0xff)))"
proof (intro conjI allI impI)
  show "modulesFromTerminalQr s = Some m" by (rule modules_read_back [OF assms])
next
  fix y assume "y < image_size m 8 4"
  then show "raw_image m 8 4 ! (y * (image_size m 8 4 + 1)) = 0"
    using raw_image_nth [of y m 8 4 0] by simp
next
  fix y x assume "y < image_size m 8 4" and "x < image_size m 8 4"
  then show "raw_image m 8 4 ! (y * (image_size m 8 4 + 1) + (1 + x)) = (if black_at m 4 (y div 8) (x div 8) then 0 else 0xff)"
    using raw_image_nth [of y m 8 4 "1 + x"] by simp
qed

definition ex_modules :: "bool list list" where
  "ex_modules = map (\<lambda>i. map (\<lambda>j. (i * j + i + j) mod 3 = 0) [0..<29]) [0..<29]"

definition ex_lines :: "jstr list" where
  "ex_lines = [js ''Scan this QR code with WhatsApp:''] @ [replicate 31 9604] @ printed_code ex_modules @ [] @ [js ''Waiting for scan...'']"

lemma printed_code_units: "l \<in> set (printed_code m) \<Longrightarrow> c \<in> set l \<Longrightarrow> c \<in> {9608, 9600, 9604, 32}"
  by (induction m arbitrary: l rule: printed_code.induct) (auto simp: printed_line_def, auto simp: cell_def split: if_splits)

lemma ex_plain_lines: "plain_lines (join [10] ex_lines) = ex_lines"
proof (rule plain_lines_joined)
  show "\<forall>l \<in> set ex_lines. \<forall>c \<in> set l. c \<noteq> 10 \<and> c \<noteq> 13 \<and> c \<noteq> 27"
    by (auto simp: ex_lines_def js_def dest: printed_code_units)
qed (simp add: ex_lines_def)

lemma not_uniform: "row ! i \<noteq> row ! j \<Longrightarrow> i < length row \<Longrightarrow> j < length row \<Longrightarrow> \<not> uniform row"
  unfolding uniform_def by (metis nth_mem)

theorem scanned_code_is_the_printed_one_witness:
  "modulesFromTerminalQr (join [10] ex_lines) = Some ex_modules \<and> raw_image ex_modules 8 4 ! (32 * 297 + (1 + 32)) = 0
    \<and> raw_image ex_modules 8 4 ! (32 * 297 + (1 + 40)) = 0xff"
proof -
  have len: "length ex_modules = 29" by (simp add: ex_modules_def)
  have side: "image_size ex_modules 8 4 = 296" by (simp add: image_size_def len)
  have all: "modulesFromTerminalQr (join [10] ex_lines) = Some ex_modules \<and>
    (\<forall>y < image_size ex_modules 8 4. raw_image ex_modules 8 4 ! (y * (image_size ex_modules 8 4 + 1)) = 0 \<and>
      (\<forall>x < image_size ex_modules 8 4. raw_image ex_modules 8 4 ! (y * (image_size ex_modules 8 4 + 1) + (1 + x)) =
        (if black_at ex_modules 4 (y div 8) (x div 8) then 0 else 0xff)))"
  proof (rule scanned_code_is_the_printed_one)
    show "row \<in> set ex_modules \<Longrightarrow> length row = length ex_modules" for row
      by (auto simp: ex_modules_def)
    show "28 \<le> length ex_modules" by (simp add: len)
    show "\<not> uniform (hd ex_modules)" "\<not> uniform (last ex_modules)"
      by (rule not_uniform [of _ 0 1], simp_all add: ex_modules_def hd_conv_nth last_conv_nth)+
    show "plain_lines (join [10] ex_lines) = [js ''Scan this QR code with WhatsApp:''] @ [replicate 31 9604] @ printed_code ex_modules @ [] @ [js ''Waiting for scan...'']"
      using ex_plain_lines unfolding ex_lines_def .
    show "border_line (length ex_modules) line" if "line \<in> set [replicate 31 9604] \<union> set []" for line
      using that border_line_def [of 29 line] by (simp add: len cell_def) blast
    show "\<not> isQrLine line" if "line \<in> set [js ''Scan this QR code with WhatsApp:''] \<union> set [js ''Waiting for scan...'']" for line
      using that by (auto simp: isQrLine_def js_def min_qr_line_chars_def glyph_def is_high_surrogate_def)
  qed
  have "black_at ex_modules 4 4 4" "\<not> black_at ex_modules 4 4 5"
    by (simp_all add: black_at_def ex_modules_def)
  with all [unfolded side, THEN conjunct2, rule_format, of 32, THEN conjunct2, rule_format, of 32]
    all [unfolded side, THEN conjunct2, rule_format, of 32, THEN conjunct2, rule_format, of 40] all
  show ?thesis by simp
qed

end
