(* ===== verification/WorkerContract.thy ===== *)
theory WorkerContract
  imports GroupToolReads Execute "HOL-Library.Monad_Syntax"
begin

text \<open>
  The worker's answers as the dashboard accepts them (packages/shared/src/worker-contract.ts and the schemas of
  server/worker/client.ts): a schema reads a parsed JSON value into its record, or refuses it. Unknown members are dropped.
  A fractional number has no counterpart among the JSON values here; every number of the contract is an integer.
\<close>

section \<open>Readers of one member\<close>

definition w_string :: "json option \<Rightarrow> jstr option" where
  "w_string v = (case v of Some (JStr s) \<Rightarrow> Some s | _ \<Rightarrow> None)"

definition w_nonempty :: "json option \<Rightarrow> jstr option" where
  "w_nonempty v = (case v of Some (JStr s) \<Rightarrow> if s = [] then None else Some s | _ \<Rightarrow> None)"

definition w_optional :: "json option \<Rightarrow> jstr option option" where
  "w_optional v = (case v of None \<Rightarrow> Some None | Some (JStr s) \<Rightarrow> Some (Some s) | _ \<Rightarrow> None)"

definition w_nullable :: "json option \<Rightarrow> jstr option option" where
  "w_nullable v = (case v of Some JNull \<Rightarrow> Some None | Some (JStr s) \<Rightarrow> Some (Some s) | _ \<Rightarrow> None)"

definition w_count :: "json option \<Rightarrow> nat option" where
  "w_count v = (case v of Some (JNum n) \<Rightarrow> if 0 \<le> n then Some (nat n) else None | _ \<Rightarrow> None)"

definition w_enum :: "string list \<Rightarrow> json option \<Rightarrow> jstr option" where
  "w_enum allowed v = (case v of Some (JStr s) \<Rightarrow> if s \<in> js ` set allowed then Some s else None | _ \<Rightarrow> None)"

definition w_array :: "(json \<Rightarrow> 'a option) \<Rightarrow> json option \<Rightarrow> 'a list option" where
  "w_array element v = (case v of Some (JArr vs) \<Rightarrow> those (map element vs) | _ \<Rightarrow> None)"

definition w_object :: "(jobject \<Rightarrow> 'a option) \<Rightarrow> json \<Rightarrow> 'a option" where
  "w_object members v = (case v of JObj ob \<Rightarrow> members ob | _ \<Rightarrow> None)"

section \<open>The shared schemas\<close>

definition instance_status_names :: "string list" where
  "instance_status_names = [''disconnected'', ''pairing'', ''connected'', ''logged_out'', ''error'']"

definition pairing_mode_names :: "string list" where
  "pairing_mode_names = [''qr'', ''code'']"

definition sync_source_names :: "string list" where
  "sync_source_names = [''connect'', ''timer'', ''manual'', ''event'', ''message'']"

record group_sync_summary =
  gy_ok :: bool
  gy_instanceId :: jstr
  gy_durationMs :: nat
  gy_source :: jstr
  gy_total :: nat
  gy_added :: nat
  gy_subjectUpdated :: nat
  gy_metadataUpdated :: nat
  gy_markedLeft :: nat
  gy_subjectRejected :: nat
  gy_unchanged :: nat

definition groupSyncSummarySchema :: "json \<Rightarrow> group_sync_summary option" where
  "groupSyncSummarySchema = w_object (\<lambda>ob. do {
     done_ok \<leftarrow> z_bool (field ob ''ok'');
     inst \<leftarrow> w_nonempty (field ob ''instanceId'');
     ms \<leftarrow> w_count (field ob ''durationMs'');
     source \<leftarrow> w_enum sync_source_names (field ob ''source'');
     all \<leftarrow> w_count (field ob ''total'');
     added \<leftarrow> w_count (field ob ''added'');
     subject \<leftarrow> w_count (field ob ''subjectUpdated'');
     metadata \<leftarrow> w_count (field ob ''metadataUpdated'');
     markedLeft \<leftarrow> w_count (field ob ''markedLeft'');
     rejected \<leftarrow> w_count (field ob ''subjectRejected'');
     unchanged \<leftarrow> w_count (field ob ''unchanged'');
     Some \<lparr>gy_ok = done_ok, gy_instanceId = inst, gy_durationMs = ms, gy_source = source, gy_total = all, gy_added = added,
       gy_subjectUpdated = subject, gy_metadataUpdated = metadata, gy_markedLeft = markedLeft,
       gy_subjectRejected = rejected, gy_unchanged = unchanged\<rparr> })"

record instance_snapshot =
  is_id :: jstr
  is_label :: jstr
  is_mode :: jstr
  is_status :: jstr
  is_phoneNumber :: "jstr option"
  is_botJid :: "jstr option"
  is_botLid :: "jstr option"
  is_pairingError :: "jstr option"
  is_qr :: "jstr option"
  is_pairingCode :: "jstr option"
  is_connectedAt :: "jstr option"
  is_lastSeenAt :: "jstr option"
  is_createdAt :: jstr

definition instanceSnapshotSchema :: "json \<Rightarrow> instance_snapshot option" where
  "instanceSnapshotSchema = w_object (\<lambda>ob. do {
     ident \<leftarrow> w_nonempty (field ob ''id'');
     label \<leftarrow> w_string (field ob ''label'');
     mode \<leftarrow> w_enum pairing_mode_names (field ob ''mode'');
     status \<leftarrow> w_enum instance_status_names (field ob ''status'');
     phone \<leftarrow> w_optional (field ob ''phoneNumber'');
     jid \<leftarrow> w_optional (field ob ''botJid'');
     lid \<leftarrow> w_optional (field ob ''botLid'');
     err \<leftarrow> w_optional (field ob ''pairingError'');
     qr \<leftarrow> w_optional (field ob ''qr'');
     code \<leftarrow> w_optional (field ob ''pairingCode'');
     connected \<leftarrow> w_optional (field ob ''connectedAt'');
     seen \<leftarrow> w_optional (field ob ''lastSeenAt'');
     created \<leftarrow> w_string (field ob ''createdAt'');
     Some \<lparr>is_id = ident, is_label = label, is_mode = mode, is_status = status, is_phoneNumber = phone, is_botJid = jid,
       is_botLid = lid, is_pairingError = err, is_qr = qr, is_pairingCode = code, is_connectedAt = connected,
       is_lastSeenAt = seen, is_createdAt = created\<rparr> })"

definition instanceListSchema :: "json \<Rightarrow> instance_snapshot list option" where
  "instanceListSchema = w_object (\<lambda>ob. w_array instanceSnapshotSchema (field ob ''instances''))"

record loop_report =
  lr_name :: jstr
  lr_intervalMs :: nat
  lr_lastRunAt :: "jstr option"
  lr_lastError :: jstr
  lr_runs :: nat

definition loopReportSchema :: "json \<Rightarrow> loop_report option" where
  "loopReportSchema = w_object (\<lambda>ob. do {
     name \<leftarrow> w_nonempty (field ob ''name'');
     interval \<leftarrow> w_count (field ob ''intervalMs'');
     run \<leftarrow> w_nullable (field ob ''lastRunAt'');
     err \<leftarrow> w_string (field ob ''lastError'');
     runs \<leftarrow> w_count (field ob ''runs'');
     Some \<lparr>lr_name = name, lr_intervalMs = interval, lr_lastRunAt = run, lr_lastError = err, lr_runs = runs\<rparr> })"

definition schedulerReportSchema :: "json \<Rightarrow> loop_report list option" where
  "schedulerReportSchema = w_object (\<lambda>ob. w_array loopReportSchema (field ob ''loops''))"

section \<open>The client's own schemas\<close>

text \<open>\<open>int()\<close> of the dashboard's zod admits the safe integers only.\<close>

definition w_safe_count :: "json option \<Rightarrow> nat option" where
  "w_safe_count v = (case w_count v of Some n \<Rightarrow> if n \<le> 9007199254740991 then Some n else None | None \<Rightarrow> None)"

definition w_safe_int :: "json option \<Rightarrow> int option option" where
  "w_safe_int v = (case v of None \<Rightarrow> Some None
     | Some (JNum n) \<Rightarrow> if \<bar>n\<bar> \<le> 9007199254740991 then Some (Some n) else None | _ \<Rightarrow> None)"

definition w_true :: "json option \<Rightarrow> unit option" where
  "w_true v = (case v of Some (JBool True) \<Rightarrow> Some () | _ \<Rightarrow> None)"

definition instanceDeletedSchema :: "json \<Rightarrow> unit option" where
  "instanceDeletedSchema = w_object (\<lambda>ob. w_true (field ob ''ok''))"

definition workerGroupInfoSchema :: "json \<Rightarrow> worker_group_info option" where
  "workerGroupInfoSchema = w_object (\<lambda>ob. do {
     w_true (field ob ''ok'');
     jid \<leftarrow> w_nonempty (field ob ''groupJid'');
     name \<leftarrow> w_string (field ob ''name'');
     topic \<leftarrow> w_string (field ob ''topic'');
     announce \<leftarrow> z_bool (field ob ''isAnnounce'');
     locked \<leftarrow> z_bool (field ob ''isLocked'');
     participants \<leftarrow> w_safe_count (field ob ''participantCount'');
     admin \<leftarrow> z_bool (field ob ''botIsAdmin'');
     super \<leftarrow> z_bool (field ob ''botIsSuperAdmin'');
     Some \<lparr>wi_groupJid = jid, wi_name = name, wi_topic = topic, wi_isAnnounce = announce, wi_isLocked = locked,
       wi_participantCount = participants, wi_botIsAdmin = admin, wi_botIsSuperAdmin = super\<rparr> })"

definition workerGroupParticipantSchema :: "json \<Rightarrow> worker_participant option" where
  "workerGroupParticipantSchema = w_object (\<lambda>ob. do {
     jid \<leftarrow> w_nonempty (field ob ''jid'');
     admin \<leftarrow> z_bool (field ob ''isAdmin'');
     super \<leftarrow> z_bool (field ob ''isSuperAdmin'');
     name \<leftarrow> w_optional (field ob ''displayName'');
     Some \<lparr>wp_jid = jid, wp_isAdmin = admin, wp_isSuperAdmin = super, wp_displayName = name\<rparr> })"

definition workerGroupParticipantsSchema :: "json \<Rightarrow> worker_participants option" where
  "workerGroupParticipantsSchema = w_object (\<lambda>ob. do {
     w_true (field ob ''ok'');
     jid \<leftarrow> w_nonempty (field ob ''groupJid'');
     participants \<leftarrow> w_array workerGroupParticipantSchema (field ob ''participants'');
     Some \<lparr>ws_groupJid = jid, ws_participants = participants\<rparr> })"

record member_result =
  mr_jid :: jstr
  mr_status :: jstr
  mr_errorCode :: "int option"

definition groupAdminMemberResultSchema :: "json \<Rightarrow> member_result option" where
  "groupAdminMemberResultSchema = w_object (\<lambda>ob. do {
     jid \<leftarrow> w_nonempty (field ob ''jid'');
     status \<leftarrow> w_enum [''ok'', ''failed'', ''unreported''] (field ob ''status'');
     code \<leftarrow> w_safe_int (field ob ''errorCode'');
     Some \<lparr>mr_jid = jid, mr_status = status, mr_errorCode = code\<rparr> })"

record group_action_result =
  ga_ok :: bool
  ga_pictureId :: "jstr option"
  ga_revokeMessageId :: "jstr option"
  ga_results :: "member_result list option"
  ga_failed :: "jstr list option"

definition w_optional_array :: "(json \<Rightarrow> 'a option) \<Rightarrow> json option \<Rightarrow> 'a list option option" where
  "w_optional_array element v = (case v of None \<Rightarrow> Some None | Some _ \<Rightarrow> map_option Some (w_array element v))"

definition workerGroupActionResultSchema :: "json \<Rightarrow> group_action_result option" where
  "workerGroupActionResultSchema = w_object (\<lambda>ob. do {
     done_ok \<leftarrow> z_bool (field ob ''ok'');
     picture \<leftarrow> w_optional (field ob ''pictureId'');
     revoke \<leftarrow> w_optional (field ob ''revokeMessageId'');
     results \<leftarrow> w_optional_array groupAdminMemberResultSchema (field ob ''results'');
     missed \<leftarrow> w_optional_array (\<lambda>v. w_string (Some v)) (field ob ''failed'');
     Some \<lparr>ga_ok = done_ok, ga_pictureId = picture, ga_revokeMessageId = revoke, ga_results = results, ga_failed = missed\<rparr> })"

text \<open>The request body of a new instance.\<close>

record create_instance_request =
  cq_label :: jstr
  cq_mode :: jstr
  cq_phoneNumber :: "jstr option"

end
