(* ===== verification/WorkerClient.thy ===== *)
theory WorkerClient
  imports WorkerContract MediaText
begin

text \<open>
  The client of the worker's control plane (server/worker/client.ts): where a call goes, what of an answer is buffered, which
  failure the browser is told. The HTTP exchange, the URL parser and the JSON parser are arguments; an answer's body is the function
  its reader is, so that a body which never ends is one of the inputs.
\<close>

section \<open>Failures\<close>

record worker_failure =
  wf_status :: nat
  wf_code :: jstr
  wf_message :: jstr

definition failure_of :: "nat \<Rightarrow> string \<Rightarrow> string \<Rightarrow> worker_failure" where
  "failure_of status code message = \<lparr>wf_status = status, wf_code = js code, wf_message = js message\<rparr>"

definition upstream_failure :: worker_failure where
  "upstream_failure = failure_of 502 ''internal'' ''the WhatsApp service failed to answer''"

definition sync_failure :: worker_failure where
  "sync_failure = failure_of 502 ''group_sync_failed'' ''the group sync failed''"

definition worker_failures :: "worker_failure list" where
  "worker_failures =
    [failure_of 400 ''invalid_request'' ''the WhatsApp service rejected this request'',
     failure_of 404 ''not_found'' ''not found'',
     failure_of 409 ''label_conflict'' ''an instance with that label already exists'',
     failure_of 409 ''invalid_state'' ''the instance is not in a state that allows this'',
     failure_of 409 ''instance_offline'' ''the instance has no live WhatsApp session'',
     \<lparr>wf_status = 502, wf_code = js ''unauthorized'',
       wf_message = js ''the WhatsApp service refused this server'' @ [39] @ js ''s credentials''\<rparr>,
     failure_of 502 ''method_not_allowed'' ''the WhatsApp service does not offer this operation'',
     failure_of 502 ''instance_cleanup_failed'' ''the instance could not be removed'',
     sync_failure,
     failure_of 404 ''group_not_found'' ''the group could not be found'',
     failure_of 403 ''not_admin'' ''the bot is not an administrator of this group'',
     failure_of 502 ''group_admin_failed'' ''the WhatsApp service refused this group change'',
     failure_of 502 ''revoke_failed'' ''the message could not be revoked'',
     upstream_failure]"


definition unreachable :: "string \<Rightarrow> worker_failure" where
  "unreachable message = failure_of 502 ''worker_unreachable'' message"

text \<open>
  What \<open>WORKER_FAILURES[code]\<close> finds: an entry of the table, or, as the table is a plain object, a member it inherits from
  \<open>Object.prototype\<close>, which has none of the three fields.
\<close>

datatype failure_value = Failure worker_failure | Inherited jstr

definition object_members :: "string list" where
  "object_members = [''constructor'', ''hasOwnProperty'', ''isPrototypeOf'', ''propertyIsEnumerable'', ''toLocaleString'',
     ''toString'', ''valueOf'', ''__proto__'', ''__defineGetter__'', ''__defineSetter__'', ''__lookupGetter__'', ''__lookupSetter__'']"

definition workerFailureFor :: "json option \<Rightarrow> failure_value" where
  "workerFailureFor payload = (case payload of
      Some (JObj ob) \<Rightarrow> (case field ob ''code'' of
          Some (JStr code) \<Rightarrow> (case find (\<lambda>f. wf_code f = code) worker_failures of
              Some f \<Rightarrow> Failure f
            | None \<Rightarrow> if code \<in> js ` set object_members then Inherited code else Failure upstream_failure)
        | _ \<Rightarrow> Failure upstream_failure)
    | _ \<Rightarrow> Failure upstream_failure)"

text \<open>\<open>Response.json\<close> leaves \<open>undefined\<close> members out, and an undefined status is the default 200.\<close>

definition workerFailureResponse :: "failure_value \<Rightarrow> response" where
  "workerFailureResponse v = (case v of
      Failure f \<Rightarrow> respond (wf_status f) [(js ''error'', JStr (wf_message f)), (js ''code'', JStr (wf_code f))]
    | Inherited _ \<Rightarrow> respond 200 [])"

section \<open>Where a call goes\<close>

text \<open>
  Resolving the segments of a path against a directory: \<open>.\<close> and \<open>..\<close> are taken out, as the URL parser does, and at the end of the path they leave
  an empty segment.
\<close>

fun resolve_path :: "jstr list \<Rightarrow> jstr list \<Rightarrow> jstr list" where
  "resolve_path path [] = path"
| "resolve_path path (s # rest) =
    (if s = js ''..'' then resolve_path (butlast path @ (if rest = [] then [[]] else [])) rest
     else if s = js ''.'' then resolve_path (path @ (if rest = [] then [[]] else [])) rest
     else resolve_path (path @ [s]) rest)"

text \<open>
  What \<open>new URL(text, base)\<close> makes of a text of unreserved characters, percent escapes and slashes, as the segments of a call give: the
  origin and the path. A base whose path is opaque, such as the one of \<open>localhost:8080/\<close>, takes no relative text at all; a leading slash replaces the
  whole path, and two of them the host as well, which \<open>host\<close> reads, \<^const>\<open>None\<close> where it is none. The base is its
  origin, the directory of its path and the rest of it; its query is left out. Schemes are those \<open>fetch\<close> accepts.
\<close>

datatype base_url = Opaque_base | Base_url jstr "jstr list" jstr

definition new_url :: "(jstr \<Rightarrow> jstr \<Rightarrow> jstr option) \<Rightarrow> base_url \<Rightarrow> jstr \<Rightarrow> (jstr \<times> jstr list) option" where
  "new_url host base rel = (case base of
      Opaque_base \<Rightarrow> None
    | Base_url origin dir leaf \<Rightarrow>
        if rel = [] then Some (origin, dir @ [leaf])
        else if take 2 rel = js ''//'' then
          (let rest = dropWhile (\<lambda>c. c = 47) rel; authority = takeWhile (\<lambda>c. c \<noteq> 47) rest
           in map_option (\<lambda>other. (other, resolve_path [] (split_on 47 (drop (length authority + 1) rest)))) (host origin authority))
        else if take 1 rel = js ''/'' then Some (origin, resolve_path [] (split_on 47 (drop 1 rel)))
        else Some (origin, resolve_path dir (split_on 47 rel)))"

text \<open>One step of the reader of a response body: the next chunk, the end, or the failure of the transport or the deadline.\<close>

datatype read_step = Chunk "nat list" | End_of_body | Broken

record http_answer =
  ha_status :: nat
  ha_body :: "(nat \<Rightarrow> read_step) option"

record worker_request =
  wq_target :: "jstr \<times> jstr list"
  wq_method :: string
  wq_authorization :: jstr
  wq_content_type :: "jstr option"
  wq_body :: "jstr option"
  wq_timeout :: nat

text \<open>
  The process and what it runs on: \<open>WORKER_URL\<close> and \<open>WORKER_SECRET\<close>, the URL parser on an address (\<^const>\<open>None\<close> for a text that is no URL) and on
  the host of another one, the exchange (\<^const>\<open>None\<close> when \<open>fetch\<close> throws) and \<open>JSON.parse\<close>.
\<close>

record worker_env =
  we_url :: "jstr option"
  we_secret :: "jstr option"
  we_base :: "jstr \<Rightarrow> base_url option"
  we_host :: "jstr \<Rightarrow> jstr \<Rightarrow> jstr option"
  we_fetch :: "worker_request \<Rightarrow> http_answer option"
  we_parse :: "jstr \<Rightarrow> json option"

definition ends_with_slash :: "jstr \<Rightarrow> bool" where
  "ends_with_slash s \<longleftrightarrow> s \<noteq> [] \<and> List.last s = 47"

definition workerConfig :: "worker_env \<Rightarrow> (base_url \<times> jstr) option" where
  "workerConfig env = (case (we_url env, we_secret env) of
      (Some u, Some k) \<Rightarrow>
        (let raw = trim u; secret = trim k
         in if raw = [] \<or> secret = [] then None
            else map_option (\<lambda>base. (base, secret)) (we_base env (if ends_with_slash raw then raw else raw @ js ''/'')))
    | _ \<Rightarrow> None)"

section \<open>The bounded read\<close>

definition worker_timeout_ms :: nat where "worker_timeout_ms = 5000"

definition worker_sync_timeout_ms :: nat where "worker_sync_timeout_ms = 30000"

definition worker_body_max_bytes :: nat where "worker_body_max_bytes = 256 * 1024"

datatype read_result = Read "nat list" | Too_large | Failed_read

text \<open>
  The loop of \<open>readBounded\<close>, which nothing bounds but the answers of the reader: the index of the next read, the bytes so far and the chunks kept.
  \<^const>\<open>None\<close> is a loop that does not end.
\<close>

partial_function (option) drain_body ::
  "(nat \<Rightarrow> read_step) \<Rightarrow> nat \<Rightarrow> nat \<Rightarrow> nat list list \<Rightarrow> read_result option" where
  "drain_body reader i taken chunks =
    (case reader i of
        End_of_body \<Rightarrow> Some (Read (concat chunks))
      | Broken \<Rightarrow> Some Failed_read
      | Chunk bytes \<Rightarrow>
          if worker_body_max_bytes < taken + length bytes then Some Too_large
          else drain_body reader (Suc i) (taken + length bytes) (chunks @ [bytes]))"

definition readBounded :: "http_answer \<Rightarrow> read_result option" where
  "readBounded answer = (case ha_body answer of None \<Rightarrow> Some (Read []) | Some reader \<Rightarrow> drain_body reader 0 0 [])"

section \<open>One call\<close>

record 'a worker_call =
  wc_segments :: "jstr list"
  wc_schema :: "json \<Rightarrow> 'a option"
  wc_method :: "string option"
  wc_body :: "json option"
  wc_timeout :: "nat option"

text \<open>A call returns data or a failure, or it throws: \<open>encodeURIComponent\<close> refuses a lone surrogate, and
  the URL parser a base without a path or a host that is none.\<close>

datatype 'a worker_result = Data 'a | Failed failure_value | Call_throws

definition request_of :: "worker_env \<Rightarrow> base_url \<times> jstr \<Rightarrow> 'a worker_call \<Rightarrow> worker_request option" where
  "request_of env config call =
    Option.bind (all_some (map encodeURIComponent (wc_segments call))) (\<lambda>segments.
    map_option (\<lambda>target.
      \<lparr>wq_target = target,
       wq_method = (case wc_method call of None \<Rightarrow> ''GET'' | Some m \<Rightarrow> m),
       wq_authorization = js ''Bearer '' @ snd config,
       wq_content_type = (if wc_body call = None then None else Some (js ''application/json'')),
       wq_body = map_option stringify (wc_body call),
       wq_timeout = (case wc_timeout call of None \<Rightarrow> worker_timeout_ms | Some t \<Rightarrow> t)\<rparr>)
    (new_url (we_host env) (fst config) (join (js ''/'') segments)))"

definition read_answer :: "worker_env \<Rightarrow> 'a worker_call \<Rightarrow> nat \<Rightarrow> read_result \<Rightarrow> 'a worker_result" where
  "read_answer env call status r = (case r of
      Failed_read \<Rightarrow> Failed (Failure (unreachable ''the WhatsApp service did not answer''))
    | Too_large \<Rightarrow> Failed (Failure upstream_failure)
    | Read bytes \<Rightarrow>
        (let payload = we_parse env (decode_utf8 bytes)
         in if 300 \<le> status \<and> status < 400 then Failed (Failure (unreachable ''the WhatsApp service answered with a redirect''))
            else if \<not> (200 \<le> status \<and> status < 300) then Failed (workerFailureFor payload)
            else case payload of
                None \<Rightarrow> Failed (Failure upstream_failure)
              | Some v \<Rightarrow> (case wc_schema call v of None \<Rightarrow> Failed (Failure upstream_failure) | Some d \<Rightarrow> Data d)))"

definition callWorker :: "worker_env \<Rightarrow> 'a worker_call \<Rightarrow> 'a worker_result option" where
  "callWorker env call = (case workerConfig env of
      None \<Rightarrow> Some (Failed (Failure (unreachable ''the WhatsApp service address is not configured'')))
    | Some config \<Rightarrow> (case request_of env config call of
          None \<Rightarrow> Some Call_throws
        | Some request \<Rightarrow> (case we_fetch env request of
              None \<Rightarrow> Some (Failed (Failure (unreachable ''the WhatsApp service did not answer'')))
            | Some answer \<Rightarrow> map_option (read_answer env call (ha_status answer)) (readBounded answer))))"

section \<open>The operations\<close>

definition plain_call :: "string list \<Rightarrow> jstr list \<Rightarrow> string list \<Rightarrow> (json \<Rightarrow> 'a option) \<Rightarrow> 'a worker_call" where
  "plain_call before_id ids after_id schema =
    \<lparr>wc_segments = map js before_id @ ids @ map js after_id, wc_schema = schema, wc_method = None, wc_body = None, wc_timeout = None\<rparr>"

definition listWorkerInstances :: "worker_env \<Rightarrow> instance_snapshot list worker_result option" where
  "listWorkerInstances env = callWorker env (plain_call [''instances''] [] [] instanceListSchema)"

definition getWorkerScheduler :: "worker_env \<Rightarrow> loop_report list worker_result option" where
  "getWorkerScheduler env = callWorker env (plain_call [''scheduler''] [] [] schedulerReportSchema)"

definition create_instance_body :: "create_instance_request \<Rightarrow> json" where
  "create_instance_body b = JObj ([(js ''label'', JStr (cq_label b)), (js ''mode'', JStr (cq_mode b))]
     @ (case cq_phoneNumber b of None \<Rightarrow> [] | Some p \<Rightarrow> [(js ''phoneNumber'', JStr p)]))"

definition createWorkerInstance :: "worker_env \<Rightarrow> create_instance_request \<Rightarrow> instance_snapshot worker_result option" where
  "createWorkerInstance env b = callWorker env
     ((plain_call [''instances''] [] [] instanceSnapshotSchema)\<lparr>wc_method := Some ''POST'', wc_body := Some (create_instance_body b)\<rparr>)"

definition getWorkerInstance :: "worker_env \<Rightarrow> jstr \<Rightarrow> instance_snapshot worker_result option" where
  "getWorkerInstance env inst = callWorker env (plain_call [''instances''] [inst] [] instanceSnapshotSchema)"

definition deleteWorkerInstance :: "worker_env \<Rightarrow> jstr \<Rightarrow> unit worker_result option" where
  "deleteWorkerInstance env inst = callWorker env
     ((plain_call [''instances''] [inst] [] instanceDeletedSchema)\<lparr>wc_method := Some ''DELETE''\<rparr>)"

definition requestWorkerPairingCode :: "worker_env \<Rightarrow> jstr \<Rightarrow> instance_snapshot worker_result option" where
  "requestWorkerPairingCode env inst = callWorker env
     ((plain_call [''instances''] [inst] [''pairing-code''] instanceSnapshotSchema)\<lparr>wc_method := Some ''POST''\<rparr>)"

definition pairWorkerInstance :: "worker_env \<Rightarrow> jstr \<Rightarrow> instance_snapshot worker_result option" where
  "pairWorkerInstance env inst = callWorker env
     ((plain_call [''instances''] [inst] [''pair''] instanceSnapshotSchema)\<lparr>wc_method := Some ''POST''\<rparr>)"

definition checkWorkerInstance :: "worker_env \<Rightarrow> jstr \<Rightarrow> instance_snapshot worker_result option" where
  "checkWorkerInstance env inst = callWorker env
     ((plain_call [''instances''] [inst] [''check''] instanceSnapshotSchema)\<lparr>wc_method := Some ''POST''\<rparr>)"

text \<open>A summary that says of itself that it is not complete is a failure.\<close>

definition settle_sync :: "group_sync_summary worker_result \<Rightarrow> group_sync_summary worker_result" where
  "settle_sync r = (case r of Data d \<Rightarrow> if gy_ok d then r else Failed (Failure sync_failure) | _ \<Rightarrow> r)"

definition requestWorkerGroupSync :: "worker_env \<Rightarrow> jstr \<Rightarrow> group_sync_summary worker_result option" where
  "requestWorkerGroupSync env inst = map_option settle_sync (callWorker env
     ((plain_call [''instances''] [inst] [''groups'', ''sync''] groupSyncSummarySchema)
        \<lparr>wc_method := Some ''POST'', wc_timeout := Some worker_sync_timeout_ms\<rparr>))"

definition group_call :: "jstr \<Rightarrow> jstr \<Rightarrow> string \<Rightarrow> (json \<Rightarrow> 'a option) \<Rightarrow> 'a worker_call" where
  "group_call inst jid operation schema = plain_call [''instances''] [inst, js ''groups'', jid] [operation] schema"

definition getWorkerGroupInfo :: "worker_env \<Rightarrow> jstr \<Rightarrow> jstr \<Rightarrow> worker_group_info worker_result option" where
  "getWorkerGroupInfo env inst jid = callWorker env (group_call inst jid ''info'' workerGroupInfoSchema)"

definition getWorkerGroupParticipants :: "worker_env \<Rightarrow> jstr \<Rightarrow> jstr \<Rightarrow> worker_participants worker_result option" where
  "getWorkerGroupParticipants env inst jid = callWorker env (group_call inst jid ''participants'' workerGroupParticipantsSchema)"

definition change_name :: "membership \<Rightarrow> jstr" where
  "change_name m = (case m of Add_members \<Rightarrow> js ''add'' | Remove_members \<Rightarrow> js ''remove''
     | Promote_members \<Rightarrow> js ''promote'' | Demote_members \<Rightarrow> js ''demote'')"

definition admin_body :: "group_admin_request \<Rightarrow> json" where
  "admin_body r = JObj (case r of
      Rename name \<Rightarrow> [(js ''action'', JStr (js ''rename'')), (js ''name'', JStr name)]
    | Announce b \<Rightarrow> [(js ''action'', JStr (js ''announce'')), (js ''announce'', JBool b)]
    | Locked b \<Rightarrow> [(js ''action'', JStr (js ''locked'')), (js ''locked'', JBool b)]
    | Photo url \<Rightarrow> [(js ''action'', JStr (js ''photo'')), (js ''dataUrl'', JStr url)]
    | Members m jids \<Rightarrow> [(js ''action'', JStr (js ''members'')), (js ''membership'', JStr (change_name m)), (js ''jids'', JArr (map JStr jids))]
    | Leave \<Rightarrow> [(js ''action'', JStr (js ''leave''))]
    | Revoke wa \<Rightarrow> [(js ''action'', JStr (js ''revoke'')), (js ''waMessageId'', JStr wa)])"

definition runWorkerGroupAction :: "worker_env \<Rightarrow> jstr \<Rightarrow> jstr \<Rightarrow> group_admin_request \<Rightarrow> group_action_result worker_result option" where
  "runWorkerGroupAction env inst jid r = callWorker env
     ((group_call inst jid ''admin'' workerGroupActionResultSchema)
        \<lparr>wc_method := Some ''POST'', wc_body := Some (admin_body r), wc_timeout := Some worker_timeout_ms\<rparr>)"

end
