(* ===== verification/WorkerClientProps.thy ===== *)
theory WorkerClientProps
  imports WorkerClient
begin

text \<open>
  What the worker client promises: every call returns, with at most 256 KiB of an answer held; a failure is one of a
  fixed list of phrases; a call addresses the route it names.
\<close>

section \<open>A call returns\<close>

lemma nonempty_chunks_end:
  assumes "\<And>i. reader i \<noteq> Chunk []"
  shows "taken \<le> worker_body_max_bytes \<Longrightarrow> \<exists>r. drain_body reader i taken chunks = Some r"
proof (induction "worker_body_max_bytes - taken" arbitrary: taken i chunks rule: less_induct)
  case less
  show ?case
  proof (cases "reader i")
    case (Chunk bytes)
    with assms have grows: "0 < length bytes" by (metis length_greater_0_conv)
    show ?thesis
    proof (cases "worker_body_max_bytes < taken + length bytes")
      case True
      with Chunk show ?thesis by (subst drain_body.simps) simp
    next
      case False
      then have "\<exists>r. drain_body reader (Suc i) (taken + length bytes) (chunks @ [bytes]) = Some r"
        using grows by (intro less.hyps) linarith+
      with Chunk False show ?thesis by (subst drain_body.simps) simp
    qed
  qed (subst drain_body.simps, simp)+
qed

lemma deadline_ends: "i \<le> n \<Longrightarrow> reader n = Broken \<Longrightarrow> \<exists>r. drain_body reader i taken chunks = Some r"
proof (induction "n - i" arbitrary: i taken chunks)
  case 0
  then show ?case by (subst drain_body.simps) simp
next
  case (Suc k)
  show ?case
  proof (cases "reader i")
    case (Chunk bytes)
    have "\<exists>r. drain_body reader (Suc i) (taken + length bytes) (chunks @ [bytes]) = Some r"
      using Suc.hyps(2) Suc.prems by (intro Suc.hyps(1)) auto
    with Chunk show ?thesis by (subst drain_body.simps) simp
  qed (subst drain_body.simps, simp)+
qed

text \<open>What is held of an answer never exceeds the cap, however the chunks are cut.\<close>

lemma buffered_bounded:
  assumes "drain_body reader i taken chunks = Some r" and "taken = length (concat chunks)" and "taken \<le> worker_body_max_bytes"
  shows "\<forall>bytes. r = Read bytes \<longrightarrow> length bytes \<le> worker_body_max_bytes"
proof -
  have "taken = length (concat chunks) \<longrightarrow> taken \<le> worker_body_max_bytes \<longrightarrow>
      (\<forall>bytes. r = Read bytes \<longrightarrow> length bytes \<le> worker_body_max_bytes)"
  proof (rule drain_body.raw_induct [where P = "\<lambda>reader i taken chunks r. taken = length (concat chunks) \<longrightarrow>
      taken \<le> worker_body_max_bytes \<longrightarrow> (\<forall>bytes. r = Read bytes \<longrightarrow> length bytes \<le> worker_body_max_bytes)", OF _ assms(1)])
    fix f :: "(nat \<Rightarrow> read_step) \<Rightarrow> nat \<Rightarrow> nat \<Rightarrow> nat list list \<Rightarrow> read_result option" and reader i taken chunks r
    assume IH: "\<And>reader i taken chunks r. f reader i taken chunks = Some r \<Longrightarrow> taken = length (concat chunks) \<longrightarrow>
        taken \<le> worker_body_max_bytes \<longrightarrow> (\<forall>bytes. r = Read bytes \<longrightarrow> length bytes \<le> worker_body_max_bytes)"
      and eq: "(case reader i of End_of_body \<Rightarrow> Some (Read (concat chunks)) | Broken \<Rightarrow> Some Failed_read
        | Chunk bytes \<Rightarrow> if worker_body_max_bytes < taken + length bytes then Some Too_large
            else f reader (Suc i) (taken + length bytes) (chunks @ [bytes])) = Some r"
    show "taken = length (concat chunks) \<longrightarrow> taken \<le> worker_body_max_bytes \<longrightarrow>
        (\<forall>bytes. r = Read bytes \<longrightarrow> length bytes \<le> worker_body_max_bytes)"
    proof (cases "reader i")
      case (Chunk bytes)
      with eq IH [of reader "Suc i" "taken + length bytes" "chunks @ [bytes]" r] show ?thesis
        by (cases "worker_body_max_bytes < taken + length bytes") auto
    qed (use eq in auto)
  qed
  with assms(2,3) show ?thesis by blast
qed

text \<open>
  C31: Every call of the worker returns, even when the worker never ends its answer: it is enough that no chunk the transport delivers
  is empty, for then the size cap is reached after at most 262145 reads, or that the deadline breaks
  the read at some point. And what a completed read returns is no more than the cap. To return includes to throw, where the
  address of the call cannot be formed.
\<close>

theorem worker_call_returns:
  assumes "\<And>request answer reader. we_fetch env request = Some answer \<Longrightarrow> ha_body answer = Some reader \<Longrightarrow>
    (\<forall>i. reader i \<noteq> Chunk []) \<or> (\<exists>n. reader n = Broken)"
  shows "(\<exists>r. callWorker env call = Some r) \<and>
    (\<forall>request answer bytes. we_fetch env request = Some answer \<longrightarrow> readBounded answer = Some (Read bytes) \<longrightarrow>
       length bytes \<le> worker_body_max_bytes)"
proof (intro conjI allI impI)
  have "\<exists>r. readBounded answer = Some r" if "we_fetch env request = Some answer" for request answer
  proof (cases "ha_body answer")
    case (Some reader)
    with assms [OF that] show ?thesis
      using nonempty_chunks_end [of reader 0 0 "[]"] deadline_ends [of 0 _ reader 0 "[]"] by (auto simp: readBounded_def)
  qed (simp add: readBounded_def)
  then show "\<exists>r. callWorker env call = Some r"
    by (auto simp: callWorker_def split: option.splits)
next
  fix request answer bytes
  assume "readBounded answer = Some (Read bytes)"
  then show "length bytes \<le> worker_body_max_bytes"
    using buffered_bounded [of _ 0 0 "[]" "Read bytes"] by (auto simp: readBounded_def worker_body_max_bytes_def split: option.splits)
qed

text \<open>A worker that answers one byte after the other for ever.\<close>

definition ex_endless :: worker_env where
  "ex_endless = \<lparr>we_url = Some (js ''http://worker''), we_secret = Some (js ''k''), we_base = (\<lambda>_. Some (Base_url (js ''http://worker'') [] [])), we_host = (\<lambda>_ _. None),
     we_fetch = (\<lambda>_. Some \<lparr>ha_status = 200, ha_body = Some (\<lambda>_. Chunk [48])\<rparr>), we_parse = (\<lambda>_. None)\<rparr>"

theorem worker_call_returns_witness:
  "\<exists>r. checkWorkerInstance ex_endless (js ''i1'') = Some r"
proof -
  have "(\<exists>r. callWorker ex_endless ((plain_call [''instances''] [js ''i1''] [''check''] instanceSnapshotSchema)\<lparr>wc_method := Some ''POST''\<rparr>) = Some r)
      \<and> (\<forall>request answer bytes. we_fetch ex_endless request = Some answer \<longrightarrow> readBounded answer = Some (Read bytes) \<longrightarrow>
          length bytes \<le> worker_body_max_bytes)"
    by (rule worker_call_returns) (auto simp: ex_endless_def)
  then show ?thesis unfolding checkWorkerInstance_def by blast
qed

section \<open>What the browser is told\<close>

definition transport_failures :: "worker_failure list" where
  "transport_failures = [unreachable ''the WhatsApp service address is not configured'',
     unreachable ''the WhatsApp service did not answer'', unreachable ''the WhatsApp service answered with a redirect'']"

lemma payload_failure:
  "(\<exists>f \<in> set worker_failures. workerFailureFor payload = Failure f) \<or>
   (\<exists>name \<in> set object_members. workerFailureFor payload = Inherited (js name))"
proof -
  have "upstream_failure \<in> set worker_failures" by (simp add: worker_failures_def)
  then show ?thesis
    by (auto simp: workerFailureFor_def split: option.splits json.splits dest: find_Some_in)
qed

lemma answered_failure: "read_answer env call status r = Failed v \<Longrightarrow>
  (\<exists>f \<in> set (worker_failures @ transport_failures). v = Failure f) \<or> (\<exists>name \<in> set object_members. v = Inherited (js name))"
  using payload_failure [of "we_parse env (decode_utf8 (case r of Read bytes \<Rightarrow> bytes | _ \<Rightarrow> []))"]
  by (cases r) (auto simp: read_answer_def Let_def transport_failures_def worker_failures_def split: option.splits if_splits)

lemma call_failure: "callWorker env call = Some (Failed v) \<Longrightarrow>
  (\<exists>f \<in> set (worker_failures @ transport_failures). v = Failure f) \<or> (\<exists>name \<in> set object_members. v = Inherited (js name))"
proof -
  assume c: "callWorker env call = Some (Failed v)"
  have t: "unreachable ''the WhatsApp service address is not configured'' \<in> set transport_failures"
    "unreachable ''the WhatsApp service did not answer'' \<in> set transport_failures" by (simp_all add: transport_failures_def)
  show ?thesis
  proof (cases "\<exists>status r. read_answer env call status r = Failed v")
    case True
    then show ?thesis using answered_failure by blast
  next
    case False
    with c t show ?thesis by (auto simp: callWorker_def split: option.splits)
  qed
qed

text \<open>
  C32: The text of a worker's answer never reaches the browser: whatever it sends, a failed call answers with one of seventeen fixed
  phrases and a status of 400, 403, 404, 409 or 502. The one exception is a code that
  names a member every object inherits: that lookup in the table finds the member, and the failure is answered
  with status 200 and an empty object.
\<close>

theorem browser_sees_fixed_failures:
  assumes "callWorker env call = Some (Failed v)"
  shows "(\<exists>f \<in> set (worker_failures @ transport_failures). wf_status f \<in> {400, 403, 404, 409, 502} \<and>
      workerFailureResponse v = respond (wf_status f) [(js ''error'', JStr (wf_message f)), (js ''code'', JStr (wf_code f))]) \<or>
    (\<exists>name \<in> set object_members. v = Inherited (js name) \<and> workerFailureResponse v = respond 200 [])"
proof -
  have "\<forall>f \<in> set (worker_failures @ transport_failures). wf_status f \<in> {400, 403, 404, 409, 502}"
    by (simp add: worker_failures_def transport_failures_def failure_of_def unreachable_def sync_failure_def upstream_failure_def)
  with call_failure [OF assms] show ?thesis by (fastforce simp: workerFailureResponse_def)
qed

text \<open>A relative text that does not begin with a slash stays under the directory.\<close>

lemma new_url_relative: "rel \<noteq> [] \<Longrightarrow> hd rel \<noteq> 47 \<Longrightarrow> new_url host (Base_url origin dir leaf) rel = Some (origin, resolve_path dir (split_on 47 rel))"
  by (cases rel) (simp_all add: new_url_def js_def)

definition ex_refusing :: "jstr \<Rightarrow> worker_env" where
  "ex_refusing code = \<lparr>we_url = Some (js ''http://worker''), we_secret = Some (js ''k''), we_base = (\<lambda>_. Some (Base_url (js ''http://worker'') [] [])), we_host = (\<lambda>_ _. None),
     we_fetch = (\<lambda>_. Some \<lparr>ha_status = 409, ha_body = None\<rparr>), we_parse = (\<lambda>_. Some (JObj [(js ''code'', JStr code)]))\<rparr>"

lemma ex_refusing_call: "checkWorkerInstance (ex_refusing code) (js ''i1'') =
  Some (Failed (workerFailureFor (Some (JObj [(js ''code'', JStr code)]))))"
proof -
  have "workerConfig (ex_refusing code) = Some (Base_url (js ''http://worker'') [] [], js ''k'')"
    by (simp add: workerConfig_def ex_refusing_def js_def trim_no_space is_space_def Let_def)
  moreover have "all_some (map encodeURIComponent [js ''instances'', js ''i1'', js ''check'']) = Some [js ''instances'', js ''i1'', js ''check'']"
    by (simp add: js_def is_low_surrogate_def is_high_surrogate_def encode_point_def uri_unreserved_def is_lower_def is_digit_def)
  moreover have "join (js ''/'') [js ''instances'', js ''i1'', js ''check''] \<noteq> []" "hd (join (js ''/'') [js ''instances'', js ''i1'', js ''check'']) \<noteq> 47"
    by (simp_all add: js_def)
  note new_url_relative [OF this, of "\<lambda>_ _. None" "js ''http://worker''" "[]" "[]"]
  ultimately show ?thesis
    by (simp add: checkWorkerInstance_def callWorker_def request_of_def plain_call_def ex_refusing_def readBounded_def read_answer_def)
qed

text \<open>A refusal whose code is \<open>constructor\<close> is a success to the browser.\<close>

lemma inherited_code_answers_ok:
  "checkWorkerInstance (ex_refusing (js ''constructor'')) (js ''i1'') = Some (Failed (Inherited (js ''constructor'')))"
  "workerFailureResponse (Inherited (js ''constructor'')) = respond 200 []"
  by (simp_all add: ex_refusing_call workerFailureFor_def worker_failures_def failure_of_def sync_failure_def upstream_failure_def
      object_members_def workerFailureResponse_def)

theorem browser_sees_fixed_failures_witness:
  "workerFailureFor (Some (JObj [(js ''code'', JStr (js ''not_admin''))])) =
     Failure (failure_of 403 ''not_admin'' ''the bot is not an administrator of this group'') \<and>
   (\<exists>f \<in> set (worker_failures @ transport_failures).
     workerFailureResponse (workerFailureFor (Some (JObj [(js ''code'', JStr (js ''not_admin''))]))) =
       respond (wf_status f) [(js ''error'', JStr (wf_message f)), (js ''code'', JStr (wf_code f))])"
proof -
  let ?v = "workerFailureFor (Some (JObj [(js ''code'', JStr (js ''not_admin''))]))"
  have v: "?v = Failure (failure_of 403 ''not_admin'' ''the bot is not an administrator of this group'')"
    by (simp add: workerFailureFor_def worker_failures_def failure_of_def sync_failure_def)
  have "callWorker (ex_refusing (js ''not_admin''))
      ((plain_call [''instances''] [js ''i1''] [''check''] instanceSnapshotSchema)\<lparr>wc_method := Some ''POST''\<rparr>) = Some (Failed ?v)"
    using ex_refusing_call [of "js ''not_admin''"] by (simp add: checkWorkerInstance_def)
  from browser_sees_fixed_failures [OF this] v show ?thesis by auto
qed

section \<open>Where a call goes\<close>

lemma encoded_no_slash: "encodeURIComponent xs = Some e \<Longrightarrow> 47 \<notin> set e"
proof -
  have "47 \<noteq> hex_digit n" for n by (simp add: hex_digit_def)
  then have "47 \<notin> set (percent b)" for b by (simp add: percent_def)
  then have "47 \<notin> set (encode_point c)" for c
    by (auto simp: encode_point_def uri_unreserved_def is_upper_def is_lower_def is_digit_def)
  then show "encodeURIComponent xs = Some e \<Longrightarrow> 47 \<notin> set e" by (auto simp: encode_scalars)
qed

definition dot_segment :: "jstr \<Rightarrow> bool" where
  "dot_segment s \<longleftrightarrow> s = js ''.'' \<or> s = js ''..''"

lemma dots_encode_as_themselves: "encodeURIComponent (js ''.'') = Some (js ''.'')" "encodeURIComponent (js ''..'') = Some (js ''..'')"
  by (simp_all add: js_def is_low_surrogate_def is_high_surrogate_def encode_point_def uri_unreserved_def)

lemma encoded_dot: "code_units s \<Longrightarrow> encodeURIComponent s = Some e \<Longrightarrow> dot_segment e \<Longrightarrow> dot_segment s"
  using encodeURIComponent_inj [of s "js ''.''" e] encodeURIComponent_inj [of s "js ''..''" e] dots_encode_as_themselves
  by (auto simp: dot_segment_def code_units_def js_def)

lemma resolve_plain: "(\<And>s. s \<in> set ss \<Longrightarrow> \<not> dot_segment s) \<Longrightarrow> resolve_path path ss = path @ ss"
  by (induction path ss rule: resolve_path.induct) (auto simp: dot_segment_def)

lemma encoded_nonempty: "encodeURIComponent s = Some e \<Longrightarrow> s \<noteq> [] \<Longrightarrow> e \<noteq> []"
  using encodeURIComponent_inj by (cases s) (auto simp: encode_point_def percent_def utf8_def split: if_splits list.splits)

lemma encoded_segments:
  assumes "all_some (map encodeURIComponent ss) = Some es" and "ss \<noteq> []" and "hd ss \<noteq> []"
    and "\<And>s. s \<in> set ss \<Longrightarrow> code_units s \<and> \<not> dot_segment s"
  shows "new_url host (Base_url origin dir leaf) (join (js ''/'') es) = Some (origin, dir @ es)"
proof -
  have at: "length es = length ss" "\<forall>i < length ss. encodeURIComponent (ss ! i) = Some (es ! i)"
    using all_some_map [OF assms(1)] by auto
  have each: "\<exists>s \<in> set ss. encodeURIComponent s = Some e" if "e \<in> set es" for e
    using that at by (metis in_set_conv_nth)
  have plain: "list_all (\<lambda>e. 47 \<notin> set e) es" using each encoded_no_slash by (auto simp: list_all_iff)
  have "es \<noteq> []" using at(1) assms(2) by auto
  then obtain e es' where es: "es = e # es'" by (cases es) auto
  have "encodeURIComponent (hd ss) = Some e" using at(2) assms(2) es by (cases ss) auto
  then have e: "e \<noteq> []" using encoded_nonempty assms(3) by blast
  then obtain c cs where c: "e = c # cs" by (cases e) auto
  with plain es have "c \<noteq> 47" by auto
  moreover have "\<exists>rest. join (js ''/'') es = c # rest" by (cases es') (simp_all add: es c)
  ultimately have rel: "join (js ''/'') es \<noteq> []" "hd (join (js ''/'') es) \<noteq> 47" by auto
  have "split_on 47 (join (js ''/'') es) = es" using plain \<open>es \<noteq> []\<close> by (simp add: js_def split_on_join)
  moreover have "\<not> dot_segment e" if "e \<in> set es" for e
    using each [OF that] assms(4) encoded_dot by blast
  ultimately show ?thesis by (simp add: new_url_relative [OF rel] resolve_plain)
qed

text \<open>
  C33: A call addresses the route it names and no other: its target is at the worker's own origin, and the path is the base directory followed by one
  segment for each segment of the call, each the percent encoding of its own, so that two calls to the same place
  name the same segments. This needs that no segment is a dot segment and that the first one is not empty, as it is not in any
  call the client makes; an id \<open>..\<close> does leave its route. A base whose path is opaque makes no request at all.
\<close>

theorem worker_call_stays_in_route:
  assumes "request_of env (base, secret) call = Some q" and "request_of env (base, secret) call' = Some q'"
    and "wc_segments call \<noteq> []" and "wc_segments call' \<noteq> []" and "hd (wc_segments call) \<noteq> []" and "hd (wc_segments call') \<noteq> []"
    and "\<And>s. s \<in> set (wc_segments call) \<union> set (wc_segments call') \<Longrightarrow> code_units s \<and> \<not> dot_segment s"
  shows "\<exists>origin dir leaf. base = Base_url origin dir leaf \<and>
    wq_target q = (origin, dir @ map (\<lambda>s. the (encodeURIComponent s)) (wc_segments call)) \<and>
    (wq_target q = wq_target q' \<longleftrightarrow> wc_segments call = wc_segments call')"
proof -
  obtain origin dir leaf where base: "base = Base_url origin dir leaf"
    using assms(1) by (cases base) (auto simp: request_of_def new_url_def bind_eq_Some_conv)
  have one: "wq_target r = (origin, dir @ map (\<lambda>s. the (encodeURIComponent s)) (wc_segments c)) \<and>
      (\<forall>s \<in> set (wc_segments c). encodeURIComponent s \<noteq> None)"
    if r: "request_of env (base, secret) c = Some r" and ne: "wc_segments c \<noteq> []" "hd (wc_segments c) \<noteq> []"
      and ok: "\<And>s. s \<in> set (wc_segments c) \<Longrightarrow> code_units s \<and> \<not> dot_segment s" for c :: "'x worker_call" and r
  proof -
    from r obtain es where es: "all_some (map encodeURIComponent (wc_segments c)) = Some es"
      and t: "new_url (we_host env) base (join (js ''/'') es) = Some (wq_target r)"
      by (auto simp: request_of_def bind_eq_Some_conv)
    have at: "length es = length (wc_segments c)" "\<forall>i < length (wc_segments c). encodeURIComponent (wc_segments c ! i) = Some (es ! i)"
      using all_some_map [OF es] by auto
    then have "es = map (\<lambda>s. the (encodeURIComponent s)) (wc_segments c)" by (intro nth_equalityI) auto
    moreover have "\<forall>s \<in> set (wc_segments c). encodeURIComponent s \<noteq> None" using at by (auto simp: in_set_conv_nth)
    ultimately show ?thesis using t encoded_segments [OF es ne ok] by (simp add: base)
  qed
  have q: "wq_target q = (origin, dir @ map (\<lambda>s. the (encodeURIComponent s)) (wc_segments call))"
    "\<forall>s \<in> set (wc_segments call). encodeURIComponent s \<noteq> None"
    using one [OF assms(1,3,5)] assms(7) by auto
  have q': "wq_target q' = (origin, dir @ map (\<lambda>s. the (encodeURIComponent s)) (wc_segments call'))"
    "\<forall>s \<in> set (wc_segments call'). encodeURIComponent s \<noteq> None"
    using one [OF assms(2,4,6)] assms(7) by auto
  have "inj_on (\<lambda>s. the (encodeURIComponent s)) (set (wc_segments call) \<union> set (wc_segments call'))"
    using q(2) q'(2) assms(7) by (intro inj_onI) (metis Un_iff encodeURIComponent_inj option.collapse)
  then have "map (\<lambda>s. the (encodeURIComponent s)) (wc_segments call) = map (\<lambda>s. the (encodeURIComponent s)) (wc_segments call')
      \<longleftrightarrow> wc_segments call = wc_segments call'" by (simp add: inj_on_map_eq_map)
  with q(1) q'(1) base show ?thesis by simp
qed

lemma ex_encoded: "encodeURIComponent (js ''instances'') = Some (js ''instances'')" "encodeURIComponent (js ''a/b'') = Some (js ''a%2Fb'')"
  "encodeURIComponent (js ''check'') = Some (js ''check'')" "encodeURIComponent (js ''pair'') = Some (js ''pair'')"
  by (simp_all add: js_def is_low_surrogate_def is_high_surrogate_def encode_point_def uri_unreserved_def is_lower_def is_upper_def
      is_digit_def utf8_def percent_def hex_digit_def)

definition ex_base :: "base_url \<times> jstr" where
  "ex_base = (Base_url (js ''http://worker'') [js ''api''] [], js ''k'')"

theorem worker_call_stays_in_route_witness:
  "map_option wq_target (request_of ex_endless ex_base (plain_call [''instances''] [js ''a/b''] [''check''] instanceSnapshotSchema)) =
     Some (js ''http://worker'', [js ''api'', js ''instances'', js ''a%2Fb'', js ''check''])"
proof -
  let ?c = "plain_call [''instances''] [js ''a/b''] [''check''] instanceSnapshotSchema"
  have seg: "wc_segments ?c = [js ''instances'', js ''a/b'', js ''check'']" by (simp add: plain_call_def)
  have ok: "code_units s \<and> \<not> dot_segment s" if "s \<in> set (wc_segments ?c) \<union> set (wc_segments ?c)" for s
    using that unfolding seg by (auto simp: code_units_def dot_segment_def js_def)
  have ne: "wc_segments ?c \<noteq> []" "hd (wc_segments ?c) \<noteq> []" unfolding seg by (simp_all add: js_def)
  have enc: "all_some (map encodeURIComponent (wc_segments ?c)) = Some [js ''instances'', js ''a%2Fb'', js ''check'']"
    unfolding seg by (simp add: ex_encoded)
  have "new_url (we_host ex_endless) (fst ex_base) (join (js ''/'') [js ''instances'', js ''a%2Fb'', js ''check'']) \<noteq> None"
    by (simp add: new_url_def ex_base_def js_def)
  then have "request_of ex_endless ex_base ?c \<noteq> None" unfolding request_of_def enc by simp
  then obtain q where q: "request_of ex_endless ex_base ?c = Some q" by blast
  from worker_call_stays_in_route [OF q [unfolded ex_base_def] q [unfolded ex_base_def] ne(1) ne(1) ne(2) ne(2) ok]
  have "wq_target q = (js ''http://worker'', [js ''api''] @ map (\<lambda>s. the (encodeURIComponent s)) (wc_segments ?c))" by auto
  then show ?thesis using q by (simp add: seg ex_encoded)
qed

text \<open>The instance id \<open>..\<close> of a pairing call: the request leaves \<open>instances/\<close> for the route \<open>/pair\<close>.\<close>

lemma dot_segment_leaves_route:
  "map_option wq_target (request_of ex_endless ex_base (plain_call [''instances''] [js ''..''] [''pair''] instanceSnapshotSchema)) =
     Some (js ''http://worker'', [js ''api'', js ''pair''])"
  by (simp add: request_of_def plain_call_def ex_encoded dots_encode_as_themselves new_url_def ex_base_def) (simp add: js_def)

text \<open>What the segments themselves could do: an empty first one leaves the base directory, two of them the worker.\<close>

lemma empty_segments_leave_base:
  "new_url host (Base_url origin dir leaf) (join (js ''/'') [[], js ''x'']) = Some (origin, [js ''x''])"
  "new_url host (Base_url origin dir leaf) (join (js ''/'') [[], [], js ''h'']) = map_option (\<lambda>other. (other, [[]])) (host origin (js ''h''))"
  by (simp_all add: new_url_def js_def)

text \<open>An address without a scheme is a URL all the same, one with an opaque path, and every call throws.\<close>

lemma opaque_base_throws:
  "workerConfig env = Some (Opaque_base, secret) \<Longrightarrow> callWorker env call = Some Call_throws"
  by (auto simp: callWorker_def request_of_def new_url_def split: option.split bind_split)

end
