(* ===== verification/Usage.thy ===== *)
theory Usage
  imports Store Clock
begin

text \<open>
  What the operations page shows of a day (server/repos/usage.ts) and the dashboard of a week
  (server/repos/tokens.ts): sums over the worker's counters and over the recorded model calls, one line per instance. The counters and the
  settings are collections of their own here, as nothing else of the model touches them; a Mongo
  \<open>$group\<close> is the partial map from a key to the aggregate of its rows, and \<open>localeCompare\<close> is an argument.
\<close>

section \<open>Rows\<close>

text \<open>A counter the row has not got, or that is no number, adds nothing to a sum.\<close>

record stats_row =
  sd_organizationId :: jstr
  sd_instanceId :: jstr
  sd_day :: jstr
  sd_messagesIn :: "int option"
  sd_mediaStored :: "int option"
  sd_mediaUnparsed :: "int option"
  sd_sendsSent :: "int option"
  sd_sendsFailed :: "int option"
  sd_receipts :: "int option"

definition sum_of :: "('r \<Rightarrow> int option) \<Rightarrow> 'r list \<Rightarrow> int" where
  "sum_of g rows = (\<Sum>r \<leftarrow> rows. case g r of None \<Rightarrow> 0 | Some n \<Rightarrow> n)"

definition reported :: "('r \<Rightarrow> int option) \<Rightarrow> 'r list \<Rightarrow> nat" where
  "reported g rows = length (filter (\<lambda>r. g r \<noteq> None) rows)"

text \<open>\<open>$group\<close> with \<open>_id: key\<close>: one aggregate per key that occurs.\<close>

definition group_by :: "('r \<Rightarrow> 'k) \<Rightarrow> ('r list \<Rightarrow> 'a) \<Rightarrow> 'r list \<Rightarrow> 'k \<Rightarrow> 'a option" where
  "group_by key aggregate rows k =
    (case filter (\<lambda>r. key r = k) rows of [] \<Rightarrow> None | some_rows \<Rightarrow> Some (aggregate some_rows))"

record usage_counters =
  uc_messagesIn :: int
  uc_mediaStored :: int
  uc_mediaUnparsed :: int
  uc_sendsOk :: int
  uc_sendsFailed :: int
  uc_receipts :: int

definition empty_counters :: usage_counters where
  "empty_counters = \<lparr>uc_messagesIn = 0, uc_mediaStored = 0, uc_mediaUnparsed = 0, uc_sendsOk = 0, uc_sendsFailed = 0, uc_receipts = 0\<rparr>"

definition counter_row :: "stats_row list \<Rightarrow> usage_counters" where
  "counter_row rows = \<lparr>uc_messagesIn = sum_of sd_messagesIn rows, uc_mediaStored = sum_of sd_mediaStored rows,
     uc_mediaUnparsed = sum_of sd_mediaUnparsed rows, uc_sendsOk = sum_of sd_sendsSent rows,
     uc_sendsFailed = sum_of sd_sendsFailed rows, uc_receipts = sum_of sd_receipts rows\<rparr>"

record token_row =
  tr_calls :: nat
  tr_inputReported :: nat
  tr_outputReported :: nat
  tr_totalReported :: nat
  tr_inputTokens :: int
  tr_outputTokens :: int
  tr_totalTokens :: int

definition token_row_of :: "ai_call list \<Rightarrow> token_row" where
  "token_row_of calls =
    \<lparr>tr_calls = length calls,
     tr_inputReported = reported (\<lambda>c. tu_inputTokens (ai_usage c)) calls,
     tr_outputReported = reported (\<lambda>c. tu_outputTokens (ai_usage c)) calls,
     tr_totalReported = reported (\<lambda>c. tu_totalTokens (ai_usage c)) calls,
     tr_inputTokens = sum_of (\<lambda>c. tu_inputTokens (ai_usage c)) calls,
     tr_outputTokens = sum_of (\<lambda>c. tu_outputTokens (ai_usage c)) calls,
     tr_totalTokens = sum_of (\<lambda>c. tu_totalTokens (ai_usage c)) calls\<rparr>"

section \<open>Days\<close>

definition ms_per_day :: int where "ms_per_day = 86400000"

text \<open>\<open>toISOString().slice(0, 10)\<close>, the day of an instant of the years 0 to 9999, and the instant the day begins.\<close>

definition day_text :: "time \<Rightarrow> jstr" where
  "day_text t = take 10 (toISOString t)"

definition day_start :: "time \<Rightarrow> time" where
  "day_start t = t div ms_per_day * ms_per_day"

section \<open>Labels\<close>

definition live_docs :: "jstr \<Rightarrow> instance_doc list \<Rightarrow> instance_doc list" where
  "live_docs org docs = filter (\<lambda>i. in_organizationId i = org \<and> in_deletedAt i = None) docs"

definition label_text :: "instance_doc \<Rightarrow> jstr" where
  "label_text i = (case in_label i of None \<Rightarrow> [] | Some l \<Rightarrow> l)"

definition label_entries :: "instance_doc list \<Rightarrow> (jstr \<times> jstr) list" where
  "label_entries docs = map (\<lambda>i. (in_id i, label_text i)) docs"

text \<open>The labels of the live instances, then of every further one that is asked for and still has a document of the organisation.\<close>

definition labels_of :: "jstr \<Rightarrow> instance_doc list \<Rightarrow> jstr list \<Rightarrow> (jstr \<times> jstr) list" where
  "labels_of org docs recorded =
    (let live = label_entries (live_docs org docs);
         missing = filter (\<lambda>i. i \<notin> fst ` set live) (remdups recorded);
         removed = label_entries (filter (\<lambda>i. in_organizationId i = org \<and> in_id i \<in> set missing) docs)
     in live @ removed)"

section \<open>One day\<close>

record usage_tokens =
  ut_calls :: nat
  ut_inputTokens :: "int option"
  ut_outputTokens :: "int option"
  ut_totalTokens :: "int option"

record usage_instance =
  ui_instanceId :: jstr
  ui_label :: jstr
  ui_recorded :: bool
  ui_counters :: usage_counters
  ui_tokens :: usage_tokens

record usage_day =
  ud_day :: jstr
  ud_maxTokensPerDay :: "int option"
  ud_recorded :: bool
  ud_instances :: "usage_instance list"

definition figure :: "nat \<Rightarrow> int \<Rightarrow> int option" where
  "figure count tokens = (if 0 < count then Some tokens else None)"

definition usage_tokens_of :: "token_row option \<Rightarrow> usage_tokens" where
  "usage_tokens_of row = (case row of
      None \<Rightarrow> \<lparr>ut_calls = 0, ut_inputTokens = None, ut_outputTokens = None, ut_totalTokens = None\<rparr>
    | Some r \<Rightarrow> \<lparr>ut_calls = tr_calls r, ut_inputTokens = figure (tr_inputReported r) (tr_inputTokens r),
        ut_outputTokens = figure (tr_outputReported r) (tr_outputTokens r),
        ut_totalTokens = figure (tr_totalReported r) (tr_totalTokens r)\<rparr>)"

definition any_counter :: "usage_counters \<Rightarrow> bool" where
  "any_counter c \<longleftrightarrow> 0 < uc_messagesIn c \<or> 0 < uc_mediaStored c \<or> 0 < uc_mediaUnparsed c \<or> 0 < uc_sendsOk c
     \<or> 0 < uc_sendsFailed c \<or> 0 < uc_receipts c"

definition usage_instance_of ::
  "(jstr \<times> jstr) list \<Rightarrow> (jstr \<Rightarrow> usage_counters option) \<Rightarrow> (jstr \<Rightarrow> token_row option) \<Rightarrow> jstr \<Rightarrow> usage_instance" where
  "usage_instance_of labels counters calls inst =
    (let cs = (case counters inst of None \<Rightarrow> empty_counters | Some c \<Rightarrow> c);
         ts = usage_tokens_of (calls inst)
     in \<lparr>ui_instanceId = inst, ui_label = (case map_of labels inst of None \<Rightarrow> [] | Some l \<Rightarrow> l),
         ui_recorded = (0 < ut_calls ts \<or> any_counter cs), ui_counters = cs, ui_tokens = ts\<rparr>)"

definition stats_of_day :: "stats_row list \<Rightarrow> jstr \<Rightarrow> jstr \<Rightarrow> stats_row list" where
  "stats_of_day stats org day = filter (\<lambda>r. sd_organizationId r = org \<and> sd_day r = day) stats"

definition calls_between :: "ai_call list \<Rightarrow> jstr \<Rightarrow> time \<Rightarrow> time \<Rightarrow> ai_call list" where
  "calls_between calls org from ending = filter (\<lambda>c. ai_organizationId c = org \<and> from \<le> ai_createdAt c \<and> ai_createdAt c < ending) calls"

definition readUsage :: "db \<Rightarrow> stats_row list \<Rightarrow> (jstr \<Rightarrow> int option) \<Rightarrow> jstr \<Rightarrow> time \<Rightarrow> usage_day" where
  "readUsage d stats settings org now =
    (let day = day_text now; from = day_start now;
         stat_rows = stats_of_day stats org day;
         call_rows = calls_between (aiCalls d) org from (from + ms_per_day);
         recorded = map sd_instanceId stat_rows @ map ai_instanceId call_rows;
         labels = labels_of org (instances d) recorded;
         ids = sort (remdups (map fst labels @ recorded));
         rows = map (usage_instance_of labels (group_by sd_instanceId counter_row stat_rows)
                       (group_by ai_instanceId token_row_of call_rows)) ids
     in \<lparr>ud_day = day, ud_maxTokensPerDay = settings org, ud_recorded = (\<exists>i \<in> set rows. ui_recorded i), ud_instances = rows\<rparr>)"

section \<open>One week\<close>

record token_day =
  td_day :: jstr
  td_calls :: nat
  td_inputTokens :: "int option"
  td_outputTokens :: "int option"
  td_totalTokens :: "int option"

record token_trend_instance =
  ti_instanceId :: jstr
  ti_label :: jstr
  ti_days :: "token_day list"

record token_trend =
  tt_days :: "jstr list"
  tt_instances :: "token_trend_instance list"

definition token_window_days :: nat where "token_window_days = 7"

definition token_day_of :: "(jstr \<times> jstr \<Rightarrow> token_row option) \<Rightarrow> jstr \<Rightarrow> jstr \<Rightarrow> token_day" where
  "token_day_of rows inst day =
    (let row = rows (inst, day); calls = (case row of None \<Rightarrow> 0 | Some r \<Rightarrow> tr_calls r)
     in if calls = 0 then \<lparr>td_day = day, td_calls = calls, td_inputTokens = Some 0, td_outputTokens = Some 0, td_totalTokens = Some 0\<rparr>
        else \<lparr>td_day = day, td_calls = calls,
          td_inputTokens = (case row of None \<Rightarrow> None | Some r \<Rightarrow> figure (tr_inputReported r) (tr_inputTokens r)),
          td_outputTokens = (case row of None \<Rightarrow> None | Some r \<Rightarrow> figure (tr_outputReported r) (tr_outputTokens r)),
          td_totalTokens = (case row of None \<Rightarrow> None | Some r \<Rightarrow> figure (tr_totalReported r) (tr_totalTokens r))\<rparr>)"

text \<open>\<open>sort(compare)\<close>, stable.\<close>

fun insert_by :: "('a \<Rightarrow> 'a \<Rightarrow> int) \<Rightarrow> 'a \<Rightarrow> 'a list \<Rightarrow> 'a list" where
  "insert_by compare x [] = [x]"
| "insert_by compare x (y # ys) = (if compare x y \<le> 0 then x # y # ys else y # insert_by compare x ys)"

definition sort_by :: "('a \<Rightarrow> 'a \<Rightarrow> int) \<Rightarrow> 'a list \<Rightarrow> 'a list" where
  "sort_by compare xs = foldr (insert_by compare) xs []"

definition trend_order :: "(jstr \<Rightarrow> jstr \<Rightarrow> int) \<Rightarrow> (jstr \<times> jstr) list \<Rightarrow> jstr \<Rightarrow> jstr \<Rightarrow> int" where
  "trend_order locale_compare labels a b =
    (let name = (\<lambda>i. case map_of labels i of None \<Rightarrow> i | Some l \<Rightarrow> l);
         by_name = locale_compare (name a) (name b)
     in if by_name \<noteq> 0 then by_name else locale_compare a b)"

definition window_days :: "time \<Rightarrow> jstr list" where
  "window_days now = map (\<lambda>i. day_text (day_start now - int (token_window_days - 1) * ms_per_day + int i * ms_per_day))
     [0..<token_window_days]"

definition readTokenTrend :: "(jstr \<Rightarrow> jstr \<Rightarrow> int) \<Rightarrow> db \<Rightarrow> jstr \<Rightarrow> time \<Rightarrow> token_trend" where
  "readTokenTrend locale_compare d org now =
    (let today = day_start now; from = today - int (token_window_days - 1) * ms_per_day;
         call_rows = calls_between (aiCalls d) org from (today + ms_per_day);
         rows = group_by (\<lambda>c. (ai_instanceId c, day_text (ai_createdAt c))) token_row_of call_rows;
         labels = labels_of org (instances d) (map ai_instanceId call_rows);
         ids = sort_by (trend_order locale_compare labels) (remdups (map fst labels @ map ai_instanceId call_rows))
     in \<lparr>tt_days = window_days now,
         tt_instances = map (\<lambda>inst. \<lparr>ti_instanceId = inst,
            ti_label = (case map_of labels inst of None \<Rightarrow> [] | Some l \<Rightarrow> l),
            ti_days = map (token_day_of rows inst) (window_days now)\<rparr>) ids\<rparr>)"

end
