(* ===== verification/UsageProps.thy ===== *)
theory UsageProps
  imports Usage
begin

text \<open>
  The calendar behind the stored days (a day has one text, and no other day has it), and on it what the two read models of
  token use owe each other and the rows they sum.
\<close>

section \<open>The calendar\<close>

lemma quotient: "k * a \<le> n \<Longrightarrow> n < k * a + k \<Longrightarrow> n div k = a" for a n k :: int
  by (rule int_div_pos_eq [of n k a "n - k * a"]) auto

lemma quotient_bounds: "0 < k \<Longrightarrow> k * (n div k) \<le> n \<and> n < k * (n div k) + k" for n k :: int
  using mult_div_mod_eq [of k n] pos_mod_sign [of k n] pos_mod_bound [of k n] by linarith

text \<open>
  A day of an era of 400 years as its century, its four-year cycle in it and its day in the cycle: the year the algorithm finds, and its day of the
  year.
\<close>

lemma year_of_era:
  fixes b q s :: int
  assumes b: "0 \<le> b" "b \<le> 3" and q: "0 \<le> q" "q \<le> 24" and s: "0 \<le> s" "s \<le> 1460" and r: "1461 * q + s < 36524"
    and n: "n = 36524 * b + 1461 * q + s"
  shows "\<exists>t. 0 \<le> t \<and> t \<le> 3 \<and> (n - n div 1460 + n div 36524 - n div 146096) div 365 = 100 * b + 4 * q + t \<and>
    0 \<le> s - 365 * t \<and> s - 365 * t \<le> 365"
proof -
  obtain e :: int where e: "0 \<le> e" "e \<le> 1" "e = 0 \<Longrightarrow> 24 * b + q + s < 1460" "e = 1 \<Longrightarrow> 1460 \<le> 24 * b + q + s"
    by (cases "24 * b + q + s < 1460") (auto intro: that [of 0] that [of 1])
  have "e = 0 \<or> e = 1" using e(1,2) by linarith
  then have small: "0 \<le> s - e" "s - e \<le> 1459" and mid: "1460 * e \<le> 24 * b + q + s" "24 * b + q + s < 1460 * e + 1460"
    using e(3,4) b q s by auto
  have "n div 1460 = 25 * b + q + e" by (rule quotient) (use n mid in \<open>simp add: algebra_simps\<close>)+
  moreover have "n div 36524 = b" by (rule quotient) (use n q s r in \<open>simp add: algebra_simps\<close>)+
  moreover have "n div 146096 = 0" by (rule quotient) (use n b q s r in \<open>simp add: algebra_simps\<close>)+
  ultimately have "n - n div 1460 + n div 36524 - n div 146096 = n - (25 * b + q + e) + b - 0" by (simp only:)
  then have y: "n - n div 1460 + n div 36524 - n div 146096 = 365 * (100 * b + 4 * q) + (s - e)"
    by (simp only:) (simp add: n algebra_simps)
  let ?t = "(s - e) div 365"
  have t: "365 * ?t \<le> s - e" "s - e < 365 * ?t + 365" using quotient_bounds [of 365 "s - e"] by auto
  have "(n - n div 1460 + n div 36524 - n div 146096) div 365 = 100 * b + 4 * q + ?t"
    unfolding y by (rule quotient) (use t in \<open>simp add: algebra_simps\<close>)+
  moreover have "0 \<le> ?t" "?t \<le> 3" "0 \<le> s - 365 * ?t" "s - 365 * ?t \<le> 365" using t small e(1,2) by linarith+
  ultimately show ?thesis by blast
qed

definition year_of :: "int \<Rightarrow> int" where
  "year_of n = (n - n div 1460 + n div 36524 - n div 146096) div 365"

definition day_of_year :: "int \<Rightarrow> int" where
  "day_of_year n = n - (365 * year_of n + year_of n div 4 - year_of n div 100)"

lemma day_in_era:
  assumes "0 \<le> n" and "n < 146097"
  shows "0 \<le> year_of n \<and> year_of n \<le> 399 \<and> 0 \<le> day_of_year n \<and> day_of_year n \<le> 365"
proof (cases "n = 146096")
  case True
  then have "year_of n = 399" by (simp add: year_of_def)
  with True show ?thesis by (simp add: day_of_year_def)
next
  case False
  have r: "36524 * (n div 36524) + n mod 36524 = n" "0 \<le> n mod 36524" "n mod 36524 < 36524"
    "1461 * (n mod 36524 div 1461) + n mod 36524 mod 1461 = n mod 36524" "0 \<le> n mod 36524 mod 1461" "n mod 36524 mod 1461 < 1461"
    by simp_all
  obtain b q s :: int where parts: "n = 36524 * b + 1461 * q + s" and b: "0 \<le> b" "b \<le> 3" and q: "0 \<le> q" "q \<le> 24"
    and s: "0 \<le> s" "s \<le> 1460" and small: "1461 * q + s < 36524"
    by (rule that [of "n div 36524" "n mod 36524 div 1461" "n mod 36524 mod 1461"]) (use r assms False in linarith)+
  from year_of_era [OF b q s small parts] obtain t where t: "0 \<le> t" "t \<le> 3" "year_of n = 100 * b + 4 * q + t"
    "0 \<le> s - 365 * t" "s - 365 * t \<le> 365" unfolding year_of_def by blast
  have "year_of n div 4 = 25 * b + q" by (rule quotient) (use t in \<open>simp add: algebra_simps\<close>)+
  moreover have "year_of n div 100 = b" by (rule quotient) (use t q in \<open>simp add: algebra_simps\<close>)+
  ultimately have "day_of_year n = n - (365 * (100 * b + 4 * q + t) + (25 * b + q) - b)"
    using t(3) by (simp only: day_of_year_def)
  then have "day_of_year n = s - 365 * t" by (simp only:) (simp add: parts algebra_simps)
  with t b q show ?thesis by linarith
qed


text \<open>Month and day of a day of the year that begins in March.\<close>

lemma day_in_month:
  fixes y :: int
  assumes "0 \<le> y" and "y \<le> 365"
  shows "0 \<le> (5 * y + 2) div 153 \<and> (5 * y + 2) div 153 \<le> 11 \<and>
    1 \<le> y - (153 * ((5 * y + 2) div 153) + 2) div 5 + 1 \<and> y - (153 * ((5 * y + 2) div 153) + 2) div 5 + 1 \<le> 31"
proof -
  define m where "m = (5 * y + 2) div 153"
  have m: "153 * m \<le> 5 * y + 2" "5 * y + 2 < 153 * m + 153" using quotient_bounds [of 153 "5 * y + 2"] by (auto simp: m_def)
  define f where "f = (153 * m + 2) div 5"
  have f: "5 * f \<le> 153 * m + 2" "153 * m + 2 < 5 * f + 5" using quotient_bounds [of 5 "153 * m + 2"] by (auto simp: f_def)
  have "0 \<le> m \<and> m \<le> 11 \<and> 1 \<le> y - f + 1 \<and> y - f + 1 \<le> 31" using m f assms by linarith
  then show ?thesis by (simp only: f_def m_def)
qed

lemma civil_parts:
  "civil days = (let z = days + 719468; n = z mod 146097; mp = (5 * day_of_year n + 2) div 153; month = (if mp < 10 then mp + 3 else mp - 9)
     in (year_of n + z div 146097 * 400 + (if month \<le> 2 then 1 else 0), month, day_of_year n - (153 * mp + 2) div 5 + 1))"
  by (simp only: civil_def Let_def day_of_year_def year_of_def)

text \<open>The day of a civil date.\<close>

definition day_number :: "int \<times> int \<times> int \<Rightarrow> int" where
  "day_number date = (case date of (y, m, dd) \<Rightarrow>
     (let y' = y - (if m \<le> 2 then 1 else 0); mp = (if 3 \<le> m then m - 3 else m + 9); yoe = y' mod 400;
          doy = dd - 1 + (153 * mp + 2) div 5
      in y' div 400 * 146097 + (doy + (365 * yoe + yoe div 4 - yoe div 100)) - 719468))"

lemma civil_day: "day_number (civil days) = days \<and> (case civil days of (y, m, dd) \<Rightarrow> 1 \<le> m \<and> m \<le> 12 \<and> 1 \<le> dd \<and> dd \<le> 31)"
proof -
  define z where "z = days + 719468"
  define n where "n = z mod 146097"
  define era where "era = z div 146097"
  have n: "0 \<le> n" "n < 146097" "z = 146097 * era + n" by (simp_all add: n_def era_def)
  define mp where "mp = (5 * day_of_year n + 2) div 153"
  define month where "month = (if mp < 10 then mp + 3 else mp - 9)"
  define dd where "dd = day_of_year n - (153 * mp + 2) div 5 + 1"
  have y: "0 \<le> year_of n" "year_of n \<le> 399" "0 \<le> day_of_year n" "day_of_year n \<le> 365" using day_in_era [OF n(1,2)] by auto
  have mp: "0 \<le> mp" "mp \<le> 11" "1 \<le> dd" "dd \<le> 31" using day_in_month [OF y(3,4)] by (simp_all add: mp_def dd_def)
  have civil: "civil days = (year_of n + era * 400 + (if month \<le> 2 then 1 else 0), month, dd)"
    by (simp add: civil_parts Let_def z_def n_def era_def mp_def month_def dd_def)
  have month: "1 \<le> month" "month \<le> 12" "(if 3 \<le> month then month - 3 else month + 9) = mp" using mp by (auto simp: month_def)
  have "(year_of n + era * 400) div 400 = era" "(year_of n + era * 400) mod 400 = year_of n"
    using y by (simp_all add: div_pos_pos_trivial mod_pos_pos_trivial)
  then have "day_number (civil days) = era * 146097 + (day_of_year n + (365 * year_of n + year_of n div 4 - year_of n div 100)) - 719468"
    unfolding civil day_number_def by (simp add: month(3) dd_def Let_def)
  also have "\<dots> = days" using n(3) by (simp add: day_of_year_def z_def)
  finally show ?thesis using civil month mp by simp
qed

lemma civil_inj: "civil a = civil b \<Longrightarrow> a = b"
  by (metis civil_day)


section \<open>Days as text\<close>

lemma dec_value: "foldl (\<lambda>v c. 10 * v + (c - 48)) 0 (dec n) = n"
  by (induction n rule: dec.induct) (subst dec.simps, simp)

lemma padded_inj: "0 \<le> a \<Longrightarrow> 0 \<le> b \<Longrightarrow> padded w a = padded w b \<Longrightarrow> a = b"
proof -
  have zeros: "foldl (\<lambda>v c. 10 * v + (c - 48)) 0 (replicate k 48) = (0 :: nat)" for k
    by (induction k) auto
  have "foldl (\<lambda>v c. 10 * v + (c - 48)) 0 (padded w x) = nat x" for x
    by (simp add: padded_def Let_def zeros dec_value)
  then show "0 \<le> a \<Longrightarrow> 0 \<le> b \<Longrightarrow> padded w a = padded w b \<Longrightarrow> a = b" by (metis nat_eq_iff)
qed

lemma length_padded: "0 \<le> a \<Longrightarrow> a < 10 ^ w \<Longrightarrow> 0 < w \<Longrightarrow> length (padded w a) = w"
proof -
  assume "0 \<le> a" and "a < 10 ^ w" and "0 < w"
  then have "nat a < 10 ^ w" by (simp add: nat_less_iff)
  then have "length (dec (nat a)) \<le> w" using \<open>0 < w\<close> by (intro dec_length)
  then show ?thesis by (simp add: padded_def Let_def)
qed

text \<open>The instants whose day has the usual text of ten characters.\<close>

definition four_digit_year :: "time \<Rightarrow> bool" where
  "four_digit_year t \<longleftrightarrow> 0 \<le> fst (civil (t div ms_per_day)) \<and> fst (civil (t div ms_per_day)) \<le> 9999"

lemma day_text_parts:
  assumes "four_digit_year t" and "civil (t div ms_per_day) = (y, m, dd)"
  shows "day_text t = padded 4 y @ [45] @ padded 2 m @ [45] @ padded 2 dd"
proof -
  have "1 \<le> m \<and> m \<le> 12 \<and> 1 \<le> dd \<and> dd \<le> 31" using civil_day [of "t div ms_per_day"] assms(2) by simp
  then have "length (padded 4 y) = 4" "length (padded 2 m) = 2" "length (padded 2 dd) = 2"
    using assms by (auto simp: four_digit_year_def intro!: length_padded)
  then show ?thesis
    using assms by (simp add: day_text_def toISOString_def ms_per_day_def four_digit_year_def iso_year_def js_def Let_def)
qed

lemma day_text_same_day: "t div ms_per_day = u div ms_per_day \<Longrightarrow> day_text t = day_text u" if "four_digit_year t" "four_digit_year u"
  using that by (cases "civil (u div ms_per_day)") (simp add: day_text_parts)

lemma day_text_inj:
  assumes "four_digit_year t" and "four_digit_year u" and "day_text t = day_text u"
  shows "t div ms_per_day = u div ms_per_day"
proof -
  obtain y m dd y' m' dd' where c: "civil (t div ms_per_day) = (y, m, dd)" "civil (u div ms_per_day) = (y', m', dd')"
    by (metis prod_cases3)
  have b: "1 \<le> m" "m \<le> 12" "1 \<le> dd" "dd \<le> 31" "1 \<le> m'" "m' \<le> 12" "1 \<le> dd'" "dd' \<le> 31"
    using civil_day [of "t div ms_per_day"] civil_day [of "u div ms_per_day"] c by auto
  have y: "0 \<le> y" "y \<le> 9999" "0 \<le> y'" "y' \<le> 9999" using assms(1,2) c by (simp_all add: four_digit_year_def)
  have "padded 4 y @ [45] @ padded 2 m @ [45] @ padded 2 dd = padded 4 y' @ [45] @ padded 2 m' @ [45] @ padded 2 dd'"
    using assms c by (simp add: day_text_parts)
  moreover have "length (padded 4 y) = length (padded 4 y')" "length (padded 2 m) = length (padded 2 m')"
    using b y by (simp_all add: length_padded)
  ultimately have "padded 4 y = padded 4 y'" "padded 2 m = padded 2 m'" "padded 2 dd = padded 2 dd'" by auto
  then have "y = y'" "m = m'" "dd = dd'" using b y by (auto intro: padded_inj)
  with c show ?thesis by (intro civil_inj) simp
qed

section \<open>Each row is counted once\<close>

lemma group_by_eq: "group_by key aggregate rows k =
    (if k \<in> key ` set rows then Some (aggregate (filter (\<lambda>r. key r = k) rows)) else None)"
proof (cases "filter (\<lambda>r. key r = k) rows")
  case Nil
  then have "k \<notin> key ` set rows" by (auto simp: filter_empty_conv)
  with Nil show ?thesis by (simp add: group_by_def)
next
  case (Cons r rs)
  then have "r \<in> set (filter (\<lambda>r. key r = k) rows)" by simp
  then have "k \<in> key ` set rows" by auto
  with Cons show ?thesis by (simp add: group_by_def)
qed

lemma one_of_distinct: "distinct ids \<Longrightarrow> i \<in> set ids \<Longrightarrow> (\<Sum>k \<leftarrow> ids. if i = k then v else 0) = (v :: 'n :: comm_monoid_add)"
proof (induction ids)
  case (Cons k ids)
  have "(\<Sum>k \<leftarrow> ids. if i = k then v else 0) = 0" if "i \<notin> set ids"
    using that by (induction ids) auto
  with Cons show ?case by auto
qed simp

lemma sum_by_group:
  fixes g :: "'r \<Rightarrow> 'n :: comm_monoid_add"
  assumes "distinct ids"
  shows "key ` set rows \<subseteq> set ids \<Longrightarrow> (\<Sum>k \<leftarrow> ids. \<Sum>r \<leftarrow> filter (\<lambda>r. key r = k) rows. g r) = (\<Sum>r \<leftarrow> rows. g r)"
proof (induction rows)
  case (Cons r rows)
  have "(\<Sum>k \<leftarrow> ids. \<Sum>r \<leftarrow> filter (\<lambda>r. key r = k) (r # rows). g r) =
      (\<Sum>k \<leftarrow> ids. (if key r = k then g r else 0) + (\<Sum>r \<leftarrow> filter (\<lambda>r. key r = k) rows. g r))"
    by (intro arg_cong [where f = sum_list] map_cong) auto
  with Cons assms show ?case by (simp add: sum_list_addf one_of_distinct)
qed simp

text \<open>Summing what the groups of the ids show, when a group that does not occur shows zero.\<close>

lemma sum_of_groups:
  fixes g :: "'r \<Rightarrow> 'n :: comm_monoid_add"
  assumes "distinct ids" and "key ` set rows \<subseteq> set ids"
    and "\<And>k. h k = (\<Sum>r \<leftarrow> filter (\<lambda>r. key r = k) rows. g r)"
  shows "(\<Sum>k \<leftarrow> ids. h k) = (\<Sum>r \<leftarrow> rows. g r)"
  using sum_by_group [OF assms(1,2), of g] assms(3) by simp

lemma filter_absent: "k \<notin> key ` set rows \<Longrightarrow> filter (\<lambda>r. key r = k) rows = []"
  by (auto simp: filter_empty_conv)

lemma shown_counters:
  "ui_counters (usage_instance_of labels (group_by sd_instanceId counter_row rows) calls k) =
     counter_row (filter (\<lambda>r. sd_instanceId r = k) rows)"
  by (simp add: usage_instance_of_def Let_def group_by_eq filter_absent counter_row_def empty_counters_def sum_of_def)

lemma nothing_reported: "reported g rows = 0 \<Longrightarrow> sum_of g rows = 0"
  by (induction rows) (auto simp: reported_def sum_of_def split: if_splits option.splits)

lemma shown_tokens:
  "ui_tokens (usage_instance_of labels counters (group_by ai_instanceId token_row_of rows) k) =
     (let own = filter (\<lambda>c. ai_instanceId c = k) rows; r = token_row_of own
      in \<lparr>ut_calls = length own, ut_inputTokens = figure (tr_inputReported r) (tr_inputTokens r),
          ut_outputTokens = figure (tr_outputReported r) (tr_outputTokens r),
          ut_totalTokens = figure (tr_totalReported r) (tr_totalTokens r)\<rparr>)"
  by (cases "k \<in> ai_instanceId ` set rows")
    (simp_all add: usage_instance_of_def Let_def group_by_eq filter_absent usage_tokens_of_def token_row_of_def figure_def,
     simp_all add: reported_def)

definition shown :: "int option \<Rightarrow> int" where
  "shown v = (case v of None \<Rightarrow> 0 | Some n \<Rightarrow> n)"

lemma shown_figure: "shown (figure (reported g rows) (sum_of g rows)) = (\<Sum>r \<leftarrow> rows. shown (g r))"
  using nothing_reported [of g rows] by (auto simp: shown_def figure_def sum_of_def)

text \<open>The page of a day counts every event and every call of the organisation exactly once: over the instances it lists, none twice and in order, its
  counters and its tokens add up to what the rows of the day hold, whatever instances
  are live, removed or unknown, and a figure no provider reported adds nothing.
\<close>

theorem usage_counts_each_row_once:
  fixes d stats settings org now
  defines "page \<equiv> ud_instances (readUsage d stats settings org now)"
    and "rows \<equiv> stats_of_day stats org (day_text now)"
    and "calls \<equiv> calls_between (aiCalls d) org (day_start now) (day_start now + ms_per_day)"
  shows "distinct (map ui_instanceId page) \<and> sorted (map ui_instanceId page) \<and>
    (\<Sum>i \<leftarrow> page. uc_messagesIn (ui_counters i)) = sum_of sd_messagesIn rows \<and>
    (\<Sum>i \<leftarrow> page. uc_sendsOk (ui_counters i)) = sum_of sd_sendsSent rows \<and>
    (\<Sum>i \<leftarrow> page. uc_sendsFailed (ui_counters i)) = sum_of sd_sendsFailed rows \<and>
    (\<Sum>i \<leftarrow> page. ut_calls (ui_tokens i)) = length calls \<and>
    (\<Sum>i \<leftarrow> page. shown (ut_totalTokens (ui_tokens i))) = (\<Sum>c \<leftarrow> calls. shown (tu_totalTokens (ai_usage c)))"
proof -
  let ?recorded = "map sd_instanceId rows @ map ai_instanceId calls"
  let ?labels = "labels_of org (instances d) ?recorded"
  let ?ids = "sort (remdups (map fst ?labels @ ?recorded))"
  let ?row = "usage_instance_of ?labels (group_by sd_instanceId counter_row rows) (group_by ai_instanceId token_row_of calls)"
  have page: "page = map ?row ?ids" by (simp add: page_def readUsage_def Let_def rows_def calls_def)
  have id: "ui_instanceId (?row k) = k" for k by (simp add: usage_instance_of_def Let_def)
  have ids: "distinct ?ids" "sd_instanceId ` set rows \<subseteq> set ?ids" "ai_instanceId ` set calls \<subseteq> set ?ids" by auto
  have order: "map ui_instanceId page = ?ids" by (simp add: page id comp_def)
  have counters: "(\<Sum>i \<leftarrow> page. f (ui_counters i)) = sum_of g rows"
    if "\<And>xs. f (counter_row xs) = sum_of g xs" for f and g :: "stats_row \<Rightarrow> int option"
    unfolding page map_map comp_def shown_counters that
    using sum_of_groups [OF ids(1,2), of "\<lambda>k. sum_of g (filter (\<lambda>r. sd_instanceId r = k) rows)" "\<lambda>r. case g r of None \<Rightarrow> 0 | Some n \<Rightarrow> n"]
    by (simp add: sum_of_def)
  have "(\<Sum>i \<leftarrow> page. ut_calls (ui_tokens i)) = (\<Sum>k \<leftarrow> ?ids. length (filter (\<lambda>c. ai_instanceId c = k) calls))"
    unfolding page map_map comp_def shown_tokens by (simp add: Let_def)
  also have "\<dots> = (\<Sum>c \<leftarrow> calls. 1)"
    by (rule sum_of_groups [OF ids(1,3)]) (simp add: sum_list_triv)
  finally have calls: "(\<Sum>i \<leftarrow> page. ut_calls (ui_tokens i)) = length calls" by (simp add: sum_list_triv)
  have "(\<Sum>i \<leftarrow> page. shown (ut_totalTokens (ui_tokens i))) =
      (\<Sum>k \<leftarrow> ?ids. \<Sum>c \<leftarrow> filter (\<lambda>c. ai_instanceId c = k) calls. shown (tu_totalTokens (ai_usage c)))"
    unfolding page map_map comp_def shown_tokens by (simp add: Let_def token_row_of_def shown_figure)
  also have "\<dots> = (\<Sum>c \<leftarrow> calls. shown (tu_totalTokens (ai_usage c)))"
    by (rule sum_of_groups [OF ids(1,3)]) simp
  finally have tokens: "(\<Sum>i \<leftarrow> page. shown (ut_totalTokens (ui_tokens i))) = (\<Sum>c \<leftarrow> calls. shown (tu_totalTokens (ai_usage c)))" .
  show ?thesis
    unfolding order using ids(1) calls tokens
    by (simp add: counters [of uc_messagesIn sd_messagesIn] counters [of uc_sendsOk sd_sendsSent]
        counters [of uc_sendsFailed sd_sendsFailed] counter_row_def)
qed


section \<open>The day and the week agree\<close>

lemma set_sort_by [simp]: "set (sort_by compare xs) = set xs"
proof -
  have "set (insert_by compare x ys) = insert x (set ys)" for x ys by (induction ys) auto
  then show ?thesis by (induction xs) (simp_all add: sort_by_def)
qed

lemma day_start_day: "day_start t div ms_per_day = t div ms_per_day"
  by (simp add: day_start_def ms_per_day_def)

lemma in_day: "t div ms_per_day = now div ms_per_day \<longleftrightarrow> day_start now \<le> t \<and> t < day_start now + ms_per_day"
  using quotient_bounds [of 86400000 t] quotient [of 86400000 "now div 86400000" t]
  by (auto simp: day_start_def ms_per_day_def algebra_simps)

text \<open>The calls the week counts under today are the calls the day counts.\<close>

lemma calls_of_today:
  assumes "four_digit_year now" and "\<And>c. c \<in> set all \<Longrightarrow> four_digit_year (ai_createdAt c)"
  shows "filter (\<lambda>c. (ai_instanceId c, day_text (ai_createdAt c)) = (inst, day_text now))
      (calls_between all org (day_start now - int (token_window_days - 1) * ms_per_day) (day_start now + ms_per_day)) =
    filter (\<lambda>c. ai_instanceId c = inst) (calls_between all org (day_start now) (day_start now + ms_per_day))"
proof -
  have "day_text (ai_createdAt c) = day_text now \<longleftrightarrow> day_start now \<le> ai_createdAt c \<and> ai_createdAt c < day_start now + ms_per_day"
    if "c \<in> set all" for c
    using day_text_inj [of "ai_createdAt c" now] day_text_same_day [of "ai_createdAt c" now] assms that by (auto simp: in_day [symmetric])
  moreover have "day_start now - int (token_window_days - 1) * ms_per_day \<le> t" if "day_start now \<le> t" for t
    using that by (simp add: ms_per_day_def)
  ultimately show ?thesis
    unfolding calls_between_def filter_filter by (intro filter_cong) auto
qed

lemma last_window_day: "List.last (window_days now) = day_text (day_start now)" "window_days now \<noteq> []"
  by (simp_all add: window_days_def token_window_days_def ms_per_day_def last_conv_nth)

lemma four_digit_day_start: "four_digit_year t \<Longrightarrow> four_digit_year (day_start t)"
  by (simp add: four_digit_year_def day_start_day)

text \<open>An instance's line of the usage page sums its calls of the day; its last day on the chart sums the same.\<close>

lemma usage_line_tokens:
  assumes "i \<in> set (ud_instances (readUsage d stats settings org now))"
  defines "own \<equiv> filter (\<lambda>c. ai_instanceId c = ui_instanceId i) (calls_between (aiCalls d) org (day_start now) (day_start now + ms_per_day))"
  shows "ui_tokens i = (let r = token_row_of own in \<lparr>ut_calls = length own,
      ut_inputTokens = figure (tr_inputReported r) (tr_inputTokens r),
      ut_outputTokens = figure (tr_outputReported r) (tr_outputTokens r),
      ut_totalTokens = figure (tr_totalReported r) (tr_totalTokens r)\<rparr>)"
proof -
  let ?today = "calls_between (aiCalls d) org (day_start now) (day_start now + ms_per_day)"
  from assms(1) obtain labels counters where
    i: "i = usage_instance_of labels counters (group_by ai_instanceId token_row_of ?today) (ui_instanceId i)"
    by (auto simp: readUsage_def Let_def usage_instance_of_def)
  show ?thesis unfolding own_def by (subst i) (simp add: shown_tokens Let_def)
qed

lemma token_day_cong: "f (k, day) = g (k, day) \<Longrightarrow> token_day_of f k day = token_day_of g k day"
  by (simp add: token_day_of_def)

lemma trend_last_day:
  assumes "four_digit_year now" and "\<And>c. c \<in> set (aiCalls d) \<Longrightarrow> four_digit_year (ai_createdAt c)"
    and "w \<in> set (tt_instances (readTokenTrend compare d org now))"
  defines "own \<equiv> filter (\<lambda>c. ai_instanceId c = ti_instanceId w) (calls_between (aiCalls d) org (day_start now) (day_start now + ms_per_day))"
  shows "List.last (ti_days w) =
    token_day_of (\<lambda>k. if own = [] then None else Some (token_row_of own)) (ti_instanceId w) (day_text now)"
proof -
  let ?week = "calls_between (aiCalls d) org (day_start now - int (token_window_days - 1) * ms_per_day) (day_start now + ms_per_day)"
  let ?key = "\<lambda>c. (ai_instanceId c, day_text (ai_createdAt c))"
  have today: "day_text (day_start now) = day_text now"
    using day_text_same_day [OF four_digit_day_start [OF assms(1)] assms(1)] by (simp add: day_start_day)
  have own: "filter (\<lambda>c. ?key c = (ti_instanceId w, day_text now)) ?week = own"
    unfolding own_def by (rule calls_of_today [OF assms(1,2)])
  have row: "group_by ?key token_row_of ?week (ti_instanceId w, day_text now) = (if own = [] then None else Some (token_row_of own))"
    unfolding group_by_def own by (cases own) auto
  have "ti_days w = map (token_day_of (group_by ?key token_row_of ?week) (ti_instanceId w)) (window_days now)"
    using assms(3) by (auto simp: readTokenTrend_def Let_def)
  then have "List.last (ti_days w) = token_day_of (group_by ?key token_row_of ?week) (ti_instanceId w) (day_text now)"
    using last_window_day [of now] by (simp add: last_map today)
  then show ?thesis by (rule trans) (rule token_day_cong, rule row)
qed

lemma calling_instance_listed:
  assumes "filter (\<lambda>c. ai_instanceId c = k) (calls_between (aiCalls d) org (day_start now) (day_start now + ms_per_day)) \<noteq> []"
  shows "k \<in> ti_instanceId ` set (tt_instances (readTokenTrend compare d org now))"
proof -
  let ?week = "calls_between (aiCalls d) org (day_start now - int (token_window_days - 1) * ms_per_day) (day_start now + ms_per_day)"
  from assms obtain c where "c \<in> set (calls_between (aiCalls d) org (day_start now) (day_start now + ms_per_day))" "ai_instanceId c = k"
    by (metis (mono_tags, lifting) filter_empty_conv)
  then have "c \<in> set ?week" "ai_instanceId c = k" by (auto simp: calls_between_def token_window_days_def ms_per_day_def)
  then have "k \<in> ai_instanceId ` set ?week" by (intro image_eqI [of _ _ c]) auto
  then show ?thesis by (simp add: readTokenTrend_def Let_def image_image image_Un)
qed

text \<open>
  C35: The usage page and the token chart agree about today. Every instance with a call today is on the chart, and where both list an instance the
  chart's last day is the page's day, with the same calls and, where there were any, the same figures, absent
  where none was reported; only a day without calls is a zero on the chart and an absence on the page.
\<close>

theorem usage_and_trend_agree:
  assumes "four_digit_year now" and "\<And>c. c \<in> set (aiCalls d) \<Longrightarrow> four_digit_year (ai_createdAt c)"
    and "i \<in> set (ud_instances (readUsage d stats settings org now))"
  shows "(0 < ut_calls (ui_tokens i) \<longrightarrow> ui_instanceId i \<in> ti_instanceId ` set (tt_instances (readTokenTrend compare d org now))) \<and>
    (\<forall>w \<in> set (tt_instances (readTokenTrend compare d org now)). ti_instanceId w = ui_instanceId i \<longrightarrow>
      (let t = List.last (ti_days w); u = ui_tokens i
       in td_day t = ud_day (readUsage d stats settings org now) \<and> td_calls t = ut_calls u \<and>
          (if ut_calls u = 0
           then td_inputTokens t = Some 0 \<and> td_outputTokens t = Some 0 \<and> td_totalTokens t = Some 0 \<and>
             ut_inputTokens u = None \<and> ut_outputTokens u = None \<and> ut_totalTokens u = None
           else td_inputTokens t = ut_inputTokens u \<and> td_outputTokens t = ut_outputTokens u \<and> td_totalTokens t = ut_totalTokens u)))"
proof -
  let ?own = "filter (\<lambda>c. ai_instanceId c = ui_instanceId i) (calls_between (aiCalls d) org (day_start now) (day_start now + ms_per_day))"
  note u = usage_line_tokens [OF assms(3)]
  have day: "ud_day (readUsage d stats settings org now) = day_text now" by (simp add: readUsage_def Let_def)
  have listed: "0 < ut_calls (ui_tokens i) \<Longrightarrow> ui_instanceId i \<in> ti_instanceId ` set (tt_instances (readTokenTrend compare d org now))"
    by (rule calling_instance_listed) (auto simp: u Let_def)
  have agree: "td_day t = day_text now \<and> td_calls t = ut_calls (ui_tokens i) \<and>
      (if ut_calls (ui_tokens i) = 0
       then td_inputTokens t = Some 0 \<and> td_outputTokens t = Some 0 \<and> td_totalTokens t = Some 0 \<and>
         ut_inputTokens (ui_tokens i) = None \<and> ut_outputTokens (ui_tokens i) = None \<and> ut_totalTokens (ui_tokens i) = None
       else td_inputTokens t = ut_inputTokens (ui_tokens i) \<and> td_outputTokens t = ut_outputTokens (ui_tokens i) \<and>
         td_totalTokens t = ut_totalTokens (ui_tokens i))"
    if w: "w \<in> set (tt_instances (readTokenTrend compare d org now))" "ti_instanceId w = ui_instanceId i" "t = List.last (ti_days w)" for w t
  proof -
    have t: "t = token_day_of (\<lambda>k. if ?own = [] then None else Some (token_row_of ?own)) (ui_instanceId i) (day_text now)"
      using trend_last_day [OF assms(1,2) w(1)] by (simp only: w(2,3))
    show ?thesis
    proof (cases "?own = []")
      case True
      then show ?thesis unfolding t u Let_def token_day_of_def by (simp add: token_row_of_def figure_def reported_def)
    next
      case False
      then have "tr_calls (token_row_of ?own) = length ?own" "length ?own \<noteq> 0" by (simp_all add: token_row_of_def)
      with False show ?thesis unfolding t u Let_def token_day_of_def by simp
    qed
  qed
  show ?thesis unfolding day Let_def using listed agree by blast
qed

definition ex_ai_call :: ai_call where
  "ex_ai_call = \<lparr>ai_organizationId = js ''org'', ai_instanceId = js ''i1'', ai_groupJid = js ''g'', ai_model = js ''m'', ai_ok = True,
     ai_latencyMs = 5, ai_usage = \<lparr>tu_inputTokens = None, tu_outputTokens = None, tu_totalTokens = Some 7\<rparr>, ai_createdAt = 3600000\<rparr>"

definition ex_usage_db :: db where
  "ex_usage_db = empty_db\<lparr>aiCalls := [ex_ai_call]\<rparr>"

definition ex_usage_instance :: usage_instance where
  "ex_usage_instance = usage_instance_of [] (\<lambda>_. None) (group_by ai_instanceId token_row_of [ex_ai_call]) (js ''i1'')"

lemma ex_four_digits: "four_digit_year 7200000" "four_digit_year 3600000"
  by code_simp+

lemma ex_usage_page: "ud_instances (readUsage ex_usage_db [] (\<lambda>_. None) (js ''org'') 7200000) = [ex_usage_instance]"
proof -
  have "calls_between [ex_ai_call] (js ''org'') (day_start 7200000) (day_start 7200000 + ms_per_day) = [ex_ai_call]"
    by (simp add: calls_between_def ex_ai_call_def day_start_def ms_per_day_def)
  moreover have "group_by sd_instanceId counter_row [] = (\<lambda>_. None)" by (simp add: group_by_def fun_eq_iff)
  moreover have "labels_of (js ''org'') [] r = []" for r by (simp add: labels_of_def live_docs_def label_entries_def)
  moreover have "aiCalls ex_usage_db = [ex_ai_call]" "instances ex_usage_db = []" by (simp_all add: ex_usage_db_def empty_db_def)
  moreover have "ai_instanceId ex_ai_call = js ''i1''" by (simp add: ex_ai_call_def)
  ultimately show ?thesis by (simp add: readUsage_def Let_def stats_of_day_def ex_usage_instance_def)
qed

lemma ex_usage_tokens: "ut_totalTokens (ui_tokens ex_usage_instance) = Some 7" "0 < ut_calls (ui_tokens ex_usage_instance)"
  "ui_instanceId ex_usage_instance = js ''i1''"
  by (simp_all add: ex_usage_instance_def usage_instance_of_def Let_def group_by_def ex_ai_call_def usage_tokens_of_def token_row_of_def
      figure_def reported_def sum_of_def)

theorem usage_and_trend_agree_witness:
  "\<exists>i \<in> set (ud_instances (readUsage ex_usage_db [] (\<lambda>_. None) (js ''org'') 7200000)). ut_totalTokens (ui_tokens i) = Some 7 \<and>
     ui_instanceId i \<in> ti_instanceId ` set (tt_instances (readTokenTrend (\<lambda>_ _. 0) ex_usage_db (js ''org'') 7200000))"
proof -
  have i: "ex_usage_instance \<in> set (ud_instances (readUsage ex_usage_db [] (\<lambda>_. None) (js ''org'') 7200000))"
    by (simp add: ex_usage_page)
  have "four_digit_year (ai_createdAt c)" if "c \<in> set (aiCalls ex_usage_db)" for c
    using that ex_four_digits by (simp add: ex_usage_db_def ex_ai_call_def)
  from usage_and_trend_agree [OF ex_four_digits(1) this i, THEN conjunct1] ex_usage_tokens(2)
  have "ui_instanceId ex_usage_instance \<in> ti_instanceId ` set (tt_instances (readTokenTrend (\<lambda>_ _. 0) ex_usage_db (js ''org'') 7200000))"
    by blast
  with i ex_usage_tokens(1) show ?thesis by blast
qed

end
