(* ===== verification/EventStream.thy ===== *)
theory EventStream
  imports Messages InstanceRows Execute AgentTools Auth
begin

text \<open>
  The live channel of the dashboard (app/api/stream/route.ts): a change stream of the database, filtered by the session's
  organisation, turned into server-sent events. What the process lives through while a connection is open is a list of
  items: a change the server delivers, a heartbeat, the client leaving; each says whether its write reached the
  response. The change stream of the driver and the base64url JSON of a resume token are arguments.
\<close>

section \<open>Changes\<close>

text \<open>
  The full document of a change of one of the watched collections, a group with the names of its observed fields, or of any other
  collection with its organisation.
\<close>

datatype changed_doc =
    Group_doc group_doc "jstr list"
  | Message_doc message_doc
  | Send_doc send_row
  | Instance_doc instance_doc
  | Unwatched_doc jstr

record change =
  ch_operation :: jstr
  ch_document :: "changed_doc option"
  ch_previousSubject :: "jstr option"
  ch_updatedFields :: "jstr list option"
  ch_clusterTime :: "(int \<times> int) option"
  ch_token :: "json option"

text \<open>The \<open>$match\<close> of the pipeline: a watched collection, and a document of the organisation.\<close>

definition matches :: "jstr \<Rightarrow> change \<Rightarrow> bool" where
  "matches org c \<longleftrightarrow> (case ch_document c of
      Some (Group_doc g _) \<Rightarrow> gd_organizationId g = org
    | Some (Message_doc m) \<Rightarrow> ms_organizationId m = org
    | Some (Send_doc s) \<Rightarrow> sr_organizationId s = org
    | Some (Instance_doc i) \<Rightarrow> in_organizationId i = org
    | _ \<Rightarrow> False)"

section \<open>Support and tokens\<close>

text \<open>A BSON timestamp, by its two numbers.\<close>

definition asTimestamp :: "json option \<Rightarrow> (int \<times> int) option" where
  "asTimestamp v = (case v of
      Some (JObj ob) \<Rightarrow> (case (field ob ''t'', field ob ''i'') of (Some (JNum t), Some (JNum i)) \<Rightarrow> Some (t, i) | _ \<Rightarrow> None)
    | _ \<Rightarrow> None)"

record stream_support =
  ss_supported :: bool
  ss_startAt :: "(int \<times> int) option"

text \<open>The answer to \<open>hello\<close>, \<^const>\<open>None\<close> when the command fails.\<close>

definition changeStreamSupport :: "jobject option \<Rightarrow> stream_support" where
  "changeStreamSupport hello = (case hello of
      None \<Rightarrow> \<lparr>ss_supported = False, ss_startAt = None\<rparr>
    | Some h \<Rightarrow> \<lparr>ss_supported = ((\<exists>s. field h ''setName'' = Some (JStr s)) \<or> field h ''msg'' = Some (JStr (js ''isdbgrid''))),
        ss_startAt = asTimestamp (field h ''operationTime'')\<rparr>)"

definition cursorId :: "jstr \<Rightarrow> jstr" where
  "cursorId org = js ''sse:'' @ org"

text \<open>How often a stream serves and what it runs on: the base64url JSON of a token, the change stream per resume point and start.\<close>

datatype stream_item = Arrives change time bool bool | Heartbeat bool | Leaves

record stream_env =
  se_print :: "json \<Rightarrow> jstr"
  se_read :: "jstr \<Rightarrow> json option"
  se_watch :: "json option \<Rightarrow> (int \<times> int) option \<Rightarrow> stream_item list \<times> bool"

definition encodeResumeToken :: "stream_env \<Rightarrow> json option \<Rightarrow> jstr option" where
  "encodeResumeToken env token = (case token of
      Some (JObj ob) \<Rightarrow> Some (se_print env (JObj ob)) | Some (JArr xs) \<Rightarrow> Some (se_print env (JArr xs)) | _ \<Rightarrow> None)"

definition decodeResumeToken :: "stream_env \<Rightarrow> jstr option \<Rightarrow> json option" where
  "decodeResumeToken env v = (case v of
      Some (c # cs) \<Rightarrow> (case se_read env (c # cs) of Some (JObj ob) \<Rightarrow> Some (JObj ob) | _ \<Rightarrow> None)
    | _ \<Rightarrow> None)"

section \<open>Frames\<close>

definition isoStamp :: "time option \<Rightarrow> jstr option" where
  "isoStamp v = (case v of None \<Rightarrow> None
     | Some t \<Rightarrow> if valid_date t \<and> no_stamp_ms < t then Some (toISOString t) else None)"

definition group_changes :: "jstr list" where
  "group_changes = map js [''subject'', ''topic'', ''announce'', ''locked'', ''state'', ''participants'']"

definition group_change_by_path :: "(jstr \<times> jstr) list" where
  "group_change_by_path = map (\<lambda>(p, c). (js p, js c))
     [(''observed.subject'', ''subject''), (''observed.topic'', ''topic''), (''observed.isAnnounce'', ''announce''),
      (''observed.isLocked'', ''locked''), (''observed.state'', ''state''), (''observed.participantCount'', ''participants'')]"

definition changed_paths :: "change \<Rightarrow> jstr list \<Rightarrow> jstr list" where
  "changed_paths c keys = (if ch_operation c = js ''update''
     then (case ch_updatedFields c of None \<Rightarrow> [] | Some ks \<Rightarrow> ks)
     else map (\<lambda>k. js ''observed.'' @ k) keys)"

definition changes_of :: "change \<Rightarrow> jstr list \<Rightarrow> jstr list" where
  "changes_of c keys =
    (let changed = List.map_filter (map_of group_change_by_path) (changed_paths c keys)
     in filter (\<lambda>name. name \<in> set changed) group_changes)"

definition json_opt :: "jstr option \<Rightarrow> json" where
  "json_opt v = (case v of None \<Rightarrow> JNull | Some s \<Rightarrow> JStr s)"

definition group_state_name :: "group_state \<Rightarrow> jstr" where
  "group_state_name st = (case st of Gs_active \<Rightarrow> js ''active'' | Gs_left \<Rightarrow> js ''left'' | Gs_deleted \<Rightarrow> js ''deleted'' | Gs_suspended \<Rightarrow> js ''suspended'')"

definition json_members :: "(string \<times> json) list \<Rightarrow> json" where
  "json_members ms = JObj (map (\<lambda>(k, v). (js k, v)) ms)"

definition groupEvent :: "change \<Rightarrow> group_doc \<Rightarrow> jstr list \<Rightarrow> time \<Rightarrow> json" where
  "groupEvent c g keys now =
    (let ob = gd_observed g
     in json_members
        [(''type'', JStr (js ''group.updated'')), (''instanceId'', JStr (gd_instanceId g)), (''groupJid'', JStr (gd_groupJid g)),
         (''changes'', JArr (map JStr (changes_of c keys))),
         (''name'', JStr (or_blank (Option.bind ob ob_subject))),
         (''previousName'', json_opt (ch_previousSubject c)),
         (''nameSetAt'', json_opt (isoStamp (Option.bind ob ob_subjectUpdatedAt))),
         (''state'', JStr (group_state_name (case Option.bind ob ob_state of None \<Rightarrow> Gs_active | Some st \<Rightarrow> st))),
         (''occurredAt'', JStr (toISOString (case ch_clusterTime c of None \<Rightarrow> now | Some (t, i) \<Rightarrow> t * 1000)))])"

definition approval_name :: "approval_state \<Rightarrow> jstr" where
  "approval_name st = (case st of Ap_pending \<Rightarrow> js ''pending'' | Ap_approved \<Rightarrow> js ''approved'' | Ap_rejected \<Rightarrow> js ''rejected'')"

definition sendPatch :: "send_row \<Rightarrow> json" where
  "sendPatch s = json_members
     [(''id'', JStr (sr_oid s)), (''instanceId'', JStr (sr_instanceId s)), (''groupJid'', JStr (sr_groupJid s)),
      (''status'', JStr (status_name (sr_status s))), (''approval'', JStr (approval_name (ap_state (sr_approval s)))),
      (''dispatch'', JStr (or_blank (dp_errorClass (sr_dispatch s)))), (''updatedAt'', json_opt (isoStamp (Some (sr_updatedAt s))))]"

definition message_row_json :: "message_row \<Rightarrow> json" where
  "message_row_json r =
    (let m = mr_media r
     in json_members
        [(''waMessageId'', JStr (mr_waMessageId r)), (''instanceId'', JStr (mr_instanceId r)), (''groupJid'', JStr (mr_groupJid r)),
         (''senderJid'', JStr (mr_senderJid r)), (''pushName'', JStr (mr_pushName r)), (''fromMe'', JBool (mr_fromMe r)),
         (''timestamp'', json_opt (mr_timestamp r)), (''kind'', JStr (mr_kind r)), (''text'', JStr (mr_text r)),
         (''media'', json_members
            [(''status'', JStr (mw_status m)), (''declaredType'', json_opt (mw_declaredType m)), (''r2Key'', json_opt (mw_r2Key m)),
             (''mime'', json_opt (mw_mime m)), (''fileName'', json_opt (mw_fileName m)), (''reason'', json_opt (mw_reason m))])])"

definition instance_row_json :: "instance_row \<Rightarrow> json" where
  "instance_row_json r =
    (let sync = ir_groupSync r
     in json_members
        [(''id'', JStr (ir_id r)), (''label'', JStr (ir_label r)), (''status'', JStr (ir_status r)),
         (''groupSync'', json_members
            [(''groupsObserved'', JNum (int (is_groupsObserved sync))), (''groupsLeft'', JNum (int (is_groupsLeft sync))),
             (''lastSyncAt'', json_opt (is_lastSyncAt sync)), (''lastError'', json_opt (is_lastError sync))])])"

type_synonym stream_frame = "jstr \<times> json"

definition frameFor :: "change \<Rightarrow> time \<Rightarrow> stream_frame option" where
  "frameFor c now = (case ch_document c of
      Some (Group_doc g keys) \<Rightarrow> Some (js ''group.updated'', groupEvent c g keys now)
    | Some (Message_doc m) \<Rightarrow> Some (if ch_operation c = js ''insert'' then js ''message.created'' else js ''message.updated'',
        message_row_json (toMessageRow m))
    | Some (Send_doc s) \<Rightarrow> Some (js ''send.updated'', sendPatch s)
    | Some (Instance_doc i) \<Rightarrow> Some (js ''instance.updated'', instance_row_json (toInstanceRow i))
    | _ \<Rightarrow> None)"

definition serializeFrame :: "jstr option \<Rightarrow> stream_frame \<Rightarrow> jstr" where
  "serializeFrame ident frame =
    join [10] ((case ident of Some (c # cs) \<Rightarrow> [js ''id: '' @ c # cs] | _ \<Rightarrow> [])
      @ [js ''event: '' @ fst frame, js ''data: '' @ stringify (snd frame)]) @ [10, 10]"

section \<open>A connection\<close>

definition cursor_save_ms :: int where "cursor_save_ms = 1000"

record stream_state =
  st_out :: "jstr list"
  st_closed :: bool
  st_delivered :: bool
  st_pending :: "json option"
  st_savedAt :: time
  st_cursors :: "jstr \<Rightarrow> json option"

definition enqueue :: "jstr \<Rightarrow> bool \<Rightarrow> stream_state \<Rightarrow> stream_state" where
  "enqueue chunk ok s = (if ok then s\<lparr>st_out := st_out s @ [chunk]\<rparr> else s\<lparr>st_closed := True\<rparr>)"

definition saveStreamCursor :: "jstr \<Rightarrow> json \<Rightarrow> bool \<Rightarrow> stream_state \<Rightarrow> stream_state" where
  "saveStreamCursor org token ok s = (if ok then s\<lparr>st_cursors := (st_cursors s)(cursorId org := Some token)\<rparr> else s)"

text \<open>One change the stream delivers, while the connection is open.\<close>

definition take_change :: "stream_env \<Rightarrow> jstr \<Rightarrow> change \<Rightarrow> time \<Rightarrow> bool \<Rightarrow> bool \<Rightarrow> stream_state \<Rightarrow> stream_state" where
  "take_change env org c now ok saves s =
    (let s1 = s\<lparr>st_delivered := True\<rparr>;
         s2 = (case ch_token c of None \<Rightarrow> s1 | Some t \<Rightarrow> s1\<lparr>st_pending := Some t\<rparr>);
         s3 = (case frameFor c now of None \<Rightarrow> s2 | Some f \<Rightarrow> enqueue (serializeFrame (encodeResumeToken env (ch_token c)) f) ok s2)
     in case st_pending s3 of
         Some t \<Rightarrow> if cursor_save_ms \<le> now - st_savedAt s3 then saveStreamCursor org t saves (s3\<lparr>st_savedAt := now\<rparr>) else s3
       | None \<Rightarrow> s3)"

text \<open>The loop over one change stream: it is left at the first change that arrives after the connection has closed.\<close>

fun consume :: "stream_env \<Rightarrow> jstr \<Rightarrow> stream_item list \<Rightarrow> stream_state \<Rightarrow> stream_state" where
  "consume env org [] s = s"
| "consume env org (Leaves # rest) s = consume env org rest (s\<lparr>st_closed := True\<rparr>)"
| "consume env org (Heartbeat ok # rest) s =
    consume env org rest (if st_closed s then s else enqueue (js '': ping'' @ [10, 10]) ok s)"
| "consume env org (Arrives c now ok saves # rest) s =
    (if \<not> matches org c then consume env org rest s
     else if st_closed s then s
     else consume env org rest (take_change env org c now ok saves s))"

text \<open>
  The two attempts: a stream that breaks before anything was delivered, from a resume point, is opened once more from the start. The items of the
  attempts made come with the final state.
\<close>

definition run_attempts :: "stream_env \<Rightarrow> jstr \<Rightarrow> json option \<Rightarrow> (int \<times> int) option \<Rightarrow> stream_state \<Rightarrow> stream_item list \<times> stream_state" where
  "run_attempts env org resume startAt s =
    (if st_closed s then ([], s)
     else let (items, broke) = se_watch env resume (if resume = None then startAt else None);
              s1 = consume env org items s
          in if broke \<and> \<not> st_closed s1 \<and> resume \<noteq> None \<and> \<not> st_delivered s1
             then let (more, _) = se_watch env None startAt in (items @ more, consume env org more s1)
             else (items, s1))"

definition opened :: "(jstr \<Rightarrow> json option) \<Rightarrow> bool \<Rightarrow> stream_state" where
  "opened cursors ok = enqueue (js '': open'' @ [10, 10]) ok
     \<lparr>st_out = [], st_closed = False, st_delivered = False, st_pending = None, st_savedAt = 0, st_cursors = cursors\<rparr>"

definition serve_stream ::
  "stream_env \<Rightarrow> jstr \<Rightarrow> json option \<Rightarrow> (int \<times> int) option \<Rightarrow> (jstr \<Rightarrow> json option) \<Rightarrow> bool \<Rightarrow> bool \<Rightarrow> stream_item list \<times> stream_state" where
  "serve_stream env org resume startAt cursors ok saves =
    (let (items, s) = run_attempts env org resume startAt (opened cursors ok)
     in (items, case st_pending s of None \<Rightarrow> s | Some t \<Rightarrow> saveStreamCursor org t saves s))"

section \<open>The route\<close>

text \<open>
  A request: what its headers and its query name as the token, the session, whether the database answers and whether the stored cursor can be
  read.
\<close>

record stream_request =
  sq_cookie :: "jstr option"
  sq_now :: time
  sq_lastEventId :: "jstr option"
  sq_resume :: "jstr option"
  sq_connected :: bool
  sq_hello :: "jobject option"
  sq_cursor_reads :: bool
  sq_opens :: bool
  sq_last_save :: bool

datatype stream_answer = Stream_refused nat jstr | Stream_thrown exn | Streaming "stream_item list" stream_state

definition streamUnavailable :: stream_answer where
  "streamUnavailable = Stream_refused 503 (js ''stream_unavailable'')"

definition getStream ::
  "auth_environment \<Rightarrow> auth_crypto \<Rightarrow> stream_env \<Rightarrow> (jstr \<Rightarrow> json option) \<Rightarrow> stream_request \<Rightarrow> stream_answer" where
  "getStream auth crypto env cursors req = (case currentOwner auth crypto (sq_cookie req) (sq_now req) of
      Inl e \<Rightarrow> Stream_thrown e
    | Inr None \<Rightarrow> Stream_refused 401 (js ''unauthorized'')
    | Inr (Some owner) \<Rightarrow>
        (let org = ow_organizationId owner; support = changeStreamSupport (sq_hello req)
         in if \<not> sq_connected req \<or> \<not> ss_supported support then streamUnavailable
            else let presented = (case sq_lastEventId req of Some v \<Rightarrow> Some v | None \<Rightarrow> sq_resume req);
                     token = decodeResumeToken env presented
                 in if token = None \<and> \<not> sq_cursor_reads req then streamUnavailable
                    else let resume = (case token of Some t \<Rightarrow> Some t | None \<Rightarrow> cursors (cursorId org));
                             (items, s) = serve_stream env org resume (ss_startAt support) cursors (sq_opens req) (sq_last_save req)
                         in Streaming items s))"

end
