(* ===== verification/EventStreamProps.thy ===== *)
theory EventStreamProps
  imports EventStream
begin

text \<open>
  The live channel end to end: what an event-source client reads out of the bytes of a connection, against the changes the
  session's organisation made.
\<close>

section \<open>JSON text is one line\<close>

definition line_unit :: "nat \<Rightarrow> bool" where
  "line_unit c \<longleftrightarrow> c = 10 \<or> c = 13"

lemma json_string_one_line: "c \<in> set (json_string s) \<Longrightarrow> \<not> line_unit c"
proof -
  have hex: "\<not> line_unit (hex_lower n)" for n by (simp add: hex_lower_def line_unit_def)
  have "\<not> line_unit d" if "p \<in> set (code_points s)" "d \<in> set (json_point p)" for p d
    using code_points_shape [OF that(1)] that(2) hex
    by (auto simp: json_point_def u_escape_def line_unit_def is_high_surrogate_def is_low_surrogate_def split: if_splits)
  then show "c \<in> set (json_string s) \<Longrightarrow> \<not> line_unit c" by (auto simp: json_string_def line_unit_def)
qed

lemma dec_digits: "c \<in> set (dec n) \<Longrightarrow> 48 \<le> c"
  by (induction n rule: dec.induct) (subst (asm) (2) dec.simps, auto split: if_splits)

lemma join_units: "c \<in> set (join sep parts) \<Longrightarrow> c \<in> set sep \<or> (\<exists>p \<in> set parts. c \<in> set p)"
  by (induction sep parts rule: join.induct) auto

lemma stringify_one_line: "c \<in> set (stringify v) \<Longrightarrow> \<not> line_unit c"
proof (induction v arbitrary: c rule: stringify.induct)
  case (3 n)
  then show ?case using dec_digits by (force simp: dec_int_def line_unit_def split: if_splits)
next
  case (4 s)
  then show ?case using json_string_one_line by simp
next
  case (5 vs)
  have "c \<in> set (js ''['') \<or> c \<in> set (js '','') \<or> (\<exists>v \<in> set vs. c \<in> set (stringify v)) \<or> c \<in> set (js '']'')"
    using 5(2) by (auto dest!: join_units)
  then show ?case using 5(1) by (auto simp: js_def line_unit_def)
next
  case (6 ms)
  have cases6: "c \<in> set (js ''{'') \<or> c \<in> set (js '','') \<or> c \<in> set (js ''}'') \<or> c \<in> set (js '':'') \<or>
      (\<exists>m \<in> set ms. c \<in> set (json_string (fst m)) \<or> c \<in> set (stringify (snd m)))"
    using 6(2) by (auto dest!: join_units) force+
  have "\<not> line_unit c" if "m \<in> set ms" "c \<in> set (stringify (snd m))" for m
    by (rule 6(1) [of m "fst m" "snd m"]) (use that in auto)
  moreover have "\<not> line_unit c" if "c \<in> set (js ''{'') \<or> c \<in> set (js '','') \<or> c \<in> set (js ''}'') \<or> c \<in> set (js '':'')"
    using that by (auto simp: js_def line_unit_def)
  ultimately show ?case using cases6 json_string_one_line by blast
qed (auto simp: js_def line_unit_def split: if_splits)

section \<open>The client\<close>

text \<open>
  How an event source reads a stream (the WHATWG algorithm): CR LF and CR end a line as LF does; a blank line dispatches the event gathered
  so far; a field is the text before the first colon, its value what follows, less one space.
\<close>

fun unify_newlines :: "jstr \<Rightarrow> jstr" where
  "unify_newlines [] = []"
| "unify_newlines [c] = [if c = 13 then 10 else c]"
| "unify_newlines (c # e # cs) =
    (if c = 13 then (if e = 10 then 10 # unify_newlines cs else 10 # unify_newlines (e # cs)) else c # unify_newlines (e # cs))"

definition sse_field :: "jstr \<Rightarrow> jstr \<times> jstr" where
  "sse_field line = (let v = drop 1 (dropWhile (\<lambda>c. c \<noteq> 58) line)
    in (takeWhile (\<lambda>c. c \<noteq> 58) line, if take 1 v = [32] then drop 1 v else v))"

fun sse_fold :: "jstr list \<Rightarrow> jstr \<Rightarrow> jstr \<Rightarrow> jstr list \<Rightarrow> (jstr \<times> jstr \<times> jstr) list" where
  "sse_fold [] ident ty ds = []"
| "sse_fold (line # rest) ident ty ds =
    (if line = [] then
       (if ds = [] then sse_fold rest ident [] []
        else (ident, if ty = [] then js ''message'' else ty, join [10] ds) # sse_fold rest ident [] [])
     else if fst (sse_field line) = js ''event'' then sse_fold rest ident (snd (sse_field line)) ds
     else if fst (sse_field line) = js ''data'' then sse_fold rest ident ty (ds @ [snd (sse_field line)])
     else if fst (sse_field line) = js ''id'' then
       sse_fold rest (if 0 \<in> set (snd (sse_field line)) then ident else snd (sse_field line)) ty ds
     else sse_fold rest ident ty ds)"

definition sse_lines :: "jstr \<Rightarrow> jstr list" where
  "sse_lines s = butlast (split_on 10 s)"

definition client_reads :: "jstr \<Rightarrow> (jstr \<times> jstr \<times> jstr) list" where
  "client_reads s = sse_fold (sse_lines (unify_newlines s)) [] [] []"

lemma unify_newlines_id: "13 \<notin> set s \<Longrightarrow> unify_newlines s = s"
  by (induction s rule: unify_newlines.induct) auto

lemma sse_lines_chunk: "sse_lines (xs @ [10, 10] @ rest) = split_on 10 xs @ [[]] @ sse_lines rest"
  using split_on_append_sep [of 10 xs "10 # rest"] split_on_append_sep [of 10 "[]" rest]
  by (simp add: sse_lines_def butlast_append)

section \<open>What a chunk says\<close>

definition base64url_unit :: "nat \<Rightarrow> bool" where
  "base64url_unit c \<longleftrightarrow> is_digit c \<or> is_upper c \<or> is_lower c \<or> c = 45 \<or> c = 95"

definition prints_tokens :: "stream_env \<Rightarrow> bool" where
  "prints_tokens env \<longleftrightarrow> (\<forall>v. se_print env v \<noteq> [] \<and> (\<forall>c \<in> set (se_print env v). base64url_unit c))"

definition next_id :: "stream_env \<Rightarrow> jstr \<Rightarrow> change \<Rightarrow> jstr" where
  "next_id env ident c = (case encodeResumeToken env (ch_token c) of None \<Rightarrow> ident | Some t \<Rightarrow> t)"

text \<open>The events a sequence of changes is to a client, each with the last event id at its point.\<close>

fun seen :: "stream_env \<Rightarrow> jstr \<Rightarrow> (change \<times> time) list \<Rightarrow> (jstr \<times> jstr \<times> jstr) list" where
  "seen env ident [] = []"
| "seen env ident ((c, now) # cs) = (case frameFor c now of
      None \<Rightarrow> seen env ident cs
    | Some f \<Rightarrow> (next_id env ident c, fst f, stringify (snd f)) # seen env (next_id env ident c) cs)"

fun last_id :: "stream_env \<Rightarrow> jstr \<Rightarrow> (change \<times> time) list \<Rightarrow> jstr" where
  "last_id env ident [] = ident"
| "last_id env ident ((c, now) # cs) = last_id env (if frameFor c now = None then ident else next_id env ident c) cs"

lemma seen_append: "seen env ident (as @ bs) = seen env ident as @ seen env (last_id env ident as) bs"
  by (induction env ident as rule: seen.induct) (auto split: option.splits)

lemma last_id_append: "last_id env ident (as @ bs) = last_id env (last_id env ident as) bs"
  by (induction env ident as rule: last_id.induct) auto

definition says :: "stream_env \<Rightarrow> jstr list \<Rightarrow> (change \<times> time) list \<Rightarrow> bool" where
  "says env chunks cs \<longleftrightarrow> (\<forall>c \<in> set (concat chunks). c \<noteq> 13) \<and>
     (\<forall>ident rest. sse_fold (sse_lines (concat chunks @ rest)) ident [] [] =
        seen env ident cs @ sse_fold (sse_lines rest) (last_id env ident cs) [] [])"

lemma says_nothing: "says env [] []"
  by (simp add: says_def)

lemma says_append: "says env as cs \<Longrightarrow> says env bs es \<Longrightarrow> says env (as @ bs) (cs @ es)"
  by (auto simp: says_def seen_append last_id_append)

lemma comment_field: "fst (sse_field (58 # s)) = []"
  by (simp add: sse_field_def Let_def)

lemma says_comment: "10 \<notin> set s \<Longrightarrow> 13 \<notin> set s \<Longrightarrow> says env [58 # s @ [10, 10]] []"
proof -
  assume a: "10 \<notin> set s" "13 \<notin> set s"
  have "sse_lines (58 # s @ [10, 10] @ rest) = [58 # s, []] @ sse_lines rest" for rest
    using sse_lines_chunk [of "58 # s" rest] a(1) by (simp add: split_on_no_sep)
  with a(2) show ?thesis by (auto simp: says_def comment_field)
qed

lemma named_field: "58 \<notin> set name \<Longrightarrow> sse_field (name @ 58 # 32 # v) = (name, v)"
proof -
  assume "58 \<notin> set name"
  then have "takeWhile (\<lambda>c. c \<noteq> 58) (name @ 58 # 32 # v) = name" "dropWhile (\<lambda>c. c \<noteq> 58) (name @ 58 # 32 # v) = 58 # 32 # v"
    by (induction name) auto
  then show ?thesis by (simp add: sse_field_def)
qed

lemma token_units: "prints_tokens env \<Longrightarrow> encodeResumeToken env t = Some tok \<Longrightarrow> tok \<noteq> [] \<and> (\<forall>c \<in> set tok. base64url_unit c)"
  by (auto simp: encodeResumeToken_def prints_tokens_def split: option.splits json.splits)

lemma frame_name: "frameFor c now = Some f \<Longrightarrow> (\<forall>u \<in> set (fst f). u \<noteq> 10 \<and> u \<noteq> 13) \<and> fst f \<noteq> []"
  by (auto simp: frameFor_def js_def split: option.splits changed_doc.splits if_splits)

lemma says_frame:
  assumes "prints_tokens env" and f: "frameFor c now = Some f"
  shows "says env [serializeFrame (encodeResumeToken env (ch_token c)) f] [(c, now)]"
proof -
  let ?ev = "js ''event: '' @ fst f" and ?da = "js ''data: '' @ stringify (snd f)"
  define ids where "ids = (case encodeResumeToken env (ch_token c) of Some t \<Rightarrow> [js ''id: '' @ t] | None \<Rightarrow> [])"
  have tok: "t \<noteq> [] \<and> (\<forall>c \<in> set t. c \<noteq> 10 \<and> c \<noteq> 13 \<and> c \<noteq> 0)" if "encodeResumeToken env (ch_token c) = Some t" for t
    using token_units [OF assms(1) that] by (auto simp: base64url_unit_def is_digit_def is_upper_def is_lower_def)
  have chunk: "serializeFrame (encodeResumeToken env (ch_token c)) f = join [10] (ids @ [?ev, ?da]) @ [10, 10]"
    using tok by (auto simp: serializeFrame_def ids_def split: option.splits list.splits)
  have units: "\<forall>l \<in> set (ids @ [?ev, ?da]). \<forall>u \<in> set l. u \<noteq> 10 \<and> u \<noteq> 13"
    using tok frame_name [OF f] stringify_one_line [of _ "snd f"]
    by (cases "encodeResumeToken env (ch_token c)") (auto simp: ids_def js_def line_unit_def)
  have "list_all (\<lambda>l. 10 \<notin> set l) (ids @ [?ev, ?da])" using units by (auto simp: list_all_iff)
  then have lines: "sse_lines (join [10] (ids @ [?ev, ?da]) @ [10, 10] @ rest) = (ids @ [?ev, ?da]) @ [[]] @ sse_lines rest" for rest
    by (simp only: sse_lines_chunk) (simp add: split_on_join)
  have fields: "sse_field ?ev = (js ''event'', fst f)" "sse_field ?da = (js ''data'', stringify (snd f))"
    "sse_field (js ''id: '' @ t) = (js ''id'', t)" for t
    using named_field [of "js ''event''" "fst f"] named_field [of "js ''data''" "stringify (snd f)"] named_field [of "js ''id''" t]
    by (simp_all add: js_def)
  have nonempty: "?ev \<noteq> []" "?da \<noteq> []" "js ''id: '' @ t \<noteq> []" for t by simp_all
  have "sse_fold ((ids @ [?ev, ?da]) @ [[]] @ ls) ident [] [] = seen env ident [(c, now)] @ sse_fold ls (last_id env ident [(c, now)]) [] []"
    for ident ls
    using f tok frame_name [OF f] nonempty
    by (cases "encodeResumeToken env (ch_token c)") (auto simp: ids_def fields next_id_def simp del: append_is_Nil_conv)
  moreover have "\<forall>u \<in> set (join [10] (ids @ [?ev, ?da]) @ [10, 10]). u \<noteq> 13"
  proof
    fix u assume u: "u \<in> set (join [10] (ids @ [?ev, ?da]) @ [10, 10])"
    then have "u = 10 \<or> (\<exists>l \<in> set (ids @ [?ev, ?da]). u \<in> set l)" using join_units [of u "[10]" "ids @ [?ev, ?da]"] by auto
    with units show "u \<noteq> 13" by fastforce
  qed
  ultimately show ?thesis using lines by (simp add: says_def chunk)
qed

section \<open>The connection\<close>

text \<open>
  Whose row a change wrote, for the collections the dashboard follows; and the organisation's changes among the items of a connection, with
  the instant each arrived.
\<close>

definition owner_of_change :: "change \<Rightarrow> jstr option" where
  "owner_of_change c = (case ch_document c of
      Some (Group_doc g _) \<Rightarrow> Some (gd_organizationId g) | Some (Message_doc m) \<Rightarrow> Some (ms_organizationId m)
    | Some (Send_doc s) \<Rightarrow> Some (sr_organizationId s) | Some (Instance_doc i) \<Rightarrow> Some (in_organizationId i) | _ \<Rightarrow> None)"

lemma matches_owner: "matches org c \<longleftrightarrow> owner_of_change c = Some org"
  by (auto simp: matches_def owner_of_change_def split: option.splits changed_doc.splits)

definition own :: "jstr \<Rightarrow> stream_item list \<Rightarrow> (change \<times> time) list" where
  "own org items = List.map_filter (\<lambda>i. case i of Arrives c now _ _ \<Rightarrow> if owner_of_change c = Some org then Some (c, now) else None | _ \<Rightarrow> None) items"

lemma own_simps [simp]: "own org [] = []" "own org (Leaves # is) = own org is" "own org (Heartbeat ok # is) = own org is"
  "own org (Arrives c now ok sv # is) = (if matches org c then (c, now) # own org is else own org is)"
  "own org (is @ js') = own org is @ own org js'"
  by (simp_all add: own_def List.map_filter_def matches_owner)

lemma matches_frame: "matches org c \<Longrightarrow> \<exists>f. frameFor c now = Some f"
  by (auto simp: matches_def frameFor_def split: option.splits changed_doc.splits)

lemma enqueue_simps [simp]: "st_out (enqueue ch ok s) = (if ok then st_out s @ [ch] else st_out s)"
  "st_closed (enqueue ch ok s) = (st_closed s \<or> \<not> ok)" "st_cursors (enqueue ch ok s) = st_cursors s"
  "st_pending (enqueue ch ok s) = st_pending s" "st_savedAt (enqueue ch ok s) = st_savedAt s"
  by (auto simp: enqueue_def)

lemma save_simps [simp]: "st_out (saveStreamCursor org t ok s) = st_out s" "st_closed (saveStreamCursor org t ok s) = st_closed s"
  "k \<noteq> cursorId org \<Longrightarrow> st_cursors (saveStreamCursor org t ok s) k = st_cursors s k"
  by (auto simp: saveStreamCursor_def)

lemma take_change_frame:
  assumes "frameFor c now = Some f"
  shows "st_out (take_change env org c now ok sv s) = (if ok then st_out s @ [serializeFrame (encodeResumeToken env (ch_token c)) f] else st_out s)"
    and "st_closed (take_change env org c now ok sv s) = (st_closed s \<or> \<not> ok)"
    and "k \<noteq> cursorId org \<Longrightarrow> st_cursors (take_change env org c now ok sv s) k = st_cursors s k"
  using assms by (auto simp: take_change_def Let_def split: option.splits)

lemma closed_stays:
  "st_closed s \<Longrightarrow> st_out (consume env org items s) = st_out s \<and> st_closed (consume env org items s)"
  by (induction env org items s rule: consume.induct) auto

lemma other_cursors: "k \<noteq> cursorId org \<Longrightarrow> st_cursors (consume env org items s) k = st_cursors s k"
proof (induction env org items s rule: consume.induct)
  case (4 env org c now ok sv rest s)
  show ?case
  proof (cases "matches org c")
    case True
    then obtain f where f: "frameFor c now = Some f" using matches_frame by blast
    from 4 True take_change_frame(3) [where env = env and ok = ok and sv = sv and s = s, OF f 4(3)] show ?thesis by simp
  qed (use 4 in simp)
qed auto

lemma consume_says:
  assumes "prints_tokens env"
  shows "\<exists>chunks n. st_out (consume env org items s) = st_out s @ chunks \<and> n \<le> length (own org items) \<and>
    says env chunks (take n (own org items)) \<and> (\<not> st_closed (consume env org items s) \<longrightarrow> n = length (own org items))"
proof (induction items arbitrary: s)
  case Nil
  show ?case using says_nothing by auto
next
  case (Cons item items)
  show ?case
  proof (cases item)
    case Leaves
    then have "st_out (consume env org (item # items) s) = st_out s \<and> st_closed (consume env org (item # items) s)"
      using closed_stays [of "s\<lparr>st_closed := True\<rparr>"] by simp
    then show ?thesis using says_nothing by (intro exI [of _ "[]"] exI [of _ 0]) simp
  next
    case (Heartbeat ok)
    show ?thesis
    proof (cases "st_closed s \<or> \<not> ok")
      case True
      then have "st_closed (if st_closed s then s else enqueue (js '': ping'' @ [10, 10]) ok s)"
        "st_out (if st_closed s then s else enqueue (js '': ping'' @ [10, 10]) ok s) = st_out s" by auto
      with Heartbeat closed_stays show ?thesis using says_nothing by (intro exI [of _ "[]"] exI [of _ 0]) simp
    next
      case False
      let ?ping = "js '': ping'' @ [10, 10]"
      from Cons.IH [of "enqueue ?ping ok s"] obtain chunks n where
        IH: "st_out (consume env org items (enqueue ?ping ok s)) = st_out (enqueue ?ping ok s) @ chunks" "n \<le> length (own org items)"
          "says env chunks (take n (own org items))" "\<not> st_closed (consume env org items (enqueue ?ping ok s)) \<longrightarrow> n = length (own org items)"
        by blast
      have "says env [?ping] []" using says_comment [of "js '' ping''" env] by (simp add: js_def)
      from says_append [OF this IH(3)] have "says env (?ping # chunks) (take n (own org items))" by simp
      with IH False Heartbeat show ?thesis by (intro exI [of _ "?ping # chunks"] exI [of _ n]) simp
    qed
  next
    case (Arrives c now ok sv)
    show ?thesis
    proof (cases "matches org c")
      case False
      with Arrives Cons.IH show ?thesis by simp
    next
      case True
      then obtain f where f: "frameFor c now = Some f" using matches_frame by blast
      show ?thesis
      proof (cases "st_closed s \<or> \<not> ok")
        case closing: True
        then have "st_out (consume env org (item # items) s) = st_out s \<and> st_closed (consume env org (item # items) s)"
          using True Arrives closed_stays [of "take_change env org c now ok sv s" env org items]
            take_change_frame(1,2) [where env = env and org = org and ok = ok and sv = sv and s = s, OF f]
          by auto
        then show ?thesis using says_nothing by (intro exI [of _ "[]"] exI [of _ 0]) simp
      next
        case False
        let ?s = "take_change env org c now ok sv s" and ?chunk = "serializeFrame (encodeResumeToken env (ch_token c)) f"
        have out: "st_out ?s = st_out s @ [?chunk]" using take_change_frame(1) [where env = env and org = org and ok = ok and sv = sv and s = s, OF f] False by simp
        from Cons.IH [of ?s] obtain chunks n where
          IH: "st_out (consume env org items ?s) = st_out ?s @ chunks" "n \<le> length (own org items)"
            "says env chunks (take n (own org items))" "\<not> st_closed (consume env org items ?s) \<longrightarrow> n = length (own org items)" by blast
        from says_append [OF says_frame [OF assms f] IH(3)] have "says env (?chunk # chunks) (take (Suc n) (own org (item # items)))"
          using True Arrives by simp
        with IH out True False Arrives show ?thesis by (intro exI [of _ "?chunk # chunks"] exI [of _ "Suc n"]) simp
      qed
    qed
  qed
qed

lemma attempts_say:
  assumes "prints_tokens env" and "run_attempts env org resume startAt s = (items, s')"
  shows "\<exists>chunks n. st_out s' = st_out s @ chunks \<and> n \<le> length (own org items) \<and> says env chunks (take n (own org items)) \<and>
    (\<not> st_closed s' \<longrightarrow> n = length (own org items))"
proof (cases "st_closed s")
  case True
  with assms(2) show ?thesis using says_nothing by (intro exI [of _ "[]"] exI [of _ 0]) (auto simp: run_attempts_def)
next
  case open_: False
  obtain items1 broke where w: "se_watch env resume (if resume = None then startAt else None) = (items1, broke)" by fastforce
  let ?s1 = "consume env org items1 s"
  from consume_says [OF assms(1), of org items1 s] obtain chunks n where
    one: "st_out ?s1 = st_out s @ chunks" "n \<le> length (own org items1)" "says env chunks (take n (own org items1))"
      "\<not> st_closed ?s1 \<longrightarrow> n = length (own org items1)" by blast
  show ?thesis
  proof (cases "broke \<and> \<not> st_closed ?s1 \<and> resume \<noteq> None \<and> \<not> st_delivered ?s1")
    case True
    obtain items2 broke2 where w2: "se_watch env None startAt = (items2, broke2)" by fastforce
    from assms(2) w w2 True open_ have r: "items = items1 @ items2" "s' = consume env org items2 ?s1"
      by (auto simp: run_attempts_def Let_def split: if_splits)
    from consume_says [OF assms(1), of org items2 ?s1] obtain chunks2 n2 where
      two: "st_out s' = st_out ?s1 @ chunks2" "n2 \<le> length (own org items2)" "says env chunks2 (take n2 (own org items2))"
        "\<not> st_closed s' \<longrightarrow> n2 = length (own org items2)" unfolding r by blast
    have "n = length (own org items1)" using one(4) True by blast
    then have "says env (chunks @ chunks2) (take (n + n2) (own org items))"
      using says_append [OF one(3) two(3)] by (simp add: r)
    with one two \<open>n = _\<close> show ?thesis by (intro exI [of _ "chunks @ chunks2"] exI [of _ "n + n2"]) (simp add: r)
  next
    case False
    with assms(2) w open_ have "items = items1" "s' = ?s1" by (auto simp: run_attempts_def Let_def)
    with one show ?thesis by blast
  qed
qed

lemma attempts_cursors: "run_attempts env org resume startAt s = (items, s') \<Longrightarrow> k \<noteq> cursorId org \<Longrightarrow> st_cursors s' k = st_cursors s k"
  by (auto simp: run_attempts_def Let_def other_cursors split: if_splits prod.splits)

text \<open>
  C36: What a client reads of a connection is, in order and each once, the organisation's own changes and nothing else: from the bytes
  written, heartbeats and all, an event source gathers exactly the frames of an initial stretch of those changes, with their names, their
  data and their resume tokens, and of all of them as long as the connection stays open. And no other organisation's
  stored position is touched. Which organisation a connection serves is the session's, read before it is opened (\<open>getStream\<close>).
\<close>

theorem stream_shows_own_changes:
  assumes "prints_tokens env" and "serve_stream env org resume startAt cursors ok saves = (items, s)"
  shows "(\<exists>n \<le> length (own org items). client_reads (concat (st_out s)) = seen env [] (take n (own org items)) \<and>
      (\<not> st_closed s \<longrightarrow> n = length (own org items))) \<and>
    (\<forall>k. k \<noteq> cursorId org \<longrightarrow> st_cursors s k = cursors k)"
proof
  obtain s' where run: "run_attempts env org resume startAt (opened cursors ok) = (items, s')"
    and s: "s = (case st_pending s' of None \<Rightarrow> s' | Some t \<Rightarrow> saveStreamCursor org t saves s')"
    using assms(2) by (auto simp: serve_stream_def split: prod.splits)
  from attempts_say [OF assms(1) run] obtain chunks n where
    c: "st_out s' = st_out (opened cursors ok) @ chunks" "n \<le> length (own org items)" "says env chunks (take n (own org items))"
      "\<not> st_closed s' \<longrightarrow> n = length (own org items)" by blast
  have "says env (st_out (opened cursors ok)) []"
    using says_comment [of "js '' open''" env] says_nothing by (simp add: opened_def js_def)
  from says_append [OF this c(3)] have all: "says env (st_out s') (take n (own org items))" using c(1) by simp
  have "sse_lines [] = []" by (simp add: sse_lines_def)
  then have "client_reads (concat (st_out s')) = seen env [] (take n (own org items))"
    using all unfolding says_def client_reads_def by (metis append_Nil2 sse_fold.simps(1) unify_newlines_id)
  moreover have "st_out s = st_out s'" "st_closed s = st_closed s'" by (simp_all add: s split: option.splits)
  ultimately show "\<exists>n \<le> length (own org items). client_reads (concat (st_out s)) = seen env [] (take n (own org items)) \<and>
      (\<not> st_closed s \<longrightarrow> n = length (own org items))"
    using c(2,4) by auto
  have "st_cursors s' k = cursors k" if "k \<noteq> cursorId org" for k
    using attempts_cursors [OF run that] by (simp add: opened_def)
  then show "\<forall>k. k \<noteq> cursorId org \<longrightarrow> st_cursors s k = cursors k" by (auto simp: s split: option.splits)
qed

definition ex_change :: "jstr \<Rightarrow> change" where
  "ex_change org = \<lparr>ch_operation = js ''update'', ch_document = Some (Group_doc \<lparr>gd_organizationId = org, gd_instanceId = js ''i1'',
     gd_groupJid = js ''g'', gd_observed = None, gd_config = None, gd_memoryReadFence = 0\<rparr> []), ch_previousSubject = None,
     ch_updatedFields = Some [js ''observed.subject''], ch_clusterTime = None, ch_token = Some (JObj [])\<rparr>"

definition ex_stream :: "bool \<Rightarrow> stream_env" where
  "ex_stream reaches = \<lparr>se_print = (\<lambda>_. js ''tok''), se_read = (\<lambda>_. None),
     se_watch = (\<lambda>_ _. ([Arrives (ex_change (js ''other'')) 5 True True, Heartbeat True, Arrives (ex_change (js ''org'')) 6 reaches True], False))\<rparr>"

lemma ex_frame: "\<exists>f. frameFor (ex_change org) now = Some f"
  by (simp add: ex_change_def frameFor_def)

lemma ex_matches: "matches org (ex_change org') \<longleftrightarrow> org = org'"
  by (auto simp: ex_change_def matches_def)

lemma ex_serve: "fst (serve_stream (ex_stream r) (js ''org'') None None (\<lambda>_. None) True True) =
    [Arrives (ex_change (js ''other'')) 5 True True, Heartbeat True, Arrives (ex_change (js ''org'')) 6 r True]"
  "st_closed (snd (serve_stream (ex_stream r) (js ''org'') None None (\<lambda>_. None) True True)) \<longleftrightarrow> \<not> r"
proof -
  obtain f where "frameFor (ex_change (js ''org'')) 6 = Some f" using ex_frame by blast
  then show "fst (serve_stream (ex_stream r) (js ''org'') None None (\<lambda>_. None) True True) =
    [Arrives (ex_change (js ''other'')) 5 True True, Heartbeat True, Arrives (ex_change (js ''org'')) 6 r True]"
   "st_closed (snd (serve_stream (ex_stream r) (js ''org'') None None (\<lambda>_. None) True True)) \<longleftrightarrow> \<not> r"
    by (simp_all add: serve_stream_def run_attempts_def ex_stream_def opened_def Let_def ex_matches take_change_frame split: option.splits)
qed

theorem stream_shows_own_changes_witness:
  "client_reads (concat (st_out (snd (serve_stream (ex_stream True) (js ''org'') None None (\<lambda>_. None) True True)))) =
     seen (ex_stream True) [] [(ex_change (js ''org''), 6)]"
proof -
  have tokens: "prints_tokens (ex_stream True)"
    by (simp add: prints_tokens_def ex_stream_def js_def base64url_unit_def is_lower_def)
  let ?run = "serve_stream (ex_stream True) (js ''org'') None None (\<lambda>_. None) True True"
  have "own (js ''org'') (fst ?run) = [(ex_change (js ''org''), 6)]" by (simp only: ex_serve(1)) (simp add: ex_matches)
  with stream_shows_own_changes [OF tokens, of "js ''org''" None None "\<lambda>_. None" True True "fst ?run" "snd ?run"] ex_serve(2) [of True]
  show ?thesis by (auto simp only: prod.collapse list.size take_Suc_Cons simp_thms) (simp add: take_all)
qed

text \<open>The stored position passes a change whose frame never reached the response.\<close>

lemma cursor_passes_undelivered:
  "own (js ''org'') (fst (serve_stream (ex_stream False) (js ''org'') None None (\<lambda>_. None) True True)) = [(ex_change (js ''org''), 6)]"
  "st_out (snd (serve_stream (ex_stream False) (js ''org'') None None (\<lambda>_. None) True True)) = [js '': open'' @ [10, 10], js '': ping'' @ [10, 10]]"
  "st_cursors (snd (serve_stream (ex_stream False) (js ''org'') None None (\<lambda>_. None) True True)) (cursorId (js ''org'')) = Some (JObj [])"
proof -
  show "own (js ''org'') (fst (serve_stream (ex_stream False) (js ''org'') None None (\<lambda>_. None) True True)) = [(ex_change (js ''org''), 6)]"
    by (simp only: ex_serve(1)) (simp add: ex_matches)
  obtain f where f: "frameFor (ex_change (js ''org'')) 6 = Some f" using ex_frame by blast
  have t: "ch_token (ex_change (js ''org'')) = Some (JObj [])" by (simp add: ex_change_def)
  show "st_out (snd (serve_stream (ex_stream False) (js ''org'') None None (\<lambda>_. None) True True)) = [js '': open'' @ [10, 10], js '': ping'' @ [10, 10]]"
    "st_cursors (snd (serve_stream (ex_stream False) (js ''org'') None None (\<lambda>_. None) True True)) (cursorId (js ''org'')) = Some (JObj [])"
    using f t by (simp_all add: serve_stream_def run_attempts_def ex_stream_def opened_def Let_def ex_matches take_change_def
        enqueue_def saveStreamCursor_def cursor_save_ms_def)
qed

end
