(* ===== verification/Pairing.thy ===== *)
theory Pairing
  imports QrImage WorkerContract Console MediaText
begin

text \<open>
  WhatsApp pairing (server/hermes/pairing.ts, server/hermes/instance.ts, the pair, check and instance routes, and the
  reading of a snapshot by the pairing panel, lib/instances.ts). The wizard is a process whose output file and recorded
  process id are the whole state; what happens to it is a sequence of events. A write to the output file is
  seen at once, where the code's stream may be a moment behind. The calls to the pairing service, the contents
  of the gateway's state file and zlib's compression are arguments.
\<close>

section \<open>The wizard's output\<close>

definition qr_marker :: jstr where "qr_marker = js ''Scan this QR code''"

definition paired_markers :: "jstr list" where
  "paired_markers = [js ''is configured and paired'', js ''paired successfully'']"

definition re_pair_prompt :: jstr where "re_pair_prompt = js ''Re-pair?''"

definition failure_marker :: jstr where "failure_marker = [10007]"

definition max_answers :: nat where "max_answers = 8"

definition reportsPaired :: "jstr \<Rightarrow> bool" where
  "reportsPaired output \<longleftrightarrow> (\<exists>marker \<in> set paired_markers. contains marker output)"

definition lastLine :: "jstr \<Rightarrow> jstr option" where
  "lastLine output =
    (let ls = filter (\<lambda>l. l \<noteq> []) (map trim (split_on 10 output))
     in if 0 < length ls then Some (List.last ls) else None)"

text \<open>
  \<open>s.split(sep)\<close> for a text: the piece being read and how many code units of the separator just found are left to
  pass over.
\<close>

fun pieces :: "jstr \<Rightarrow> nat \<Rightarrow> jstr \<Rightarrow> jstr \<Rightarrow> jstr list" where
  "pieces sep k piece [] = [piece]"
| "pieces sep k piece (c # cs) =
    (if 0 < k then pieces sep (k - 1) piece cs
     else if take (length sep) (c # cs) = sep then piece # pieces sep (length sep - 1) [] cs
     else pieces sep 0 (piece @ [c]) cs)"

definition answersFor :: "jstr \<Rightarrow> jstr list" where
  "answersFor output = map (\<lambda>question. if contains re_pair_prompt question then js ''y'' else [])
     (butlast (pieces (js ''[y/N]'') 0 [] output))"

text \<open>The text from the last occurrence on.\<close>

fun from_last :: "jstr \<Rightarrow> jstr \<Rightarrow> jstr option" where
  "from_last needle [] = (if needle = [] then Some [] else None)"
| "from_last needle (c # cs) = (case from_last needle cs of
      Some found \<Rightarrow> Some found
    | None \<Rightarrow> if take (length needle) (c # cs) = needle then Some (c # cs) else None)"

definition readQr :: "(8 word list \<Rightarrow> 8 word list) \<Rightarrow> jstr \<Rightarrow> jstr option" where
  "readQr deflate output = (case from_last qr_marker output of
      None \<Rightarrow> None | Some printed \<Rightarrow> qrDataUrlFromTerminal deflate printed)"

section \<open>Files and processes\<close>

text \<open>
  The output file with the instant of its last write, the file of the process id, the live processes of the machine, and
  the wizards that have died and whose exit this process has not been told of.
\<close>

record pairing_world =
  pw_log :: "(jstr \<times> time) option"
  pw_pid :: "jstr option"
  pw_alive :: "int list"
  pw_unreaped :: "int list"

definition recordedPid :: "pairing_world \<Rightarrow> int option" where
  "recordedPid w = (case pw_pid w of
      None \<Rightarrow> None
    | Some content \<Rightarrow> (case stringToNumber (trim content) of
        None \<Rightarrow> None
      | Some q \<Rightarrow> if of_int \<lfloor>q\<rfloor> = q \<and> 0 < q then Some \<lfloor>q\<rfloor> else None))"

text \<open>A child that has died answers to signal 0 until this process has been told of its exit.\<close>

definition isRunning :: "pairing_world \<Rightarrow> bool" where
  "isRunning w = (case recordedPid w of None \<Rightarrow> False | Some pid \<Rightarrow> pid \<in> set (pw_alive w) \<or> pid \<in> set (pw_unreaped w))"

definition statMs :: "pairing_world \<Rightarrow> time \<Rightarrow> time" where
  "statMs w now = (case pw_log w of None \<Rightarrow> now | Some (_, changed) \<Rightarrow> changed)"

definition readOutput :: "pairing_world \<Rightarrow> jstr" where
  "readOutput w = (case pw_log w of None \<Rightarrow> [] | Some (content, _) \<Rightarrow> content)"

section \<open>Status\<close>

text \<open>The four states of the interface, and whatever else the pairing service may name.\<close>

datatype pairing_state = Starting | Awaiting_scan | Paired | Pairing_failed | Unnamed_state jstr

record pairing_status =
  ps_state :: pairing_state
  ps_qr :: "jstr option"
  ps_message :: "jstr option"
  ps_startedAt :: jstr

definition scan_message :: jstr where
  "scan_message = js ''Open WhatsApp on your phone, then Settings '' @ [8594] @ js '' Linked Devices '' @ [8594] @ js '' Link a Device.''"

definition statusOf :: "(8 word list \<Rightarrow> 8 word list) \<Rightarrow> pairing_world \<Rightarrow> time \<Rightarrow> jstr \<Rightarrow> pairing_status" where
  "statusOf deflate w now output =
    (let startedAt = toISOString (statMs w now); message = lastLine output; qr = readQr deflate output
     in if reportsPaired output then \<lparr>ps_state = Paired, ps_qr = None, ps_message = message, ps_startedAt = startedAt\<rparr>
        else if qr \<noteq> None \<and> isRunning w then
          \<lparr>ps_state = Awaiting_scan, ps_qr = qr, ps_message = Some scan_message, ps_startedAt = startedAt\<rparr>
        else if contains failure_marker output \<or> (\<not> isRunning w \<and> output \<noteq> []) then
          \<lparr>ps_state = Pairing_failed, ps_qr = None,
            ps_message = Some (case message of Some m \<Rightarrow> m | None \<Rightarrow> js ''The pairing command did not finish.''), ps_startedAt = startedAt\<rparr>
        else \<lparr>ps_state = Starting, ps_qr = None, ps_message = message, ps_startedAt = startedAt\<rparr>)"

definition pairing_relevance_ms :: int where "pairing_relevance_ms = 10 * 60 * 1000"

definition readHermesPairing :: "(8 word list \<Rightarrow> 8 word list) \<Rightarrow> pairing_world \<Rightarrow> time \<Rightarrow> pairing_status option" where
  "readHermesPairing deflate w now =
    (if pw_log w = None \<and> \<not> isRunning w then None
     else if \<not> isRunning w \<and> pairing_relevance_ms < now - statMs w now then None
     else Some (statusOf deflate w now (readOutput w)))"

section \<open>Starting and stopping\<close>

text \<open>
  \<open>spawn\<close> answers with the process id, \<^const>\<open>None\<close> when the command could not be started. A wizard already running is reported as
  it stands.
\<close>

definition startHermesPairing ::
  "(8 word list \<Rightarrow> 8 word list) \<Rightarrow> int option \<Rightarrow> time \<Rightarrow> pairing_world \<Rightarrow> pairing_world \<times> pairing_status" where
  "startHermesPairing deflate child now w =
    (if isRunning w then (w, statusOf deflate w now (readOutput w))
     else (w\<lparr>pw_log := Some ([], now), pw_pid := Some (case child of None \<Rightarrow> [] | Some p \<Rightarrow> dec_int p),
             pw_alive := pw_alive w @ (case child of None \<Rightarrow> [] | Some p \<Rightarrow> [p])\<rparr>,
           \<lparr>ps_state = Starting, ps_qr = None, ps_message = None, ps_startedAt = toISOString now\<rparr>))"

definition kill_process :: "int \<Rightarrow> pairing_world \<Rightarrow> pairing_world" where
  "kill_process p w = (if p \<in> set (pw_alive w)
     then w\<lparr>pw_alive := filter (\<lambda>q. q \<noteq> p) (pw_alive w), pw_unreaped := pw_unreaped w @ [p]\<rparr> else w)"

definition stopHermesPairing :: "pairing_world \<Rightarrow> pairing_world" where
  "stopHermesPairing w =
    (case recordedPid w of None \<Rightarrow> w | Some pid \<Rightarrow> kill_process pid w)\<lparr>pw_pid := None, pw_log := None\<rparr>"

text \<open>What the process is told of a wizard: a write to the output file, its exit, the failure to start it.\<close>

definition log_write :: "jstr \<Rightarrow> time \<Rightarrow> pairing_world \<Rightarrow> pairing_world" where
  "log_write chunk now w = (case pw_log w of None \<Rightarrow> w | Some (content, _) \<Rightarrow> w\<lparr>pw_log := Some (content @ chunk, now)\<rparr>)"

definition on_exit :: "int \<Rightarrow> pairing_world \<Rightarrow> pairing_world" where
  "on_exit p w = w\<lparr>pw_pid := None, pw_unreaped := filter (\<lambda>q. q \<noteq> p) (pw_unreaped w)\<rparr>"

definition on_spawn_error :: "jstr \<Rightarrow> time \<Rightarrow> pairing_world \<Rightarrow> pairing_world" where
  "on_spawn_error message now w = (log_write ([10, 10007, 32] @ message @ [10]) now w)\<lparr>pw_pid := None\<rparr>"

section \<open>Answering the wizard\<close>

text \<open>The variables of one run, the lines written to the wizard and how often the gateway was told to restart.\<close>

record wizard_run =
  wr_answered :: nat
  wr_seen :: jstr
  wr_restarted :: bool
  wr_written :: "jstr list"
  wr_restarts :: nat

definition new_wizard :: wizard_run where
  "new_wizard = \<lparr>wr_answered = 0, wr_seen = [], wr_restarted = False, wr_written = [], wr_restarts = 0\<rparr>"

function give_answers :: "jstr list \<Rightarrow> wizard_run \<Rightarrow> wizard_run" where
  "give_answers answers r =
    (if wr_answered r < length answers \<and> wr_answered r < max_answers
     then give_answers answers (r\<lparr>wr_written := wr_written r @ [answers ! wr_answered r @ [10]], wr_answered := wr_answered r + 1\<rparr>)
     else r)"
  by pat_completeness auto
termination by (relation "measure (\<lambda>(answers, r). length answers - wr_answered r)") auto

declare give_answers.simps [simp del]

definition clean_text :: "jstr \<Rightarrow> jstr" where
  "clean_text s = filter (\<lambda>c. c \<noteq> 13) (strip_ansi s)"

definition restart_note :: jstr where
  "restart_note = [10] @ js ''[archive] restarting the gateway to load the new session'' @ [10]"

text \<open>\<open>data.toString()\<close> of one chunk: a character that a cut goes through is not put together again.\<close>

definition buffer_text :: "nat list \<Rightarrow> jstr" where
  "buffer_text bs = utf8_run 0 0 128 191 bs"

definition onData :: "nat list \<Rightarrow> time \<Rightarrow> pairing_world \<times> wizard_run \<Rightarrow> pairing_world \<times> wizard_run" where
  "onData bytes now s =
    (let chunk = buffer_text bytes; w1 = log_write chunk now (fst s);
         r1 = (snd s)\<lparr>wr_seen := wr_seen (snd s) @ clean_text chunk\<rparr>;
         r2 = give_answers (answersFor (wr_seen r1)) r1
     in if \<not> wr_restarted r2 \<and> reportsPaired (wr_seen r2)
        then (log_write restart_note now w1, r2\<lparr>wr_restarted := True, wr_restarts := wr_restarts r2 + 1\<rparr>)
        else (w1, r2))"

section \<open>The pairing service\<close>

text \<open>A parsed body, by the members the code declares of it.\<close>

record service_body =
  sb_state :: "jstr option"
  sb_qr :: "jstr option"
  sb_message :: "jstr option"
  sb_whatsapp :: "jstr option"

datatype service_answer = Unreachable | Not_ok | Answered service_body

record pairing_env =
  pe_deflate :: "8 word list \<Rightarrow> 8 word list"
  pe_base :: "jstr option"
  pe_service :: "jstr \<Rightarrow> string \<Rightarrow> service_answer"
  pe_dataDir :: "jstr option"
  pe_state_file :: "jstr \<Rightarrow> json option option"

definition state_named :: "jstr \<Rightarrow> pairing_state" where
  "state_named s = (if s = js ''starting'' then Starting else if s = js ''awaiting_scan'' then Awaiting_scan
     else if s = js ''paired'' then Paired else if s = js ''failed'' then Pairing_failed else Unnamed_state s)"

definition truthy :: "jstr option \<Rightarrow> jstr option" where
  "truthy v = (case v of Some (c # cs) \<Rightarrow> Some (c # cs) | _ \<Rightarrow> None)"

definition callService :: "pairing_env \<Rightarrow> string \<Rightarrow> string \<Rightarrow> time \<Rightarrow> pairing_status option" where
  "callService env pathname verb now = (case truthy (pe_base env) of
      None \<Rightarrow> None
    | Some base \<Rightarrow> (case pe_service env (base @ js pathname) verb of
        Answered body \<Rightarrow> (case sb_state body of
            None \<Rightarrow> None
          | Some s \<Rightarrow> if s = js ''idle'' then None
              else Some \<lparr>ps_state = state_named s,
                ps_qr = (case truthy (sb_qr body) of None \<Rightarrow> None | Some glyphs \<Rightarrow> qrDataUrlFromTerminal (pe_deflate env) glyphs),
                ps_message = sb_message body, ps_startedAt = toISOString now\<rparr>)
      | _ \<Rightarrow> None))"

definition startHermesPairingRemote :: "pairing_env \<Rightarrow> time \<Rightarrow> pairing_status option" where
  "startHermesPairingRemote env now = callService env ''/pair'' ''POST'' now"

definition readHermesPairingAny :: "pairing_env \<Rightarrow> pairing_world \<Rightarrow> time \<Rightarrow> pairing_status option" where
  "readHermesPairingAny env w now = (case callService env ''/pair'' ''GET'' now of
      Some status \<Rightarrow> Some status | None \<Rightarrow> readHermesPairing (pe_deflate env) w now)"

definition readHermesGatewayStatus :: "pairing_env \<Rightarrow> jstr option" where
  "readHermesGatewayStatus env = (case truthy (pe_base env) of
      None \<Rightarrow> None
    | Some base \<Rightarrow> (case pe_service env (base @ js ''/status'') ''GET'' of
        Answered body \<Rightarrow>
          Some (if sb_whatsapp body = Some (js ''connected'') then js ''connected''
            else if sb_whatsapp body = Some (js ''connecting'') \<or> sb_whatsapp body = Some (js ''reconnecting'') then js ''pairing''
            else js ''disconnected'')
      | _ \<Rightarrow> None))"

section \<open>The snapshot\<close>

text \<open>
  The gateway's state file, \<^const>\<open>None\<close> when there is none and \<open>Some None\<close> when it is no JSON. Reading a member of anything but an object
  is \<open>undefined\<close>, and of \<open>null\<close> an exception, which the code catches.
\<close>

definition member_of :: "json option \<Rightarrow> string \<Rightarrow> json option" where
  "member_of v k = (case v of Some (JObj ob) \<Rightarrow> field ob k | _ \<Rightarrow> None)"

definition gatewayStatus :: "pairing_env \<Rightarrow> jstr option" where
  "gatewayStatus env = (case truthy (pe_dataDir env) of
      None \<Rightarrow> None
    | Some dir \<Rightarrow> (case pe_state_file env dir of
        None \<Rightarrow> None
      | Some None \<Rightarrow> None
      | Some (Some JNull) \<Rightarrow> None
      | Some (Some state) \<Rightarrow>
          (let whatsapp = member_of (member_of (Some state) ''platforms'') ''whatsapp''; platform = member_of whatsapp ''state''
           in Some (if platform = Some (JStr (js ''connected'')) then js ''connected''
             else if platform = Some (JStr (js ''connecting'')) \<or> platform = Some (JStr (js ''reconnecting'')) then js ''pairing''
             else if member_of whatsapp ''error_code'' = Some (JStr (js ''whatsapp_not_paired'')) then js ''disconnected''
             else if platform = Some (JStr (js ''fatal'')) \<or> platform = Some (JStr (js ''error'')) then js ''error''
             else js ''disconnected''))))"

definition storedStatus :: "jstr option \<Rightarrow> jstr" where
  "storedStatus v = (case v of
      Some s \<Rightarrow> if s \<in> set (map js instance_status_names) then s else js ''disconnected''
    | None \<Rightarrow> js ''disconnected'')"

record pairing_overlay =
  po_status :: jstr
  po_qr :: "jstr option"
  po_pairingError :: "jstr option"

definition overlay :: "pairing_status option \<Rightarrow> pairing_overlay option" where
  "overlay pairing = (case pairing of
      None \<Rightarrow> None
    | Some p \<Rightarrow> Some (if ps_state p = Paired then \<lparr>po_status = js ''connected'', po_qr = None, po_pairingError = None\<rparr>
        else if ps_state p = Pairing_failed then
          \<lparr>po_status = js ''error'', po_qr = None,
            po_pairingError = Some (case ps_message p of Some m \<Rightarrow> m | None \<Rightarrow> js ''Pairing did not finish.'')\<rparr>
        else \<lparr>po_status = js ''pairing'', po_qr = ps_qr p, po_pairingError = None\<rparr>))"

text \<open>The identity a runtime records, which no other part of the model reads.\<close>

record runtime_identity =
  rt_phoneNumber :: "jstr option"
  rt_botJid :: "jstr option"
  rt_botLid :: "jstr option"
  rt_connectedAt :: "time option"
  rt_lastSeenAt :: "time option"

definition first_known :: "'a option \<Rightarrow> 'a option \<Rightarrow> 'a option" where
  "first_known a b = (case a of Some x \<Rightarrow> Some x | None \<Rightarrow> b)"

definition hermesInstanceSnapshot ::
  "pairing_env \<Rightarrow> instance_doc \<Rightarrow> runtime_identity \<Rightarrow> pairing_status option \<Rightarrow> jstr option \<Rightarrow> time \<Rightarrow> instance_snapshot" where
  "hermesInstanceSnapshot env doc rt pairing gateway now =
    (let live = overlay pairing;
         status = (case first_known (map_option po_status live) (first_known gateway (gatewayStatus env)) of
             Some s \<Rightarrow> s | None \<Rightarrow> storedStatus (in_runtimeStatus doc))
     in \<lparr>is_id = in_id doc, is_label = (case in_label doc of None \<Rightarrow> [] | Some l \<Rightarrow> l), is_mode = js ''qr'', is_status = status,
         is_phoneNumber = truthy (rt_phoneNumber rt), is_botJid = truthy (rt_botJid rt), is_botLid = truthy (rt_botLid rt),
         is_pairingError = Option.bind live po_pairingError, is_qr = Option.bind live po_qr, is_pairingCode = None,
         is_connectedAt = stampIso (rt_connectedAt rt), is_lastSeenAt = stampIso (rt_lastSeenAt rt),
         is_createdAt = (case stampIso (in_createdAt doc) of Some s \<Rightarrow> s | None \<Rightarrow> toISOString now)\<rparr>)"

section \<open>The routes\<close>

datatype pairing_answer = Snapshot instance_snapshot | Turned_away console_answer

definition guarded :: "console_env \<Rightarrow> console_call \<Rightarrow> db \<Rightarrow> jstr \<Rightarrow> console_answer + instance_doc" where
  "guarded env call d ident = (case requireOwner env call of
      Inl e \<Rightarrow> Inl (Rethrown e)
    | Inr None \<Rightarrow> Inl unauthorized_answer
    | Inr (Some owner) \<Rightarrow>
        (if \<not> instanceInOrg d (ow_organizationId owner) ident then Inl not_found_answer
         else case getInstanceDoc d (ow_organizationId owner) ident of None \<Rightarrow> Inl not_found_answer | Some doc \<Rightarrow> Inr doc))"

definition postPair ::
  "pairing_env \<Rightarrow> console_env \<Rightarrow> (instance_doc \<Rightarrow> runtime_identity) \<Rightarrow> console_call \<Rightarrow> db \<Rightarrow> jstr \<Rightarrow> int option \<Rightarrow> pairing_world
   \<Rightarrow> pairing_world \<times> pairing_answer" where
  "postPair env cenv rt call d ident child w = (case guarded cenv call d ident of
      Inl refusal \<Rightarrow> (w, Turned_away refusal)
    | Inr doc \<Rightarrow>
        (let now = cn_now call;
             (w', started) = (case startHermesPairingRemote env now of
                Some status \<Rightarrow> (w, status) | None \<Rightarrow> startHermesPairing (pe_deflate env) child now w)
         in (w', Snapshot (hermesInstanceSnapshot env doc (rt doc) (Some started) (readHermesGatewayStatus env) now))))"

definition postCheck ::
  "pairing_env \<Rightarrow> console_env \<Rightarrow> (instance_doc \<Rightarrow> runtime_identity) \<Rightarrow> console_call \<Rightarrow> db \<Rightarrow> jstr \<Rightarrow> pairing_world \<Rightarrow> pairing_answer" where
  "postCheck env cenv rt call d ident w = (case guarded cenv call d ident of
      Inl refusal \<Rightarrow> Turned_away refusal
    | Inr doc \<Rightarrow> Snapshot (hermesInstanceSnapshot env doc (rt doc) (readHermesPairingAny env w (cn_now call))
        (readHermesGatewayStatus env) (cn_now call)))"

definition getInstance ::
  "pairing_env \<Rightarrow> console_env \<Rightarrow> (instance_doc \<Rightarrow> runtime_identity) \<Rightarrow> console_call \<Rightarrow> db \<Rightarrow> jstr \<Rightarrow> pairing_world \<Rightarrow> pairing_answer" where
  "getInstance env cenv rt call d ident w = (case guarded cenv call d ident of
      Inl refusal \<Rightarrow> Turned_away refusal
    | Inr doc \<Rightarrow> Snapshot (hermesInstanceSnapshot env doc (rt doc) (readHermesPairingAny env w (cn_now call))
        (readHermesGatewayStatus env) (cn_now call)))"

section \<open>The panel\<close>

record instance_identity =
  ii_phoneNumber :: jstr
  ii_botJid :: jstr
  ii_botLid :: jstr
  ii_connectedAt :: jstr
  ii_lastSeenAt :: jstr

datatype stop_tone = Failure_tone | Idle_tone

datatype pairing_stage = Scan jstr | Code jstr | Waiting | Connected instance_identity | Stopped stop_tone jstr

definition pollsWhile :: "jstr \<Rightarrow> bool" where
  "pollsWhile status \<longleftrightarrow> status = js ''pairing''"

definition text_or :: "jstr \<Rightarrow> jstr option \<Rightarrow> jstr" where
  "text_or fallback v = (case v of Some s \<Rightarrow> s | None \<Rightarrow> fallback)"

text \<open>\<^const>\<open>None\<close> for a status outside the five, at which the \<open>switch\<close> falls through.\<close>

definition pairingStage :: "instance_snapshot \<Rightarrow> pairing_stage option" where
  "pairingStage s =
    (if is_status s = js ''pairing'' then
       Some (case truthy (is_qr s) of Some qr \<Rightarrow> Scan qr
         | None \<Rightarrow> (case truthy (is_pairingCode s) of Some code \<Rightarrow> Code code | None \<Rightarrow> Waiting))
     else if is_status s = js ''connected'' then
       Some (Connected \<lparr>ii_phoneNumber = text_or [] (is_phoneNumber s), ii_botJid = text_or [] (is_botJid s),
         ii_botLid = text_or [] (is_botLid s), ii_connectedAt = text_or [] (is_connectedAt s), ii_lastSeenAt = text_or [] (is_lastSeenAt s)\<rparr>)
     else if is_status s = js ''logged_out'' then Some (Stopped Failure_tone (js ''This device was unlinked from the phone.''))
     else if is_status s = js ''error'' then
       Some (Stopped Failure_tone (text_or (js ''The worker reported an error.'') (is_pairingError s)))
     else if is_status s = js ''disconnected'' then Some (Stopped Idle_tone (js ''This account is not linked right now.''))
     else None)"

end
