(* ===== verification/PairingProps.thy ===== *)
theory PairingProps
  imports Pairing
begin

text \<open>
  The wizard's questions are answered each once and in order however its output arrives; at most one wizard lives; and the panel
  shows what the wizard is doing and stops asking when it has stopped.
\<close>

section \<open>Splitting grows at its end\<close>

lemma pieces_not_Nil [simp]: "pieces sep k p s \<noteq> []"
  by (induction sep k p s rule: pieces.induct) auto

lemma pieces_short: "length s < length sep \<Longrightarrow> butlast (pieces sep k p s) = []"
proof (induction s arbitrary: k p)
  case (Cons c cs)
  then have "take (length sep) (c # cs) \<noteq> sep" by (metis length_take less_le_not_le min.absorb2 nat_le_linear take_all)
  with Cons show ?case by (auto simp del: take_Cons' simp: take_Cons')
qed simp

lemma pieces_append: "sep \<noteq> [] \<Longrightarrow> \<exists>more. butlast (pieces sep k p (a @ b)) = butlast (pieces sep k p a) @ more"
proof (induction a arbitrary: k p)
  case (Cons c cs)
  show ?case
  proof (cases "0 < k \<or> length sep \<le> length (c # cs)")
    case True
    then have "k = 0 \<Longrightarrow> take (length sep) (c # cs @ b) = take (length sep) (c # cs)" by (auto simp: take_Cons')
    with Cons show ?thesis by auto
  next
    case False
    then have "butlast (pieces sep k p (c # cs)) = []" by (intro pieces_short) simp
    then show ?thesis by (metis append_Nil)
  qed
qed simp

lemma answers_grow: "\<exists>more. answersFor (a @ b) = answersFor a @ more"
  using pieces_append [of "js ''[y/N]''" 0 "[]" a b] by (auto simp: answersFor_def)

lemma contains_grows: "contains m a \<Longrightarrow> contains m (a @ b)"
proof (induction a)
  case (Cons c cs)
  show ?case
  proof (cases "take (length m) (c # cs) = m")
    case True
    then have "length m \<le> length (c # cs)" by (metis length_take min.cobounded2 nat_le_linear take_all)
    then have "take (length m) ((c # cs) @ b) = m" using True by (simp only: take_append) simp
    then show ?thesis by simp
  next
    case False
    with Cons show ?thesis by simp
  qed
next
  case Nil
  then show ?case by (cases b) auto
qed

lemma paired_stays: "reportsPaired a \<Longrightarrow> reportsPaired (a @ b)"
  using contains_grows by (auto simp: reportsPaired_def)

section \<open>The answers\<close>

lemma give_answers_result:
  "wr_written (give_answers answers r) = wr_written r @ map (\<lambda>a. a @ [10]) (drop (wr_answered r) (take max_answers answers))"
  "wr_answered (give_answers answers r) = max (wr_answered r) (min (length answers) max_answers)"
  "wr_seen (give_answers answers r) = wr_seen r" "wr_restarted (give_answers answers r) = wr_restarted r"
  "wr_restarts (give_answers answers r) = wr_restarts r"
proof (induction answers r rule: give_answers.induct)
  case (1 answers r)
  let ?r = "r\<lparr>wr_written := wr_written r @ [answers ! wr_answered r @ [10]], wr_answered := wr_answered r + 1\<rparr>"
  have "wr_written (give_answers answers r) = wr_written r @ map (\<lambda>a. a @ [10]) (drop (wr_answered r) (take max_answers answers)) \<and>
    wr_answered (give_answers answers r) = max (wr_answered r) (min (length answers) max_answers) \<and>
    wr_seen (give_answers answers r) = wr_seen r \<and> wr_restarted (give_answers answers r) = wr_restarted r \<and>
    wr_restarts (give_answers answers r) = wr_restarts r"
  proof (cases "wr_answered r < length answers \<and> wr_answered r < max_answers")
    case True
    then have "drop (wr_answered r) (take max_answers answers) = answers ! wr_answered r # drop (Suc (wr_answered r)) (take max_answers answers)"
      by (simp add: Cons_nth_drop_Suc [symmetric])
    moreover have "give_answers answers r = give_answers answers ?r" by (subst give_answers.simps) (simp add: True)
    ultimately show ?thesis using 1 [OF True] True by simp
  next
    case False
    then have "give_answers answers r = r" by (subst give_answers.simps) (simp only: if_False)
    with False show ?thesis by auto
  qed
  then show "wr_written (give_answers answers r) = wr_written r @ map (\<lambda>a. a @ [10]) (drop (wr_answered r) (take max_answers answers))"
    "wr_answered (give_answers answers r) = max (wr_answered r) (min (length answers) max_answers)"
    "wr_seen (give_answers answers r) = wr_seen r" "wr_restarted (give_answers answers r) = wr_restarted r"
    "wr_restarts (give_answers answers r) = wr_restarts r" by blast+
qed

definition run_after :: "jstr \<Rightarrow> wizard_run \<Rightarrow> bool" where
  "run_after seen r \<longleftrightarrow> wr_seen r = seen \<and> wr_answered r = min (length (answersFor seen)) max_answers \<and>
     wr_written r = map (\<lambda>a. a @ [10]) (take max_answers (answersFor seen)) \<and>
     wr_restarted r = reportsPaired seen \<and> wr_restarts r = (if reportsPaired seen then 1 else 0)"

lemma run_after_data: "run_after seen r \<Longrightarrow> run_after (seen @ clean_text (buffer_text bytes)) (snd (onData bytes now (w, r)))"
proof -
  let ?chunk = "buffer_text bytes"
  assume r: "run_after seen r"
  obtain more where more: "answersFor (seen @ clean_text ?chunk) = answersFor seen @ more" using answers_grow by blast
  have "take max_answers (answersFor seen) @ drop (min (length (answersFor seen)) max_answers) (take max_answers (answersFor seen @ more)) =
      take max_answers (answersFor seen @ more)" by (auto simp: min_def)
  with r more paired_stays [of seen "clean_text ?chunk"] show ?thesis
    by (auto simp: run_after_def onData_def Let_def give_answers_result min_def simp flip: map_append)
qed

text \<open>The chunks of a run's output, each with the instant it arrived.\<close>

definition feed :: "(nat list \<times> time) list \<Rightarrow> pairing_world \<times> wizard_run \<Rightarrow> pairing_world \<times> wizard_run" where
  "feed chunks s = fold (\<lambda>(bytes, now). onData bytes now) chunks s"

lemma feed_runs: "run_after seen (snd s) \<Longrightarrow> run_after (seen @ concat (map (clean_text \<circ> buffer_text \<circ> fst) chunks)) (snd (feed chunks s))"
proof (induction chunks arbitrary: seen s)
  case (Cons c cs)
  obtain bytes now where c: "c = (bytes, now)" by fastforce
  have "run_after (seen @ clean_text (buffer_text bytes)) (snd (onData bytes now s))" using run_after_data [of seen "snd s" bytes now "fst s"] Cons.prems by simp
  from Cons.IH [OF this] show ?case by (simp add: feed_def c)
qed (simp add: feed_def)

section \<open>The questions of a text\<close>

definition question_mark :: jstr where "question_mark = js ''[y/N]''"

lemma mark_starts_once: "k \<in> {1, 2, 3, 4} \<Longrightarrow> question_mark ! k \<noteq> 91"
  by (auto simp: question_mark_def js_def)

lemma pieces_skip: "pieces sep (length a) p (a @ b) = pieces sep 0 p b"
  by (induction a) simp_all

text \<open>No occurrence of the mark straddles the end of a text that holds none.\<close>

lemma no_straddle:
  assumes "\<not> contains question_mark (c # q)"
  shows "take 5 ((c # q) @ question_mark @ rest) \<noteq> question_mark"
proof
  assume eq: "take 5 ((c # q) @ question_mark @ rest) = question_mark"
  let ?k = "length (c # q)"
  have len: "length question_mark = 5" "question_mark ! 0 = 91" by (simp_all add: question_mark_def js_def)
  show False
  proof (cases "5 \<le> ?k")
    case True
    then have "take 5 (c # q) = question_mark" using eq by simp
    with assms len show False by simp
  next
    case False
    then have "?k < 5" "0 < ?k" by (simp, simp)
    then have "?k = 1 \<or> ?k = 2 \<or> ?k = 3 \<or> ?k = 4" by linarith
    then have k: "?k \<in> {1, 2, 3, 4}" by blast
    have "take 5 ((c # q) @ question_mark @ rest) ! ?k = ((c # q) @ question_mark @ rest) ! ?k" using False by (intro nth_take) simp
    also have "\<dots> = question_mark ! 0" using len(1) by (subst nth_append) (simp add: nth_append)
    finally have "question_mark ! ?k = question_mark ! 0" unfolding eq .
    then show False using mark_starts_once [OF k] unfolding len(2) by blast
  qed
qed

lemma pieces_question:
  "\<not> contains question_mark q \<Longrightarrow> pieces question_mark 0 p (q @ question_mark @ rest) = (p @ q) # pieces question_mark 0 [] rest"
proof (induction q arbitrary: p)
  case Nil
  obtain c cs where c: "question_mark = c # cs" "length cs = 4" by (simp add: question_mark_def js_def)
  have "pieces (c # cs) 0 p ((c # cs) @ rest) = p # pieces (c # cs) (length cs) [] (cs @ rest)" by simp
  also have "\<dots> = p # pieces (c # cs) 0 [] rest" by (simp only: pieces_skip)
  finally show ?case by (simp add: c(1))
next
  case (Cons c q)
  have "length question_mark = 5" by (simp add: question_mark_def js_def)
  then have "pieces question_mark 0 p ((c # q) @ question_mark @ rest) = pieces question_mark 0 (p @ [c]) (q @ question_mark @ rest)"
    using no_straddle [OF Cons.prems, of rest] by simp
  with Cons show ?case by simp
qed

lemma pieces_none: "\<not> contains question_mark rest \<Longrightarrow> pieces question_mark 0 p rest = [p @ rest]"
  by (induction rest arbitrary: p) auto

lemma answers_of_questions:
  assumes "list_all (\<lambda>q. \<not> contains question_mark q) qs" and "\<not> contains question_mark rest"
  shows "answersFor (concat (map (\<lambda>q. q @ question_mark) qs) @ rest) = map (\<lambda>q. if contains (js ''Re-pair?'') q then js ''y'' else []) qs"
proof -
  have "pieces question_mark 0 [] (concat (map (\<lambda>q. q @ question_mark) qs) @ rest) = qs @ [rest]"
    using assms(1) by (induction qs) (simp_all add: pieces_question pieces_none [OF assms(2)])
  then show ?thesis by (simp add: answersFor_def question_mark_def re_pair_prompt_def)
qed

text \<open>
  C37: Each of the wizard's first eight questions is answered exactly once and in the order asked: with a line \<open>y\<close> if it asks to pair again and
  with an empty line, the default, if it does not. A question is what stands before one \<open>[y/N]\<close> and after the one before it. The gateway is restarted exactly once if and only if
  the wizard reports a pairing. All that holds however the output was cut into chunks, as long as no cut goes through
  a character of several bytes or through a colour escape; questions after the eighth are left unanswered.
\<close>

theorem answers_belong_to_questions:
  assumes "buffer_text (concat (map fst chunks)) = concat (map (buffer_text \<circ> fst) chunks)"
    and "strip_ansi (concat (map (buffer_text \<circ> fst) chunks)) = concat (map (strip_ansi \<circ> buffer_text \<circ> fst) chunks)"
    and "clean_text (buffer_text (concat (map fst chunks))) = concat (map (\<lambda>q. q @ js ''[y/N]'') qs) @ rest"
    and "list_all (\<lambda>q. \<not> contains (js ''[y/N]'') q) (rest # qs)"
  shows "wr_written (snd (feed chunks (w, new_wizard))) = map (\<lambda>q. if contains (js ''Re-pair?'') q then [121, 10] else [10]) (take 8 qs)
    \<and> wr_restarts (snd (feed chunks (w, new_wizard))) =
        (if contains (js ''is configured and paired'') (clean_text (buffer_text (concat (map fst chunks))))
            \<or> contains (js ''paired successfully'') (clean_text (buffer_text (concat (map fst chunks)))) then 1 else 0)"
proof -
  let ?seen = "clean_text (buffer_text (concat (map fst chunks)))"
  have none: "\<not> reportsPaired []" "answersFor [] = []" by (simp_all add: reportsPaired_def paired_markers_def answersFor_def)
  then have "run_after [] new_wizard" by (simp add: run_after_def new_wizard_def)
  from feed_runs [where s = "(w, new_wizard)", simplified, OF this, of chunks]
  have "run_after (concat (map (clean_text \<circ> buffer_text \<circ> fst) chunks)) (snd (feed chunks (w, new_wizard)))" by (simp add: comp_assoc)
  moreover have "concat (map (clean_text \<circ> buffer_text \<circ> fst) chunks) = ?seen"
    using assms(2) unfolding assms(1) by (simp add: clean_text_def filter_concat comp_def)
  ultimately have after: "run_after ?seen (snd (feed chunks (w, new_wizard)))" by simp
  have "answersFor ?seen = map (\<lambda>q. if contains (js ''Re-pair?'') q then js ''y'' else []) qs"
    unfolding assms(3) using answers_of_questions [of qs rest] assms(4) by (simp add: question_mark_def)
  with after show ?thesis
    by (auto simp: run_after_def max_answers_def reportsPaired_def paired_markers_def take_map js_def)
qed

definition ex_chunks :: "(nat list \<times> time) list" where
  "ex_chunks = [(js ''Bot mode? [y/N'', 1), (js '']Re-p'', 2), (js ''air? [y/'', 3), (js ''N]'', 4)]"

definition ex_silent_world :: pairing_world where
  "ex_silent_world = \<lparr>pw_log = None, pw_pid = None, pw_alive = [], pw_unreaped = []\<rparr>"

theorem answers_belong_to_questions_witness:
  "wr_written (snd (feed ex_chunks (ex_silent_world, new_wizard))) = [[10], [121, 10]]"
proof -
  have plain: "27 \<notin> set s \<Longrightarrow> strip_ansi s = s" for s by (induction s) (auto simp: ansi_at_def take_Cons')
  have ascii: "list_all (\<lambda>b. b < 128) bs \<Longrightarrow> buffer_text bs = bs" for bs
    unfolding buffer_text_def by (induction bs) (simp_all add: utf16_def)
  have chunks: "map (buffer_text \<circ> fst) ex_chunks = map fst ex_chunks" by (simp add: ex_chunks_def js_def ascii)
  have whole: "buffer_text (concat (map fst ex_chunks)) = concat (map fst ex_chunks)" by (rule ascii) (simp add: ex_chunks_def js_def)
  have strip: "strip_ansi (concat (map (buffer_text \<circ> fst) ex_chunks)) = concat (map (strip_ansi \<circ> buffer_text \<circ> fst) ex_chunks)"
    by (simp add: ex_chunks_def js_def plain ascii del: strip_ansi.simps)
  have seen: "clean_text (buffer_text (concat (map fst ex_chunks))) = concat (map (\<lambda>q. q @ js ''[y/N]'') [js ''Bot mode? '', js ''Re-pair? '']) @ []"
    unfolding whole by (simp add: ex_chunks_def js_def plain clean_text_def del: strip_ansi.simps)
  have "list_all (\<lambda>q. \<not> contains (js ''[y/N]'') q) [[], js ''Bot mode? '', js ''Re-pair? '']" by (simp add: js_def)
  moreover have "buffer_text (concat (map fst ex_chunks)) = concat (map (buffer_text \<circ> fst) ex_chunks)" by (simp only: whole chunks)
  moreover note strip seen
  ultimately show ?thesis
    using answers_belong_to_questions [of ex_chunks "[js ''Bot mode? '', js ''Re-pair? '']" "[]" ex_silent_world]
    by (simp add: js_def)
qed

text \<open>A cut through a character of several bytes: the two halves of a check mark are read as two replacement characters.\<close>

lemma cut_character_lost:
  "buffer_text [226, 156, 151] = [10007]" "buffer_text [226, 156] @ buffer_text [151] = [65533, 65533]"
  by (simp_all add: buffer_text_def utf16_def)

section \<open>One wizard\<close>

lemma dec_units: "list_all is_digit (dec n) \<and> dec n \<noteq> []"
proof (induction n rule: dec.induct)
  case (1 n)
  then show ?case by (subst (1 2) dec.simps) (cases "n < 10"; simp add: is_digit_def [of "48 + _"])
qed

lemma number_in_append: "number_in b f (xs @ [x]) = number_in b f xs * b + f x"
  by (simp add: number_in_def)

lemma number_of_dec: "number_in 10 (\<lambda>d. d - 48) (dec n) = n"
proof (induction n rule: dec.induct)
  case (1 n)
  then show ?case by (subst dec.simps) (auto simp: number_in_append number_in_def)
qed

lemma Number_String: "0 < n \<Longrightarrow> stringToNumber (trim (dec n)) = Some (of_nat n)"
proof -
  have d: "list_all is_digit (dec n)" "dec n \<noteq> []" using dec_units by auto
  then obtain c cs where c: "dec n = c # cs" "is_digit c" "list_all is_digit cs" by (cases "dec n") auto
  have t: "trim (dec n) = dec n" using d(1) by (intro trim_no_space) (auto simp: list_all_iff is_digit_def is_space_def)
  have p: "take 2 (dec n) \<notin> js ` {''0x'', ''0X'', ''0o'', ''0O'', ''0b'', ''0B''}"
    using c by (cases cs) (auto simp: js_def is_digit_def)
  have s: "signed (dec n) = (False, dec n)" using c by (auto simp: signed_def is_digit_def)
  have w: "takeWhile is_digit (dec n) = dec n" using d(1) by (auto simp: list_all_iff takeWhile_eq_all_conv)
  have "decimal_literal (dec n) = Some (of_nat n)"
    using d(2) by (simp add: decimal_literal_def Let_def exponent_of_def number_of_dec w)
  then show ?thesis using p s t d(2) by (auto simp: stringToNumber_def Let_def)
qed

lemma recorded_frame [simp]: "recordedPid (w\<lparr>pw_alive := al\<rparr>) = recordedPid w" "recordedPid (w\<lparr>pw_unreaped := un\<rparr>) = recordedPid w"
  "recordedPid (w\<lparr>pw_log := lg\<rparr>) = recordedPid w" "recordedPid (w\<lparr>pw_pid := None\<rparr>) = None"
  by (simp_all add: recordedPid_def)

lemma recorded_dec: "0 < p \<Longrightarrow> pw_pid w = Some (dec_int p) \<Longrightarrow> recordedPid w = Some p"
  using Number_String [of "nat p"] by (simp add: recordedPid_def dec_int_def)

lemma recorded_blank: "pw_pid w = Some [] \<Longrightarrow> recordedPid w = None"
  by (simp add: recordedPid_def stringToNumber_def trim_def trim_start_def trim_end_def)

text \<open>
  The runs of the console in which it is told of a wizard's exit, or of its failure to start, before it is asked to start another. \<open>wiz\<close> are the
  processes it spawned and \<open>failing\<close> says that a start has failed and its error has not arrived.
\<close>

inductive calm_run :: "pairing_world \<Rightarrow> int set \<Rightarrow> bool \<Rightarrow> bool" where
  boot: "pw_pid w = None \<Longrightarrow> pw_unreaped w = [] \<Longrightarrow> calm_run w {} False"
| start: "calm_run w wiz failing \<Longrightarrow> pw_unreaped w = [] \<Longrightarrow> \<not> failing \<Longrightarrow> (\<And>p. child = Some p \<Longrightarrow> 0 < p \<and> p \<notin> set (pw_alive w)) \<Longrightarrow>
    calm_run (fst (startHermesPairing deflate child now w))
      (if isRunning w then wiz else (case child of None \<Rightarrow> wiz | Some p \<Rightarrow> wiz \<inter> set (pw_alive w) \<union> {p})) (\<not> isRunning w \<and> child = None)"
| stop: "calm_run w wiz failing \<Longrightarrow> calm_run (stopHermesPairing w) wiz failing"
| data: "calm_run w wiz failing \<Longrightarrow> calm_run (fst (onData chunk now (w, r))) wiz failing"
| dies: "calm_run w wiz failing \<Longrightarrow> p \<in> wiz \<Longrightarrow> calm_run (kill_process p w) wiz failing"
| told_exit: "calm_run w wiz failing \<Longrightarrow> p \<in> set (pw_unreaped w) \<Longrightarrow> calm_run (on_exit p w) wiz failing"
| told_error: "calm_run w wiz True \<Longrightarrow> calm_run (on_spawn_error message now w) wiz False"
| others: "calm_run w wiz failing \<Longrightarrow> set alive \<inter> wiz = set (pw_alive w) \<inter> wiz \<Longrightarrow> calm_run (w\<lparr>pw_alive := alive\<rparr>) wiz failing"

lemma log_write_rest [simp]: "pw_pid (log_write c now w) = pw_pid w" "pw_alive (log_write c now w) = pw_alive w"
  "pw_unreaped (log_write c now w) = pw_unreaped w" "recordedPid (log_write c now w) = recordedPid w"
  by (auto simp: log_write_def recordedPid_def split: option.splits)

lemma onData_rest [simp]: "pw_pid (fst (onData c now s)) = pw_pid (fst s)" "pw_alive (fst (onData c now s)) = pw_alive (fst s)"
  "pw_unreaped (fst (onData c now s)) = pw_unreaped (fst s)" "recordedPid (fst (onData c now s)) = recordedPid (fst s)"
  by (auto simp: onData_def Let_def)

definition one_recorded :: "pairing_world \<Rightarrow> int set \<Rightarrow> bool \<Rightarrow> bool" where
  "one_recorded w wiz failing \<longleftrightarrow> (\<forall>a \<in> wiz \<inter> set (pw_alive w). recordedPid w = Some a \<and> pw_unreaped w = [] \<and> \<not> failing)"

lemma calm_one: "calm_run w wiz failing \<Longrightarrow> one_recorded w wiz failing"
proof (induction rule: calm_run.induct)
  case (start w wiz failing child deflate now)
  show ?case
  proof (cases "isRunning w")
    case True
    with start.IH start.hyps show ?thesis by (auto simp: one_recorded_def startHermesPairing_def)
  next
    case False
    then have "wiz \<inter> set (pw_alive w) = {}" using start.IH by (auto simp: one_recorded_def isRunning_def)
    with False start.hyps recorded_dec show ?thesis
      by (cases child) (auto simp: one_recorded_def startHermesPairing_def)
  qed
next
  case (stop w wiz failing)
  then show ?case
    by (cases "recordedPid w") (auto simp: one_recorded_def stopHermesPairing_def kill_process_def)
next
  case (dies w wiz failing p)
  have "a = p" if "a \<in> wiz \<inter> set (pw_alive w)" "p \<in> set (pw_alive w)" for a
  proof -
    from dies that have "recordedPid w = Some a" "recordedPid w = Some p" unfolding one_recorded_def by blast+
    then show ?thesis by simp
  qed
  with dies show ?case by (auto simp: one_recorded_def kill_process_def)
next
  case (told_exit w wiz failing p)
  then show ?case by (auto simp: one_recorded_def on_exit_def)
next
  case (told_error w wiz message now)
  then show ?case by (auto simp: one_recorded_def on_spawn_error_def)
next
  case (others w wiz failing alive)
  then show ?case by (auto simp: one_recorded_def)
qed (auto simp: one_recorded_def)

text \<open>
  C38: As long as the console learns of a wizard's end before it is asked to pair again, at most one wizard lives at any time, whatever starts, stops,
  deaths, outputs and foreign processes come in whatever order; and the one that lives is the one every route sees running.
\<close>

theorem one_wizard_at_a_time:
  assumes "calm_run w wiz failing" and "a \<in> wiz" and "b \<in> wiz" and "a \<in> set (pw_alive w)" and "b \<in> set (pw_alive w)"
  shows "a = b \<and> isRunning w"
proof -
  from calm_one [OF assms(1)] assms(2-) have "recordedPid w = Some a" "recordedPid w = Some b" unfolding one_recorded_def by blast+
  with assms(4) show ?thesis by (auto simp: isRunning_def)
qed

definition idle_world :: pairing_world where
  "idle_world = \<lparr>pw_log = None, pw_pid = None, pw_alive = [1], pw_unreaped = []\<rparr>"

theorem one_wizard_at_a_time_witness:
  "isRunning (fst (startHermesPairing (\<lambda>bs. bs) (Some 7) 0 idle_world))"
proof -
  have off: "\<not> isRunning idle_world" by (simp add: idle_world_def isRunning_def recordedPid_def)
  have "calm_run idle_world {} False" by (rule calm_run.boot) (simp_all add: idle_world_def)
  from calm_run.start [OF this, of "Some 7" "\<lambda>bs. bs" 0]
  have "calm_run (fst (startHermesPairing (\<lambda>bs. bs) (Some 7) 0 idle_world)) {7} False"
    using off by (simp add: idle_world_def)
  from one_wizard_at_a_time [OF this, of 7 7] off show ?thesis by (simp add: startHermesPairing_def)
qed

text \<open>
  Without that, the exit of a wizard that was stopped, told late, removes the record of its successor: the routes see no wizard running
  and the next request starts another beside it.
\<close>

lemma late_exit_forgets_wizard:
  defines "begin_pair p w \<equiv> fst (startHermesPairing (\<lambda>bs. bs) (Some p) 0 w)"
  shows "set [8, 9] \<subseteq> set (pw_alive (begin_pair 9 (on_exit 7 (begin_pair 8 (stopHermesPairing (begin_pair 7 idle_world))))))"
proof -
  have one: "\<not> isRunning idle_world" by (simp add: idle_world_def isRunning_def recordedPid_def)
  have s7: "begin_pair 7 idle_world = idle_world\<lparr>pw_log := Some ([], 0), pw_pid := Some (dec_int 7), pw_alive := [1, 7]\<rparr>" (is "_ = ?w7")
    using one by (simp add: begin_pair_def startHermesPairing_def idle_world_def)
  have "recordedPid ?w7 = Some 7" by (rule recorded_dec) simp_all
  then have off: "stopHermesPairing ?w7 = idle_world\<lparr>pw_unreaped := [7]\<rparr>" (is "_ = ?w")
    by (simp add: stopHermesPairing_def kill_process_def idle_world_def)
  have two: "\<not> isRunning ?w" by (simp add: isRunning_def recordedPid_def idle_world_def)
  have s8: "begin_pair 8 ?w = ?w\<lparr>pw_log := Some ([], 0), pw_pid := Some (dec_int 8), pw_alive := [1, 8]\<rparr>" (is "_ = ?w8")
    using two by (simp add: begin_pair_def startHermesPairing_def idle_world_def)
  have "\<not> isRunning (on_exit 7 ?w8)" by (simp add: isRunning_def recordedPid_def on_exit_def)
  then show ?thesis unfolding s7 off s8 by (simp add: begin_pair_def startHermesPairing_def on_exit_def)
qed

section \<open>The panel\<close>














text \<open>
  The recorded output keeps the colour escapes that the reading of the questions strips: a success the console acted on can be one
  the panel calls a failure.
\<close>

lemma coloured_success_reads_as_failure:
  defines "out \<equiv> js ''paired '' @ [27, 91, 49, 109] @ js ''successfully''"
  shows "reportsPaired (clean_text out)" "ps_state (statusOf deflate \<lparr>pw_log = Some (out, 0), pw_pid = None, pw_alive = [], pw_unreaped = []\<rparr> 0 out) = Pairing_failed"
proof -
  show "reportsPaired (clean_text out)" unfolding out_def by code_simp
  have "\<not> reportsPaired out" "readQr deflate out = None"
    by (simp_all add: out_def reportsPaired_def paired_markers_def readQr_def qr_marker_def js_def)
  then show "ps_state (statusOf deflate \<lparr>pw_log = Some (out, 0), pw_pid = None, pw_alive = [], pw_unreaped = []\<rparr> 0 out) = Pairing_failed"
    by (simp add: statusOf_def Let_def isRunning_def recordedPid_def out_def)
qed

text \<open>A pairing is started only for a live instance of the session's organisation.\<close>

lemma pairing_needs_own_instance:
  "fst (postPair env cenv rt call d ident child w) \<noteq> w \<Longrightarrow>
    \<exists>owner doc. requireOwner cenv call = Inr (Some owner) \<and> getInstanceDoc d (ow_organizationId owner) ident = Some doc"
  by (auto simp: postPair_def guarded_def split: sum.splits option.splits if_splits)

text \<open>One pairing serves every instance: what is reported for one account is reported for any other.\<close>

lemma pairing_is_shared:
  "readHermesPairingAny env w now = Some p \<Longrightarrow>
    is_status (hermesInstanceSnapshot env doc rt (readHermesPairingAny env w now) gateway now) =
    is_status (hermesInstanceSnapshot env doc' rt' (readHermesPairingAny env w now) gateway now) \<and>
    is_qr (hermesInstanceSnapshot env doc rt (readHermesPairingAny env w now) gateway now) =
    is_qr (hermesInstanceSnapshot env doc' rt' (readHermesPairingAny env w now) gateway now)"
  by (simp add: hermesInstanceSnapshot_def overlay_def first_known_def Let_def)

end
