(* ===== verification/McpEndpoint.thy ===== *)
theory McpEndpoint
  imports MediaTools GroupTools AuthorizedJids InstanceRows
begin

text \<open>
  The endpoint an external agent calls (server/mcp/http.ts, app/api/mcp/route.ts): a bearer token, a scope read from the deployment's
  environment and database, and the two tool families in the owner's own chat. The protocol itself, which hands a call's name
  and arguments to the tool, is the SDK's.
\<close>

section \<open>The token and the scope\<close>

record mcp_env =
  me_token :: "jstr option"
  me_organizationId :: "jstr option"
  me_instanceId :: "jstr option"
  me_ownerJids :: "jstr option"
  me_country :: "jstr option"

record mcp_scope =
  mp_organizationId :: jstr
  mp_instanceId :: jstr
  mp_authorizedJids :: "jstr list"

definition butlerTokenMatches :: "jstr option \<Rightarrow> jstr option \<Rightarrow> bool" where
  "butlerTokenMatches authorization expected \<longleftrightarrow> (case (authorization, expected) of
      (Some header, Some secret) \<Rightarrow> starts_with (js ''Bearer '') header \<and> secret \<noteq> []
        \<and> length (utf8_encode (drop 7 header)) = length (utf8_encode secret) \<and> utf8_encode (drop 7 header) = utf8_encode secret
    | _ \<Rightarrow> False)"

definition org_default_id :: jstr where "org_default_id = js ''org_default''"

text \<open>\<open>(env[name] ?? "").trim()\<close>.\<close>

definition env_text :: "jstr option \<Rightarrow> jstr" where
  "env_text v = trim (case v of None \<Rightarrow> [] | Some s \<Rightarrow> s)"

definition dedupeOwners :: "jstr option \<Rightarrow> jstr list \<Rightarrow> jstr list" where
  "dedupeOwners country values = sort (remdups (List.map_filter (normalizeAuthorizedJid country) values))"

definition soleInstanceId :: "db \<Rightarrow> jstr \<Rightarrow> jstr option" where
  "soleInstanceId d org = (case take 2 (filter (\<lambda>i. in_organizationId i = org \<and> in_deletedAt i = None) (instances d)) of
      [only] \<Rightarrow> Some (in_id only) | _ \<Rightarrow> None)"

definition readButlerMcpScope :: "mcp_env \<Rightarrow> db \<Rightarrow> mcp_scope option" where
  "readButlerMcpScope env d =
    (let org = (if env_text (me_organizationId env) = [] then org_default_id else env_text (me_organizationId env));
         organization = find (\<lambda>o'. og_id o' = org) (organizations d);
         configured = env_text (me_ownerJids env);
         jids = (if configured \<noteq> [] then dedupeOwners (me_country env) (split_on 44 configured)
                 else authorizedJidsOf (me_country env) (Option.bind organization og_autoReplyAuthorizedJids))
     in if jids = [] then None
        else let named = env_text (me_instanceId env)
             in case (if named \<noteq> [] then Some named else soleInstanceId d org) of
                 None \<Rightarrow> None
               | Some inst \<Rightarrow> Some \<lparr>mp_organizationId = org, mp_instanceId = inst, mp_authorizedJids = jids\<rparr>)"

definition butlerChatContext :: "mcp_scope \<Rightarrow> tool_chat" where
  "butlerChatContext s = \<lparr>ch_organizationId = mp_organizationId s, ch_instanceId = mp_instanceId s, ch_chatKind = Chat_user,
     ch_chatJid = (case mp_authorizedJids s of j # _ \<Rightarrow> j | [] \<Rightarrow> []), ch_groupJid = None, ch_authorizedJids = mp_authorizedJids s\<rparr>"

section \<open>A request\<close>

text \<open>What a request asks of the server: a tool of either family with its arguments, or anything else of the protocol.\<close>

datatype mcp_use = Use_group group_tool jobject | Use_media media_tool jobject | Protocol

datatype mcp_answer = Mcp_unauthorized | Mcp_no_scope | Mcp_served "json option"

definition serve_mcp :: "mcp_env \<Rightarrow> group_run \<Rightarrow> media_call \<Rightarrow> jstr option \<Rightarrow> mcp_use \<Rightarrow> db \<Rightarrow> db \<times> mcp_answer" where
  "serve_mcp env g c authorization use d =
    (if \<not> butlerTokenMatches authorization (me_token env) then (d, Mcp_unauthorized)
     else case readButlerMcpScope env d of
         None \<Rightarrow> (d, Mcp_no_scope)
       | Some s \<Rightarrow> (let ch = butlerChatContext s; (d', r) = (case use of
             Use_group name args \<Rightarrow> callGroupTool g ch name args d
           | Use_media name args \<Rightarrow> callMediaTool c ch name args d
           | Protocol \<Rightarrow> (d, None)) in (d', Mcp_served r)))"

section \<open>What a scope is\<close>

lemma env_text_trimmed: "trim (env_text v) = env_text v"
  by (simp add: env_text_def)

lemma sole_instance: "soleInstanceId d org = Some inst \<Longrightarrow>
    \<exists>i. filter (\<lambda>i. in_organizationId i = org \<and> in_deletedAt i = None) (instances d) = [i] \<and> in_id i = inst"
  by (auto simp: soleInstanceId_def split: list.splits)
    (cases "filter (\<lambda>i. in_organizationId i = org \<and> in_deletedAt i = None) (instances d)"; simp; case_tac list; simp)

lemma scope_owners_canonical:
  assumes "readButlerMcpScope env d = Some s" and "j \<in> set (mp_authorizedJids s)"
  shows "\<exists>v. normalizeAuthorizedJid (me_country env) v = Some j"
proof -
  have from_list: "j \<in> set (canonical_jids country vs) \<Longrightarrow> \<exists>v. normalizeAuthorizedJid country v = Some j" for country vs
    by (induction country vs rule: canonical_jids.induct) (auto split: option.splits)
  have deduped: "j \<in> set (dedupeOwners country vs) \<Longrightarrow> \<exists>v. normalizeAuthorizedJid country v = Some j" for country vs
    by (auto simp: dedupeOwners_def List.map_filter_def)
  have stored: "j \<in> set (authorizedJidsOf country v) \<Longrightarrow> \<exists>v. normalizeAuthorizedJid country v = Some j" for country v
    using from_list by (auto simp: authorizedJidsOf_def split: option.splits json.splits)
  from assms(1) have "(\<exists>vs. mp_authorizedJids s = dedupeOwners (me_country env) vs) \<or> (\<exists>v. mp_authorizedJids s = authorizedJidsOf (me_country env) v)"
    by (auto simp: readButlerMcpScope_def Let_def split: if_splits option.splits)
  with assms(2) deduped stored show ?thesis by metis
qed

text \<open>
  Without the token nothing is read or changed; with it the tools work in the owner's direct chat of one organisation
  and one instance, which the environment names or which is the only live one, and for no request without an owner.
\<close>

lemma endpoint_scope:
  assumes "snd (serve_mcp env g c authorization use d) = Mcp_served r"
  obtains s where "readButlerMcpScope env d = Some s" "butlerTokenMatches authorization (me_token env)" "mp_authorizedJids s \<noteq> []"
    "mp_organizationId s \<noteq> []"
    "env_text (me_instanceId env) = [] \<Longrightarrow> \<exists>i. filter (\<lambda>i. in_organizationId i = mp_organizationId s \<and> in_deletedAt i = None) (instances d) = [i] \<and>
       in_id i = mp_instanceId s"
    "env_text (me_instanceId env) \<noteq> [] \<Longrightarrow> mp_instanceId s = env_text (me_instanceId env)"
proof -
  from assms obtain s where s: "readButlerMcpScope env d = Some s" "butlerTokenMatches authorization (me_token env)"
    by (auto simp: serve_mcp_def split: if_splits option.splits)
  moreover have "mp_authorizedJids s \<noteq> []" "mp_organizationId s \<noteq> []"
    "env_text (me_instanceId env) = [] \<Longrightarrow> \<exists>i. filter (\<lambda>i. in_organizationId i = mp_organizationId s \<and> in_deletedAt i = None) (instances d) = [i] \<and>
       in_id i = mp_instanceId s"
    "env_text (me_instanceId env) \<noteq> [] \<Longrightarrow> mp_instanceId s = env_text (me_instanceId env)"
    using s(1) sole_instance by (auto simp: readButlerMcpScope_def Let_def org_default_id_def split: if_splits option.splits)
  ultimately show ?thesis using that by blast
qed

lemma endpoint_refuses:
  "\<not> butlerTokenMatches authorization (me_token env) \<Longrightarrow> serve_mcp env g c authorization use d = (d, Mcp_unauthorized)"
  "me_token env = None \<or> me_token env = Some [] \<Longrightarrow> \<not> butlerTokenMatches authorization (me_token env)"
  by (auto simp: serve_mcp_def butlerTokenMatches_def split: option.splits)

lemma endpoint_context_usable:
  assumes "readButlerMcpScope env d = Some s" and "\<And>i. i \<in> set (instances d) \<Longrightarrow> in_id i \<noteq> []"
  shows "usableChatContext (butlerChatContext s)"
proof -
  have nonempty: "j \<noteq> []" if "j \<in> set (mp_authorizedJids s)" for j
    using scope_owners_canonical [OF assms(1) that] by (auto simp: normalizeAuthorizedJid_def Let_def number_of_length_def split: if_splits list.splits)
  have inst: "mp_instanceId s \<noteq> []"
  proof -
    have "in_id i \<noteq> []" if "filter P (instances d) = [i]" for i P
      using assms(2) [of i] that by (metis (no_types, lifting) filter_eq_ConsD in_set_conv_decomp)
    then show ?thesis using assms(1) sole_instance by (fastforce simp: readButlerMcpScope_def Let_def split: if_splits option.splits)
  qed
  have "mp_authorizedJids s \<noteq> []" "mp_organizationId s \<noteq> []"
    using assms(1) by (auto simp: readButlerMcpScope_def Let_def org_default_id_def split: if_splits option.splits)
  with nonempty inst show ?thesis
    by (auto simp: usableChatContext_def butlerChatContext_def list_all_iff split: list.splits)
qed

end
