(* ===== verification/Bootstrap.thy ===== *)
theory Bootstrap
  imports MediaText
begin

text \<open>
  What a deployment is set up with (server/bootstrap.ts, server/collections.ts, server/mongo.ts): the indexes, by name and key, and the two
  documents seeded for an organisation. Connecting to the database is I/O.
\<close>

section \<open>Collections and indexes\<close>

definition collection_names :: "string list" where
  "collection_names = [''organizations'', ''instances'', ''pairingSessions'', ''groups'', ''messages'', ''memoryBatches'', ''memorySummaries'',
     ''memoryFacts'', ''agentReplyRuns'', ''sendRequests'', ''pendingActions'', ''aiCalls'', ''statsDaily'', ''auditLog'', ''appSettings'',
     ''streamCursors'']"

datatype index_key = Up string | Down string | Text_of string

datatype index_scope = Every_document | Null_only string | Present_only string

record index_spec =
  ix_name :: string
  ix_key :: "index_key list"
  ix_unique :: bool
  ix_scope :: index_scope
  ix_expireAfterSeconds :: "nat option"
  ix_weights :: "(string \<times> nat) list"
  ix_default_language :: "string option"

definition index :: "string \<Rightarrow> index_key list \<Rightarrow> index_spec" where
  "index name key = \<lparr>ix_name = name, ix_key = key, ix_unique = False, ix_scope = Every_document, ix_expireAfterSeconds = None,
     ix_weights = [], ix_default_language = None\<rparr>"

definition unique_index :: "string \<Rightarrow> index_key list \<Rightarrow> index_spec" where
  "unique_index name key = (index name key)\<lparr>ix_unique := True\<rparr>"

abbreviation org_key :: index_key where "org_key \<equiv> Up ''organizationId''"
abbreviation group_keys :: "index_key list" where "group_keys \<equiv> [org_key, Up ''instanceId'', Up ''groupJid'']"

definition indexes :: "(string \<times> index_spec list) list" where
  "indexes =
    [(''organizations'', [index ''org_name'' [org_key, Up ''name'']]),
     (''instances'',
       [(unique_index ''org_label'' [org_key, Up ''label''])\<lparr>ix_scope := Null_only ''deletedAt''\<rparr>,
        index ''instance_status'' [org_key, Up ''runtime.status''],
        index ''instance_deleted'' [org_key, Up ''deletedAt'']]),
     (''pairingSessions'', [(index ''pairing_ttl'' [Up ''expiresAt''])\<lparr>ix_expireAfterSeconds := Some 0\<rparr>]),
     (''groups'',
       [unique_index ''uniq_group'' group_keys,
        index ''group_activity'' [org_key, Up ''config.assigned'', Down ''observed.lastActivityAt''],
        index ''group_by_jid'' [org_key, Up ''groupJid''],
        index ''group_name_search'' [org_key, Up ''instanceId'', Up ''observed.subjectSearch''],
        index ''group_reconcile'' [org_key, Up ''observed.state'', Down ''observed.lastSyncedAt'']]),
     (''messages'',
       [unique_index ''uniq_message'' [org_key, Up ''instanceId'', Up ''waMessageId''],
        index ''group_stream'' (group_keys @ [Down ''timestamp'']),
        index ''media_status'' [org_key, Up ''media.status'', Down ''timestamp''],
        index ''memory_batch_scan'' (group_keys @ [Up ''flags.revoked'', Up ''timestamp'', Up ''waMessageId'']),
        index ''sender_stream'' [org_key, Up ''senderJid'', Down ''timestamp''],
        index ''messages_stream'' [org_key, Down ''timestamp'', Down ''waMessageId'', Down ''instanceId''],
        index ''messages_group_stream'' (group_keys @ [Down ''timestamp'', Down ''waMessageId'']),
        index ''messages_typeahead'' [org_key, Up ''textSearch''],
        (index ''messages_text'' [Text_of ''text'', Text_of ''rawSearch'', Text_of ''media.fileName''])
          \<lparr>ix_weights := [(''text'', 10), (''rawSearch'', 3), (''media.fileName'', 2)], ix_default_language := Some ''none''\<rparr>]),
     (''memoryBatches'',
       [unique_index ''uniq_memory_batch_range''
          (group_keys @ [Up ''first.timestamp'', Up ''first.waMessageId'', Up ''last.timestamp'', Up ''last.waMessageId'']),
        (unique_index ''uniq_memory_batch_predecessor'' (group_keys @ [Up ''predecessor'']))\<lparr>ix_scope := Present_only ''predecessor''\<rparr>,
        index ''memory_batch_claim'' [org_key, Up ''state'', Up ''nextAttemptAt'', Up ''lease.expiresAt'', Up ''createdAt''],
        index ''memory_batch_group_history'' (group_keys @ [Down ''completedAt''])]),
     (''memorySummaries'',
       [unique_index ''uniq_memory_summary_batch'' [org_key, Up ''batchId''],
        index ''memory_summary_recent'' (group_keys @ [Down ''period.to'']),
        index ''memory_summary_text'' (map Text_of [''summary'', ''topics'', ''decisions'', ''openQuestions'', ''actionItems''])]),
     (''memoryFacts'',
       [unique_index ''uniq_memory_fact_in_batch'' [org_key, Up ''batchId'', Up ''kind'', Up ''textSearch''],
        index ''memory_fact_recent'' (group_keys @ [Up ''kind'', Down ''occurredAt'']),
        index ''memory_fact_text'' [Text_of ''text'', Text_of ''subject''],
        index ''memory_fact_summary'' [org_key, Up ''summaryId'']]),
     (''agentReplyRuns'',
       [unique_index ''uniq_agent_reply_source'' (group_keys @ [Up ''waMessageId'']),
        index ''agent_reply_recovery'' [org_key, Up ''state'', Up ''lease.expiresAt'']]),
     (''sendRequests'',
       [unique_index ''uniq_send_idempotency'' [org_key, Up ''idempotencyKey''],
        index ''send_due'' [Up ''status'', Up ''scheduledFor''],
        index ''send_by_instance'' [org_key, Up ''instanceId'', Down ''createdAt''],
        index ''send_by_group'' [org_key, Up ''groupJid'', Down ''createdAt'']]),
     (''pendingActions'',
       [unique_index ''uniq_pending_action_short_id'' [org_key, Up ''shortId''],
        index ''pending_action_queue'' [org_key, Up ''state'', Down ''requestedAt'']]),
     (''aiCalls'',
       [index ''ai_recent'' [org_key, Down ''createdAt''],
        index ''ai_by_instance'' [org_key, Up ''instanceId'', Down ''createdAt''],
        index ''ai_by_model'' [org_key, Up ''model'', Down ''createdAt'']]),
     (''statsDaily'', [unique_index ''stats_unique'' [org_key, Up ''day'', Up ''instanceId'', Up ''groupJid'']]),
     (''auditLog'', [index ''audit_recent'' [org_key, Down ''createdAt'']])]"

text \<open>The names are a contract, so no two indexes share one; and what is unique is unique within a tenant only.\<close>

lemma index_names_distinct: "distinct (map ix_name (concat (map snd indexes)))"
  by (simp add: indexes_def index_def unique_index_def)

lemma unique_within_tenant: "list_all (\<lambda>ix. ix_unique ix \<longrightarrow> hd (ix_key ix) = org_key) (concat (map snd indexes))"
  by (simp add: indexes_def index_def unique_index_def)

lemma indexed_collections: "set (map fst indexes) \<subseteq> set collection_names" "distinct (map fst indexes)" "distinct collection_names"
  by (simp_all add: indexes_def collection_names_def)

text \<open>The indexes of a collection as the driver keeps them: creating one that is there changes nothing.\<close>

type_synonym catalogue = "string \<Rightarrow> index_spec list"

definition create_index :: "index_spec \<Rightarrow> index_spec list \<Rightarrow> index_spec list" where
  "create_index ix existing = (if ix \<in> set existing then existing else existing @ [ix])"

definition createIndexes :: "catalogue \<Rightarrow> catalogue" where
  "createIndexes cat = fold (\<lambda>(coll, ixs) c. c(coll := fold create_index ixs (c coll))) indexes cat"

lemma create_there: "set ixs \<subseteq> set existing \<Longrightarrow> fold create_index ixs existing = existing"
  by (induction ixs) (auto simp: create_index_def)

lemma create_adds: "set (fold create_index ixs existing) = set existing \<union> set ixs"
  by (induction ixs arbitrary: existing) (auto simp: create_index_def)

lemma fold_catalogue:
  "distinct (map fst tab) \<Longrightarrow> fold (\<lambda>(coll, ixs) c. c(coll := fold create_index ixs (c coll))) tab cat coll =
    (case map_of tab coll of None \<Rightarrow> cat coll | Some ixs \<Rightarrow> fold create_index ixs (cat coll))"
proof (induction tab arbitrary: cat)
  case (Cons e tab)
  obtain k ixs where e: "e = (k, ixs)" by fastforce
  with Cons.prems have "map_of tab k = None" by (simp add: map_of_eq_None_iff)
  with e Cons show ?case by (auto split: option.splits)
qed simp

lemma indexes_created_once: "createIndexes (createIndexes cat) = createIndexes cat"
proof
  fix coll
  have at: "createIndexes c coll = (case map_of indexes coll of None \<Rightarrow> c coll | Some ixs \<Rightarrow> fold create_index ixs (c coll))" for c
    unfolding createIndexes_def by (rule fold_catalogue [OF indexed_collections(2)])
  show "createIndexes (createIndexes cat) coll = createIndexes cat coll"
    by (cases "map_of indexes coll") (simp_all add: at create_there create_adds)
qed

section \<open>Seeds\<close>

record organization_seed =
  os_id :: jstr
  os_name :: jstr
  os_createdAt :: time

record app_settings =
  as_id :: jstr
  as_model :: jstr
  as_maxTokensPerDay :: rat
  as_messagesDays :: rat
  as_timezone :: jstr

record seed_env =
  se_model :: "jstr option"
  se_maxTokens :: "jstr option"
  se_messagesDays :: "jstr option"
  se_timezone :: "jstr option"

record seeded =
  sd_organizations :: "organization_seed list"
  sd_appSettings :: "app_settings list"

definition envInt :: "jstr option \<Rightarrow> rat \<Rightarrow> rat" where
  "envInt v fallback = (case map_option trim v of
      Some (c # cs) \<Rightarrow> (case stringToNumber (c # cs) of Some q \<Rightarrow> if 0 \<le> q then q else fallback | None \<Rightarrow> fallback)
    | _ \<Rightarrow> fallback)"

definition appSettingsDefaults :: "seed_env \<Rightarrow> jstr \<Rightarrow> app_settings" where
  "appSettingsDefaults env org = \<lparr>as_id = org, as_model = (case se_model env of None \<Rightarrow> [] | Some m \<Rightarrow> m),
     as_maxTokensPerDay = envInt (se_maxTokens env) 200000, as_messagesDays = envInt (se_messagesDays env) 0,
     as_timezone = (case se_timezone env of None \<Rightarrow> js ''UTC'' | Some tz \<Rightarrow> tz)\<rparr>"

text \<open>\<open>updateOne\<close> with \<open>$setOnInsert\<close> and \<open>upsert\<close>.\<close>

definition set_on_insert :: "('a \<Rightarrow> jstr) \<Rightarrow> 'a \<Rightarrow> 'a list \<Rightarrow> 'a list" where
  "set_on_insert key doc docs = (if key doc \<in> key ` set docs then docs else docs @ [doc])"

definition seedDefaults :: "seed_env \<Rightarrow> jstr \<Rightarrow> time \<Rightarrow> seeded \<Rightarrow> seeded" where
  "seedDefaults env org now s =
    s\<lparr>sd_organizations := set_on_insert os_id \<lparr>os_id = org, os_name = js ''Default'', os_createdAt = now\<rparr> (sd_organizations s),
      sd_appSettings := set_on_insert as_id (appSettingsDefaults env org) (sd_appSettings s)\<rparr>"

lemma set_on_insert_there: "key doc \<in> key ` set docs \<Longrightarrow> set_on_insert key doc docs = docs"
  by (simp add: set_on_insert_def)

lemma set_on_insert_key: "key doc \<in> key ` set (set_on_insert key doc docs)"
  by (simp add: set_on_insert_def)

text \<open>Bootstrapping again, at any later time and in any environment, changes nothing; and it never changes a stored document.\<close>

lemma seeded_once: "seedDefaults env' org now' (seedDefaults env org now s) = seedDefaults env org now s"
proof -
  have "os_id \<lparr>os_id = org, os_name = js ''Default'', os_createdAt = now'\<rparr> \<in> os_id ` set (sd_organizations (seedDefaults env org now s))"
    using set_on_insert_key [of os_id "\<lparr>os_id = org, os_name = js ''Default'', os_createdAt = now\<rparr>"] by (simp add: seedDefaults_def)
  moreover have "as_id (appSettingsDefaults env' org) \<in> as_id ` set (sd_appSettings (seedDefaults env org now s))"
    using set_on_insert_key [of as_id "appSettingsDefaults env org"] by (simp add: seedDefaults_def appSettingsDefaults_def)
  ultimately show ?thesis unfolding seedDefaults_def [of env'] by (simp only: set_on_insert_there) simp
qed

lemma seeds_keep: "set (sd_organizations s) \<subseteq> set (sd_organizations (seedDefaults env org now s))"
  "set (sd_appSettings s) \<subseteq> set (sd_appSettings (seedDefaults env org now s))"
  by (auto simp: seedDefaults_def set_on_insert_def)

section \<open>Where the database is\<close>

definition default_db_name :: jstr where "default_db_name = js ''group_butler''"

text \<open>An override, the environment, the default: the address and the name, or the error of a missing address.\<close>

definition or_else :: "'a option \<Rightarrow> 'a option \<Rightarrow> 'a option" where
  "or_else a b = (case a of Some x \<Rightarrow> Some x | None \<Rightarrow> b)"

definition mongoConfig :: "jstr option \<Rightarrow> jstr option \<Rightarrow> jstr option \<Rightarrow> jstr option \<Rightarrow> jstr + jstr \<times> jstr" where
  "mongoConfig uri dbName env_uri env_db = (case or_else uri env_uri of
      Some (c # cs) \<Rightarrow> Inr (c # cs, case or_else dbName env_db of Some n \<Rightarrow> n | None \<Rightarrow> default_db_name)
    | _ \<Rightarrow> Inl (js ''MONGODB_URI is required''))"

end
