(* ===== verification/ConsolePages.thy ===== *)
theory ConsolePages
  imports Usage WorkerClient Console "HOL-Library.Multiset"
begin

text \<open>
  What the console's pages read and how they read it: the health probe (server/health.ts), the loaders whose failures are
  values (server/console.ts), the overview, the operations page and the scope editor (lib/dashboard.ts,
  lib/operations.ts, lib/scope.ts, lib/format.ts, lib/instances.ts), and the routes that pass a question on to the worker. The exchanges with
  MongoDB and the worker, the locale's order of labels and the printing of numbers are arguments.
\<close>

section \<open>Health\<close>

record worker_health =
  wh_reachable :: bool
  wh_ok :: bool
  wh_error :: "jstr option"

record health_report =
  hr_ok :: bool
  hr_mongo :: bool
  hr_worker :: worker_health

text \<open>
  The address of the probe for a base, \<^const>\<open>None\<close> when that is no URL; an answer with its status and its body, \<^const>\<open>None\<close> for a
  body that is no JSON; and whether MongoDB is configured and answers the ping.
\<close>

record health_env =
  he_worker_url :: "jstr option"
  he_resolve :: "jstr \<Rightarrow> jstr option"
  he_fetch :: "jstr \<Rightarrow> (nat \<times> json option) option"
  he_mongo_config :: bool
  he_ping :: bool

definition probeMongo :: "health_env \<Rightarrow> bool" where
  "probeMongo env \<longleftrightarrow> he_mongo_config env \<and> he_ping env"

definition unhealthy :: "bool \<Rightarrow> jstr \<Rightarrow> worker_health" where
  "unhealthy reachable reason = \<lparr>wh_reachable = reachable, wh_ok = False, wh_error = Some reason\<rparr>"

definition probeWorker :: "health_env \<Rightarrow> worker_health" where
  "probeWorker env = (case he_worker_url env of
      Some (c # cs) \<Rightarrow> (case he_resolve env (c # cs) of
          None \<Rightarrow> unhealthy False (js ''WORKER_URL is not a URL'')
        | Some endpoint \<Rightarrow> (case he_fetch env endpoint of
            None \<Rightarrow> unhealthy False (js ''worker did not answer'')
          | Some (status, payload) \<Rightarrow>
              (case (case payload of Some (JObj ob) \<Rightarrow> field ob ''ok'' | _ \<Rightarrow> None) of
                 Some (JBool said_ok) \<Rightarrow>
                   if \<not> (200 \<le> status \<and> status < 300) \<or> \<not> said_ok
                   then unhealthy True (js ''worker reported not ok ('' @ dec status @ js '')'')
                   else \<lparr>wh_reachable = True, wh_ok = True, wh_error = None\<rparr>
               | _ \<Rightarrow> unhealthy True (js ''worker answer was not a health payload''))))
    | _ \<Rightarrow> unhealthy False (js ''WORKER_URL is not set''))"

definition checkHealth :: "health_env \<Rightarrow> nat \<times> health_report" where
  "checkHealth env =
    (let mongo = probeMongo env; worker = probeWorker env; healthy = mongo \<and> wh_ok worker
     in (if healthy then 200 else 503, \<lparr>hr_ok = healthy, hr_mongo = mongo, hr_worker = worker\<rparr>))"

text \<open>\<open>GET /api/health\<close> answers with just that.\<close>

definition getHealth :: "health_env \<Rightarrow> nat \<times> health_report" where
  "getHealth env = checkHealth env"

lemma health_agrees: "fst (getHealth env) = 200 \<longleftrightarrow> hr_mongo (snd (getHealth env)) \<and> wh_ok (hr_worker (snd (getHealth env)))"
  by (simp add: getHealth_def checkHealth_def Let_def)

lemma healthy_worker_said_so:
  "wh_ok (probeWorker env) \<Longrightarrow> \<exists>endpoint status ob. he_fetch env endpoint = Some (status, Some (JObj ob)) \<and> 200 \<le> status \<and> status < 300 \<and>
    field ob ''ok'' = Some (JBool True)"
  by (simp add: probeWorker_def unhealthy_def split: option.splits list.splits json.splits if_splits prod.splits) blast

section \<open>Loaders\<close>

text \<open>A read is its data or the phrase the page shows; an inherited member of the worker's failure table has no message.\<close>

datatype 'a loaded = Loaded 'a | Not_loaded "jstr option"

definition from_mongo :: "bool \<Rightarrow> string \<Rightarrow> 'a \<Rightarrow> 'a loaded" where
  "from_mongo answers phrase v = (if answers then Loaded v else Not_loaded (Some (js phrase)))"

definition loadInstances :: "bool \<Rightarrow> db \<Rightarrow> jstr \<Rightarrow> instance_row list loaded" where
  "loadInstances answers d org = from_mongo answers ''MongoDB did not answer, so the stored instances could not be read.'' (listInstances d org)"

text \<open>The probes never throw, so the phrase of a probe that did not finish is never shown.\<close>

definition loadHealth :: "health_env \<Rightarrow> health_report loaded" where
  "loadHealth env = Loaded (snd (checkHealth env))"

definition loadScheduler :: "worker_env \<Rightarrow> loop_report list loaded option" where
  "loadScheduler env = (case getWorkerScheduler env of
      Some (Data loops) \<Rightarrow> Some (Loaded loops)
    | Some (Failed (Failure f)) \<Rightarrow> Some (Not_loaded (Some (wf_message f)))
    | Some (Failed (Inherited _)) \<Rightarrow> Some (Not_loaded None)
    | _ \<Rightarrow> None)"

definition loadUsage :: "bool \<Rightarrow> db \<Rightarrow> stats_row list \<Rightarrow> (jstr \<Rightarrow> int option) \<Rightarrow> jstr \<Rightarrow> time \<Rightarrow> usage_day loaded" where
  "loadUsage answers d stats settings org now =
    from_mongo answers (''MongoDB did not answer, so today'' @ [CHR 0x27] @ ''s usage could not be read.'') (readUsage d stats settings org now)"

definition loadTokens :: "bool \<Rightarrow> (jstr \<Rightarrow> jstr \<Rightarrow> int) \<Rightarrow> db \<Rightarrow> jstr \<Rightarrow> time \<Rightarrow> token_trend loaded" where
  "loadTokens answers locale_compare d org now =
    from_mongo answers ''MongoDB did not answer, so the token history could not be read.'' (readTokenTrend locale_compare d org now)"

definition attentionNeeded :: "instance_row list \<Rightarrow> instance_row list" where
  "attentionNeeded rows = filter (\<lambda>r. ir_status r \<noteq> js ''connected'') rows"

record status_count =
  sc_connected :: nat
  sc_inactive :: nat

definition statusCounts :: "instance_row list \<Rightarrow> status_count" where
  "statusCounts rows = (let n = length (filter (\<lambda>r. ir_status r = js ''connected'') rows)
    in \<lparr>sc_connected = n, sc_inactive = length rows - n\<rparr>)"

lemma counts_agree: "sc_inactive (statusCounts rows) = length (attentionNeeded rows)"
  using sum_length_filter_compl [of "\<lambda>r. ir_status r = js ''connected''" rows] by (simp add: statusCounts_def attentionNeeded_def Let_def)

section \<open>The overview\<close>

record bot_day =
  bd_instanceId :: jstr
  bd_label :: jstr
  bd_messagesIn :: int

record token_series =
  tn_instanceId :: jstr
  tn_label :: jstr
  tn_days :: "token_day list"
  tn_calls :: nat
  tn_reportedDays :: nat

record dashboard =
  da_bots :: "(nat \<times> nat) option"
  da_stalled :: "instance_row list option"
  da_botsError :: "jstr option"
  da_day :: "jstr option"
  da_messagesIn :: "int option"
  da_activity :: "bot_day list"
  da_messagesError :: "jstr option"
  da_tokens :: "token_series list option"
  da_tokenMax :: "int option"
  da_tokensError :: "jstr option"
  da_workerOk :: "bool option"
  da_mongoOk :: "bool option"
  da_healthError :: "jstr option"

definition data_of :: "'a loaded \<Rightarrow> 'a option" where
  "data_of l = (case l of Loaded v \<Rightarrow> Some v | Not_loaded _ \<Rightarrow> None)"

definition error_of :: "'a loaded \<Rightarrow> jstr option" where
  "error_of l = (case l of Loaded _ \<Rightarrow> None | Not_loaded e \<Rightarrow> e)"

definition busiest :: "(jstr \<Rightarrow> jstr \<Rightarrow> int) \<Rightarrow> bot_day \<Rightarrow> bot_day \<Rightarrow> int" where
  "busiest locale_compare a b =
    (let by_count = bd_messagesIn b - bd_messagesIn a in if by_count \<noteq> 0 then by_count else locale_compare (bd_label a) (bd_label b))"

definition activity_of :: "(jstr \<Rightarrow> jstr \<Rightarrow> int) \<Rightarrow> usage_day option \<Rightarrow> bot_day list" where
  "activity_of locale_compare usage = sort_by (busiest locale_compare)
     (map (\<lambda>i. \<lparr>bd_instanceId = ui_instanceId i, bd_label = ui_label i, bd_messagesIn = uc_messagesIn (ui_counters i)\<rparr>)
       (case usage of None \<Rightarrow> [] | Some u \<Rightarrow> ud_instances u))"

definition reported_day :: "token_day \<Rightarrow> bool" where
  "reported_day d \<longleftrightarrow> 0 < td_calls d \<and> (td_inputTokens d \<noteq> None \<or> td_outputTokens d \<noteq> None \<or> td_totalTokens d \<noteq> None)"

definition series_of :: "token_trend_instance \<Rightarrow> token_series" where
  "series_of i = \<lparr>tn_instanceId = ti_instanceId i, tn_label = ti_label i, tn_days = ti_days i,
     tn_calls = sum_list (map td_calls (ti_days i)), tn_reportedDays = length (filter reported_day (ti_days i))\<rparr>"

definition figures_of :: "token_series list \<Rightarrow> int list" where
  "figures_of series = concat (map (\<lambda>s. concat (map (\<lambda>d. List.map_filter id [td_inputTokens d, td_outputTokens d, td_totalTokens d]) (tn_days s))) series)"

definition dashboardRead ::
  "(jstr \<Rightarrow> jstr \<Rightarrow> int) \<Rightarrow> instance_row list loaded \<Rightarrow> usage_day loaded \<Rightarrow> token_trend loaded \<Rightarrow> health_report loaded \<Rightarrow> dashboard" where
  "dashboardRead locale_compare rows_l usage_l trend_l health_l =
    (let rows = data_of rows_l; usage = data_of usage_l; trend = data_of trend_l; health = data_of health_l;
         activity = activity_of locale_compare usage;
         tokens = map_option (\<lambda>t. map series_of (tt_instances t)) trend;
         all_figures = figures_of (case tokens of None \<Rightarrow> [] | Some ts \<Rightarrow> ts)
     in \<lparr>da_bots = map_option (\<lambda>rs. (length (filter (\<lambda>r. ir_status r = js ''connected'') rs), length rs)) rows,
         da_stalled = map_option (filter (\<lambda>r. ir_status r \<noteq> js ''connected'')) rows, da_botsError = error_of rows_l,
         da_day = map_option ud_day usage,
         da_messagesIn = map_option (\<lambda>_. sum_list (map bd_messagesIn activity)) usage,
         da_activity = activity, da_messagesError = error_of usage_l, da_tokens = tokens,
         da_tokenMax = (if all_figures \<noteq> [] then Some (Max (set all_figures)) else None), da_tokensError = error_of trend_l,
         da_workerOk = map_option (\<lambda>h. wh_ok (hr_worker h)) health, da_mongoOk = map_option hr_mongo health,
         da_healthError = error_of health_l\<rparr>)"

lemma insert_by_mset: "mset (insert_by compare x ys) = add_mset x (mset ys)"
  by (induction compare x ys rule: insert_by.induct) auto

lemma sort_by_mset: "mset (sort_by compare xs) = mset xs"
proof -
  have "mset (foldr (insert_by compare) xs []) = mset xs" by (induction xs) (simp_all add: insert_by_mset)
  then show ?thesis by (simp add: sort_by_def)
qed

text \<open>The overview counts every message of the day's page once, and every instance as capturing or stalled.\<close>

lemma overview_totals:
  "da_messagesIn (dashboardRead lc rows (Loaded u) trend health) = Some (sum_list (map (\<lambda>i. uc_messagesIn (ui_counters i)) (ud_instances u)))"
proof -
  have "sum_list (map bd_messagesIn (activity_of lc (Some u))) = sum_mset (image_mset bd_messagesIn (mset (activity_of lc (Some u))))"
    by (simp add: sum_mset_sum_list flip: mset_map)
  also have "\<dots> = sum_list (map (\<lambda>i. uc_messagesIn (ui_counters i)) (ud_instances u))"
    by (simp add: activity_of_def sort_by_mset sum_mset_sum_list comp_def flip: mset_map)
  finally show ?thesis by (simp add: dashboardRead_def Let_def data_of_def)
qed

lemma overview_bots:
  assumes "dash = dashboardRead lc (Loaded rows) usage trend health"
  shows "da_bots dash = Some (length rows - length (the (da_stalled dash)), length rows)"
  using assms sum_length_filter_compl [of "\<lambda>r. ir_status r = js ''connected''" rows] by (simp add: dashboardRead_def Let_def data_of_def)

text \<open>One failed read takes only its own readings away.\<close>

lemma overview_fails_apart:
  "da_messagesIn (dashboardRead lc rows usage trend health) = da_messagesIn (dashboardRead lc rows' usage trend' health')"
  "da_bots (dashboardRead lc rows usage trend health) = da_bots (dashboardRead lc rows usage' trend' health')"
  "da_tokens (dashboardRead lc rows usage trend health) = da_tokens (dashboardRead lc rows' usage' trend health')"
  by (simp_all add: dashboardRead_def Let_def)

section \<open>Operations\<close>

definition formatInterval :: "nat \<Rightarrow> jstr" where
  "formatInterval ms =
    (if ms = 0 then js ''not available''
     else if ms mod 3600000 = 0 then dec (ms div 3600000) @ js ''h''
     else if ms mod 60000 = 0 then dec (ms div 60000) @ js ''m''
     else if ms mod 1000 = 0 then dec (ms div 1000) @ js ''s''
     else dec ms @ js ''ms'')"

datatype loop_state = Loop_ok | Loop_failed | Loop_inactive

definition loopOutcome :: "loop_report \<Rightarrow> loop_state \<times> jstr" where
  "loopOutcome loop =
    (if lr_lastError loop \<noteq> [] then (Loop_failed, js ''Failed'')
     else case lr_lastRunAt loop of Some (c # cs) \<Rightarrow> (Loop_ok, js ''OK'') | _ \<Rightarrow> (Loop_inactive, js ''Not yet run''))"

text \<open>The locale's printing of a count, and of a percentage with at most one decimal.\<close>

record number_format =
  nf_count :: "int \<Rightarrow> jstr"
  nf_percent :: "rat \<Rightarrow> jstr"

definition formatCount :: "number_format \<Rightarrow> int \<Rightarrow> jstr" where
  "formatCount nf n = nf_count nf n"

definition formatPercent :: "number_format \<Rightarrow> int \<Rightarrow> int \<Rightarrow> jstr" where
  "formatPercent nf part whole =
    (if \<not> 0 < whole then js ''not available'' else nf_percent nf (of_int part / of_int whole * 100) @ js ''%'')"

datatype ai_totals = No_calls | Unreported | Reported "int option" "int option" int jstr bool

definition aiTotals :: "number_format \<Rightarrow> usage_tokens \<Rightarrow> int option \<Rightarrow> ai_totals" where
  "aiTotals nf tokens budget =
    (if ut_calls tokens = 0 then No_calls
     else case ut_totalTokens tokens of
         None \<Rightarrow> Unreported
       | Some n \<Rightarrow>
           (case budget of
              Some b \<Rightarrow> if b \<le> 0 then Reported (ut_inputTokens tokens) (ut_outputTokens tokens) n
                  (js ''No daily token budget is configured, so today'' @ [39] @ js ''s total is not measured against one.'') False
                else (let used = formatCount nf n @ js '' of '' @ formatCount nf b @ js '' tokens allowed today ('' @ formatPercent nf n b @ js '')''
                      in Reported (ut_inputTokens tokens) (ut_outputTokens tokens) n
                        ((if b < n then js ''Over budget: '' else []) @ used @ js ''.'') (b < n))
            | None \<Rightarrow> Reported (ut_inputTokens tokens) (ut_outputTokens tokens) n
                (js ''No daily token budget is configured, so today'' @ [39] @ js ''s total is not measured against one.'') False))"

section \<open>The scope editor\<close>

record scope_group =
  sg_jid :: jstr
  sg_name :: jstr

definition scopeIsDirty :: "jstr list \<Rightarrow> jstr list \<Rightarrow> bool" where
  "scopeIsDirty whitelisted selected =
    (let stored = remdups whitelisted; chosen = remdups selected
     in if length stored \<noteq> length chosen then True else list_ex (\<lambda>jid. jid \<notin> set chosen) stored)"

definition scopePayload :: "jstr list \<Rightarrow> jstr list" where
  "scopePayload selected = sort (remdups selected)"

definition filterGroups :: "(jstr \<Rightarrow> jstr) \<Rightarrow> scope_group list \<Rightarrow> jstr \<Rightarrow> scope_group list" where
  "filterGroups lower gs query =
    (let needle = lower (trim query)
     in if length needle = 0 then gs else filter (\<lambda>g. contains needle (lower (sg_name g)) \<or> contains needle (lower (sg_jid g))) gs)"

text \<open>The editor calls a selection changed exactly when it is another set, and saving it settles it.\<close>

lemma scope_dirty_iff: "scopeIsDirty whitelisted selected \<longleftrightarrow> set whitelisted \<noteq> set selected"
proof
  assume "scopeIsDirty whitelisted selected"
  then show "set whitelisted \<noteq> set selected"
    by (auto simp: scopeIsDirty_def Let_def list_ex_iff length_remdups_card_conv split: if_splits)
next
  assume ne: "set whitelisted \<noteq> set selected"
  have "card (set whitelisted) = card (set selected) \<Longrightarrow> \<not> set whitelisted \<subseteq> set selected"
    using ne by (metis List.finite_set card_subset_eq)
  then show "scopeIsDirty whitelisted selected"
    by (auto simp: scopeIsDirty_def Let_def list_ex_iff length_remdups_card_conv)
qed

lemma saved_scope_is_clean: "\<not> scopeIsDirty (scopePayload selected) selected"
  by (simp add: scope_dirty_iff scopePayload_def)

lemma payload_once: "distinct (scopePayload selected)" "sorted (scopePayload selected)"
  by (simp_all add: scopePayload_def)

section \<open>Forms and stamps\<close>

datatype form_field = Label_field | Form_field

record create_failure =
  cf_field :: form_field
  cf_message :: jstr
  cf_retry :: bool

definition createInstanceFailure :: "nat \<Rightarrow> jstr option \<Rightarrow> jstr option \<Rightarrow> create_failure" where
  "createInstanceFailure status code error =
    (let phrase = (case error of None \<Rightarrow> [] | Some e \<Rightarrow> trim e);
         said = (\<lambda>fallback. if phrase \<noteq> [] then phrase else fallback)
     in if code = Some (js ''label_conflict'') then \<lparr>cf_field = Label_field, cf_message = said (js ''The request was refused''), cf_retry = False\<rparr>
        else if code = Some (js ''invalid_request'') then \<lparr>cf_field = Form_field, cf_message = said (js ''The request was refused''), cf_retry = False\<rparr>
        else if code = Some (js ''worker_unreachable'') then
          \<lparr>cf_field = Form_field, cf_message = said (js ''The worker could not be reached''), cf_retry = True\<rparr>
        else \<lparr>cf_field = Form_field, cf_message = said (js ''The request was refused ('' @ dec status @ js '')''), cf_retry = True\<rparr>)"

text \<open>\<open>replace("T", " ")\<close> changes the first one.\<close>

fun replace_first :: "nat \<Rightarrow> nat \<Rightarrow> jstr \<Rightarrow> jstr" where
  "replace_first a b [] = []"
| "replace_first a b (c # cs) = (if c = a then b # cs else c # replace_first a b cs)"

definition formatStamp :: "jstr option \<Rightarrow> jstr" where
  "formatStamp v = (case v of
      Some (c # cs) \<Rightarrow> replace_first 84 32 (take 16 (c # cs)) @ js '' UTC'' | _ \<Rightarrow> js ''never'')"

section \<open>Routes that ask the worker\<close>

text \<open>What a route answers: a refusal of its own, the worker's data, or the failure response.\<close>

datatype 'a worker_route = Kept_out console_answer | Worker_data 'a | Worker_failure response | Thrown_out

definition pass_on :: "'a worker_result option \<Rightarrow> 'a worker_route option" where
  "pass_on r = map_option (\<lambda>x. case x of
      Data v \<Rightarrow> Worker_data v | Failed f \<Rightarrow> Worker_failure (workerFailureResponse f) | Call_throws \<Rightarrow> Thrown_out) r"

definition for_owner :: "console_env \<Rightarrow> console_call \<Rightarrow> (owner_identity \<Rightarrow> 'a worker_route option) \<Rightarrow> 'a worker_route option" where
  "for_owner env call handler = (case requireOwner env call of
      Inl e \<Rightarrow> Some (Kept_out (Rethrown e)) | Inr None \<Rightarrow> Some (Kept_out unauthorized_answer) | Inr (Some owner) \<Rightarrow> handler owner)"

definition for_instance ::
  "console_env \<Rightarrow> console_call \<Rightarrow> db \<Rightarrow> jstr \<Rightarrow> 'a worker_route option \<Rightarrow> 'a worker_route option" where
  "for_instance env call d inst handler = for_owner env call
     (\<lambda>owner. if instanceInOrg d (ow_organizationId owner) inst then handler else Some (Kept_out not_found_answer))"

definition getScheduler :: "console_env \<Rightarrow> worker_env \<Rightarrow> console_call \<Rightarrow> loop_report list worker_route option" where
  "getScheduler env wenv call = for_owner env call (\<lambda>_. pass_on (getWorkerScheduler wenv))"

definition getInstances :: "console_env \<Rightarrow> worker_env \<Rightarrow> console_call \<Rightarrow> instance_snapshot list worker_route option" where
  "getInstances env wenv call = for_owner env call (\<lambda>_. pass_on (listWorkerInstances wenv))"

definition deleteInstance :: "console_env \<Rightarrow> worker_env \<Rightarrow> console_call \<Rightarrow> db \<Rightarrow> jstr \<Rightarrow> unit worker_route option" where
  "deleteInstance env wenv call d inst = for_instance env call d inst (pass_on (deleteWorkerInstance wenv inst))"

definition postGroupSync :: "console_env \<Rightarrow> worker_env \<Rightarrow> console_call \<Rightarrow> db \<Rightarrow> jstr \<Rightarrow> group_sync_summary worker_route option" where
  "postGroupSync env wenv call d inst = for_instance env call d inst (pass_on (requestWorkerGroupSync wenv inst))"

text \<open>An answer of the worker about an instance goes only to the organisation that instance belongs to, and only while it is live.\<close>

lemma worker_asked_for_own_instance:
  assumes "postGroupSync env wenv call d inst = Some (Worker_data v)"
  shows "\<exists>owner. requireOwner env call = Inr (Some owner) \<and> instanceInOrg d (ow_organizationId owner) inst"
  using assms by (auto simp: postGroupSync_def for_instance_def for_owner_def split: sum.splits option.splits if_splits)

text \<open>A summary passed on says of itself that it is complete.\<close>

lemma passed_sync_is_complete: "postGroupSync env wenv call d inst = Some (Worker_data v) \<Longrightarrow> gy_ok v"
proof -
  assume "postGroupSync env wenv call d inst = Some (Worker_data v)"
  then have "pass_on (requestWorkerGroupSync wenv inst) = Some (Worker_data v)"
    by (auto simp: postGroupSync_def for_instance_def for_owner_def split: sum.splits option.splits if_splits)
  then obtain r where r: "requestWorkerGroupSync wenv inst = Some r" "r = Data v"
    by (cases "requestWorkerGroupSync wenv inst"; cases "the (requestWorkerGroupSync wenv inst)") (auto simp: pass_on_def)
  then obtain r' where "settle_sync r' = Data v" by (auto simp: requestWorkerGroupSync_def)
  then show ?thesis by (cases r') (auto simp: settle_sync_def split: if_splits)
qed

end
