(* ===== verification/ClientPanels.thy ===== *)
theory ClientPanels
  imports Pairing ConsolePages
begin

text \<open>
  The console's client components that decide something (components/actions/pending-actions-panel.tsx,
  components/instances/*.tsx, components/auth/login-form.tsx, components/messages/message-transcript.tsx and the messages page): their state, and
  what each press and each answer makes of it. Rendering is left out; an answer is a status with a body, or none at all.
\<close>

datatype client_answer = No_answer | Answer_with nat "json option"

definition status_ok :: "nat \<Rightarrow> bool" where
  "status_ok status \<longleftrightarrow> 200 \<le> status \<and> status < 300"

text \<open>\<open>response.json().catch(() => ({}))\<close> and the member \<open>error\<close> of it, as the forms read it.\<close>

definition body_error :: "json option \<Rightarrow> jstr option" where
  "body_error body = (case body of Some (JObj ob) \<Rightarrow> (case field ob ''error'' of Some (JStr e) \<Rightarrow> Some e | _ \<Rightarrow> None) | _ \<Rightarrow> None)"

definition with_status :: "string \<Rightarrow> nat \<Rightarrow> jstr" where
  "with_status phrase status = js phrase @ js '' ('' @ dec status @ js '').''"

section \<open>The approval queue\<close>

record action_item =
  it_id :: jstr
  it_shortId :: jstr
  it_instance :: jstr
  it_groupJid :: jstr
  it_action :: jstr
  it_summary :: jstr
  it_requestedAt :: jstr
  it_state :: jstr

definition pendingActionAge :: "time option \<Rightarrow> time \<Rightarrow> jstr" where
  "pendingActionAge requestedAt now = (case requestedAt of
      None \<Rightarrow> js ''an unknown length of time''
    | Some t \<Rightarrow> (let elapsed = now - t
        in if elapsed < 0 then js ''an unknown length of time''
           else if elapsed < 60000 then js ''less than a minute''
           else if elapsed < 3600000 then dec_int (elapsed div 60000) @ js ''m''
           else if elapsed < 86400000 then dec_int (elapsed div 3600000) @ js ''h''
           else dec_int (elapsed div 86400000) @ js ''d''))"

definition read_item :: "json \<Rightarrow> action_item option" where
  "read_item v = (case v of
      JObj ob \<Rightarrow>
        (case (field ob ''id'', field ob ''shortId'', field ob ''instanceId'', field ob ''groupJid'') of
           (Some (JStr i), Some (JStr s), Some (JStr inst), Some (JStr g)) \<Rightarrow>
             (case (field ob ''action'', field ob ''summary'', field ob ''requestedAt'', field ob ''state'') of
                (Some (JStr a), Some (JStr m), Some (JStr r), Some (JStr st)) \<Rightarrow>
                  Some \<lparr>it_id = i, it_shortId = s, it_instance = inst, it_groupJid = g, it_action = a, it_summary = m,
                    it_requestedAt = r, it_state = st\<rparr>
              | _ \<Rightarrow> None)
         | _ \<Rightarrow> None)
    | _ \<Rightarrow> None)"

definition readActions :: "json option \<Rightarrow> action_item list option" where
  "readActions body = (case body of
      Some (JObj ob) \<Rightarrow> (case field ob ''actions'' of Some (JArr vs) \<Rightarrow> those (map read_item vs) | _ \<Rightarrow> None) | _ \<Rightarrow> None)"

definition readErrorMessage :: "json option \<Rightarrow> jstr option" where
  "readErrorMessage body = (case body_error body of Some (c # cs) \<Rightarrow> Some (c # cs) | _ \<Rightarrow> None)"

text \<open>State and summary of the settled action.\<close>

definition readSettledAction :: "json option \<Rightarrow> (jstr \<times> jstr) option" where
  "readSettledAction body = (case body of
      Some (JObj ob) \<Rightarrow> (case field ob ''action'' of
          Some (JObj a) \<Rightarrow> (case field a ''state'' of
              Some (JStr st) \<Rightarrow> Some (st, case field a ''summary'' of Some (JStr m) \<Rightarrow> m | _ \<Rightarrow> []) | _ \<Rightarrow> None)
        | _ \<Rightarrow> None)
    | _ \<Rightarrow> None)"

type_synonym pending_decision = action_decision

record action_panel =
  pn_actions :: "action_item list option"
  pn_failedToLoad :: "jstr option"
  pn_deciding :: "(jstr \<times> pending_decision) option"
  pn_failure :: "(jstr \<times> jstr) option"
  pn_notice :: "jstr option"

definition empty_panel :: action_panel where
  "empty_panel = \<lparr>pn_actions = None, pn_failedToLoad = None, pn_deciding = None, pn_failure = None, pn_notice = None\<rparr>"

definition queue_loaded :: "client_answer \<Rightarrow> action_panel \<Rightarrow> action_panel" where
  "queue_loaded answer p = (case answer of
      No_answer \<Rightarrow> p\<lparr>pn_failedToLoad := Some (js ''The server did not answer, so nothing is known about the queue.'')\<rparr>
    | Answer_with status body \<Rightarrow> (case readActions body of
        Some listed \<Rightarrow> if status_ok status then p\<lparr>pn_actions := Some listed\<rparr>
          else p\<lparr>pn_failedToLoad := Some (with_status ''The queue could not be read'' status)\<rparr>
      | None \<Rightarrow> p\<lparr>pn_failedToLoad := Some (with_status ''The queue could not be read'' status)\<rparr>))"

definition decide_pressed :: "jstr \<Rightarrow> pending_decision \<Rightarrow> action_panel \<Rightarrow> action_panel" where
  "decide_pressed ident decision p = p\<lparr>pn_deciding := Some (ident, decision), pn_failure := None, pn_notice := None\<rparr>"

definition decide_answered :: "jstr \<Rightarrow> pending_decision \<Rightarrow> client_answer \<Rightarrow> action_panel \<Rightarrow> action_panel" where
  "decide_answered ident decision answer p = (case answer of
      No_answer \<Rightarrow> p\<lparr>pn_failure := Some (ident, js ''The server did not answer. The action is unchanged.''), pn_deciding := None\<rparr>
    | Answer_with status body \<Rightarrow>
        (let settled = readSettledAction body
         in if \<not> status_ok status then
              (let reason = readErrorMessage body;
                   message = (case settled of
                       Some (st, summary) \<Rightarrow> if st = js ''failed''
                         then summary @ [32, 8212, 32] @ (case reason of Some r \<Rightarrow> r | None \<Rightarrow> js ''the change was not made'')
                         else (case reason of Some r \<Rightarrow> r | None \<Rightarrow> with_status ''The decision was refused'' status)
                     | None \<Rightarrow> (case reason of Some r \<Rightarrow> r | None \<Rightarrow> with_status ''The decision was refused'' status))
               in p\<lparr>pn_failure := Some (ident, message), pn_deciding := None\<rparr>)
            else p\<lparr>pn_actions := map_option (filter (\<lambda>a. it_id a \<noteq> ident)) (pn_actions p),
                   pn_notice := Some (if decision = Reject_action then js ''Rejected. Nothing was changed.''
                     else case settled of
                         Some (st, summary) \<Rightarrow> if st = js ''executed'' then summary @ [32, 8212] @ js '' done.'' else js ''Approved and carried out.''
                       | None \<Rightarrow> js ''Approved and carried out.''),
                   pn_deciding := None\<rparr>))"

text \<open>The two controls of a row are held while its decision is the one in flight.\<close>

definition row_busy :: "action_panel \<Rightarrow> jstr \<Rightarrow> bool" where
  "row_busy p ident \<longleftrightarrow> map_option fst (pn_deciding p) = Some ident"

text \<open>What a browser gets of a route's answer; \<open>print\<close> is the JSON of its body.\<close>

definition browser_answer :: "(console_answer \<Rightarrow> json option) \<Rightarrow> console_answer \<Rightarrow> client_answer" where
  "browser_answer print a = (case a of
      Answer status _ \<Rightarrow> Answer_with status (print a) | Refusal status _ _ _ \<Rightarrow> Answer_with status (print a) | Rethrown _ \<Rightarrow> Answer_with 500 None)"

section \<open>The pairing screen\<close>

text \<open>An answer as the screen takes it: a snapshot, an answer that is none, a refusal with its message.\<close>

datatype snapshot_answer = Unanswered | Ok_snapshot instance_snapshot | Refused_snapshot nat "jstr option"

record pairing_live =
  pl_snapshot :: instance_snapshot
  pl_checking :: bool
  pl_failure :: "jstr option"
  pl_inFlight :: bool

definition open_screen :: "instance_snapshot \<Rightarrow> pairing_live" where
  "open_screen initial = \<lparr>pl_snapshot = initial, pl_checking = False, pl_failure = None, pl_inFlight = False\<rparr>"

definition polling :: "pairing_live \<Rightarrow> bool" where
  "polling s \<longleftrightarrow> pollsWhile (is_status (pl_snapshot s))"

definition take_snapshot :: "string \<Rightarrow> snapshot_answer \<Rightarrow> pairing_live \<Rightarrow> pairing_live" where
  "take_snapshot phrase answer s = (case answer of
      Unanswered \<Rightarrow> s\<lparr>pl_failure := Some (js ''The worker could not be reached.'')\<rparr>
    | Ok_snapshot snap \<Rightarrow> s\<lparr>pl_snapshot := snap, pl_failure := None\<rparr>
    | Refused_snapshot status message \<Rightarrow> s\<lparr>pl_failure := Some (case message of Some m \<Rightarrow> m | None \<Rightarrow> with_status phrase status)\<rparr>)"

text \<open>A check is sent unless one is in flight; the two other requests are always sent.\<close>

definition check_sent :: "pairing_live \<Rightarrow> pairing_live option" where
  "check_sent s = (if pl_inFlight s then None else Some (s\<lparr>pl_inFlight := True, pl_checking := True\<rparr>))"

definition check_answered :: "snapshot_answer \<Rightarrow> pairing_live \<Rightarrow> pairing_live" where
  "check_answered answer s = (take_snapshot ''The worker did not answer'' answer s)\<lparr>pl_inFlight := False, pl_checking := False\<rparr>"

definition request_sent :: "pairing_live \<Rightarrow> pairing_live" where
  "request_sent s = s\<lparr>pl_checking := True\<rparr>"

definition code_answered :: "snapshot_answer \<Rightarrow> pairing_live \<Rightarrow> pairing_live" where
  "code_answered answer s = (take_snapshot ''The worker refused the request'' answer s)\<lparr>pl_checking := False\<rparr>"

definition pair_answered :: "snapshot_answer \<Rightarrow> pairing_live \<Rightarrow> pairing_live" where
  "pair_answered answer s = (take_snapshot ''The worker refused the request'' answer s)\<lparr>pl_checking := False\<rparr>"

section \<open>Forms\<close>

text \<open>Saving the scope: the error shown, \<^const>\<open>None\<close> when the list was stored; the refusal names the groups it did not know.\<close>

definition refused_groups :: "json option \<Rightarrow> jstr list" where
  "refused_groups body = (case body of
      Some (JObj ob) \<Rightarrow> (case field ob ''groupJids'' of
          Some (JArr vs) \<Rightarrow> List.map_filter (\<lambda>v. case v of JStr s \<Rightarrow> Some s | _ \<Rightarrow> None) vs | _ \<Rightarrow> [])
    | _ \<Rightarrow> [])"

definition saveScope :: "client_answer \<Rightarrow> jstr option" where
  "saveScope answer = (case answer of
      No_answer \<Rightarrow> Some (js ''The server did not answer. The scope is unchanged.'')
    | Answer_with status body \<Rightarrow> if status_ok status then None
        else Some ((case body_error body of Some e \<Rightarrow> e | None \<Rightarrow> with_status ''The scope was refused'' status)
          @ (if refused_groups body = [] then [] else js '' ('' @ join (js '', '') (refused_groups body) @ js '')'')))"

record owner_form =
  of_entries :: "jstr list"
  of_phone :: jstr
  of_error :: "jstr option"

definition add_owner :: "jstr option \<Rightarrow> owner_form \<Rightarrow> owner_form" where
  "add_owner country f = (case normalizeAuthorizedJid country (of_phone f) of
      None \<Rightarrow> f\<lparr>of_error := Some (js ''Enter a valid phone number or WhatsApp JID.'')\<rparr>
    | Some jid \<Rightarrow> \<lparr>of_entries = (if jid \<in> set (of_entries f) then of_entries f else sort (of_entries f @ [jid])), of_phone = [], of_error = None\<rparr>)"

definition saveOwners :: "client_answer \<Rightarrow> jstr option" where
  "saveOwners answer = (case answer of
      No_answer \<Rightarrow> Some (js ''The server did not answer. The owner whitelist is unchanged.'')
    | Answer_with status body \<Rightarrow> if status_ok status then None
        else Some (case body_error body of Some e \<Rightarrow> e | None \<Rightarrow> with_status ''The owner whitelist was refused'' status))"

text \<open>Where the browser goes on success, or the error shown.\<close>

definition removeInstance :: "client_answer \<Rightarrow> jstr + jstr" where
  "removeInstance answer = (case answer of
      No_answer \<Rightarrow> Inl (js ''The server did not answer. The instance is unchanged.'')
    | Answer_with status body \<Rightarrow> if status_ok status then Inr (js ''/instances'')
        else Inl (case body_error body of Some e \<Rightarrow> e | None \<Rightarrow> with_status ''The instance was not removed'' status))"

text \<open>\<open>Number\<close> of the retry-after header, printed back as it was read; \<^const>\<open>None\<close> when it is not a finite positive number.\<close>

definition signInFailure :: "nat \<Rightarrow> jstr option \<Rightarrow> jstr" where
  "signInFailure status retryAfter =
    (if status = 401 then js ''That email and password do not match the owner account.''
     else if status = 400 then js ''Enter both an email address and a password.''
     else if status = 429 then js ''Too many sign-in attempts.'' @ (case retryAfter of Some n \<Rightarrow> js '' Try again in '' @ n @ js '' seconds.'' | None \<Rightarrow> [])
     else if status = 503 then js ''The attempt could not be recorded, so it was refused. Try again.''
     else js ''Sign-in failed ('' @ dec status @ js ''). Try again.'')"

section \<open>Messages\<close>

definition spaced :: "jstr \<Rightarrow> jstr" where
  "spaced s = map (\<lambda>c. if c = 95 then 32 else c) s"

definition labelForMediaStatus :: "jstr \<Rightarrow> jstr option \<Rightarrow> jstr" where
  "labelForMediaStatus status reason =
    (if status = js ''ready'' then js ''Attachment available''
     else case reason of
         Some (c # cs) \<Rightarrow> js ''Attachment could not be read: '' @ spaced (c # cs)
       | _ \<Rightarrow> if status = js ''none'' then js ''No attachment'' else js ''Attachment status: '' @ spaced status)"

text \<open>The page: the filters it accepts of its query, one page of the search, and the first page again for a cursor that is none.\<close>

record messages_page =
  mg_instance :: jstr
  mg_group :: jstr
  mg_messages :: "message_row list"
  mg_nextCursor :: "jstr option"
  mg_invalidCursor :: bool

definition truthy_text :: "jstr \<Rightarrow> jstr option" where
  "truthy_text s = (if s = [] then None else Some s)"

definition messagesPage ::
  "message_env \<Rightarrow> db \<Rightarrow> jstr \<Rightarrow> (string \<Rightarrow> jstr option) \<Rightarrow> messages_page" where
  "messagesPage env d org search =
    (let value_of = (\<lambda>k. case search k of None \<Rightarrow> [] | Some v \<Rightarrow> trim v);
         inst = value_of ''instanceId''; grp = value_of ''groupJid''; query = value_of ''q''; cursor = value_of ''cursor'';
         chosen = (if list_ex (\<lambda>i. ir_id i = inst) (listInstances d org) then inst else []);
         gs = (if chosen \<noteq> [] then filter (\<lambda>g. ig_instanceId g = chosen) (listAllGroups d org) else []);
         chosen_group = (if list_ex (\<lambda>g. gr_groupJid (ig_row g) = grp) gs then grp else []);
         limit = clampMessageLimit (Some 50);
         input = (\<lambda>c. \<lparr>mi_organizationId = org, mi_query = query, mi_instanceId = truthy_text chosen, mi_groupJid = truthy_text chosen_group,
            mi_senderJid = None, mi_kinds = [], mi_mediaStatus = None, mi_from = None, mi_to = None,
            mi_limit = Some (of_nat limit), mi_cursor = c\<rparr>);
         first = searchMessages env d (input (truthy_text cursor));
         rows = (case first of Some rs \<Rightarrow> rs | None \<Rightarrow> (case searchMessages env d (input None) of Some rs \<Rightarrow> rs | None \<Rightarrow> []))
     in \<lparr>mg_instance = chosen, mg_group = chosen_group, mg_messages = rows, mg_nextCursor = nextMessageCursor env rows limit,
         mg_invalidCursor = (first = None)\<rparr>)"

end
