(* ===== verification/ClientPanelsProps.thy ===== *)
theory ClientPanelsProps
  imports ClientPanels ExecuteRuns ConsoleProps WorkerClientProps
begin

text \<open>
  What the operator sees against what happened: the approval queue over the decision route, the pairing screen over overlapping
  requests, and the messages page over its filters.
\<close>

section \<open>A row leaves the queue only when it is settled\<close>

lemma found_after_in: "found_after P f xs = Some y \<Longrightarrow> \<exists>x. P x \<and> y = f x \<and> y \<in> set (update_one P f xs)"
proof (induction xs)
  case (Cons x xs)
  then show ?case by (cases "P x") (auto simp: found_after_def)
qed (simp add: found_after_def)

lemma decided_row:
  assumes "decideAction d inp now = (d', Decided p)"
  shows "p \<in> set (pendingActions d') \<and> pa_organizationId p = de_organizationId inp \<and> refFilter (de_ref inp) p \<and>
    (pa_state p = Pa_approved \<or> pa_state p = Pa_rejected)"
proof -
  let ?filt = "\<lambda>p. pa_organizationId p = de_organizationId inp \<and> pa_state p = Pa_pending \<and> refFilter (de_ref inp) p"
  from assms have t: "decide_txn d inp now = (d', Some p)" by (auto simp: decideAction_def split: prod.splits option.splits)
  then have f: "found_after ?filt (decide_update inp now) (pendingActions d) = Some p"
    and d': "pendingActions d' = update_one ?filt (decide_update inp now) (pendingActions d)"
    by (auto simp: decide_txn_def Let_def split: option.splits)
  from found_after_in [OF f] obtain x where "?filt x" "p = decide_update inp now x" "p \<in> set (pendingActions d')" unfolding d' by blast
  then show ?thesis by (cases "de_ref inp"; cases "de_decision inp") (auto simp: decide_update_def refFilter_def)
qed

lemma settled_row:
  assumes "settle d a st ip now = (d', Some p)"
  shows "p \<in> set (pendingActions d') \<and> pa_organizationId p = pa_organizationId a \<and> pa_id p = pa_id a \<and>
    pa_state p = (if se_failure st = None then Pa_executed else Pa_failed)"
proof -
  from assms have f: "found_after (settle_filter a) (settle_update st now) (pendingActions d) = Some p"
    and d': "pendingActions d' = update_one (settle_filter a) (settle_update st now) (pendingActions d)"
    by (auto simp: settle_def split: option.splits)
  from found_after_in [OF f] obtain x where "settle_filter a x" "p = settle_update st now x" "p \<in> set (pendingActions d')" unfolding d' by blast
  then show ?thesis by (auto simp: settle_filter_def settle_update_def)
qed

text \<open>
  The worker's own refusal of this action, under a status that is none: the table of failures has no such entry, but a code that names an inherited
  member is looked up to one without a status, and a missing status is answered as 200.
\<close>

definition refused_as_success :: "exec_env \<Rightarrow> pending_action \<Rightarrow> bool" where
  "refused_as_success env a \<longleftrightarrow> (\<exists>body f. workerRequestFor a = Inr body \<and> xe_worker env (pa_instanceId a) (pa_groupJid a) body = Inl f
     \<and> status_ok (xf_status f))"

text \<open>Of the client's failures only those are answered with a success.\<close>

lemma only_inherited_succeeds:
  assumes "callWorker env call = Some (Failed v)"
  shows "status_ok (rp_status (workerFailureResponse v)) \<longleftrightarrow> (\<exists>name \<in> set object_members. v = Inherited (js name))"
  using call_failure [OF assms]
  by (auto simp: workerFailureResponse_def respond_def status_ok_def worker_failures_def transport_failures_def failure_of_def unreachable_def
      sync_failure_def upstream_failure_def)

lemma fixed_failures: "\<not> status_ok (xf_status unknown_action)" "\<not> status_ok (xf_status nothing_queued)" "\<not> status_ok (xf_status invalid_params)"
  "\<not> status_ok (xf_status group_admin_failed)" "\<not> status_ok (xf_status revoke_failed)" "\<not> status_ok (xf_status not_approved)"
  "\<not> status_ok (xf_status unrecorded)"
  by (simp_all add: status_ok_def unknown_action_def nothing_queued_def invalid_params_def group_admin_failed_def revoke_failed_def
      not_approved_def unrecorded_def)

lemma request_failures: "workerRequestFor a = Inl f \<Longrightarrow> f = unknown_action \<or> f = invalid_params"
  by (auto simp: workerRequestFor_def or_invalid_def Let_def split: if_splits option.splits)

lemma send_failures: "sendRequestFor pd a = Inl f \<Longrightarrow> f = invalid_params"
  by (auto simp: sendRequestFor_def split: option.splits json.splits)

lemma performed_failure:
  assumes "perform env d a = (d', Inr st)" and "se_failure st = Some f" and "status_ok (xf_status f)"
  shows "refused_as_success env a"
proof -
  consider "perform_cancel env d a = (d', st)" | "perform_send env d a = (d', Inr st)" | "perform_worker env a = st"
    using assms(1) by (auto simp: perform_def Let_def split: if_splits)
  then show ?thesis
  proof cases
    case 1
    then have "f = nothing_queued"
      using assms(2) by (auto simp: perform_cancel_def failed_with_def Let_def split: if_splits prod.splits send_transition.splits)
    then show ?thesis using fixed_failures assms(3) by simp
  next
    case 2
    then have "f = invalid_params"
      using assms(2) by (auto simp: perform_send_def failed_with_def split: sum.splits prod.splits dest: send_failures)
    then show ?thesis using fixed_failures assms(3) by simp
  next
    case 3
    then have "f \<in> {unknown_action, invalid_params, revoke_failed, group_admin_failed} \<or>
        (\<exists>body. workerRequestFor a = Inr body \<and> xe_worker env (pa_instanceId a) (pa_groupJid a) body = Inl f)"
      using assms(2) by (auto simp: perform_worker_def failed_with_def Let_def split: sum.splits prod.splits if_splits dest: request_failures)
    then show ?thesis using fixed_failures assms(3) by (auto simp: refused_as_success_def)
  qed
qed

lemma execution_result:
  assumes "executeAction env d a = (d', Inr outcome)"
  shows "case outcome of
      Executed p \<Rightarrow> p \<in> set (pendingActions d') \<and> pa_organizationId p = pa_organizationId a \<and> pa_id p = pa_id a \<and> pa_state p = Pa_executed
    | Execute_failed p f \<Rightarrow> status_ok (xf_status f) \<longrightarrow> refused_as_success env a \<and> pa_state a = Pa_approved \<and>
        p \<in> set (pendingActions d') \<and> pa_organizationId p = pa_organizationId a \<and> pa_id p = pa_id a \<and> pa_state p = Pa_failed
    | execute_outcome.Refused f \<Rightarrow> \<not> status_ok (xf_status f)"
proof (cases "pa_state a = Pa_approved \<and> snd (claim d a (xe_ip env) (xe_now env)) \<noteq> None")
  case False
  then have "outcome = execute_outcome.Refused not_approved" using assms by (auto simp: executeAction_def split: if_splits prod.splits option.splits)
  then show ?thesis using fixed_failures by simp
next
  case True
  obtain d1 where "fst (claim d a (xe_ip env) (xe_now env)) = d1" by blast
  then obtain d2 st where pf: "perform env d1 a = (d2, Inr st)" and rest: "(case settle d2 a st (xe_ip env) (xe_now env) of
             (d3, None) \<Rightarrow> (d3, Inr (Execute_failed a unrecorded))
           | (d3, Some row) \<Rightarrow>
             (case se_failure st of None \<Rightarrow> (d3, Inr (Executed row)) | Some f \<Rightarrow> (d3, Inr (Execute_failed row f)))) = (d', Inr outcome)"
    using True assms by (auto simp: executeAction_def split: prod.splits option.splits sum.splits)
  show ?thesis
  proof (cases "settle d2 a st (xe_ip env) (xe_now env)")
    case (Pair d3 r)
    show ?thesis
    proof (cases r)
      case None
      with rest Pair fixed_failures show ?thesis by auto
    next
      case (Some row)
      note s = settled_row [of d2 a st "xe_ip env" "xe_now env" d3 row]
      show ?thesis
        using rest Pair Some s performed_failure [OF pf] True by (auto split: option.splits)
    qed
  qed
qed

definition settled_for :: "console_env \<Rightarrow> console_call \<Rightarrow> db \<Rightarrow> jstr \<Rightarrow> bool" where
  "settled_for env call d ident \<longleftrightarrow> (\<exists>owner p. requireOwner env call = Inr (Some owner) \<and> p \<in> set (pendingActions d) \<and>
     pa_organizationId p = ow_organizationId owner \<and> pa_id p = ident \<and> (pa_state p = Pa_rejected \<or> pa_state p = Pa_executed))"

text \<open>The worker refused the action and it is stored as failed, but the answer is a success.\<close>

definition failed_as_success :: "console_env \<Rightarrow> console_call \<Rightarrow> db \<Rightarrow> jstr \<Rightarrow> bool" where
  "failed_as_success env call d ident \<longleftrightarrow> (\<exists>owner p a. requireOwner env call = Inr (Some owner) \<and> p \<in> set (pendingActions d) \<and>
     pa_organizationId p = ow_organizationId owner \<and> pa_id p = ident \<and> pa_state p = Pa_failed \<and>
     pa_organizationId a = ow_organizationId owner \<and> pa_id a = ident \<and> pa_state a = Pa_approved \<and> refused_as_success (ce_exec env) a)"

lemma ok_answer_settles:
  assumes "postAction env call ident d = (d', a)"
    and "browser_answer print a = Answer_with status body" and "status_ok status"
  shows "settled_for env call d' ident \<or> failed_as_success env call d' ident"
proof -
  have no: "\<not> status_ok 401" "\<not> status_ok 400" "\<not> status_ok 404" "\<not> status_ok 409" "\<not> status_ok 502" "\<not> status_ok 500" by (simp_all add: status_ok_def)
  from assms no obtain owner where owner: "requireOwner env call = Inr (Some owner)"
    by (auto simp: postAction_def as_owner_def browser_answer_def unauthorized_answer_def split: sum.splits option.splits)
  let ?inp = "\<lambda>decision. \<lparr>de_organizationId = ow_organizationId owner, de_ref = By_id ident, de_decision = decision,
         de_decidedBy = ow_email owner, de_ip = client_of env call\<rparr>"
  let ?xenv = "(ce_exec env)\<lparr>xe_ip := client_of env call, xe_now := cn_now call, xe_uuid := cn_uuid call, xe_oid := cn_oid call\<rparr>"
  have w: "refused_as_success ?xenv a = refused_as_success (ce_exec env) a" for a by (simp add: refused_as_success_def)
  from assms no owner obtain decision d1 row where
    dec: "decideAction d (?inp decision) (cn_now call) = (d1, Decided row)"
    and rest: "(if pa_state row \<noteq> Pa_approved then (d1, Answer 200 (V_action row))
       else (case executeAction ?xenv d1 row of
           (d2, Inl _) \<Rightarrow> (d2, refuse 502 ''the action could not be carried out'' ''store_error'')
         | (d2, Inr (execute_outcome.Refused f)) \<Rightarrow> (d2, failure_answer f row)
         | (d2, Inr (Execute_failed done f)) \<Rightarrow> (d2, failure_answer f done)
         | (d2, Inr (Executed done)) \<Rightarrow> (d2, Answer 200 (V_action done)))) = (d', a)"
    by (auto simp: postAction_def as_owner_def with_json_def browser_answer_def refuse_def
        split: request_body.splits option.splits prod.splits decide_result.splits)
  from decided_row [OF dec] have row: "row \<in> set (pendingActions d1)" "pa_organizationId row = ow_organizationId owner" "pa_id row = ident"
    "pa_state row = Pa_approved \<or> pa_state row = Pa_rejected" by (auto simp: refFilter_def)
  show ?thesis
  proof (cases "pa_state row = Pa_approved")
    case False
    with rest row have "d' = d1" by auto
    with False row owner show ?thesis unfolding settled_for_def by blast
  next
    case True
    obtain d2 out where ex: "executeAction ?xenv d1 row = (d2, out)" by fastforce
    show ?thesis
    proof (cases out)
      case (Inl e)
      with rest ex True assms(2,3) no show ?thesis by (auto simp: refuse_def browser_answer_def)
    next
      case (Inr outcome)
      note r = execution_result [OF ex [unfolded Inr]]
      show ?thesis
      proof (cases outcome)
        case (Executed p)
        with rest ex True Inr have "d' = d2" by auto
        with r Executed row owner show ?thesis unfolding settled_for_def by auto
      next
        case (Execute_failed p f)
        with rest ex True Inr have "d' = d2" "a = failure_answer f p" by auto
        moreover from this(2) assms(2,3) have "status_ok (xf_status f)" by (auto simp: failure_answer_def browser_answer_def)
        ultimately have "failed_as_success env call d' ident"
          using r Execute_failed row owner True unfolding failed_as_success_def w
          by (intro exI [where x = owner] exI [where x = p] exI [where x = row]) auto
        then show ?thesis ..
      qed (use rest ex True Inr r assms(2,3) in \<open>auto simp: failure_answer_def browser_answer_def\<close>)
    qed
  qed
qed

text \<open>
  C40: The approval queue on screen loses a row only through an answer to a decision on that very row, and only when the
  action is settled in the database, rejected or executed, in the organisation of the session that decided: an answer that fails,
  whatever its body says, and a server that does not answer leave the row where it is. The one exception is an approved action the worker refused with a
  code that names an inherited member: it is stored as failed and yet answered with a success, and its row leaves the screen too.
\<close>

theorem queue_loses_only_settled_rows:
  assumes "postAction env call ident d = (d', a)"
    and "answer = No_answer \<or> answer = browser_answer print a"
    and "pn_actions p = Some items" and "item \<in> set items"
    and "pn_actions (decide_answered ident decision answer p) = Some items'" and "item \<notin> set items'"
  shows "it_id item = ident \<and> (settled_for env call d' ident \<or> failed_as_success env call d' ident)"
proof -
  have keep: "items' = items" if "answer = No_answer \<or> (\<exists>status body. answer = Answer_with status body \<and> \<not> status_ok status)"
    using that assms(3,5) by (auto simp: decide_answered_def Let_def)
  then obtain status body where ok: "answer = Answer_with status body" "status_ok status"
    using assms(4,6) by (cases answer) auto
  then have "items' = filter (\<lambda>x. it_id x \<noteq> ident) items" using assms(3,5) by (auto simp: decide_answered_def Let_def)
  with assms(4,6) have "it_id item = ident" by auto
  moreover have "settled_for env call d' ident \<or> failed_as_success env call d' ident"
    using ok_answer_settles [OF assms(1), of print status body] ok assms(2) by auto
  ultimately show ?thesis by blast
qed

definition ex_rejection :: json where
  "ex_rejection = JObj [(js ''decision'', JStr (js ''reject''))]"

definition ex_queue_panel :: action_panel where
  "ex_queue_panel = empty_panel\<lparr>pn_actions := Some [\<lparr>it_id = js ''a'', it_shortId = js ''AAAAAA'', it_instance = js ''i'', it_groupJid = js ''g'',
     it_action = js ''group_leave'', it_summary = [], it_requestedAt = [], it_state = js ''pending''\<rparr>]\<rparr>"

lemma ex_rejected: "\<exists>row. snd (postAction ex_console (ex_call (js ''o'') ex_rejection) (js ''a'') ex_two) = Answer 200 (V_action row)"
proof -
  have b: "cn_body (ex_call org body) = Json body" for org body by (simp add: ex_call_def)
  have r: "decision_schema ex_rejection = Some action_decision.Reject_action" by (simp add: decision_schema_def strict_object_def ex_rejection_def)
  show ?thesis
    by (simp add: postAction_def as_owner_def ex_owner_of with_json_def b r decideAction_def decide_txn_def Let_def found_after_def
        refFilter_def ex_two_def ex_staged_def decide_update_def)
qed

theorem queue_loses_only_settled_rows_witness:
  "settled_for ex_console (ex_call (js ''o'') ex_rejection) (fst (postAction ex_console (ex_call (js ''o'') ex_rejection) (js ''a'') ex_two)) (js ''a'')"
proof -
  let ?r = "postAction ex_console (ex_call (js ''o'') ex_rejection) (js ''a'') ex_two"
  obtain row where a: "snd ?r = Answer 200 (V_action row)" using ex_rejected by blast
  let ?print = "\<lambda>_. None"
  have left: "pn_actions (decide_answered (js ''a'') Reject_action (browser_answer ?print (snd ?r)) ex_queue_panel) = Some []"
    by (simp add: a browser_answer_def decide_answered_def status_ok_def ex_queue_panel_def readSettledAction_def Let_def)
  have "\<not> failed_as_success ex_console (ex_call (js ''o'') ex_rejection) (fst ?r) (js ''a'')"
    by (simp add: failed_as_success_def refused_as_success_def ex_console_def fixed_failures)
  with queue_loses_only_settled_rows [OF _ _ _ _ left, where env = ex_console and call = "ex_call (js ''o'') ex_rejection" and d = ex_two
      and d' = "fst ?r" and a = "snd ?r" and print = ?print and items = "the (pn_actions ex_queue_panel)" and item = "hd (the (pn_actions ex_queue_panel))"]
  show ?thesis by (simp add: ex_queue_panel_def)
qed

text \<open>Pressing a second row while a first decision is in flight gives the first row's controls back.\<close>

lemma second_decision_frees_first:
  "i \<noteq> j \<Longrightarrow> row_busy (decide_pressed i x p) i \<and> \<not> row_busy (decide_pressed j y (decide_pressed i x p)) i"
  by (simp add: row_busy_def decide_pressed_def)

section \<open>The pairing screen\<close>

text \<open>No check overtakes another: while one is in flight none is sent.\<close>

lemma checks_one_at_a_time: "check_sent s = Some s' \<Longrightarrow> check_sent s' = None"
  by (auto simp: check_sent_def split: if_splits)

text \<open>A failed request never takes the last snapshot off the screen.\<close>

lemma last_snapshot_stays: "(\<forall>snap. answer \<noteq> Ok_snapshot snap) \<Longrightarrow>
    pl_snapshot (check_answered answer s) = pl_snapshot s \<and> pl_snapshot (pair_answered answer s) = pl_snapshot s \<and>
    pl_snapshot (code_answered answer s) = pl_snapshot s"
  by (cases answer) (auto simp: check_answered_def pair_answered_def code_answered_def take_snapshot_def)

text \<open>
  But a check in flight when pairing is started again may answer after it, with the state from before: the screen goes back to that and,
  as it says that nothing is pairing, stops asking while the wizard runs.
\<close>

lemma stale_check_stops_polling:
  assumes "is_status before_pairing = js ''disconnected''" and "is_status started = js ''pairing''"
  shows "polling (pair_answered (Ok_snapshot started) (request_sent s))" and
    "\<not> polling (check_answered (Ok_snapshot before_pairing) (pair_answered (Ok_snapshot started) (request_sent s)))"
  using assms by (simp_all add: polling_def pollsWhile_def pair_answered_def check_answered_def take_snapshot_def)

section \<open>Forms and pages\<close>

text \<open>The owner form only ever holds canonical addresses, each once and in order.\<close>

definition owners_ok :: "jstr option \<Rightarrow> jstr list \<Rightarrow> bool" where
  "owners_ok country entries \<longleftrightarrow> sorted entries \<and> distinct entries \<and> list_all (\<lambda>j. normalizeAuthorizedJid country j = Some j) entries"

lemma owner_form_keeps: "owners_ok country (of_entries f) \<Longrightarrow> owners_ok country (of_entries (add_owner country f))"
proof (cases "normalizeAuthorizedJid country (of_phone f)")
  case (Some jid)
  assume ok: "owners_ok country (of_entries f)"
  show ?thesis
  proof (cases "jid \<in> set (of_entries f)")
    case True
    with Some ok show ?thesis by (simp add: add_owner_def)
  next
    case False
    have "normalizeAuthorizedJid country jid = Some jid" using canonical_jid_stable [OF Some] by blast
    with Some False ok show ?thesis by (auto simp: add_owner_def owners_ok_def list_all_iff)
  qed
qed (simp add: add_owner_def)

text \<open>A stored attachment is never called available: no stored status is \<open>ready\<close>.\<close>

lemma stored_attachment_label: "labelForMediaStatus (js ''stored'') None = js ''Attachment status: stored''"
  by (simp add: labelForMediaStatus_def spaced_def js_def)

text \<open>The messages page asks for a group only on an instance of the organisation that has it.\<close>

lemma messages_page_filters:
  assumes "mg_instance (messagesPage env d org search) \<noteq> []"
  shows "mg_instance (messagesPage env d org search) \<in> ir_id ` set (listInstances d org)"
  using assms by (auto simp: messagesPage_def Let_def list_ex_iff image_iff split: if_splits) metis

lemma messages_page_group:
  assumes "mg_group (messagesPage env d org search) \<noteq> []"
  shows "\<exists>g \<in> set (listAllGroups d org). ig_instanceId g = mg_instance (messagesPage env d org search) \<and>
    gr_groupJid (ig_row g) = mg_group (messagesPage env d org search)"
  using assms by (auto simp: messagesPage_def Let_def list_ex_iff split: if_splits)

end
