(* ===== verification/ClientForms.thy ===== *)
theory ClientForms
  imports ClientPanels Whitelist
begin

text \<open>
  The console's smaller client components: the scope picker (components/instances/scope-editor.tsx), the forms that create an instance and
  sync its groups, the sign-in form, the viewer of a raw message and the link to its media, and what the operator's log says of a failure it
  has met before (server/log-failure.ts). A pressed control and the answer of its request are functions of the component's state.
\<close>

section \<open>The scope picker\<close>

text \<open>The operator ticks and unticks the boxes of the groups the search leaves visible, and may start over.\<close>

datatype picker_click = Ticked jstr | Unticked jstr | Reset

definition pick :: "jstr list \<Rightarrow> picker_click \<Rightarrow> jstr list \<Rightarrow> jstr list" where
  "pick whitelisted click selected = (case click of
      Ticked jid \<Rightarrow> selected @ [jid] | Unticked jid \<Rightarrow> filter (\<lambda>j. j \<noteq> jid) selected | Reset \<Rightarrow> whitelisted)"

definition pick_all :: "jstr list \<Rightarrow> picker_click list \<Rightarrow> jstr list" where
  "pick_all whitelisted clicks = fold (pick whitelisted) clicks whitelisted"

definition clickable :: "(jstr \<Rightarrow> jstr) \<Rightarrow> scope_group list \<Rightarrow> jstr \<Rightarrow> jstr list" where
  "clickable lower gs query = map sg_jid (filterGroups lower gs query)"

definition save_enabled :: "jstr list \<Rightarrow> jstr list \<Rightarrow> bool \<Rightarrow> bool" where
  "save_enabled whitelisted selected saving \<longleftrightarrow> scopeIsDirty whitelisted selected \<and> \<not> saving"

definition clicks_on :: "jstr set \<Rightarrow> picker_click \<Rightarrow> bool" where
  "clicks_on J click \<longleftrightarrow> (case click of Ticked jid \<Rightarrow> jid \<in> J | Unticked jid \<Rightarrow> jid \<in> J | Reset \<Rightarrow> True)"

lemma clickable_listed: "set (clickable lower gs query) \<subseteq> sg_jid ` set gs"
  by (auto simp: clickable_def filterGroups_def Let_def)

text \<open>What is saved was stored or could be ticked; a stored entry without a box is sent whatever is clicked.\<close>

lemma pick_within: "clicks_on J c \<Longrightarrow> set sel \<subseteq> set W \<union> J \<Longrightarrow> set (pick W c sel) \<subseteq> set W \<union> J"
  by (cases c) (auto simp: pick_def clicks_on_def)

lemma pick_keeps: "clicks_on J c \<Longrightarrow> jid \<in> set W \<Longrightarrow> jid \<notin> J \<Longrightarrow> jid \<in> set sel \<Longrightarrow> jid \<in> set (pick W c sel)"
  by (cases c) (auto simp: pick_def clicks_on_def)

lemma picked_within:
  assumes "list_all (clicks_on J) clicks"
  shows "set (pick_all W clicks) \<subseteq> set W \<union> J"
proof -
  have "list_all (clicks_on J) clicks \<Longrightarrow> set sel \<subseteq> set W \<union> J \<Longrightarrow> set (fold (pick W) clicks sel) \<subseteq> set W \<union> J" for sel
    by (induction clicks arbitrary: sel) (simp_all add: pick_within)
  with assms show ?thesis by (simp add: pick_all_def)
qed

lemma unlisted_entry_stays:
  assumes "list_all (clicks_on J) clicks" "jid \<in> set W" "jid \<notin> J"
  shows "jid \<in> set (scopePayload (pick_all W clicks))"
proof -
  have "list_all (clicks_on J) clicks \<Longrightarrow> jid \<in> set sel \<Longrightarrow> jid \<in> set (fold (pick W) clicks sel)" for sel
    using assms(2,3) by (induction clicks arbitrary: sel) (auto intro: pick_keeps)
  with assms(1,2) show ?thesis by (simp add: pick_all_def scopePayload_def)
qed

text \<open>
  While the stored list names only groups the instance has, the picker over those groups never sends a list the write refuses for a group it
  does not know.
\<close>

lemma picker_never_refused:
  assumes "list_all (clicks_on (gd_groupJid ` {g \<in> set (groups d). of_instance org inst g})) clicks"
    and "readInstanceConfig d org inst = Some row"
    and "set (ic_groupJidWhitelist row) \<subseteq> gd_groupJid ` {g \<in> set (groups d). of_instance org inst g}"
    and "\<And>g. g \<in> set (groups d) \<Longrightarrow> trim (gd_groupJid g) = gd_groupJid g"
    and payload: "jids = scopePayload (pick_all (ic_groupJidWhitelist row) clicks)"
  shows "\<exists>after. snd (updateInstanceConfig d org inst jids ip now) = Config_updated after"
proof -
  let ?J = "gd_groupJid ` {g \<in> set (groups d). of_instance org inst g}"
  have J: "set jids \<subseteq> ?J" using picked_within [OF assms(1), of "ic_groupJidWhitelist row"] assms(3) by (simp add: payload scopePayload_def) blast
  have "unknownGroups d org inst (sorted_jids jids) = []"
  proof -
    have "\<exists>g \<in> set (groups d). of_instance org inst g \<and> gd_groupJid g = j" if "j \<in> set (sorted_jids jids)" for j
    proof -
      from that obtain k where "k \<in> set jids" "j = trim k" by (auto simp: sorted_jids_def)
      with J obtain g where "g \<in> set (groups d)" "of_instance org inst g" "j = trim (gd_groupJid g)" by blast
      with assms(4) show ?thesis by metis
    qed
    then show ?thesis by (force simp: unknownGroups_def Let_def filter_empty_conv)
  qed
  then show ?thesis by (simp add: updateInstanceConfig_def assms(2) Let_def)
qed

section \<open>Creating an instance\<close>

record create_form =
  cr_mode :: string
  cr_pending :: bool
  cr_label_error :: "jstr option"
  cr_notice :: "(jstr \<times> bool) option"

text \<open>The request a submission sends; \<^const>\<open>None\<close> while one is under way.\<close>

definition create_request :: "create_form \<Rightarrow> jstr option \<Rightarrow> jstr option \<Rightarrow> (create_form \<times> jobject) option" where
  "create_request f label phone =
    (if cr_pending f then None
     else let name = trim (case label of None \<Rightarrow> [] | Some s \<Rightarrow> s); number = trim (case phone of None \<Rightarrow> [] | Some s \<Rightarrow> s);
            sent = [(js ''label'', JStr name), (js ''mode'', JStr (js (cr_mode f)))]
          in Some (f\<lparr>cr_pending := True, cr_label_error := None, cr_notice := None\<rparr>,
               if cr_mode f = ''code'' then sent @ [(js ''phoneNumber'', JStr number)] else sent))"

text \<open>Where the browser goes, or what the form shows. A success whose body is not JSON is thrown at nobody and the form stays pending.\<close>

datatype create_outcome = Loads jstr | Shows create_form

definition text_member :: "json option \<Rightarrow> string \<Rightarrow> jstr option" where
  "text_member body k = (case body of Some (JObj ob) \<Rightarrow> (case field ob k of Some (JStr s) \<Rightarrow> Some s | _ \<Rightarrow> None) | _ \<Rightarrow> None)"

definition create_answered :: "client_answer \<Rightarrow> create_form \<Rightarrow> create_outcome" where
  "create_answered answer f = (case answer of
      No_answer \<Rightarrow> Shows (f\<lparr>cr_notice := Some (js ''The server did not answer. Check your connection and try again.'', True), cr_pending := False\<rparr>)
    | Answer_with status body \<Rightarrow>
        if status_ok status then
          (case body of None \<Rightarrow> Shows f
           | Some _ \<Rightarrow> (case text_member body ''id'' of
               Some (c # cs) \<Rightarrow> Loads (js ''/instances/'' @ (c # cs)) | _ \<Rightarrow> Loads (js ''/instances'')))
        else (let failure = createInstanceFailure status (text_member body ''code'') (text_member body ''error'')
              in if cf_field failure = Label_field then Shows (f\<lparr>cr_label_error := Some (cf_message failure), cr_pending := False\<rparr>)
                 else Shows (f\<lparr>cr_notice := Some (cf_message failure, cf_retry failure), cr_pending := False\<rparr>)))"

text \<open>A second submission is not sent while the first is under way, and every answer but one gives the form back or leaves the page.\<close>

lemma one_creation_at_a_time: "create_request f l p = Some (f', sent) \<Longrightarrow> create_request f' l' p' = None"
  by (auto simp: create_request_def Let_def split: if_splits)

lemma create_form_comes_back:
  assumes "create_answered answer f = Shows f'"
  shows "\<not> cr_pending f' \<or> (f' = f \<and> (\<exists>status. answer = Answer_with status None \<and> status_ok status))"
  using assms by (auto simp: create_answered_def Let_def split: client_answer.splits if_splits option.splits list.splits)

text \<open>The request the form sends in each mode has the phone number exactly when the mode asks for it.\<close>

lemma phone_number_with_code_only:
  "create_request f l p = Some (f', sent) \<Longrightarrow> field sent ''phoneNumber'' \<noteq> None \<longleftrightarrow> cr_mode f = ''code''"
  by (auto simp: create_request_def field_def Let_def split: if_splits)

section \<open>Group sync, sign-in\<close>

record sync_panel =
  sy_syncing :: bool
  sy_error :: "jstr option"
  sy_summary :: "jstr option"

definition sync_pressed :: "sync_panel \<Rightarrow> sync_panel" where
  "sync_pressed p = p\<lparr>sy_syncing := True, sy_error := None, sy_summary := None\<rparr>"

definition count_text :: "jobject \<Rightarrow> string \<Rightarrow> jstr" where
  "count_text ob k = (case field ob k of Some (JNum n) \<Rightarrow> dec_int n | _ \<Rightarrow> js ''0'')"

definition sync_answered :: "client_answer \<Rightarrow> sync_panel \<Rightarrow> sync_panel" where
  "sync_answered answer p = (case answer of
      No_answer \<Rightarrow> p\<lparr>sy_error := Some (js ''The server did not answer.''), sy_syncing := False\<rparr>
    | Answer_with status body \<Rightarrow>
        if \<not> status_ok status then
          p\<lparr>sy_error := Some (case body_error body of Some e \<Rightarrow> e | None \<Rightarrow> with_status ''The sync failed'' status), sy_syncing := False\<rparr>
        else (case body of
            Some (JObj ob) \<Rightarrow> p\<lparr>sy_summary := Some (count_text ob ''total'' @ js '' groups in the snapshot, '' @ count_text ob ''added'' @ js '' new, ''
                @ count_text ob ''subjectUpdated'' @ js '' renamed, '' @ count_text ob ''markedLeft'' @ js '' left.''), sy_syncing := False\<rparr>
          | _ \<Rightarrow> p\<lparr>sy_syncing := False\<rparr>))"

lemma sync_comes_back: "\<not> sy_syncing (sync_answered answer p)"
  by (auto simp: sync_answered_def split: client_answer.splits option.splits json.splits)

record login_form =
  lf_pending :: bool
  lf_error :: "jstr option"

definition login_pressed :: "login_form \<Rightarrow> login_form option" where
  "login_pressed f = (if lf_pending f then None else Some \<lparr>lf_pending = True, lf_error = None\<rparr>)"

text \<open>The answer's status with its retry-after, or none; on success the browser loads the page the sign-in was for.\<close>

definition login_answered :: "jstr \<Rightarrow> (nat \<times> jstr option) option \<Rightarrow> login_form \<Rightarrow> jstr + login_form" where
  "login_answered next_path answer f = (case answer of
      None \<Rightarrow> Inr (f\<lparr>lf_error := Some (js ''The server did not answer. Check your connection and try again.''), lf_pending := False\<rparr>)
    | Some (status, retryAfter) \<Rightarrow>
        if status_ok status then Inl next_path else Inr (f\<lparr>lf_error := Some (signInFailure status retryAfter), lf_pending := False\<rparr>))"

lemma login_form_comes_back: "login_answered n answer f = Inr f' \<Longrightarrow> \<not> lf_pending f' \<and> lf_error f' \<noteq> None"
  by (auto simp: login_answered_def split: option.splits if_splits)

section \<open>A message's raw form and its media\<close>

record raw_viewer =
  rv_open :: bool
  rv_loading :: bool
  rv_error :: "jstr option"
  rv_raw :: "jobject option"

definition closed_viewer :: raw_viewer where
  "closed_viewer = \<lparr>rv_open = False, rv_loading = False, rv_error = None, rv_raw = None\<rparr>"

text \<open>A press, and whether it sends the request.\<close>

definition viewer_pressed :: "raw_viewer \<Rightarrow> raw_viewer \<times> bool" where
  "viewer_pressed v = (if rv_open v then (v\<lparr>rv_open := False\<rparr>, False)
     else if rv_raw v \<noteq> None \<or> rv_loading v then (v\<lparr>rv_open := True\<rparr>, False)
     else (v\<lparr>rv_open := True, rv_loading := True, rv_error := None\<rparr>, True))"

definition viewer_answered :: "client_answer \<Rightarrow> raw_viewer \<Rightarrow> raw_viewer" where
  "viewer_answered answer v = (let unread = js ''The stored raw message could not be read.'' in (case answer of
      No_answer \<Rightarrow> v\<lparr>rv_error := Some unread, rv_loading := False\<rparr>
    | Answer_with status body \<Rightarrow>
        if \<not> status_ok status then v\<lparr>rv_error := Some (js ''The stored raw message is not available.''), rv_loading := False\<rparr>
        else (case body of
            Some (JObj ob) \<Rightarrow> if field ob ''message'' = None \<or> field ob ''truncated'' = None \<or> field ob ''bytes'' = None
              then v\<lparr>rv_error := Some unread, rv_loading := False\<rparr> else v\<lparr>rv_raw := Some ob, rv_loading := False\<rparr>
          | _ \<Rightarrow> v\<lparr>rv_error := Some unread, rv_loading := False\<rparr>)))"

text \<open>The viewer's life: presses, and the answer of the request under way.\<close>

inductive viewer_life :: "nat \<Rightarrow> raw_viewer \<Rightarrow> bool" where
  start: "viewer_life 0 closed_viewer"
| press: "viewer_life n v \<Longrightarrow> viewer_life (if snd (viewer_pressed v) then Suc n else n) (fst (viewer_pressed v))"
| answered: "viewer_life (Suc n) v \<Longrightarrow> viewer_life n (viewer_answered answer v)"

text \<open>One request is under way exactly while the viewer says so, and nothing is asked again once it was read.\<close>

lemma viewer_requests: "viewer_life n v \<Longrightarrow> n = (if rv_loading v then 1 else 0) \<and> (rv_loading v \<longrightarrow> rv_raw v = None)"
proof (induction rule: viewer_life.induct)
  case (answered n v answer)
  then have n: "n = 0" by (auto split: if_splits)
  have "\<not> rv_loading (viewer_answered answer v)"
    by (auto simp: viewer_answered_def Let_def split: client_answer.splits option.splits json.splits)
  with n show ?case by simp
qed (auto simp: closed_viewer_def viewer_pressed_def)

lemma read_once: "rv_raw v \<noteq> None \<Longrightarrow> \<not> snd (viewer_pressed v) \<and> rv_raw (fst (viewer_pressed v)) = rv_raw v"
  by (simp add: viewer_pressed_def)

text \<open>The address the link opens, or what it says. An answer that is not JSON is thrown into the link's own catch.\<close>

definition media_link :: "client_answer \<Rightarrow> jstr + jstr" where
  "media_link answer = (case answer of
      No_answer \<Rightarrow> Inl (js ''Media could not be opened.'')
    | Answer_with status body \<Rightarrow>
        if \<not> status_ok status then Inl (js ''Media is not available to open.'')
        else if body = None \<or> body = Some JNull then Inl (js ''Media could not be opened.'')
        else (case text_member body ''url'' of Some (c # cs) \<Rightarrow> Inr (c # cs) | _ \<Rightarrow> Inl (js ''Media is not available to open.'')))"

end
