(* ===== verification/ThemeShell.thy ===== *)
theory ThemeShell
  imports Prelude Complex_Main
begin

text \<open>
  The theme of the page (components/theme/theme-provider.tsx, theme-script.ts) and the navigation of the console's shell
  (components/shell/nav.ts, app-topbar.tsx). What the browser supplies is state here: the stored preference, or no storage at all, and what
  the operating system prefers. A view transition is the swap it will run, and the open swaps wait in order.
\<close>

section \<open>The theme\<close>

datatype theme = Light_theme | Dark_theme | System_theme

text \<open>What \<open>localStorage\<close> holds under the theme's key; \<^const>\<open>None\<close> where reading it throws.\<close>

type_synonym theme_storage = "jstr option option"

definition stored :: "theme_storage \<Rightarrow> theme" where
  "stored storage = (case storage of
      Some (Some v) \<Rightarrow> if v = js ''light'' then Light_theme else if v = js ''dark'' then Dark_theme else System_theme
    | _ \<Rightarrow> System_theme)"

text \<open>Whether a theme is painted dark, given what the system prefers.\<close>

definition resolve :: "bool \<Rightarrow> theme \<Rightarrow> bool" where
  "resolve prefersDark theme = (case theme of Light_theme \<Rightarrow> False | Dark_theme \<Rightarrow> True | System_theme \<Rightarrow> prefersDark)"

text \<open>The script that runs before the first paint; where storage throws it leaves the light page of the server.\<close>

definition theme_script :: "bool \<Rightarrow> theme_storage \<Rightarrow> bool" where
  "theme_script prefersDark storage = (case storage of None \<Rightarrow> False | Some _ \<Rightarrow> resolve prefersDark (stored storage))"

record theme_page =
  tp_theme :: theme
  tp_dark :: bool
  tp_storage :: theme_storage
  tp_prefersDark :: bool
  tp_swaps :: "bool list"

definition server_page :: "bool \<Rightarrow> theme_storage \<Rightarrow> theme_page" where
  "server_page prefersDark storage = \<lparr>tp_theme = System_theme, tp_dark = theme_script prefersDark storage, tp_storage = storage,
     tp_prefersDark = prefersDark, tp_swaps = []\<rparr>"

definition paint :: "bool \<Rightarrow> theme_page \<Rightarrow> theme_page" where
  "paint resolved p = p\<lparr>tp_dark := resolved\<rparr>"

text \<open>
  Mounting: the first effects of the provider, which read the preference for the next render and paint the theme of this one; then the
  render with the stored preference, and its effect.
\<close>

definition first_effects :: "theme_page \<Rightarrow> theme_page" where
  "first_effects p = paint (resolve (tp_prefersDark p) (tp_theme p)) p"

definition adopt :: "theme_page \<Rightarrow> theme_page" where
  "adopt p = (let p' = p\<lparr>tp_theme := stored (tp_storage p)\<rparr> in paint (resolve (tp_prefersDark p') (tp_theme p')) p')"

definition mounted :: "theme_page \<Rightarrow> theme_page" where
  "mounted p = adopt (first_effects p)"

text \<open>The listener on the system's preference is there only while the theme follows it.\<close>

definition onChange :: "bool \<Rightarrow> theme_page \<Rightarrow> theme_page" where
  "onChange prefersDark p = (let p' = p\<lparr>tp_prefersDark := prefersDark\<rparr>
     in if tp_theme p' = System_theme then paint (resolve prefersDark System_theme) p' else p')"

definition persist :: "bool \<Rightarrow> theme_page \<Rightarrow> theme_page" where
  "persist dark p = p\<lparr>tp_storage := (case tp_storage p of None \<Rightarrow> None | Some _ \<Rightarrow> Some (Some (js (if dark then ''dark'' else ''light'')))),
     tp_theme := (if dark then Dark_theme else Light_theme)\<rparr>"

definition commit :: "bool \<Rightarrow> theme_page \<Rightarrow> theme_page" where
  "commit dark p = persist dark (paint dark p)"

text \<open>Without a point to grow from, with reduced motion or without the browser's support the swap is made at once.\<close>

definition swapTo :: "bool \<Rightarrow> bool \<Rightarrow> theme_page \<Rightarrow> theme_page" where
  "swapTo at_once dark p = (if at_once then commit dark p else p\<lparr>tp_swaps := tp_swaps p @ [dark]\<rparr>)"

definition toggle :: "bool \<Rightarrow> theme_page \<Rightarrow> theme_page" where
  "toggle at_once p = swapTo at_once (\<not> tp_dark p) p"

definition at_once :: "(int \<times> int) option \<Rightarrow> bool \<Rightarrow> bool \<Rightarrow> bool" where
  "at_once origin reducedMotion transitions \<longleftrightarrow> origin = None \<or> reducedMotion \<or> \<not> transitions"

definition coverRadius :: "real \<Rightarrow> real \<Rightarrow> real \<Rightarrow> real \<Rightarrow> real" where
  "coverRadius x y width height = sqrt ((max x (width - x))\<^sup>2 + (max y (height - y))\<^sup>2)"

text \<open>What happens to a mounted page: the system's preference changes, the control is pressed, an open transition makes its swap.\<close>

inductive theme_step :: "theme_page \<Rightarrow> theme_page \<Rightarrow> bool" where
  system_changes: "theme_step p (onChange prefersDark p)"
| pressed: "theme_step p (toggle now p)"
| swapped: "tp_swaps p = dark # rest \<Longrightarrow> theme_step p (commit dark (p\<lparr>tp_swaps := rest\<rparr>))"

inductive_cases theme_stepE: "theme_step p q"

inductive theme_reachable :: "bool \<Rightarrow> theme_storage \<Rightarrow> theme_page \<Rightarrow> bool" for prefersDark storage where
  start: "theme_reachable prefersDark storage (mounted (server_page prefersDark storage))"
| move: "theme_reachable prefersDark storage p \<Longrightarrow> theme_step p q \<Longrightarrow> theme_reachable prefersDark storage q"

lemmas theme_defs = paint_def persist_def commit_def swapTo_def toggle_def onChange_def adopt_def first_effects_def mounted_def
  server_page_def theme_script_def resolve_def stored_def Let_def

text \<open>
  The page is always painted in the theme that is chosen, and the preference that is stored, where one can be, is that choice: the next page
  starts as this one is painted.
\<close>

definition painted_as_chosen :: "theme_page \<Rightarrow> bool" where
  "painted_as_chosen p \<longleftrightarrow> tp_dark p = resolve (tp_prefersDark p) (tp_theme p) \<and> (tp_storage p \<noteq> None \<longrightarrow> stored (tp_storage p) = tp_theme p)"

lemma painted_as_chosen_mounted: "painted_as_chosen (mounted p)"
  by (simp add: painted_as_chosen_def mounted_def adopt_def Let_def paint_def)

lemma painted_as_chosen_step: "theme_step p q \<Longrightarrow> painted_as_chosen p \<Longrightarrow> painted_as_chosen q"
  by (erule theme_stepE) (auto simp: painted_as_chosen_def theme_defs js_def split: option.splits theme.splits if_splits)

lemma page_painted_as_chosen: "theme_reachable prefersDark storage p \<Longrightarrow> painted_as_chosen p"
  by (induction rule: theme_reachable.induct) (auto intro: painted_as_chosen_mounted painted_as_chosen_step)

lemma storage_availability_kept: "theme_step p q \<Longrightarrow> tp_storage q = None \<longleftrightarrow> tp_storage p = None"
  by (erule theme_stepE) (auto simp: theme_defs split: option.splits)

theorem next_page_starts_as_this_one:
  assumes "theme_reachable prefersDark storage p" and "tp_storage p \<noteq> None"
  shows "theme_script (tp_prefersDark p) (tp_storage p) = tp_dark p"
  using page_painted_as_chosen [OF assms(1)] assms(2) by (auto simp: painted_as_chosen_def theme_script_def)

text \<open>But the first effects paint the system's theme over a stored one that differs, until the next render.\<close>

lemma first_effects_repaint:
  assumes "storage = Some (Some (js ''dark''))"
  shows "tp_dark (server_page False storage)" and "\<not> tp_dark (first_effects (server_page False storage))"
    and "tp_dark (mounted (server_page False storage))"
  using assms by (simp_all add: theme_defs)

text \<open>Two presses before the first transition makes its swap are one.\<close>

lemma double_press_swaps_once: "tp_swaps p = [] \<Longrightarrow> tp_swaps (toggle False (toggle False p)) = [\<not> tp_dark p, \<not> tp_dark p]"
  by (simp add: theme_defs)

text \<open>The circle reaches every point of the window, wherever it grows from.\<close>

lemma circle_covers:
  assumes "0 \<le> a" "a \<le> width" "0 \<le> b" "b \<le> height"
  shows "sqrt ((a - x)\<^sup>2 + (b - y)\<^sup>2) \<le> coverRadius x y width height"
proof -
  have "\<bar>a - x\<bar> \<le> max x (width - x)" "\<bar>b - y\<bar> \<le> max y (height - y)" using assms by auto
  then have "(a - x)\<^sup>2 \<le> (max x (width - x))\<^sup>2" "(b - y)\<^sup>2 \<le> (max y (height - y))\<^sup>2"
    by (metis abs_ge_zero abs_le_square_iff abs_of_nonneg order_trans)+
  then show ?thesis by (simp add: coverRadius_def)
qed

section \<open>Navigation\<close>

definition nav_items :: "(string \<times> string) list" where
  "nav_items = [(''/'', ''Overview''), (''/instances'', ''Instances''), (''/messages'', ''Messages''), (''/operations'', ''Operations'')]"

definition isActivePath :: "jstr \<Rightarrow> jstr \<Rightarrow> bool" where
  "isActivePath pathname href = (if href = js ''/'' then pathname = js ''/''
     else pathname = href \<or> take (length href + 1) pathname = href @ js ''/'')"

text \<open>An item is active on the paths whose first segment is its own, so at most one is.\<close>

lemma active_segment:
  assumes "isActivePath p (47 # k)" "47 \<notin> set k"
  shows "takeWhile (\<lambda>c. c \<noteq> 47) (tl p) = k"
proof -
  have whole: "takeWhile (\<lambda>c. c \<noteq> 47) k = k" using assms(2) by (auto simp: takeWhile_eq_all_conv)
  from assms(1) consider "p = 47 # k" | "take (length k + 2) p = 47 # k @ [47]" by (auto simp: isActivePath_def js_def split: if_splits)
  then show ?thesis
  proof cases
    case 1
    with whole show ?thesis by simp
  next
    case 2
    then have "p = (47 # k @ [47]) @ drop (length k + 2) p" by (metis append_take_drop_id)
    then have "tl p = k @ 47 # drop (length k + 2) p" by (metis append.assoc append_Cons append_Nil list.sel(3))
    moreover have "takeWhile (\<lambda>c. c \<noteq> 47) (k @ 47 # rest) = k" for rest using assms(2) by (subst takeWhile_append2) auto
    ultimately show ?thesis by simp
  qed
qed

lemma nav_segments: "item \<in> set nav_items \<Longrightarrow> \<exists>k. js (fst item) = 47 # k \<and> 47 \<notin> set k"
  by (auto simp: nav_items_def js_def)

lemma one_item_active:
  assumes "item \<in> set nav_items" "other \<in> set nav_items" "isActivePath p (js (fst item))" "isActivePath p (js (fst other))"
  shows "item = other"
proof -
  from nav_segments [OF assms(1)] nav_segments [OF assms(2)] obtain k k' where
    k: "js (fst item) = 47 # k" "47 \<notin> set k" and k': "js (fst other) = 47 # k'" "47 \<notin> set k'" by blast
  from active_segment [OF assms(3) [unfolded k(1)] k(2)] active_segment [OF assms(4) [unfolded k'(1)] k'(2)]
  have "js (fst item) = js (fst other)" by (simp add: k(1) k'(1))
  with assms(1,2) show ?thesis by (auto simp: nav_items_def)
qed

text \<open>Leaving: only a recorded sign-out leaves the page; the argument is whether the answer came and was a success.\<close>

definition signOut :: "bool option \<Rightarrow> jstr + jstr" where
  "signOut ok = (if ok = Some True then Inr (js ''/login'') else Inl (js ''Sign-out failed: the attempt could not be recorded. Try again.''))"

section \<open>Badges and log lines\<close>

datatype badge_state = Ok_state | Waiting_state | Failed_state | Inactive_state

definition instance_status :: "(string \<times> badge_state \<times> string) list" where
  "instance_status = [(''connected'', Ok_state, ''Connected''), (''pairing'', Waiting_state, ''Pairing''),
     (''disconnected'', Inactive_state, ''Disconnected''), (''logged_out'', Failed_state, ''Logged out''), (''error'', Failed_state, ''Error'')]"

definition instanceStatusBadge :: "jstr \<Rightarrow> badge_state \<times> jstr" where
  "instanceStatusBadge status = (case find (\<lambda>(k, _). js k = status) instance_status of
      Some (_, state, label) \<Rightarrow> (state, js label) | None \<Rightarrow> (Inactive_state, status))"

definition dependencyBadge :: "bool \<Rightarrow> jstr \<Rightarrow> jstr \<Rightarrow> badge_state \<times> jstr" where
  "dependencyBadge ok okLabel failedLabel = (if ok then (Ok_state, okLabel) else (Failed_state, failedLabel))"

text \<open>A badge says something whenever the status does, and never calls a status it does not know well.\<close>

lemma unknown_status_not_ok: "fst (instanceStatusBadge s) = Ok_state \<Longrightarrow> s = js ''connected''"
  by (auto simp: instanceStatusBadge_def instance_status_def split: if_splits)

end
