(* ===== verification/Deployment.thy ===== *)
theory Deployment
  imports Clock
begin

text \<open>
  Two seams of the deployment: the zone times are written in (server/display-time.ts) and the request body of the model's endpoint
  (server/ai/provider.ts). What \<open>Intl\<close> accepts as a zone and prints as the parts of a date, and the SDK's mark on its errors, are arguments.
\<close>

section \<open>Display time\<close>

definition fallback_time_zone :: jstr where "fallback_time_zone = js ''Asia/Jakarta''"

definition usableTimeZone :: "(jstr \<Rightarrow> bool) \<Rightarrow> jstr \<Rightarrow> bool" where
  "usableTimeZone accepts v \<longleftrightarrow> v \<noteq> [] \<and> accepts v"

text \<open>The variable as set and the pair the process remembers; the answer with what it remembers next.\<close>

definition displayTimeZone :: "(jstr \<Rightarrow> bool) \<Rightarrow> jstr option \<Rightarrow> (jstr \<times> jstr) option \<Rightarrow> jstr \<times> (jstr \<times> jstr) option" where
  "displayTimeZone accepts env resolved =
    (let configured = trim (case env of None \<Rightarrow> [] | Some s \<Rightarrow> s);
         fresh = (if usableTimeZone accepts configured then configured else fallback_time_zone)
     in case resolved of
         Some (c, zone) \<Rightarrow> if c = configured then (zone, resolved) else (fresh, Some (configured, fresh))
       | None \<Rightarrow> (fresh, Some (configured, fresh)))"

definition part :: "(jstr \<times> jstr) list \<Rightarrow> string \<Rightarrow> jstr" where
  "part parts k = (case map_of (rev parts) (js k) of None \<Rightarrow> js ''undefined'' | Some v \<Rightarrow> v)"

definition offsetOf :: "jstr option \<Rightarrow> jstr" where
  "offsetOf named = (case named of
      None \<Rightarrow> js ''+00:00''
    | Some s \<Rightarrow> if s = js ''GMT'' then js ''+00:00'' else if take 3 s = js ''GMT'' then drop 3 s else s)"

text \<open>The parts the zone's formatter prints of a date, and its name for the offset.\<close>

definition toZonedIso :: "(jstr \<times> jstr) list \<Rightarrow> jstr option \<Rightarrow> jstr" where
  "toZonedIso parts named =
     part parts ''year'' @ js ''-'' @ part parts ''month'' @ js ''-'' @ part parts ''day'' @ js ''T'' @
     part parts ''hour'' @ js '':'' @ part parts ''minute'' @ js '':'' @ part parts ''second'' @ offsetOf named"

text \<open>What the process remembers never makes an answer differ from the one the variable alone would give.\<close>

definition remembers_right :: "(jstr \<Rightarrow> bool) \<Rightarrow> (jstr \<times> jstr) option \<Rightarrow> bool" where
  "remembers_right accepts resolved \<longleftrightarrow>
    (case resolved of None \<Rightarrow> True | Some (c, zone) \<Rightarrow> zone = (if usableTimeZone accepts c then c else fallback_time_zone))"

lemma zone_as_configured:
  "remembers_right accepts resolved \<Longrightarrow>
    fst (displayTimeZone accepts env resolved) = fst (displayTimeZone accepts env None) \<and>
    remembers_right accepts (snd (displayTimeZone accepts env resolved))"
  by (auto simp: remembers_right_def displayTimeZone_def Let_def split: option.splits)

lemma zone_usable: "accepts fallback_time_zone \<Longrightarrow> accepts (fst (displayTimeZone accepts env None))"
  by (auto simp: displayTimeZone_def usableTimeZone_def Let_def)

section \<open>The model's endpoint\<close>

text \<open>\<open>transformRequestBody\<close>: a request that does not ask to stream says that it does not.\<close>

definition compatible_body :: "jobject \<Rightarrow> jobject" where
  "compatible_body args = (if field args ''stream'' = Some (JBool True) then args
     else if field args ''stream'' = None then args @ [(js ''stream'', JBool False)]
     else map (\<lambda>(k, v). if k = js ''stream'' then (k, JBool False) else (k, v)) args)"

text \<open>An error by its own marks, \<^const>\<open>None\<close> for what is no object.\<close>

definition isMarkedError :: "(jstr \<Rightarrow> bool) option \<Rightarrow> jstr \<Rightarrow> bool" where
  "isMarkedError marks m \<longleftrightarrow> (case marks of None \<Rightarrow> False | Some marked \<Rightarrow> marked m)"

definition isProviderProtocolFailure :: "(jstr \<Rightarrow> bool) option \<Rightarrow> bool" where
  "isProviderProtocolFailure marks \<longleftrightarrow> isMarkedError marks (js ''vercel.ai.error.AI_TypeValidationError'')"

lemma stream_said: "\<exists>b. field (compatible_body args) ''stream'' = Some (JBool b)"
proof -
  have "map_of (map (\<lambda>(k, v). if k = js ''stream'' then (k, JBool False) else (k, v)) args) (js ''stream'') =
      (if map_of args (js ''stream'') = None then None else Some (JBool False))"
    by (induction args) auto
  moreover have "map_of args (js ''stream'') = None \<Longrightarrow> map_of (args @ [(js ''stream'', JBool False)]) (js ''stream'') = Some (JBool False)"
    by (simp add: map_add_def)
  ultimately show ?thesis by (auto simp: compatible_body_def field_def)
qed

lemma streaming_kept: "field args ''stream'' = Some (JBool True) \<Longrightarrow> compatible_body args = args"
  by (simp add: compatible_body_def)

end
